(* ===== verification/Prelude.thy ===== *)
theory Prelude
  imports Main "HOL-Library.AList" "HOL-Library.Char_ord" "HOL-Library.List_Lexorder"
    "HOL-Library.Product_Lexorder" "HOL-Library.Multiset"
begin

text \<open>
  Shared vocabulary of the development: results of fallible Python code, Python dictionaries as
  insertion-ordered association lists, the string operations of \<open>str\<close> the sources use, and the
  generic lemmas the components share. Nothing here models a file under src/; it models the parts
  of the language and its standard library that the sources call.

  Conventions. A Python exception is a value of a sum type (\<open>Inl\<close> the exception); its text is kept
  only as far as it is a constant. A \<open>dict\<close> is an association list in insertion order, written
  with \<^const>\<open>AList.update\<close> (an existing key keeps its place, a new one goes to the end) and read with
  \<^const>\<open>map_of\<close>. A \<open>str\<close> is a list of code points below 256 (\<^typ>\<open>char\<close>); tuples and strings compare
  lexicographically, as the imported order instances do.
\<close>

named_theorems dict_simps \<open>reading a dictionary after a write\<close>
named_theorems wf_intros \<open>preservation of the components' invariants\<close>

subsection \<open>Exceptions as values\<close>

datatype py_error =
    ValueError string
  | IndexError
  | KeyError
  | OverflowError

definition bindR :: "'e + 'a \<Rightarrow> ('a \<Rightarrow> 'e + 'b) \<Rightarrow> 'e + 'b" where
  "bindR m f = (case m of Inl e \<Rightarrow> Inl e | Inr x \<Rightarrow> f x)"

lemma bindR_simps [simp]: "bindR (Inl e) f = Inl e" "bindR (Inr x) f = f x"
  by (simp_all add: bindR_def)

lemma bindR_eq_Inr [simp]: "bindR m f = Inr y \<longleftrightarrow> (\<exists>x. m = Inr x \<and> f x = Inr y)"
  by (cases m) auto

fun mapR :: "('a \<Rightarrow> 'e + 'b) \<Rightarrow> 'a list \<Rightarrow> 'e + 'b list" where
  "mapR f [] = Inr []"
| "mapR f (x # xs) = bindR (f x) (\<lambda>y. bindR (mapR f xs) (\<lambda>ys. Inr (y # ys)))"

lemma mapR_Inr_iff: "mapR f xs = Inr ys \<longleftrightarrow> list_all2 (\<lambda>x y. f x = Inr y) xs ys"
  by (induction xs arbitrary: ys) (auto simp: list_all2_Cons1)

lemma mapR_mem: "mapR f xs = Inr ys \<Longrightarrow> x \<in> set xs \<Longrightarrow> \<exists>y \<in> set ys. f x = Inr y"
  by (induction xs arbitrary: ys) auto

lemma mapR_length: "mapR f xs = Inr ys \<Longrightarrow> length ys = length xs"
  by (auto simp: mapR_Inr_iff dest: list_all2_lengthD)

subsection \<open>Dictionaries\<close>

type_synonym ('k, 'v) dict = "('k \<times> 'v) list"

abbreviation dget :: "('k, 'v) dict \<Rightarrow> 'k \<Rightarrow> 'v option" where
  "dget d k \<equiv> map_of d k"

abbreviation dset :: "'k \<Rightarrow> 'v \<Rightarrow> ('k, 'v) dict \<Rightarrow> ('k, 'v) dict" where
  "dset k v d \<equiv> AList.update k v d"

abbreviation dkeys :: "('k, 'v) dict \<Rightarrow> 'k list" where
  "dkeys d \<equiv> map fst d"

abbreviation dvalues :: "('k, 'v) dict \<Rightarrow> 'v list" where
  "dvalues d \<equiv> map snd d"

definition dsetdefault :: "'k \<Rightarrow> 'v \<Rightarrow> ('k, 'v) dict \<Rightarrow> ('k, 'v) dict" where
  "dsetdefault k v d = (case dget d k of None \<Rightarrow> dset k v d | Some _ \<Rightarrow> d)"

declare map_of_eq_Some_iff [simp del] Some_eq_map_of_iff [simp del]

lemma dget_dset [simp, dict_simps]: "dget (dset k v d) k' = (if k' = k then Some v else dget d k')"
  by (simp add: update_conv')

lemma dget_dsetdefault [simp, dict_simps]:
  "dget (dsetdefault k v d) k' =
     (if k' = k then Some (case dget d k of None \<Rightarrow> v | Some w \<Rightarrow> w) else dget d k')"
  by (auto simp: dsetdefault_def split: option.split)

lemma distinct_dset [simp]: "distinct (dkeys d) \<Longrightarrow> distinct (dkeys (dset k v d))"
  by (rule distinct_update)

lemma distinct_dsetdefault [simp]: "distinct (dkeys d) \<Longrightarrow> distinct (dkeys (dsetdefault k v d))"
  by (simp add: dsetdefault_def split: option.split)

lemma dget_SomeD: "dget d k = Some v \<Longrightarrow> (k, v) \<in> set d"
  by (rule map_of_SomeD)

lemma dset_append: "dget d k = None \<Longrightarrow> dset k v d = d @ [(k, v)]"
  by (induction d) (auto split: if_splits)

lemma dset_same: "dget d k = Some v \<Longrightarrow> dset k v d = d"
  by (induction d) (auto split: if_splits)

lemma dkeys_dset_present: "dget d k = Some w \<Longrightarrow> dkeys (dset k v d) = dkeys d"
  by (induction d) (auto split: if_splits)

lemma length_dset: "length (dset k v d) = (if dget d k = None then Suc (length d) else length d)"
  by (induction d) auto

lemma set_dset:
  assumes "distinct (dkeys d)"
  shows "set (dset k v d) = {p \<in> set d. fst p \<noteq> k} \<union> {(k, v)}"
  using assms by (induction d) (auto simp: rev_image_eqI)

lemma set_dset_subset: "set (dset k v d) \<subseteq> insert (k, v) (set d)"
  by (induction d) auto

lemma mem_dset_distinct:
  assumes "distinct (dkeys d)"
  shows "p \<in> set (dset k v d) \<longleftrightarrow> p = (k, v) \<or> p \<in> set d \<and> fst p \<noteq> k"
  using set_dset [OF assms, of k v] by auto

lemma dget_in_iff: "distinct (dkeys d) \<Longrightarrow> (k, v) \<in> set d \<longleftrightarrow> dget d k = Some v"
  by (auto dest: map_of_SomeD map_of_is_SomeI)

lemma dget_None_iff: "dget d k = None \<longleftrightarrow> k \<notin> set (dkeys d)"
  by (simp add: map_of_eq_None_iff)

lemma dvalues_iff: "distinct (dkeys d) \<Longrightarrow> v \<in> set (dvalues d) \<longleftrightarrow> (\<exists>k. dget d k = Some v)"
  by (force simp: dget_in_iff [symmetric])

lemma map_le_dset_new: "dget d k = None \<Longrightarrow> dget d \<subseteq>\<^sub>m dget (dset k v d)"
  by (auto simp: map_le_def)

lemma map_le_dset_same: "dget d k = Some v \<Longrightarrow> dget d \<subseteq>\<^sub>m dget (dset k v d)"
  by (auto simp: map_le_def)

lemma map_leD: "m \<subseteq>\<^sub>m m' \<Longrightarrow> m k = Some v \<Longrightarrow> m' k = Some v"
  by (force simp: map_le_def)

subsection \<open>Lists\<close>

definition last_opt :: "'a list \<Rightarrow> 'a option" where
  "last_opt xs = (if xs = [] then None else Some (last xs))"

lemma last_opt_simps [simp]: "last_opt [] = None" "last_opt (xs @ [x]) = Some x"
  by (simp_all add: last_opt_def)

lemma last_opt_eq_None [simp]: "last_opt xs = None \<longleftrightarrow> xs = []"
  by (simp add: last_opt_def)

lemma last_opt_SomeD: "last_opt xs = Some x \<Longrightarrow> xs \<noteq> [] \<and> x = last xs \<and> x \<in> set xs"
  by (auto simp: last_opt_def split: if_splits)

lemma sorted_last_max:
  assumes "sorted (map f xs)" and "x \<in> set xs"
  shows "f x \<le> f (last xs)"
  using assms by (induction xs rule: rev_induct) (auto simp: sorted_append)

lemma strict_sorted_last_max:
  assumes "sorted_wrt (<) (xs :: 'a::linorder list)" and "x \<in> set xs"
  shows "x \<le> last xs"
  using sorted_last_max [of "\<lambda>x. x" xs x] assms by (simp add: strict_sorted_imp_sorted)

lemma sorted_wrt_filter_upt: "sorted_wrt (<) (filter P [m..<n])"
  by (simp add: sorted_wrt_filter)

lemma next_find_SomeD: "find P xs = Some x \<Longrightarrow> x \<in> set xs \<and> P x"
  by (induction xs) (auto split: if_splits)

lemma find_None_iff_all: "find P xs = None \<longleftrightarrow> (\<forall>x \<in> set xs. \<not> P x)"
  by (induction xs) auto

end
