(* ===== verification/Pytext.thy ===== *)
theory Pytext
  imports Prelude
begin

text \<open>
  The operations of Python's \<open>str\<close> that the sources use, over code points below 256: character
  classes, \<open>strip\<close>, \<open>split\<close>, \<open>rsplit\<close>, \<open>int()\<close>, and the two regular-expression idioms that recur
  (an optional run of digits followed by a unit letter, and \<open>$\<close>, which also matches before one
  final newline). The interpreter's limit of 4300 digits on \<open>int()\<close> is not modelled.
\<close>

definition is_digit :: "char \<Rightarrow> bool" where
  "is_digit c \<longleftrightarrow> 48 \<le> (of_char c :: nat) \<and> (of_char c :: nat) \<le> 57"

lemma is_digit_code [code]: "is_digit c \<longleftrightarrow> c \<in> set ''0123456789''"
proof (cases c)
  case (Char b0 b1 b2 b3 b4 b5 b6 b7)
  then show ?thesis unfolding is_digit_def
    by (cases b0; cases b1; cases b2; cases b3; cases b4; cases b5; cases b6; cases b7) simp_all
qed

definition digit_val :: "char \<Rightarrow> nat" where
  "digit_val c = of_char c - 48"

text \<open>\<open>str.isspace\<close> on one code point below 256.\<close>
definition py_space :: "char \<Rightarrow> bool" where
  "py_space c \<longleftrightarrow> (let n = (of_char c :: nat) in
     9 \<le> n \<and> n \<le> 13 \<or> 28 \<le> n \<and> n \<le> 32 \<or> n = 133 \<or> n = 160)"

text \<open>\<open>str.isdigit()\<close>: beside the digits, the superscripts below code point 256.\<close>
definition py_isdigit :: "string \<Rightarrow> bool" where
  "py_isdigit s \<longleftrightarrow> s \<noteq> [] \<and> list_all (\<lambda>c. is_digit c \<or> (of_char c :: nat) \<in> {178, 179, 185}) s"

definition py_lower_char :: "char \<Rightarrow> char" where
  "py_lower_char c = (let n = (of_char c :: nat) in
     if 65 \<le> n \<and> n \<le> 90 \<or> 192 \<le> n \<and> n \<le> 222 \<and> n \<noteq> 215 then char_of (n + 32) else c)"

definition py_lower :: "string \<Rightarrow> string" where
  "py_lower s = map py_lower_char s"

definition lstrip :: "string \<Rightarrow> string" where
  "lstrip s = dropWhile py_space s"

definition strip :: "string \<Rightarrow> string" where
  "strip s = rev (dropWhile py_space (rev (dropWhile py_space s)))"

definition nat_of_digits :: "string \<Rightarrow> nat" where
  "nat_of_digits ds = foldl (\<lambda>acc c. acc * 10 + digit_val c) 0 ds"

text \<open>\<open>int(text)\<close> in base ten: surrounding white space, one sign, digits, single underscores
  between digits.\<close>
fun digits_start :: "nat \<Rightarrow> string \<Rightarrow> nat option"
  and digits_rest :: "nat \<Rightarrow> string \<Rightarrow> nat option" where
  "digits_start acc [] = None"
| "digits_start acc (c # cs) =
     (if is_digit c then digits_rest (acc * 10 + digit_val c) cs else None)"
| "digits_rest acc [] = Some acc"
| "digits_rest acc (c # cs) =
     (if is_digit c then digits_rest (acc * 10 + digit_val c) cs
      else if c = CHR ''_'' then digits_start acc cs else None)"

definition py_int :: "string \<Rightarrow> int option" where
  "py_int text = (case strip text of
       [] \<Rightarrow> None
     | c # cs \<Rightarrow>
         if c = CHR ''-'' then map_option (\<lambda>n. - int n) (digits_start 0 cs)
         else if c = CHR ''+'' then map_option int (digits_start 0 cs)
         else map_option int (digits_start 0 (c # cs)))"

text \<open>\<open>text.split(sep)\<close> for a one-character separator: never empty.\<close>
fun split_on :: "char \<Rightarrow> string \<Rightarrow> string list" where
  "split_on sep [] = [[]]"
| "split_on sep (c # cs) =
     (if c = sep then [] # split_on sep cs
      else case split_on sep cs of [] \<Rightarrow> [[c]] | p # ps \<Rightarrow> (c # p) # ps)"

text \<open>\<open>text.split(sep, 1)\<close> when the separator occurs: what precedes and what follows the first.\<close>
definition split_first :: "char \<Rightarrow> string \<Rightarrow> (string \<times> string) option" where
  "split_first sep s =
     (if sep \<in> set s then Some (takeWhile (\<lambda>c. c \<noteq> sep) s, tl (dropWhile (\<lambda>c. c \<noteq> sep) s))
      else None)"

text \<open>\<open>text.rsplit(sep, 1)\<close> when the separator occurs: what precedes and what follows the last.\<close>
definition split_last :: "char \<Rightarrow> string \<Rightarrow> (string \<times> string) option" where
  "split_last sep s =
     (if sep \<in> set s
      then Some (rev (tl (dropWhile (\<lambda>c. c \<noteq> sep) (rev s))), rev (takeWhile (\<lambda>c. c \<noteq> sep) (rev s)))
      else None)"

text \<open>\<open>text.split()\<close>: the maximal runs without white space.\<close>
fun words_acc :: "string \<Rightarrow> string \<Rightarrow> string list" where
  "words_acc acc [] = (if acc = [] then [] else [rev acc])"
| "words_acc acc (c # cs) =
     (if py_space c then (if acc = [] then words_acc [] cs else rev acc # words_acc [] cs)
      else words_acc (c # acc) cs)"

definition split_ws :: "string \<Rightarrow> string list" where
  "split_ws s = words_acc [] s"

text \<open>\<open>(?:(\d+)U)?\<close> at the head of the text, for one unit letter \<open>U\<close>.\<close>
definition opt_unit :: "char \<Rightarrow> string \<Rightarrow> nat option \<times> string" where
  "opt_unit u s = (let ds = takeWhile is_digit s; rest = dropWhile is_digit s in
     if ds \<noteq> [] \<and> rest \<noteq> [] \<and> hd rest = u then (Some (nat_of_digits ds), tl rest) else (None, s))"

text \<open>\<open>$\<close> at this position: the end of the text, or one newline before it.\<close>
definition at_end :: "string \<Rightarrow> bool" where
  "at_end s \<longleftrightarrow> s = [] \<or> s = [CHR 0x0A]"

text \<open>\<open>(?:T(?:(\d+)H)?(?:(\d+)M)?)?\<close>: the time part of an ISO 8601 duration.\<close>
definition time_part :: "string \<Rightarrow> nat \<times> nat \<times> string" where
  "time_part s =
     (if s \<noteq> [] \<and> hd s = CHR ''T''
      then (let (h, s1) = opt_unit (CHR ''H'') (tl s); (m, s2) = opt_unit (CHR ''M'') s1
            in ((case h of None \<Rightarrow> 0 | Some n \<Rightarrow> n), (case m of None \<Rightarrow> 0 | Some n \<Rightarrow> n), s2))
      else (0, 0, s))"

definition or_zero :: "nat option \<Rightarrow> nat" where
  "or_zero o' = (case o' of None \<Rightarrow> 0 | Some n \<Rightarrow> n)"

lemma split_on_nonempty [simp]: "split_on sep s \<noteq> []"
  by (induction s) (auto split: list.splits)

lemma split_on_no_sep: "p \<in> set (split_on sep s) \<Longrightarrow> sep \<notin> set p"
  by (induction s arbitrary: p) (auto split: list.splits if_splits)

lemma split_on_chars: "c \<in> set s \<Longrightarrow> c = sep \<or> (\<exists>p \<in> set (split_on sep s). c \<in> set p)"
  by (induction sep s rule: split_on.induct) (auto split: list.splits if_splits)

lemma split_on_single: "sep \<notin> set s \<Longrightarrow> split_on sep s = [s]"
  by (induction s) auto

lemma split_on_append: "sep \<notin> set a \<Longrightarrow> split_on sep (a @ sep # b) = a # split_on sep b"
  by (induction a) auto

lemma split_last_append: "sep \<notin> set b \<Longrightarrow> split_last sep (a @ sep # b) = Some (a, b)"
proof -
  assume nb: "sep \<notin> set b"
  then have "takeWhile (\<lambda>c. c \<noteq> sep) (rev b @ sep # rev a) = rev b"
    and "dropWhile (\<lambda>c. c \<noteq> sep) (rev b @ sep # rev a) = sep # rev a"
    by (auto simp: takeWhile_append dropWhile_append)
  then show ?thesis by (simp add: split_last_def)
qed

lemma split_first_append: "sep \<notin> set a \<Longrightarrow> split_first sep (a @ sep # b) = Some (a, b)"
  by (auto simp: split_first_def takeWhile_append dropWhile_append)

lemma split_first_None [simp]: "split_first sep s = None \<longleftrightarrow> sep \<notin> set s"
  by (simp add: split_first_def)

lemma split_first_parts: "split_first c s = Some (a, b) \<Longrightarrow> s = a @ c # b \<and> c \<notin> set a"
proof -
  assume a: "split_first c s = Some (a, b)"
  then have "c \<in> set s" "a = takeWhile (\<lambda>x. x \<noteq> c) s" "b = tl (dropWhile (\<lambda>x. x \<noteq> c) s)"
    by (auto simp: split_first_def split: if_splits)
  moreover from this(1) have "dropWhile (\<lambda>x. x \<noteq> c) s = c # tl (dropWhile (\<lambda>x. x \<noteq> c) s)"
    by (induction s) auto
  ultimately show ?thesis using takeWhile_dropWhile_id [of "\<lambda>x. x \<noteq> c" s] set_takeWhileD by fastforce
qed

text \<open>\<open>bool(text)\<close> of an optional text\<close>
definition truthy :: "string option \<Rightarrow> bool" where
  "truthy x \<longleftrightarrow> x \<noteq> None \<and> x \<noteq> Some []"

end
