(* ===== verification/Pytime.thy ===== *)
theory Pytime
  imports Pytext
begin

text \<open>
  Python's \<open>datetime\<close> as the sources use it. An aware \<open>datetime\<close> is its UTC instant, a number of
  microseconds since 1970-01-01T00:00Z; a \<open>timedelta\<close> is a number of microseconds; a \<open>date\<close> is its
  proleptic Gregorian ordinal (\<open>date.toordinal()\<close>). A \<open>ZoneInfo\<close> is the table the tz database gives
  for it: the offset before the first transition and the transitions, each with the offset after
  it. The functions below follow \<open>zoneinfo\<close>: UTC to local yields the wall clock and the PEP 495
  \<open>fold\<close>, local to UTC reads them back. The calendar range 1..9999 is not checked, except where a
  source relies on the constructor's check.
\<close>

type_synonym instant = int
type_synonym timedelta = int
type_synonym date = int

text \<open>A \<open>datetime\<close> value that may lack a UTC offset: an aware one is its instant, a naive one its
  wall-clock reading.\<close>
datatype py_datetime = Aware instant | Naive int

definition usec_minute :: int where "usec_minute = 60000000"
definition usec_hour :: int where "usec_hour = 3600000000"
definition usec_day :: int where "usec_day = 86400000000"

lemmas usec_defs = usec_minute_def usec_hour_def usec_day_def

text \<open>The largest number of days a \<open>timedelta\<close> can hold.\<close>
definition max_timedelta_days :: int where "max_timedelta_days = 999999999"

text \<open>\<open>t.replace(second=0, microsecond=0)\<close> on a UTC datetime.\<close>
definition floor_minute :: "instant \<Rightarrow> instant" where
  "floor_minute t = t - t mod usec_minute"

lemma floor_minute_le: "floor_minute t \<le> t"
  by (simp add: floor_minute_def usec_minute_def)

lemma floor_minute_gt: "t < floor_minute t + usec_minute"
  using pos_mod_bound [of usec_minute t] by (simp add: floor_minute_def usec_minute_def)

lemma floor_minute_dvd: "usec_minute dvd floor_minute t"
  by (simp add: floor_minute_def dvd_minus_mod)

lemma floor_minute_id: "usec_minute dvd t \<Longrightarrow> floor_minute t = t"
  by (auto simp: floor_minute_def)

subsection \<open>Zones\<close>

record zoneinfo =
  zi_first :: int
  zi_trans :: "(instant \<times> int) list"

record local_time =
  wall :: int
  is_fold :: bool

fun scan_utc :: "int \<Rightarrow> bool \<Rightarrow> (instant \<times> int) list \<Rightarrow> instant \<Rightarrow> int \<times> bool" where
  "scan_utc off f [] t = (off, f)"
| "scan_utc off f ((u, off') # ts) t =
     (if u \<le> t then scan_utc off' (t - u < off - off') ts t else (off, f))"

text \<open>\<open>t.astimezone(zone)\<close>\<close>
definition to_local :: "zoneinfo \<Rightarrow> instant \<Rightarrow> local_time" where
  "to_local z t = (case scan_utc (zi_first z) False (zi_trans z) t of
     (off, f) \<Rightarrow> \<lparr>wall = t + off, is_fold = f\<rparr>)"

fun scan_wall :: "bool \<Rightarrow> int \<Rightarrow> (instant \<times> int) list \<Rightarrow> int \<Rightarrow> int" where
  "scan_wall f off [] w = off"
| "scan_wall f off ((u, off') # ts) w =
     (if u + (if f then min off off' else max off off') \<le> w then scan_wall f off' ts w else off)"

text \<open>\<open>local.astimezone(UTC)\<close>\<close>
definition from_local :: "zoneinfo \<Rightarrow> local_time \<Rightarrow> instant" where
  "from_local z l = wall l - scan_wall (is_fold l) (zi_first z) (zi_trans z) (wall l)"

text \<open>A zone table as the tz database ships them: transitions in order and far enough apart that
  two of them never touch the same wall-clock reading.\<close>
fun trans_ok :: "int \<Rightarrow> (instant \<times> int) list \<Rightarrow> bool" where
  "trans_ok off [] = True"
| "trans_ok off ((u, off') # ts) =
     ((case ts of [] \<Rightarrow> True
       | (u', off'') # _ \<Rightarrow> u + max off off' \<le> u' + min off' off'')
      \<and> trans_ok off' ts)"

definition zone_ok :: "zoneinfo \<Rightarrow> bool" where
  "zone_ok z \<longleftrightarrow> trans_ok (zi_first z) (zi_trans z)"

text \<open>Central European Time around 2026, as in the tz database: offset one hour, summer time from
  2026-03-29T01:00Z to 2026-10-25T01:00Z.\<close>
definition prague_2026 :: zoneinfo where
  "prague_2026 = \<lparr>zi_first = 3600000000,
     zi_trans = [(1774746000000000, 7200000000), (1792890000000000, 3600000000)]\<rparr>"

subsection \<open>Dates\<close>

definition epoch_ordinal :: int where "epoch_ordinal = 719163"

text \<open>\<open>datetime.combine(day, time(), tzinfo=zone).astimezone(UTC)\<close> (\<open>fold\<close> is 0)\<close>
definition midnight_utc :: "zoneinfo \<Rightarrow> date \<Rightarrow> instant" where
  "midnight_utc z d = from_local z \<lparr>wall = (d - epoch_ordinal) * usec_day, is_fold = False\<rparr>"

text \<open>\<open>local.date()\<close>\<close>
definition date_of :: "local_time \<Rightarrow> date" where
  "date_of l = wall l div usec_day + epoch_ordinal"

definition hour_of :: "local_time \<Rightarrow> int" where
  "hour_of l = wall l mod usec_day div usec_hour"

definition minute_of :: "local_time \<Rightarrow> int" where
  "minute_of l = wall l mod usec_hour div usec_minute"

definition is_leap :: "int \<Rightarrow> bool" where
  "is_leap y \<longleftrightarrow> y mod 4 = 0 \<and> (y mod 100 \<noteq> 0 \<or> y mod 400 = 0)"

definition days_before_year :: "int \<Rightarrow> int" where
  "days_before_year y = (let p = y - 1 in p * 365 + p div 4 - p div 100 + p div 400)"

definition days_in_month :: "int \<Rightarrow> int \<Rightarrow> int" where
  "days_in_month y m =
     (if m = 2 then (if is_leap y then 29 else 28)
      else if m = 4 \<or> m = 6 \<or> m = 9 \<or> m = 11 then 30 else 31)"

definition days_before_month :: "int \<Rightarrow> int \<Rightarrow> int" where
  "days_before_month y m = (\<Sum>k \<leftarrow> [1..m - 1]. days_in_month y k)"

definition ymd2ord :: "int \<Rightarrow> int \<Rightarrow> int \<Rightarrow> date" where
  "ymd2ord y m d = days_before_year y + days_before_month y m + d"

definition year_of_ord :: "date \<Rightarrow> int" where
  "year_of_ord n =
     (let n0 = n - 1; n400 = n0 div 146097; r400 = n0 mod 146097;
          n100 = r400 div 36524; r100 = r400 mod 36524;
          n4 = r100 div 1461; r4 = r100 mod 1461; n1 = r4 div 365;
          year = n400 * 400 + 1 + n100 * 100 + n4 * 4 + n1
      in if n1 = 4 \<or> n100 = 4 then year - 1 else year)"

text \<open>The month and day of the \<open>r\<close>-th day (from 0) of a year.\<close>
fun month_scan :: "int \<Rightarrow> int \<Rightarrow> int list \<Rightarrow> int \<times> int" where
  "month_scan y r [] = (12, r + 1)"
| "month_scan y r (m # ms) =
     (if r < days_in_month y m then (m, r + 1) else month_scan y (r - days_in_month y m) ms)"

definition ord2ymd :: "date \<Rightarrow> int \<times> int \<times> int" where
  "ord2ymd n = (let y = year_of_ord n; (m, d) = month_scan y (n - 1 - days_before_year y) [1..12]
     in (y, m, d))"

definition year_of :: "date \<Rightarrow> int" where "year_of n = fst (ord2ymd n)"
definition month_of :: "date \<Rightarrow> int" where "month_of n = fst (snd (ord2ymd n))"
definition day_of :: "date \<Rightarrow> int" where "day_of n = snd (snd (ord2ymd n))"

text \<open>\<open>local.isoweekday() % 7\<close>: Sunday is 0.\<close>
definition weekday7 :: "date \<Rightarrow> int" where
  "weekday7 n = n mod 7"

subsection \<open>Reading a wall clock back\<close>

lemma scan_wall_after:
  assumes "trans_ok off ((u, o1) # ts)" and "u \<le> t"
    and "scan_utc o1 (t - u < off - o1) ts t = (off', f)"
  shows "u + (if f then min off o1 else max off o1) \<le> t + off' \<and> scan_wall f o1 ts (t + off') = off'"
  using assms
proof (induction ts arbitrary: off u o1)
  case Nil
  then show ?case by auto
next
  case (Cons tr ts)
  obtain u' o2 where tr: "tr = (u', o2)" by (cases tr)
  from Cons.prems(1) tr have gap: "u + max off o1 \<le> u' + min o1 o2"
    and ok: "trans_ok o1 ((u', o2) # ts)" by auto
  show ?case
  proof (cases "u' \<le> t")
    case True
    with Cons.prems(3) tr have "scan_utc o2 (t - u' < o1 - o2) ts t = (off', f)" by simp
    from Cons.IH [OF ok True this] gap tr show ?thesis by (auto split: if_splits)
  next
    case False
    with Cons.prems(3) tr have "off' = o1" "f = (t - u < off - o1)" by auto
    with False gap tr Cons.prems(2) show ?thesis by (auto split: if_splits)
  qed
qed

text \<open>Reading an instant's own wall clock back gives the instant, on both sides of every
  transition: the \<open>fold\<close> flag tells the repeated autumn hour's two readings apart.\<close>
theorem from_local_to_local:
  assumes "zone_ok z"
  shows "from_local z (to_local z t) = t"
proof (cases "zi_trans z")
  case Nil
  then show ?thesis by (simp add: from_local_def to_local_def)
next
  case (Cons tr ts)
  obtain u o1 where tr: "tr = (u, o1)" by (cases tr)
  obtain off' f where sc: "scan_utc (zi_first z) False (zi_trans z) t = (off', f)"
    by (cases "scan_utc (zi_first z) False (zi_trans z) t")
  have "scan_wall f (zi_first z) (zi_trans z) (t + off') = off'"
  proof (cases "u \<le> t")
    case True
    with sc Cons tr have "scan_utc o1 (t - u < zi_first z - o1) ts t = (off', f)" by simp
    moreover have "trans_ok (zi_first z) ((u, o1) # ts)"
      using assms Cons tr by (simp add: zone_ok_def)
    ultimately show ?thesis using scan_wall_after True Cons tr by force
  next
    case False
    with sc Cons tr show ?thesis by auto
  qed
  then show ?thesis by (simp add: from_local_def to_local_def sc)
qed

lemma zone_ok_prague: "zone_ok prague_2026"
  by (simp add: zone_ok_def prague_2026_def)

end
