(* ===== verification/Intervals.thy ===== *)
theory Intervals
  imports Pytime
begin

text \<open>
  Delivery intervals (src/energy_platform/contracts/intervals.py): ISO 8601 durations, the
  half-open UTC interval, the intervals of a civil day and the two ways a source names one (a
  1-based period index, or a timestamp that labels an edge). The zone argument is the table the
  zone name resolves to. Main results: the intervals of a day tile it exactly, the count follows
  from the zone's calendar (92, 96 or 100 quarter-hours), and the period index is a bijection.
\<close>

datatype interval_label = Label_start | Label_end

record delivery_interval =
  di_start :: instant
  di_end :: instant

definition parse_duration :: "string \<Rightarrow> py_error + timedelta" where
  "parse_duration text = (case text of
       [] \<Rightarrow> Inl (ValueError ''unsupported ISO 8601 duration'')
     | c # s \<Rightarrow>
       (let (days, s1) = opt_unit (CHR ''D'') s; (hours, minutes, s2) = time_part s1;
            td = int (or_zero days) * usec_day + int hours * usec_hour + int minutes * usec_minute
        in if c \<noteq> CHR ''P'' \<or> \<not> at_end s2 \<or> text = ''P'' \<or> text = ''PT''
           then Inl (ValueError ''unsupported ISO 8601 duration'')
           else if td div usec_day > max_timedelta_days then Inl OverflowError
           else if td \<le> 0 then Inl (ValueError ''duration must be positive'')
           else Inr td))"

definition require_aware :: "py_datetime \<Rightarrow> py_error + instant" where
  "require_aware value = (case value of
       Naive _ \<Rightarrow> Inl (ValueError ''must be timezone-aware'')
     | Aware t \<Rightarrow> Inr t)"

definition mk_interval :: "py_datetime \<Rightarrow> py_datetime \<Rightarrow> py_error + delivery_interval" where
  "mk_interval start end =
     bindR (require_aware start) (\<lambda>s. bindR (require_aware end) (\<lambda>e.
       if \<not> s < e then Inl (ValueError ''delivery interval needs start < end'')
       else Inr \<lparr>di_start = s, di_end = e\<rparr>))"

definition duration :: "delivery_interval \<Rightarrow> timedelta" where
  "duration iv = di_end iv - di_start iv"

definition local_midnight :: "date \<Rightarrow> zoneinfo \<Rightarrow> instant" where
  "local_midnight day tz = midnight_utc tz day"

definition local_day_intervals :: "date \<Rightarrow> string \<Rightarrow> zoneinfo \<Rightarrow> py_error + delivery_interval list"
  where
  "local_day_intervals local_date resolution tz =
     bindR (parse_duration resolution) (\<lambda>step.
       let start = local_midnight local_date tz;
           end = local_midnight (local_date + 1) tz;
           span = end - start
       in if span mod step \<noteq> 0 then Inl (ValueError ''does not tile the local day'')
          else mapR (\<lambda>i. mk_interval (Aware (start + int i * step))
                                     (Aware (start + (int i + 1) * step)))
                 [0..<nat (span div step)])"

definition interval_for_index ::
    "date \<Rightarrow> int \<Rightarrow> string \<Rightarrow> zoneinfo \<Rightarrow> py_error + delivery_interval" where
  "interval_for_index local_date period_index resolution tz =
     bindR (local_day_intervals local_date resolution tz) (\<lambda>intervals.
       if \<not> (1 \<le> period_index \<and> period_index \<le> int (length intervals)) then Inl IndexError
       else Inr (intervals ! nat (period_index - 1)))"

definition interval_from_timestamp ::
    "py_datetime \<Rightarrow> string \<Rightarrow> interval_label \<Rightarrow> py_error + delivery_interval" where
  "interval_from_timestamp ts resolution label =
     bindR (require_aware ts) (\<lambda>instant. bindR (parse_duration resolution) (\<lambda>step.
       case label of
         Label_start \<Rightarrow> mk_interval (Aware instant) (Aware (instant + step))
       | Label_end \<Rightarrow> mk_interval (Aware (instant - step)) (Aware instant)))"

subsection \<open>Helper lemmas\<close>

lemma parse_duration_positive: "parse_duration text = Inr td \<Longrightarrow> 0 < td"
  by (auto simp: parse_duration_def Let_def split: list.splits prod.splits if_splits)

lemma mk_interval_Aware [simp]:
  "mk_interval (Aware s) (Aware e) =
     (if s < e then Inr \<lparr>di_start = s, di_end = e\<rparr>
      else Inl (ValueError ''delivery interval needs start < end''))"
  by (simp add: mk_interval_def require_aware_def)

lemma mk_interval_ordered: "mk_interval s e = Inr iv \<Longrightarrow> di_start iv < di_end iv"
  by (auto simp: mk_interval_def split: if_splits)

lemma mapR_total: "(\<And>x. x \<in> set xs \<Longrightarrow> f x = Inr (g x)) \<Longrightarrow> mapR f xs = Inr (map g xs)"
  by (induction xs) auto

abbreviation day_span :: "date \<Rightarrow> zoneinfo \<Rightarrow> timedelta" where
  "day_span d tz \<equiv> local_midnight (d + 1) tz - local_midnight d tz"

definition nth_interval :: "instant \<Rightarrow> timedelta \<Rightarrow> nat \<Rightarrow> delivery_interval" where
  "nth_interval start step i =
     \<lparr>di_start = start + int i * step, di_end = start + (int i + 1) * step\<rparr>"

lemma nth_interval_sel [simp]:
  "di_start (nth_interval start step i) = start + int i * step"
  "di_end (nth_interval start step i) = start + (int i + 1) * step"
  by (simp_all add: nth_interval_def)

lemma local_day_intervals_eq:
  assumes "parse_duration resolution = Inr step"
  shows "local_day_intervals d resolution tz =
    (if day_span d tz mod step \<noteq> 0 then Inl (ValueError ''does not tile the local day'')
     else Inr (map (nth_interval (local_midnight d tz) step) [0..<nat (day_span d tz div step)]))"
proof -
  from assms have "0 < step" by (rule parse_duration_positive)
  then have "mapR (\<lambda>i. mk_interval (Aware (s + int i * step)) (Aware (s + (int i + 1) * step))) xs
      = Inr (map (nth_interval s step) xs)" for s xs
    by (intro mapR_total) (simp add: nth_interval_def algebra_simps)
  then show ?thesis
    by (simp add: local_day_intervals_def assms Let_def)
qed

lemma local_day_intervals_InrE:
  assumes "local_day_intervals d resolution tz = Inr ivs"
  obtains step where "parse_duration resolution = Inr step" and "0 < step"
    and "day_span d tz mod step = 0"
    and "ivs = map (nth_interval (local_midnight d tz) step) [0..<nat (day_span d tz div step)]"
proof -
  from assms obtain step where s: "parse_duration resolution = Inr step"
    by (auto simp: local_day_intervals_def)
  then show ?thesis
    using assms that [OF s parse_duration_positive [OF s]]
    by (simp add: local_day_intervals_eq [OF s] split: if_splits)
qed

lemma quot_bounds:
  fixes step :: int
  assumes "0 < step" and "start \<le> t" and "t < start + span" and "span mod step = 0"
  shows "nat ((t - start) div step) < nat (span div step)"
    and "start + int (nat ((t - start) div step)) * step \<le> t"
    and "t < start + (int (nat ((t - start) div step)) + 1) * step"
proof -
  let ?q = "(t - start) div step"
  have q0: "int (nat ?q) = ?q" using assms by (simp add: pos_imp_zdiv_nonneg_iff)
  have decomp: "t - start = ?q * step + (t - start) mod step" by simp
  have m: "0 \<le> (t - start) mod step" "(t - start) mod step < step" using assms(1) by simp_all
  show "start + int (nat ?q) * step \<le> t" unfolding q0 using decomp m by linarith
  show "t < start + (int (nat ?q) + 1) * step"
    unfolding q0 distrib_right using decomp m by linarith
  have "span = (span div step) * step" using assms(4) by (metis add_0_right div_mult_mod_eq)
  moreover have "?q * step < span" using decomp m assms(3) by linarith
  ultimately have "?q * step < (span div step) * step" by simp
  then have "?q < span div step" using assms(1) by simp
  moreover have "0 \<le> ?q" using assms by (simp add: pos_imp_zdiv_nonneg_iff)
  ultimately show "nat ?q < nat (span div step)" by simp
qed

lemma nth_interval_unique:
  fixes step :: int
  assumes "0 < step"
    and "start + int i * step \<le> t" "t < start + (int i + 1) * step"
    and "start + int j * step \<le> t" "t < start + (int j + 1) * step"
  shows "i = j"
proof -
  have "int i * step < (int j + 1) * step" "int j * step < (int i + 1) * step"
    using assms by linarith+
  then have "int i < int j + 1" "int j < int i + 1" using assms(1) by simp_all
  then show ?thesis by simp
qed

text \<open>The list of intervals that \<open>local_day_intervals\<close> returns, studied on its own: \<open>n\<close> intervals of
  length \<open>step\<close> from \<open>m\<close>.\<close>
definition tiling :: "instant \<Rightarrow> timedelta \<Rightarrow> timedelta \<Rightarrow> delivery_interval list" where
  "tiling m step span = map (nth_interval m step) [0..<nat (span div step)]"

lemma tiling_nth:
  "i < length (tiling m step span) \<Longrightarrow> tiling m step span ! i = nth_interval m step i"
  by (simp add: tiling_def)

lemma length_tiling:
  assumes "0 < step" and "span mod step = 0"
  shows "int (length (tiling m step span)) * step = max 0 span"
proof -
  have span: "span = (span div step) * step" using assms(2) by (metis add_0_right div_mult_mod_eq)
  show ?thesis
  proof (cases "0 \<le> span")
    case True
    then have "0 \<le> span div step" using assms(1) by (simp add: pos_imp_zdiv_nonneg_iff)
    with span True show ?thesis by (simp add: tiling_def)
  next
    case False
    then have "span div step < 0" using assms(1) by (intro div_neg_pos_less0) auto
    with False show ?thesis by (simp add: tiling_def)
  qed
qed

lemma tiling_ends:
  assumes "0 < step" and "span mod step = 0" and "tiling m step span \<noteq> []"
  shows "di_start (hd (tiling m step span)) = m \<and> di_end (last (tiling m step span)) = m + span"
proof -
  let ?n = "nat (span div step)"
  from assms(3) have n: "0 < ?n" by (auto simp: tiling_def)
  then have "last (tiling m step span) = nth_interval m step (?n - 1)"
    and "hd (tiling m step span) = nth_interval m step 0"
    by (simp_all add: tiling_def last_conv_nth hd_conv_nth)
  moreover have "int (?n - 1) + 1 = span div step" using n by simp
  moreover have "span = (span div step) * step"
    using assms(2) by (metis add_0_right div_mult_mod_eq)
  ultimately show ?thesis by simp
qed

lemma tiling_adjacent:
  assumes "Suc i < length (tiling m step span)"
  shows "di_end (tiling m step span ! i) = di_start (tiling m step span ! Suc i)"
  using assms by (simp add: tiling_def algebra_simps)

lemma tiling_cover:
  assumes "0 < step" and "span mod step = 0" and "m \<le> t" and "t < m + span"
  shows "\<exists>!i. i < length (tiling m step span)
    \<and> di_start (tiling m step span ! i) \<le> t \<and> t < di_end (tiling m step span ! i)"
proof (rule ex1I)
  note q = quot_bounds [OF assms(1,3,4,2)]
  let ?i = "nat ((t - m) div step)"
  show "?i < length (tiling m step span)
      \<and> di_start (tiling m step span ! ?i) \<le> t \<and> t < di_end (tiling m step span ! ?i)"
    using q by (simp add: tiling_def)
  show "j = ?i"
    if "j < length (tiling m step span)
      \<and> di_start (tiling m step span ! j) \<le> t \<and> t < di_end (tiling m step span ! j)" for j
    using that by (intro nth_interval_unique [OF assms(1) _ _ q(2,3)]) (auto simp: tiling_nth)
qed

lemma tiling_duration: "iv \<in> set (tiling m step span) \<Longrightarrow> duration iv = step"
  by (auto simp: tiling_def duration_def algebra_simps)

lemma local_day_intervals_tiling:
  "local_day_intervals d resolution tz = Inr ivs \<longleftrightarrow>
     (\<exists>step. parse_duration resolution = Inr step \<and> 0 < step \<and> day_span d tz mod step = 0
        \<and> ivs = tiling (local_midnight d tz) step (day_span d tz))"
  (is "?lhs \<longleftrightarrow> ?rhs")
proof
  assume ?lhs
  then show ?rhs by (rule local_day_intervals_InrE) (auto simp: tiling_def)
next
  assume ?rhs
  then show ?lhs by (auto simp: local_day_intervals_eq tiling_def)
qed

subsection \<open>Properties\<close>

text \<open>C8. The intervals of a civil day tile it: they are as long as the declared resolution, the
  first starts at local midnight, each ends where the next starts, the last ends at the next local
  midnight, and every instant of the day lies in exactly one of them, whatever the zone's
  transitions do inside the day.\<close>
theorem local_day_intervals_tile:
  assumes "local_day_intervals d resolution tz = Inr ivs"
  shows "\<exists>step. parse_duration resolution = Inr step \<and> (\<forall>iv \<in> set ivs. duration iv = step)
      \<and> int (length ivs) * step = max 0 (day_span d tz)
      \<and> (\<forall>i. Suc i < length ivs \<longrightarrow> di_end (ivs ! i) = di_start (ivs ! Suc i))
      \<and> (ivs \<noteq> [] \<longrightarrow> di_start (hd ivs) = local_midnight d tz
           \<and> di_end (last ivs) = local_midnight (d + 1) tz)
      \<and> (\<forall>t. local_midnight d tz \<le> t \<and> t < local_midnight (d + 1) tz \<longrightarrow>
           (\<exists>!i. i < length ivs \<and> di_start (ivs ! i) \<le> t \<and> t < di_end (ivs ! i)))"
proof -
  let ?m = "local_midnight d tz" and ?span = "day_span d tz"
  obtain step where s: "parse_duration resolution = Inr step" "0 < step" "?span mod step = 0"
    and ivs: "ivs = tiling ?m step ?span"
    using assms by (auto simp: local_day_intervals_tiling)
  have "\<exists>!i. i < length ivs \<and> di_start (ivs ! i) \<le> t \<and> t < di_end (ivs ! i)"
    if "?m \<le> t" "t < local_midnight (d + 1) tz" for t
    unfolding ivs using that by (intro tiling_cover [OF s(2,3)]) auto
  moreover have "ivs \<noteq> [] \<longrightarrow> di_start (hd ivs) = ?m \<and> di_end (last ivs) = local_midnight (d + 1) tz"
    unfolding ivs using tiling_ends [OF s(2,3), of ?m] by simp
  moreover have "\<forall>i. Suc i < length ivs \<longrightarrow> di_end (ivs ! i) = di_start (ivs ! Suc i)"
    unfolding ivs using tiling_adjacent by blast
  moreover have "int (length ivs) * step = max 0 ?span"
    unfolding ivs by (rule length_tiling [OF s(2,3)])
  moreover have "\<forall>iv \<in> set ivs. duration iv = step"
    unfolding ivs by (auto intro: tiling_duration)
  ultimately show ?thesis using s(1) by blast
qed

text \<open>The spring transition day of 2026 in Central European Time.\<close>
lemma prague_spring_day:
  "local_day_intervals 739704 ''PT15M'' prague_2026 =
     Inr (tiling 1774738800000000 900000000 82800000000)"
proof -
  have "parse_duration ''PT15M'' = Inr 900000000" by code_simp
  moreover have "local_midnight 739704 prague_2026 = 1774738800000000"
    and "local_midnight (739704 + 1) prague_2026 = 1774821600000000" by code_simp+
  ultimately show ?thesis by (simp add: local_day_intervals_tiling)
qed

theorem local_day_intervals_tile_witness:
  "\<exists>step. parse_duration ''PT15M'' = Inr step
      \<and> (\<forall>iv \<in> set (tiling 1774738800000000 900000000 82800000000). duration iv = step)"
  using local_day_intervals_tile [OF prague_spring_day] by blast

lemma local_day_intervals_count:
  assumes "parse_duration resolution = Inr step" and "local_midnight d tz = m"
    and "local_midnight (d + 1) tz = m + int n * step"
  shows "map_sum (\<lambda>e. e) length (local_day_intervals d resolution tz) = Inr n"
  using parse_duration_positive [OF assms(1)] assms
  by (simp add: local_day_intervals_eq)

text \<open>The number of quarter-hours follows from the calendar: 92 on the spring transition day, 100
  on the autumn one, 96 on an ordinary day (Central European Time, 2026).\<close>
theorem dst_interval_counts:
  "map_sum (\<lambda>e. e) length (local_day_intervals (ymd2ord 2026 3 29) ''PT15M'' prague_2026) = Inr 92
   \<and> map_sum (\<lambda>e. e) length (local_day_intervals (ymd2ord 2026 10 25) ''PT15M'' prague_2026) = Inr 100
   \<and> map_sum (\<lambda>e. e) length (local_day_intervals (ymd2ord 2026 6 1) ''PT15M'' prague_2026) = Inr 96"
proof (intro conjI)
  have d: "parse_duration ''PT15M'' = Inr 900000000" by code_simp
  have days: "ymd2ord 2026 3 29 = 739704" "ymd2ord 2026 10 25 = 739914" "ymd2ord 2026 6 1 = 739768"
    by code_simp+
  have "local_midnight 739704 prague_2026 = 1774738800000000"
    and "local_midnight (739704 + 1) prague_2026 = 1774738800000000 + int 92 * 900000000"
    by code_simp+
  then show "map_sum (\<lambda>e. e) length (local_day_intervals (ymd2ord 2026 3 29) ''PT15M'' prague_2026)
      = Inr 92"
    unfolding days by (rule local_day_intervals_count [OF d])
  have "local_midnight 739914 prague_2026 = 1792879200000000"
    and "local_midnight (739914 + 1) prague_2026 = 1792879200000000 + int 100 * 900000000"
    by code_simp+
  then show "map_sum (\<lambda>e. e) length (local_day_intervals (ymd2ord 2026 10 25) ''PT15M'' prague_2026)
      = Inr 100"
    unfolding days by (rule local_day_intervals_count [OF d])
  have "local_midnight 739768 prague_2026 = 1780264800000000"
    and "local_midnight (739768 + 1) prague_2026 = 1780264800000000 + int 96 * 900000000"
    by code_simp+
  then show "map_sum (\<lambda>e. e) length (local_day_intervals (ymd2ord 2026 6 1) ''PT15M'' prague_2026)
      = Inr 96"
    unfolding days by (rule local_day_intervals_count [OF d])
qed

lemma interval_for_index_Inr:
  assumes "local_day_intervals d resolution tz = Inr ivs"
  shows "interval_for_index d k resolution tz = Inr iv \<longleftrightarrow>
    1 \<le> k \<and> k \<le> int (length ivs) \<and> iv = ivs ! nat (k - 1)"
  using assms by (auto simp: interval_for_index_def)

text \<open>C9. The 1-based period index is a bijection between 1..n and the intervals of the day: an index
  outside the range is an \<open>IndexError\<close> and nothing else, and every instant of the day lies in the
  interval of exactly one index (so the repeated autumn hour is never ambiguous).\<close>
theorem interval_for_index_bijective:
  assumes "local_day_intervals d resolution tz = Inr ivs"
  shows "(\<forall>k. interval_for_index d k resolution tz = Inl IndexError
            \<longleftrightarrow> \<not> (1 \<le> k \<and> k \<le> int (length ivs)))
       \<and> (\<forall>k e. interval_for_index d k resolution tz = Inl e \<longrightarrow> e = IndexError)
       \<and> (\<forall>t. local_midnight d tz \<le> t \<and> t < local_midnight (d + 1) tz \<longrightarrow>
            (\<exists>!k. \<exists>iv. interval_for_index d k resolution tz = Inr iv \<and> di_start iv \<le> t \<and> t < di_end iv))"
proof (intro conjI allI impI)
  fix k e
  show "interval_for_index d k resolution tz = Inl IndexError
      \<longleftrightarrow> \<not> (1 \<le> k \<and> k \<le> int (length ivs))"
    using assms by (simp add: interval_for_index_def)
  show "e = IndexError" if "interval_for_index d k resolution tz = Inl e"
    using that assms by (simp add: interval_for_index_def split: if_splits)
next
  fix t
  assume t: "local_midnight d tz \<le> t \<and> t < local_midnight (d + 1) tz"
  obtain step where s: "0 < step" "day_span d tz mod step = 0"
    and ivs: "ivs = tiling (local_midnight d tz) step (day_span d tz)"
    using assms by (auto simp: local_day_intervals_tiling)
  have "\<exists>!i. i < length ivs \<and> di_start (ivs ! i) \<le> t \<and> t < di_end (ivs ! i)"
    unfolding ivs using t by (intro tiling_cover [OF s]) auto
  then obtain i where i: "i < length ivs" "di_start (ivs ! i) \<le> t" "t < di_end (ivs ! i)"
    and uniq: "\<And>j. j < length ivs \<Longrightarrow> di_start (ivs ! j) \<le> t \<Longrightarrow> t < di_end (ivs ! j) \<Longrightarrow> j = i"
    by blast
  show "\<exists>!k. \<exists>iv. interval_for_index d k resolution tz = Inr iv \<and> di_start iv \<le> t \<and> t < di_end iv"
  proof (rule ex1I [of _ "int i + 1"])
    show "\<exists>iv. interval_for_index d (int i + 1) resolution tz = Inr iv
        \<and> di_start iv \<le> t \<and> t < di_end iv"
      using i by (simp add: interval_for_index_Inr [OF assms])
    show "k = int i + 1"
      if "\<exists>iv. interval_for_index d k resolution tz = Inr iv \<and> di_start iv \<le> t \<and> t < di_end iv" for k
      using that uniq [of "nat (k - 1)"] by (auto simp: interval_for_index_Inr [OF assms])
  qed
qed

theorem interval_for_index_bijective_witness:
  "interval_for_index 739704 93 ''PT15M'' prague_2026 = Inl IndexError"
  using interval_for_index_bijective [OF prague_spring_day] by (simp add: tiling_def)

end
