(* ===== verification/Registry.thy ===== *)
theory Registry
  imports Prelude
begin

text \<open>
  The dataset registry (src/energy_platform/contracts/registry.py): the typed contracts a target may
  reference, as data. The four registered contracts are written out, because ownership of a metric
  by a transport decides which Silver row is current and sign rules decide what is quarantined.
\<close>

datatype sign_rule = Negative_allowed | Non_negative | Non_negative_expected

datatype transport = Soap | Xlsx | Html | Rest

text \<open>\<open>get_args(Transport)\<close>, in the order of the literal type.\<close>
definition all_transports :: "transport list" where
  "all_transports = [Soap, Xlsx, Html, Rest]"

definition time_dimensions :: "string list" where
  "time_dimensions = [''delivery_start_utc'', ''resolution'']"

definition version_dimension :: string where
  "version_dimension = ''version''"

record metric_spec =
  ms_name :: string
  ms_unit :: string
  ms_currency :: "string option"
  ms_sign :: sign_rule
  ms_null_meaning :: string
  ms_owner_transport :: "transport option"

datatype partition = Partition_day | Partition_hour

record dataset_contract =
  dc_dataset_id :: string
  dc_source_id :: string
  dc_contract_version :: string
  dc_identity_key :: "string list"
  dc_fixed_dimensions :: "(string, string) dict"
  dc_metrics :: "(string, metric_spec) dict"
  dc_resolutions :: "string list"
  dc_allowed_dimension_values :: "(string, string list) dict"
  dc_partition :: partition

definition metric_of :: "dataset_contract \<Rightarrow> string \<Rightarrow> metric_spec option" where
  "metric_of c name = dget (dc_metrics c) name"

definition manifest_dimensions :: "dataset_contract \<Rightarrow> string list" where
  "manifest_dimensions c =
     filter (\<lambda>d. d \<notin> set time_dimensions \<and> d \<noteq> version_dimension) (dc_identity_key c)"

definition version_in_identity :: "dataset_contract \<Rightarrow> bool" where
  "version_in_identity c \<longleftrightarrow> version_dimension \<in> set (dc_identity_key c)"

definition mk_spec ::
    "string \<Rightarrow> string \<Rightarrow> string option \<Rightarrow> sign_rule \<Rightarrow> string \<Rightarrow> transport option \<Rightarrow> metric_spec" where
  "mk_spec name unit currency sign null_meaning owner =
     \<lparr>ms_name = name, ms_unit = unit, ms_currency = currency, ms_sign = sign,
      ms_null_meaning = null_meaning, ms_owner_transport = owner\<rparr>"

text \<open>\<open>_metrics\<close>: a dictionary keyed by name; a repeated name keeps its place and takes the later
  specification.\<close>
definition metrics_dict :: "metric_spec list \<Rightarrow> (string, metric_spec) dict" where
  "metrics_dict specs = foldl (\<lambda>d s. dset (ms_name s) s d) [] specs"

definition idm_price_null :: string where
  "idm_price_null = ''no trade in period, or not yet published''"

definition idm_volume_null :: string where
  "idm_volume_null = ''not yet published''"

definition ote_idm_continuous :: dataset_contract where
  "ote_idm_continuous =
     \<lparr>dc_dataset_id = ''ote.idm_continuous'', dc_source_id = ''ote'', dc_contract_version = ''1.0.0'',
      dc_identity_key = [''bidding_zone'', ''delivery_start_utc'', ''resolution''],
      dc_fixed_dimensions = [(''bidding_zone'', ''CZ'')],
      dc_metrics = metrics_dict
        [mk_spec ''price_vwap'' ''EUR/MWh'' (Some ''EUR'') Negative_allowed idm_price_null (Some Soap),
         mk_spec ''volume_total'' ''MWh'' None Non_negative idm_volume_null (Some Soap),
         mk_spec ''volume_buy'' ''MWh'' None Non_negative idm_volume_null (Some Xlsx),
         mk_spec ''volume_sell'' ''MWh'' None Non_negative idm_volume_null (Some Xlsx),
         mk_spec ''price_min'' ''EUR/MWh'' (Some ''EUR'') Negative_allowed idm_price_null (Some Xlsx),
         mk_spec ''price_max'' ''EUR/MWh'' (Some ''EUR'') Negative_allowed idm_price_null (Some Xlsx),
         mk_spec ''price_last'' ''EUR/MWh'' (Some ''EUR'') Negative_allowed idm_price_null (Some Xlsx)],
      dc_resolutions = [''PT15M'', ''PT60M''],
      dc_allowed_dimension_values = [],
      dc_partition = Partition_day\<rparr>"

definition ote_dam :: dataset_contract where
  "ote_dam =
     \<lparr>dc_dataset_id = ''ote.dam'', dc_source_id = ''ote'', dc_contract_version = ''1.0.0'',
      dc_identity_key = [''bidding_zone'', ''delivery_start_utc'', ''resolution''],
      dc_fixed_dimensions = [(''bidding_zone'', ''CZ'')],
      dc_metrics = metrics_dict
        [mk_spec ''price'' ''EUR/MWh'' (Some ''EUR'') Negative_allowed ''no result'' (Some Soap),
         mk_spec ''price_hourly'' ''EUR/MWh'' (Some ''EUR'') Negative_allowed ''no result'' (Some Soap),
         mk_spec ''volume_total'' ''MWh'' None Non_negative ''no result'' (Some Soap),
         mk_spec ''emergency_state'' ''1'' None Non_negative ''no result'' (Some Soap)],
      dc_resolutions = [''PT15M'', ''PT60M''],
      dc_allowed_dimension_values = [],
      dc_partition = Partition_day\<rparr>"

definition ceps_load :: dataset_contract where
  "ceps_load =
     \<lparr>dc_dataset_id = ''ceps.load'', dc_source_id = ''ceps'', dc_contract_version = ''1.0.0'',
      dc_identity_key =
        [''area'', ''delivery_start_utc'', ''resolution'', ''aggregation_function'', ''version''],
      dc_fixed_dimensions = [(''area'', ''CZ'')],
      dc_metrics = metrics_dict
        [mk_spec ''load_incl_pumping'' ''MW'' None Non_negative_expected ''missing sample'' (Some Soap),
         mk_spec ''load'' ''MW'' None Non_negative_expected ''missing sample'' (Some Soap)],
      dc_resolutions = [''PT15M''],
      dc_allowed_dimension_values = [(''aggregation_function'', [''AVG''])],
      dc_partition = Partition_hour\<rparr>"

definition imb_null :: string where
  "imb_null = ''not yet published for this settlement version''"

definition ote_imbalance_settlement :: dataset_contract where
  "ote_imbalance_settlement =
     \<lparr>dc_dataset_id = ''ote.imbalance_settlement'', dc_source_id = ''ote'',
      dc_contract_version = ''1.0.0'',
      dc_identity_key = [''bidding_zone'', ''delivery_start_utc'', ''resolution'', ''version''],
      dc_fixed_dimensions = [(''bidding_zone'', ''CZ'')],
      dc_metrics = metrics_dict
        [mk_spec ''system_imbalance'' ''MWh'' None Negative_allowed imb_null (Some Soap),
         mk_spec ''imbalance_price'' ''CZK/MWh'' (Some ''CZK'') Negative_allowed imb_null (Some Soap),
         mk_spec ''counter_imbalance_price'' ''CZK/MWh'' (Some ''CZK'') Negative_allowed imb_null
           (Some Soap)],
      dc_resolutions = [''PT15M'', ''PT60M''],
      dc_allowed_dimension_values = [],
      dc_partition = Partition_day\<rparr>"

definition DATASETS :: "(string, dataset_contract) dict" where
  "DATASETS = map (\<lambda>c. (dc_dataset_id c, c))
     [ote_idm_continuous, ote_dam, ceps_load, ote_imbalance_settlement]"

definition dataset :: "string \<Rightarrow> dataset_contract option" where
  "dataset dataset_id = dget DATASETS dataset_id"

subsection \<open>What the registry guarantees\<close>

lemma dataset_cases:
  assumes "dataset i = Some c"
  shows "c = ote_idm_continuous \<or> c = ote_dam \<or> c = ceps_load \<or> c = ote_imbalance_settlement"
  using assms by (auto simp: dataset_def DATASETS_def split: if_splits)

lemma dataset_id_of: "dataset i = Some c \<Longrightarrow> dc_dataset_id c = i"
  by (auto simp: dataset_def DATASETS_def split: if_splits)

text \<open>The well-formedness of one contract: every metric is filed under its own name and has an owner,
  every fixed or constrained dimension is one the manifest supplies, and a resolution is declared.\<close>
definition contract_ok :: "dataset_contract \<Rightarrow> bool" where
  "contract_ok c \<longleftrightarrow> dc_resolutions c \<noteq> [] \<and> dc_metrics c \<noteq> []
     \<and> distinct (dkeys (dc_metrics c))
     \<and> (\<forall>(n, s) \<in> set (dc_metrics c). ms_name s = n \<and> ms_owner_transport s \<noteq> None)
     \<and> (\<forall>k \<in> set (dkeys (dc_fixed_dimensions c)). k \<in> set (manifest_dimensions c))
     \<and> (\<forall>k \<in> set (dkeys (dc_allowed_dimension_values c)). k \<in> set (manifest_dimensions c))"

lemma registered_contracts_ok: "list_all (\<lambda>(i, c). dc_dataset_id c = i \<and> contract_ok c) DATASETS"
  by code_simp

lemma dataset_contract_ok: "dataset i = Some c \<Longrightarrow> contract_ok c"
  using registered_contracts_ok
  by (auto simp: list_all_iff dataset_def dest: map_of_SomeD)

end
