(* ===== verification/Decimals.thy ===== *)
theory Decimals
  imports Pytext
begin

text \<open>
  Decimal cells and the sign convention (src/energy_platform/contracts/decimals.py). A finite
  \<open>decimal.Decimal\<close> is its sign, coefficient and exponent; unary minus, subtraction and \<open>abs\<close> round to
  the default context (28 significant digits, half even), the constructor does not. Infinities and
  NaN, which only a binary workbook could carry, and the context's exponent limits are outside the
  model.
\<close>

datatype decimal = Dec (dneg: bool) (dcoeff: nat) (dexp: int)

text \<open>A decoded scalar (\<open>Cell\<close> of contracts/parser.py).\<close>
datatype cell = CText string | CDec decimal | CInt int | CBool bool | CNone

datatype separator = Dot | Comma
datatype sign = As_published | Inverted

subsection \<open>Decimal arithmetic under the default context\<close>

text \<open>The value as an integer multiple of \<open>10\<^sup>e\<close>, for \<open>e\<close> at most the exponent.\<close>
definition dscaled :: "int \<Rightarrow> decimal \<Rightarrow> int" where
  "dscaled e d = (if dneg d then -1 else 1) * int (dcoeff d) * 10 ^ nat (dexp d - e)"

definition dmin_exp :: "decimal \<Rightarrow> decimal \<Rightarrow> int" where
  "dmin_exp a b = min (dexp a) (dexp b)"

definition dec_eq :: "decimal \<Rightarrow> decimal \<Rightarrow> bool" where
  "dec_eq a b \<longleftrightarrow> dscaled (dmin_exp a b) a = dscaled (dmin_exp a b) b"

definition dec_less :: "decimal \<Rightarrow> decimal \<Rightarrow> bool" where
  "dec_less a b \<longleftrightarrow> dscaled (dmin_exp a b) a < dscaled (dmin_exp a b) b"

definition dec_is_zero :: "decimal \<Rightarrow> bool" where
  "dec_is_zero d \<longleftrightarrow> dcoeff d = 0"

text \<open>\<open>value < 0\<close>\<close>
definition dec_negative :: "decimal \<Rightarrow> bool" where
  "dec_negative d \<longleftrightarrow> dneg d \<and> dcoeff d \<noteq> 0"

fun ndigits :: "nat \<Rightarrow> nat" where
  "ndigits n = (if n < 10 then 1 else Suc (ndigits (n div 10)))"

declare ndigits.simps [simp del]

definition context_prec :: nat where "context_prec = 28"

text \<open>Rounding of a result to the context's precision.\<close>
definition dec_fix :: "decimal \<Rightarrow> decimal" where
  "dec_fix d =
     (let k = ndigits (dcoeff d) - context_prec in
      if k = 0 then d
      else (let q = dcoeff d div 10 ^ k; r = dcoeff d mod 10 ^ k;
                q' = (if 2 * r > 10 ^ k \<or> 2 * r = 10 ^ k \<and> odd q then Suc q else q)
            in if q' = 10 ^ context_prec then Dec (dneg d) (10 ^ (context_prec - 1)) (dexp d + int k + 1)
               else Dec (dneg d) q' (dexp d + int k)))"

definition dec_neg :: "decimal \<Rightarrow> decimal" where
  "dec_neg d = dec_fix (if dec_is_zero d then Dec False (dcoeff d) (dexp d)
                        else Dec (\<not> dneg d) (dcoeff d) (dexp d))"

definition dec_abs :: "decimal \<Rightarrow> decimal" where
  "dec_abs d = dec_fix (Dec False (dcoeff d) (dexp d))"

definition dec_sub :: "decimal \<Rightarrow> decimal \<Rightarrow> decimal" where
  "dec_sub a b = (let e = dmin_exp a b; n = dscaled e a - dscaled e b
     in dec_fix (Dec (n < 0) (nat \<bar>n\<bar>) e))"

subsection \<open>Parsing\<close>

text \<open>\<open>_PLAIN\<close> and the \<open>Decimal\<close> constructor on a text that matches it: \<open>[+-]?\<close>, then
  \<open>\d+(?:[.]\d+)?\<close>.\<close>
definition split_sign :: "string \<Rightarrow> bool \<times> string" where
  "split_sign text = (case text of
       [] \<Rightarrow> (False, [])
     | c # cs \<Rightarrow> if c = CHR ''-'' then (True, cs) else if c = CHR ''+'' then (False, cs) else (False, text))"

definition parse_unsigned :: "bool \<Rightarrow> string \<Rightarrow> decimal option" where
  "parse_unsigned neg body =
     (let ip = takeWhile is_digit body in
      if ip = [] then None
      else case dropWhile is_digit body of
          [] \<Rightarrow> Some (Dec neg (nat_of_digits ip) 0)
        | c # fp \<Rightarrow>
            if c = CHR ''.'' \<and> fp \<noteq> [] \<and> list_all is_digit fp
            then Some (Dec neg (nat_of_digits (ip @ fp)) (- int (length fp))) else None)"

definition parse_plain :: "string \<Rightarrow> decimal option" where
  "parse_plain text = (case split_sign text of (neg, body) \<Rightarrow> parse_unsigned neg body)"

text \<open>\<open>text.replace(",", ".", 1)\<close>\<close>
fun replace_first :: "char \<Rightarrow> char \<Rightarrow> string \<Rightarrow> string" where
  "replace_first a b [] = []"
| "replace_first a b (c # cs) = (if c = a then b # cs else c # replace_first a b cs)"

definition parse_decimal :: "cell \<Rightarrow> separator \<Rightarrow> py_error + decimal option" where
  "parse_decimal value sep = (case value of
       CNone \<Rightarrow> Inr None
     | CBool _ \<Rightarrow> Inl (ValueError ''not a decimal'')
     | CDec d \<Rightarrow> Inr (Some d)
     | CInt n \<Rightarrow> Inr (Some (Dec (n < 0) (nat \<bar>n\<bar>) 0))
     | CText s \<Rightarrow>
         (let text = strip s in
          if text = [] then Inr None
          else if sep = Comma \<and> CHR ''.'' \<in> set text
          then Inl (ValueError ''not a decimal under the comma rule'')
          else (case parse_plain (if sep = Comma then replace_first (CHR '','') (CHR ''.'') text else text) of
                  None \<Rightarrow> Inl (ValueError ''not a decimal under the declared rule'')
                | Some d \<Rightarrow> Inr (Some d))))"

definition apply_sign :: "decimal option \<Rightarrow> sign \<Rightarrow> decimal option" where
  "apply_sign value sg = (case value of
       None \<Rightarrow> None
     | Some v \<Rightarrow>
         if sg = As_published then Some v
         else (let negated = dec_neg v in
               Some (if \<not> dec_is_zero negated then negated else dec_abs negated)))"

subsection \<open>Helper lemmas\<close>

lemma ndigits_le: "ndigits n \<le> k \<longleftrightarrow> n < 10 ^ k" if "0 < k"
  using that
proof (induction n arbitrary: k rule: ndigits.induct)
  case (1 n)
  then obtain j where k: "k = Suc j" by (cases k) auto
  show ?case
  proof (cases "n < 10")
    case True
    then have "n < 10 ^ k" by (simp add: k less_le_trans [of n 10])
    with True k show ?thesis by (simp add: ndigits.simps [of n])
  next
    case False
    then have eq: "ndigits n = Suc (ndigits (n div 10))" by (simp add: ndigits.simps [of n])
    show ?thesis
    proof (cases "j = 0")
      case True
      with False eq k show ?thesis by (simp add: ndigits.simps [of "n div 10"])
    next
      case j: False
      with 1 False have "ndigits (n div 10) \<le> j \<longleftrightarrow> n div 10 < 10 ^ j" by simp
      also have "\<dots> \<longleftrightarrow> n < 10 ^ k" by (simp add: k div_less_iff_less_mult mult.commute)
      finally show ?thesis by (simp add: eq k)
    qed
  qed
qed

lemma dec_fix_id: "dcoeff d < 10 ^ context_prec \<Longrightarrow> dec_fix d = d"
  using ndigits_le [of context_prec "dcoeff d"] by (simp add: dec_fix_def Let_def context_prec_def)

lemma replace_first_notin: "a \<notin> set s \<Longrightarrow> replace_first a b s = s"
  by (induction s) auto

lemma replace_first_append: "a \<notin> set s \<Longrightarrow> replace_first a b (s @ a # r) = s @ b # r"
  by (induction s) auto

lemma replace_first_split:
  "a \<in> set s \<Longrightarrow> \<exists>p r. s = p @ a # r \<and> a \<notin> set p \<and> replace_first a b s = p @ b # r"
proof (induction s)
  case Nil
  then show ?case by simp
next
  case (Cons c s)
  show ?case
  proof (cases "c = a")
    case True
    then show ?thesis by (intro exI [of _ "[]"] exI [of _ s]) simp
  next
    case False
    with Cons obtain p r where "s = p @ a # r" "a \<notin> set p" "replace_first a b s = p @ b # r" by auto
    with False show ?thesis by (intro exI [of _ "c # p"] exI [of _ r]) simp
  qed
qed

lemma is_digit_chars [simp]:
  "\<not> is_digit (CHR ''.'')" "\<not> is_digit (CHR '','')" "\<not> is_digit (CHR ''-'')" "\<not> is_digit (CHR ''+'')"
  by code_simp+

lemma takeWhile_digits: "list_all P ds \<Longrightarrow> takeWhile P (ds @ rest) = ds @ takeWhile P rest"
  by (induction ds) auto

lemma dropWhile_digits: "list_all P ds \<Longrightarrow> dropWhile P (ds @ rest) = dropWhile P rest"
  by (induction ds) auto

text \<open>The grammar of a plain decimal with separator character \<open>c\<close>: an optional sign, digits, and
  optionally the separator and more digits. Its value is exact.\<close>
definition unsigned_form :: "char \<Rightarrow> bool \<Rightarrow> string \<Rightarrow> decimal \<Rightarrow> bool" where
  "unsigned_form c neg body d \<longleftrightarrow> (\<exists>ip fp. ip \<noteq> [] \<and> list_all is_digit ip \<and> list_all is_digit fp
     \<and> body = ip @ (if fp = [] then [] else c # fp)
     \<and> d = Dec neg (nat_of_digits (ip @ fp)) (- int (length fp)))"

definition plain_form :: "char \<Rightarrow> string \<Rightarrow> decimal \<Rightarrow> bool" where
  "plain_form c s d \<longleftrightarrow> unsigned_form c False s d
     \<or> (\<exists>body. s = CHR ''+'' # body \<and> unsigned_form c False body d)
     \<or> (\<exists>body. s = CHR ''-'' # body \<and> unsigned_form c True body d)"

lemma parse_unsigned_sound:
  assumes "parse_unsigned neg body = Some d"
  shows "unsigned_form (CHR ''.'') neg body d"
proof -
  define ip where "ip = takeWhile is_digit body"
  define rest where "rest = dropWhile is_digit body"
  have ip: "list_all is_digit ip" by (auto simp: ip_def list_all_iff dest: set_takeWhileD)
  have body: "body = ip @ rest" by (simp add: ip_def rest_def)
  from assms have ne: "ip \<noteq> []" by (auto simp: parse_unsigned_def ip_def)
  show ?thesis
  proof (cases rest)
    case Nil
    then have "d = Dec neg (nat_of_digits ip) 0"
      using assms ne unfolding parse_unsigned_def ip_def [symmetric] rest_def [symmetric] by simp
    with Nil ip body ne show ?thesis
      unfolding unsigned_form_def by (intro exI [of _ ip] exI [of _ "[]"]) simp
  next
    case (Cons c fp)
    then have "c = CHR ''.'' \<and> fp \<noteq> [] \<and> list_all is_digit fp
        \<and> d = Dec neg (nat_of_digits (ip @ fp)) (- int (length fp))"
      using assms ne unfolding parse_unsigned_def ip_def [symmetric] rest_def [symmetric]
      by (simp split: if_splits)
    with Cons ip body ne show ?thesis
      unfolding unsigned_form_def by (intro exI [of _ ip] exI [of _ fp]) simp
  qed
qed

lemma parse_unsigned_iff:
  "parse_unsigned neg body = Some d \<longleftrightarrow> unsigned_form (CHR ''.'') neg body d"
proof
  assume "unsigned_form (CHR ''.'') neg body d"
  then obtain ip fp where f: "ip \<noteq> []" "list_all is_digit ip" "list_all is_digit fp"
    "body = ip @ (if fp = [] then [] else CHR ''.'' # fp)"
    "d = Dec neg (nat_of_digits (ip @ fp)) (- int (length fp))"
    unfolding unsigned_form_def by blast
  have "takeWhile is_digit body = ip"
    and "dropWhile is_digit body = (if fp = [] then [] else CHR ''.'' # fp)"
    unfolding f(4) using f(2) by (simp_all add: takeWhile_digits dropWhile_digits)
  with f show "parse_unsigned neg body = Some d" by (simp add: parse_unsigned_def)
qed (rule parse_unsigned_sound)

lemma unsigned_form_head:
  "unsigned_form c neg body d \<Longrightarrow> body \<noteq> [] \<and> is_digit (hd body)"
  by (auto simp: unsigned_form_def list_all_iff)

lemma plain_form_Cons:
  "plain_form c (ch # cs) d \<longleftrightarrow> unsigned_form c False (ch # cs) d
     \<or> ch = CHR ''+'' \<and> unsigned_form c False cs d \<or> ch = CHR ''-'' \<and> unsigned_form c True cs d"
  by (auto simp: plain_form_def)

lemma plain_form_split:
  "plain_form c s d \<longleftrightarrow> (case split_sign s of (neg, body) \<Rightarrow> unsigned_form c neg body d)"
proof (cases s)
  case Nil
  then show ?thesis
    by (auto simp: split_sign_def plain_form_def dest: unsigned_form_head)
next
  case (Cons ch cs)
  have head: "unsigned_form c neg (ch # cs) d \<Longrightarrow> is_digit ch" for neg
    by (drule unsigned_form_head) simp
  show ?thesis
  proof (cases "is_digit ch")
    case True
    then have "ch \<noteq> CHR ''-''" "ch \<noteq> CHR ''+''" by (metis is_digit_chars)+
    then show ?thesis by (simp add: Cons split_sign_def plain_form_Cons)
  next
    case False
    with head have "\<not> unsigned_form c neg (ch # cs) d" for neg by blast
    then show ?thesis by (simp add: Cons split_sign_def plain_form_Cons)
  qed
qed

lemma parse_plain_iff: "parse_plain s = Some d \<longleftrightarrow> plain_form (CHR ''.'') s d"
  by (simp add: parse_plain_def plain_form_split parse_unsigned_iff split: prod.split)

text \<open>Two readings of one text around the same separator agree.\<close>
lemma separator_unique:
  "p @ c # r = ip @ c # fp \<Longrightarrow> c \<notin> set p \<Longrightarrow> c \<notin> set ip \<Longrightarrow> p = ip \<and> r = fp"
  by (induction p arbitrary: ip) (auto simp: Cons_eq_append_conv append_eq_Cons_conv)

lemma unsigned_form_replace:
  assumes "CHR ''.'' \<notin> set body"
  shows "unsigned_form (CHR ''.'') neg (replace_first (CHR '','') (CHR ''.'') body) d \<longleftrightarrow>
    unsigned_form (CHR '','') neg body d"
proof
  assume "unsigned_form (CHR '','') neg body d"
  then obtain ip fp where f: "ip \<noteq> []" "list_all is_digit ip" "list_all is_digit fp"
    "body = ip @ (if fp = [] then [] else CHR '','' # fp)"
    "d = Dec neg (nat_of_digits (ip @ fp)) (- int (length fp))"
    unfolding unsigned_form_def by blast
  have "CHR '','' \<notin> set ip" using f(2) is_digit_chars(2) unfolding list_all_iff by blast
  with f show "unsigned_form (CHR ''.'') neg (replace_first (CHR '','') (CHR ''.'') body) d"
    unfolding unsigned_form_def
    by (intro exI [of _ ip] exI [of _ fp]) (simp add: replace_first_append replace_first_notin)
next
  assume "unsigned_form (CHR ''.'') neg (replace_first (CHR '','') (CHR ''.'') body) d"
  then obtain ip fp where f: "ip \<noteq> []" "list_all is_digit ip" "list_all is_digit fp"
    "replace_first (CHR '','') (CHR ''.'') body = ip @ (if fp = [] then [] else CHR ''.'' # fp)"
    "d = Dec neg (nat_of_digits (ip @ fp)) (- int (length fp))"
    unfolding unsigned_form_def by blast
  have nodot: "CHR ''.'' \<notin> set ip" "CHR ''.'' \<notin> set fp"
    using f(2,3) is_digit_chars(1) unfolding list_all_iff by blast+
  have "body = ip @ (if fp = [] then [] else CHR '','' # fp)"
  proof (cases "CHR '','' \<in> set body")
    case True
    from replace_first_split [OF this, of "CHR ''.''"] obtain p r
      where pr: "body = p @ CHR '','' # r" "replace_first (CHR '','') (CHR ''.'') body = p @ CHR ''.'' # r"
      by blast
    have "fp \<noteq> []" using pr f(4) nodot(1) by (auto split: if_splits)
    then have "p @ CHR ''.'' # r = ip @ CHR ''.'' # fp" using pr f(4) by simp
    moreover have "CHR ''.'' \<notin> set p" using pr(1) assms by simp
    ultimately have "p = ip \<and> r = fp" using nodot(1) by (intro separator_unique)
    with pr \<open>fp \<noteq> []\<close> show ?thesis by simp
  next
    case False
    then have "body = ip @ (if fp = [] then [] else CHR ''.'' # fp)"
      using f(4) by (simp add: replace_first_notin)
    moreover from this have "fp = []" using assms by (auto split: if_splits)
    ultimately show ?thesis by simp
  qed
  with f show "unsigned_form (CHR '','') neg body d" unfolding unsigned_form_def by blast
qed

lemma split_sign_replace:
  "split_sign (replace_first (CHR '','') (CHR ''.'') s) =
     (case split_sign s of (neg, body) \<Rightarrow> (neg, replace_first (CHR '','') (CHR ''.'') body))"
  by (cases s) (simp_all add: split_sign_def)

lemma split_sign_set: "split_sign s = (neg, body) \<Longrightarrow> set body \<subseteq> set s"
  by (cases s) (auto simp: split_sign_def split: if_splits)

lemma plain_form_replace:
  assumes "CHR ''.'' \<notin> set s"
  shows "plain_form (CHR ''.'') (replace_first (CHR '','') (CHR ''.'') s) d \<longleftrightarrow>
    plain_form (CHR '','') s d"
proof -
  obtain neg body where sp: "split_sign s = (neg, body)" by (cases "split_sign s")
  with assms have "CHR ''.'' \<notin> set body" using split_sign_set by blast
  then show ?thesis
    by (simp add: plain_form_split split_sign_replace sp unsigned_form_replace)
qed

lemma plain_form_comma_no_dot:
  assumes "plain_form (CHR '','') s d"
  shows "CHR ''.'' \<notin> set s"
proof -
  obtain neg body where sp: "s = body \<or> s = CHR ''+'' # body \<or> s = CHR ''-'' # body"
    and u: "unsigned_form (CHR '','') neg body d"
    using assms unfolding plain_form_def by blast
  from u obtain ip fp where f: "list_all is_digit ip" "list_all is_digit fp"
    "body = ip @ (if fp = [] then [] else CHR '','' # fp)"
    unfolding unsigned_form_def by blast
  have "CHR ''.'' \<notin> set ip" "CHR ''.'' \<notin> set fp"
    using f(1,2) is_digit_chars(1) unfolding list_all_iff by blast+
  with f(3) have "CHR ''.'' \<notin> set body" by simp
  with sp show ?thesis by auto
qed

definition sep_char :: "separator \<Rightarrow> char" where
  "sep_char sep = (case sep of Dot \<Rightarrow> CHR ''.'' | Comma \<Rightarrow> CHR '','')"

subsection \<open>Properties\<close>

text \<open>Text parsing accepts exactly the plain decimals written with the declared separator, with
  their exact value: thousands separators, exponents, inner white space and the other separator are
  refused, and a blank cell is NULL, never zero.\<close>
theorem parse_decimal_exact:
  "(parse_decimal (CText s) sep = Inr (Some d) \<longleftrightarrow> plain_form (sep_char sep) (strip s) d)
   \<and> (parse_decimal (CText s) sep = Inr None \<longleftrightarrow> strip s = [])"
proof -
  have nonempty: "plain_form c [] d \<Longrightarrow> False" for c
    by (auto simp: plain_form_def dest: unsigned_form_head)
  have "parse_decimal (CText s) sep = Inr (Some d) \<longleftrightarrow> strip s \<noteq> []
      \<and> \<not> (sep = Comma \<and> CHR ''.'' \<in> set (strip s))
      \<and> parse_plain (if sep = Comma then replace_first (CHR '','') (CHR ''.'') (strip s) else strip s)
          = Some d"
    by (simp add: parse_decimal_def Let_def split: option.split)
  then have "parse_decimal (CText s) sep = Inr (Some d) \<longleftrightarrow> plain_form (sep_char sep) (strip s) d"
    using nonempty plain_form_comma_no_dot plain_form_replace
    by (cases sep) (simp_all add: sep_char_def parse_plain_iff, metis+)
  then show ?thesis
    by (simp add: parse_decimal_def Let_def split: option.split)
qed

text \<open>The inverted sign negates the value exactly (up to the context's 28 digits) and never yields
  a negative zero.\<close>
theorem apply_sign_inverted:
  assumes "dcoeff v < 10 ^ context_prec"
  shows "\<exists>w. apply_sign (Some v) Inverted = Some w \<and> dexp w = dexp v
    \<and> (\<forall>e. dscaled e w = - dscaled e v) \<and> \<not> (dneg w \<and> dec_is_zero w)"
  using assms
  by (auto simp: apply_sign_def dec_neg_def dec_abs_def dec_fix_id dec_is_zero_def dscaled_def Let_def)

theorem apply_sign_inverted_witness:
  "\<exists>w. apply_sign (Some (Dec False 9731 (- 2))) Inverted = Some w
    \<and> (\<forall>e. dscaled e w = - dscaled e (Dec False 9731 (- 2)))"
  using apply_sign_inverted [of "Dec False 9731 (- 2)"] by (auto simp: context_prec_def)

end
