(* ===== verification/Observation.thy ===== *)
theory Observation
  imports Intervals Registry Decimals
begin

text \<open>
  The canonical observation (src/energy_platform/contracts/observation.py): the bitemporal row, the
  validation it runs against the dataset registry when it is constructed, and the two identities the
  store keys on. SHA-256 behind \<open>derivation_id\<close> is not modelled here.
\<close>

datatype observation_kind = Kind_interval | Kind_point

record energy_observation =
  source_id :: string
  dataset_id :: string
  source_transport :: transport
  contract_version :: string
  derivation_id :: string
  raw_ref :: string
  payload_sha256 :: string
  fetched_at :: instant
  source_published_at :: "instant option"
  source_version :: "string option"
  processed_at :: instant
  delivery_interval :: delivery_interval
  resolution :: string
  local_date :: date
  period_index :: "int option"
  kind :: observation_kind
  dimensions :: "(string, string) dict"
  metric :: string
  obs_value :: "decimal option"
  obs_unit :: string
  sign_convention :: sign

definition delivery_start_utc :: "energy_observation \<Rightarrow> instant" where
  "delivery_start_utc o' = di_start (delivery_interval o')"

definition delivery_end_utc :: "energy_observation \<Rightarrow> instant" where
  "delivery_end_utc o' = di_end (delivery_interval o')"

subsection \<open>Construction\<close>

definition is_hex :: "char \<Rightarrow> bool" where
  "is_hex c \<longleftrightarrow> is_digit c \<or> 97 \<le> (of_char c :: nat) \<and> (of_char c :: nat) \<le> 102"

lemma is_hex_code [code]: "is_hex c \<longleftrightarrow> c \<in> set ''0123456789abcdef''"
proof (cases c)
  case (Char b0 b1 b2 b3 b4 b5 b6 b7)
  then show ?thesis unfolding is_hex_def is_digit_def
    by (cases b0; cases b1; cases b2; cases b3; cases b4; cases b5; cases b6; cases b7) simp_all
qed

definition hex_pattern :: "nat \<Rightarrow> string \<Rightarrow> bool" where
  "hex_pattern n s \<longleftrightarrow> length s = n \<and> list_all is_hex s"

definition semver_pattern :: "string \<Rightarrow> bool" where
  "semver_pattern s \<longleftrightarrow> (let parts = split_on (CHR ''.'') s in
     length parts = 3 \<and> list_all (\<lambda>p. p \<noteq> [] \<and> list_all is_digit p) parts)"

text \<open>The constraints pydantic checks field by field before the model validator runs.\<close>
definition fields_ok :: "energy_observation \<Rightarrow> bool" where
  "fields_ok o' \<longleftrightarrow> semver_pattern (contract_version o') \<and> hex_pattern 16 (derivation_id o')
     \<and> raw_ref o' \<noteq> [] \<and> hex_pattern 64 (payload_sha256 o')
     \<and> (case period_index o' of None \<Rightarrow> True | Some i \<Rightarrow> 1 \<le> i)"

definition check :: "bool \<Rightarrow> string \<Rightarrow> py_error + unit" where
  "check ok message = (if ok then Inr () else Inl (ValueError message))"

text \<open>\<open>for key, fixed in contract.fixed_dimensions.items()\<close>\<close>
fun check_fixed :: "(string, string) dict \<Rightarrow> (string, string) dict \<Rightarrow> py_error + unit" where
  "check_fixed dims [] = Inr ()"
| "check_fixed dims ((k, v) # rest) = (case dget dims k of
       None \<Rightarrow> Inl KeyError
     | Some x \<Rightarrow> if x \<noteq> v then Inl (ValueError ''dimension must be fixed'') else check_fixed dims rest)"

fun check_allowed :: "(string, string) dict \<Rightarrow> (string, string list) dict \<Rightarrow> py_error + unit" where
  "check_allowed dims [] = Inr ()"
| "check_allowed dims ((k, vs) # rest) = (case dget dims k of
       None \<Rightarrow> Inl KeyError
     | Some x \<Rightarrow> if x \<notin> set vs then Inl (ValueError ''dimension not allowed'') else check_allowed dims rest)"

definition against_registry :: "energy_observation \<Rightarrow> py_error + energy_observation" where
  "against_registry o' = (case dataset (dataset_id o') of
       None \<Rightarrow> Inl (ValueError ''dataset_id is not registered'')
     | Some contract \<Rightarrow>
       bindR (check (source_id o' = dc_source_id contract) ''source_id does not match registry'') (\<lambda>_.
       case metric_of contract (metric o') of
         None \<Rightarrow> Inl (ValueError ''metric is not registered'')
       | Some spec \<Rightarrow>
         bindR (check (obs_unit o' = ms_unit spec) ''unit must be the registry unit'') (\<lambda>_.
         bindR (check (sort (dkeys (dimensions o')) = sort (manifest_dimensions contract))
                      ''dimensions keys must be exactly the identity key'') (\<lambda>_.
         bindR (check_fixed (dimensions o') (dc_fixed_dimensions contract)) (\<lambda>_.
         bindR (check_allowed (dimensions o') (dc_allowed_dimension_values contract)) (\<lambda>_.
         bindR (check (\<not> (version_in_identity contract \<and> source_version o' = None))
                      ''source_version is required'') (\<lambda>_.
         bindR (check (resolution o' \<in> set (dc_resolutions contract)) ''resolution not declared'') (\<lambda>_.
         if kind o' = Kind_interval
         then bindR (parse_duration (resolution o')) (\<lambda>step.
              bindR (check (duration (delivery_interval o') = step)
                      ''delivery interval length does not match resolution'') (\<lambda>_. Inr o'))
         else Inr o'))))))))"

text \<open>\<open>EnergyObservation(...)\<close>: the row itself, or the validation error.\<close>
definition mk_observation :: "energy_observation \<Rightarrow> py_error + energy_observation" where
  "mk_observation o' =
     bindR (check (fields_ok o') ''field constraint'') (\<lambda>_. against_registry o')"

subsection \<open>Identities\<close>

type_synonym identity_dims = "(string \<times> string) list"
type_synonym observation_id =
  "string \<times> identity_dims \<times> instant \<times> string \<times> string \<times> string option"
type_synonym version_id = "observation_id \<times> string \<times> string"

definition observation_identity :: "energy_observation \<Rightarrow> observation_id" where
  "observation_identity o' =
     (dataset_id o', sort (dimensions o'), delivery_start_utc o', resolution o', metric o',
      source_version o')"

definition version_identity :: "energy_observation \<Rightarrow> version_id" where
  "version_identity o' = (observation_identity o', payload_sha256 o', derivation_id o')"

subsection \<open>What a constructed observation satisfies\<close>

lemma check_Inr [simp]: "check ok m = Inr u \<longleftrightarrow> ok"
  by (simp add: check_def)

lemma mk_observation_id: "mk_observation x = Inr y \<Longrightarrow> y = x"
  by (auto simp: mk_observation_def against_registry_def split: option.splits if_splits)

lemma check_fixed_Inr: "check_fixed dims fixed = Inr u \<Longrightarrow> (k, v) \<in> set fixed \<Longrightarrow> dget dims k = Some v"
  by (induction dims fixed rule: check_fixed.induct) (auto split: option.splits if_splits)

lemma check_allowed_Inr:
  "check_allowed dims al = Inr u \<Longrightarrow> (k, vs) \<in> set al \<Longrightarrow> \<exists>v \<in> set vs. dget dims k = Some v"
  by (induction dims al rule: check_allowed.induct) (auto split: option.splits if_splits)

definition conforms :: "energy_observation \<Rightarrow> dataset_contract \<Rightarrow> metric_spec \<Rightarrow> bool" where
  "conforms o' contract spec \<longleftrightarrow>
     dataset (dataset_id o') = Some contract \<and> source_id o' = dc_source_id contract
     \<and> metric_of contract (metric o') = Some spec \<and> obs_unit o' = ms_unit spec
     \<and> mset (dkeys (dimensions o')) = mset (manifest_dimensions contract)
     \<and> (\<forall>(k, v) \<in> set (dc_fixed_dimensions contract). dget (dimensions o') k = Some v)
     \<and> (\<forall>(k, vs) \<in> set (dc_allowed_dimension_values contract).
          \<exists>v \<in> set vs. dget (dimensions o') k = Some v)
     \<and> (version_in_identity contract \<longrightarrow> source_version o' \<noteq> None)
     \<and> resolution o' \<in> set (dc_resolutions contract)
     \<and> (kind o' = Kind_interval \<longrightarrow> parse_duration (resolution o') = Inr (duration (delivery_interval o')))"

lemma mset_eq_of_sort_eq: "sort xs = sort ys \<Longrightarrow> mset xs = mset ys"
  by (metis mset_sort)

lemma against_registry_conforms:
  assumes "against_registry x = Inr y"
  shows "\<exists>contract spec. conforms x contract spec"
proof -
  obtain contract where c: "dataset (dataset_id x) = Some contract"
    using assms by (auto simp: against_registry_def split: option.splits)
  obtain spec where s: "metric_of contract (metric x) = Some spec"
    using assms c by (auto simp: against_registry_def split: option.splits)
  show ?thesis
    using assms c s
    by (intro exI [of _ contract] exI [of _ spec])
      (auto simp: against_registry_def conforms_def dest: check_fixed_Inr check_allowed_Inr
        mset_eq_of_sort_eq split: if_splits)
qed

text \<open>An observation that can be constructed is exactly what the registry declares: the dataset
  and metric are registered, unit, dimension keys, fixed and constrained dimension values, the
  version marker and the resolution agree with the contract, and the delivery interval is as long as
  the resolution says; the constructor changes nothing in it.\<close>
theorem mk_observation_conforms:
  assumes "mk_observation x = Inr y"
  shows "y = x \<and> semver_pattern (contract_version y) \<and> hex_pattern 16 (derivation_id y)
    \<and> (\<exists>contract spec. conforms y contract spec)"
proof -
  from assms have "y = x" by (rule mk_observation_id)
  moreover from assms have "fields_ok x" "against_registry x = Inr y"
    by (auto simp: mk_observation_def)
  ultimately show ?thesis using against_registry_conforms by (auto simp: fields_ok_def)
qed

text \<open>A quarter-hour of the OTE intraday market, used in the witnesses.\<close>
definition sample_observation :: energy_observation where
  "sample_observation =
     \<lparr>source_id = ''ote'', dataset_id = ''ote.idm_continuous'', source_transport = Soap,
      contract_version = ''1.0.0'', derivation_id = ''aaaaaaaaaaaaaaaa'',
      raw_ref = ''bronze/blobs/aa'', payload_sha256 = ''aaaaaaaaaaaaaaaaaaaaaaaaaaaaaaaaaaaaaaaaaaaaaaaaaaaaaaaaaaaaaaaa'',
      fetched_at = 1774738800000000, source_published_at = None, source_version = None,
      processed_at = 1774738800000000,
      delivery_interval = \<lparr>di_start = 1774738800000000, di_end = 1774739700000000\<rparr>,
      resolution = ''PT15M'', local_date = 739704, period_index = Some 1, kind = Kind_interval,
      dimensions = [(''bidding_zone'', ''CZ'')], metric = ''price_vwap'',
      obs_value = Some (Dec False 97 0), obs_unit = ''EUR/MWh'', sign_convention = As_published\<rparr>"

lemma sample_observation_constructs: "mk_observation sample_observation = Inr sample_observation"
  by code_simp

theorem mk_observation_conforms_witness:
  "\<exists>contract spec. conforms sample_observation contract spec"
  using mk_observation_conforms [OF sample_observation_constructs] by blast

end
