(* ===== verification/Store_Types.thy ===== *)
theory Store_Types
  imports Observation
begin

text \<open>
  The row types of the \<open>Store\<close> protocol (src/energy_platform/store/protocol.py), the durable
  invalidation decision (src/energy_platform/contracts/invalidation.py), the quality event
  (src/energy_platform/mapping/quality.py) and the current-view ordering shared by both stores
  (src/energy_platform/store/ordering.py). Error and event texts are kept as plain strings.
\<close>

datatype run_state =
    RS_scheduled | RS_captured | RS_processed | RS_failed | RS_missing_capture | RS_unrecoverable

datatype run_origin = RO_scheduled | RO_reconciled | RO_backfill | RO_replay | RO_manual

datatype attempt_kind = AK_capture | AK_process | AK_backfill | AK_replay

datatype attempt_outcome =
    AO_ok | AO_failed | AO_lost_lease | AO_quarantined | AO_noop | AO_source_unavailable

datatype freshness_status = FS_pending | FS_partial | FS_late | FS_complete

datatype severity = Sev_info | Sev_warning | Sev_error

record run =
  r_id :: nat
  r_target_id :: string
  r_scheduled_for :: instant
  r_state :: run_state
  r_fence :: nat
  r_origin :: run_origin
  r_lease_owner :: "string option"
  r_lease_until :: "instant option"
  r_capture_id :: "string option"
  r_created_at :: instant
  r_updated_at :: instant

record run_attempt =
  a_id :: nat
  a_run_id :: nat
  a_kind :: attempt_kind
  a_lease_owner :: "string option"
  a_lease_until :: "instant option"
  a_fence :: "nat option"
  a_capture_id :: "string option"
  a_derivation_id :: "string option"
  a_outcome :: "attempt_outcome option"
  a_error :: "string option"
  a_started_at :: instant
  a_finished_at :: "instant option"

definition pending :: "run_attempt \<Rightarrow> bool" where
  "pending a \<longleftrightarrow> a_outcome a = None \<and> a_lease_owner a = None"

definition expired :: "run_attempt \<Rightarrow> instant \<Rightarrow> bool" where
  "expired a now \<longleftrightarrow> a_outcome a = None \<and> a_lease_owner a \<noteq> None
     \<and> (case a_lease_until a of None \<Rightarrow> False | Some t \<Rightarrow> t < now)"

text \<open>The mapping block of a manifest, as the JSON value it is.\<close>
datatype json = JNull | JBool bool | JInt int | JFloat string | JText string | JList "json list"
  | JObject "(string \<times> json) list"

record derivation =
  d_derivation_id :: string
  d_platform_version :: string
  d_contract_version :: string
  d_mapping_block :: json
  d_parser_ref :: string
  d_registered_at :: "instant option"

record claim =
  cl_run :: run
  cl_fence :: nat
  cl_attempt :: run_attempt

record commit_result =
  cr_inserted :: nat
  cr_lost_lease :: bool
  cr_occurrences :: nat

record stored_observation =
  so_id :: nat
  so_run_attempt_id :: nat
  so_observation :: energy_observation

datatype ordering_basis_kind = By_source_published_at | By_fetched_at

record current_row =
  cu_observation :: energy_observation
  cu_run_attempt_id :: nat
  cu_ordering_basis :: ordering_basis_kind

definition cu_value :: "current_row \<Rightarrow> decimal option" where
  "cu_value r = obs_value (cu_observation r)"

record freshness =
  f_target_id :: string
  f_computed_at :: instant
  f_partition_start :: instant
  f_partition_end :: instant
  f_expected_by :: instant
  f_status :: freshness_status
  f_observed_periods :: nat
  f_expected_periods :: nat
  f_newest_delivery_start :: "instant option"
  f_last_capture_at :: "instant option"
  f_last_capture_outcome :: "attempt_outcome option"
  f_stale_fetch_streak :: nat
  f_source_unavailable :: bool
  f_pipeline_failed :: bool

definition freshness_age :: "freshness \<Rightarrow> timedelta option" where
  "freshness_age f = map_option (\<lambda>n. f_computed_at f - n) (f_newest_delivery_start f)"

record quality_event =
  q_kind :: string
  q_severity :: severity
  q_message :: string
  q_locator :: string
  q_metric :: "string option"

record stored_event =
  e_id :: nat
  e_target_id :: string
  e_run_attempt_id :: "nat option"
  e_kind :: string
  e_severity :: severity
  e_message :: string
  e_locator :: string
  e_metric :: "string option"
  e_created_at :: instant

subsection \<open>Invalidations\<close>

record invalidation =
  i_target_id :: string
  i_capture_id :: string
  i_derivation_id :: "string option"
  i_reason :: string
  i_recorded_by :: string
  i_recorded_at :: instant

text \<open>\<open>capture_id.rsplit(":", 2)\<close> into three parts.\<close>
definition rsplit3 :: "string \<Rightarrow> (string \<times> string \<times> string) option" where
  "rsplit3 s = (case split_last (CHR '':'') s of
       None \<Rightarrow> None
     | Some (front, attempt) \<Rightarrow> (case split_last (CHR '':'') front of
           None \<Rightarrow> None
         | Some (target, stamp) \<Rightarrow> Some (target, stamp, attempt)))"

text \<open>Construction of an \<open>Invalidation\<close>: the field constraints and the shape of the capture id.\<close>
definition mk_invalidation :: "invalidation \<Rightarrow> py_error + invalidation" where
  "mk_invalidation i =
     bindR (check (i_target_id i \<noteq> [] \<and> i_capture_id i \<noteq> []
              \<and> (case i_derivation_id i of None \<Rightarrow> True | Some d \<Rightarrow> hex_pattern 16 d)
              \<and> i_reason i \<noteq> [] \<and> length (i_reason i) \<le> 2000
              \<and> i_recorded_by i \<noteq> [] \<and> length (i_recorded_by i) \<le> 200) ''field constraint'') (\<lambda>_.
     case rsplit3 (i_capture_id i) of
       None \<Rightarrow> Inl (ValueError ''capture id is not <target>:<stamp>:<attempt>'')
     | Some (_, _, attempt) \<Rightarrow>
         bindR (check (py_isdigit attempt) ''capture id is not <target>:<stamp>:<attempt>'') (\<lambda>_. Inr i))"

definition invalidation_key :: "string \<Rightarrow> string \<Rightarrow> string option \<Rightarrow> py_error + string" where
  "invalidation_key target_id capture_id derivation = (case rsplit3 capture_id of
       None \<Rightarrow> Inl (ValueError ''not enough values to unpack'')
     | Some (_, stamp, attempt) \<Rightarrow>
         Inr (''invalidations/'' @ target_id @ ''/'' @ stamp @ ''_'' @ attempt
              @ (case derivation of None \<Rightarrow> [] | Some d \<Rightarrow> CHR ''.'' # d) @ ''.json''))"

definition i_key :: "invalidation \<Rightarrow> py_error + string" where
  "i_key i = invalidation_key (i_target_id i) (i_capture_id i) (i_derivation_id i)"

subsection \<open>Current-view ordering\<close>

definition semver_key :: "string \<Rightarrow> py_error + int list" where
  "semver_key version = mapR (\<lambda>p. case py_int p of
       None \<Rightarrow> Inl (ValueError ''invalid literal for int()'') | Some n \<Rightarrow> Inr n)
     (split_on (CHR ''.'') version)"

definition ordering_basis :: "energy_observation \<Rightarrow> ordering_basis_kind" where
  "ordering_basis o' = (if source_published_at o' \<noteq> None then By_source_published_at else By_fetched_at)"

definition ordering_instant :: "energy_observation \<Rightarrow> instant" where
  "ordering_instant o' = (case source_published_at o' of None \<Rightarrow> fetched_at o' | Some t \<Rightarrow> t)"

definition owner_transport_of :: "energy_observation \<Rightarrow> transport option" where
  "owner_transport_of o' = (case dataset (dataset_id o') of
       None \<Rightarrow> None
     | Some contract \<Rightarrow> (case metric_of contract (metric o') of
           None \<Rightarrow> None
         | Some spec \<Rightarrow> ms_owner_transport spec))"

definition owner_rank :: "energy_observation \<Rightarrow> int" where
  "owner_rank o' = (case owner_transport_of o' of
       None \<Rightarrow> 1
     | Some owner \<Rightarrow> if source_transport o' = owner then 1 else 0)"

type_synonym rank_key = "int \<times> instant \<times> int list \<times> instant \<times> string"

definition rank :: "energy_observation \<Rightarrow> instant \<Rightarrow> instant option \<Rightarrow> py_error + rank_key" where
  "rank o' registered_at newest =
     bindR (semver_key (contract_version o')) (\<lambda>sv.
       Inr (owner_rank o',
            (case newest of None \<Rightarrow> ordering_instant o' | Some t \<Rightarrow> t),
            sv, registered_at, derivation_id o'))"

lemma digits_only_int:
  "list_all is_digit p \<Longrightarrow> \<exists>n. digits_rest acc p = Some n"
  by (induction p arbitrary: acc) auto

lemma dropWhile_space_digit: "list_all is_digit p \<Longrightarrow> dropWhile py_space p = p"
proof (cases p)
  case (Cons c cs)
  assume "list_all is_digit p"
  then have "is_digit c" by (simp add: Cons)
  then have "\<not> py_space c" by (auto simp: is_digit_def py_space_def Let_def)
  then show ?thesis by (simp add: Cons)
qed simp

lemma py_int_digits: "p \<noteq> [] \<Longrightarrow> list_all is_digit p \<Longrightarrow> \<exists>n. py_int p = Some n"
proof -
  assume ne: "p \<noteq> []" and d: "list_all is_digit p"
  have "strip p = p"
    using d by (simp add: strip_def dropWhile_space_digit)
  moreover obtain c cs where p: "p = c # cs" using ne by (cases p) auto
  moreover have "c \<noteq> CHR ''-''" "c \<noteq> CHR ''+''" using d p by (auto simp: is_digit_def)
  ultimately show ?thesis using d digits_only_int [of cs] by (auto simp: py_int_def)
qed

lemma semver_key_total: "semver_pattern v \<Longrightarrow> \<exists>k. semver_key v = Inr k"
proof -
  assume "semver_pattern v"
  then have "\<forall>p \<in> set (split_on (CHR ''.'') v). p \<noteq> [] \<and> list_all is_digit p"
    by (simp add: semver_pattern_def Let_def list_all_iff)
  then have "\<forall>p \<in> set (split_on (CHR ''.'') v). \<exists>n. py_int p = Some n"
    using py_int_digits by blast
  then obtain g where "\<forall>p \<in> set (split_on (CHR ''.'') v). py_int p = Some (g p)" by metis
  then have "semver_key v = Inr (map g (split_on (CHR ''.'') v))"
    unfolding semver_key_def by (intro mapR_total) auto
  then show ?thesis by blast
qed

lemma rank_total: "semver_pattern (contract_version o') \<Longrightarrow> \<exists>k. rank o' r n = Inr k"
  using semver_key_total by (fastforce simp: rank_def)

end
