(* ===== verification/Memory_Store.thy ===== *)
theory Memory_Store
  imports Store_Types
begin

text \<open>
  The in-memory \<open>Store\<close> (src/energy_platform/store/memory.py), operation by operation: the ledger of
  runs and attempts with its fence and leases, invalidations, derivations, the Silver rows with their
  occurrences and the current view, quality events and freshness rows. An operation takes the state
  and returns its result with the new state; \<open>KeyError\<close> is raised where Python's dictionary lookup
  would raise it.
\<close>

type_synonym occurrences = "(instant, instant \<times> nat) dict"
type_synonym invalidation_id = "string \<times> string \<times> string option"

record memory_store =
  st_runs :: "(nat, run) dict"
  st_attempts :: "(nat, run_attempt) dict"
  st_derivations :: "(string, derivation) dict"
  st_rows :: "(nat, stored_observation) dict"
  st_occurrences :: "(nat, occurrences) dict"
  st_invalidations :: "(invalidation_id, invalidation) dict"
  st_events :: "(nat, stored_event) dict"
  st_freshness :: "(string, freshness) dict"
  st_seq_runs :: nat
  st_seq_attempts :: nat
  st_seq_rows :: nat
  st_seq_events :: nat

definition empty_store :: memory_store where
  "empty_store = \<lparr>st_runs = [], st_attempts = [], st_derivations = [], st_rows = [],
     st_occurrences = [], st_invalidations = [], st_events = [], st_freshness = [],
     st_seq_runs = 0, st_seq_attempts = 0, st_seq_rows = 0, st_seq_events = 0\<rparr>"

subsection \<open>Runs\<close>

definition find_run :: "memory_store \<Rightarrow> string \<Rightarrow> instant \<Rightarrow> run option" where
  "find_run s target scheduled =
     find (\<lambda>r. r_target_id r = target \<and> r_scheduled_for r = scheduled) (dvalues (st_runs s))"

definition put_run :: "run \<Rightarrow> memory_store \<Rightarrow> memory_store" where
  "put_run r s = s\<lparr>st_runs := dset (r_id r) r (st_runs s)\<rparr>"

definition ensure_run ::
    "memory_store \<Rightarrow> string \<Rightarrow> instant \<Rightarrow> run_state \<Rightarrow> run_origin \<Rightarrow> string option \<Rightarrow> instant
     \<Rightarrow> run \<times> memory_store" where
  "ensure_run s target scheduled state origin capture now =
     (case find_run s target scheduled of
        None \<Rightarrow>
          (let run = \<lparr>r_id = Suc (st_seq_runs s), r_target_id = target, r_scheduled_for = scheduled,
                 r_state = state, r_fence = 0, r_origin = origin, r_lease_owner = None,
                 r_lease_until = None, r_capture_id = capture, r_created_at = now, r_updated_at = now\<rparr>
           in (run, put_run run (s\<lparr>st_seq_runs := Suc (st_seq_runs s)\<rparr>)))
      | Some existing \<Rightarrow>
          if state = RS_captured \<and> r_state existing \<noteq> RS_processed \<and> r_capture_id existing = None
          then (let updated = existing\<lparr>r_state := RS_captured, r_capture_id := capture, r_updated_at := now\<rparr>
                in (updated, put_run updated s))
          else (existing, s))"

definition get_run :: "memory_store \<Rightarrow> string \<Rightarrow> instant \<Rightarrow> run option" where
  "get_run s target scheduled = find_run s target scheduled"

definition in_window :: "instant option \<Rightarrow> instant option \<Rightarrow> instant \<Rightarrow> bool" where
  "in_window since until t \<longleftrightarrow> (case since of None \<Rightarrow> True | Some a \<Rightarrow> a \<le> t)
     \<and> (case until of None \<Rightarrow> True | Some b \<Rightarrow> t < b)"

definition runs_of :: "memory_store \<Rightarrow> string \<Rightarrow> instant option \<Rightarrow> instant option \<Rightarrow> run list" where
  "runs_of s target since until = sort_key r_scheduled_for
     (filter (\<lambda>r. r_target_id r = target \<and> in_window since until (r_scheduled_for r))
        (dvalues (st_runs s)))"

definition set_state :: "memory_store \<Rightarrow> nat \<Rightarrow> run_state \<Rightarrow> instant \<Rightarrow> py_error + run \<times> memory_store" where
  "set_state s run_id state now = (case dget (st_runs s) run_id of
       None \<Rightarrow> Inl KeyError
     | Some r \<Rightarrow> (let run = r\<lparr>r_state := state, r_updated_at := now\<rparr>
                 in Inr (run, s\<lparr>st_runs := dset run_id run (st_runs s)\<rparr>)))"

definition mark_recaptured ::
    "memory_store \<Rightarrow> nat \<Rightarrow> string \<Rightarrow> instant \<Rightarrow> py_error + run \<times> memory_store" where
  "mark_recaptured s run_id capture now = (case dget (st_runs s) run_id of
       None \<Rightarrow> Inl KeyError
     | Some r \<Rightarrow> (let run = r\<lparr>r_state := RS_captured, r_capture_id := Some capture,
                               r_fence := r_fence r + 1, r_lease_owner := None, r_lease_until := None,
                               r_updated_at := now\<rparr>
                 in Inr (run, s\<lparr>st_runs := dset run_id run (st_runs s)\<rparr>)))"

subsection \<open>Attempts\<close>

definition attempts_of :: "memory_store \<Rightarrow> nat \<Rightarrow> run_attempt list" where
  "attempts_of s run_id = filter (\<lambda>a. a_run_id a = run_id) (dvalues (st_attempts s))"

definition put_attempt :: "run_attempt \<Rightarrow> memory_store \<Rightarrow> memory_store" where
  "put_attempt a s = s\<lparr>st_attempts := dset (a_id a) a (st_attempts s)\<rparr>"

definition new_attempt ::
    "memory_store \<Rightarrow> nat \<Rightarrow> attempt_kind \<Rightarrow> string option \<Rightarrow> instant option \<Rightarrow> nat option
     \<Rightarrow> string option \<Rightarrow> attempt_outcome option \<Rightarrow> string option \<Rightarrow> instant \<Rightarrow> instant option \<Rightarrow> run_attempt"
  where
  "new_attempt s run_id kd owner until fence capture outcome err started finished =
     \<lparr>a_id = Suc (st_seq_attempts s), a_run_id = run_id, a_kind = kd, a_lease_owner = owner,
      a_lease_until = until, a_fence = fence, a_capture_id = capture, a_derivation_id = None,
      a_outcome = outcome, a_error = err, a_started_at = started, a_finished_at = finished\<rparr>"

definition next_attempt :: "memory_store \<Rightarrow> memory_store" where
  "next_attempt s = s\<lparr>st_seq_attempts := Suc (st_seq_attempts s)\<rparr>"

text \<open>The loop of \<open>claim\<close> over the run's attempts: an expired replay attempt is closed.\<close>
definition close_expired :: "instant \<Rightarrow> run_attempt list \<Rightarrow> memory_store \<Rightarrow> memory_store" where
  "close_expired now as s = foldl (\<lambda>s dead.
       if a_kind dead = AK_replay \<and> expired dead now
       then put_attempt (dead\<lparr>a_outcome := Some AO_lost_lease, a_finished_at := Some now\<rparr>) s
       else s) s as"

definition lease_held :: "run \<Rightarrow> instant \<Rightarrow> bool" where
  "lease_held r now \<longleftrightarrow> (case r_lease_until r of None \<Rightarrow> False | Some t \<Rightarrow> now \<le> t)"

text \<open>The attempt a successful claim works on: the adopted or reopened replay attempt, else a new
  \<open>process\<close> attempt. \<open>run\<close> is the run with its new fence and lease.\<close>
definition adopt_attempt ::
    "memory_store \<Rightarrow> run \<Rightarrow> string \<Rightarrow> bool \<Rightarrow> instant \<Rightarrow> run_attempt \<times> memory_store" where
  "adopt_attempt s run owner reopened now =
     (let found = find (\<lambda>a. a_kind a = AK_replay \<and> pending a) (attempts_of s (r_id run));
          (cand, s1) = (case found of
              None \<Rightarrow>
                if reopened
                then (Some (new_attempt s (r_id run) AK_replay None None None (r_capture_id run)
                              None None now None), next_attempt s)
                else (None, s)
            | Some a \<Rightarrow> (Some a, s))
      in case cand of
           Some a \<Rightarrow>
             (let att = a\<lparr>a_lease_owner := Some owner, a_lease_until := r_lease_until run,
                          a_fence := Some (r_fence run), a_capture_id := r_capture_id run,
                          a_started_at := now\<rparr>
              in (att, put_attempt att s1))
         | None \<Rightarrow>
             (let att = new_attempt s1 (r_id run) AK_process (Some owner) (r_lease_until run)
                          (Some (r_fence run)) (r_capture_id run) None None now None
              in (att, put_attempt att (next_attempt s1))))"

definition claim_run ::
    "memory_store \<Rightarrow> nat \<Rightarrow> string \<Rightarrow> timedelta \<Rightarrow> instant \<Rightarrow> py_error + claim option \<times> memory_store" where
  "claim_run s run_id owner ttl now = (case dget (st_runs s) run_id of
       None \<Rightarrow> Inl KeyError
     | Some r0 \<Rightarrow>
         if lease_held r0 now then Inr (None, s)
         else
           (let run = r0\<lparr>r_fence := r_fence r0 + 1, r_lease_owner := Some owner,
                         r_lease_until := Some (now + ttl), r_updated_at := now\<rparr>;
                s1 = s\<lparr>st_runs := dset run_id run (st_runs s)\<rparr>;
                mine = attempts_of s1 run_id;
                reopened = list_ex (\<lambda>a. a_kind a = AK_replay \<and> expired a now) mine;
                s2 = close_expired now mine s1;
                (att, s3) = adopt_attempt s2 run owner reopened now
            in Inr (Some \<lparr>cl_run = run, cl_fence = r_fence run, cl_attempt = att\<rparr>, s3)))"

definition renew ::
    "memory_store \<Rightarrow> claim \<Rightarrow> timedelta \<Rightarrow> instant \<Rightarrow> py_error + bool \<times> memory_store" where
  "renew s c ttl now = (case dget (st_runs s) (r_id (cl_run c)) of
       None \<Rightarrow> Inl KeyError
     | Some r \<Rightarrow>
         if r_fence r \<noteq> cl_fence c then Inr (False, s)
         else Inr (True, s\<lparr>st_runs :=
                dset (r_id r) (r\<lparr>r_lease_until := Some (now + ttl), r_updated_at := now\<rparr>) (st_runs s)\<rparr>))"

subsection \<open>Derivations, events\<close>

definition register_derivation :: "memory_store \<Rightarrow> derivation \<Rightarrow> instant \<Rightarrow> derivation \<times> memory_store" where
  "register_derivation s d now = (case dget (st_derivations s) (d_derivation_id d) of
       Some stored \<Rightarrow> (stored, s)
     | None \<Rightarrow> (let stored = d\<lparr>d_registered_at := Some now\<rparr>
               in (stored, s\<lparr>st_derivations := dset (d_derivation_id d) stored (st_derivations s)\<rparr>)))"

definition get_derivation :: "memory_store \<Rightarrow> string \<Rightarrow> derivation option" where
  "get_derivation s i = dget (st_derivations s) i"

definition add_event ::
    "string \<Rightarrow> nat option \<Rightarrow> instant \<Rightarrow> quality_event \<Rightarrow> memory_store \<Rightarrow> memory_store" where
  "add_event target attempt now e s =
     (let eid = Suc (st_seq_events s)
      in s\<lparr>st_seq_events := eid,
           st_events := dset eid
             \<lparr>e_id = eid, e_target_id = target, e_run_attempt_id = attempt, e_kind = q_kind e,
              e_severity = q_severity e, e_message = q_message e, e_locator = q_locator e,
              e_metric = q_metric e, e_created_at = now\<rparr> (st_events s)\<rparr>)"

definition add_events ::
    "memory_store \<Rightarrow> string \<Rightarrow> quality_event list \<Rightarrow> nat option \<Rightarrow> instant \<Rightarrow> nat \<times> memory_store" where
  "add_events s target events attempt now =
     (length events, foldl (\<lambda>s e. add_event target attempt now e s) s events)"

definition quality_events ::
    "memory_store \<Rightarrow> string option \<Rightarrow> string option \<Rightarrow> stored_event list" where
  "quality_events s target kd = filter
     (\<lambda>e. (target = None \<or> target = Some (e_target_id e)) \<and> (kd = None \<or> kd = Some (e_kind e)))
     (dvalues (st_events s))"

subsection \<open>Commit\<close>

text \<open>\<open>{version_identity(r.observation): rid for rid, r in self._rows.items()}\<close>\<close>
definition existing_versions :: "memory_store \<Rightarrow> (version_id, nat) dict" where
  "existing_versions s =
     foldl (\<lambda>d (rid, r). dset (version_identity (so_observation r)) rid d) [] (st_rows s)"

record commit_acc =
  ca_store :: memory_store
  ca_existing :: "(version_id, nat) dict"
  ca_inserted :: nat
  ca_occurrences :: nat

text \<open>One iteration of \<open>for o in observations\<close>.\<close>
definition commit_row :: "nat \<Rightarrow> energy_observation \<Rightarrow> commit_acc \<Rightarrow> commit_acc" where
  "commit_row attempt_id o' acc =
     (let s = ca_store acc; key = version_identity o'; found = dget (ca_existing acc) key;
          rid = (case found of None \<Rightarrow> Suc (st_seq_rows s) | Some i \<Rightarrow> i);
          s1 = (if found = None
                then s\<lparr>st_seq_rows := rid,
                       st_rows := dset rid \<lparr>so_id = rid, so_run_attempt_id = attempt_id,
                                            so_observation = o'\<rparr> (st_rows s)\<rparr>
                else s);
          seen = (case dget (st_occurrences s1) rid of None \<Rightarrow> [] | Some d \<Rightarrow> d);
          fresh = (dget seen (fetched_at o') = None);
          seen1 = (if fresh then dset (fetched_at o') (ordering_instant o', attempt_id) seen else seen)
      in acc\<lparr>ca_store := s1\<lparr>st_occurrences := dset rid seen1 (st_occurrences s1)\<rparr>,
             ca_existing := (if found = None then dset key rid (ca_existing acc) else ca_existing acc),
             ca_inserted := ca_inserted acc + (if found = None then 1 else 0),
             ca_occurrences := ca_occurrences acc + (if fresh \<and> found \<noteq> None then 1 else 0)\<rparr>)"

definition commit_rows :: "nat \<Rightarrow> energy_observation list \<Rightarrow> memory_store \<Rightarrow> commit_acc" where
  "commit_rows attempt_id os s = foldl (\<lambda>acc o'. commit_row attempt_id o' acc)
     \<lparr>ca_store = s, ca_existing = existing_versions s, ca_inserted = 0, ca_occurrences = 0\<rparr> os"

definition commit ::
    "memory_store \<Rightarrow> claim \<Rightarrow> run_state \<Rightarrow> attempt_outcome \<Rightarrow> string option \<Rightarrow> derivation option
     \<Rightarrow> energy_observation list \<Rightarrow> quality_event list \<Rightarrow> instant
     \<Rightarrow> py_error + commit_result \<times> memory_store" where
  "commit s c state outcome err deriv observations events now =
     (case dget (st_runs s) (r_id (cl_run c)) of
        None \<Rightarrow> Inl KeyError
      | Some run \<Rightarrow>
          if r_fence run \<noteq> cl_fence c
          then (case dget (st_attempts s) (a_id (cl_attempt c)) of
                  None \<Rightarrow> Inl KeyError
                | Some stale \<Rightarrow>
                    Inr (\<lparr>cr_inserted = 0, cr_lost_lease = True, cr_occurrences = 0\<rparr>,
                         if a_outcome stale = None
                         then s\<lparr>st_attempts := dset (a_id stale)
                                  (stale\<lparr>a_outcome := Some AO_lost_lease, a_finished_at := Some now\<rparr>)
                                  (st_attempts s)\<rparr>
                         else s))
          else
            (let s1 = (case deriv of None \<Rightarrow> s | Some d \<Rightarrow> snd (register_derivation s d now));
                 acc = commit_rows (a_id (cl_attempt c)) observations s1;
                 s2 = snd (add_events (ca_store acc) (r_target_id run) events
                            (Some (a_id (cl_attempt c))) now)
             in case dget (st_attempts s2) (a_id (cl_attempt c)) of
                  None \<Rightarrow> Inl KeyError
                | Some att \<Rightarrow>
                    (let att' = att\<lparr>a_outcome := Some outcome, a_error := err, a_finished_at := Some now,
                                    a_derivation_id := map_option d_derivation_id deriv\<rparr>;
                         run' = run\<lparr>r_state := state, r_lease_owner := None, r_lease_until := None,
                                    r_updated_at := now\<rparr>
                     in Inr (\<lparr>cr_inserted = ca_inserted acc, cr_lost_lease = False,
                              cr_occurrences = ca_occurrences acc\<rparr>,
                             s2\<lparr>st_attempts := dset (a_id att) att' (st_attempts s2),
                                st_runs := dset (r_id run) run' (st_runs s2)\<rparr>))))"

definition record_attempt ::
    "memory_store \<Rightarrow> nat \<Rightarrow> attempt_kind \<Rightarrow> attempt_outcome \<Rightarrow> string option \<Rightarrow> string option \<Rightarrow> instant
     \<Rightarrow> run_attempt \<times> memory_store" where
  "record_attempt s run_id kd outcome capture err now =
     (let att = new_attempt s run_id kd None None None capture (Some outcome) err now (Some now)
      in (att, put_attempt att (next_attempt s)))"

definition enqueue_replay ::
    "memory_store \<Rightarrow> nat \<Rightarrow> instant \<Rightarrow> py_error + run_attempt option \<times> memory_store" where
  "enqueue_replay s run_id now =
     (if list_ex (\<lambda>a. a_kind a = AK_replay \<and> pending a) (attempts_of s run_id) then Inr (None, s)
      else case dget (st_runs s) run_id of
             None \<Rightarrow> Inl KeyError
           | Some r \<Rightarrow>
               (let att = new_attempt s run_id AK_replay None None None (r_capture_id r) None None now None
                in Inr (Some att, put_attempt att (next_attempt s))))"

definition pending_runs :: "memory_store \<Rightarrow> string \<Rightarrow> instant \<Rightarrow> run list" where
  "pending_runs s target now = filter
     (\<lambda>r. r_state r = RS_captured
        \<or> list_ex (\<lambda>a. a_kind a = AK_replay \<and> (pending a \<or> expired a now)) (attempts_of s (r_id r)))
     (runs_of s target None None)"

text \<open>\<open>{self._attempts[a].run_id for a in attempt_ids}\<close> as a list, then the runs in schedule order (the
  iteration order of the set, which only breaks ties, is the order of the rows here).\<close>
definition runs_with_derivation :: "memory_store \<Rightarrow> string \<Rightarrow> py_error + run list" where
  "runs_with_derivation s d =
     (let attempt_ids = remdups (map so_run_attempt_id
            (filter (\<lambda>r. derivation_id (so_observation r) = d) (dvalues (st_rows s))))
      in bindR (mapR (\<lambda>a. case dget (st_attempts s) a of None \<Rightarrow> Inl KeyError
                           | Some att \<Rightarrow> Inr (a_run_id att)) attempt_ids) (\<lambda>run_ids.
         bindR (mapR (\<lambda>i. case dget (st_runs s) i of None \<Rightarrow> Inl KeyError | Some r \<Rightarrow> Inr r)
                  (remdups run_ids)) (\<lambda>rs. Inr (sort_key r_scheduled_for rs))))"

subsection \<open>Invalidations\<close>

definition add_invalidation :: "memory_store \<Rightarrow> invalidation \<Rightarrow> bool \<times> memory_store" where
  "add_invalidation s iv =
     (let key = (i_target_id iv, i_capture_id iv, i_derivation_id iv)
      in if dget (st_invalidations s) key \<noteq> None then (False, s)
         else (True, s\<lparr>st_invalidations := dset key iv (st_invalidations s)\<rparr>))"

definition invalidations_of :: "memory_store \<Rightarrow> string \<Rightarrow> py_error + invalidation list" where
  "invalidations_of s target =
     (let mine = filter (\<lambda>i. i_target_id i = target) (dvalues (st_invalidations s))
      in bindR (mapR (\<lambda>i. bindR (i_key i) (\<lambda>k. Inr (k, i))) mine) (\<lambda>ks.
         Inr (map snd (sort_key fst ks))))"

text \<open>\<open>capture_id.split(":", 1)[0]\<close>\<close>
definition target_of_capture :: "string \<Rightarrow> string" where
  "target_of_capture capture = takeWhile (\<lambda>c. c \<noteq> CHR '':'') capture"

definition is_invalidated :: "memory_store \<Rightarrow> string \<Rightarrow> string option \<Rightarrow> bool" where
  "is_invalidated s capture deriv =
     (let target = target_of_capture capture
      in dget (st_invalidations s) (target, capture, None) \<noteq> None
         \<or> deriv \<noteq> None \<and> dget (st_invalidations s) (target, capture, deriv) \<noteq> None)"

definition attempt_captures :: "memory_store \<Rightarrow> string \<Rightarrow> (nat, string) dict" where
  "attempt_captures s target =
     (let runs = map r_id (filter (\<lambda>r. r_target_id r = target) (dvalues (st_runs s)))
      in List.map_filter (\<lambda>a. if a_run_id a \<in> set runs
           then map_option (\<lambda>c. (a_id a, c)) (a_capture_id a) else None) (dvalues (st_attempts s)))"

subsection \<open>The current view\<close>

definition valid_occurrences :: "memory_store \<Rightarrow> stored_observation \<Rightarrow> py_error + instant list" where
  "valid_occurrences s row =
     bindR (mapR (\<lambda>(ins, attempt_id). case dget (st_attempts s) attempt_id of
                None \<Rightarrow> Inl KeyError
              | Some a \<Rightarrow> Inr (ins, case a_capture_id a of None \<Rightarrow> True
                  | Some cap \<Rightarrow> \<not> is_invalidated s cap (Some (derivation_id (so_observation row)))))
             (dvalues (case dget (st_occurrences s) (so_id row) of None \<Rightarrow> [] | Some d \<Rightarrow> d)))
       (\<lambda>ps. Inr (map fst (filter snd ps)))"

definition registered_at :: "memory_store \<Rightarrow> string \<Rightarrow> py_error + instant" where
  "registered_at s d = (case dget (st_derivations s) d of
       None \<Rightarrow> Inl KeyError
     | Some dv \<Rightarrow> (case d_registered_at dv of None \<Rightarrow> Inl KeyError | Some t \<Rightarrow> Inr t))"

text \<open>\<open>_rank\<close>; \<open>max(valid)\<close> raises on an empty list.\<close>
definition row_rank ::
    "memory_store \<Rightarrow> stored_observation \<Rightarrow> instant list \<Rightarrow> py_error + rank_key" where
  "row_rank s row valid =
     bindR (registered_at s (derivation_id (so_observation row))) (\<lambda>reg.
       if valid = [] then Inl (ValueError ''max() arg is an empty sequence'')
       else rank (so_observation row) reg (Some (Max (set valid))))"

type_synonym current_key = "observation_id \<times> transport option"

definition view_key :: "transport option \<Rightarrow> energy_observation \<Rightarrow> current_key" where
  "view_key tr o' = (observation_identity o', case tr of None \<Rightarrow> None | Some _ \<Rightarrow> Some (source_transport o'))"

definition selected ::
    "string \<Rightarrow> instant option \<Rightarrow> instant option \<Rightarrow> transport option \<Rightarrow> energy_observation \<Rightarrow> bool" where
  "selected ds start end tr o' \<longleftrightarrow> dataset_id o' = ds
     \<and> in_window start end (delivery_start_utc o') \<and> (tr = None \<or> tr = Some (source_transport o'))"

text \<open>One iteration of the loop over the stored rows.\<close>
definition best_step ::
    "memory_store \<Rightarrow> string \<Rightarrow> instant option \<Rightarrow> instant option \<Rightarrow> transport option
     \<Rightarrow> (current_key, stored_observation) dict \<Rightarrow> stored_observation
     \<Rightarrow> py_error + (current_key, stored_observation) dict" where
  "best_step s ds start end tr best row =
     (if \<not> selected ds start end tr (so_observation row) then Inr best
      else bindR (valid_occurrences s row) (\<lambda>valid.
        if valid = [] then Inr best
        else (let key = view_key tr (so_observation row) in
          case dget best key of
            None \<Rightarrow> Inr (dset key row best)
          | Some current \<Rightarrow>
              bindR (row_rank s row valid) (\<lambda>mine.
              bindR (valid_occurrences s current) (\<lambda>cv.
              bindR (row_rank s current cv) (\<lambda>theirs.
                Inr (if theirs < mine then dset key row best else best)))))))"

fun best_rows ::
    "memory_store \<Rightarrow> string \<Rightarrow> instant option \<Rightarrow> instant option \<Rightarrow> transport option
     \<Rightarrow> (current_key, stored_observation) dict \<Rightarrow> stored_observation list
     \<Rightarrow> py_error + (current_key, stored_observation) dict" where
  "best_rows s ds start end tr best [] = Inr best"
| "best_rows s ds start end tr best (row # rows) =
     bindR (best_step s ds start end tr best row) (\<lambda>b. best_rows s ds start end tr b rows)"

definition current_rows ::
    "memory_store \<Rightarrow> string \<Rightarrow> instant option \<Rightarrow> instant option \<Rightarrow> string option \<Rightarrow> transport option
     \<Rightarrow> py_error + current_row list" where
  "current_rows s ds start end met tr =
     bindR (best_rows s ds start end tr [] (dvalues (st_rows s))) (\<lambda>best.
       Inr (sort_key (\<lambda>c. (delivery_start_utc (cu_observation c), metric (cu_observation c)))
         (map (\<lambda>r. \<lparr>cu_observation = so_observation r, cu_run_attempt_id = so_run_attempt_id r,
                    cu_ordering_basis = ordering_basis (so_observation r)\<rparr>)
           (filter (\<lambda>r. (met = None \<or> met = Some (metric (so_observation r)))
                      \<and> (tr = None \<or> tr = Some (source_transport (so_observation r))))
             (dvalues best)))))"

definition all_rows ::
    "memory_store \<Rightarrow> string \<Rightarrow> instant option \<Rightarrow> instant option \<Rightarrow> stored_observation list" where
  "all_rows s ds start end = filter
     (\<lambda>r. dataset_id (so_observation r) = ds
        \<and> in_window start end (delivery_start_utc (so_observation r))) (dvalues (st_rows s))"

definition iter_rows :: "memory_store \<Rightarrow> string \<Rightarrow> transport option \<Rightarrow> stored_observation list" where
  "iter_rows s ds tr = filter
     (\<lambda>r. dataset_id (so_observation r) = ds
        \<and> (tr = None \<or> tr = Some (source_transport (so_observation r))))
     (map snd (sort_key fst (st_rows s)))"

subsection \<open>Freshness\<close>

definition target_current ::
    "memory_store \<Rightarrow> string \<Rightarrow> string \<Rightarrow> transport \<Rightarrow> instant option \<Rightarrow> instant option
     \<Rightarrow> py_error + current_row list" where
  "target_current s ds target tr start end =
     (let runs = map r_id (filter (\<lambda>r. r_target_id r = target) (dvalues (st_runs s)))
      in bindR (current_rows s ds start end None (Some tr)) (\<lambda>rows.
           Inr (filter (\<lambda>row. (case dget (st_attempts s) (cu_run_attempt_id row) of
                   None \<Rightarrow> False | Some a \<Rightarrow> a_run_id a \<in> set runs) \<and> cu_value row \<noteq> None) rows)))"

text \<open>\<open>seen.setdefault(start, set()).add(metric)\<close>, then the periods that carry every wanted metric.\<close>
definition count_periods ::
    "memory_store \<Rightarrow> string \<Rightarrow> instant \<Rightarrow> instant \<Rightarrow> string \<Rightarrow> transport \<Rightarrow> string list \<Rightarrow> py_error + nat" where
  "count_periods s ds start end target tr metrics =
     bindR (target_current s ds target tr (Some start) (Some end)) (\<lambda>rows.
       let seen = foldl (\<lambda>d row. let t = delivery_start_utc (cu_observation row) in
              dset t ((case dget d t of None \<Rightarrow> [] | Some ms \<Rightarrow> ms) @ [metric (cu_observation row)]) d)
            [] rows
       in Inr (length (filter (\<lambda>present. set metrics \<subseteq> set present) (dvalues seen))))"

definition newest_delivery_start ::
    "memory_store \<Rightarrow> string \<Rightarrow> string \<Rightarrow> transport \<Rightarrow> py_error + instant option" where
  "newest_delivery_start s ds target tr =
     bindR (target_current s ds target tr None None) (\<lambda>rows.
       Inr (if rows = [] then None
            else Some (Max (set (map (\<lambda>r. delivery_start_utc (cu_observation r)) rows)))))"

definition upsert_freshness :: "memory_store \<Rightarrow> freshness \<Rightarrow> memory_store" where
  "upsert_freshness s row = s\<lparr>st_freshness := dset (f_target_id row) row (st_freshness s)\<rparr>"

definition freshness_rows :: "memory_store \<Rightarrow> freshness list" where
  "freshness_rows s = map snd (sort_key fst (st_freshness s))"

end
