(* ===== verification/Store_Invariant.thy ===== *)
theory Store_Invariant
  imports Memory_Store
begin

text \<open>
  The invariant of the memory store and how its operations change the state: keys are unique, ids
  are bounded by their sequences, references resolve, at most one run per target and instant and at
  most one row per version identity. Every operation only adds to the store (\<open>store_grows\<close>): rows,
  derivations, invalidations and events are never changed or removed, runs and attempts keep their
  identity, fences never decrease.
\<close>

subsection \<open>The invariant\<close>

definition runs_ok :: "memory_store \<Rightarrow> bool" where
  "runs_ok s \<longleftrightarrow> distinct (dkeys (st_runs s))
     \<and> (\<forall>i r. dget (st_runs s) i = Some r \<longrightarrow> r_id r = i \<and> i \<le> st_seq_runs s)
     \<and> (\<forall>i r j q. dget (st_runs s) i = Some r \<and> dget (st_runs s) j = Some q
          \<and> r_target_id r = r_target_id q \<and> r_scheduled_for r = r_scheduled_for q \<longrightarrow> i = j)"

definition attempts_ok :: "memory_store \<Rightarrow> bool" where
  "attempts_ok s \<longleftrightarrow> distinct (dkeys (st_attempts s))
     \<and> (\<forall>i a. dget (st_attempts s) i = Some a \<longrightarrow> a_id a = i \<and> i \<le> st_seq_attempts s
          \<and> (\<exists>r. dget (st_runs s) (a_run_id a) = Some r
               \<and> (\<forall>f. a_fence a = Some f \<longrightarrow> f \<le> r_fence r)))"

definition rows_ok :: "memory_store \<Rightarrow> bool" where
  "rows_ok s \<longleftrightarrow> distinct (dkeys (st_rows s))
     \<and> (\<forall>i r. dget (st_rows s) i = Some r \<longrightarrow> so_id r = i \<and> i \<le> st_seq_rows s)
     \<and> (\<forall>i r j q. dget (st_rows s) i = Some r \<and> dget (st_rows s) j = Some q
          \<and> version_identity (so_observation r) = version_identity (so_observation q) \<longrightarrow> i = j)"

definition refs_ok :: "memory_store \<Rightarrow> bool" where
  "refs_ok s \<longleftrightarrow>
     (\<forall>i r. dget (st_rows s) i = Some r \<longrightarrow> so_run_attempt_id r \<in> dom (dget (st_attempts s)))
     \<and> (\<forall>i d t x. dget (st_occurrences s) i = Some d \<and> dget d t = Some x
          \<longrightarrow> snd x \<in> dom (dget (st_attempts s)))"

definition occs_ok :: "memory_store \<Rightarrow> bool" where
  "occs_ok s \<longleftrightarrow> dom (dget (st_occurrences s)) = dom (dget (st_rows s))
     \<and> (\<forall>i d. dget (st_occurrences s) i = Some d \<longrightarrow> d \<noteq> [] \<and> distinct (dkeys d))"

definition derivs_ok :: "memory_store \<Rightarrow> bool" where
  "derivs_ok s \<longleftrightarrow> (\<forall>i d. dget (st_derivations s) i = Some d
      \<longrightarrow> d_derivation_id d = i \<and> d_registered_at d \<noteq> None)"

definition events_ok :: "memory_store \<Rightarrow> bool" where
  "events_ok s \<longleftrightarrow> (\<forall>i e. dget (st_events s) i = Some e \<longrightarrow> e_id e = i \<and> i \<le> st_seq_events s)"

definition store_ok :: "memory_store \<Rightarrow> bool" where
  "store_ok s \<longleftrightarrow> runs_ok s \<and> attempts_ok s \<and> rows_ok s \<and> refs_ok s \<and> occs_ok s \<and> derivs_ok s
     \<and> events_ok s"

lemmas store_parts = runs_ok_def attempts_ok_def rows_ok_def refs_ok_def occs_ok_def derivs_ok_def
  events_ok_def

lemma store_okD:
  assumes "store_ok s"
  shows "runs_ok s" "attempts_ok s" "rows_ok s" "refs_ok s" "occs_ok s" "derivs_ok s" "events_ok s"
  using assms by (simp_all add: store_ok_def)

lemma empty_store_ok: "store_ok empty_store"
  by (simp add: store_ok_def store_parts empty_store_def)

text \<open>Which fields each part of the invariant does not read.\<close>

lemma runs_ok_frame [simp]:
  "runs_ok (s\<lparr>st_attempts := x_attempts\<rparr>) = runs_ok s"
  "runs_ok (s\<lparr>st_derivations := x_derivations\<rparr>) = runs_ok s"
  "runs_ok (s\<lparr>st_rows := x_rows\<rparr>) = runs_ok s"
  "runs_ok (s\<lparr>st_occurrences := x_occurrences\<rparr>) = runs_ok s"
  "runs_ok (s\<lparr>st_invalidations := x_invalidations\<rparr>) = runs_ok s"
  "runs_ok (s\<lparr>st_events := x_events\<rparr>) = runs_ok s"
  "runs_ok (s\<lparr>st_freshness := x_freshness\<rparr>) = runs_ok s"
  "runs_ok (s\<lparr>st_seq_attempts := x_seq_attempts\<rparr>) = runs_ok s"
  "runs_ok (s\<lparr>st_seq_rows := x_seq_rows\<rparr>) = runs_ok s"
  "runs_ok (s\<lparr>st_seq_events := x_seq_events\<rparr>) = runs_ok s"
  by (simp_all add: runs_ok_def)

lemma attempts_ok_frame [simp]:
  "attempts_ok (s\<lparr>st_derivations := x_derivations\<rparr>) = attempts_ok s"
  "attempts_ok (s\<lparr>st_rows := x_rows\<rparr>) = attempts_ok s"
  "attempts_ok (s\<lparr>st_occurrences := x_occurrences\<rparr>) = attempts_ok s"
  "attempts_ok (s\<lparr>st_invalidations := x_invalidations\<rparr>) = attempts_ok s"
  "attempts_ok (s\<lparr>st_events := x_events\<rparr>) = attempts_ok s"
  "attempts_ok (s\<lparr>st_freshness := x_freshness\<rparr>) = attempts_ok s"
  "attempts_ok (s\<lparr>st_seq_runs := x_seq_runs\<rparr>) = attempts_ok s"
  "attempts_ok (s\<lparr>st_seq_rows := x_seq_rows\<rparr>) = attempts_ok s"
  "attempts_ok (s\<lparr>st_seq_events := x_seq_events\<rparr>) = attempts_ok s"
  by (simp_all add: attempts_ok_def)

lemma rows_ok_frame [simp]:
  "rows_ok (s\<lparr>st_runs := x_runs\<rparr>) = rows_ok s"
  "rows_ok (s\<lparr>st_attempts := x_attempts\<rparr>) = rows_ok s"
  "rows_ok (s\<lparr>st_derivations := x_derivations\<rparr>) = rows_ok s"
  "rows_ok (s\<lparr>st_occurrences := x_occurrences\<rparr>) = rows_ok s"
  "rows_ok (s\<lparr>st_invalidations := x_invalidations\<rparr>) = rows_ok s"
  "rows_ok (s\<lparr>st_events := x_events\<rparr>) = rows_ok s"
  "rows_ok (s\<lparr>st_freshness := x_freshness\<rparr>) = rows_ok s"
  "rows_ok (s\<lparr>st_seq_runs := x_seq_runs\<rparr>) = rows_ok s"
  "rows_ok (s\<lparr>st_seq_attempts := x_seq_attempts\<rparr>) = rows_ok s"
  "rows_ok (s\<lparr>st_seq_events := x_seq_events\<rparr>) = rows_ok s"
  by (simp_all add: rows_ok_def)

lemma refs_ok_frame [simp]:
  "refs_ok (s\<lparr>st_runs := x_runs\<rparr>) = refs_ok s"
  "refs_ok (s\<lparr>st_derivations := x_derivations\<rparr>) = refs_ok s"
  "refs_ok (s\<lparr>st_invalidations := x_invalidations\<rparr>) = refs_ok s"
  "refs_ok (s\<lparr>st_events := x_events\<rparr>) = refs_ok s"
  "refs_ok (s\<lparr>st_freshness := x_freshness\<rparr>) = refs_ok s"
  "refs_ok (s\<lparr>st_seq_runs := x_seq_runs\<rparr>) = refs_ok s"
  "refs_ok (s\<lparr>st_seq_attempts := x_seq_attempts\<rparr>) = refs_ok s"
  "refs_ok (s\<lparr>st_seq_rows := x_seq_rows\<rparr>) = refs_ok s"
  "refs_ok (s\<lparr>st_seq_events := x_seq_events\<rparr>) = refs_ok s"
  by (simp_all add: refs_ok_def)

lemma occs_ok_frame [simp]:
  "occs_ok (s\<lparr>st_runs := x_runs\<rparr>) = occs_ok s"
  "occs_ok (s\<lparr>st_attempts := x_attempts\<rparr>) = occs_ok s"
  "occs_ok (s\<lparr>st_derivations := x_derivations\<rparr>) = occs_ok s"
  "occs_ok (s\<lparr>st_invalidations := x_invalidations\<rparr>) = occs_ok s"
  "occs_ok (s\<lparr>st_events := x_events\<rparr>) = occs_ok s"
  "occs_ok (s\<lparr>st_freshness := x_freshness\<rparr>) = occs_ok s"
  "occs_ok (s\<lparr>st_seq_runs := x_seq_runs\<rparr>) = occs_ok s"
  "occs_ok (s\<lparr>st_seq_attempts := x_seq_attempts\<rparr>) = occs_ok s"
  "occs_ok (s\<lparr>st_seq_rows := x_seq_rows\<rparr>) = occs_ok s"
  "occs_ok (s\<lparr>st_seq_events := x_seq_events\<rparr>) = occs_ok s"
  by (simp_all add: occs_ok_def)

lemma derivs_ok_frame [simp]:
  "derivs_ok (s\<lparr>st_runs := x_runs\<rparr>) = derivs_ok s"
  "derivs_ok (s\<lparr>st_attempts := x_attempts\<rparr>) = derivs_ok s"
  "derivs_ok (s\<lparr>st_rows := x_rows\<rparr>) = derivs_ok s"
  "derivs_ok (s\<lparr>st_occurrences := x_occurrences\<rparr>) = derivs_ok s"
  "derivs_ok (s\<lparr>st_invalidations := x_invalidations\<rparr>) = derivs_ok s"
  "derivs_ok (s\<lparr>st_events := x_events\<rparr>) = derivs_ok s"
  "derivs_ok (s\<lparr>st_freshness := x_freshness\<rparr>) = derivs_ok s"
  "derivs_ok (s\<lparr>st_seq_runs := x_seq_runs\<rparr>) = derivs_ok s"
  "derivs_ok (s\<lparr>st_seq_attempts := x_seq_attempts\<rparr>) = derivs_ok s"
  "derivs_ok (s\<lparr>st_seq_rows := x_seq_rows\<rparr>) = derivs_ok s"
  "derivs_ok (s\<lparr>st_seq_events := x_seq_events\<rparr>) = derivs_ok s"
  by (simp_all add: derivs_ok_def)

lemma events_ok_frame [simp]:
  "events_ok (s\<lparr>st_runs := x_runs\<rparr>) = events_ok s"
  "events_ok (s\<lparr>st_attempts := x_attempts\<rparr>) = events_ok s"
  "events_ok (s\<lparr>st_derivations := x_derivations\<rparr>) = events_ok s"
  "events_ok (s\<lparr>st_rows := x_rows\<rparr>) = events_ok s"
  "events_ok (s\<lparr>st_occurrences := x_occurrences\<rparr>) = events_ok s"
  "events_ok (s\<lparr>st_invalidations := x_invalidations\<rparr>) = events_ok s"
  "events_ok (s\<lparr>st_freshness := x_freshness\<rparr>) = events_ok s"
  "events_ok (s\<lparr>st_seq_runs := x_seq_runs\<rparr>) = events_ok s"
  "events_ok (s\<lparr>st_seq_attempts := x_seq_attempts\<rparr>) = events_ok s"
  "events_ok (s\<lparr>st_seq_rows := x_seq_rows\<rparr>) = events_ok s"
  by (simp_all add: events_ok_def)

subsection \<open>Growth\<close>

definition same_run :: "run \<Rightarrow> run \<Rightarrow> bool" where
  "same_run r q \<longleftrightarrow> r_id q = r_id r \<and> r_target_id q = r_target_id r
     \<and> r_scheduled_for q = r_scheduled_for r \<and> r_origin q = r_origin r
     \<and> r_created_at q = r_created_at r \<and> r_fence r \<le> r_fence q"

definition same_attempt :: "run_attempt \<Rightarrow> run_attempt \<Rightarrow> bool" where
  "same_attempt a b \<longleftrightarrow> a_id b = a_id a \<and> a_run_id b = a_run_id a \<and> a_kind b = a_kind a"

definition store_grows :: "memory_store \<Rightarrow> memory_store \<Rightarrow> bool" where
  "store_grows s t \<longleftrightarrow>
     (\<forall>i r. dget (st_runs s) i = Some r \<longrightarrow> (\<exists>q. dget (st_runs t) i = Some q \<and> same_run r q))
     \<and> (\<forall>i a. dget (st_attempts s) i = Some a \<longrightarrow> (\<exists>b. dget (st_attempts t) i = Some b \<and> same_attempt a b))
     \<and> dget (st_rows s) \<subseteq>\<^sub>m dget (st_rows t)
     \<and> (\<forall>i d. dget (st_occurrences s) i = Some d \<longrightarrow>
          (\<exists>e. dget (st_occurrences t) i = Some e \<and> dget d \<subseteq>\<^sub>m dget e))
     \<and> dget (st_derivations s) \<subseteq>\<^sub>m dget (st_derivations t)
     \<and> dget (st_invalidations s) \<subseteq>\<^sub>m dget (st_invalidations t)
     \<and> dget (st_events s) \<subseteq>\<^sub>m dget (st_events t)"

lemma same_run_refl [simp]: "same_run r r"
  by (simp add: same_run_def)

lemma same_attempt_refl [simp]: "same_attempt a a"
  by (simp add: same_attempt_def)

lemma store_grows_refl [simp]: "store_grows s s"
  by (auto simp: store_grows_def)

lemma store_grows_trans:
  assumes "store_grows s t" and "store_grows t u"
  shows "store_grows s u"
proof -
  have r: "same_run x y \<Longrightarrow> same_run y z \<Longrightarrow> same_run x z" for x y z
    by (auto simp: same_run_def)
  have a: "same_attempt x y \<Longrightarrow> same_attempt y z \<Longrightarrow> same_attempt x z" for x y z
    by (auto simp: same_attempt_def)
  show ?thesis
    using assms unfolding store_grows_def
    by (intro conjI) (meson r a map_le_trans)+
qed

lemma store_grows_run:
  "store_grows s t \<Longrightarrow> dget (st_runs s) i = Some r \<Longrightarrow> \<exists>q. dget (st_runs t) i = Some q \<and> same_run r q"
  by (auto simp: store_grows_def)

lemma store_grows_row: "store_grows s t \<Longrightarrow> dget (st_rows s) i = Some r \<Longrightarrow> dget (st_rows t) i = Some r"
  by (auto simp: store_grows_def dest: map_leD)

subsection \<open>Writing one run or one attempt\<close>

lemma runs_update_ok:
  assumes "store_ok s" and "dget (st_runs s) i = Some r" and "same_run r q"
  shows "store_ok (s\<lparr>st_runs := dset i q (st_runs s)\<rparr>)"
    and "store_grows s (s\<lparr>st_runs := dset i q (st_runs s)\<rparr>)"
proof -
  let ?s = "s\<lparr>st_runs := dset i q (st_runs s)\<rparr>"
  note p = store_okD [OF assms(1)]
  have old: "\<exists>y. dget (st_runs s) k = Some y \<and> r_id x = r_id y \<and> r_target_id x = r_target_id y
      \<and> r_scheduled_for x = r_scheduled_for y" if "dget (st_runs ?s) k = Some x" for k x
    using that assms(2,3) by (auto simp: same_run_def split: if_splits)
  have "runs_ok ?s"
    unfolding runs_ok_def
  proof (intro conjI allI impI)
    show "distinct (dkeys (st_runs ?s))" using p(1) by (simp add: runs_ok_def)
    show "r_id x = k" "k \<le> st_seq_runs ?s" if "dget (st_runs ?s) k = Some x" for k x
      using old [OF that] p(1) by (auto simp: runs_ok_def)
    show "k = j" if "dget (st_runs ?s) k = Some x \<and> dget (st_runs ?s) j = Some y
        \<and> r_target_id x = r_target_id y \<and> r_scheduled_for x = r_scheduled_for y" for k x j y
      using old [of k x] old [of j y] that p(1) unfolding runs_ok_def by metis
  qed
  moreover have "attempts_ok ?s"
    using p(1,2) assms(2,3) unfolding attempts_ok_def by (fastforce simp: same_run_def split: if_splits)
  ultimately show "store_ok ?s" using p by (simp add: store_ok_def)
  show "store_grows s ?s" using assms(2,3) by (auto simp: store_grows_def)
qed

lemma put_attempt_ok:
  assumes "store_ok s" and "dget (st_attempts s) (a_id a) = Some b" and "same_attempt b a"
    and "\<And>f r. a_fence a = Some f \<Longrightarrow> dget (st_runs s) (a_run_id a) = Some r \<Longrightarrow> f \<le> r_fence r"
  shows "store_ok (put_attempt a s)" and "store_grows s (put_attempt a s)"
proof -
  note p = store_okD [OF assms(1)]
  have "attempts_ok (put_attempt a s)"
    using p(2) assms(2-4) unfolding attempts_ok_def put_attempt_def
    by (auto simp: same_attempt_def split: if_splits) (metis assms(4))
  moreover have "refs_ok (put_attempt a s)"
    using p(4) by (auto simp: refs_ok_def put_attempt_def; metis domI domD)
  ultimately show "store_ok (put_attempt a s)" using p by (simp add: store_ok_def put_attempt_def)
  show "store_grows s (put_attempt a s)" using assms(2,3) by (auto simp: store_grows_def put_attempt_def)
qed

lemma add_attempt_ok:
  assumes "store_ok s" and "a_id a = Suc (st_seq_attempts s)"
    and "dget (st_runs s) (a_run_id a) = Some r" and "\<And>f. a_fence a = Some f \<Longrightarrow> f \<le> r_fence r"
  shows "store_ok (put_attempt a (next_attempt s))" and "store_grows s (put_attempt a (next_attempt s))"
proof -
  let ?s = "put_attempt a (next_attempt s)"
  note p = store_okD [OF assms(1)]
  have new: "dget (st_attempts s) (Suc (st_seq_attempts s)) = None"
  proof (rule ccontr)
    assume "dget (st_attempts s) (Suc (st_seq_attempts s)) \<noteq> None"
    then obtain b where "dget (st_attempts s) (Suc (st_seq_attempts s)) = Some b" by blast
    with p(2) have "Suc (st_seq_attempts s) \<le> st_seq_attempts s" unfolding attempts_ok_def by blast
    then show False by simp
  qed
  have "attempts_ok ?s"
    using p(2) assms(2-4) unfolding attempts_ok_def put_attempt_def next_attempt_def
    by (auto split: if_splits intro: le_SucI)
  moreover have "refs_ok ?s"
    using p(4) by (auto simp: refs_ok_def put_attempt_def next_attempt_def; metis domI domD)
  ultimately show "store_ok ?s"
    using p by (simp add: store_ok_def put_attempt_def next_attempt_def)
  show "store_grows s ?s"
    using new assms(2) by (auto simp: store_grows_def put_attempt_def next_attempt_def)
qed

subsection \<open>Runs\<close>

lemma runs_ok_mem:
  assumes "runs_ok s"
  shows "r \<in> set (dvalues (st_runs s)) \<longleftrightarrow> dget (st_runs s) (r_id r) = Some r"
proof -
  have d: "distinct (dkeys (st_runs s))" using assms by (simp add: runs_ok_def)
  have "dget (st_runs s) k = Some r \<Longrightarrow> r_id r = k" for k using assms by (simp add: runs_ok_def)
  with dvalues_iff [OF d, of r] show ?thesis by auto
qed

lemma runs_ok_unique:
  "runs_ok s \<Longrightarrow> dget (st_runs s) i = Some r \<Longrightarrow> dget (st_runs s) j = Some q
   \<Longrightarrow> r_target_id r = r_target_id q \<Longrightarrow> r_scheduled_for r = r_scheduled_for q \<Longrightarrow> r = q"
  unfolding runs_ok_def by (metis option.inject)

lemma find_run_Some_iff:
  assumes "runs_ok s"
  shows "find_run s target scheduled = Some r \<longleftrightarrow>
    dget (st_runs s) (r_id r) = Some r \<and> r_target_id r = target \<and> r_scheduled_for r = scheduled"
    (is "?l \<longleftrightarrow> ?r")
proof
  assume ?l
  then have "r \<in> set (dvalues (st_runs s)) \<and> r_target_id r = target \<and> r_scheduled_for r = scheduled"
    unfolding find_run_def by (rule next_find_SomeD)
  then show ?r using runs_ok_mem [OF assms] by simp
next
  assume r: ?r
  then have "r \<in> set (dvalues (st_runs s))" using runs_ok_mem [OF assms] by simp
  with r have "find_run s target scheduled \<noteq> None" unfolding find_run_def find_None_iff_all by blast
  then obtain q where q: "find_run s target scheduled = Some q" by blast
  then have "q \<in> set (dvalues (st_runs s)) \<and> r_target_id q = target \<and> r_scheduled_for q = scheduled"
    unfolding find_run_def by (rule next_find_SomeD)
  then have "q = r"
    using runs_ok_mem [OF assms] runs_ok_unique [OF assms, of "r_id q" q "r_id r" r] r by simp
  with q show ?l by simp
qed

lemma find_run_None_iff:
  assumes "runs_ok s"
  shows "find_run s target scheduled = None \<longleftrightarrow>
    (\<forall>i r. dget (st_runs s) i = Some r \<longrightarrow> \<not> (r_target_id r = target \<and> r_scheduled_for r = scheduled))"
proof -
  have "distinct (dkeys (st_runs s))" using assms by (simp add: runs_ok_def)
  then have "x \<in> set (dvalues (st_runs s)) \<longleftrightarrow> (\<exists>i. dget (st_runs s) i = Some x)" for x
    by (rule dvalues_iff)
  then show ?thesis unfolding find_run_def find_None_iff_all by blast
qed

lemma new_run_ok:
  assumes "store_ok s" and "find_run s (r_target_id r) (r_scheduled_for r) = None"
    and "r_id r = Suc (st_seq_runs s)"
  shows "store_ok (put_run r (s\<lparr>st_seq_runs := Suc (st_seq_runs s)\<rparr>))"
    and "store_grows s (put_run r (s\<lparr>st_seq_runs := Suc (st_seq_runs s)\<rparr>))"
proof -
  let ?s = "put_run r (s\<lparr>st_seq_runs := Suc (st_seq_runs s)\<rparr>)"
  note p = store_okD [OF assms(1)]
  have new: "dget (st_runs s) (Suc (st_seq_runs s)) = None"
  proof (rule ccontr)
    assume "dget (st_runs s) (Suc (st_seq_runs s)) \<noteq> None"
    then have "Suc (st_seq_runs s) \<le> st_seq_runs s" using p(1) unfolding runs_ok_def by blast
    then show False by simp
  qed
  have fresh: "\<not> (r_target_id q = r_target_id r \<and> r_scheduled_for q = r_scheduled_for r)"
    if "dget (st_runs s) i = Some q" for i q
    using that assms(2) find_run_None_iff [OF p(1)] by blast
  have "runs_ok ?s"
    unfolding runs_ok_def
  proof (intro conjI allI impI)
    show "distinct (dkeys (st_runs ?s))" using p(1) by (simp add: runs_ok_def put_run_def)
    show "r_id x = k" "k \<le> st_seq_runs ?s" if "dget (st_runs ?s) k = Some x" for k x
      using that p(1) assms(3) by (auto simp: runs_ok_def put_run_def split: if_splits intro: le_SucI)
    show "k = j" if "dget (st_runs ?s) k = Some x \<and> dget (st_runs ?s) j = Some y
        \<and> r_target_id x = r_target_id y \<and> r_scheduled_for x = r_scheduled_for y" for k x j y
    proof -
      consider "k = r_id r" "j = r_id r" | "k = r_id r" "j \<noteq> r_id r" | "k \<noteq> r_id r" "j = r_id r"
        | "k \<noteq> r_id r" "j \<noteq> r_id r" by blast
      then show ?thesis
      proof cases
        case 2
        with that fresh [of j y] show ?thesis by (simp add: put_run_def)
      next
        case 3
        with that fresh [of k x] show ?thesis by (simp add: put_run_def)
      next
        case 4
        with that p(1) show ?thesis unfolding runs_ok_def put_run_def by (simp, metis)
      qed simp
    qed
  qed
  moreover have "attempts_ok ?s"
    using p(2) new assms(3) unfolding attempts_ok_def put_run_def by fastforce
  ultimately show "store_ok ?s" using p by (simp add: store_ok_def put_run_def)
  show "store_grows s ?s" using new assms(3) by (auto simp: store_grows_def put_run_def)
qed

lemma ensure_run_ok:
  assumes "store_ok s" and "ensure_run s target scheduled state origin capture now = (r, t)"
  shows "store_ok t" and "store_grows s t"
    and "dget (st_runs t) (r_id r) = Some r" and "r_target_id r = target" and "r_scheduled_for r = scheduled"
proof -
  note p = store_okD [OF assms(1)]
  have "store_ok t \<and> store_grows s t \<and> dget (st_runs t) (r_id r) = Some r
      \<and> r_target_id r = target \<and> r_scheduled_for r = scheduled"
  proof (cases "find_run s target scheduled")
    case None
    with assms(2) have r: "r_id r = Suc (st_seq_runs s)" "r_target_id r = target"
      "r_scheduled_for r = scheduled" and t: "t = put_run r (s\<lparr>st_seq_runs := Suc (st_seq_runs s)\<rparr>)"
      by (auto simp: ensure_run_def Let_def)
    with None new_run_ok [OF assms(1), of r] show ?thesis by (simp add: put_run_def)
  next
    case (Some e)
    then have e: "dget (st_runs s) (r_id e) = Some e" "r_target_id e = target" "r_scheduled_for e = scheduled"
      using find_run_Some_iff [OF p(1)] by auto
    show ?thesis
    proof (cases "state = RS_captured \<and> r_state e \<noteq> RS_processed \<and> r_capture_id e = None")
      case True
      with Some assms(2) have "r = e\<lparr>r_state := RS_captured, r_capture_id := capture, r_updated_at := now\<rparr>"
        and "t = put_run r s" by (auto simp: ensure_run_def Let_def)
      moreover have "same_run e (e\<lparr>r_state := RS_captured, r_capture_id := capture, r_updated_at := now\<rparr>)"
        by (simp add: same_run_def)
      ultimately show ?thesis
        using runs_update_ok [OF assms(1) e(1)] e by (auto simp: put_run_def)
    next
      case False
      with Some assms(2) have "r = e" "t = s" by (auto simp: ensure_run_def)
      with assms(1) e show ?thesis by simp
    qed
  qed
  then show "store_ok t" and "store_grows s t" and "dget (st_runs t) (r_id r) = Some r"
    and "r_target_id r = target" and "r_scheduled_for r = scheduled" by auto
qed

lemma set_state_ok:
  assumes "store_ok s" and "set_state s i state now = Inr (r, t)"
  shows "store_ok t" and "store_grows s t"
proof -
  from assms(2) obtain q where q: "dget (st_runs s) i = Some q"
    and t: "t = s\<lparr>st_runs := dset i (q\<lparr>r_state := state, r_updated_at := now\<rparr>) (st_runs s)\<rparr>"
    by (auto simp: set_state_def Let_def split: option.splits)
  have "same_run q (q\<lparr>r_state := state, r_updated_at := now\<rparr>)" by (simp add: same_run_def)
  with runs_update_ok [OF assms(1) q] t show "store_ok t" and "store_grows s t" by auto
qed

lemma mark_recaptured_ok:
  assumes "store_ok s" and "mark_recaptured s i capture now = Inr (r, t)"
  shows "store_ok t" and "store_grows s t" and "dget (st_runs t) i = Some r"
    and "\<exists>q. dget (st_runs s) i = Some q \<and> r_fence r = Suc (r_fence q)"
proof -
  from assms(2) obtain q where q: "dget (st_runs s) i = Some q"
    and r: "r = q\<lparr>r_state := RS_captured, r_capture_id := Some capture, r_fence := r_fence q + 1,
             r_lease_owner := None, r_lease_until := None, r_updated_at := now\<rparr>"
    and t: "t = s\<lparr>st_runs := dset i r (st_runs s)\<rparr>"
    by (auto simp: mark_recaptured_def Let_def split: option.splits)
  have "same_run q r" by (simp add: same_run_def r)
  with runs_update_ok [OF assms(1) q] t show "store_ok t" and "store_grows s t" by auto
  show "dget (st_runs t) i = Some r" by (simp add: t)
  show "\<exists>q. dget (st_runs s) i = Some q \<and> r_fence r = Suc (r_fence q)" using q r by simp
qed

lemma renew_ok:
  assumes "store_ok s" and "renew s c ttl now = Inr (b, t)"
  shows "store_ok t" and "store_grows s t"
proof -
  from assms(2) obtain q where q: "dget (st_runs s) (r_id (cl_run c)) = Some q"
    by (auto simp: renew_def split: option.splits)
  with store_okD(1) [OF assms(1)] have id: "r_id q = r_id (cl_run c)" by (simp add: runs_ok_def)
  have "same_run q (q\<lparr>r_lease_until := Some (now + ttl), r_updated_at := now\<rparr>)" by (simp add: same_run_def)
  with runs_update_ok [OF assms(1) q] assms q id show "store_ok t" and "store_grows s t"
    by (auto simp: renew_def split: if_splits)
qed

end
