(* ===== verification/Store_Claim.thy ===== *)
theory Store_Claim
  imports Store_Invariant
begin

text \<open>
  Claiming a run: the loop that closes expired replay attempts, the adoption of a waiting replay
  attempt, the new fence and lease. A claim keeps the invariant and only adds to the store.
\<close>

subsection \<open>Claims\<close>

definition closable :: "memory_store \<Rightarrow> run_attempt \<Rightarrow> bool" where
  "closable s a \<longleftrightarrow> (\<exists>b. dget (st_attempts s) (a_id a) = Some b \<and> same_attempt b a)
     \<and> (\<forall>f r. a_fence a = Some f \<longrightarrow> dget (st_runs s) (a_run_id a) = Some r \<longrightarrow> f \<le> r_fence r)"

lemma closable_put: "closable s a \<Longrightarrow> closable s b \<Longrightarrow> closable (put_attempt b s) a"
  by (auto simp: closable_def put_attempt_def same_attempt_def)

lemma attempts_of_mem:
  assumes "attempts_ok s"
  shows "a \<in> set (attempts_of s i) \<longleftrightarrow> dget (st_attempts s) (a_id a) = Some a \<and> a_run_id a = i"
proof -
  have d: "distinct (dkeys (st_attempts s))" using assms by (simp add: attempts_ok_def)
  have "dget (st_attempts s) k = Some a \<Longrightarrow> a_id a = k" for k using assms by (simp add: attempts_ok_def)
  with dvalues_iff [OF d, of a] show ?thesis by (auto simp: attempts_of_def)
qed

lemma attempts_of_closable: "store_ok s \<Longrightarrow> a \<in> set (attempts_of s i) \<Longrightarrow> closable s a"
proof -
  assume ok: "store_ok s" and a: "a \<in> set (attempts_of s i)"
  note p = store_okD(2) [OF ok]
  from a have g: "dget (st_attempts s) (a_id a) = Some a" using attempts_of_mem [OF p] by simp
  then obtain r where "dget (st_runs s) (a_run_id a) = Some r" "\<forall>f. a_fence a = Some f \<longrightarrow> f \<le> r_fence r"
    using p unfolding attempts_ok_def by blast
  with g show "closable s a" by (simp add: closable_def)
qed

lemma close_expired_ok:
  assumes "store_ok s" and "\<And>a. a \<in> set as \<Longrightarrow> closable s a"
  shows "store_ok (close_expired now as s) \<and> store_grows s (close_expired now as s)
    \<and> st_runs (close_expired now as s) = st_runs s
    \<and> st_seq_attempts (close_expired now as s) = st_seq_attempts s"
  using assms
proof (induction as arbitrary: s)
  case Nil
  then show ?case by (simp add: close_expired_def)
next
  case (Cons a as)
  let ?a = "a\<lparr>a_outcome := Some AO_lost_lease, a_finished_at := Some now\<rparr>"
  let ?s = "if a_kind a = AK_replay \<and> expired a now then put_attempt ?a s else s"
  from Cons.prems(2) have a: "closable s a" by simp
  then have a': "closable s ?a" by (simp add: closable_def same_attempt_def)
  then obtain b where b: "dget (st_attempts s) (a_id ?a) = Some b" "same_attempt b ?a"
    and f: "\<And>f r. a_fence ?a = Some f \<Longrightarrow> dget (st_runs s) (a_run_id ?a) = Some r \<Longrightarrow> f \<le> r_fence r"
    by (auto simp: closable_def)
  have s: "store_ok ?s" "store_grows s ?s"
    using put_attempt_ok [OF Cons.prems(1) b f] Cons.prems(1) by simp_all
  have "\<And>x. x \<in> set as \<Longrightarrow> closable ?s x" using Cons.prems(2) a' by (simp add: closable_put)
  from Cons.IH [OF s(1) this] s(2)
  have "store_ok (close_expired now as ?s) \<and> store_grows s (close_expired now as ?s)
      \<and> st_runs (close_expired now as ?s) = st_runs ?s
      \<and> st_seq_attempts (close_expired now as ?s) = st_seq_attempts ?s"
    using store_grows_trans by blast
  moreover have "close_expired now (a # as) s = close_expired now as ?s"
    by (simp add: close_expired_def)
  ultimately show ?case by (simp add: put_attempt_def)
qed

lemma adopt_attempt_ok:
  assumes "store_ok s" and "dget (st_runs s) (r_id run) = Some run"
    and "adopt_attempt s run owner reopened now = (att, t)"
  shows "store_ok t" and "store_grows s t" and "st_runs t = st_runs s"
    and "dget (st_attempts t) (a_id att) = Some att" and "a_run_id att = r_id run"
    and "a_fence att = Some (r_fence run)" and "a_lease_owner att = Some owner"
    and "a_outcome att = None \<and> a_capture_id att = r_capture_id run"
proof -
  let ?found = "find (\<lambda>a. a_kind a = AK_replay \<and> pending a) (attempts_of s (r_id run))"
  let ?lease = "\<lambda>a. a\<lparr>a_lease_owner := Some owner, a_lease_until := r_lease_until run,
      a_fence := Some (r_fence run), a_capture_id := r_capture_id run, a_started_at := now\<rparr>"
  have "store_ok t \<and> store_grows s t \<and> st_runs t = st_runs s
      \<and> dget (st_attempts t) (a_id att) = Some att \<and> a_run_id att = r_id run
      \<and> a_fence att = Some (r_fence run) \<and> a_lease_owner att = Some owner
      \<and> a_outcome att = None \<and> a_capture_id att = r_capture_id run"
  proof (cases ?found)
    case None
    then have "att = (if reopened then ?lease (new_attempt s (r_id run) AK_replay None None None
              (r_capture_id run) None None now None)
            else new_attempt s (r_id run) AK_process (Some owner) (r_lease_until run)
              (Some (r_fence run)) (r_capture_id run) None None now None)"
      and t: "t = put_attempt att (next_attempt s)"
      using assms(3) by (auto simp: adopt_attempt_def Let_def split: if_splits)
    then have att: "a_id att = Suc (st_seq_attempts s)" "a_run_id att = r_id run"
      "a_fence att = Some (r_fence run)" "a_lease_owner att = Some owner" "a_outcome att = None"
      "a_capture_id att = r_capture_id run"
      by (auto simp: new_attempt_def)
    have "store_ok t" "store_grows s t"
      unfolding t using assms(2) att by (auto intro!: add_attempt_ok [OF assms(1), of att run])
    with att show ?thesis by (simp add: t put_attempt_def next_attempt_def)
  next
    case (Some a)
    then have att: "att = ?lease a" and t: "t = put_attempt att s"
      using assms(3) by (auto simp: adopt_attempt_def Let_def)
    from Some have "a \<in> set (attempts_of s (r_id run)) \<and> a_kind a = AK_replay \<and> pending a"
      by (rule next_find_SomeD)
    then have a: "dget (st_attempts s) (a_id a) = Some a" "a_run_id a = r_id run" "a_outcome a = None"
      using attempts_of_mem [OF store_okD(2) [OF assms(1)]] by (auto simp: pending_def)
    have "dget (st_attempts s) (a_id att) = Some a" "same_attempt a att"
      and "\<And>f r. a_fence att = Some f \<Longrightarrow> dget (st_runs s) (a_run_id att) = Some r \<Longrightarrow> f \<le> r_fence r"
      using a assms(2) by (auto simp: att same_attempt_def)
    from put_attempt_ok [OF assms(1) this] have "store_ok t" "store_grows s t" by (simp_all add: t)
    with a show ?thesis by (simp add: t att put_attempt_def)
  qed
  then show "store_ok t" and "store_grows s t" and "st_runs t = st_runs s"
    and "dget (st_attempts t) (a_id att) = Some att" and "a_run_id att = r_id run"
    and "a_fence att = Some (r_fence run)" and "a_lease_owner att = Some owner"
    and "a_outcome att = None \<and> a_capture_id att = r_capture_id run" by auto
qed

text \<open>What a successful claim is and what it does to the store.\<close>
lemma claim_run_ok:
  assumes "store_ok s" and "claim_run s i owner ttl now = Inr (Some c, t)"
  shows "store_ok t" and "store_grows s t"
    and "dget (st_runs t) i = Some (cl_run c)" and "cl_fence c = r_fence (cl_run c)"
    and "dget (st_attempts t) (a_id (cl_attempt c)) = Some (cl_attempt c)"
    and "a_run_id (cl_attempt c) = i" and "r_id (cl_run c) = i"
    and "\<exists>r. dget (st_runs s) i = Some r \<and> \<not> lease_held r now \<and> cl_fence c = Suc (r_fence r)"
proof -
  note p = store_okD [OF assms(1)]
  obtain r where r: "dget (st_runs s) i = Some r" "\<not> lease_held r now"
    using assms(2) by (auto simp: claim_run_def split: option.splits if_splits)
  define run where "run = r\<lparr>r_fence := r_fence r + 1, r_lease_owner := Some owner,
      r_lease_until := Some (now + ttl), r_updated_at := now\<rparr>"
  define s1 where "s1 = s\<lparr>st_runs := dset i run (st_runs s)\<rparr>"
  define s2 where "s2 = close_expired now (attempts_of s1 i) s1"
  obtain att where ad: "adopt_attempt s2 run owner
        (list_ex (\<lambda>a. a_kind a = AK_replay \<and> expired a now) (attempts_of s1 i)) now = (att, t)"
    and c: "c = \<lparr>cl_run = run, cl_fence = r_fence run, cl_attempt = att\<rparr>"
    using assms(2) r by (auto simp: claim_run_def Let_def run_def s1_def s2_def split: prod.splits)
  have id: "r_id run = i" using r(1) p(1) by (simp add: run_def runs_ok_def)
  have "same_run r run" by (simp add: run_def same_run_def)
  then have s1: "store_ok s1" "store_grows s s1"
    unfolding s1_def using runs_update_ok [OF assms(1) r(1)] by auto
  have s2: "store_ok s2" "store_grows s1 s2" "st_runs s2 = st_runs s1"
    unfolding s2_def using close_expired_ok [OF s1(1)] attempts_of_closable [OF s1(1)] by auto
  have run2: "dget (st_runs s2) (r_id run) = Some run" by (simp add: s2(3) s1_def id)
  note ad' = adopt_attempt_ok [OF s2(1) run2 ad]
  show "store_ok t" by (rule ad'(1))
  show "store_grows s t" using s1(2) s2(2) ad'(2) store_grows_trans by blast
  show "dget (st_runs t) i = Some (cl_run c)" using run2 ad'(3) id by (simp add: c)
  show "cl_fence c = r_fence (cl_run c)" by (simp add: c)
  show "dget (st_attempts t) (a_id (cl_attempt c)) = Some (cl_attempt c)" using ad'(4) by (simp add: c)
  show "a_run_id (cl_attempt c) = i" "r_id (cl_run c) = i" using ad'(5) id by (simp_all add: c)
  show "\<exists>r. dget (st_runs s) i = Some r \<and> \<not> lease_held r now \<and> cl_fence c = Suc (r_fence r)"
    using r by (simp add: c run_def)
qed

lemma claim_run_None: "claim_run s i owner ttl now = Inr (None, t) \<Longrightarrow> t = s"
  by (auto simp: claim_run_def Let_def split: option.splits if_splits prod.splits)

end
