(* ===== verification/Store_Commit.thy ===== *)
theory Store_Commit
  imports Store_Claim
begin

text \<open>
  The Silver side of \<open>commit\<close>: the insertion loop against its abstract specification. The abstract
  Silver state is the set of pairs (version identity, fetch instant) that have been observed; a commit
  adds the pairs of its observations and nothing else, whatever was there. Counts, idempotence and the
  preservation of the store invariant follow from one lemma about one iteration of the loop.
\<close>

subsection \<open>The index of stored versions\<close>

definition indexes :: "(version_id, nat) dict \<Rightarrow> memory_store \<Rightarrow> bool" where
  "indexes ex s \<longleftrightarrow> (\<forall>v i. dget ex v = Some i \<longleftrightarrow>
     (\<exists>r. dget (st_rows s) i = Some r \<and> version_identity (so_observation r) = v))"

lemma index_fold:
  assumes "\<And>i r j q. (i, r) \<in> set xs \<Longrightarrow> (j, q) \<in> set xs \<Longrightarrow> f r = f q \<Longrightarrow> i = j"
  shows "dget (foldl (\<lambda>d (k, r). dset (f r) k d) [] xs) v = Some i \<longleftrightarrow> (\<exists>r. (i, r) \<in> set xs \<and> f r = v)"
  using assms
proof (induction xs rule: rev_induct)
  case (snoc x xs)
  obtain k r where x: "x = (k, r)" by (cases x)
  have "dget (foldl (\<lambda>d (k, r). dset (f r) k d) [] xs) v = Some i
      \<longleftrightarrow> (\<exists>r. (i, r) \<in> set xs \<and> f r = v)"
    using snoc.prems by (intro snoc.IH) auto
  with snoc.prems [of _ _ k r] show ?case by (auto simp: x)
qed simp

lemma existing_versions_index:
  assumes "rows_ok s"
  shows "indexes (existing_versions s) s"
proof -
  note d = dget_in_iff [OF conjunct1 [OF assms [unfolded rows_ok_def]]]
  have "i = j" if "(i, r) \<in> set (st_rows s)" "(j, q) \<in> set (st_rows s)"
      "version_identity (so_observation r) = version_identity (so_observation q)" for i r j q
    using that assms unfolding d rows_ok_def by blast
  then show ?thesis
    unfolding indexes_def existing_versions_def
    by (subst index_fold [where f = "\<lambda>r. version_identity (so_observation r)"]) (auto simp: d)
qed

lemma indexes_new:
  assumes "indexes ex s" and "dget (st_rows s) k = None"
    and "dget ex (version_identity (so_observation r)) = None"
    and "st_rows t = dset k r (st_rows s)"
  shows "indexes (dset (version_identity (so_observation r)) k ex) t"
  unfolding indexes_def
proof (intro allI)
  fix v i
  have ix: "dget ex v = Some i \<longleftrightarrow> (\<exists>r. dget (st_rows s) i = Some r
      \<and> version_identity (so_observation r) = v)" for v i
    using assms(1) unfolding indexes_def by blast
  show "dget (dset (version_identity (so_observation r)) k ex) v = Some i \<longleftrightarrow>
      (\<exists>r. dget (st_rows t) i = Some r \<and> version_identity (so_observation r) = v)"
    using ix [of v i] assms(2-4) by (cases "v = version_identity (so_observation r)"; cases "i = k") auto
qed

subsection \<open>One observation\<close>

text \<open>The abstract Silver state.\<close>
definition seen_at :: "memory_store \<Rightarrow> nat \<Rightarrow> instant \<Rightarrow> bool" where
  "seen_at s i t \<longleftrightarrow> (case dget (st_occurrences s) i of None \<Rightarrow> False | Some d \<Rightarrow> dget d t \<noteq> None)"

definition silver :: "memory_store \<Rightarrow> (version_id \<times> instant) set" where
  "silver s = {(v, t). \<exists>i r. dget (st_rows s) i = Some r \<and> version_identity (so_observation r) = v
     \<and> seen_at s i t}"

definition observed :: "energy_observation \<Rightarrow> version_id \<times> instant" where
  "observed o' = (version_identity o', fetched_at o')"

text \<open>The rows of one store that the other does not have were all written for one attempt from a
  list of observations.\<close>
definition rows_from :: "memory_store \<Rightarrow> memory_store \<Rightarrow> nat \<Rightarrow> energy_observation list \<Rightarrow> bool" where
  "rows_from s t attempt os \<longleftrightarrow> (\<forall>i r. dget (st_rows t) i = Some r \<longrightarrow> dget (st_rows s) i = Some r
     \<or> so_run_attempt_id r = attempt \<and> so_observation r \<in> set os)"

definition acc_ok :: "commit_acc \<Rightarrow> bool" where
  "acc_ok acc \<longleftrightarrow> store_ok (ca_store acc) \<and> indexes (ca_existing acc) (ca_store acc)"

lemma dom_if_Some: "dom (\<lambda>x. if x = k then Some v else f x) = insert k (dom f)"
  by (auto simp: dom_def)

lemma pair_set_insert:
  assumes "\<And>v u. (v, u) \<in> A \<longleftrightarrow> (v, u) \<in> B \<or> v = a \<and> u = b"
  shows "A = B \<union> {(a, b)}"
  using assms by (intro set_eqI) (auto simp: split_paired_all)

lemma silver_iff:
  "(v, t) \<in> silver s \<longleftrightarrow> (\<exists>i r. dget (st_rows s) i = Some r
     \<and> version_identity (so_observation r) = v \<and> seen_at s i t)"
  by (simp add: silver_def)

lemma seen_at_simps [simp]:
  "seen_at (s\<lparr>st_occurrences := dset k d (st_occurrences s)\<rparr>) i t
     = (if i = k then dget d t \<noteq> None else seen_at s i t)"
  "seen_at (s\<lparr>st_rows := rs\<rparr>) i t = seen_at s i t"
  "seen_at (s\<lparr>st_seq_rows := n\<rparr>) i t = seen_at s i t"
  by (simp_all add: seen_at_def)

lemma seen_at_grows:
  assumes "store_grows s t" and "seen_at s i x"
  shows "seen_at t i x"
proof -
  obtain d y where d: "dget (st_occurrences s) i = Some d" "dget d x = Some y"
    using assms(2) by (auto simp: seen_at_def split: option.splits)
  then obtain e where "dget (st_occurrences t) i = Some e" "dget d \<subseteq>\<^sub>m dget e"
    using assms(1) unfolding store_grows_def by blast
  with d show ?thesis by (simp add: seen_at_def map_leD)
qed

lemma silver_grows: "store_grows s t \<Longrightarrow> silver s \<subseteq> silver t"
  unfolding silver_def using seen_at_grows store_grows_row by blast

lemma silver_new_row:
  assumes "dget (st_rows s) k = None"
    and "t = s\<lparr>st_seq_rows := n, st_rows := dset k r (st_rows s),
           st_occurrences := dset k [(x, y)] (st_occurrences s)\<rparr>"
  shows "silver t = silver s \<union> {(version_identity (so_observation r), x)}"
proof -
  have "seen_at t i u = (if i = k then u = x else seen_at s i u)" for i u
    by (simp add: assms(2) seen_at_def)
  moreover have "dget (st_rows t) i = (if i = k then Some r else dget (st_rows s) i)" for i
    by (simp add: assms(2))
  ultimately have "(v, u) \<in> silver t \<longleftrightarrow> (v, u) \<in> silver s
      \<or> v = version_identity (so_observation r) \<and> u = x" for v u
    using assms(1) unfolding silver_iff by (metis option.distinct(1) option.inject)
  then show ?thesis by (rule pair_set_insert)
qed

lemma silver_occurrence:
  assumes "dget (st_rows s) k = Some r" and "dget (st_occurrences s) k = Some d"
    and "t = s\<lparr>st_occurrences := dset k (dset x y d) (st_occurrences s)\<rparr>"
  shows "silver t = silver s \<union> {(version_identity (so_observation r), x)}"
proof -
  have "seen_at t i u = (seen_at s i u \<or> i = k \<and> u = x)" for i u
    using assms(2) by (simp add: assms(3) seen_at_def)
  moreover have "st_rows t = st_rows s" by (simp add: assms(3))
  ultimately have "(v, u) \<in> silver t \<longleftrightarrow> (v, u) \<in> silver s
      \<or> v = version_identity (so_observation r) \<and> u = x" for v u
    using assms(1) unfolding silver_iff by (metis option.inject)
  then show ?thesis by (rule pair_set_insert)
qed

lemma new_row_ok:
  assumes "store_ok s" and "a \<in> dom (dget (st_attempts s))" and "k = Suc (st_seq_rows s)"
    and "\<forall>i q. dget (st_rows s) i = Some q \<longrightarrow>
           version_identity (so_observation q) \<noteq> version_identity o'"
    and "t = s\<lparr>st_seq_rows := k,
           st_rows := dset k \<lparr>so_id = k, so_run_attempt_id = a, so_observation = o'\<rparr> (st_rows s),
           st_occurrences := dset k [(x, (y, a))] (st_occurrences s)\<rparr>"
  shows "dget (st_rows s) k = None" and "dget (st_occurrences s) k = None"
    and "store_ok t" and "store_grows s t"
proof -
  note p = store_okD [OF assms(1)]
  show new: "dget (st_rows s) k = None"
  proof (rule ccontr)
    assume "dget (st_rows s) k \<noteq> None"
    then obtain r where "dget (st_rows s) k = Some r" by blast
    with p(3) have "k \<le> st_seq_rows s" unfolding rows_ok_def by blast
    with assms(3) show False by simp
  qed
  then have "k \<notin> dom (dget (st_occurrences s))" using p(5) unfolding occs_ok_def by blast
  then show newo: "dget (st_occurrences s) k = None" by blast
  have "rows_ok t"
    unfolding rows_ok_def
  proof (intro conjI allI impI)
    show "distinct (dkeys (st_rows t))" using p(3) by (simp add: assms(5) rows_ok_def)
    show "so_id r = i" "i \<le> st_seq_rows t" if "dget (st_rows t) i = Some r" for i r
      using that p(3) assms(3) by (auto simp: assms(5) rows_ok_def le_Suc_eq split: if_splits)
    show "i = j" if "dget (st_rows t) i = Some r \<and> dget (st_rows t) j = Some q
        \<and> version_identity (so_observation r) = version_identity (so_observation q)" for i r j q
    proof (cases "i = k \<or> j = k")
      case True
      with that assms(4) [rule_format, of i r] assms(4) [rule_format, of j q] show ?thesis
        by (auto simp: assms(5) split: if_splits)
    next
      case False
      with that p(3) show ?thesis unfolding rows_ok_def by (simp add: assms(5)) blast
    qed
  qed
  moreover have "refs_ok t" using p(4) assms(2) by (fastforce simp: refs_ok_def assms(5) split: if_splits)
  moreover have "occs_ok t" using p(5) by (simp add: occs_ok_def assms(5) dom_if_Some)
  ultimately show "store_ok t" using p by (simp add: store_ok_def assms(5))
  show "store_grows s t"
    using new newo by (auto simp: store_grows_def assms(5) map_le_def)
qed

lemma new_occurrence_ok:
  assumes "store_ok s" and "a \<in> dom (dget (st_attempts s))"
    and "dget (st_occurrences s) k = Some d" and "dget d x = None"
    and "t = s\<lparr>st_occurrences := dset k (dset x (y, a) d) (st_occurrences s)\<rparr>"
  shows "store_ok t" and "store_grows s t"
proof -
  note p = store_okD [OF assms(1)]
  have "refs_ok t"
    unfolding refs_ok_def
  proof (intro conjI allI impI)
    show "so_run_attempt_id r \<in> dom (dget (st_attempts t))" if "dget (st_rows t) i = Some r" for i r
      using that p(4) by (auto simp: refs_ok_def assms(5))
    show "snd z \<in> dom (dget (st_attempts t))"
      if "dget (st_occurrences t) i = Some e \<and> dget e u = Some z" for i e u z
    proof (cases "i = k \<and> u = x")
      case True
      with that assms(2) show ?thesis by (auto simp: assms(5))
    next
      case False
      with that assms(3) have "\<exists>e. dget (st_occurrences s) i = Some e \<and> dget e u = Some z"
        by (auto simp: assms(5) split: if_splits)
      with p(4) [unfolded refs_ok_def] have "snd z \<in> dom (dget (st_attempts s))" by blast
      then show ?thesis by (simp add: assms(5))
    qed
  qed
  moreover have "insert k (dom (dget (st_rows s))) = dom (dget (st_rows s))"
    using p(5) assms(3) by (auto simp: occs_ok_def)
  then have "occs_ok t" using p(5) assms(3) by (simp add: occs_ok_def assms(5) dom_if_Some)
  ultimately show "store_ok t" using p by (simp add: store_ok_def assms(5))
  show "store_grows s t"
    using assms(3,4) by (auto simp: store_grows_def assms(5) map_le_dset_new)
qed

text \<open>The loop writes rows and occurrences only.\<close>
definition silver_frame :: "memory_store \<Rightarrow> memory_store \<Rightarrow> bool" where
  "silver_frame s t \<longleftrightarrow> t = s\<lparr>st_rows := st_rows t, st_occurrences := st_occurrences t,
     st_seq_rows := st_seq_rows t\<rparr>"

lemma silver_frame_refl [simp]: "silver_frame s s"
  by (simp add: silver_frame_def)

lemma silver_frame_trans: "silver_frame s t \<Longrightarrow> silver_frame t u \<Longrightarrow> silver_frame s u"
  by (cases s; cases t; cases u) (simp add: silver_frame_def)

lemma silver_frameD:
  assumes "silver_frame s t"
  shows "st_runs t = st_runs s" "st_attempts t = st_attempts s" "st_derivations t = st_derivations s"
    "st_invalidations t = st_invalidations s" "st_events t = st_events s" "st_freshness t = st_freshness s"
  using assms by (cases s; cases t; simp add: silver_frame_def)+

lemma commit_row_frame: "silver_frame (ca_store acc) (ca_store (commit_row a o' acc))"
  by (simp add: silver_frame_def commit_row_def Let_def)

lemma commit_rows_frame: "silver_frame s (ca_store (commit_rows a os s))"
proof -
  have "silver_frame (ca_store acc) (ca_store (foldl (\<lambda>acc o'. commit_row a o' acc) acc os))" for acc
    by (induction os arbitrary: acc) (auto intro: silver_frame_trans commit_row_frame)
  then show ?thesis by (metis commit_rows_def commit_acc.select_convs(1))
qed

definition row_spec ::
    "nat \<Rightarrow> energy_observation list \<Rightarrow> commit_acc \<Rightarrow> commit_acc \<Rightarrow> bool" where
  "row_spec a os acc acc' \<longleftrightarrow> acc_ok acc' \<and> store_grows (ca_store acc) (ca_store acc')
     \<and> silver (ca_store acc') = silver (ca_store acc) \<union> observed ` set os
     \<and> rows_from (ca_store acc) (ca_store acc') a os
     \<and> silver_frame (ca_store acc) (ca_store acc')
     \<and> ca_inserted acc' + length (st_rows (ca_store acc)) = ca_inserted acc + length (st_rows (ca_store acc'))"

lemma commit_row_spec:
  assumes "acc_ok acc" and "a \<in> dom (dget (st_attempts (ca_store acc)))"
  shows "row_spec a [o'] acc (commit_row a o' acc)"
proof -
  define s where "s = ca_store acc"
  have ok: "store_ok s" and ix: "indexes (ca_existing acc) s" and a: "a \<in> dom (dget (st_attempts s))"
    using assms by (simp_all add: acc_ok_def s_def)
  note p = store_okD [OF ok]
  show ?thesis
  proof (cases "dget (ca_existing acc) (version_identity o')")
    case None
    define k where "k = Suc (st_seq_rows s)"
    define t where "t = s\<lparr>st_seq_rows := k,
        st_rows := dset k \<lparr>so_id = k, so_run_attempt_id = a, so_observation = o'\<rparr> (st_rows s),
        st_occurrences := dset k [(fetched_at o', (ordering_instant o', a))] (st_occurrences s)\<rparr>"
    have "\<forall>i q. dget (st_rows s) i = Some q \<longrightarrow> version_identity (so_observation q) \<noteq> version_identity o'"
      using ix None unfolding indexes_def by (metis option.distinct(1))
    note new = new_row_ok [OF ok a k_def this t_def]
    have acc': "commit_row a o' acc = acc\<lparr>ca_store := t,
        ca_existing := dset (version_identity o') k (ca_existing acc),
        ca_inserted := Suc (ca_inserted acc)\<rparr>"
      using None new(2) by (simp add: commit_row_def Let_def s_def [symmetric] k_def [symmetric] t_def)
    have "indexes (dset (version_identity o') k (ca_existing acc)) t"
      using indexes_new [OF ix new(1), of "\<lparr>so_id = k, so_run_attempt_id = a, so_observation = o'\<rparr>" t] None
      by (simp add: t_def)
    moreover have "silver t = silver s \<union> {observed o'}"
      using silver_new_row [OF new(1) t_def] by (simp add: observed_def)
    moreover have "rows_from s t a [o']" by (auto simp: rows_from_def t_def)
    moreover have "silver_frame s t" by (simp add: silver_frame_def t_def)
    ultimately show ?thesis
      using new by (simp add: row_spec_def acc' acc_ok_def s_def [symmetric] length_dset)
        (simp add: t_def length_dset)
  next
    case (Some i)
    then obtain r where r: "dget (st_rows s) i = Some r"
        "version_identity (so_observation r) = version_identity o'"
      using ix unfolding indexes_def by blast
    then have "i \<in> dom (dget (st_occurrences s))" using p(5) by (auto simp: occs_ok_def)
    then obtain d where d: "dget (st_occurrences s) i = Some d" by blast
    show ?thesis
    proof (cases "dget d (fetched_at o') = None")
      case True
      define t where "t = s\<lparr>st_occurrences :=
          dset i (dset (fetched_at o') (ordering_instant o', a) d) (st_occurrences s)\<rparr>"
      note new = new_occurrence_ok [OF ok a d True t_def]
      have acc': "commit_row a o' acc = acc\<lparr>ca_store := t, ca_occurrences := Suc (ca_occurrences acc)\<rparr>"
        using Some True d by (simp add: commit_row_def Let_def s_def [symmetric] t_def)
      have "indexes (ca_existing acc) t" using ix by (simp add: indexes_def t_def)
      moreover have "silver t = silver s \<union> {observed o'}"
        using silver_occurrence [OF r(1) d t_def] r(2) by (simp add: observed_def)
      ultimately show ?thesis
        using new by (simp add: row_spec_def acc' acc_ok_def s_def [symmetric])
          (simp add: t_def silver_frame_def rows_from_def)
    next
      case False
      then obtain y where "dget d (fetched_at o') = Some y" by blast
      then have same: "commit_row a o' acc = acc"
        using Some d dset_same [OF d] by (simp add: commit_row_def Let_def s_def [symmetric])
      have "observed o' \<in> silver s"
        using r d \<open>dget d (fetched_at o') = Some y\<close>
        unfolding observed_def silver_iff by (intro exI [of _ i] exI [of _ r]) (simp add: seen_at_def)
      with assms show ?thesis
        by (auto simp: same row_spec_def acc_ok_def s_def [symmetric] rows_from_def)
    qed
  qed
qed

lemma commit_row_known:
  assumes "acc_ok acc" and "observed o' \<in> silver (ca_store acc)"
  shows "commit_row a o' acc = acc"
proof -
  define s where "s = ca_store acc"
  obtain i r where r: "dget (st_rows s) i = Some r"
      "version_identity (so_observation r) = version_identity o'" "seen_at s i (fetched_at o')"
    using assms(2) by (auto simp: observed_def silver_iff s_def)
  then obtain d y where d: "dget (st_occurrences s) i = Some d" "dget d (fetched_at o') = Some y"
    by (auto simp: seen_at_def split: option.splits)
  have "dget (ca_existing acc) (version_identity o') = Some i"
    using assms(1) r unfolding acc_ok_def indexes_def s_def by blast
  with d dset_same [OF d(1)] show ?thesis
    by (simp add: commit_row_def Let_def s_def [symmetric])
qed

subsection \<open>The loop\<close>

lemma row_spec_refl: "acc_ok acc \<Longrightarrow> row_spec a [] acc acc"
  by (simp add: row_spec_def rows_from_def)

lemma row_spec_trans:
  assumes "row_spec a xs acc acc1" and "row_spec a ys acc1 acc2"
  shows "row_spec a (xs @ ys) acc acc2"
proof -
  have "rows_from (ca_store acc) (ca_store acc2) a (xs @ ys)"
    using assms unfolding row_spec_def rows_from_def by (simp, blast)
  with assms show ?thesis
    unfolding row_spec_def using store_grows_trans silver_frame_trans by (auto simp: image_Un)
qed

lemma commit_fold_spec:
  assumes "acc_ok acc" and "a \<in> dom (dget (st_attempts (ca_store acc)))"
  shows "row_spec a os acc (foldl (\<lambda>acc o'. commit_row a o' acc) acc os)"
  using assms
proof (induction os arbitrary: acc)
  case Nil
  then show ?case by (simp add: row_spec_refl)
next
  case (Cons o' os)
  note one = commit_row_spec [OF Cons.prems, of o']
  then have "acc_ok (commit_row a o' acc)" "silver_frame (ca_store acc) (ca_store (commit_row a o' acc))"
    by (simp_all add: row_spec_def)
  with Cons.prems(2) have "row_spec a os (commit_row a o' acc)
      (foldl (\<lambda>acc o'. commit_row a o' acc) (commit_row a o' acc) os)"
    by (intro Cons.IH) (simp_all add: silver_frameD(2))
  from row_spec_trans [OF one this] show ?case by simp
qed

lemma start_acc_ok:
  "store_ok s \<Longrightarrow> acc_ok \<lparr>ca_store = s, ca_existing = existing_versions s, ca_inserted = 0, ca_occurrences = 0\<rparr>"
  using existing_versions_index store_okD(3) by (simp add: acc_ok_def)

lemma commit_rows_spec:
  assumes "store_ok s" and "a \<in> dom (dget (st_attempts s))"
  shows "store_ok (ca_store (commit_rows a os s))" and "store_grows s (ca_store (commit_rows a os s))"
    and "silver (ca_store (commit_rows a os s)) = silver s \<union> observed ` set os"
    and "rows_from s (ca_store (commit_rows a os s)) a os"
    and "silver_frame s (ca_store (commit_rows a os s))"
    and "length (st_rows (ca_store (commit_rows a os s)))
           = length (st_rows s) + ca_inserted (commit_rows a os s)"
  using commit_fold_spec [OF start_acc_ok [OF assms(1)], of a os] assms(2)
  by (simp_all add: commit_rows_def row_spec_def acc_ok_def)

lemma commit_fold_known:
  assumes "acc_ok acc" and "\<forall>o' \<in> set os. observed o' \<in> silver (ca_store acc)"
  shows "foldl (\<lambda>acc o'. commit_row a o' acc) acc os = acc"
  using assms(2) by (induction os) (simp_all add: commit_row_known [OF assms(1)])

text \<open>Observations that are all there already change nothing.\<close>
lemma commit_rows_known:
  assumes "store_ok s" and "\<forall>o' \<in> set os. observed o' \<in> silver s"
  shows "ca_store (commit_rows a os s) = s \<and> ca_inserted (commit_rows a os s) = 0
    \<and> ca_occurrences (commit_rows a os s) = 0"
  using commit_fold_known [OF start_acc_ok [OF assms(1)], of os a] assms(2)
  by (simp add: commit_rows_def)

subsection \<open>Derivations and events\<close>

lemma register_derivation_ok:
  assumes "store_ok s" and "register_derivation s d now = (e, t)"
  shows "store_ok t" and "store_grows s t" and "dget (st_derivations t) (d_derivation_id d) = Some e"
    and "st_runs t = st_runs s" and "st_attempts t = st_attempts s" and "silver t = silver s"
    and "st_rows t = st_rows s"
proof -
  have "store_ok t \<and> store_grows s t \<and> dget (st_derivations t) (d_derivation_id d) = Some e
      \<and> st_runs t = st_runs s \<and> st_attempts t = st_attempts s \<and> silver t = silver s
      \<and> st_rows t = st_rows s"
  proof (cases "dget (st_derivations s) (d_derivation_id d)")
    case None
    with assms(2) have e: "e = d\<lparr>d_registered_at := Some now\<rparr>"
      and t: "t = s\<lparr>st_derivations := dset (d_derivation_id d) e (st_derivations s)\<rparr>"
      by (auto simp: register_derivation_def Let_def)
    have "derivs_ok t" using store_okD(6) [OF assms(1)] by (simp add: derivs_ok_def t e)
    then have "store_ok t" using store_okD [OF assms(1)] by (simp add: store_ok_def t)
    moreover have "store_grows s t" using None by (auto simp: store_grows_def t map_le_def)
    moreover have "silver t = silver s" by (simp add: silver_def seen_at_def t)
    ultimately show ?thesis by (simp add: t)
  next
    case (Some x)
    with assms show ?thesis by (simp add: register_derivation_def)
  qed
  then show "store_ok t" and "store_grows s t" and "dget (st_derivations t) (d_derivation_id d) = Some e"
    and "st_runs t = st_runs s" and "st_attempts t = st_attempts s" and "silver t = silver s"
    and "st_rows t = st_rows s" by auto
qed

definition event_frame :: "memory_store \<Rightarrow> memory_store \<Rightarrow> bool" where
  "event_frame s t \<longleftrightarrow> t = s\<lparr>st_events := st_events t, st_seq_events := st_seq_events t\<rparr>"

lemma event_frame_trans: "event_frame s t \<Longrightarrow> event_frame t u \<Longrightarrow> event_frame s u"
  by (cases s; cases t; cases u) (simp add: event_frame_def)

lemma event_frameD:
  assumes "event_frame s t"
  shows "st_runs t = st_runs s" "st_attempts t = st_attempts s" "st_derivations t = st_derivations s"
    "st_rows t = st_rows s" "st_occurrences t = st_occurrences s" "silver t = silver s"
  using assms by (cases s; cases t; simp add: event_frame_def silver_def seen_at_def)+

lemma add_event_frame: "event_frame s (add_event target attempt now e s)"
  by (simp add: event_frame_def add_event_def Let_def)

lemma add_events_frame: "event_frame s (snd (add_events s target es attempt now))"
proof (induction es arbitrary: s)
  case (Cons e es)
  from event_frame_trans [OF add_event_frame Cons] show ?case by (simp add: add_events_def)
qed (simp add: add_events_def event_frame_def)

lemma add_event_ok:
  assumes "store_ok s"
  shows "store_ok (add_event target attempt now e s)" and "store_grows s (add_event target attempt now e s)"
proof -
  let ?t = "add_event target attempt now e s"
  have new: "dget (st_events s) (Suc (st_seq_events s)) = None"
  proof (rule ccontr)
    assume "dget (st_events s) (Suc (st_seq_events s)) \<noteq> None"
    then obtain x where "dget (st_events s) (Suc (st_seq_events s)) = Some x" by blast
    with store_okD(7) [OF assms] have "Suc (st_seq_events s) \<le> st_seq_events s"
      unfolding events_ok_def by blast
    then show False by simp
  qed
  have "events_ok ?t" using store_okD(7) [OF assms] by (auto simp: events_ok_def add_event_def Let_def le_SucI)
  then show "store_ok ?t" using store_okD [OF assms] by (simp add: store_ok_def add_event_def Let_def)
  show "store_grows s ?t" using new by (auto simp: store_grows_def add_event_def Let_def map_le_def)
qed

lemma add_events_ok:
  assumes "store_ok s"
  shows "store_ok (snd (add_events s target es attempt now))
    \<and> store_grows s (snd (add_events s target es attempt now))"
  using assms
proof (induction es arbitrary: s)
  case Nil
  then show ?case by (simp add: add_events_def)
next
  case (Cons e es)
  note one = add_event_ok [OF Cons.prems, of target attempt now e]
  from Cons.IH [OF one(1)] one(2) show ?case
    using store_grows_trans by (auto simp: add_events_def)
qed

subsection \<open>Commit\<close>

text \<open>A commit on another fence: only the attempt is closed.\<close>
lemma commit_stale:
  assumes "store_ok s" and "dget (st_runs s) (r_id (cl_run c)) = Some run" and "r_fence run \<noteq> cl_fence c"
    and "commit s c state outcome err deriv os es now = Inr (res, t)"
  shows "store_ok t \<and> store_grows s t \<and> cr_lost_lease res \<and> cr_inserted res = 0 \<and> cr_occurrences res = 0
    \<and> t = s\<lparr>st_attempts := st_attempts t\<rparr>"
proof -
  from assms(2-4) obtain a where a: "dget (st_attempts s) (a_id (cl_attempt c)) = Some a"
    and t: "t = (if a_outcome a = None
        then put_attempt (a\<lparr>a_outcome := Some AO_lost_lease, a_finished_at := Some now\<rparr>) s else s)"
    and res: "res = \<lparr>cr_inserted = 0, cr_lost_lease = True, cr_occurrences = 0\<rparr>"
    by (auto simp: commit_def put_attempt_def split: option.splits)
  let ?a = "a\<lparr>a_outcome := Some AO_lost_lease, a_finished_at := Some now\<rparr>"
  obtain r where id: "a_id a = a_id (cl_attempt c)" and r: "dget (st_runs s) (a_run_id a) = Some r"
      "\<forall>f. a_fence a = Some f \<longrightarrow> f \<le> r_fence r"
    using a store_okD(2) [OF assms(1)] unfolding attempts_ok_def by blast
  have "dget (st_attempts s) (a_id ?a) = Some a" "same_attempt a ?a"
      "\<And>f r. a_fence ?a = Some f \<Longrightarrow> dget (st_runs s) (a_run_id ?a) = Some r \<Longrightarrow> f \<le> r_fence r"
    using a id r by (auto simp: same_attempt_def)
  from put_attempt_ok [OF assms(1) this] assms(1) have "store_ok t \<and> store_grows s t" by (simp add: t)
  then show ?thesis by (simp add: res t put_attempt_def)
qed

text \<open>A commit on the run's own fence: the observations are in Silver, the attempt is closed, the
  lease is released.\<close>
lemma commit_held:
  assumes "store_ok s" and "dget (st_runs s) (r_id (cl_run c)) = Some run" and "r_fence run = cl_fence c"
    and "commit s c state outcome err deriv os es now = Inr (res, t)"
  shows "store_ok t" and "store_grows s t" and "\<not> cr_lost_lease res"
    and "silver t = silver s \<union> observed ` set os" and "rows_from s t (a_id (cl_attempt c)) os"
    and "length (st_rows t) = length (st_rows s) + cr_inserted res"
    and "dget (st_runs t) (r_id (cl_run c)) = Some (run\<lparr>r_state := state, r_lease_owner := None,
           r_lease_until := None, r_updated_at := now\<rparr>)"
    and "\<exists>a. dget (st_attempts t) (a_id (cl_attempt c)) = Some a \<and> a_outcome a = Some outcome
           \<and> a_finished_at a = Some now \<and> a_derivation_id a = map_option d_derivation_id deriv"
    and "\<forall>d. deriv = Some d \<longrightarrow> dget (st_derivations t) (d_derivation_id d) \<noteq> None"
proof -
  define s1 where "s1 = (case deriv of None \<Rightarrow> s | Some d \<Rightarrow> snd (register_derivation s d now))"
  define acc where "acc = commit_rows (a_id (cl_attempt c)) os s1"
  define s2 where "s2 = snd (add_events (ca_store acc) (r_target_id run) es (Some (a_id (cl_attempt c))) now)"
  define run' where "run' = run\<lparr>r_state := state, r_lease_owner := None, r_lease_until := None,
      r_updated_at := now\<rparr>"
  have s1: "store_ok s1" "store_grows s s1" "st_runs s1 = st_runs s" "st_attempts s1 = st_attempts s"
      "silver s1 = silver s" "st_rows s1 = st_rows s"
      "\<forall>d. deriv = Some d \<longrightarrow> dget (st_derivations s1) (d_derivation_id d) \<noteq> None"
    using register_derivation_ok [OF assms(1) prod.collapse [symmetric]] assms(1)
    by (auto simp: s1_def split: option.splits)
  from assms(2-4) obtain att where att: "dget (st_attempts s2) (a_id (cl_attempt c)) = Some att"
    and res: "res = \<lparr>cr_inserted = ca_inserted acc, cr_lost_lease = False,
           cr_occurrences = ca_occurrences acc\<rparr>"
    and t: "t = s2\<lparr>st_attempts := dset (a_id att) (att\<lparr>a_outcome := Some outcome, a_error := err,
               a_finished_at := Some now, a_derivation_id := map_option d_derivation_id deriv\<rparr>) (st_attempts s2),
             st_runs := dset (r_id run) run' (st_runs s2)\<rparr>"
    by (auto simp: commit_def Let_def s1_def acc_def s2_def run'_def split: option.splits)
  note ev = event_frameD [OF add_events_frame, of "ca_store acc" "r_target_id run" es
      "Some (a_id (cl_attempt c))" now, folded s2_def]
  note fr = silver_frameD [OF commit_rows_frame, of "a_id (cl_attempt c)" os s1, folded acc_def]
  have id: "r_id run = r_id (cl_run c)" using store_okD(1) [OF assms(1)] assms(2) by (simp add: runs_ok_def)
  from att have "a_id (cl_attempt c) \<in> dom (dget (st_attempts s1))" by (auto simp: ev fr)
  note rows = commit_rows_spec [OF s1(1) this, of os, folded acc_def]
  have ok2: "store_ok s2" "store_grows s s2"
    using add_events_ok [OF rows(1)] rows(2) s1(2) store_grows_trans unfolding s2_def by blast+
  have aid: "a_id att = a_id (cl_attempt c)"
    using att store_okD(2) [OF ok2(1)] unfolding attempts_ok_def by blast
  define att' where "att' = att\<lparr>a_outcome := Some outcome, a_error := err, a_finished_at := Some now,
      a_derivation_id := map_option d_derivation_id deriv\<rparr>"
  have "dget (st_attempts s2) (a_id att') = Some att" "same_attempt att att'"
    using att by (simp_all add: att'_def aid same_attempt_def)
  moreover have "f \<le> r_fence r" if "a_fence att' = Some f" "dget (st_runs s2) (a_run_id att') = Some r" for f r
    using that att store_okD(2) [OF ok2(1)] unfolding attempts_ok_def by (force simp: att'_def)
  ultimately have s3: "store_ok (put_attempt att' s2)" "store_grows s2 (put_attempt att' s2)"
    using put_attempt_ok [OF ok2(1)] by blast+
  have t': "t = put_attempt att' s2\<lparr>st_runs := dset (r_id run) run' (st_runs (put_attempt att' s2))\<rparr>"
    by (simp add: t put_attempt_def att'_def aid)
  have "dget (st_runs (put_attempt att' s2)) (r_id run) = Some run" "same_run run run'"
    using assms(2) by (simp_all add: put_attempt_def ev fr s1 id run'_def same_run_def)
  from runs_update_ok [OF s3(1) this] show "store_ok t" and "store_grows s t"
    using ok2(2) s3(2) store_grows_trans unfolding t' by blast+
  show "\<not> cr_lost_lease res" by (simp add: res)
  have silv: "silver t = silver s2" "st_rows t = st_rows s2" by (simp_all add: t silver_def seen_at_def)
  show "silver t = silver s \<union> observed ` set os" using rows(3) by (simp add: silv ev s1)
  show "rows_from s t (a_id (cl_attempt c)) os" using rows(4) by (simp add: rows_from_def silv ev s1)
  show "length (st_rows t) = length (st_rows s) + cr_inserted res"
    using rows(6) by (simp add: silv ev s1 res)
  show "dget (st_runs t) (r_id (cl_run c)) = Some (run\<lparr>r_state := state, r_lease_owner := None,
      r_lease_until := None, r_updated_at := now\<rparr>)"
    by (simp add: t id run'_def)
  show "\<exists>a. dget (st_attempts t) (a_id (cl_attempt c)) = Some a \<and> a_outcome a = Some outcome
      \<and> a_finished_at a = Some now \<and> a_derivation_id a = map_option d_derivation_id deriv"
    by (simp add: t aid)
  show "\<forall>d. deriv = Some d \<longrightarrow> dget (st_derivations t) (d_derivation_id d) \<noteq> None"
    using s1(7) by (simp add: t ev fr)
qed

lemma commit_ok:
  assumes "store_ok s" and "commit s c state outcome err deriv os es now = Inr (res, t)"
  shows "store_ok t" and "store_grows s t"
proof -
  obtain run where run: "dget (st_runs s) (r_id (cl_run c)) = Some run"
    using assms(2) by (auto simp: commit_def split: option.splits)
  show "store_ok t" and "store_grows s t"
    using commit_stale [OF assms(1) run _ assms(2)] commit_held(1,2) [OF assms(1) run _ assms(2)] by blast+
qed

end
