(* ===== verification/Store_Steps.thy ===== *)
theory Store_Steps
  imports Store_Commit
begin

text \<open>
  The store as a state machine: one rule per operation of src/energy_platform/store/memory.py that
  changes state, whatever its arguments. The invariant holds in every reachable store and every step
  only adds (Silver is append-only). The locale \<open>fenced\<close> states what a worker relies on: no step lowers
  a run's fence, a claim is made on a fence above all earlier ones, a commit is refused on any other
  fence. It derives that an overtaken worker can never commit; the memory store is its instance.
\<close>

subsection \<open>The remaining operations\<close>

lemma record_attempt_ok:
  assumes "store_ok s" and "record_attempt s i kd outcome capture err now = (a, t)"
    and "dget (st_runs s) i = Some r"
  shows "store_ok t" and "store_grows s t"
proof -
  have a: "a_id a = Suc (st_seq_attempts s)" "a_run_id a = i" "a_fence a = None"
    and t: "t = put_attempt a (next_attempt s)"
    using assms(2) by (auto simp: record_attempt_def Let_def new_attempt_def)
  show "store_ok t" and "store_grows s t"
    unfolding t using a assms(3) by (auto intro!: add_attempt_ok [OF assms(1), of a r])
qed

lemma enqueue_replay_ok:
  assumes "store_ok s" and "enqueue_replay s i now = Inr (a, t)"
  shows "store_ok t" and "store_grows s t"
proof -
  have "store_ok t \<and> store_grows s t"
  proof (cases a)
    case None
    with assms show ?thesis by (auto simp: enqueue_replay_def Let_def split: if_splits option.splits)
  next
    case (Some b)
    with assms(2) obtain r where r: "dget (st_runs s) i = Some r"
      and b: "b = new_attempt s i AK_replay None None None (r_capture_id r) None None now None"
      and t: "t = put_attempt b (next_attempt s)"
      by (auto simp: enqueue_replay_def Let_def split: if_splits option.splits)
    have "a_id b = Suc (st_seq_attempts s)" "a_run_id b = i" "a_fence b = None"
      by (simp_all add: b new_attempt_def)
    with r show ?thesis unfolding t by (auto intro!: add_attempt_ok [OF assms(1), of b r])
  qed
  then show "store_ok t" and "store_grows s t" by auto
qed

lemma add_invalidation_ok:
  assumes "store_ok s" and "add_invalidation s iv = (b, t)"
  shows "store_ok t" and "store_grows s t"
proof -
  have "store_ok t \<and> store_grows s t"
    using assms store_okD [OF assms(1)]
    by (auto simp: add_invalidation_def Let_def store_ok_def store_grows_def map_le_def split: if_splits)
  then show "store_ok t" and "store_grows s t" by auto
qed

lemma upsert_freshness_ok:
  assumes "store_ok s"
  shows "store_ok (upsert_freshness s f)" and "store_grows s (upsert_freshness s f)"
  using store_okD [OF assms] by (auto simp: upsert_freshness_def store_ok_def store_grows_def)

subsection \<open>Steps\<close>

inductive store_step :: "memory_store \<Rightarrow> memory_store \<Rightarrow> bool" where
  st_ensure_run: "ensure_run s target scheduled state origin capture now = (r, t) \<Longrightarrow> store_step s t"
| st_set_state: "set_state s i state now = Inr (r, t) \<Longrightarrow> store_step s t"
| st_mark_recaptured: "mark_recaptured s i capture now = Inr (r, t) \<Longrightarrow> store_step s t"
| st_claim: "claim_run s i owner ttl now = Inr (c, t) \<Longrightarrow> store_step s t"
| st_renew: "renew s cl ttl now = Inr (b, t) \<Longrightarrow> store_step s t"
| st_commit: "commit s cl state outcome err deriv os es now = Inr (res, t) \<Longrightarrow> store_step s t"
| st_record_attempt: "dget (st_runs s) i = Some r \<Longrightarrow>
    record_attempt s i kd outcome capture err now = (a, t) \<Longrightarrow> store_step s t"
| st_enqueue_replay: "enqueue_replay s i now = Inr (q, t) \<Longrightarrow> store_step s t"
| st_register_derivation: "register_derivation s d now = (e, t) \<Longrightarrow> store_step s t"
| st_add_events: "add_events s target es attempt now = (n, t) \<Longrightarrow> store_step s t"
| st_add_invalidation: "add_invalidation s iv = (b, t) \<Longrightarrow> store_step s t"
| st_upsert_freshness: "upsert_freshness s f = t \<Longrightarrow> store_step s t"

inductive_cases store_stepE: "store_step s t"

inductive store_steps :: "memory_store \<Rightarrow> memory_store \<Rightarrow> bool" where
  steps_refl: "store_steps s s"
| steps_step: "store_steps s t \<Longrightarrow> store_step t u \<Longrightarrow> store_steps s u"

lemma step_steps: "store_step s t \<Longrightarrow> store_steps s t"
  by (blast intro: store_steps.intros)

lemma store_step_ok:
  assumes "store_step s t" and "store_ok s"
  shows "store_ok t \<and> store_grows s t"
  using assms(1)
proof cases
  case st_ensure_run
  then show ?thesis using ensure_run_ok(1,2) [OF assms(2)] by blast
next
  case st_set_state
  then show ?thesis using set_state_ok [OF assms(2)] by blast
next
  case st_mark_recaptured
  then show ?thesis using mark_recaptured_ok(1,2) [OF assms(2)] by blast
next
  case (st_claim i owner ttl now c)
  then show ?thesis
    using claim_run_ok(1,2) [OF assms(2)] claim_run_None assms(2) by (cases c) (metis store_grows_refl, blast)
next
  case st_renew
  then show ?thesis using renew_ok [OF assms(2)] by blast
next
  case st_commit
  then show ?thesis using commit_ok [OF assms(2)] by blast
next
  case st_record_attempt
  then show ?thesis using record_attempt_ok [OF assms(2)] by blast
next
  case st_enqueue_replay
  then show ?thesis using enqueue_replay_ok [OF assms(2)] by blast
next
  case st_register_derivation
  then show ?thesis using register_derivation_ok(1,2) [OF assms(2)] by blast
next
  case (st_add_events target es attempt now n)
  with add_events_ok [OF assms(2)] show ?thesis by (metis snd_conv)
next
  case st_add_invalidation
  then show ?thesis using add_invalidation_ok [OF assms(2)] by blast
next
  case st_upsert_freshness
  then show ?thesis using upsert_freshness_ok [OF assms(2)] by blast
qed

lemma store_steps_ok: "store_steps s t \<Longrightarrow> store_ok s \<Longrightarrow> store_ok t \<and> store_grows s t"
proof (induction rule: store_steps.induct)
  case (steps_step s t u)
  then show ?case using store_step_ok store_grows_trans by blast
qed simp

lemma store_steps_trans: "store_steps t u \<Longrightarrow> store_steps s t \<Longrightarrow> store_steps s u"
  by (induction rule: store_steps.induct) (auto intro: store_steps.intros)

lemma claim_run_refused: "dget (st_runs s) i = Some r \<Longrightarrow> lease_held r now
    \<Longrightarrow> claim_run s i owner ttl now = Inr (None, s)"
  by (simp add: claim_run_def)

lemma claim_run_granted: "dget (st_runs s) i = Some r \<Longrightarrow> \<not> lease_held r now
    \<Longrightarrow> \<exists>c t. claim_run s i owner ttl now = Inr (Some c, t)"
  by (auto simp: claim_run_def Let_def split: prod.split)

subsection \<open>Fencing\<close>

text \<open>The contract between the store and a worker. \<open>bumps s k f t\<close>: a transition that raises the
  fence of \<open>k\<close> to \<open>f\<close>; \<open>accepts s k f\<close>: a commit made with the fence \<open>f\<close> is accepted in \<open>s\<close>.\<close>
locale fenced =
  fixes ok :: "'s \<Rightarrow> bool" and step :: "'s \<Rightarrow> 's \<Rightarrow> bool" and steps :: "'s \<Rightarrow> 's \<Rightarrow> bool"
    and fence :: "'s \<Rightarrow> 'k \<Rightarrow> nat option"
    and bumps :: "'s \<Rightarrow> 'k \<Rightarrow> nat \<Rightarrow> 's \<Rightarrow> bool" and accepts :: "'s \<Rightarrow> 'k \<Rightarrow> nat \<Rightarrow> bool"
  assumes steps_ok: "steps s t \<Longrightarrow> ok s \<Longrightarrow> ok t"
    and steps_fence: "steps s t \<Longrightarrow> ok s \<Longrightarrow> fence s k = Some f \<Longrightarrow> \<exists>g \<ge> f. fence t k = Some g"
    and bump_ok: "ok s \<Longrightarrow> bumps s k f t \<Longrightarrow> ok t"
    and bump_fence: "ok s \<Longrightarrow> bumps s k f t \<Longrightarrow> fence t k = Some f \<and> (\<exists>g < f. fence s k = Some g)"
    and accepts_fence: "accepts s k f \<Longrightarrow> fence s k = Some f"
begin

text \<open>Fences handed out later are larger.\<close>
lemma bump_increases:
  assumes "ok s" and "bumps s k f t" and "steps t u" and "bumps u k g v"
  shows "f < g"
proof -
  have t: "ok t" "fence t k = Some f" using bump_ok bump_fence assms(1,2) by blast+
  then obtain h where "f \<le> h" "fence u k = Some h" using steps_fence assms(3) by blast
  moreover have "ok u" using steps_ok assms(3) t(1) by blast
  ultimately show ?thesis using bump_fence [OF _ assms(4)] by force
qed

text \<open>Once the fence has moved on, a commit with the old fence is never accepted again.\<close>
lemma overtaken:
  assumes "ok s" and "bumps s k f t" and "steps t u" and "bumps u k g v" and "steps v w"
  shows "\<not> accepts w k f"
proof
  assume "accepts w k f"
  then have w: "fence w k = Some f" by (rule accepts_fence)
  have u: "ok u" using assms(1-3) bump_ok steps_ok by blast
  then have "ok v" "fence v k = Some g" using bump_ok bump_fence assms(4) by blast+
  then obtain h where "g \<le> h" "fence w k = Some h" using steps_fence assms(5) by blast
  with w bump_increases [OF assms(1-4)] show False by simp
qed

end

definition run_fence :: "memory_store \<Rightarrow> nat \<Rightarrow> nat option" where
  "run_fence s i = map_option r_fence (dget (st_runs s) i)"

text \<open>The two operations that move a fence: a successful claim and a recapture.\<close>
inductive fence_bumps :: "memory_store \<Rightarrow> nat \<Rightarrow> nat \<Rightarrow> memory_store \<Rightarrow> bool" where
  bump_claim: "claim_run s i owner ttl now = Inr (Some c, t) \<Longrightarrow> fence_bumps s i (cl_fence c) t"
| bump_recapture: "mark_recaptured s i capture now = Inr (r, t) \<Longrightarrow> fence_bumps s i (r_fence r) t"

text \<open>A commit with fence \<open>f\<close> on run \<open>i\<close> goes through.\<close>
inductive commit_accepts :: "memory_store \<Rightarrow> nat \<Rightarrow> nat \<Rightarrow> bool" where
  accept: "commit s c state outcome err deriv os es now = Inr (res, t) \<Longrightarrow> \<not> cr_lost_lease res
    \<Longrightarrow> commit_accepts s (r_id (cl_run c)) (cl_fence c)"

lemma commit_lost_iff:
  assumes "commit s c state outcome err deriv os es now = Inr (res, t)"
  shows "cr_lost_lease res \<longleftrightarrow> run_fence s (r_id (cl_run c)) \<noteq> Some (cl_fence c)"
  using assms by (auto simp: commit_def run_fence_def Let_def split: option.splits if_splits)

lemma fence_bumps_step: "fence_bumps s i f t \<Longrightarrow> store_step s t"
  by (auto elim!: fence_bumps.cases intro: store_step.intros)

interpretation ms: fenced store_ok store_step store_steps run_fence fence_bumps commit_accepts
proof
  show "store_ok t" if "store_steps s t" "store_ok s" for s t using store_steps_ok that by blast
  show "\<exists>g \<ge> f. run_fence t k = Some g"
    if st: "store_steps s t" "store_ok s" "run_fence s k = Some f" for s t k f
  proof -
    obtain r where r: "dget (st_runs s) k = Some r" "f = r_fence r" using st(3) by (auto simp: run_fence_def)
    obtain q where "dget (st_runs t) k = Some q" "same_run r q"
      using store_grows_run [OF _ r(1)] store_steps_ok st(1,2) by blast
    then show ?thesis by (simp add: run_fence_def same_run_def r)
  qed
  show "store_ok t" if "store_ok s" "fence_bumps s k f t" for s k f t
    using that fence_bumps_step store_step_ok by blast
  show "run_fence t k = Some f \<and> (\<exists>g < f. run_fence s k = Some g)"
    if "store_ok s" "fence_bumps s k f t" for s k f t
    using that(2)
  proof cases
    case (bump_claim owner ttl now c)
    from claim_run_ok(3,4,8) [OF that(1) bump_claim(2)] bump_claim(1) show ?thesis
      by (auto simp: run_fence_def)
  next
    case (bump_recapture capture now r)
    from mark_recaptured_ok(3,4) [OF that(1) bump_recapture(2)] bump_recapture(1) show ?thesis
      by (auto simp: run_fence_def)
  qed
  show "run_fence s k = Some f" if "commit_accepts s k f" for s k f
    using that commit_lost_iff by (auto elim!: commit_accepts.cases)
qed

end
