(* ===== verification/Store_Properties.thy ===== *)
theory Store_Properties
  imports Store_Steps
begin

text \<open>
  What the ledger and Silver guarantee to their callers, stated over the operations of the memory
  store: the invariant in every reachable store, append-only Silver, fencing, exclusive leases, the
  refinement of \<open>commit\<close> to a growing set of observed versions, idempotence.
\<close>

subsection \<open>A concrete history\<close>

definition demo_capture :: string where
  "demo_capture = ''ote_idm:s:1''"

text \<open>The store does not look into an observation beyond its identities, so short ids serve here.\<close>
definition demo_observation :: energy_observation where
  "demo_observation =
     \<lparr>source_id = ''ote'', dataset_id = ''ote.idm_continuous'', source_transport = Soap,
      contract_version = ''1.0.0'', derivation_id = ''a1'', raw_ref = ''r'', payload_sha256 = ''b2'',
      fetched_at = 7, source_published_at = None, source_version = None, processed_at = 8,
      delivery_interval = \<lparr>di_start = 0, di_end = 900\<rparr>, resolution = ''PT15M'', local_date = 719163,
      period_index = Some 1, kind = Kind_interval, dimensions = [], metric = ''price_vwap'',
      obs_value = Some (Dec False 9 0), obs_unit = ''EUR/MWh'', sign_convention = As_published\<rparr>"

definition demo_derivation :: derivation where
  "demo_derivation = \<lparr>d_derivation_id = ''a1'', d_platform_version = ''0.1.0'',
     d_contract_version = ''1.0.0'', d_mapping_block = JNull, d_parser_ref = ''generic'',
     d_registered_at = None\<rparr>"

definition demo_captured :: memory_store where
  "demo_captured = snd (ensure_run empty_store ''ote_idm'' 0 RS_captured RO_scheduled (Some demo_capture) 5)"

definition demo_claim :: claim where
  "demo_claim = the (fst (projr (claim_run demo_captured 1 ''worker-1'' 100 10)))"

definition demo_claimed :: memory_store where
  "demo_claimed = snd (projr (claim_run demo_captured 1 ''worker-1'' 100 10))"

definition demo_committed :: memory_store where
  "demo_committed = snd (projr (commit demo_claimed demo_claim RS_processed AO_ok None
     (Some demo_derivation) [demo_observation] [] 20))"

lemma demo_claim_run:
  "claim_run demo_captured 1 ''worker-1'' 100 10 = Inr (Some demo_claim, demo_claimed)"
  by code_simp

lemma demo_captured_steps: "store_steps empty_store demo_captured"
  unfolding demo_captured_def by (rule step_steps, rule st_ensure_run, rule prod.collapse [symmetric])

lemma demo_captured_ok: "store_ok demo_captured"
  using store_steps_ok [OF demo_captured_steps empty_store_ok] by simp

lemmas demo_claim_facts = claim_run_ok [OF demo_captured_ok demo_claim_run]

text \<open>A commit of a known claim always returns.\<close>
lemma commit_total:
  assumes "dget (st_runs s) (r_id (cl_run c)) = Some r"
    and "dget (st_attempts s) (a_id (cl_attempt c)) = Some a"
  shows "\<exists>res t. commit s c state outcome err deriv os es now = Inr (res, t)"
proof -
  define s1 where "s1 = (case deriv of None \<Rightarrow> s | Some d \<Rightarrow> snd (register_derivation s d now))"
  have "st_attempts s1 = st_attempts s"
    by (auto simp: s1_def register_derivation_def Let_def split: option.splits)
  moreover define s2 where "s2 = ca_store (commit_rows (a_id (cl_attempt c)) os s1)"
  ultimately have "st_attempts s2 = st_attempts s" by (simp add: silver_frameD(2) [OF commit_rows_frame])
  then have "st_attempts (snd (add_events s2 (r_target_id r) es (Some (a_id (cl_attempt c))) now)) = st_attempts s"
    by (simp add: event_frameD(2) [OF add_events_frame])
  with assms show ?thesis by (simp add: commit_def Let_def s1_def s2_def)
qed

lemma commit_projr:
  "\<exists>res t. commit s c state outcome err deriv os es now = Inr (res, t) \<Longrightarrow>
   commit s c state outcome err deriv os es now
     = Inr (fst (projr (commit s c state outcome err deriv os es now)),
            snd (projr (commit s c state outcome err deriv os es now)))"
  by auto

lemma demo_commit:
  "\<exists>res. commit demo_claimed demo_claim RS_processed AO_ok None (Some demo_derivation)
     [demo_observation] [] 20 = Inr (res, demo_committed)"
  unfolding demo_committed_def
  using commit_projr [OF commit_total] demo_claim_facts(3,5,7) by metis

lemma demo_steps: "store_steps empty_store demo_claimed" "store_steps empty_store demo_committed"
proof -
  show 1: "store_steps empty_store demo_claimed"
    using demo_captured_steps demo_claim_run by (blast intro: steps_step st_claim)
  show "store_steps empty_store demo_committed"
    using demo_commit by (blast intro: steps_step [OF 1] st_commit)
qed

subsection \<open>The invariant, append-only Silver\<close>

text \<open>C4. In every store reachable from the empty one by any sequence of operations with any arguments
  the invariant holds: ids are unique and bounded by their sequences, there is one run per target and
  scheduled instant and one row per version identity, every attempt points to its run and carries a
  fence the run has reached, every row and occurrence points to its attempt, every row has an
  occurrence, every derivation has its registration instant.\<close>
theorem store_reachable_ok: "store_steps empty_store s \<Longrightarrow> store_ok s"
  using store_steps_ok empty_store_ok by blast

theorem store_reachable_ok_witness: "store_ok demo_committed"
  using store_reachable_ok [OF demo_steps(2)] .



subsection \<open>Leases and fences\<close>

text \<open>C6. A claim on a run is granted exactly when no lease is held at that instant; it takes the next
  fence and a lease until \<open>now + ttl\<close>, and until that lease has run out every other claim is
  refused without touching the store; afterwards a claim is granted again, on the next fence.\<close>
theorem claim_exclusive:
  assumes "store_steps empty_store s" and "dget (st_runs s) i = Some r"
  shows "if lease_held r now then claim_run s i owner ttl now = Inr (None, s)
    else \<exists>c t. claim_run s i owner ttl now = Inr (Some c, t) \<and> cl_fence c = Suc (r_fence r)
      \<and> (\<forall>owner' ttl' now'. now' \<le> now + ttl \<longrightarrow> claim_run t i owner' ttl' now' = Inr (None, t))
      \<and> (\<forall>owner' ttl' now'. now + ttl < now' \<longrightarrow> (\<exists>c' u. claim_run t i owner' ttl' now' = Inr (Some c', u)
           \<and> cl_fence c' = Suc (cl_fence c)))"
proof (cases "lease_held r now")
  case True
  then show ?thesis using claim_run_refused [OF assms(2)] by simp
next
  case False
  have ok: "store_ok s" using store_steps_ok [OF assms(1) empty_store_ok] by simp
  obtain c t where c: "claim_run s i owner ttl now = Inr (Some c, t)"
    using claim_run_granted [OF assms(2) False] by blast
  note cl = claim_run_ok [OF ok c]
  have until: "r_lease_until (cl_run c) = Some (now + ttl)"
    using c by (auto simp: claim_run_def Let_def split: option.splits if_splits prod.splits)
  have "claim_run t i owner' ttl' now' = Inr (None, t)" if "now' \<le> now + ttl" for owner' ttl' now'
    using that until by (intro claim_run_refused [OF cl(3)]) (simp add: lease_held_def)
  moreover have "\<exists>c' u. claim_run t i owner' ttl' now' = Inr (Some c', u) \<and> cl_fence c' = Suc (cl_fence c)"
    if "now + ttl < now'" for owner' ttl' now'
  proof -
    have "\<not> lease_held (cl_run c) now'" using that until by (simp add: lease_held_def)
    then obtain c' u where c': "claim_run t i owner' ttl' now' = Inr (Some c', u)"
      using claim_run_granted [OF cl(3)] by blast
    with claim_run_ok(8) [OF cl(1) c'] cl(3,4) show ?thesis by auto
  qed
  moreover have "cl_fence c = Suc (r_fence r)" using cl(8) assms(2) by auto
  ultimately show ?thesis using c False by auto
qed

theorem claim_exclusive_witness:
  "claim_run demo_claimed 1 ''worker-2'' 100 110 = Inr (None, demo_claimed)"
proof -
  let ?r = "the (dget (st_runs demo_captured) 1)"
  have r: "dget (st_runs demo_captured) 1 = Some ?r" "\<not> lease_held ?r 10" by code_simp+
  from claim_exclusive [OF demo_captured_steps r(1), of 10 "''worker-1''" 100] r(2) demo_claim_run
  show ?thesis by simp
qed

text \<open>C1. A worker that has been overtaken can never commit: if after its claim the run's fence was
  moved by another claim or by a recapture, then, whatever happens before, between and after, its
  commit is answered with \<open>lost_lease\<close>, inserts nothing and changes nothing but the outcome of its own
  attempt.\<close>
theorem overtaken_claim_never_commits:
  assumes "store_steps empty_store s" and "claim_run s i owner ttl now = Inr (Some c, t)"
    and "store_steps t u"
    and "claim_run u i owner' ttl' now' = Inr (Some c', v) \<or> mark_recaptured u i capture now' = Inr (r, v)"
    and "store_steps v w"
    and "commit w c state outcome err deriv os es now'' = Inr (res, x)"
  shows "cr_lost_lease res \<and> cr_inserted res = 0 \<and> x = w\<lparr>st_attempts := st_attempts x\<rparr> \<and> silver x = silver w"
proof -
  have ok: "store_ok s" using store_steps_ok [OF assms(1) empty_store_ok] by simp
  note cl = claim_run_ok [OF ok assms(2)]
  have b1: "fence_bumps s i (cl_fence c) t" using assms(2) by (rule bump_claim)
  obtain g where b2: "fence_bumps u i g v" using assms(4) by (auto intro: fence_bumps.intros)
  have no: "\<not> commit_accepts w i (cl_fence c)" by (rule ms.overtaken [OF ok b1 assms(3) b2 assms(5)])
  then have lost: "cr_lost_lease res" using accept [OF assms(6)] cl(7) by auto
  have okw: "store_ok w"
    using ms.steps_ok [OF assms(5) ms.bump_ok [OF ms.steps_ok [OF assms(3) cl(1)] b2]] .
  obtain run where run: "dget (st_runs w) (r_id (cl_run c)) = Some run"
    using assms(6) by (auto simp: commit_def split: option.splits)
  have "r_fence run \<noteq> cl_fence c"
    using lost run commit_lost_iff [OF assms(6)] by (simp add: run_fence_def)
  from commit_stale [OF okw run this assms(6)] have x: "cr_inserted res = 0" "x = w\<lparr>st_attempts := st_attempts x\<rparr>"
    by auto
  have "silver x = silver (w\<lparr>st_attempts := st_attempts x\<rparr>)" using x(2) by (rule arg_cong)
  also have "\<dots> = silver w" by (simp add: silver_def seen_at_def)
  finally show ?thesis using lost x by simp
qed

text \<open>worker-1's lease runs out at 110, worker-2 claims at 200, worker-1 commits too late.\<close>
theorem overtaken_claim_never_commits_witness:
  "\<exists>c' v res x. claim_run demo_claimed 1 ''worker-2'' 100 200 = Inr (Some c', v)
     \<and> commit v demo_claim RS_processed AO_ok None None [demo_observation] [] 210 = Inr (res, x)
     \<and> cr_lost_lease res \<and> silver x = silver v"
proof -
  have ok: "store_ok demo_claimed" by (rule demo_claim_facts(1))
  have "\<not> lease_held (cl_run demo_claim) 200" by code_simp
  then obtain c' v where c': "claim_run demo_claimed 1 ''worker-2'' 100 200 = Inr (Some c', v)"
    using claim_run_granted demo_claim_facts(3) by blast
  have "store_grows demo_claimed v" by (rule claim_run_ok(2) [OF ok c'])
  then obtain r a where "dget (st_runs v) (r_id (cl_run demo_claim)) = Some r"
      "dget (st_attempts v) (a_id (cl_attempt demo_claim)) = Some a"
    using demo_claim_facts(3,5,7) unfolding store_grows_def by metis
  then obtain res x where x: "commit v demo_claim RS_processed AO_ok None None [demo_observation] [] 210
      = Inr (res, x)"
    using commit_total by blast
  show ?thesis
    using overtaken_claim_never_commits [OF demo_captured_steps demo_claim_run steps_refl disjI1 [OF c']
        steps_refl x] c' x by blast
qed

subsection \<open>Commit against its specification\<close>

text \<open>C2. \<open>commit\<close> refines the abstract operation on Silver, the set of observed (version identity, fetch
  instant) pairs: with the run's current fence it adds the pairs of its observations and no other, every
  new row belongs to its attempt and is one of its observations, \<open>inserted\<close> is the number of new rows,
  the attempt and the run are closed; with any other fence Silver, runs, derivations, events stay.\<close>
theorem commit_refines_silver:
  assumes "store_steps empty_store s" and "dget (st_runs s) (r_id (cl_run c)) = Some run"
    and "commit s c state outcome err deriv os es now = Inr (res, t)"
  shows "if r_fence run = cl_fence c
    then \<not> cr_lost_lease res \<and> silver t = silver s \<union> observed ` set os
      \<and> rows_from s t (a_id (cl_attempt c)) os
      \<and> length (st_rows t) = length (st_rows s) + cr_inserted res
      \<and> dget (st_runs t) (r_id (cl_run c)) = Some (run\<lparr>r_state := state, r_lease_owner := None,
           r_lease_until := None, r_updated_at := now\<rparr>)
      \<and> (\<exists>a. dget (st_attempts t) (a_id (cl_attempt c)) = Some a \<and> a_outcome a = Some outcome)
    else cr_lost_lease res \<and> cr_inserted res = 0 \<and> t = s\<lparr>st_attempts := st_attempts t\<rparr>"
proof -
  have ok: "store_ok s" using store_steps_ok [OF assms(1) empty_store_ok] by simp
  show ?thesis
    using commit_held [OF ok assms(2) _ assms(3)] commit_stale [OF ok assms(2) _ assms(3)] by auto
qed

theorem commit_refines_silver_witness:
  "observed demo_observation \<in> silver demo_committed"
proof -
  obtain res where c: "commit demo_claimed demo_claim RS_processed AO_ok None (Some demo_derivation)
      [demo_observation] [] 20 = Inr (res, demo_committed)"
    using demo_commit by blast
  have "dget (st_runs demo_claimed) (r_id (cl_run demo_claim)) = Some (cl_run demo_claim)"
    using demo_claim_facts(3,7) by simp
  from commit_refines_silver [OF demo_steps(1) this c] demo_claim_facts(4) show ?thesis by simp
qed

text \<open>Committing is idempotent: observations that Silver already holds (the same versions, fetched at
  the same instants) are inserted by no later commit, under whatever claim, attempt and derivation: no
  row and no occurrence is added or changed and both counts are zero.\<close>
theorem commit_idempotent:
  assumes "store_steps empty_store s"
    and "commit s c state outcome err deriv os es now = Inr (res, t)" and "\<not> cr_lost_lease res"
    and "store_steps t u"
    and "commit u c' state' outcome' err' deriv' os es' now' = Inr (res', v)"
  shows "st_rows v = st_rows u \<and> st_occurrences v = st_occurrences u
    \<and> cr_inserted res' = 0 \<and> cr_occurrences res' = 0"
proof -
  have ok: "store_ok s" using store_steps_ok [OF assms(1) empty_store_ok] by simp
  obtain run where run: "dget (st_runs s) (r_id (cl_run c)) = Some run"
    using assms(2) by (auto simp: commit_def split: option.splits)
  have "r_fence run = cl_fence c"
    using assms(3) commit_lost_iff [OF assms(2)] run by (simp add: run_fence_def)
  note h = commit_held [OF ok run this assms(2)]
  have u: "store_ok u" "store_grows t u" using store_steps_ok [OF assms(4) h(1)] by auto
  define s1 where "s1 = (case deriv' of None \<Rightarrow> u | Some d \<Rightarrow> snd (register_derivation u d now'))"
  have s1: "store_ok s1" "silver s1 = silver u" "st_rows s1 = st_rows u" "st_occurrences s1 = st_occurrences u"
    using register_derivation_ok [OF u(1) prod.collapse [symmetric]] u(1)
    by (auto simp: s1_def register_derivation_def Let_def split: option.splits)
  have "\<forall>o' \<in> set os. observed o' \<in> silver s1" using h(4) silver_grows [OF u(2)] s1(2) by auto
  note known = commit_rows_known [OF s1(1) this, of "a_id (cl_attempt c')"]
  have ev: "st_rows (snd (add_events s1 g es' a now')) = st_rows u"
      "st_occurrences (snd (add_events s1 g es' a now')) = st_occurrences u" for g a
    using event_frameD(4,5) [OF add_events_frame, of s1 g es' a now'] s1(3,4) by simp_all
  obtain run' where run': "dget (st_runs u) (r_id (cl_run c')) = Some run'"
    using assms(5) by (auto simp: commit_def split: option.splits)
  show ?thesis
  proof (cases "r_fence run' = cl_fence c'")
    case True
    define a' where "a' = a_id (cl_attempt c')"
    define acc where "acc = commit_rows a' os s1"
    obtain x y where "v = snd (add_events (ca_store acc) (r_target_id run') es' (Some a') now')
          \<lparr>st_attempts := x, st_runs := y\<rparr>"
      and "cr_inserted res' = ca_inserted acc" "cr_occurrences res' = ca_occurrences acc"
      using assms(5) run' True by (auto simp: commit_def Let_def s1_def acc_def a'_def split: option.splits)
    with known show ?thesis by (simp add: acc_def a'_def ev)
  next
    case False
    from commit_stale [OF u(1) run' False assms(5)] have "v = u\<lparr>st_attempts := st_attempts v\<rparr>"
      and "cr_inserted res' = 0" "cr_occurrences res' = 0" by auto
    then show ?thesis by (metis memory_store.select_convs(4,5) memory_store.surjective memory_store.update_convs(2))
  qed
qed

theorem commit_idempotent_witness:
  "\<exists>res v. commit demo_committed demo_claim RS_processed AO_ok None None [demo_observation] [] 30 = Inr (res, v)
     \<and> cr_inserted res = 0 \<and> st_rows v = st_rows demo_committed"
proof -
  obtain res where c: "commit demo_claimed demo_claim RS_processed AO_ok None (Some demo_derivation)
      [demo_observation] [] 20 = Inr (res, demo_committed)"
    using demo_commit by blast
  have "\<not> cr_lost_lease res"
    using commit_lost_iff [OF c] demo_claim_facts(3,4,7) by (simp add: run_fence_def)
  have "store_grows demo_claimed demo_committed"
    using commit_ok(2) [OF demo_claim_facts(1) c] .
  then obtain r a where "dget (st_runs demo_committed) (r_id (cl_run demo_claim)) = Some r"
      "dget (st_attempts demo_committed) (a_id (cl_attempt demo_claim)) = Some a"
    using demo_claim_facts(3,5,7) unfolding store_grows_def by metis
  then obtain res' v where v: "commit demo_committed demo_claim RS_processed AO_ok None None
      [demo_observation] [] 30 = Inr (res', v)"
    using commit_total by blast
  from commit_idempotent [OF demo_steps(1) c \<open>\<not> cr_lost_lease res\<close> steps_refl v] v show ?thesis by blast
qed

subsection \<open>Runs\<close>

text \<open>\<open>ensure_run\<close> gives the one run of a target and instant: asking again returns the same run and
  leaves the store; a run that is processed or already has a capture is returned untouched; otherwise
  the capture is attached exactly when the run is asked for as captured.\<close>
theorem ensure_run_idempotent:
  assumes "store_steps empty_store s"
    and "ensure_run s target scheduled state origin capture now = (r, t)"
  shows "(case find_run s target scheduled of
        None \<Rightarrow> r_state r = state \<and> r_capture_id r = capture \<and> r_fence r = 0
      | Some e \<Rightarrow> if state = RS_captured \<and> r_state e \<noteq> RS_processed \<and> r_capture_id e = None
          then r = e\<lparr>r_state := RS_captured, r_capture_id := capture, r_updated_at := now\<rparr>
          else r = e \<and> t = s)
    \<and> get_run t target scheduled = Some r
    \<and> (state \<noteq> RS_captured \<or> capture \<noteq> None \<or> r_state r = RS_processed \<longrightarrow>
         ensure_run t target scheduled state origin' capture' now' = (r, t))"
proof -
  have ok: "store_ok s" using store_steps_ok [OF assms(1) empty_store_ok] by simp
  note e = ensure_run_ok [OF ok assms(2)]
  have f: "find_run t target scheduled = Some r"
    using find_run_Some_iff [OF store_okD(1) [OF e(1)]] e(3-5) by simp
  have first: "case find_run s target scheduled of
        None \<Rightarrow> r_state r = state \<and> r_capture_id r = capture \<and> r_fence r = 0
      | Some e \<Rightarrow> if state = RS_captured \<and> r_state e \<noteq> RS_processed \<and> r_capture_id e = None
          then r = e\<lparr>r_state := RS_captured, r_capture_id := capture, r_updated_at := now\<rparr>
          else r = e \<and> t = s"
    using assms(2) by (auto simp: ensure_run_def Let_def split: option.splits)
  then have "r_capture_id r \<noteq> None \<or> r_state r = RS_processed"
    if "state = RS_captured" "capture \<noteq> None \<or> r_state r = RS_processed"
    using that by (auto split: option.splits if_splits)
  then have "state \<noteq> RS_captured \<or> capture \<noteq> None \<or> r_state r = RS_processed \<longrightarrow>
         ensure_run t target scheduled state origin' capture' now' = (r, t)"
    using f by (auto simp: ensure_run_def)
  with first f show ?thesis by (simp add: get_run_def)
qed

theorem ensure_run_idempotent_witness:
  "\<exists>r. ensure_run demo_captured ''ote_idm'' 0 RS_captured RO_manual (Some ''x'') 9 = (r, demo_captured)"
proof -
  obtain r where r: "ensure_run empty_store ''ote_idm'' 0 RS_captured RO_scheduled (Some demo_capture) 5
      = (r, demo_captured)"
    unfolding demo_captured_def by (metis prod.collapse)
  from ensure_run_idempotent [OF steps_refl r, of RO_manual "Some ''x''" 9] show ?thesis by auto
qed

end
