(* ===== verification/Store_View.thy ===== *)
theory Store_View
  imports Store_Properties
begin

text \<open>
  The current view (\<open>current_rows\<close> of src/energy_platform/store/memory.py with the ordering of
  src/energy_platform/store/ordering.py) against its specification: among the rows of the window that
  still have an occurrence from a capture that is not invalidated, the row of the highest rank for each
  key. The loop with its exceptions is shown equal to a plain fold (\<open>argmax_step\<close>), whose result is
  characterised once and for all keys and ranks.
\<close>

subsection \<open>Choosing the best entry per key\<close>

definition argmax_step ::
    "('a \<Rightarrow> 'k) \<Rightarrow> ('a \<Rightarrow> 'r::linorder) \<Rightarrow> ('k, 'a) dict \<Rightarrow> 'a \<Rightarrow> ('k, 'a) dict" where
  "argmax_step key rnk best x = (case dget best (key x) of
       None \<Rightarrow> dset (key x) x best
     | Some c \<Rightarrow> if rnk c < rnk x then dset (key x) x best else best)"

definition argmax_ok ::
    "('a \<Rightarrow> 'k) \<Rightarrow> ('a \<Rightarrow> 'r::linorder) \<Rightarrow> 'a list \<Rightarrow> ('k, 'a) dict \<Rightarrow> bool" where
  "argmax_ok key rnk xs best \<longleftrightarrow> distinct (dkeys best)
     \<and> (\<forall>k y. dget best k = Some y \<longrightarrow> y \<in> set xs \<and> key y = k
          \<and> (\<forall>z \<in> set xs. key z = k \<longrightarrow> rnk z \<le> rnk y))
     \<and> (\<forall>z \<in> set xs. dget best (key z) \<noteq> None)"

lemma argmax_okD:
  assumes "argmax_ok key rnk xs best"
  shows "distinct (dkeys best)" "\<And>k y. dget best k = Some y \<Longrightarrow> y \<in> set xs \<and> key y = k"
    "\<And>k y z. dget best k = Some y \<Longrightarrow> z \<in> set xs \<Longrightarrow> key z = k \<Longrightarrow> rnk z \<le> rnk y"
    "\<And>z. z \<in> set xs \<Longrightarrow> \<exists>y. dget best (key z) = Some y"
  using assms by (auto simp: argmax_ok_def)

lemma argmax_replace:
  assumes "argmax_ok key rnk xs best" and "\<And>z. z \<in> set xs \<Longrightarrow> key z = key x \<Longrightarrow> rnk z \<le> rnk x"
  shows "argmax_ok key rnk (xs @ [x]) (dset (key x) x best)"
  using assms argmax_okD [OF assms(1)] unfolding argmax_ok_def by auto

lemma argmax_step_ok:
  assumes "argmax_ok key rnk xs best"
  shows "argmax_ok key rnk (xs @ [x]) (argmax_step key rnk best x)"
proof (cases "dget best (key x)")
  case None
  then have "\<And>z. z \<in> set xs \<Longrightarrow> key z \<noteq> key x" using argmax_okD(4) [OF assms] by force
  with argmax_replace [OF assms, of x] None show ?thesis by (auto simp: argmax_step_def)
next
  case (Some c)
  show ?thesis
  proof (cases "rnk c < rnk x")
    case True
    have "rnk z \<le> rnk x" if "z \<in> set xs" "key z = key x" for z
      using argmax_okD(3) [OF assms Some that] True by simp
    with argmax_replace [OF assms, of x] Some True show ?thesis by (simp add: argmax_step_def)
  next
    case False
    with Some assms show ?thesis by (auto simp: argmax_step_def argmax_ok_def)
  qed
qed

lemma argmax_fold_ok: "argmax_ok key rnk xs (foldl (argmax_step key rnk) [] xs)"
  by (induction xs rule: rev_induct) (simp add: argmax_ok_def, simp add: argmax_step_ok)

subsection \<open>Rows that can be current\<close>

definition occurrence_list :: "memory_store \<Rightarrow> stored_observation \<Rightarrow> (instant \<times> nat) list" where
  "occurrence_list s row = dvalues (case dget (st_occurrences s) (so_id row) of None \<Rightarrow> [] | Some d \<Rightarrow> d)"

text \<open>An occurrence counts unless the capture of its attempt is invalidated, for the row's derivation
  or altogether.\<close>
definition counts :: "memory_store \<Rightarrow> stored_observation \<Rightarrow> nat \<Rightarrow> bool" where
  "counts s row attempt \<longleftrightarrow> (case a_capture_id (the (dget (st_attempts s) attempt)) of None \<Rightarrow> True
     | Some cap \<Rightarrow> \<not> is_invalidated s cap (Some (derivation_id (so_observation row))))"

definition live_instants :: "memory_store \<Rightarrow> stored_observation \<Rightarrow> instant list" where
  "live_instants s row = map fst (filter (\<lambda>(_, a). counts s row a) (occurrence_list s row))"

definition visible ::
    "memory_store \<Rightarrow> string \<Rightarrow> instant option \<Rightarrow> instant option \<Rightarrow> transport option
     \<Rightarrow> stored_observation \<Rightarrow> bool" where
  "visible s ds start until tr row \<longleftrightarrow>
     selected ds start until tr (so_observation row) \<and> live_instants s row \<noteq> []"

definition stored :: "memory_store \<Rightarrow> stored_observation \<Rightarrow> bool" where
  "stored s row \<longleftrightarrow> dget (st_rows s) (so_id row) = Some row"

text \<open>Every stored row can be ranked: its contract version is a version number and its derivation is
  registered. Observations carry the former by construction; the latter is what \<open>commit\<close> does with
  the derivation it is given.\<close>
definition rankable :: "memory_store \<Rightarrow> bool" where
  "rankable s \<longleftrightarrow> (\<forall>row. stored s row \<longrightarrow> semver_pattern (contract_version (so_observation row))
     \<and> dget (st_derivations s) (derivation_id (so_observation row)) \<noteq> None)"

definition rank_of :: "memory_store \<Rightarrow> stored_observation \<Rightarrow> rank_key" where
  "rank_of s row = projr (row_rank s row (live_instants s row))"

lemma stored_iff: "rows_ok s \<Longrightarrow> row \<in> set (dvalues (st_rows s)) \<longleftrightarrow> stored s row"
  unfolding rows_ok_def stored_def by (metis dvalues_iff)

lemma valid_occurrences_live:
  assumes "store_ok s" and "stored s row"
  shows "valid_occurrences s row = Inr (live_instants s row)"
proof -
  let ?g = "\<lambda>(ins, a). (ins, counts s row a)"
  have "dget (st_attempts s) (snd x) \<noteq> None" if x: "x \<in> set (occurrence_list s row)" for x
  proof -
    obtain d where d: "dget (st_occurrences s) (so_id row) = Some d" "x \<in> set (dvalues d)"
      using x by (cases "dget (st_occurrences s) (so_id row)") (simp_all add: occurrence_list_def)
    then have "distinct (dkeys d)" using store_okD(5) [OF assms(1)] unfolding occs_ok_def by blast
    with d obtain t where "dget d t = Some x" using dvalues_iff by metis
    with d store_okD(4) [OF assms(1)] show ?thesis unfolding refs_ok_def by (metis domIff)
  qed
  then have "mapR (\<lambda>(ins, attempt_id). case dget (st_attempts s) attempt_id of None \<Rightarrow> Inl KeyError
        | Some a \<Rightarrow> Inr (ins, case a_capture_id a of None \<Rightarrow> True
            | Some cap \<Rightarrow> \<not> is_invalidated s cap (Some (derivation_id (so_observation row)))))
      (occurrence_list s row) = Inr (map ?g (occurrence_list s row))"
    by (intro mapR_total) (fastforce simp: counts_def split: prod.splits option.splits)
  then show ?thesis
    by (simp add: valid_occurrences_def occurrence_list_def [symmetric] live_instants_def filter_map o_def
        case_prod_unfold)
qed

lemma row_rank_total:
  assumes "store_ok s" and "rankable s" and "stored s row" and "live_instants s row \<noteq> []"
  shows "row_rank s row (live_instants s row) = Inr (rank_of s row)"
proof -
  obtain d where d: "dget (st_derivations s) (derivation_id (so_observation row)) = Some d"
    using assms(2,3) unfolding rankable_def by blast
  then have "d_registered_at d \<noteq> None" using store_okD(6) [OF assms(1)] unfolding derivs_ok_def by blast
  with d obtain t where "registered_at s (derivation_id (so_observation row)) = Inr t"
    by (auto simp: registered_at_def)
  moreover have "\<exists>k. rank (so_observation row) t (Some (Max (set (live_instants s row)))) = Inr k"
    using assms(2,3) rank_total unfolding rankable_def by blast
  ultimately show ?thesis using assms(4) by (auto simp: rank_of_def row_rank_def)
qed

subsection \<open>The loop is the plain fold\<close>

abbreviation row_key :: "transport option \<Rightarrow> stored_observation \<Rightarrow> current_key" where
  "row_key tr r \<equiv> view_key tr (so_observation r)"

lemma best_step_argmax:
  assumes "store_ok s" and "rankable s" and "stored s row"
    and "\<And>k y. dget best k = Some y \<Longrightarrow> stored s y \<and> live_instants s y \<noteq> []"
  shows "best_step s ds start until tr best row =
    Inr (if visible s ds start until tr row then argmax_step (row_key tr) (rank_of s) best row else best)"
proof (cases "visible s ds start until tr row")
  case True
  then have v: "selected ds start until tr (so_observation row)" "live_instants s row \<noteq> []"
    by (simp_all add: visible_def)
  show ?thesis
  proof (cases "dget best (row_key tr row)")
    case None
    with v True show ?thesis
      by (simp add: best_step_def valid_occurrences_live [OF assms(1,3)] argmax_step_def Let_def)
  next
    case (Some y)
    note y = assms(4) [OF Some]
    with Some v True show ?thesis
      by (simp add: best_step_def valid_occurrences_live [OF assms(1)] assms(3) argmax_step_def Let_def
          row_rank_total [OF assms(1,2)])
  qed
next
  case False
  then show ?thesis
    by (auto simp: best_step_def visible_def valid_occurrences_live [OF assms(1,3)])
qed

lemma argmax_step_mem: "dget (argmax_step key rnk best x) k = Some y \<Longrightarrow> y = x \<or> dget best k = Some y"
  by (auto simp: argmax_step_def split: option.splits if_splits)

lemma best_rows_argmax:
  assumes "store_ok s" and "rankable s" and "\<forall>row \<in> set rows. stored s row"
    and "\<And>k y. dget best k = Some y \<Longrightarrow> stored s y \<and> live_instants s y \<noteq> []"
  shows "best_rows s ds start until tr best rows =
    Inr (foldl (argmax_step (row_key tr) (rank_of s)) best (filter (visible s ds start until tr) rows))"
  using assms(3,4)
proof (induction rows arbitrary: best)
  case (Cons row rows)
  let ?b = "if visible s ds start until tr row then argmax_step (row_key tr) (rank_of s) best row else best"
  have st: "stored s row" using Cons.prems(1) by simp
  have "stored s y \<and> live_instants s y \<noteq> []" if "dget ?b k = Some y" for k y
  proof (cases "visible s ds start until tr row \<and> dget best k \<noteq> Some y")
    case True
    then have "y = row" using that argmax_step_mem [of "row_key tr" "rank_of s" best row k y] by simp
    with st True show ?thesis by (simp add: visible_def)
  next
    case False
    then have "dget best k = Some y" using that by (simp split: if_splits)
    then show ?thesis by (rule Cons.prems(2))
  qed
  with Cons.IH [of ?b] Cons.prems(1) show ?case
    by (simp add: best_step_argmax [OF assms(1,2) st Cons.prems(2)])
qed simp

definition as_current :: "stored_observation \<Rightarrow> current_row" where
  "as_current r = \<lparr>cu_observation = so_observation r, cu_run_attempt_id = so_run_attempt_id r,
     cu_ordering_basis = ordering_basis (so_observation r)\<rparr>"

text \<open>The row is the best of the visible rows of its key.\<close>
definition current ::
    "memory_store \<Rightarrow> string \<Rightarrow> instant option \<Rightarrow> instant option \<Rightarrow> transport option
     \<Rightarrow> stored_observation \<Rightarrow> bool" where
  "current s ds start until tr r \<longleftrightarrow> stored s r \<and> visible s ds start until tr r
     \<and> (\<forall>q. stored s q \<and> visible s ds start until tr q \<and> row_key tr q = row_key tr r
          \<longrightarrow> rank_of s q \<le> rank_of s r)"

definition wanted :: "string option \<Rightarrow> stored_observation \<Rightarrow> bool" where
  "wanted met r \<longleftrightarrow> met = None \<or> met = Some (metric (so_observation r))"

definition view_list :: "string option \<Rightarrow> (current_key, stored_observation) dict \<Rightarrow> current_row list" where
  "view_list met best = sort_key (\<lambda>c. (delivery_start_utc (cu_observation c), metric (cu_observation c)))
     (map as_current (filter (wanted met) (dvalues best)))"

lemma current_rows_eq:
  assumes "store_ok s" and "rankable s"
  obtains best where
    "argmax_ok (row_key tr) (rank_of s) (filter (visible s ds start until tr) (dvalues (st_rows s))) best"
    "current_rows s ds start until met tr = Inr (view_list met best)"
proof -
  let ?vis = "filter (visible s ds start until tr) (dvalues (st_rows s))"
  define best where "best = foldl (argmax_step (row_key tr) (rank_of s)) [] ?vis"
  have ok: "argmax_ok (row_key tr) (rank_of s) ?vis best" unfolding best_def by (rule argmax_fold_ok)
  have "\<forall>row \<in> set (dvalues (st_rows s)). stored s row" using stored_iff store_okD(3) [OF assms(1)] by blast
  from best_rows_argmax [OF assms this, of "[]"]
  have b: "best_rows s ds start until tr [] (dvalues (st_rows s)) = Inr best" by (simp add: best_def)
  have "tr = None \<or> tr = Some (source_transport (so_observation r))" if r: "r \<in> set (dvalues best)" for r
  proof -
    obtain k where "dget best k = Some r" using r dvalues_iff [OF argmax_okD(1) [OF ok]] by metis
    from argmax_okD(2) [OF ok this] show ?thesis by (simp add: visible_def selected_def)
  qed
  then have "filter (\<lambda>r. (met = None \<or> met = Some (metric (so_observation r)))
        \<and> (tr = None \<or> tr = Some (source_transport (so_observation r)))) (dvalues best)
      = filter (\<lambda>r. met = None \<or> met = Some (metric (so_observation r))) (dvalues best)"
    by (intro filter_cong) auto
  then have "current_rows s ds start until met tr = Inr (view_list met best)"
    using b by (simp add: current_rows_def as_current_def [abs_def] view_list_def wanted_def [abs_def])
  with ok show ?thesis by (rule that)
qed

lemma argmax_keys:
  assumes "argmax_ok key rnk xs best"
  shows "map key (dvalues best) = dkeys best"
proof -
  have "key (snd p) = fst p" if "p \<in> set best" for p
    using argmax_okD(2) [OF assms, of "fst p" "snd p"] dget_in_iff [OF argmax_okD(1) [OF assms], of "fst p" "snd p"]
      that by simp
  then show ?thesis by simp
qed

lemma dvalues_bex:
  "distinct (dkeys d) \<Longrightarrow> (\<exists>r \<in> set (dvalues d). P r) \<longleftrightarrow> (\<exists>k r. dget d k = Some r \<and> P r)"
  using dvalues_iff by metis

lemma sort_map_filter_mem:
  "c \<in> set (sort_key f (map g (filter P xs))) \<longleftrightarrow> (\<exists>r \<in> set xs. P r \<and> c = g r)"
  by auto

lemma argmax_current:
  assumes "store_ok s"
    and "argmax_ok (row_key tr) (rank_of s) (filter (visible s ds start until tr) (dvalues (st_rows s))) best"
    and "dget best k = Some r"
  shows "current s ds start until tr r \<and> row_key tr r = k"
proof -
  have st: "q \<in> set (filter (visible s ds start until tr) (dvalues (st_rows s))) \<longleftrightarrow>
      stored s q \<and> visible s ds start until tr q" for q
    using stored_iff [OF store_okD(3) [OF assms(1)], of q] by auto
  from argmax_okD(2,3) [OF assms(2,3)] show ?thesis unfolding st current_def by auto
qed

lemma view_key_metric: "view_key tr x = view_key tr y \<Longrightarrow> metric x = metric y"
  by (simp add: view_key_def observation_identity_def)

lemma view_key_identity: "observation_identity x = observation_identity y \<Longrightarrow> view_key None x = view_key None y"
  by (simp add: view_key_def)

lemma view_list_mem:
  assumes "distinct (dkeys best)"
  shows "c \<in> set (view_list met best) \<longleftrightarrow> (\<exists>k r. dget best k = Some r \<and> wanted met r \<and> c = as_current r)"
  unfolding view_list_def sort_map_filter_mem dvalues_bex [OF assms] ..

lemma view_list_distinct:
  assumes "argmax_ok (row_key tr) rnk xs best"
  shows "distinct (map (\<lambda>c. view_key tr (cu_observation c)) (view_list met best))"
proof -
  have "distinct (map (row_key tr) (dvalues best))"
    unfolding argmax_keys [OF assms] by (rule argmax_okD(1) [OF assms])
  then have "distinct (map (row_key tr) (filter (wanted met) (dvalues best)))" by (rule distinct_map_filter)
  moreover have "mset (map (\<lambda>c. view_key tr (cu_observation c)) (view_list met best))
      = mset (map (row_key tr) (filter (wanted met) (dvalues best)))"
    by (simp add: view_list_def as_current_def image_mset.compositionality o_def)
  ultimately show ?thesis using mset_eq_imp_distinct_iff by blast
qed

subsection \<open>What the current view is\<close>

text \<open>C3. The current view always exists and is the specification: it lists, in order of delivery start
  and metric, rows that are stored, selected, have an occurrence of a capture that is not invalidated
  and have the highest rank of all such rows of their key; every key that has such a row is listed,
  exactly once.\<close>
theorem current_rows_spec:
  assumes "store_steps empty_store s" and "rankable s"
  shows "\<exists>cs. current_rows s ds start until met tr = Inr cs
    \<and> sorted (map (\<lambda>c. (delivery_start_utc (cu_observation c), metric (cu_observation c))) cs)
    \<and> (\<forall>c \<in> set cs. \<exists>r. c = as_current r \<and> current s ds start until tr r
         \<and> wanted met r)
    \<and> (\<forall>q. stored s q \<and> visible s ds start until tr q \<and> wanted met q
         \<longrightarrow> (\<exists>c \<in> set cs. view_key tr (cu_observation c) = row_key tr q))
    \<and> distinct (map (\<lambda>c. view_key tr (cu_observation c)) cs)"
proof -
  have ok: "store_ok s" using store_steps_ok [OF assms(1) empty_store_ok] by simp
  obtain best where best: "argmax_ok (row_key tr) (rank_of s)
        (filter (visible s ds start until tr) (dvalues (st_rows s))) best"
    and eq: "current_rows s ds start until met tr = Inr (view_list met best)"
    by (rule current_rows_eq [OF ok assms(2)])
  note mem = view_list_mem [OF argmax_okD(1) [OF best]]
  have "\<exists>r. c = as_current r \<and> current s ds start until tr r \<and> wanted met r"
    if "c \<in> set (view_list met best)" for c
    using that argmax_current [OF ok best] unfolding mem by metis
  moreover have "\<exists>c \<in> set (view_list met best). view_key tr (cu_observation c) = row_key tr q"
    if q: "stored s q \<and> visible s ds start until tr q \<and> wanted met q" for q
  proof -
    have "q \<in> set (filter (visible s ds start until tr) (dvalues (st_rows s)))"
      using q stored_iff [OF store_okD(3) [OF ok], of q] by simp
    from argmax_okD(4) [OF best this] obtain r where r: "dget best (row_key tr q) = Some r" by blast
    then have k: "row_key tr r = row_key tr q" using argmax_okD(2) [OF best r] by simp
    then have "wanted met r" using q view_key_metric [OF k] by (simp add: wanted_def)
    with r have "as_current r \<in> set (view_list met best)" unfolding mem by blast
    with k show ?thesis by (intro bexI [of _ "as_current r"]) (simp_all add: as_current_def)
  qed
  moreover have "sorted (map (\<lambda>c. (delivery_start_utc (cu_observation c), metric (cu_observation c)))
      (view_list met best))"
    by (simp add: view_list_def)
  ultimately show ?thesis
    by (intro exI [of _ "view_list met best"] conjI allI ballI impI view_list_distinct [OF best] eq)
qed

text \<open>The committed observation of the demonstration history.\<close>
definition demo_row :: stored_observation where
  "demo_row = snd (hd (st_rows demo_committed))"

lemma demo_rows: "dkeys (st_rows demo_committed) = [1] \<and> so_id demo_row = 1
    \<and> so_observation demo_row = demo_observation"
  by code_simp

lemma demo_derived: "dget (st_derivations demo_committed) (derivation_id demo_observation) \<noteq> None
    \<and> semver_pattern (contract_version demo_observation)"
  by code_simp

lemma demo_stored: "stored demo_committed r \<longleftrightarrow> r = demo_row"
proof -
  have "length (st_rows demo_committed) = 1" using demo_rows by (metis length_map length_Cons list.size(3) One_nat_def)
  then obtain p where p: "st_rows demo_committed = [p]" by (auto simp: length_Suc_conv)
  then have "p = (1, demo_row)" using demo_rows by (simp add: demo_row_def prod_eq_iff)
  with p demo_rows show ?thesis by (auto simp: stored_def split: if_splits)
qed

lemma demo_rankable: "rankable demo_committed"
  using demo_rows demo_derived by (simp add: rankable_def demo_stored)

lemma demo_visible: "visible demo_committed ''ote.idm_continuous'' None None None demo_row"
  by code_simp

theorem current_rows_spec_witness:
  "\<exists>cs. current_rows demo_committed ''ote.idm_continuous'' None None None None = Inr cs
     \<and> (\<exists>c \<in> set cs. view_key None (cu_observation c) = view_key None demo_observation)"
proof -
  have q: "stored demo_committed demo_row \<and> visible demo_committed ''ote.idm_continuous'' None None None demo_row
      \<and> wanted None demo_row"
    using demo_visible demo_stored by (simp add: wanted_def)
  obtain cs where cs: "current_rows demo_committed ''ote.idm_continuous'' None None None None = Inr cs"
    "\<And>q. stored demo_committed q \<and> visible demo_committed ''ote.idm_continuous'' None None None q \<and> wanted None q
       \<Longrightarrow> \<exists>c \<in> set cs. view_key None (cu_observation c) = row_key None q"
    using current_rows_spec [OF demo_steps(2) demo_rankable, of "''ote.idm_continuous''" None None None None]
    by blast
  from cs(2) [OF q] cs(1) demo_rows show ?thesis by auto
qed

lemma rank_of_owner:
  assumes "store_ok s" and "rankable s" and "stored s r" and "live_instants s r \<noteq> []"
  shows "fst (rank_of s r) = owner_rank (so_observation r)"
  using row_rank_total [OF assms] by (auto simp: row_rank_def rank_def dest: arg_cong [where f = fst] split: if_splits)

text \<open>The owner transport wins: if an observation that the registry's owner transport delivered is
  stored and visible, the current row of its identity is one of the owner's; a copy from another
  transport is never current beside it, however new it is.\<close>
theorem owner_row_is_current:
  assumes "store_steps empty_store s" and "rankable s"
    and "current_rows s ds start until met None = Inr cs" and "c \<in> set cs"
    and "stored s q" and "visible s ds start until None q"
    and "observation_identity (so_observation q) = observation_identity (cu_observation c)"
    and "owner_rank (so_observation q) = 1"
  shows "owner_rank (cu_observation c) = 1"
proof -
  have ok: "store_ok s" using store_steps_ok [OF assms(1) empty_store_ok] by simp
  obtain best where best: "argmax_ok (row_key None) (rank_of s)
        (filter (visible s ds start until None) (dvalues (st_rows s))) best"
    and eq: "current_rows s ds start until met None = Inr (view_list met best)"
    by (rule current_rows_eq [OF ok assms(2)])
  obtain k r where r: "dget best k = Some r" "c = as_current r"
    using assms(3,4) view_list_mem [OF argmax_okD(1) [OF best]] eq by auto
  have cur: "current s ds start until None r" using argmax_current [OF ok best r(1)] by simp
  have "row_key None q = row_key None r"
    using assms(7) by (intro view_key_identity) (simp add: r(2) as_current_def)
  then have le: "rank_of s q \<le> rank_of s r" using cur assms(5,6) unfolding current_def by blast
  have "fst (rank_of s q) = 1" "fst (rank_of s r) = owner_rank (cu_observation c)"
    using rank_of_owner [OF ok assms(2)] assms(5,6,8) cur
    by (auto simp: current_def visible_def r(2) as_current_def)
  moreover from le have "fst (rank_of s q) \<le> fst (rank_of s r)" by (auto simp: less_eq_prod_def)
  moreover have "owner_rank (cu_observation c) \<le> 1" by (simp add: owner_rank_def split: option.splits)
  ultimately show ?thesis by simp
qed

theorem owner_row_is_current_witness:
  "\<exists>cs c. current_rows demo_committed ''ote.idm_continuous'' None None None None = Inr cs \<and> c \<in> set cs
     \<and> owner_rank (cu_observation c) = 1"
proof -
  obtain cs c where c: "current_rows demo_committed ''ote.idm_continuous'' None None None None = Inr cs"
      "c \<in> set cs" "cu_observation c = demo_observation"
  proof -
    have "\<exists>c. current_rows demo_committed ''ote.idm_continuous'' None None None None = Inr [c]
        \<and> cu_observation c = demo_observation"
      by (intro exI [of _ "as_current demo_row"]) code_simp
    then show thesis using that by auto
  qed
  have "owner_rank demo_observation = 1" by code_simp
  then show ?thesis
    using owner_row_is_current [OF demo_steps(2) demo_rankable c(1,2) _ demo_visible] c demo_rows demo_stored
    by metis
qed

text \<open>C7. An invalidation takes effect at once: in the store after it, every current row that the
  decision covers (of its derivation, or of any when it names none) still has an occurrence that was
  produced by a different capture.\<close>
theorem invalidated_capture_not_current:
  assumes "store_steps empty_store s" and "rankable s" and "add_invalidation s iv = (b, t)"
    and "i_target_id iv = target_of_capture (i_capture_id iv)"
    and "current_rows t ds start until met tr = Inr cs" and "c \<in> set cs"
    and "i_derivation_id iv = None \<or> i_derivation_id iv = Some (derivation_id (cu_observation c))"
  shows "\<exists>r ins a. c = as_current r \<and> stored s r \<and> (ins, a) \<in> set (occurrence_list s r)
    \<and> a_capture_id (the (dget (st_attempts s) a)) \<noteq> Some (i_capture_id iv)"
proof -
  have okt: "store_ok t"
    using add_invalidation_ok(1) [OF _ assms(3)] store_steps_ok [OF assms(1) empty_store_ok] by blast
  have same: "st_rows t = st_rows s" "st_derivations t = st_derivations s" "st_attempts t = st_attempts s"
      "st_occurrences t = st_occurrences s"
    and inv: "dget (st_invalidations t) (i_target_id iv, i_capture_id iv, i_derivation_id iv) \<noteq> None"
    using assms(3) by (auto simp: add_invalidation_def Let_def split: if_splits)
  have "rankable t" using assms(2) by (simp add: rankable_def stored_def same)
  then obtain best where best: "argmax_ok (row_key tr) (rank_of t)
        (filter (visible t ds start until tr) (dvalues (st_rows t))) best"
    and eq: "current_rows t ds start until met tr = Inr (view_list met best)"
    by (rule current_rows_eq [OF okt])
  obtain k r where r: "dget best k = Some r" "c = as_current r"
    using assms(5,6) view_list_mem [OF argmax_okD(1) [OF best]] eq by auto
  have cur: "stored t r" "visible t ds start until tr r"
    using argmax_current [OF okt best r(1)] by (simp_all add: current_def)
  then obtain ins a where a: "(ins, a) \<in> set (occurrence_list t r)" "counts t r a"
    by (auto simp: visible_def live_instants_def filter_empty_conv)
  have "is_invalidated t (i_capture_id iv) (Some (derivation_id (so_observation r)))"
    using inv assms(4,7) by (auto simp: is_invalidated_def Let_def r(2) as_current_def)
  with a(2) have "a_capture_id (the (dget (st_attempts t) a)) \<noteq> Some (i_capture_id iv)"
    by (auto simp: counts_def)
  moreover have "stored s r" "occurrence_list s r = occurrence_list t r"
    using cur(1) by (simp_all add: same stored_def occurrence_list_def)
  ultimately show ?thesis using r(2) a(1) same(3) by metis
qed

text \<open>Invalidating another capture of the target leaves the row current.\<close>
theorem invalidated_capture_not_current_witness:
  "\<exists>r ins a. as_current demo_row = as_current r \<and> stored demo_committed r
     \<and> (ins, a) \<in> set (occurrence_list demo_committed r)
     \<and> a_capture_id (the (dget (st_attempts demo_committed) a)) \<noteq> Some ''ote_idm:t:1''"
proof -
  let ?iv = "\<lparr>i_target_id = ''ote_idm'', i_capture_id = ''ote_idm:t:1'', i_derivation_id = None,
      i_reason = ''bad feed'', i_recorded_by = ''ops'', i_recorded_at = 40\<rparr>"
  define t where "t = snd (add_invalidation demo_committed ?iv)"
  have t: "add_invalidation demo_committed ?iv = (fst (add_invalidation demo_committed ?iv), t)"
    by (simp add: t_def)
  have "current_rows t ''ote.idm_continuous'' None None None None = Inr [as_current demo_row]"
    unfolding t_def by code_simp
  from invalidated_capture_not_current [OF demo_steps(2) demo_rankable t _ this]
  show ?thesis by (simp add: target_of_capture_def)
qed

end
