(* ===== verification/Cron.thy ===== *)
theory Cron
  imports Pytime
begin

text \<open>
  The five-field cron evaluator (src/energy_platform/runtime/cron.py) and the intended instant of a
  scheduled capture (src/energy_platform/runtime/schedule.py). \<open>ZoneInfo(timezone)\<close> is the zone table;
  a \<open>frozenset\<close> is a set. The evaluator walks minute by minute; it is shown to yield exactly the
  matching minutes of the window, in order, and the searches built on it to find the newest one.
\<close>

subsection \<open>Expressions\<close>

text \<open>\<open>range(a, stop, step)\<close> for a positive step.\<close>
definition py_range :: "int \<Rightarrow> int \<Rightarrow> int \<Rightarrow> int list" where
  "py_range a stop step = filter (\<lambda>x. (x - a) mod step = 0) [a..stop - 1]"

definition int_of :: "string \<Rightarrow> py_error + int" where
  "int_of s = (case py_int s of None \<Rightarrow> Inl (ValueError ''invalid literal for int()'') | Some n \<Rightarrow> Inr n)"

text \<open>One comma-separated part of a field.\<close>
definition cron_part :: "int \<Rightarrow> int \<Rightarrow> string \<Rightarrow> py_error + int list" where
  "cron_part lo hi part0 =
     bindR (case split_first (CHR ''/'') part0 of
              None \<Rightarrow> Inr (part0, 1)
            | Some (p, step_text) \<Rightarrow> bindR (int_of step_text) (\<lambda>step.
                if step < 1 then Inl (ValueError ''cron step must be >= 1'') else Inr (p, step)))
       (\<lambda>(part, step).
     bindR (if part = ''*'' then Inr (lo, hi)
            else case split_first (CHR ''-'') part of
                   Some (a_text, b_text) \<Rightarrow> bindR (int_of a_text) (\<lambda>a. bindR (int_of b_text) (\<lambda>b. Inr (a, b)))
                 | None \<Rightarrow> bindR (int_of part) (\<lambda>a. Inr (a, if step \<noteq> 1 then hi else a)))
       (\<lambda>(a, b).
     if \<not> (lo \<le> a \<and> a \<le> b \<and> b \<le> hi) then Inl (ValueError ''cron field outside range'')
     else Inr (py_range a (b + 1) step)))"

definition cron_field :: "string \<Rightarrow> int \<Rightarrow> int \<Rightarrow> py_error + int set" where
  "cron_field text lo hi = bindR (mapR (cron_part lo hi) (split_on (CHR '','') text))
     (\<lambda>parts. Inr (set (concat parts)))"

record cron_expression =
  cron_minutes :: "int set"
  cron_hours :: "int set"
  cron_days :: "int set"
  cron_months :: "int set"
  cron_weekdays :: "int set"
  day_restricted :: bool
  weekday_restricted :: bool

definition cron_parse :: "string \<Rightarrow> py_error + cron_expression" where
  "cron_parse text = (case split_ws text of
       [f0, f1, f2, f3, f4] \<Rightarrow>
         bindR (cron_field f0 0 59) (\<lambda>p0. bindR (cron_field f1 0 23) (\<lambda>p1.
         bindR (cron_field f2 1 31) (\<lambda>p2. bindR (cron_field f3 1 12) (\<lambda>p3.
         bindR (cron_field f4 0 7) (\<lambda>p4.
           Inr \<lparr>cron_minutes = p0, cron_hours = p1, cron_days = p2, cron_months = p3,
                cron_weekdays = (\<lambda>d. if d = 7 then 0 else d) ` p4,
                day_restricted = (f2 \<noteq> ''*''), weekday_restricted = (f4 \<noteq> ''*'')\<rparr>)))))
     | _ \<Rightarrow> Inl (ValueError ''cron needs five fields''))"

definition cron_matches :: "cron_expression \<Rightarrow> local_time \<Rightarrow> bool" where
  "cron_matches c l =
     (if minute_of l \<notin> cron_minutes c \<or> hour_of l \<notin> cron_hours c then False
      else if month_of (date_of l) \<notin> cron_months c then False
      else (let day_ok = day_of (date_of l) \<in> cron_days c;
                weekday_ok = weekday7 (date_of l) \<in> cron_weekdays c
            in if day_restricted c \<and> weekday_restricted c then day_ok \<or> weekday_ok
               else day_ok \<and> weekday_ok))"

subsection \<open>Instants\<close>

text \<open>The loop of \<open>cron_instants\<close>.\<close>
function cron_loop :: "cron_expression \<Rightarrow> zoneinfo \<Rightarrow> instant \<Rightarrow> instant \<Rightarrow> instant list" where
  "cron_loop c z t stop =
     (if t \<le> stop
      then (if cron_matches c (to_local z t) then t # cron_loop c z (t + usec_minute) stop
            else cron_loop c z (t + usec_minute) stop)
      else [])"
  by pat_completeness auto
termination
  by (relation "measure (\<lambda>(c, z, t, stop). nat (stop - t + 1))") (auto simp: usec_minute_def)

declare cron_loop.simps [simp del]

definition cron_instants ::
    "string \<Rightarrow> zoneinfo \<Rightarrow> instant \<Rightarrow> instant \<Rightarrow> py_error + instant list" where
  "cron_instants expression z start until = bindR (cron_parse expression) (\<lambda>c.
     Inr (cron_loop c z (floor_minute start + usec_minute) until))"

definition cadence_of :: "string \<Rightarrow> zoneinfo \<Rightarrow> instant \<Rightarrow> py_error + timedelta" where
  "cadence_of expression z reference =
     bindR (cron_instants expression z (reference - usec_day) (reference + usec_day)) (\<lambda>instants.
       let gaps = map (\<lambda>(a, b). b - a) (zip instants (tl instants))
       in Inr (if gaps = [] then usec_day else Min (set gaps)))"

subsection \<open>The intended instant\<close>


text \<open>The loop of \<open>latest_instant\<close>, one day at a time.\<close>
function latest_loop ::
    "string \<Rightarrow> zoneinfo \<Rightarrow> instant \<Rightarrow> timedelta \<Rightarrow> timedelta \<Rightarrow> py_error + instant option" where
  "latest_loop expression z until searched window =
     (if searched < window
      then bindR (cron_instants expression z (until - usec_day) until) (\<lambda>found.
             case last_opt found of
               Some t \<Rightarrow> Inr (Some t)
             | None \<Rightarrow> latest_loop expression z (until - usec_day) (searched + usec_day) window)
      else Inr None)"
  by pat_completeness auto
termination
  by (relation "measure (\<lambda>(e, z, u, searched, window). nat (window - searched))") (auto simp: usec_day_def)

declare latest_loop.simps [simp del]

definition latest_instant :: "string \<Rightarrow> zoneinfo \<Rightarrow> instant \<Rightarrow> timedelta \<Rightarrow> py_error + instant option" where
  "latest_instant expression z now window = latest_loop expression z (floor_minute now) 0 window"

definition default_window :: timedelta where
  "default_window = 62 * usec_day"



subsection \<open>The evaluator yields exactly the matching minutes\<close>

definition fires :: "cron_expression \<Rightarrow> zoneinfo \<Rightarrow> instant \<Rightarrow> bool" where
  "fires c z t \<longleftrightarrow> usec_minute dvd t \<and> cron_matches c (to_local z t)"

lemma usec_minute_pos: "0 < usec_minute"
  by (simp add: usec_minute_def)

lemma minute_step:
  assumes "usec_minute dvd t" and "usec_minute dvd x" and "t \<le> x" and "x \<noteq> t"
  shows "t + usec_minute \<le> x"
proof -
  obtain i j where "t = usec_minute * i" "x = usec_minute * j" using assms(1,2) by (auto elim!: dvdE)
  with assms(3,4) show ?thesis by (simp add: usec_minute_def)
qed

lemma cron_loop_set:
  assumes "usec_minute dvd t"
  shows "set (cron_loop c z t stop) = {x. t \<le> x \<and> x \<le> stop \<and> fires c z x}"
  using assms
proof (induction c z t stop rule: cron_loop.induct)
  case (1 c z t stop)
  show ?case
  proof (cases "t \<le> stop")
    case True
    have d: "usec_minute dvd t + usec_minute" using 1(3) by simp
    have rec: "set (cron_loop c z (t + usec_minute) stop) = {x. t + usec_minute \<le> x \<and> x \<le> stop \<and> fires c z x}"
      using 1(1,2) [OF True] d by blast
    have "{x. t \<le> x \<and> x \<le> stop \<and> fires c z x}
        = {x. t + usec_minute \<le> x \<and> x \<le> stop \<and> fires c z x} \<union> {x. x = t \<and> fires c z x}"
    proof (intro set_eqI)
      fix x
      show "x \<in> {x. t \<le> x \<and> x \<le> stop \<and> fires c z x} \<longleftrightarrow>
          x \<in> {x. t + usec_minute \<le> x \<and> x \<le> stop \<and> fires c z x} \<union> {x. x = t \<and> fires c z x}"
        using True minute_step [OF 1(3), of x] usec_minute_pos by (cases "x = t") (auto simp: fires_def)
    qed
    with True rec 1(3) show ?thesis
      by (subst cron_loop.simps) (auto simp: fires_def)
  qed (simp add: cron_loop.simps)
qed

lemma cron_loop_sorted: "usec_minute dvd t \<Longrightarrow> sorted_wrt (<) (cron_loop c z t stop)"
proof (induction c z t stop rule: cron_loop.induct)
  case (1 c z t stop)
  show ?case
  proof (cases "t \<le> stop")
    case True
    have d: "usec_minute dvd t + usec_minute" using 1(3) by simp
    have "sorted_wrt (<) (cron_loop c z (t + usec_minute) stop)" using 1(1,2) [OF True] d by blast
    moreover have "\<forall>x \<in> set (cron_loop c z (t + usec_minute) stop). t < x"
      unfolding cron_loop_set [OF d] by (auto simp: usec_minute_def)
    ultimately show ?thesis by (subst cron_loop.simps) simp
  qed (simp add: cron_loop.simps)
qed

lemma after_floor:
  assumes "usec_minute dvd x"
  shows "floor_minute start + usec_minute \<le> x \<longleftrightarrow> start < x"
proof
  assume "floor_minute start + usec_minute \<le> x"
  then show "start < x" using floor_minute_gt [of start] by simp
next
  assume "start < x"
  then show "floor_minute start + usec_minute \<le> x"
    using minute_step [OF floor_minute_dvd assms, of start] floor_minute_le [of start] by simp
qed

lemma cron_instants_set:
  assumes "cron_parse expression = Inr c"
  shows "\<exists>ts. cron_instants expression z start until = Inr ts \<and> sorted_wrt (<) ts
    \<and> set ts = {t. start < t \<and> t \<le> until \<and> fires c z t}"
proof -
  have d: "usec_minute dvd floor_minute start + usec_minute" using floor_minute_dvd [of start] by simp
  have "{x. floor_minute start + usec_minute \<le> x \<and> x \<le> until \<and> fires c z x}
      = {t. start < t \<and> t \<le> until \<and> fires c z t}"
    using after_floor by (auto simp: fires_def)
  with assms cron_loop_set [OF d, of c z until] cron_loop_sorted [OF d, of c z until] show ?thesis
    by (simp add: cron_instants_def)
qed

subsection \<open>Properties\<close>

text \<open>C10. \<open>cron_instants\<close> of an expression that parses yields exactly the whole minutes \<open>t\<close> with
  \<open>start < t \<le> end\<close> whose local wall clock the expression matches, each once, in increasing order.\<close>
theorem cron_instants_exact:
  assumes "cron_parse expression = Inr c"
  shows "\<exists>ts. cron_instants expression z start until = Inr ts \<and> sorted_wrt (<) ts
    \<and> set ts = {t. start < t \<and> t \<le> until \<and> usec_minute dvd t \<and> cron_matches c (to_local z t)}"
  using cron_instants_set [OF assms] by (simp add: fires_def)

definition quarter_hours :: cron_expression where
  "quarter_hours = projr (cron_parse ''*/15 * * * *'')"

lemma quarter_hours_parse: "cron_parse ''*/15 * * * *'' = Inr quarter_hours"
  unfolding quarter_hours_def by code_simp

theorem cron_instants_exact_witness:
  "\<exists>ts. cron_instants ''*/15 * * * *'' prague_2026 0 1800000000 = Inr ts \<and> 900000000 \<in> set ts"
proof -
  have "cron_matches quarter_hours (to_local prague_2026 900000000)" "usec_minute dvd 900000000" by code_simp+
  with cron_instants_exact [OF quarter_hours_parse, of prague_2026 0 1800000000] show ?thesis by auto
qed

lemma cron_instants_last:
  assumes "cron_parse expression = Inr c"
  shows "\<exists>ts. cron_instants expression z start until = Inr ts
    \<and> (case last_opt ts of
         None \<Rightarrow> \<forall>x. start < x \<and> x \<le> until \<longrightarrow> \<not> fires c z x
       | Some t \<Rightarrow> start < t \<and> t \<le> until \<and> fires c z t \<and> (\<forall>x. t < x \<and> x \<le> until \<longrightarrow> \<not> fires c z x))"
proof -
  obtain ts where ts: "cron_instants expression z start until = Inr ts" "sorted_wrt (<) ts"
      "set ts = {t. start < t \<and> t \<le> until \<and> fires c z t}"
    using cron_instants_set [OF assms] by blast
  have "\<not> fires c z x" if "last_opt ts = Some t" "t < x" "x \<le> until" for t x
  proof
    assume "fires c z x"
    moreover have "start < t" using last_opt_SomeD [OF that(1)] ts(3) by auto
    ultimately have "x \<in> set ts" using ts(3) that(2,3) by auto
    then have "x \<le> last ts" by (rule strict_sorted_last_max [OF ts(2)])
    with last_opt_SomeD [OF that(1)] that(2) show False by simp
  qed
  with ts show ?thesis by (auto split: option.split dest: last_opt_SomeD)
qed

lemma latest_loop_newest:
  assumes "cron_parse expression = Inr c" and "\<forall>x. until < x \<and> x \<le> now \<longrightarrow> \<not> fires c z x" and "until \<le> now"
  shows "\<exists>r. latest_loop expression z until searched window = Inr r
    \<and> (case r of
         None \<Rightarrow> \<forall>x. until - (window - searched) < x \<and> x \<le> now \<longrightarrow> \<not> fires c z x
       | Some t \<Rightarrow> t \<le> now \<and> fires c z t \<and> (\<forall>x. t < x \<and> x \<le> now \<longrightarrow> \<not> fires c z x))"
  using assms
proof (induction expression z until searched window rule: latest_loop.induct)
  case (1 e z until searched window)
  show ?case
  proof (cases "searched < window")
    case True
    obtain ts where ts: "cron_instants e z (until - usec_day) until = Inr ts"
      and l: "case last_opt ts of
         None \<Rightarrow> \<forall>x. until - usec_day < x \<and> x \<le> until \<longrightarrow> \<not> fires c z x
       | Some t \<Rightarrow> until - usec_day < t \<and> t \<le> until \<and> fires c z t \<and> (\<forall>x. t < x \<and> x \<le> until \<longrightarrow> \<not> fires c z x)"
      using cron_instants_last [OF 1(2)] by blast
    show ?thesis
    proof (cases "last_opt ts")
      case None
      with l 1(3) have "\<forall>x. until - usec_day < x \<and> x \<le> now \<longrightarrow> \<not> fires c z x"
        by (metis (mono_tags, lifting) option.simps(4) linorder_not_less)
      moreover have "until - usec_day \<le> now" using 1(4) by (simp add: usec_day_def)
      ultimately obtain r where
        "latest_loop e z (until - usec_day) (searched + usec_day) window = Inr r"
        "case r of
           None \<Rightarrow> \<forall>x. until - usec_day - (window - (searched + usec_day)) < x \<and> x \<le> now \<longrightarrow> \<not> fires c z x
         | Some t \<Rightarrow> t \<le> now \<and> fires c z t \<and> (\<forall>x. t < x \<and> x \<le> now \<longrightarrow> \<not> fires c z x)"
        using 1(1) [OF True None 1(2)] by blast
      with True ts None show ?thesis by (cases r; subst latest_loop.simps) simp_all
    next
      case (Some t)
      with l 1(3,4) have "t \<le> now" "fires c z t" "\<forall>x. t < x \<and> x \<le> now \<longrightarrow> \<not> fires c z x"
        by (auto simp: not_less) (meson not_less)
      with True ts Some show ?thesis by (subst latest_loop.simps) simp
    qed
  next
    case False
    with 1(3) show ?thesis by (subst latest_loop.simps) auto
  qed
qed

lemma latest_instant_cases:
  assumes "cron_parse expression = Inr c"
  shows "\<exists>r. latest_instant expression z now window = Inr r
    \<and> (case r of
         None \<Rightarrow> \<forall>x. floor_minute now - window < x \<and> x \<le> now \<longrightarrow> \<not> fires c z x
       | Some t \<Rightarrow> t \<le> now \<and> fires c z t \<and> (\<forall>x. t < x \<and> x \<le> now \<longrightarrow> \<not> fires c z x))"
proof -
  have "\<not> fires c z x" if "floor_minute now < x" "x \<le> now" for x
  proof
    assume "fires c z x"
    then have "usec_minute dvd x" by (simp add: fires_def)
    from minute_step [OF floor_minute_dvd this, of now] that floor_minute_gt [of now] show False by simp
  qed
  with latest_loop_newest [OF assms, of "floor_minute now" now z 0 window, unfolded diff_zero] floor_minute_le [of now]
  show ?thesis by (simp add: latest_instant_def)
qed

text \<open>\<open>latest_instant\<close> always returns, and what it returns is the newest firing instant at or before
  \<open>now\<close>; it returns none only if there is no firing instant in the whole window before \<open>now\<close>.\<close>
theorem latest_instant_newest:
  assumes "cron_parse expression = Inr c"
  shows "\<exists>r. latest_instant expression z now window = Inr r
    \<and> (case r of
         None \<Rightarrow> \<forall>x. floor_minute now - window < x \<and> x \<le> now \<longrightarrow> \<not> fires c z x
       | Some t \<Rightarrow> t \<le> now \<and> fires c z t \<and> (\<forall>x. t < x \<and> x \<le> now \<longrightarrow> \<not> fires c z x))"
  by (rule latest_instant_cases [OF assms])

theorem latest_instant_newest_witness:
  "\<exists>t. latest_instant ''*/15 * * * *'' prague_2026 1774746123000000 default_window = Inr (Some t)
     \<and> 1774746000000000 \<le> t \<and> t \<le> 1774746123000000"
proof -
  have f: "fires quarter_hours prague_2026 1774746000000000" by code_simp
  have w: "floor_minute 1774746123000000 - default_window < 1774746000000000" by code_simp
  from latest_instant_newest [OF quarter_hours_parse, of prague_2026 1774746123000000 default_window]
  obtain r where r: "latest_instant ''*/15 * * * *'' prague_2026 1774746123000000 default_window = Inr r"
    "case r of
       None \<Rightarrow> \<forall>x. floor_minute 1774746123000000 - default_window < x \<and> x \<le> 1774746123000000
                 \<longrightarrow> \<not> fires quarter_hours prague_2026 x
     | Some t \<Rightarrow> t \<le> 1774746123000000 \<and> fires quarter_hours prague_2026 t
         \<and> (\<forall>x. t < x \<and> x \<le> 1774746123000000 \<longrightarrow> \<not> fires quarter_hours prague_2026 x)"
    by blast
  with f w show ?thesis by (cases r) (auto simp: not_le [symmetric])
qed



end
