(* ===== verification/Bronze.thy ===== *)
theory Bronze
  imports Store_Types "HOL-Library.Word"
begin

text \<open>
  Bronze (src/energy_platform/bronze): content-addressed blob stores (store.py), the capture log
  (capture_log.py) in its memory and file variants, and the facade that captures and reads
  (bronze.py). SHA-256 is the parameter \<open>sha\<close>. A file store is its tree of paths; the JSON form of an
  entry is the entry. Other writers act between the listing and the creation of an entry: the loop
  of \<open>capture\<close> takes what they do in each round as a function on Bronze.
\<close>

declare map_of_eq_Some_iff [simp del] Some_eq_map_of_iff [simp del]

type_synonym bytes = "8 word list"

subsection \<open>Text of numbers and instants\<close>

definition digit_char :: "nat \<Rightarrow> char" where
  "digit_char d = char_of (48 + d mod 10)"

fun str_nat :: "nat \<Rightarrow> string" where
  "str_nat n = (if n < 10 then [digit_char n] else str_nat (n div 10) @ [digit_char n])"

declare str_nat.simps [simp del]

definition pad2 :: "int \<Rightarrow> string" where
  "pad2 n = [digit_char (nat n div 10), digit_char (nat n)]"

definition pad4 :: "int \<Rightarrow> string" where
  "pad4 n = pad2 (n div 100) @ pad2 (n mod 100)"

definition utc_clock :: "instant \<Rightarrow> local_time" where
  "utc_clock t = \<lparr>wall = t, is_fold = False\<rparr>"

text \<open>\<open>strftime("%Y-%m-%dT%H%M%SZ")\<close> of the UTC datetime.\<close>
definition stamp :: "instant \<Rightarrow> string" where
  "stamp t = (let d = date_of (utc_clock t) in
     pad4 (year_of d) @ ''-'' @ pad2 (month_of d) @ ''-'' @ pad2 (day_of d) @ ''T''
     @ pad2 (hour_of (utc_clock t)) @ pad2 (minute_of (utc_clock t)) @ pad2 (t mod usec_minute div 1000000) @ ''Z'')"

definition capture_id :: "string \<Rightarrow> instant \<Rightarrow> nat \<Rightarrow> string" where
  "capture_id target scheduled attempt = target @ '':'' @ stamp scheduled @ '':'' @ str_nat attempt"

definition entry_key :: "string \<Rightarrow> instant \<Rightarrow> nat \<Rightarrow> string" where
  "entry_key target scheduled attempt = (let d = date_of (utc_clock scheduled) in
     ''captures/'' @ target @ ''/'' @ pad4 (year_of d) @ ''/'' @ pad2 (month_of d) @ ''/'' @ pad2 (day_of d)
     @ ''/'' @ stamp scheduled @ ''_'' @ str_nat attempt @ ''.json'')"

subsection \<open>Blob stores\<close>

definition blob_key :: "string \<Rightarrow> string" where
  "blob_key s = ''bronze/blobs/'' @ take 2 s @ ''/'' @ s"

type_synonym blobs = "(string, bytes) dict"

definition mem_put :: "(bytes \<Rightarrow> string) \<Rightarrow> bytes \<Rightarrow> blobs \<Rightarrow> string \<times> blobs" where
  "mem_put sha data s = (sha data, dsetdefault (sha data) data s)"

definition mem_get :: "blobs \<Rightarrow> string \<Rightarrow> bytes option" where
  "mem_get s k = dget s k"

definition mem_exists :: "blobs \<Rightarrow> string \<Rightarrow> bool" where
  "mem_exists s k \<longleftrightarrow> dget s k \<noteq> None"

text \<open>The directory: path to content. The temporary file is gone when \<open>put\<close> returns, and the rename
  is atomic.\<close>
definition file_put :: "(bytes \<Rightarrow> string) \<Rightarrow> bytes \<Rightarrow> blobs \<Rightarrow> string \<times> blobs" where
  "file_put sha data fs = (let path = blob_key (sha data) in
     if dget fs path \<noteq> None then (sha data, fs) else (sha data, dset path data fs))"

definition file_get :: "blobs \<Rightarrow> string \<Rightarrow> bytes option" where
  "file_get fs k = dget fs (blob_key k)"

definition file_exists :: "blobs \<Rightarrow> string \<Rightarrow> bool" where
  "file_exists fs k \<longleftrightarrow> dget fs (blob_key k) \<noteq> None"

text \<open>What Bronze relies on: \<open>put\<close> returns the address, after it the address is there, nothing that was
  there changes, and every blob sits at the address of its own content.\<close>
locale blob_store =
  fixes sha :: "bytes \<Rightarrow> string" and put :: "bytes \<Rightarrow> 's \<Rightarrow> string \<times> 's"
    and get :: "'s \<Rightarrow> string \<Rightarrow> bytes option" and addressed :: "'s \<Rightarrow> bool"
  assumes put_address: "fst (put d s) = sha d"
    and put_addressed: "addressed s \<Longrightarrow> addressed (snd (put d s))"
    and get_put: "get (snd (put d s)) (sha d) \<noteq> None"
    and get_kept: "get s k = Some x \<Longrightarrow> get (snd (put d s)) k = Some x"
    and get_address: "addressed s \<Longrightarrow> get s k = Some x \<Longrightarrow> sha x = k"
begin

text \<open>What is read at an address hashes to it, and writing a blob again changes nothing it reads.\<close>
lemma read_back: "addressed s \<Longrightarrow> \<exists>x. get (snd (put d s)) (sha d) = Some x \<and> sha x = sha d"
  using get_put [of d s] get_address [OF put_addressed] by (cases "get (snd (put d s)) (sha d)") auto

lemma kept_through: "get s k = Some x \<Longrightarrow> get (snd (put d' (snd (put d s)))) k = Some x"
  by (intro get_kept)

end

definition mem_addressed :: "(bytes \<Rightarrow> string) \<Rightarrow> blobs \<Rightarrow> bool" where
  "mem_addressed sha s \<longleftrightarrow> (\<forall>k d. dget s k = Some d \<longrightarrow> sha d = k)"

definition file_addressed :: "(bytes \<Rightarrow> string) \<Rightarrow> blobs \<Rightarrow> bool" where
  "file_addressed sha fs \<longleftrightarrow> (\<forall>k d. dget fs (blob_key k) = Some d \<longrightarrow> sha d = k)"

lemma blob_key_inj: "blob_key a = blob_key b \<Longrightarrow> a = b"
proof -
  assume eq: "blob_key a = blob_key b"
  then have "length (blob_key a) = length (blob_key b)" by simp
  then have "min 2 (length a) + length a = min 2 (length b) + length b" by (simp add: blob_key_def min.commute)
  then have "length a = length b" by (simp add: min_def split: if_splits)
  with eq show "a = b" by (simp add: blob_key_def)
qed

interpretation mem_blobs: blob_store sha "mem_put sha" mem_get "mem_addressed sha" for sha
  by unfold_locales (auto simp: mem_put_def mem_get_def mem_addressed_def split: option.splits if_splits)

interpretation file_blobs: blob_store sha "file_put sha" file_get "file_addressed sha" for sha
  by unfold_locales
    (auto simp: file_put_def file_get_def file_addressed_def Let_def dest: blob_key_inj split: if_splits)

subsection \<open>The capture log\<close>

datatype tier = Tier_hot | Tier_cold

record capture_entry =
  ce_capture_id :: string
  ce_target_id :: string
  ce_scheduled_for :: instant
  ce_attempt :: nat
  ce_fetched_at :: instant
  ce_source_url :: string
  ce_http_status :: int
  ce_content_type :: "string option"
  ce_payload_sha256 :: string
  ce_raw_ref :: string
  ce_size :: nat
  ce_content_changed :: bool
  ce_source_transport :: transport
  ce_source_published_at :: "instant option"
  ce_tier :: tier
  ce_etag :: "string option"
  ce_last_modified :: "string option"
  ce_hops :: "string list"

definition ce_key :: "capture_entry \<Rightarrow> string" where
  "ce_key e = entry_key (ce_target_id e) (ce_scheduled_for e) (ce_attempt e)"

text \<open>Entries and invalidations by their key, as \<open>MemoryCaptureLog\<close> keeps them and as \<open>FileCaptureLog\<close>
  keeps them on disk.\<close>
record capture_log =
  lg_entries :: "(string, capture_entry) dict"
  lg_invalidations :: "(string, invalidation) dict"

definition ordered :: "capture_entry list \<Rightarrow> capture_entry list" where
  "ordered es = sort_key (\<lambda>e. (ce_scheduled_for e, ce_attempt e)) es"

definition entry_in_window :: "capture_entry \<Rightarrow> instant option \<Rightarrow> instant option \<Rightarrow> bool" where
  "entry_in_window e since until =
     (if (case since of None \<Rightarrow> False | Some s \<Rightarrow> ce_scheduled_for e < s) then False
      else \<not> (case until of None \<Rightarrow> False | Some u \<Rightarrow> u \<le> ce_scheduled_for e))"

definition log_put :: "capture_entry \<Rightarrow> capture_log \<Rightarrow> capture_log" where
  "log_put e l = l\<lparr>lg_entries := dset (ce_key e) e (lg_entries l)\<rparr>"

definition log_put_new :: "capture_entry \<Rightarrow> capture_log \<Rightarrow> bool \<times> capture_log" where
  "log_put_new e l = (if dget (lg_entries l) (ce_key e) \<noteq> None then (False, l) else (True, log_put e l))"

definition log_get :: "capture_log \<Rightarrow> string \<Rightarrow> capture_entry option" where
  "log_get l cid = find (\<lambda>e. ce_capture_id e = cid) (dvalues (lg_entries l))"

definition entries_for :: "capture_log \<Rightarrow> string \<Rightarrow> instant \<Rightarrow> capture_entry list" where
  "entries_for l target scheduled = ordered (filter
     (\<lambda>e. ce_target_id e = target \<and> ce_scheduled_for e = scheduled) (dvalues (lg_entries l)))"

definition log_list ::
    "capture_log \<Rightarrow> string \<Rightarrow> instant option \<Rightarrow> instant option \<Rightarrow> capture_entry list" where
  "log_list l target since until = ordered (filter
     (\<lambda>e. ce_target_id e = target \<and> entry_in_window e since until) (dvalues (lg_entries l)))"

definition log_latest :: "capture_log \<Rightarrow> string \<Rightarrow> capture_entry option" where
  "log_latest l target = last_opt (log_list l target None None)"

text \<open>\<open>inv.key\<close> of an \<open>Invalidation\<close> that could be constructed.\<close>
definition put_invalidation :: "invalidation \<Rightarrow> capture_log \<Rightarrow> py_error + bool \<times> capture_log" where
  "put_invalidation iv l = bindR (i_key iv) (\<lambda>k.
     if dget (lg_invalidations l) k \<noteq> None then Inr (False, l)
     else Inr (True, l\<lparr>lg_invalidations := dset k iv (lg_invalidations l)\<rparr>))"

definition log_invalidations :: "capture_log \<Rightarrow> string \<Rightarrow> invalidation list" where
  "log_invalidations l target =
     filter (\<lambda>i. i_target_id i = target) (map snd (sort_key fst (lg_invalidations l)))"

text \<open>\<open>FileCaptureLog._all\<close>: the entries below \<open>captures/<target>/\<close>.\<close>
definition starts_with :: "string \<Rightarrow> string \<Rightarrow> bool" where
  "starts_with p s \<longleftrightarrow> take (length p) s = p"

definition file_all :: "capture_log \<Rightarrow> string \<Rightarrow> capture_entry list" where
  "file_all l target = dvalues (filter (\<lambda>(path, _). starts_with (''captures/'' @ target @ ''/'') path) (lg_entries l))"

definition file_entries_for :: "capture_log \<Rightarrow> string \<Rightarrow> instant \<Rightarrow> capture_entry list" where
  "file_entries_for l target scheduled = ordered (filter (\<lambda>e. ce_scheduled_for e = scheduled) (file_all l target))"

definition file_list ::
    "capture_log \<Rightarrow> string \<Rightarrow> instant option \<Rightarrow> instant option \<Rightarrow> capture_entry list" where
  "file_list l target since until = ordered (filter (\<lambda>e. entry_in_window e since until) (file_all l target))"

definition file_log_get :: "capture_log \<Rightarrow> string \<Rightarrow> capture_entry option" where
  "file_log_get l cid = find (\<lambda>e. ce_capture_id e = cid) (file_all l (takeWhile (\<lambda>c. c \<noteq> CHR '':'') cid))"

subsection \<open>The facade\<close>

text \<open>What the fetch layer hands over (\<open>FetchResult\<close> of src/energy_platform/fetch/client.py).\<close>
record fetch_result =
  res_url :: string
  res_status :: int
  res_headers :: "(string, string) dict"
  res_body :: bytes
  res_content_type :: "string option"
  res_fetched_at :: instant
  res_etag :: "string option"
  res_last_modified :: "string option"
  res_not_modified :: bool
  res_hops :: "string list"

datatype bronze_error = BronzeError string

record bronze =
  br_hot :: blobs
  br_cold :: "blobs option"
  br_log :: capture_log

datatype baseline = Same_run | Given "capture_entry option"

record capture_request =
  cq_target_id :: string
  cq_scheduled_for :: instant
  cq_result :: fetch_result
  cq_transport :: transport
  cq_force :: bool
  cq_baseline :: baseline

definition MAX_ENTRY_COLLISIONS :: nat where
  "MAX_ENTRY_COLLISIONS = 5"

definition previous_of :: "capture_request \<Rightarrow> capture_entry list \<Rightarrow> capture_entry option" where
  "previous_of q existing = (case cq_baseline q of Same_run \<Rightarrow> last_opt existing | Given e \<Rightarrow> e)"

type_synonym stored_blob = "string \<times> string \<times> nat"

text \<open>Where the payload is: the baseline's for a 304, else the blob, written once.\<close>
definition payload_of ::
    "(bytes \<Rightarrow> string) \<Rightarrow> capture_request \<Rightarrow> capture_entry option \<Rightarrow> stored_blob option \<Rightarrow> blobs
     \<Rightarrow> bronze_error + stored_blob \<times> stored_blob option \<times> blobs" where
  "payload_of sha q previous blob hot =
     (if res_not_modified (cq_result q)
      then (case previous of
              None \<Rightarrow> Inl (BronzeError ''304 Not Modified without a previous capture to point at'')
            | Some p \<Rightarrow>
                if ce_source_url p \<noteq> res_url (cq_result q)
                then Inl (BronzeError ''304 Not Modified for a different resource than the baseline'')
                else Inr ((ce_payload_sha256 p, ce_raw_ref p, ce_size p), blob, hot))
      else (case blob of
              Some sb \<Rightarrow> Inr (sb, blob, hot)
            | None \<Rightarrow> (let (s, hot') = mem_put sha (res_body (cq_result q)) hot;
                            sb = (s, blob_key s, length (res_body (cq_result q)))
                        in Inr (sb, Some sb, hot'))))"

definition next_attempt_no :: "capture_entry list \<Rightarrow> nat" where
  "next_attempt_no existing = (if existing = [] then 0 else Max (set (map ce_attempt existing))) + 1"

definition entry_of ::
    "capture_request \<Rightarrow> nat \<Rightarrow> capture_entry option \<Rightarrow> stored_blob \<Rightarrow> capture_entry" where
  "entry_of q attempt previous sb = (case sb of (s, raw, sz) \<Rightarrow>
     (let r = cq_result q in
      \<lparr>ce_capture_id = capture_id (cq_target_id q) (cq_scheduled_for q) attempt,
       ce_target_id = cq_target_id q, ce_scheduled_for = cq_scheduled_for q, ce_attempt = attempt,
       ce_fetched_at = res_fetched_at r, ce_source_url = res_url r, ce_http_status = res_status r,
       ce_content_type = res_content_type r, ce_payload_sha256 = s, ce_raw_ref = raw, ce_size = sz,
       ce_content_changed = (case previous of None \<Rightarrow> True | Some p \<Rightarrow> ce_payload_sha256 p \<noteq> s),
       ce_source_transport = cq_transport q, ce_source_published_at = None, ce_tier = Tier_hot,
       ce_etag = (if res_not_modified r then Option.bind previous ce_etag else res_etag r),
       ce_last_modified = (if res_not_modified r then Option.bind previous ce_last_modified else res_last_modified r),
       ce_hops = res_hops r\<rparr>))"

text \<open>The loop of \<open>capture\<close>: \<open>n\<close> rounds are left; \<open>others n\<close> is what other writers do to Bronze in this
  round between the listing and the creation of the entry.\<close>
fun capture_loop ::
    "(bytes \<Rightarrow> string) \<Rightarrow> (nat \<Rightarrow> bronze \<Rightarrow> bronze) \<Rightarrow> capture_request \<Rightarrow> nat \<Rightarrow> stored_blob option \<Rightarrow> bool
     \<Rightarrow> bronze \<Rightarrow> (bronze_error + capture_entry \<times> bool) \<times> bronze" where
  "capture_loop sha others q 0 blob collided b =
     (Inl (BronzeError ''capture-log entry collided; another writer keeps taking the next attempt''), b)"
| "capture_loop sha others q (Suc n) blob collided b =
     (let existing = entries_for (br_log b) (cq_target_id q) (cq_scheduled_for q) in
      if existing \<noteq> [] \<and> \<not> cq_force q \<and> \<not> collided then (Inr (last existing, False), b)
      else (let previous = previous_of q existing in
        case payload_of sha q previous blob (br_hot b) of
          Inl e \<Rightarrow> (Inl e, b)
        | Inr (sb, blob', hot') \<Rightarrow>
            (let entry = entry_of q (next_attempt_no existing) previous sb;
                 b1 = others n (b\<lparr>br_hot := hot'\<rparr>);
                 (created, log') = log_put_new entry (br_log b1)
             in if created then (Inr (entry, True), b1\<lparr>br_log := log'\<rparr>)
                else capture_loop sha others q n blob' True (b1\<lparr>br_log := log'\<rparr>))))"

definition bronze_capture ::
    "(bytes \<Rightarrow> string) \<Rightarrow> (nat \<Rightarrow> bronze \<Rightarrow> bronze) \<Rightarrow> capture_request \<Rightarrow> bronze
     \<Rightarrow> (bronze_error + capture_entry \<times> bool) \<times> bronze" where
  "bronze_capture sha others q b = capture_loop sha others q MAX_ENTRY_COLLISIONS None False b"

definition bronze_ingest ::
    "(bytes \<Rightarrow> string) \<Rightarrow> capture_entry \<Rightarrow> bytes \<Rightarrow> bronze \<Rightarrow> bronze_error + bronze" where
  "bronze_ingest sha entry payload b =
     (if sha payload \<noteq> ce_payload_sha256 entry then Inl (BronzeError ''payload does not match entry.payload_sha256'')
      else Inr (b\<lparr>br_hot := snd (mem_put sha payload (br_hot b)), br_log := log_put entry (br_log b)\<rparr>))"

text \<open>\<open>raw_ref.rsplit("/", 1)[-1]\<close>\<close>
definition sha_of_ref :: "string \<Rightarrow> string" where
  "sha_of_ref raw = (case split_last (CHR ''/'') raw of None \<Rightarrow> raw | Some (_, s) \<Rightarrow> s)"

definition bronze_read :: "(bytes \<Rightarrow> string) \<Rightarrow> bronze \<Rightarrow> string \<Rightarrow> bronze_error + bytes \<times> tier" where
  "bronze_read sha b ref =
     (let s = sha_of_ref ref;
          (data, tr) = (case mem_get (br_hot b) s of
              Some d \<Rightarrow> (Some d, Tier_hot)
            | None \<Rightarrow> (case br_cold b of None \<Rightarrow> (None, Tier_hot) | Some cold \<Rightarrow> (mem_get cold s, Tier_cold)))
      in case data of
           None \<Rightarrow> Inl (BronzeError ''blob missing from hot and cold stores'')
         | Some d \<Rightarrow> if sha d \<noteq> s then Inl (BronzeError ''content does not match its address'') else Inr (d, tr))"

definition bronze_verify :: "(bytes \<Rightarrow> string) \<Rightarrow> bronze \<Rightarrow> capture_entry \<Rightarrow> bool" where
  "bronze_verify sha b e = (case bronze_read sha b (ce_raw_ref e) of Inl _ \<Rightarrow> False | Inr _ \<Rightarrow> True)"

end
