(* ===== verification/Bronze_Capture.thy ===== *)
theory Bronze_Capture
  imports Bronze
begin

text \<open>
  What Bronze guarantees: every entry in the log is complete (its blob is there and hashes to the
  entry's digest), whatever other writers do between a listing and a creation; entries are created,
  never overwritten; attempt numbers increase; what is read hashes to the address it was read at. The
  memory and the file log list the same entries.
\<close>

subsection \<open>Completeness\<close>

definition entry_ok :: "capture_entry \<Rightarrow> bool" where
  "entry_ok e \<longleftrightarrow> ce_capture_id e = capture_id (ce_target_id e) (ce_scheduled_for e) (ce_attempt e)
     \<and> ce_raw_ref e = blob_key (ce_payload_sha256 e)"

definition sha_ok :: "(bytes \<Rightarrow> string) \<Rightarrow> bool" where
  "sha_ok sha \<longleftrightarrow> (\<forall>d. CHR ''/'' \<notin> set (sha d))"

text \<open>The blob of an address is in one of the tiers and hashes to it.\<close>
definition blob_there :: "(bytes \<Rightarrow> string) \<Rightarrow> bronze \<Rightarrow> string \<Rightarrow> bool" where
  "blob_there sha b s \<longleftrightarrow> (\<exists>d. sha d = s \<and> (dget (br_hot b) s = Some d
     \<or> dget (br_hot b) s = None \<and> (\<exists>cold. br_cold b = Some cold \<and> dget cold s = Some d)))"

definition bronze_ok :: "(bytes \<Rightarrow> string) \<Rightarrow> bronze \<Rightarrow> bool" where
  "bronze_ok sha b \<longleftrightarrow> mem_addressed sha (br_hot b) \<and> distinct (dkeys (lg_entries (br_log b)))
     \<and> (\<forall>k e. dget (lg_entries (br_log b)) k = Some e \<longrightarrow>
          ce_key e = k \<and> entry_ok e \<and> blob_there sha b (ce_payload_sha256 e))"

definition bronze_grows :: "bronze \<Rightarrow> bronze \<Rightarrow> bool" where
  "bronze_grows b b' \<longleftrightarrow> dget (br_hot b) \<subseteq>\<^sub>m dget (br_hot b') \<and> br_cold b' = br_cold b
     \<and> dget (lg_entries (br_log b)) \<subseteq>\<^sub>m dget (lg_entries (br_log b'))"

lemma bronze_grows_refl [simp]: "bronze_grows b b"
  by (simp add: bronze_grows_def)

lemma bronze_grows_trans: "bronze_grows a b \<Longrightarrow> bronze_grows b c \<Longrightarrow> bronze_grows a c"
  by (auto simp: bronze_grows_def intro: map_le_trans)

lemma bronze_okD:
  assumes "bronze_ok sha b"
  shows "mem_addressed sha (br_hot b)" "distinct (dkeys (lg_entries (br_log b)))"
    "\<And>k e. dget (lg_entries (br_log b)) k = Some e \<Longrightarrow>
       ce_key e = k \<and> entry_ok e \<and> blob_there sha b (ce_payload_sha256 e)"
  using assms by (auto simp: bronze_ok_def)

lemma blob_there_grows:
  assumes "blob_there sha b s" and "bronze_grows b b'" and "mem_addressed sha (br_hot b')"
  shows "blob_there sha b' s"
proof (cases "dget (br_hot b') s")
  case (Some d)
  then have "sha d = s" using assms(3) by (simp add: mem_addressed_def)
  with Some show ?thesis by (auto simp: blob_there_def)
next
  case None
  then have "dget (br_hot b) s = None"
    using assms(2) map_leD [of "dget (br_hot b)" "dget (br_hot b')" s] unfolding bronze_grows_def
    by (metis option.exhaust option.distinct(1))
  with None assms(1,2) show ?thesis by (auto simp: blob_there_def bronze_grows_def)
qed

lemma sha_of_blob_key: "CHR ''/'' \<notin> set s \<Longrightarrow> sha_of_ref (blob_key s) = s"
  using split_last_append [of "CHR ''/''" s "''bronze/blobs/'' @ take 2 s"]
  by (simp add: sha_of_ref_def blob_key_def)

lemma verify_there:
  assumes "sha_ok sha" and "entry_ok e" and "blob_there sha b (ce_payload_sha256 e)"
  shows "bronze_verify sha b e"
proof -
  have "CHR ''/'' \<notin> set (ce_payload_sha256 e)"
    using assms(1,3) unfolding blob_there_def sha_ok_def by metis
  then have "sha_of_ref (ce_raw_ref e) = ce_payload_sha256 e"
    using assms(2) sha_of_blob_key by (simp add: entry_ok_def)
  with assms(3) show ?thesis
    by (auto simp: bronze_verify_def bronze_read_def blob_there_def mem_get_def Let_def)
qed

subsection \<open>One round\<close>

definition others_ok :: "(bytes \<Rightarrow> string) \<Rightarrow> (nat \<Rightarrow> bronze \<Rightarrow> bronze) \<Rightarrow> bool" where
  "others_ok sha others \<longleftrightarrow> (\<forall>n b. bronze_ok sha b \<longrightarrow> bronze_ok sha (others n b) \<and> bronze_grows b (others n b))"

text \<open>The baseline, when one is given, is an entry of the log.\<close>
definition baseline_ok :: "capture_request \<Rightarrow> bronze \<Rightarrow> bool" where
  "baseline_ok q b \<longleftrightarrow> (case cq_baseline q of Given (Some e) \<Rightarrow> dget (lg_entries (br_log b)) (ce_key e) = Some e
     | _ \<Rightarrow> True)"

lemma baseline_grows: "baseline_ok q b \<Longrightarrow> bronze_grows b b' \<Longrightarrow> baseline_ok q b'"
  by (auto simp: baseline_ok_def bronze_grows_def dest: map_leD split: baseline.splits option.splits)

definition blob_ok :: "(bytes \<Rightarrow> string) \<Rightarrow> stored_blob option \<Rightarrow> bronze \<Rightarrow> bool" where
  "blob_ok sha blob b \<longleftrightarrow> (case blob of None \<Rightarrow> True
     | Some (s, raw, _) \<Rightarrow> raw = blob_key s \<and> blob_there sha b s)"

lemma blob_ok_grows:
  "blob_ok sha blob b \<Longrightarrow> bronze_grows b b' \<Longrightarrow> mem_addressed sha (br_hot b') \<Longrightarrow> blob_ok sha blob b'"
  by (auto simp: blob_ok_def intro: blob_there_grows split: option.splits)

lemma entries_for_mem:
  assumes "bronze_ok sha b"
  shows "e \<in> set (entries_for (br_log b) target scheduled) \<longleftrightarrow>
    dget (lg_entries (br_log b)) (ce_key e) = Some e \<and> ce_target_id e = target \<and> ce_scheduled_for e = scheduled"
proof -
  have "e \<in> set (dvalues (lg_entries (br_log b))) \<longleftrightarrow> dget (lg_entries (br_log b)) (ce_key e) = Some e"
    using dvalues_iff [OF bronze_okD(2) [OF assms]] bronze_okD(3) [OF assms] by metis
  then show ?thesis by (auto simp: entries_for_def ordered_def)
qed

lemma previous_in_log:
  assumes "bronze_ok sha b" and "baseline_ok q b"
    and "previous_of q (entries_for (br_log b) (cq_target_id q) (cq_scheduled_for q)) = Some p"
  shows "dget (lg_entries (br_log b)) (ce_key p) = Some p"
  using assms entries_for_mem [OF assms(1), of p]
  by (auto simp: previous_of_def baseline_ok_def dest: last_opt_SomeD split: baseline.splits)

lemma put_hot_ok:
  assumes "bronze_ok sha b"
  shows "bronze_ok sha (b\<lparr>br_hot := snd (mem_put sha d (br_hot b))\<rparr>)"
    and "bronze_grows b (b\<lparr>br_hot := snd (mem_put sha d (br_hot b))\<rparr>)"
    and "blob_there sha (b\<lparr>br_hot := snd (mem_put sha d (br_hot b))\<rparr>) (sha d)"
proof -
  let ?b = "b\<lparr>br_hot := snd (mem_put sha d (br_hot b))\<rparr>"
  have a: "mem_addressed sha (br_hot ?b)" using mem_blobs.put_addressed bronze_okD(1) [OF assms] by simp
  show g: "bronze_grows b ?b"
    using mem_blobs.get_kept by (auto simp: bronze_grows_def mem_get_def map_le_def)
  show "bronze_ok sha ?b"
    using a bronze_okD [OF assms] blob_there_grows [OF _ g a] by (simp add: bronze_ok_def)
  obtain x where "dget (br_hot ?b) (sha d) = Some x" "sha x = sha d"
    using mem_blobs.read_back [OF bronze_okD(1) [OF assms], of d] by (auto simp: mem_get_def)
  then show "blob_there sha ?b (sha d)" by (auto simp: blob_there_def)
qed

lemma payload_of_ok:
  assumes "bronze_ok sha b" and "baseline_ok q b" and "blob_ok sha blob b"
    and "payload_of sha q (previous_of q (entries_for (br_log b) (cq_target_id q) (cq_scheduled_for q)))
           blob (br_hot b) = Inr ((s, raw, sz), blob', hot')"
  shows "bronze_ok sha (b\<lparr>br_hot := hot'\<rparr>) \<and> bronze_grows b (b\<lparr>br_hot := hot'\<rparr>)
    \<and> blob_ok sha blob' (b\<lparr>br_hot := hot'\<rparr>) \<and> raw = blob_key s \<and> blob_there sha (b\<lparr>br_hot := hot'\<rparr>) s"
proof -
  let ?prev = "previous_of q (entries_for (br_log b) (cq_target_id q) (cq_scheduled_for q))"
  have same: "b\<lparr>br_hot := br_hot b\<rparr> = b" by simp
  show ?thesis
  proof (cases "res_not_modified (cq_result q)")
    case True
    then obtain p where p: "?prev = Some p" and eq: "s = ce_payload_sha256 p" "raw = ce_raw_ref p"
        "blob' = blob" "hot' = br_hot b"
      using assms(4) by (auto simp: payload_of_def split: option.splits if_splits)
    have "dget (lg_entries (br_log b)) (ce_key p) = Some p" by (rule previous_in_log [OF assms(1,2) p])
    then have "entry_ok p \<and> blob_there sha b (ce_payload_sha256 p)" using bronze_okD(3) [OF assms(1)] by blast
    with eq assms(1,3) same show ?thesis by (simp add: entry_ok_def)
  next
    case False
    show ?thesis
    proof (cases blob)
      case None
      have hot: "hot' = snd (mem_put sha (res_body (cq_result q)) (br_hot b))"
        and s: "s = sha (res_body (cq_result q))" "raw = blob_key s" "blob' = Some (s, raw, sz)"
        using assms(4) False None by (auto simp: payload_of_def mem_put_def Let_def)
      from put_hot_ok [OF assms(1), of "res_body (cq_result q)"] s show ?thesis
        by (simp add: hot blob_ok_def)
    next
      case (Some sb)
      with assms(4) False have "sb = (s, raw, sz)" "blob' = blob" "hot' = br_hot b"
        by (auto simp: payload_of_def)
      with assms(1,3) Some same show ?thesis by (simp add: blob_ok_def)
    qed
  qed
qed

lemma put_entry_ok:
  assumes "bronze_ok sha b" and "log_put_new e (br_log b) = (True, l)" and "entry_ok e"
    and "blob_there sha b (ce_payload_sha256 e)"
  shows "bronze_ok sha (b\<lparr>br_log := l\<rparr>) \<and> bronze_grows b (b\<lparr>br_log := l\<rparr>)
    \<and> dget (lg_entries l) (ce_key e) = Some e \<and> dget (lg_entries (br_log b)) (ce_key e) = None"
proof -
  have new: "dget (lg_entries (br_log b)) (ce_key e) = None" and l: "l = log_put e (br_log b)"
    using assms(2) by (auto simp: log_put_new_def split: if_splits)
  have g: "bronze_grows b (b\<lparr>br_log := l\<rparr>)" using new by (auto simp: bronze_grows_def l log_put_def map_le_def)
  have there: "blob_there sha (b\<lparr>br_log := x\<rparr>) s = blob_there sha b s" for x s by (simp add: blob_there_def)
  have "bronze_ok sha (b\<lparr>br_log := l\<rparr>)"
    using bronze_okD [OF assms(1)] assms(3,4) by (auto simp: bronze_ok_def there l log_put_def)
  with g new show ?thesis by (simp add: l log_put_def)
qed

subsection \<open>The loop\<close>

lemma next_attempt_greater: "e \<in> set existing \<Longrightarrow> ce_attempt e < next_attempt_no existing"
  by (auto simp: next_attempt_no_def less_Suc_eq_le)

lemma entry_of_simps [simp]:
  "ce_target_id (entry_of q a p sb) = cq_target_id q" "ce_scheduled_for (entry_of q a p sb) = cq_scheduled_for q"
  "ce_attempt (entry_of q a p sb) = a" "ce_payload_sha256 (entry_of q a p sb) = fst sb"
  "ce_raw_ref (entry_of q a p sb) = fst (snd sb)"
  "ce_capture_id (entry_of q a p sb) = capture_id (cq_target_id q) (cq_scheduled_for q) a"
  by (simp_all add: entry_of_def Let_def split: prod.split)

text \<open>What a finished capture means.\<close>
definition captured_in :: "(bytes \<Rightarrow> string) \<Rightarrow> bronze \<Rightarrow> bronze \<Rightarrow> capture_request \<Rightarrow> capture_entry \<Rightarrow> bool \<Rightarrow> bool" where
  "captured_in sha b b' q e created \<longleftrightarrow> dget (lg_entries (br_log b')) (ce_key e) = Some e
     \<and> ce_target_id e = cq_target_id q \<and> ce_scheduled_for e = cq_scheduled_for q
     \<and> (if created
        then dget (lg_entries (br_log b)) (ce_key e) = None
          \<and> (\<forall>x \<in> set (entries_for (br_log b) (cq_target_id q) (cq_scheduled_for q)). ce_attempt x < ce_attempt e)
        else \<not> cq_force q \<and> b' = b
          \<and> e = last (entries_for (br_log b) (cq_target_id q) (cq_scheduled_for q)))"

lemma captured_in_grows:
  assumes "captured_in sha b1 b' q e True" and "bronze_grows b b1" and "bronze_ok sha b" and "bronze_ok sha b1"
  shows "captured_in sha b b' q e True"
proof -
  have le: "dget (lg_entries (br_log b)) \<subseteq>\<^sub>m dget (lg_entries (br_log b1))" using assms(2) by (simp add: bronze_grows_def)
  have "set (entries_for (br_log b) (cq_target_id q) (cq_scheduled_for q))
      \<subseteq> set (entries_for (br_log b1) (cq_target_id q) (cq_scheduled_for q))"
    using entries_for_mem [OF assms(3)] entries_for_mem [OF assms(4)] map_leD [OF le] by blast
  moreover have "dget (lg_entries (br_log b)) (ce_key e) = None"
    using assms(1) map_leD [OF le] by (cases "dget (lg_entries (br_log b)) (ce_key e)") (auto simp: captured_in_def)
  ultimately show ?thesis using assms(1) by (auto simp: captured_in_def)
qed

lemma capture_loop_ok:
  assumes "others_ok sha others" and "bronze_ok sha b" and "baseline_ok q b" and "blob_ok sha blob b"
    and "capture_loop sha others q n blob collided b = (r, b')"
  shows "bronze_ok sha b' \<and> bronze_grows b b' \<and>
    (case r of Inl _ \<Rightarrow> True | Inr (e, created) \<Rightarrow> captured_in sha b b' q e created \<and> (collided \<longrightarrow> created))"
  using assms(2-5)
proof (induction n arbitrary: blob collided b)
  case 0
  then show ?case by auto
next
  case (Suc n)
  let ?ex = "entries_for (br_log b) (cq_target_id q) (cq_scheduled_for q)"
  show ?case
  proof (cases "?ex \<noteq> [] \<and> \<not> cq_force q \<and> \<not> collided")
    case True
    with Suc.prems(4) have r: "r = Inr (last ?ex, False)" "b' = b" by (auto simp: Let_def)
    have "last ?ex \<in> set ?ex" using True by simp
    then have "dget (lg_entries (br_log b)) (ce_key (last ?ex)) = Some (last ?ex)
        \<and> ce_target_id (last ?ex) = cq_target_id q \<and> ce_scheduled_for (last ?ex) = cq_scheduled_for q"
      using entries_for_mem [OF Suc.prems(1)] by blast
    with r Suc.prems(1) True show ?thesis by (simp add: captured_in_def)
  next
    case False
    let ?pay = "payload_of sha q (previous_of q ?ex) blob (br_hot b)"
    show ?thesis
    proof (cases ?pay)
      case (Inl err)
      with False Suc.prems show ?thesis by (auto simp: Let_def)
    next
      case (Inr res)
      obtain s raw sz blob' hot' where res: "res = ((s, raw, sz), blob', hot')" by (metis prod.exhaust)
      define b1 where "b1 = others n (b\<lparr>br_hot := hot'\<rparr>)"
      define e where "e = entry_of q (next_attempt_no ?ex) (previous_of q ?ex) (s, raw, sz)"
      note pay = payload_of_ok [OF Suc.prems(1-3) Inr [unfolded res]]
      then have b1: "bronze_ok sha b1" "bronze_grows (b\<lparr>br_hot := hot'\<rparr>) b1"
        using assms(1) unfolding others_ok_def b1_def by blast+
      with pay have g1: "bronze_grows b b1" using bronze_grows_trans by blast
      have there: "blob_there sha b1 s" using pay b1 blob_there_grows bronze_okD(1) by blast
      have "entry_ok e" using pay by (simp add: e_def entry_ok_def)
      obtain created l where put: "log_put_new e (br_log b1) = (created, l)" by (cases "log_put_new e (br_log b1)")
      have step: "capture_loop sha others q (Suc n) blob collided b
          = (if created then (Inr (e, True), b1\<lparr>br_log := l\<rparr>) else capture_loop sha others q n blob' True (b1\<lparr>br_log := l\<rparr>))"
        using False Inr res put by (auto simp: Let_def b1_def e_def)
      show ?thesis
      proof (cases created)
        case True
        with step Suc.prems(4) have r: "r = Inr (e, True)" "b' = b1\<lparr>br_log := l\<rparr>" by auto
        have "log_put_new e (br_log b1) = (True, l)" using put True by simp
        from put_entry_ok [OF b1(1) this \<open>entry_ok e\<close>] there
        have p: "bronze_ok sha b'" "bronze_grows b1 b'" "dget (lg_entries (br_log b')) (ce_key e) = Some e"
          "dget (lg_entries (br_log b1)) (ce_key e) = None"
          using True by (auto simp: r e_def)
        have "dget (lg_entries (br_log b)) (ce_key e) = None"
          using p(4) g1 map_leD [of "dget (lg_entries (br_log b))" "dget (lg_entries (br_log b1))" "ce_key e"]
          unfolding bronze_grows_def by (cases "dget (lg_entries (br_log b)) (ce_key e)") auto
        then have "captured_in sha b b' q e True"
          using p next_attempt_greater by (auto simp: captured_in_def e_def)
        with p g1 bronze_grows_trans show ?thesis by (auto simp: r)
      next
        case False
        with put have "l = br_log b1" by (auto simp: log_put_new_def split: if_splits)
        then have step: "capture_loop sha others q (Suc n) blob collided b = capture_loop sha others q n blob' True b1"
          using step False by simp
        have base: "baseline_ok q b1" by (rule baseline_grows [OF Suc.prems(2) g1])
        have blob: "blob_ok sha blob' b1"
          using pay b1 blob_ok_grows bronze_okD(1) by blast
        from Suc.IH [OF b1(1) base blob] step False Suc.prems(4)
        have ih: "bronze_ok sha b'" "bronze_grows b1 b'"
          "case r of Inl _ \<Rightarrow> True | Inr (e, created) \<Rightarrow> captured_in sha b1 b' q e created \<and> (True \<longrightarrow> created)"
          by auto
        with g1 bronze_grows_trans captured_in_grows [OF _ g1 Suc.prems(1) b1(1)] show ?thesis
          by (auto split: sum.splits prod.splits)
      qed
    qed
  qed
qed

subsection \<open>Properties\<close>

definition demo_sha :: "bytes \<Rightarrow> string" where
  "demo_sha d = (if d = [] then ''e0'' else ''a1'')"

definition demo_bronze :: bronze where
  "demo_bronze = \<lparr>br_hot = [], br_cold = None, br_log = \<lparr>lg_entries = [], lg_invalidations = []\<rparr>\<rparr>"

definition demo_request :: capture_request where
  "demo_request = \<lparr>cq_target_id = ''ote_idm'', cq_scheduled_for = 0, cq_result =
     \<lparr>res_url = ''https://www.ote-cr.cz/x'', res_status = 200, res_headers = [], res_body = [1], res_content_type = None,
      res_fetched_at = 5, res_etag = None, res_last_modified = None, res_not_modified = False, res_hops = []\<rparr>,
     cq_transport = Soap, cq_force = False, cq_baseline = Same_run\<rparr>"


lemma demo_bronze_ok: "sha_ok demo_sha" "others_ok demo_sha (\<lambda>_ b. b)" "bronze_ok demo_sha demo_bronze"
    "baseline_ok demo_request demo_bronze"
  by (auto simp: sha_ok_def demo_sha_def others_ok_def bronze_ok_def demo_bronze_def mem_addressed_def
      baseline_ok_def demo_request_def)


text \<open>A created capture of a fresh payload can be read back: the reference of its entry yields bytes
  with the digest of the fetched body, from whatever tier, and Bronze never returns bytes whose digest
  is not the address they were read at.\<close>
theorem capture_read_back:
  assumes "sha_ok sha" and "bronze_ok sha b" and "baseline_ok q b"
    and "bronze_capture sha (\<lambda>_ b. b) q b = (Inr (e, True), b')" and "\<not> res_not_modified (cq_result q)"
  shows "(\<exists>d tr. bronze_read sha b' (ce_raw_ref e) = Inr (d, tr) \<and> sha d = sha (res_body (cq_result q)))
    \<and> (\<forall>ref d tr. bronze_read sha b' ref = Inr (d, tr) \<longrightarrow> sha d = sha_of_ref ref)"
proof -
  have pay: "ce_payload_sha256 e = sha (res_body (cq_result q))"
    if "capture_loop sha (\<lambda>_ b. b) q n blob c b = (Inr (e, True), b')"
      "blob = None \<or> (\<exists>sz. blob = Some (sha (res_body (cq_result q)), blob_key (sha (res_body (cq_result q))), sz))"
    for n blob c b
    using that assms(5)
  proof (induction n arbitrary: blob c b)
    case (Suc n)
    then show ?case
      by (auto simp: Let_def payload_of_def mem_put_def split: if_splits prod.splits)
  qed simp
  have o: "others_ok sha (\<lambda>_ b. b)" by (simp add: others_ok_def)
  have "capture_loop sha (\<lambda>_ b. b) q MAX_ENTRY_COLLISIONS None False b = (Inr (e, True), b')"
    using assms(4) by (simp add: bronze_capture_def)
  from pay [OF this] capture_loop_ok [OF o assms(2,3) _ this]
  have e: "ce_payload_sha256 e = sha (res_body (cq_result q))" "bronze_ok sha b'"
    "dget (lg_entries (br_log b')) (ce_key e) = Some e"
    by (auto simp: blob_ok_def captured_in_def)
  then have ok: "entry_ok e" "blob_there sha b' (ce_payload_sha256 e)" using bronze_okD(3) by blast+
  have auth: "sha d = sha_of_ref ref" if "bronze_read sha b' ref = Inr (d, tr)" for ref d tr
    using that by (auto simp: bronze_read_def Let_def split: option.splits prod.splits if_splits)
  have "bronze_verify sha b' e" by (rule verify_there [OF assms(1) ok])
  then obtain d tr where d: "bronze_read sha b' (ce_raw_ref e) = Inr (d, tr)"
    by (auto simp: bronze_verify_def split: sum.splits)
  have "CHR ''/'' \<notin> set (ce_payload_sha256 e)" using assms(1) by (simp add: e sha_ok_def)
  then have "sha_of_ref (ce_raw_ref e) = ce_payload_sha256 e"
    using ok(1) sha_of_blob_key by (simp add: entry_ok_def)
  with auth [OF d] d e auth show ?thesis by metis
qed

theorem capture_read_back_witness:
  "\<exists>e b' d tr. bronze_capture demo_sha (\<lambda>_ b. b) demo_request demo_bronze = (Inr (e, True), b')
     \<and> bronze_read demo_sha b' (ce_raw_ref e) = Inr (d, tr) \<and> demo_sha d = demo_sha [1]"
proof -
  obtain e b' where e: "bronze_capture demo_sha (\<lambda>_ b. b) demo_request demo_bronze = (Inr (e, True), b')"
    by (auto simp: bronze_capture_def MAX_ENTRY_COLLISIONS_def numeral_eq_Suc Let_def demo_bronze_def entries_for_def
        ordered_def demo_request_def payload_of_def mem_put_def log_put_new_def)
  have r: "\<not> res_not_modified (cq_result demo_request)" "res_body (cq_result demo_request) = [1]"
    by (simp_all add: demo_request_def)
  from capture_read_back [OF demo_bronze_ok(1,3,4) e r(1)] e r(2) show ?thesis by metis
qed

subsection \<open>The two logs agree\<close>

lemma starts_with_append: "starts_with p s \<longleftrightarrow> (\<exists>u. s = p @ u)"
  unfolding starts_with_def by (metis append_eq_conv_conj append_take_drop_id)

lemma takeWhile_slash: "CHR ''/'' \<notin> set t \<Longrightarrow> takeWhile (\<lambda>c. c \<noteq> CHR ''/'') (t @ CHR ''/'' # u) = t"
  by (induction t) auto

lemma key_prefix:
  assumes "CHR ''/'' \<notin> set t" and "CHR ''/'' \<notin> set t'"
  shows "starts_with (''captures/'' @ t @ ''/'') (entry_key t' s a) \<longleftrightarrow> t' = t"
proof -
  obtain u where u: "entry_key t' s a = ''captures/'' @ t' @ CHR ''/'' # u"
    by (simp add: entry_key_def Let_def)
  have "t' = t" if "t' @ CHR ''/'' # u = t @ CHR ''/'' # v" for v
    using arg_cong [OF that, of "takeWhile (\<lambda>c. c \<noteq> CHR ''/'')"] assms by (simp add: takeWhile_slash)
  then show ?thesis by (auto simp: u starts_with_append)
qed

text \<open>The file log lists what the memory log lists: for target ids without a slash (the manifest's
  pattern allows none) walking the target's prefix finds exactly the entries of the target, so both
  variants give the same attempts of a run and the same window of entries.\<close>
theorem file_log_agrees:
  assumes "\<forall>k e. dget (lg_entries l) k = Some e \<longrightarrow> ce_key e = k \<and> CHR ''/'' \<notin> set (ce_target_id e)"
    and "distinct (dkeys (lg_entries l))" and "CHR ''/'' \<notin> set target"
  shows "file_entries_for l target scheduled = entries_for l target scheduled
    \<and> file_list l target since until = log_list l target since until"
proof -
  have "starts_with (''captures/'' @ target @ ''/'') k \<longleftrightarrow> ce_target_id e = target"
    if "(k, e) \<in> set (lg_entries l)" for k e
  proof -
    have "dget (lg_entries l) k = Some e" using that dget_in_iff [OF assms(2)] by blast
    then have "k = entry_key (ce_target_id e) (ce_scheduled_for e) (ce_attempt e)" "CHR ''/'' \<notin> set (ce_target_id e)"
      using assms(1) unfolding ce_key_def by blast+
    then show ?thesis using key_prefix [OF assms(3)] by metis
  qed
  then have "filter (\<lambda>(path, _). starts_with (''captures/'' @ target @ ''/'') path) (lg_entries l)
      = filter (\<lambda>(_, e). ce_target_id e = target) (lg_entries l)"
    by (intro filter_cong) auto
  then have "file_all l target = filter (\<lambda>e. ce_target_id e = target) (dvalues (lg_entries l))"
    by (simp add: file_all_def filter_map o_def case_prod_unfold)
  then show ?thesis
    by (simp add: file_entries_for_def entries_for_def file_list_def log_list_def conj_commute)
qed

definition demo_entry :: capture_entry where
  "demo_entry = entry_of demo_request 1 None (''a1'', blob_key ''a1'', 1)"

theorem file_log_agrees_witness:
  "file_entries_for \<lparr>lg_entries = [(ce_key demo_entry, demo_entry)], lg_invalidations = []\<rparr> ''ote_idm'' 0
     = entries_for \<lparr>lg_entries = [(ce_key demo_entry, demo_entry)], lg_invalidations = []\<rparr> ''ote_idm'' 0"
proof -
  let ?l = "\<lparr>lg_entries = [(ce_key demo_entry, demo_entry)], lg_invalidations = []\<rparr>"
  have t: "ce_target_id demo_entry = ''ote_idm''" by (simp add: demo_entry_def demo_request_def)
  have "\<forall>k e. dget (lg_entries ?l) k = Some e \<longrightarrow> ce_key e = k \<and> CHR ''/'' \<notin> set (ce_target_id e)"
    using t by simp
  moreover have "distinct (dkeys (lg_entries ?l))" by simp
  moreover have "CHR ''/'' \<notin> set ''ote_idm''" by simp
  ultimately show ?thesis using file_log_agrees by blast
qed

end
