(* ===== verification/Programs.thy ===== *)
theory Programs
  imports Store_Steps Bronze_Capture
begin

text \<open>
  The world a verb of src/energy_platform/runtime acts on, and the effects it composes. A world is
  Bronze, the store and a counter of external interactions; each call of the store, each reading of
  the clock and each fetch takes one tick. A store call finds the store up or not, depending on the
  tick: \<open>StoreUnavailable\<close> may strike at any call and leaves the world as it is. An exception ends a
  program and keeps the effects made before it.

  \<open>safe\<close> is the contract the verbs are shown to keep: from a store that satisfies the invariant, a
  program only takes steps of the store's transition relation, whether it returns or raises.
\<close>

named_theorems safe_intros \<open>programs that only take store steps\<close>

record world =
  w_bronze :: bronze
  w_store :: memory_store
  w_tick :: nat

text \<open>\<open>Uncaught\<close> names an exception of the fetch layer that no handler catches.\<close>
datatype run_error = Py py_error | Store_unavailable | Bronze_failed bronze_error | Uncaught string

type_synonym 'a prog = "world \<Rightarrow> (run_error + 'a) \<times> world"

definition ret :: "'a \<Rightarrow> 'a prog" where
  "ret x w = (Inr x, w)"

definition raiseP :: "run_error \<Rightarrow> 'a prog" where
  "raiseP e w = (Inl e, w)"

definition bindP :: "'a prog \<Rightarrow> ('a \<Rightarrow> 'b prog) \<Rightarrow> 'b prog" where
  "bindP m f w = (case m w of (Inl e, v) \<Rightarrow> (Inl e, v) | (Inr x, v) \<Rightarrow> f x v)"

text \<open>\<open>try ... except StoreUnavailable: return x\<close>\<close>
definition if_unavailable :: "'a \<Rightarrow> 'a prog \<Rightarrow> 'a prog" where
  "if_unavailable x m w = (case m w of (Inl Store_unavailable, v) \<Rightarrow> (Inr x, v) | r \<Rightarrow> r)"

definition tick :: "world \<Rightarrow> world" where
  "tick w = w\<lparr>w_tick := Suc (w_tick w)\<rparr>"

definition now_of :: "(nat \<Rightarrow> instant) \<Rightarrow> instant prog" where
  "now_of clock w = (Inr (clock (w_tick w)), tick w)"

definition bronze_of :: "(bronze \<Rightarrow> 'a) \<Rightarrow> 'a prog" where
  "bronze_of f w = (Inr (f (w_bronze w)), w)"

text \<open>A query of the store.\<close>
definition query :: "(nat \<Rightarrow> bool) \<Rightarrow> (memory_store \<Rightarrow> 'a) \<Rightarrow> 'a prog" where
  "query up f w = (if up (w_tick w) then (Inr (f (w_store w)), tick w) else (Inl Store_unavailable, tick w))"

definition queryE :: "(nat \<Rightarrow> bool) \<Rightarrow> (memory_store \<Rightarrow> py_error + 'a) \<Rightarrow> 'a prog" where
  "queryE up f w = (if up (w_tick w)
     then (case f (w_store w) of Inl e \<Rightarrow> (Inl (Py e), tick w) | Inr x \<Rightarrow> (Inr x, tick w))
     else (Inl Store_unavailable, tick w))"

text \<open>An operation of the store; the second form may raise.\<close>
definition call :: "(nat \<Rightarrow> bool) \<Rightarrow> (memory_store \<Rightarrow> 'a \<times> memory_store) \<Rightarrow> 'a prog" where
  "call up f w = (if up (w_tick w)
     then (case f (w_store w) of (x, s) \<Rightarrow> (Inr x, (tick w)\<lparr>w_store := s\<rparr>))
     else (Inl Store_unavailable, tick w))"

definition callE :: "(nat \<Rightarrow> bool) \<Rightarrow> (memory_store \<Rightarrow> py_error + 'a \<times> memory_store) \<Rightarrow> 'a prog" where
  "callE up f w = (if up (w_tick w)
     then (case f (w_store w) of Inl e \<Rightarrow> (Inl (Py e), tick w) | Inr (x, s) \<Rightarrow> (Inr x, (tick w)\<lparr>w_store := s\<rparr>))
     else (Inl Store_unavailable, tick w))"

fun mapP :: "('a \<Rightarrow> 'b prog) \<Rightarrow> 'a list \<Rightarrow> 'b list prog" where
  "mapP f [] = ret []"
| "mapP f (x # xs) = bindP (f x) (\<lambda>y. bindP (mapP f xs) (\<lambda>ys. ret (y # ys)))"

definition liftR :: "py_error + 'a \<Rightarrow> 'a prog" where
  "liftR r = (case r of Inl e \<Rightarrow> raiseP (Py e) | Inr x \<Rightarrow> ret x)"

lemma tick_sel [simp]: "w_bronze (tick w) = w_bronze w" "w_store (tick w) = w_store w"
  by (simp_all add: tick_def)

lemma bindP_cases:
  obtains (Fail) e v where "m w = (Inl e, v)" "bindP m f w = (Inl e, v)"
    | (Next) x v where "m w = (Inr x, v)" "bindP m f w = f x v"
  by (cases "m w"; cases "fst (m w)") (auto simp: bindP_def)

subsection \<open>Safety\<close>

definition safe :: "'a prog \<Rightarrow> bool" where
  "safe m \<longleftrightarrow> (\<forall>w. store_ok (w_store w) \<longrightarrow> store_steps (w_store w) (w_store (snd (m w))))"

lemma safeD: "safe m \<Longrightarrow> store_ok (w_store w) \<Longrightarrow> m w = (r, v) \<Longrightarrow> store_steps (w_store w) (w_store v)"
  unfolding safe_def by (metis snd_conv)

lemma safe_ret [safe_intros]: "safe (ret x)"
  by (simp add: safe_def ret_def store_steps.intros)

lemma safe_raise [safe_intros]: "safe (raiseP e)"
  by (simp add: safe_def raiseP_def store_steps.intros)

lemma safe_liftR [safe_intros]: "safe (liftR r)"
  by (cases r) (auto simp: liftR_def intro: safe_intros)

lemma safe_now [safe_intros]: "safe (now_of clock)"
  by (simp add: safe_def now_of_def store_steps.intros)

lemma safe_bronze_of [safe_intros]: "safe (bronze_of f)"
  by (simp add: safe_def bronze_of_def store_steps.intros)

lemma safe_query [safe_intros]: "safe (query up f)" "safe (queryE up g)"
  by (auto simp: safe_def query_def queryE_def store_steps.intros split: sum.splits)

lemma safe_bind [safe_intros]:
  assumes "safe m" and "\<And>x. safe (f x)"
  shows "safe (bindP m f)"
  unfolding safe_def
proof (intro allI impI)
  fix w :: world
  assume ok: "store_ok (w_store w)"
  show "store_steps (w_store w) (w_store (snd (bindP m f w)))"
  proof (cases rule: bindP_cases [where m = m and w = w and f = f])
    case (Fail e v)
    then show ?thesis using safeD [OF assms(1) ok] by simp
  next
    case (Next x v)
    have one: "store_steps (w_store w) (w_store v)" using safeD [OF assms(1) ok Next(1)] .
    then have "store_ok (w_store v)" using store_steps_ok ok by blast
    then have "store_steps (w_store v) (w_store (snd (f x v)))" using assms(2) by (simp add: safe_def)
    then show ?thesis using one store_steps_trans Next(2) by metis
  qed
qed

lemma safe_if_unavailable [safe_intros]: "safe m \<Longrightarrow> safe (if_unavailable x m)"
  unfolding safe_def if_unavailable_def by (auto split: prod.split sum.split run_error.split)

lemma safe_mapP [safe_intros]: "(\<And>x. safe (f x)) \<Longrightarrow> safe (mapP f xs)"
  by (induction xs) (auto intro!: safe_intros)

lemma safe_If [safe_intros]: "(b \<Longrightarrow> safe m) \<Longrightarrow> (\<not> b \<Longrightarrow> safe n) \<Longrightarrow> safe (if b then m else n)"
  by simp

lemma safe_case_option [safe_intros]:
  "(x = None \<Longrightarrow> safe m) \<Longrightarrow> (\<And>y. x = Some y \<Longrightarrow> safe (f y)) \<Longrightarrow> safe (case x of None \<Rightarrow> m | Some y \<Rightarrow> f y)"
  by (cases x) auto

lemma safe_case_sum [safe_intros]:
  "(\<And>e. x = Inl e \<Longrightarrow> safe (g e)) \<Longrightarrow> (\<And>y. x = Inr y \<Longrightarrow> safe (f y)) \<Longrightarrow> safe (case x of Inl e \<Rightarrow> g e | Inr y \<Rightarrow> f y)"
  by (cases x) auto

lemma safe_case_prod [safe_intros]: "(\<And>a b. safe (f a b)) \<Longrightarrow> safe (case p of (a, b) \<Rightarrow> f a b)"
  by (cases p) auto

lemma safe_call:
  assumes "\<And>s r t. store_ok s \<Longrightarrow> f s = (r, t) \<Longrightarrow> store_steps s t"
  shows "safe (call up f)"
  using assms by (auto simp: safe_def call_def store_steps.intros split: prod.split)

lemma safe_callE:
  assumes "\<And>s r t. f s = Inr (r, t) \<Longrightarrow> store_step s t"
  shows "safe (callE up f)"
  using assms by (auto simp: safe_def callE_def store_steps.intros intro!: step_steps split: sum.split prod.split)

lemma safe_ops [safe_intros]:
  "safe (call up (\<lambda>s. ensure_run s target scheduled state origin capture now))"
  "safe (call up (\<lambda>s. register_derivation s d now))"
  "safe (call up (\<lambda>s. add_events s target es attempt now))"
  "safe (call up (\<lambda>s. add_invalidation s iv))"
  "safe (call up (\<lambda>s. ((), upsert_freshness s fr)))"
  by (rule safe_call; blast intro: step_steps store_step.intros)+

lemma safe_opsE [safe_intros]:
  "safe (callE up (\<lambda>s. set_state s i state now))"
  "safe (callE up (\<lambda>s. mark_recaptured s i capture' now))"
  "safe (callE up (\<lambda>s. claim_run s i owner ttl now))"
  "safe (callE up (\<lambda>s. commit s cl state outcome err deriv os es now))"
  "safe (callE up (\<lambda>s. enqueue_replay s i now))"
  by (rule safe_callE; blast intro: store_step.intros)+

text \<open>Safety under a condition on the store, and its composition through a postcondition.\<close>
definition safe_when :: "(memory_store \<Rightarrow> bool) \<Rightarrow> 'a prog \<Rightarrow> bool" where
  "safe_when Q m \<longleftrightarrow> (\<forall>w. store_ok (w_store w) \<and> Q (w_store w) \<longrightarrow> store_steps (w_store w) (w_store (snd (m w))))"

lemma safe_when_True: "safe_when (\<lambda>_. True) m = safe m"
  by (simp add: safe_when_def safe_def)

lemma safe_imp_when: "safe m \<Longrightarrow> safe_when Q m"
  by (simp add: safe_when_def safe_def)

lemma safe_when_bind:
  assumes "safe_when Q m"
    and "\<And>w x v. store_ok (w_store w) \<Longrightarrow> Q (w_store w) \<Longrightarrow> m w = (Inr x, v) \<Longrightarrow> R x (w_store v)"
    and "\<And>x. safe_when (R x) (f x)"
  shows "safe_when Q (bindP m f)"
  unfolding safe_when_def
proof (intro allI impI)
  fix w :: world
  assume w: "store_ok (w_store w) \<and> Q (w_store w)"
  then have m: "store_steps (w_store w) (w_store (snd (m w)))" using assms(1) by (simp add: safe_when_def)
  show "store_steps (w_store w) (w_store (snd (bindP m f w)))"
  proof (cases rule: bindP_cases [where m = m and w = w and f = f])
    case (Fail e v)
    then show ?thesis using m by simp
  next
    case (Next x v)
    with m w have one: "store_steps (w_store w) (w_store v)" and ok: "store_ok (w_store v)"
      using store_steps_ok by auto
    have "R x (w_store v)" using assms(2) w Next(1) by blast
    then have "store_steps (w_store v) (w_store (snd (f x v)))" using assms(3) ok by (simp add: safe_when_def)
    then show ?thesis using one store_steps_trans Next(2) by metis
  qed
qed

lemma safe_when_then: "safe_when Q m \<Longrightarrow> (\<And>x. safe (f x)) \<Longrightarrow> safe_when Q (bindP m f)"
  by (rule safe_when_bind [where R = "\<lambda>_ _. True"]) (auto intro: safe_imp_when)

lemma safe_record_attempt:
  "safe_when (\<lambda>s. dget (st_runs s) i \<noteq> None) (call up (\<lambda>s. record_attempt s i kd outcome capture err now))"
  unfolding safe_when_def call_def
  by (auto simp: store_steps.intros split: prod.split intro!: step_steps intro: st_record_attempt)

subsection \<open>Bronze untouched\<close>

definition keeps_bronze :: "'a prog \<Rightarrow> bool" where
  "keeps_bronze m \<longleftrightarrow> (\<forall>w. w_bronze (snd (m w)) = w_bronze w)"

lemma keeps_bronzeD: "keeps_bronze m \<Longrightarrow> m w = (r, v) \<Longrightarrow> w_bronze v = w_bronze w"
  unfolding keeps_bronze_def by (metis snd_conv)

named_theorems bronze_intros \<open>programs that leave Bronze alone\<close>

lemma keeps_bronze_basic [bronze_intros]:
  "keeps_bronze (ret x)" "keeps_bronze (raiseP e)" "keeps_bronze (now_of clock)" "keeps_bronze (bronze_of f)"
  "keeps_bronze (query up g)" "keeps_bronze (queryE up h)" "keeps_bronze (call up k)" "keeps_bronze (callE up l)"
  by (auto simp: keeps_bronze_def ret_def raiseP_def now_of_def bronze_of_def query_def queryE_def call_def callE_def
      split: sum.splits prod.splits)

lemma keeps_bronze_bind [bronze_intros]: "keeps_bronze m \<Longrightarrow> (\<And>x. keeps_bronze (f x)) \<Longrightarrow> keeps_bronze (bindP m f)"
  unfolding keeps_bronze_def bindP_def by (auto split: prod.split sum.split) (metis snd_conv)+

lemma keeps_bronze_if_unavailable [bronze_intros]: "keeps_bronze m \<Longrightarrow> keeps_bronze (if_unavailable x m)"
  unfolding keeps_bronze_def if_unavailable_def by (auto split: prod.split sum.split run_error.split) (metis snd_conv)+

lemma keeps_bronze_mapP [bronze_intros]: "(\<And>x. keeps_bronze (f x)) \<Longrightarrow> keeps_bronze (mapP f xs)"
  by (induction xs) (auto intro!: bronze_intros)

lemma keeps_bronze_split [bronze_intros]:
  "(b \<Longrightarrow> keeps_bronze m) \<Longrightarrow> (\<not> b \<Longrightarrow> keeps_bronze n) \<Longrightarrow> keeps_bronze (if b then m else n)"
  "(z = None \<Longrightarrow> keeps_bronze m) \<Longrightarrow> (\<And>y. z = Some y \<Longrightarrow> keeps_bronze (f y)) \<Longrightarrow> keeps_bronze (case z of None \<Rightarrow> m | Some y \<Rightarrow> f y)"
  "(\<And>a b. keeps_bronze (g a b)) \<Longrightarrow> keeps_bronze (case p of (a, b) \<Rightarrow> g a b)"
  "(\<And>e. q = Inl e \<Longrightarrow> keeps_bronze (h e)) \<Longrightarrow> (\<And>y. q = Inr y \<Longrightarrow> keeps_bronze (k y)) \<Longrightarrow> keeps_bronze (case q of Inl e \<Rightarrow> h e | Inr y \<Rightarrow> k y)"
  by (auto split: option.split prod.split sum.split)

end
