(* ===== verification/Manifest.thy ===== *)
theory Manifest
  imports Observation
begin

text \<open>
  The manifest (src/energy_platform/contracts/manifest.py): its data as the pydantic models declare it,
  the model validators of the mapping block, the values derived from it, and the admission check
  against the dataset and host registries (src/energy_platform/contracts/hosts.py). YAML loading is a
  library; the URL, secret and template checks of \<open>Manifest._consistent\<close> are not here.
\<close>

subsection \<open>Hosts\<close>

record host_entry =
  he_host :: string
  he_ports :: "int list"
  he_allow_insecure :: bool

definition HOSTS :: "(string, host_entry) dict" where
  "HOSTS = [(''www.ote-cr.cz'', \<lparr>he_host = ''www.ote-cr.cz'', he_ports = [443], he_allow_insecure = False\<rparr>),
            (''www.ceps.cz'', \<lparr>he_host = ''www.ceps.cz'', he_ports = [443], he_allow_insecure = False\<rparr>)]"

definition host :: "string \<Rightarrow> host_entry option" where
  "host name = dget HOSTS (py_lower (strip name))"

subsection \<open>Fetch blocks\<close>

datatype modality = Soap_xml | Dated_file | Html_table | Rest_json | Rest_xml

datatype decode_kind = Dk_soap | Dk_xml | Dk_html_table | Dk_xlsx | Dk_csv | Dk_json

record secret_ref =
  sr_name :: string
  sr_key :: string

datatype auth_location = In_query | In_header

record auth =
  au_secretRef :: secret_ref
  au_location :: auth_location
  au_param :: string

record rate_limit =
  rl_requests :: int
  rl_per :: string

record discovery =
  dy_url :: string
  dy_link_regex :: string

record soap_xml_fetch =
  sx_url :: string
  sx_soap_action :: string
  sx_body_template :: string
  sx_params :: "(string, string) dict"
  sx_soap_version :: string

datatype file_format = Ff_xlsx | Ff_csv

record dated_file_fetch =
  df_url_template :: string
  df_file_format :: file_format
  df_discovery :: "discovery option"

record html_table_fetch =
  ht_url :: string
  ht_table_selector :: string

record rest_fetch =
  rf_url_template :: string
  rf_query :: "(string, string) dict"
  rf_headers :: "(string, string) dict"
  rf_auth :: "auth option"
  rf_rate_limit :: "rate_limit option"

text \<open>At most one field is set (\<open>_exactly_one\<close>); \<open>RestJsonFetch\<close> and \<open>RestXmlFetch\<close> have the same fields.\<close>
record fetch_block =
  fb_soap_xml :: "soap_xml_fetch option"
  fb_dated_file :: "dated_file_fetch option"
  fb_html_table :: "html_table_fetch option"
  fb_rest_json :: "rest_fetch option"
  fb_rest_xml :: "rest_fetch option"

definition fetch_present :: "fetch_block \<Rightarrow> modality list" where
  "fetch_present b =
     (if fb_soap_xml b \<noteq> None then [Soap_xml] else []) @ (if fb_dated_file b \<noteq> None then [Dated_file] else [])
     @ (if fb_html_table b \<noteq> None then [Html_table] else []) @ (if fb_rest_json b \<noteq> None then [Rest_json] else [])
     @ (if fb_rest_xml b \<noteq> None then [Rest_xml] else [])"

definition fetch_exactly_one :: "fetch_block \<Rightarrow> py_error + fetch_block" where
  "fetch_exactly_one b = bindR (check (length (fetch_present b) = 1) ''fetch must contain exactly one block'')
     (\<lambda>_. Inr b)"

text \<open>The key names its modality; \<open>next\<close> on an empty generator does not happen on a valid block.\<close>
definition fetch_key :: "fetch_block \<Rightarrow> modality option" where
  "fetch_key b = (case fetch_present b of [] \<Rightarrow> None | k # _ \<Rightarrow> Some k)"

definition rest_templates :: "string list \<Rightarrow> rest_fetch \<Rightarrow> (string \<times> string \<times> string list \<times> bool) list" where
  "rest_templates names b = (''url_template'', rf_url_template b, names, True)
     # map (\<lambda>(k, v). (''query.'' @ k, v, names, True)) (rf_query b)
     @ map (\<lambda>(k, v). (''headers.'' @ k, v, names, True)) (rf_headers b)"

text \<open>\<open>templates()\<close>; \<open>run_names\<close> is \<open>RUN_NAMES\<close>.\<close>
definition fetch_templates :: "string list \<Rightarrow> fetch_block \<Rightarrow> (string \<times> string \<times> string list \<times> bool) list" where
  "fetch_templates run_names b = (case fetch_key b of
       Some Soap_xml \<Rightarrow> (let x = the (fb_soap_xml b) in
         map (\<lambda>(k, v). (''params.'' @ k, v, run_names, True)) (sx_params x)
         @ [(''body_template'', sx_body_template x, dkeys (sx_params x), False)])
     | Some Dated_file \<Rightarrow> [(''url_template'', df_url_template (the (fb_dated_file b)), run_names, True)]
     | Some Rest_json \<Rightarrow> rest_templates run_names (the (fb_rest_json b))
     | Some Rest_xml \<Rightarrow> rest_templates run_names (the (fb_rest_xml b))
     | _ \<Rightarrow> [])"

definition fetch_urls :: "fetch_block \<Rightarrow> string list" where
  "fetch_urls b = (case fetch_key b of
       Some Soap_xml \<Rightarrow> [sx_url (the (fb_soap_xml b))]
     | Some Dated_file \<Rightarrow> (let x = the (fb_dated_file b) in
         df_url_template x # (case df_discovery x of None \<Rightarrow> [] | Some d \<Rightarrow> [dy_url d]))
     | Some Html_table \<Rightarrow> [ht_url (the (fb_html_table b))]
     | Some Rest_json \<Rightarrow> [rf_url_template (the (fb_rest_json b))]
     | Some Rest_xml \<Rightarrow> [rf_url_template (the (fb_rest_xml b))]
     | None \<Rightarrow> [])"

definition modality_transports :: "modality \<Rightarrow> transport list" where
  "modality_transports m = (case m of Soap_xml \<Rightarrow> [Soap] | Dated_file \<Rightarrow> [Xlsx, Rest] | Html_table \<Rightarrow> [Html]
     | Rest_json \<Rightarrow> [Rest] | Rest_xml \<Rightarrow> [Rest])"

definition modality_decodes :: "modality \<Rightarrow> decode_kind list" where
  "modality_decodes m = (case m of Soap_xml \<Rightarrow> [Dk_soap] | Dated_file \<Rightarrow> [Dk_xlsx, Dk_csv]
     | Html_table \<Rightarrow> [Dk_html_table] | Rest_json \<Rightarrow> [Dk_json] | Rest_xml \<Rightarrow> [Dk_xml])"

subsection \<open>Cadence, history, contract, mapping\<close>

record correction =
  co_cron :: string
  co_days :: int

record cadence =
  cad_cron :: string
  cad_timezone :: string
  cad_correction :: "correction option"

record contract_block =
  ct_dataset_id :: string
  ct_source_transport :: transport
  ct_decode :: decode_kind
  ct_metrics :: "string list"

datatype context_ref = Cx_delivery_day | Cx_scheduled_for

record field_ref =
  fr_source :: "string option"
  fr_constant :: "string option"
  fr_context :: "context_ref option"

datatype time_kind = Tk_period_index | Tk_timestamp

record time_mapping =
  tm_kind :: time_kind
  tm_timezone :: string
  tm_resolution :: field_ref
  tm_date :: "field_ref option"
  tm_index :: "field_ref option"
  tm_timestamp :: "field_ref option"
  tm_interval_label :: interval_label

record metric_mapping =
  mm_source :: string
  mm_unit :: string
  mm_sign :: sign
  mm_decimal_separator :: separator

record mapping_block =
  mb_dimensions :: "(string, string) dict"
  mb_time :: time_mapping
  mb_source_version :: "field_ref option"
  mb_source_published_at :: "field_ref option"
  mb_metrics :: "(string, metric_mapping) dict"
  mb_ignore_fields :: "string list"

record manifest =
  m_target_id :: string
  m_description :: string
  m_license :: string
  m_terms_url :: string
  m_allowed_hosts :: "string list"
  m_allow_insecure :: bool
  m_modality :: modality
  m_cadence :: cadence
  m_max_age :: string
  m_fetch :: fetch_block
  m_contract :: contract_block
  m_mapping :: mapping_block

subsection \<open>Validators\<close>

definition not_positional :: "string \<Rightarrow> py_error + string" where
  "not_positional s = bindR (check (\<not> py_isdigit (strip s)) ''source is a column position'') (\<lambda>_. Inr s)"

definition count_set :: "bool list \<Rightarrow> nat" where
  "count_set bs = length (filter id bs)"

definition mk_field_ref :: "field_ref \<Rightarrow> py_error + field_ref" where
  "mk_field_ref f =
     bindR (check (count_set [fr_source f \<noteq> None, fr_constant f \<noteq> None, fr_context f \<noteq> None] = 1)
              ''exactly one of source/constant/context'') (\<lambda>_.
     case fr_source f of None \<Rightarrow> Inr f | Some s \<Rightarrow> bindR (not_positional s) (\<lambda>_. Inr f))"

definition mk_time_mapping :: "time_mapping \<Rightarrow> py_error + time_mapping" where
  "mk_time_mapping t =
     bindR (if tm_kind t = Tk_period_index
            then bindR (check (tm_date t \<noteq> None \<and> tm_index t \<noteq> None) ''period_index needs date and index'')
                   (\<lambda>_. check (tm_timestamp t = None) ''period_index does not take timestamp'')
            else bindR (check (tm_timestamp t \<noteq> None) ''timestamp needs timestamp'')
                   (\<lambda>_. check (tm_date t = None \<and> tm_index t = None) ''timestamp does not take date/index''))
       (\<lambda>_. case fr_constant (tm_resolution t) of
              None \<Rightarrow> Inr t
            | Some c \<Rightarrow> bindR (parse_duration c) (\<lambda>_. Inr t))"

definition opt_list :: "'a option \<Rightarrow> 'a list" where
  "opt_list o' = (case o' of None \<Rightarrow> [] | Some x \<Rightarrow> [x])"

text \<open>\<open>dict.fromkeys(names)\<close>: each name once, at its first place.\<close>
fun first_places :: "'a list \<Rightarrow> 'a list" where
  "first_places [] = []"
| "first_places (x # xs) = x # filter (\<lambda>y. y \<noteq> x) (first_places xs)"

definition source_fields :: "mapping_block \<Rightarrow> string list" where
  "source_fields b =
     (let refs = [Some (tm_resolution (mb_time b)), tm_date (mb_time b), tm_index (mb_time b),
                  tm_timestamp (mb_time b), mb_source_version b, mb_source_published_at b]
      in first_places (concat (map (\<lambda>r. case r of None \<Rightarrow> [] | Some f \<Rightarrow> opt_list (fr_source f)) refs)
           @ map mm_source (dvalues (mb_metrics b))))"

definition mk_mapping_block :: "mapping_block \<Rightarrow> py_error + mapping_block" where
  "mk_mapping_block b =
     bindR (mapR (\<lambda>n. bindR (check (strip n \<noteq> []) ''a name must not be blank'') (\<lambda>_. not_positional n))
              (mb_ignore_fields b)) (\<lambda>_.
     bindR (check (distinct (mb_ignore_fields b)) ''ignore_fields must not repeat a name'') (\<lambda>_.
     bindR (check (set (mb_ignore_fields b) \<inter> set (source_fields b) = {})
              ''ignore_fields are read by the mapping'') (\<lambda>_. Inr b)))"

subsection \<open>Admission\<close>

record admission_gaps =
  ag_datasets :: "string list"
  ag_metrics :: "(string \<times> string) list"
  ag_hosts :: "string list"
  ag_insecure_hosts :: "string list"

definition has_gaps :: "admission_gaps \<Rightarrow> bool" where
  "has_gaps g \<longleftrightarrow> ag_datasets g \<noteq> [] \<or> ag_metrics g \<noteq> [] \<or> ag_hosts g \<noteq> [] \<or> ag_insecure_hosts g \<noteq> []"

datatype validation_status = Vs_ok | Vs_invalid | Vs_admission_required

text \<open>The kinds of error messages \<open>validate_manifest\<close> appends.\<close>
datatype manifest_error =
    Unit_mismatch string
  | Dimension_keys
  | Dimension_fixed string
  | Dimension_not_allowed string
  | Version_needed
  | Resolution_not_declared

record validation_result =
  vr_status :: validation_status
  vr_errors :: "manifest_error list"
  vr_missing :: admission_gaps

definition metric_errors :: "manifest \<Rightarrow> dataset_contract \<Rightarrow> py_error + manifest_error list" where
  "metric_errors m contract = bindR (mapR (\<lambda>name. case metric_of contract name of
       None \<Rightarrow> Inr []
     | Some spec \<Rightarrow> (case dget (mb_metrics (m_mapping m)) name of
           None \<Rightarrow> Inl KeyError
         | Some mm \<Rightarrow> Inr (if mm_unit mm \<noteq> ms_unit spec then [Unit_mismatch name] else [])))
     (ct_metrics (m_contract m))) (\<lambda>es. Inr (concat es))"

definition dimension_errors :: "manifest \<Rightarrow> dataset_contract \<Rightarrow> py_error + manifest_error list" where
  "dimension_errors m contract =
     (let dims = mb_dimensions (m_mapping m) in
      if sort (dkeys dims) \<noteq> sort (manifest_dimensions contract) then Inr [Dimension_keys]
      else bindR (mapR (\<lambda>(k, fixed). case dget dims k of None \<Rightarrow> Inl KeyError
                    | Some v \<Rightarrow> Inr (if v \<noteq> fixed then [Dimension_fixed k] else [])) (dc_fixed_dimensions contract))
             (\<lambda>a. bindR (mapR (\<lambda>(k, vs). case dget dims k of None \<Rightarrow> Inl KeyError
                    | Some v \<Rightarrow> Inr (if v \<notin> set vs then [Dimension_not_allowed k] else []))
                    (dc_allowed_dimension_values contract))
             (\<lambda>b. Inr (concat a @ concat b))))"

definition other_errors :: "manifest \<Rightarrow> dataset_contract \<Rightarrow> manifest_error list" where
  "other_errors m contract =
     (if version_in_identity contract \<and> mb_source_version (m_mapping m) = None then [Version_needed] else [])
     @ (case fr_constant (tm_resolution (mb_time (m_mapping m))) of
          None \<Rightarrow> []
        | Some res \<Rightarrow> if res \<notin> set (dc_resolutions contract) then [Resolution_not_declared] else [])"

definition admission_of :: "manifest \<Rightarrow> admission_gaps" where
  "admission_of m =
     (let did = ct_dataset_id (m_contract m) in
      \<lparr>ag_datasets = (if dataset did = None then [did] else []),
       ag_metrics = (case dataset did of
          None \<Rightarrow> map (\<lambda>n. (did, n)) (ct_metrics (m_contract m))
        | Some c \<Rightarrow> map (\<lambda>n. (did, n)) (filter (\<lambda>n. metric_of c n = None) (ct_metrics (m_contract m)))),
       ag_hosts = filter (\<lambda>h. host h = None) (m_allowed_hosts m),
       ag_insecure_hosts = filter (\<lambda>h. case host h of None \<Rightarrow> False
          | Some e \<Rightarrow> m_allow_insecure m \<and> \<not> he_allow_insecure e) (m_allowed_hosts m)\<rparr>)"

definition validate_manifest :: "manifest \<Rightarrow> py_error + validation_result" where
  "validate_manifest m =
     bindR (case dataset (ct_dataset_id (m_contract m)) of
              None \<Rightarrow> Inr []
            | Some contract \<Rightarrow> bindR (metric_errors m contract) (\<lambda>a. bindR (dimension_errors m contract)
                (\<lambda>b. Inr (a @ b @ other_errors m contract))))
       (\<lambda>errors. Inr \<lparr>vr_status = (if has_gaps (admission_of m) then Vs_admission_required
                                  else if errors \<noteq> [] then Vs_invalid else Vs_ok),
                     vr_errors = errors, vr_missing = admission_of m\<rparr>)"

subsection \<open>A registered manifest\<close>

text \<open>The load target of src/targets/ceps_load/manifest.yaml; the texts that no check reads are shortened.\<close>
definition ceps_manifest :: manifest where
  "ceps_manifest =
     \<lparr>m_target_id = ''ceps_load'', m_description = [], m_license = ''internal use'',
      m_terms_url = ''https://www.ceps.cz/en/web-services'', m_allowed_hosts = [''www.ceps.cz''],
      m_allow_insecure = False, m_modality = Soap_xml,
      m_cadence = \<lparr>cad_cron = ''*/15 * * * *'', cad_timezone = ''Europe/Prague'',
        cad_correction = Some \<lparr>co_cron = ''11 * * * *'', co_days = 1\<rparr>\<rparr>,
      m_max_age = ''P1Y'',
      m_fetch = \<lparr>fb_soap_xml = Some \<lparr>sx_url = ''https://www.ceps.cz/_layouts/CepsData.asmx'',
          sx_soap_action = ''https://www.ceps.cz/CepsData/Load'',
          sx_body_template = ''<Load>{date_from}/{date_to}</Load>'',
          sx_params = [(''date_from'', ''{delivery_day:%Y-%m-%d}T00:00:00''),
                       (''date_to'', ''{delivery_day:%Y-%m-%d}T23:59:59'')],
          sx_soap_version = ''1.1''\<rparr>,
        fb_dated_file = None, fb_html_table = None, fb_rest_json = None, fb_rest_xml = None\<rparr>,
      m_contract = \<lparr>ct_dataset_id = ''ceps.load'', ct_source_transport = Soap, ct_decode = Dk_soap,
        ct_metrics = [''load_incl_pumping'', ''load'']\<rparr>,
      m_mapping = \<lparr>mb_dimensions = [(''area'', ''CZ''), (''aggregation_function'', ''AVG'')],
        mb_time = \<lparr>tm_kind = Tk_timestamp, tm_timezone = ''Europe/Prague'',
          tm_resolution = \<lparr>fr_source = None, fr_constant = Some ''PT15M'', fr_context = None\<rparr>,
          tm_date = None, tm_index = None,
          tm_timestamp = Some \<lparr>fr_source = Some ''@date'', fr_constant = None, fr_context = None\<rparr>,
          tm_interval_label = Label_start\<rparr>,
        mb_source_version = Some \<lparr>fr_source = None, fr_constant = Some ''RT'', fr_context = None\<rparr>,
        mb_source_published_at = None,
        mb_metrics = [(''load_incl_pumping'', \<lparr>mm_source = ''@value1'', mm_unit = ''MW'',
                         mm_sign = As_published, mm_decimal_separator = Dot\<rparr>),
                      (''load'', \<lparr>mm_source = ''@value2'', mm_unit = ''MW'',
                         mm_sign = As_published, mm_decimal_separator = Dot\<rparr>)],
        mb_ignore_fields = []\<rparr>\<rparr>"

lemma ceps_manifest_admitted:
  "map_sum id vr_status (validate_manifest ceps_manifest) = Inr Vs_ok"
  by code_simp

subsection \<open>What admission guarantees\<close>

lemma metric_errors_none:
  assumes "metric_errors m contract = Inr []" "name \<in> set (ct_metrics (m_contract m))"
    "metric_of contract name = Some spec"
  shows "\<exists>mm. dget (mb_metrics (m_mapping m)) name = Some mm \<and> mm_unit mm = ms_unit spec"
proof -
  obtain es where "mapR (\<lambda>name. case metric_of contract name of
       None \<Rightarrow> Inr []
     | Some spec \<Rightarrow> (case dget (mb_metrics (m_mapping m)) name of
           None \<Rightarrow> Inl KeyError
         | Some mm \<Rightarrow> Inr (if mm_unit mm \<noteq> ms_unit spec then [Unit_mismatch name] else [])))
      (ct_metrics (m_contract m)) = Inr es" "\<forall>e \<in> set es. e = []"
    using assms(1) by (auto simp: metric_errors_def)
  from mapR_mem [OF this(1) assms(2)] this(2) assms(3) show ?thesis
    by (auto split: option.splits if_splits)
qed

lemma validate_manifest_ok:
  assumes "validate_manifest m = Inr v" "vr_status v = Vs_ok"
  obtains contract where "dataset (ct_dataset_id (m_contract m)) = Some contract"
    "metric_errors m contract = Inr []" "dimension_errors m contract = Inr []"
    "other_errors m contract = []"
    "\<forall>n \<in> set (ct_metrics (m_contract m)). metric_of contract n \<noteq> None"
    "\<forall>h \<in> set (m_allowed_hosts m). \<exists>e. host h = Some e \<and> (m_allow_insecure m \<longrightarrow> he_allow_insecure e)"
proof -
  have gaps: "\<not> has_gaps (admission_of m)"
    using assms by (auto simp: validate_manifest_def split: if_splits option.splits)
  then obtain contract where c: "dataset (ct_dataset_id (m_contract m)) = Some contract"
    by (auto simp: has_gaps_def admission_of_def Let_def split: if_splits)
  moreover have "metric_errors m contract = Inr [] \<and> dimension_errors m contract = Inr []
      \<and> other_errors m contract = []"
    using assms c by (auto simp: validate_manifest_def split: if_splits)
  moreover have "\<forall>n \<in> set (ct_metrics (m_contract m)). metric_of contract n \<noteq> None"
    using gaps c by (auto simp: has_gaps_def admission_of_def Let_def filter_empty_conv)
  moreover have "\<forall>h \<in> set (m_allowed_hosts m). \<exists>e. host h = Some e \<and> (m_allow_insecure m \<longrightarrow> he_allow_insecure e)"
    using gaps by (fastforce simp: has_gaps_def admission_of_def Let_def filter_empty_conv split: option.splits)
  ultimately show thesis by (intro that) auto
qed

lemma dimension_errors_none:
  assumes "dimension_errors m contract = Inr []"
  shows "sort (dkeys (mb_dimensions (m_mapping m))) = sort (manifest_dimensions contract)
    \<and> check_fixed (mb_dimensions (m_mapping m)) (dc_fixed_dimensions contract) = Inr ()
    \<and> check_allowed (mb_dimensions (m_mapping m)) (dc_allowed_dimension_values contract) = Inr ()"
proof -
  define dims where "dims = mb_dimensions (m_mapping m)"
  have keys: "sort (dkeys dims) = sort (manifest_dimensions contract)"
    using assms by (auto simp: dimension_errors_def dims_def Let_def split: if_splits)
  have fixed: "mapR (\<lambda>(k, fixed). case dget dims k of None \<Rightarrow> Inl KeyError
        | Some v \<Rightarrow> Inr (if v \<noteq> fixed then [Dimension_fixed k] else [])) fx = Inr es \<Longrightarrow> concat es = []
      \<Longrightarrow> check_fixed dims fx = Inr ()" for fx :: "(string, string) dict" and es :: "manifest_error list list"
    by (induction fx arbitrary: es) (auto split: option.splits if_splits)
  have allowed: "mapR (\<lambda>(k, vs). case dget dims k of None \<Rightarrow> Inl KeyError
        | Some v \<Rightarrow> Inr (if v \<notin> set vs then [Dimension_not_allowed k] else [])) al = Inr es \<Longrightarrow> concat es = []
      \<Longrightarrow> check_allowed dims al = Inr ()" for al and es :: "manifest_error list list"
    by (induction al arbitrary: es) (auto split: option.splits if_splits)
  show ?thesis using assms keys fixed allowed
    unfolding dimension_errors_def dims_def [symmetric] Let_def
    by (auto simp del: concat_eq_Nil_conv)
qed

end
