(* ===== verification/Parse.thy ===== *)
theory Parse
  imports Manifest Bronze
begin

text \<open>
  Decoded documents (src/energy_platform/contracts/parser.py) and the generic parsers built from the
  manifest (src/energy_platform/parse/generic.py): XML and SOAP trees, workbooks, tables and JSON
  values become source-shaped records. The libraries that turn bytes into documents (lxml, openpyxl,
  json, csv) are outside; a document is their result.
\<close>

subsection \<open>Scalars as text\<close>

definition str_int :: "int \<Rightarrow> string" where
  "str_int i = (if i < 0 then CHR ''-'' # str_nat (nat (- i)) else str_nat (nat i))"

text \<open>\<open>str(Decimal)\<close>: plain notation unless the exponent is positive or the value is tiny.\<close>
definition dec_str :: "decimal \<Rightarrow> string" where
  "dec_str d = (let digits = str_nat (dcoeff d); e = dexp d; left = e + int (length digits);
       dot = (if e \<le> 0 \<and> left > -6 then left else 1);
       (ip, fp) = (if dot \<le> 0 then (''0'', CHR ''.'' # replicate (nat (- dot)) (CHR ''0'') @ digits)
                   else if dot \<ge> int (length digits)
                        then (digits @ replicate (nat dot - length digits) (CHR ''0''), [])
                        else (take (nat dot) digits, CHR ''.'' # drop (nat dot) digits));
       ex = (if left = dot then []
             else ''E'' @ (if left - dot \<ge> 0 then ''+'' else []) @ str_int (left - dot))
     in (if dneg d then ''-'' else []) @ ip @ fp @ ex)"

definition cell_str :: "cell \<Rightarrow> string" where
  "cell_str c = (case c of CText s \<Rightarrow> s | CDec d \<Rightarrow> dec_str d | CInt i \<Rightarrow> str_int i
     | CBool b \<Rightarrow> (if b then ''True'' else ''False'') | CNone \<Rightarrow> ''None'')"

text \<open>\<open>" ".join(text.split())\<close>\<close>
definition norm_ws :: "string \<Rightarrow> string" where
  "norm_ws s = concat (case split_ws s of [] \<Rightarrow> [] | w # ws \<Rightarrow> w # map (\<lambda>x. CHR '' '' # x) ws)"

subsection \<open>Documents\<close>

datatype xml_element = Elem (xtag: string) (xattrib: "(string \<times> string) list") (xtext: "string option")
  (xchildren: "xml_element list")

datatype table_kind = Kind_csv | Kind_html_table

datatype document =
    Tabular table_kind "string list" "cell list list"
  | Sheets "(string, cell list list) dict"
  | XmlDoc xml_element
  | JsonDoc json

record source_record =
  rec_fields :: "(string, cell) dict"
  rec_locator :: string

text \<open>\<open>tag.rsplit("}", 1)[-1]\<close>\<close>
definition local_name :: "xml_element \<Rightarrow> string" where
  "local_name e = (case split_last (CHR ''}'') (xtag e) of None \<Rightarrow> xtag e | Some (_, n) \<Rightarrow> n)"

fun find_all :: "string \<Rightarrow> xml_element \<Rightarrow> xml_element list" where
  "find_all n (Elem t a x cs) = concat (map (\<lambda>c. (if local_name c = n then [c] else []) @ find_all n c) cs)"

fun xml_first :: "string \<Rightarrow> xml_element \<Rightarrow> xml_element option"
  and xml_first_in :: "string \<Rightarrow> xml_element list \<Rightarrow> xml_element option" where
  "xml_first n (Elem t a x cs) = xml_first_in n cs"
| "xml_first_in n [] = None"
| "xml_first_in n (c # cs) =
     (if local_name c = n then Some c
      else case xml_first n c of Some e \<Rightarrow> Some e | None \<Rightarrow> xml_first_in n cs)"

subsection \<open>Which fields\<close>

definition required_source_fields :: "manifest \<Rightarrow> string list" where
  "required_source_fields m =
     (let t = mb_time (m_mapping m);
          refs = [Some (tm_resolution t), tm_date t, tm_index t, tm_timestamp t,
                  mb_source_version (m_mapping m), mb_source_published_at (m_mapping m)]
      in first_places (concat (map (\<lambda>r. case r of None \<Rightarrow> [] | Some f \<Rightarrow> opt_list (fr_source f)) refs)))"

definition mapped_source_fields :: "manifest \<Rightarrow> string list" where
  "mapped_source_fields m = first_places (required_source_fields m @ map mm_source (dvalues (mb_metrics (m_mapping m))))"

subsection \<open>XML\<close>

text \<open>Attributes first, then leaf children that do not repeat a name.\<close>
definition xml_fields :: "xml_element \<Rightarrow> (string, cell) dict" where
  "xml_fields e = foldl (\<lambda>d c. if xchildren c = [] \<and> dget d (local_name c) = None
       then dset (local_name c) (case xtext c of None \<Rightarrow> CNone | Some s \<Rightarrow> CText s) d else d)
     (foldl (\<lambda>d (k, v). dset (CHR ''@'' # k) (CText v) d) [] (xattrib e)) (xchildren e)"

definition provides :: "string list \<Rightarrow> (string, 'v) dict \<Rightarrow> bool" where
  "provides required d \<longleftrightarrow> required \<noteq> [] \<and> list_all (\<lambda>n. dget d n \<noteq> None) required"

fun xml_walk :: "string list \<Rightarrow> string \<Rightarrow> xml_element \<Rightarrow> source_record list" where
  "xml_walk required path (Elem t a x cs) =
     (let here = path @ ''/'' @ local_name (Elem t a x cs); fs = xml_fields (Elem t a x cs) in
      if provides required fs then [\<lparr>rec_fields = fs, rec_locator = here\<rparr>]
      else concat (map (xml_walk required here) cs))"

subsection \<open>Sheets and tables\<close>

datatype parse_error = ParseError string

definition header_texts :: "cell list \<Rightarrow> string list" where
  "header_texts row = map (\<lambda>c. case c of CNone \<Rightarrow> [] | _ \<Rightarrow> norm_ws (cell_str c)) row"

fun find_header_from :: "nat \<Rightarrow> cell list list \<Rightarrow> string list \<Rightarrow> parse_error + nat \<times> string list" where
  "find_header_from i [] wanted = Inl (ParseError ''no header row contains the mapped columns'')"
| "find_header_from i (row # rows) wanted =
     (let texts = header_texts row in
      if set wanted \<subseteq> set texts
      then (if distinct (filter (\<lambda>t. t \<noteq> []) texts) then Inr (i, texts)
            else Inl (ParseError ''header row repeats a column name''))
      else find_header_from (Suc i) rows wanted)"

definition find_header :: "cell list list \<Rightarrow> string list \<Rightarrow> parse_error + nat \<times> string list" where
  "find_header rows mapped = find_header_from 0 rows (map norm_ws mapped)"

definition is_text :: "cell \<Rightarrow> bool" where
  "is_text c = (case c of CText _ \<Rightarrow> True | _ \<Rightarrow> False)"

text \<open>\<open>{h: row[i] if i < len(row) else None for i, h in enumerate(header) if h}\<close>\<close>
definition row_fields :: "string list \<Rightarrow> cell list \<Rightarrow> (string, cell) dict" where
  "row_fields header row = foldl (\<lambda>d (i, h). if h = [] then d
       else dset h (if i < length row then row ! i else CNone) d) [] (zip [0..<length header] header)"

definition field_of :: "(string, cell) dict \<Rightarrow> string \<Rightarrow> cell" where
  "field_of d n = (case dget d n of None \<Rightarrow> CNone | Some c \<Rightarrow> c)"

fun rows_to_records ::
    "string list \<Rightarrow> string list \<Rightarrow> string \<Rightarrow> (string, bool) dict option \<Rightarrow> nat \<Rightarrow> cell list list \<Rightarrow> source_record list" where
  "rows_to_records header required sheet kinds offset [] = []"
| "rows_to_records header required sheet kinds offset (row # rows) =
     (let fs = row_fields header row;
          r = \<lparr>rec_fields = fs, rec_locator = sheet @ ''!row'' @ str_nat (Suc offset)\<rparr> in
      if list_ex (\<lambda>n. field_of fs n = CNone) required then []
      else case kinds of
             None \<Rightarrow> r # rows_to_records header required sheet
                      (Some (map (\<lambda>n. (n, is_text (field_of fs n))) required)) (Suc offset) rows
           | Some ks \<Rightarrow>
               if list_ex (\<lambda>n. Some (is_text (field_of fs n)) \<noteq> dget ks n) required then []
               else r # rows_to_records header required sheet (Some ks) (Suc offset) rows)"

fun sheets_parse ::
    "string list \<Rightarrow> string list \<Rightarrow> (string \<times> cell list list) list \<Rightarrow> parse_error + source_record list" where
  "sheets_parse required mapped [] = Inl (ParseError ''no sheet has the mapped columns'')"
| "sheets_parse required mapped ((name, rows) # sheets) = (case find_header rows mapped of
       Inl _ \<Rightarrow> sheets_parse required mapped sheets
     | Inr (i, header) \<Rightarrow> Inr (rows_to_records header required name None 0 (drop (Suc i) rows)))"

definition table_parse ::
    "string list \<Rightarrow> string list \<Rightarrow> table_kind \<Rightarrow> string list \<Rightarrow> cell list list \<Rightarrow> parse_error + source_record list" where
  "table_parse required mapped k header0 rows =
     (let header = map norm_ws header0 in
      if \<not> set (map norm_ws mapped) \<subseteq> set header then Inl (ParseError ''table header lacks mapped columns'')
      else Inr (rows_to_records header required
                  (case k of Kind_csv \<Rightarrow> ''csv'' | Kind_html_table \<Rightarrow> ''html-table'') None 0 rows))"

subsection \<open>JSON\<close>

text \<open>The scalar members of an object; a float keeps its text.\<close>
definition scalars :: "(string \<times> json) list \<Rightarrow> (string, cell) dict" where
  "scalars obj = List.map_filter (\<lambda>(k, v). case v of
       JNull \<Rightarrow> Some (k, CNone) | JText s \<Rightarrow> Some (k, CText s) | JBool b \<Rightarrow> Some (k, CBool b)
     | JInt i \<Rightarrow> Some (k, CInt i) | JFloat s \<Rightarrow> Some (k, CText s) | _ \<Rightarrow> None) obj"

fun json_walk :: "string list \<Rightarrow> string \<Rightarrow> json \<Rightarrow> source_record list"
  and json_members :: "string list \<Rightarrow> string \<Rightarrow> (string \<times> json) list \<Rightarrow> source_record list"
  and json_items :: "string list \<Rightarrow> string \<Rightarrow> nat \<Rightarrow> json list \<Rightarrow> source_record list" where
  "json_walk required path (JObject obj) =
     (if provides required obj then [\<lparr>rec_fields = scalars obj, rec_locator = path\<rparr>]
      else json_members required path obj)"
| "json_walk required path (JList vs) = json_items required path 0 vs"
| "json_walk required path JNull = []"
| "json_walk required path (JBool b) = []"
| "json_walk required path (JInt i) = []"
| "json_walk required path (JFloat s) = []"
| "json_walk required path (JText s) = []"
| "json_members required path [] = []"
| "json_members required path ((k, v) # kvs) =
     json_walk required (path @ ''.'' @ k) v @ json_members required path kvs"
| "json_items required path i [] = []"
| "json_items required path i (v # vs) =
     json_walk required (path @ ''['' @ str_nat i @ '']'') v @ json_items required path (Suc i) vs"

text \<open>\<open>generic_parser(manifest).parse(doc)\<close>\<close>
definition generic_parse :: "manifest \<Rightarrow> document \<Rightarrow> parse_error + source_record list" where
  "generic_parse m doc =
     (let required = required_source_fields m; mapped = mapped_source_fields m;
          wrong = Inl (ParseError ''parser needs another kind of document'') in
      case ct_decode (m_contract m) of
        Dk_soap \<Rightarrow> (case doc of XmlDoc e \<Rightarrow> Inr (xml_walk required [] e) | _ \<Rightarrow> wrong)
      | Dk_xml \<Rightarrow> (case doc of XmlDoc e \<Rightarrow> Inr (xml_walk required [] e) | _ \<Rightarrow> wrong)
      | Dk_xlsx \<Rightarrow> (case doc of Sheets ss \<Rightarrow> sheets_parse required mapped ss | _ \<Rightarrow> wrong)
      | Dk_csv \<Rightarrow> (case doc of Tabular k h rows \<Rightarrow> table_parse required mapped k h rows | _ \<Rightarrow> wrong)
      | Dk_html_table \<Rightarrow> (case doc of Tabular k h rows \<Rightarrow> table_parse required mapped k h rows | _ \<Rightarrow> wrong)
      | Dk_json \<Rightarrow> (case doc of JsonDoc j \<Rightarrow> Inr (json_walk required ''$'' j) | _ \<Rightarrow> wrong))"

subsection \<open>Which records come out\<close>

lemma xml_first_in_head:
  "xml_first n e = (case find_all n e of [] \<Rightarrow> None | x # _ \<Rightarrow> Some x)"
  "xml_first_in n cs =
     (case concat (map (\<lambda>c. (if local_name c = n then [c] else []) @ find_all n c) cs) of
        [] \<Rightarrow> None | x # _ \<Rightarrow> Some x)"
  by (induction n e and n cs rule: xml_first_xml_first_in.induct)
     (auto split: list.splits simp del: concat_eq_Nil_conv)

text \<open>The early-exit search \<open>XmlElement.first\<close> returns exactly the head of the document-order list
  that \<open>find_all\<close> builds, and nothing when that list is empty.\<close>
theorem first_is_head_of_find_all:
  "xml_first n e = (case find_all n e of [] \<Rightarrow> None | x # _ \<Rightarrow> Some x)"
  by (rule xml_first_in_head)

text \<open>The outermost elements of a document that provide the required fields, with their paths.\<close>
inductive outermost :: "string list \<Rightarrow> string \<Rightarrow> xml_element \<Rightarrow> source_record \<Rightarrow> bool" for required where
  here: "provides required (xml_fields e) \<Longrightarrow>
    outermost required path e \<lparr>rec_fields = xml_fields e, rec_locator = path @ ''/'' @ local_name e\<rparr>"
| below: "\<not> provides required (xml_fields e) \<Longrightarrow> c \<in> set (xchildren e) \<Longrightarrow>
    outermost required (path @ ''/'' @ local_name e) c r \<Longrightarrow> outermost required path e r"

inductive_cases outermostE: "outermost required path e r"

lemma xml_walk_outermost: "r \<in> set (xml_walk required path e) \<Longrightarrow> outermost required path e r"
  by (induction required path e rule: xml_walk.induct)
     (auto simp: Let_def split: if_splits intro: outermost.intros outermost.here [simplified])

lemma outermost_xml_walk: "outermost required path e r \<Longrightarrow> r \<in> set (xml_walk required path e)"
proof (induction rule: outermost.induct)
  case (here e path)
  then show ?case by (cases e) (simp add: Let_def)
next
  case (below e c path r)
  then show ?case by (cases e) (auto simp: Let_def)
qed

text \<open>The XML parser's records are exactly the outermost elements that provide every required field:
  none is missed, none lies inside another, and each carries its path as locator.\<close>
theorem xml_records_outermost:
  "set (xml_walk required path e) = {r. outermost required path e r}"
  using xml_walk_outermost outermost_xml_walk by blast

text \<open>A row belongs to the table as long as its key columns are filled and keep the kind they have in the
  table's first row.\<close>
definition table_row :: "string list \<Rightarrow> string list \<Rightarrow> cell list \<Rightarrow> cell list \<Rightarrow> bool" where
  "table_row header required first row \<longleftrightarrow> (\<forall>n \<in> set required.
     field_of (row_fields header row) n \<noteq> CNone \<and>
     is_text (field_of (row_fields header row) n) = is_text (field_of (row_fields header first) n))"

definition row_record :: "string list \<Rightarrow> string \<Rightarrow> nat \<Rightarrow> cell list \<Rightarrow> source_record" where
  "row_record header sheet i row =
     \<lparr>rec_fields = row_fields header row, rec_locator = sheet @ ''!row'' @ str_nat (Suc i)\<rparr>"

lemma kinds_lookup: "n \<in> set ns \<Longrightarrow> dget (map (\<lambda>n. (n, f n)) ns) n = Some (f n)"
  by (induction ns) auto

lemma rows_to_records_kinds:
  "rows_to_records header required sheet
     (Some (map (\<lambda>n. (n, is_text (field_of (row_fields header first) n))) required)) offset rows
   = map (\<lambda>(i, row). row_record header sheet i row)
       (enumerate offset (takeWhile (table_row header required first) rows))"
proof (induction rows arbitrary: offset)
  case (Cons row rows)
  have "(list_ex (\<lambda>n. field_of (row_fields header row) n = CNone) required \<or>
         list_ex (\<lambda>n. Some (is_text (field_of (row_fields header row) n))
            \<noteq> dget (map (\<lambda>n. (n, is_text (field_of (row_fields header first) n))) required) n) required)
        \<longleftrightarrow> \<not> table_row header required first row"
    by (auto simp: table_row_def list_ex_iff kinds_lookup)
  with Cons.IH show ?case by (auto simp: Let_def row_record_def)
qed simp

text \<open>Under a header, the records are those of the longest run of rows whose key columns are filled and
  keep the kind (text or number) of the first row: a blank row or a footer note ends the table, and every
  record is located by its row.\<close>
theorem rows_to_records_prefix:
  "rows_to_records header required sheet None 0 rows
   = (case rows of [] \<Rightarrow> []
      | first # _ \<Rightarrow> map (\<lambda>(i, row). row_record header sheet i row)
          (enumerate 0 (takeWhile (table_row header required first) rows)))"
proof (cases rows)
  case (Cons first rest)
  have "list_ex (\<lambda>n. field_of (row_fields header first) n = CNone) required
        \<longleftrightarrow> \<not> table_row header required first first"
    by (auto simp: table_row_def list_ex_iff)
  with Cons show ?thesis by (auto simp: Let_def row_record_def rows_to_records_kinds)
qed simp

lemma rows_to_records_provides:
  assumes "r \<in> set (rows_to_records header required sheet kinds offset rows)" "n \<in> set required"
  shows "field_of (rec_fields r) n \<noteq> CNone"
  using assms
  by (induction header required sheet kinds offset rows rule: rows_to_records.induct)
     (auto simp: Let_def list_ex_iff split: if_splits option.splits)

lemma field_of_present: "field_of d n \<noteq> CNone \<Longrightarrow> dget d n \<noteq> None"
  by (cases "dget d n") (simp_all add: field_of_def)

lemma sheets_parse_provides:
  assumes "sheets_parse required mapped ss = Inr rs" "r \<in> set rs" "n \<in> set required"
  shows "field_of (rec_fields r) n \<noteq> CNone"
  using assms
  by (induction required mapped ss rule: sheets_parse.induct)
     (auto split: sum.splits dest: rows_to_records_provides)

lemma table_parse_provides:
  assumes "table_parse required mapped k h rows = Inr rs" "r \<in> set rs" "n \<in> set required"
  shows "field_of (rec_fields r) n \<noteq> CNone"
  using assms rows_to_records_provides by (auto simp: table_parse_def Let_def split: if_splits)

lemma outermost_provides:
  "outermost required path e r \<Longrightarrow> provides required (rec_fields r)"
  by (induction rule: outermost.induct) auto

lemma xml_walk_provides:
  "r \<in> set (xml_walk required path e) \<Longrightarrow> n \<in> set required \<Longrightarrow> dget (rec_fields r) n \<noteq> None"
  using outermost_provides [OF xml_walk_outermost] by (auto simp: provides_def list_all_iff)

text \<open>Except for JSON, whose required members may be nested and then are no scalar field, every record
  the generic parser of a manifest returns carries every field the manifest requires; in tables and sheets
  the field is also not empty.\<close>
theorem parsed_records_complete:
  assumes parsed: "generic_parse m doc = Inr rs" and r: "r \<in> set rs"
    and decode: "ct_decode (m_contract m) \<noteq> Dk_json" and n: "n \<in> set (required_source_fields m)"
  shows "dget (rec_fields r) n \<noteq> None \<and>
    (ct_decode (m_contract m) \<in> {Dk_xlsx, Dk_csv, Dk_html_table} \<longrightarrow> field_of (rec_fields r) n \<noteq> CNone)"
proof (cases "ct_decode (m_contract m) \<in> {Dk_xlsx, Dk_csv, Dk_html_table}")
  case True
  then have "field_of (rec_fields r) n \<noteq> CNone"
    using parsed sheets_parse_provides [OF _ r n] table_parse_provides [OF _ r n]
    by (auto simp: generic_parse_def Let_def split: document.splits)
  then show ?thesis using field_of_present by blast
next
  case False
  then have "ct_decode (m_contract m) \<in> {Dk_soap, Dk_xml}"
    using decode by (cases "ct_decode (m_contract m)") auto
  then show ?thesis using parsed xml_walk_provides [OF _ n] r
    by (auto simp: generic_parse_def Let_def split: document.splits)
qed

end
