(* ===== verification/Mapping.thy ===== *)
theory Mapping
  imports Parse
begin

text \<open>
  The mapping engine (src/energy_platform/mapping): source records become observations under the
  manifest (engine.py), partitions are counted against the calendar (completeness.py), and the two
  transports of one dataset are compared (reconcile.py).

  The zone database and the two ISO 8601 readers of the standard library are the fields of
  \<open>pyenv\<close>; every lemma holds for all of them. A datetime is its instant, so \<open>isoformat\<close> writes it in
  UTC. The quarantine texts that quote a value keep only their constant part.
\<close>

record pyenv =
  zone_info :: "string \<Rightarrow> zoneinfo"
  date_fromisoformat :: "string \<Rightarrow> date option"
  datetime_fromisoformat :: "string \<Rightarrow> py_datetime option"

record mapping_context =
  mc_target_id :: string
  mc_scheduled_for :: instant
  mc_delivery_day :: date
  mc_fetched_at :: instant
  mc_raw_ref :: string
  mc_payload_sha256 :: string
  mc_processed_at :: instant
  mc_derivation_id :: string

record mapping_result =
  mr_observations :: "energy_observation list"
  mr_events :: "quality_event list"

text \<open>\<open>Quarantined(reason, locator)\<close>, and every other exception.\<close>
datatype map_error = Quarantined string string | Raised py_error

definition as_event :: "string \<Rightarrow> string \<Rightarrow> quality_event" where
  "as_event reason locator = \<lparr>q_kind = ''quarantine'', q_severity = Sev_error, q_message = reason,
     q_locator = locator, q_metric = None\<rparr>"

subsection \<open>Field references and coercions\<close>

datatype ref_value = VCell cell | VDate date | VDatetime instant

definition date_isoformat :: "date \<Rightarrow> string" where
  "date_isoformat d = pad4 (year_of d) @ ''-'' @ pad2 (month_of d) @ ''-'' @ pad2 (day_of d)"

definition pad6 :: "int \<Rightarrow> string" where
  "pad6 n = pad2 (n div 10000) @ pad4 (n mod 10000)"

definition datetime_isoformat :: "instant \<Rightarrow> string" where
  "datetime_isoformat t = (let c = utc_clock t in date_isoformat (date_of c) @ ''T'' @ pad2 (hour_of c)
     @ '':'' @ pad2 (minute_of c) @ '':'' @ pad2 (t mod usec_minute div 1000000)
     @ (if t mod 1000000 = 0 then [] else ''.'' @ pad6 (t mod 1000000)) @ ''+00:00'')"

text \<open>\<open>strftime("%Y-%m-%dT%H:%MZ")\<close>\<close>
definition minute_stamp :: "instant \<Rightarrow> string" where
  "minute_stamp t = (let c = utc_clock t in date_isoformat (date_of c) @ ''T'' @ pad2 (hour_of c)
     @ '':'' @ pad2 (minute_of c) @ ''Z'')"

definition ref_of :: "field_ref option \<Rightarrow> source_record \<Rightarrow> mapping_context \<Rightarrow> ref_value" where
  "ref_of ref r ctx = (case ref of
       None \<Rightarrow> VCell CNone
     | Some f \<Rightarrow> (case fr_source f of
           Some n \<Rightarrow> VCell (field_of (rec_fields r) n)
         | None \<Rightarrow> (case fr_constant f of
             Some c \<Rightarrow> VCell (CText c)
           | None \<Rightarrow> if fr_context f = Some Cx_delivery_day then VDate (mc_delivery_day ctx)
                     else VDatetime (mc_scheduled_for ctx))))"

definition blank :: "ref_value \<Rightarrow> bool" where
  "blank v \<longleftrightarrow> (case v of VCell CNone \<Rightarrow> True | VCell (CText s) \<Rightarrow> strip s = [] | _ \<Rightarrow> False)"

definition text_of :: "ref_value \<Rightarrow> string \<Rightarrow> source_record \<Rightarrow> map_error + string" where
  "text_of v what r =
     (if blank v then Inl (Quarantined (what @ '' is empty'') (rec_locator r))
      else Inr (case v of VDatetime t \<Rightarrow> datetime_isoformat t | VDate d \<Rightarrow> strip (date_isoformat d)
                | VCell c \<Rightarrow> strip (cell_str c)))"

text \<open>\<open>int(value)\<close> when \<open>value == value.to_integral_value()\<close>\<close>
definition dec_int :: "decimal \<Rightarrow> int option" where
  "dec_int d = (let s = (if dneg d then -1 else 1 :: int) in
     if 0 \<le> dexp d then Some (s * int (dcoeff d) * 10 ^ nat (dexp d))
     else if 10 ^ nat (- dexp d) dvd dcoeff d then Some (s * int (dcoeff d div 10 ^ nat (- dexp d)))
     else None)"

definition int_of_ref :: "ref_value \<Rightarrow> string \<Rightarrow> source_record \<Rightarrow> map_error + int" where
  "int_of_ref v what r =
     (let not_int = Inl (Quarantined (what @ '' is not an integer'') (rec_locator r));
          empty = Inl (Quarantined (what @ '' is empty or not a number'') (rec_locator r)) in
      case v of
        VCell (CBool _) \<Rightarrow> empty
      | VCell CNone \<Rightarrow> empty
      | VCell (CInt i) \<Rightarrow> Inr i
      | VCell (CDec d) \<Rightarrow> (case dec_int d of None \<Rightarrow> not_int | Some i \<Rightarrow> Inr i)
      | VCell (CText s) \<Rightarrow>
          if py_isdigit (strip s)
          then (case py_int (strip s) of None \<Rightarrow> Inl (Raised (ValueError ''invalid literal for int()'')) | Some i \<Rightarrow> Inr i)
          else not_int
      | _ \<Rightarrow> not_int)"

definition date_of_ref :: "pyenv \<Rightarrow> ref_value \<Rightarrow> source_record \<Rightarrow> map_error + date" where
  "date_of_ref env v r = (case v of
       VDatetime t \<Rightarrow> Inr (date_of (utc_clock t))
     | VDate d \<Rightarrow> Inr d
     | _ \<Rightarrow> bindR (text_of v ''date'' r) (\<lambda>s.
         case date_fromisoformat env (if length s \<ge> 10 then take 10 s else s) of
           None \<Rightarrow> Inl (Quarantined ''date is not ISO 8601'' (rec_locator r))
         | Some d \<Rightarrow> Inr d))"

definition datetime_of_ref :: "pyenv \<Rightarrow> ref_value \<Rightarrow> string \<Rightarrow> source_record \<Rightarrow> map_error + instant option" where
  "datetime_of_ref env v what r =
     (if blank v then Inr None
      else bindR (case v of
          VDatetime t \<Rightarrow> Inr (Aware t)
        | VCell (CText s) \<Rightarrow> (case datetime_fromisoformat env (strip s) of
             None \<Rightarrow> Inl (Quarantined (what @ '' is not ISO 8601'') (rec_locator r))
           | Some p \<Rightarrow> Inr p)
        | _ \<Rightarrow> Inl (Quarantined (what @ '' is not a timestamp'') (rec_locator r))) (\<lambda>p.
        case p of Naive _ \<Rightarrow> Inl (Quarantined (what @ '' carries no UTC offset'') (rec_locator r))
                | Aware t \<Rightarrow> Inr (Some t)))"

subsection \<open>Time\<close>

text \<open>\<open>except (ValueError, IndexError)\<close> around the time computation.\<close>
definition time_error :: "source_record \<Rightarrow> map_error \<Rightarrow> map_error" where
  "time_error r e = (case e of
       Raised (ValueError _) \<Rightarrow> Quarantined ''time'' (rec_locator r)
     | Raised IndexError \<Rightarrow> Quarantined ''time'' (rec_locator r)
     | _ \<Rightarrow> e)"

definition catchE :: "('e \<Rightarrow> 'f) \<Rightarrow> 'e + 'a \<Rightarrow> 'f + 'a" where
  "catchE h m = (case m of Inl e \<Rightarrow> Inl (h e) | Inr x \<Rightarrow> Inr x)"

definition time_of ::
    "pyenv \<Rightarrow> manifest \<Rightarrow> source_record \<Rightarrow> mapping_context \<Rightarrow> string \<Rightarrow> map_error + delivery_interval \<times> date \<times> int option"
  where
  "time_of env m r ctx res =
     (let t = mb_time (m_mapping m); tz = zone_info env (tm_timezone t) in
      catchE (time_error r)
        (if tm_kind t = Tk_period_index
         then bindR (date_of_ref env (ref_of (tm_date t) r ctx) r) (\<lambda>day.
              bindR (int_of_ref (ref_of (tm_index t) r ctx) ''period_index'' r) (\<lambda>index.
              bindR (catchE Raised (interval_for_index day index res tz)) (\<lambda>iv. Inr (iv, day, Some index))))
         else bindR (datetime_of_ref env (ref_of (tm_timestamp t) r ctx) ''timestamp'' r) (\<lambda>ts.
              case ts of None \<Rightarrow> Inl (Quarantined ''timestamp is empty'' (rec_locator r))
              | Some u \<Rightarrow> bindR (catchE Raised (interval_from_timestamp (Aware u) res (tm_interval_label t)))
                  (\<lambda>iv. Inr (iv, date_of (to_local tz (di_start iv)), None)))))"

subsection \<open>One record\<close>

text \<open>What \<open>_map_one\<close> computes before the loop over the metrics.\<close>
record record_frame =
  fm_resolution :: string
  fm_interval :: delivery_interval
  fm_local_date :: date
  fm_period_index :: "int option"
  fm_source_version :: "string option"
  fm_published :: "instant option"

definition record_head :: "pyenv \<Rightarrow> manifest \<Rightarrow> source_record \<Rightarrow> mapping_context \<Rightarrow> map_error + record_frame" where
  "record_head env m r ctx =
     (let b = m_mapping m in
      bindR (text_of (ref_of (Some (tm_resolution (mb_time b))) r ctx) ''resolution'' r) (\<lambda>res.
      bindR (time_of env m r ctx res) (\<lambda>(iv, day, index).
      bindR (if mb_source_version b = None then Inr None
             else bindR (text_of (ref_of (mb_source_version b) r ctx) ''source_version'' r) (\<lambda>s. Inr (Some s))) (\<lambda>version.
      bindR (if mb_source_published_at b = None then Inr None
             else datetime_of_ref env (ref_of (mb_source_published_at b) r ctx) ''source_published_at'' r) (\<lambda>published.
      Inr \<lparr>fm_resolution = res, fm_interval = iv, fm_local_date = day, fm_period_index = index,
           fm_source_version = version, fm_published = published\<rparr>)))))"

definition observation_of ::
    "manifest \<Rightarrow> dataset_contract \<Rightarrow> mapping_context \<Rightarrow> record_frame \<Rightarrow> string \<Rightarrow> metric_mapping \<Rightarrow> decimal option \<Rightarrow> energy_observation"
  where
  "observation_of m contract ctx fm name mm v =
     \<lparr>source_id = dc_source_id contract, dataset_id = dc_dataset_id contract,
      source_transport = ct_source_transport (m_contract m), contract_version = dc_contract_version contract,
      derivation_id = mc_derivation_id ctx, raw_ref = mc_raw_ref ctx, payload_sha256 = mc_payload_sha256 ctx,
      fetched_at = mc_fetched_at ctx, source_published_at = fm_published fm, source_version = fm_source_version fm,
      processed_at = mc_processed_at ctx, delivery_interval = fm_interval fm, resolution = fm_resolution fm,
      local_date = fm_local_date fm, period_index = fm_period_index fm, kind = Kind_interval,
      dimensions = mb_dimensions (m_mapping m), metric = name, obs_value = v, obs_unit = mm_unit mm,
      sign_convention = mm_sign mm\<rparr>"

definition negative_event :: "string \<Rightarrow> decimal \<Rightarrow> string \<Rightarrow> quality_event" where
  "negative_event name v locator = \<lparr>q_kind = ''negative_value'', q_severity = Sev_warning,
     q_message = name @ '' = '' @ dec_str v @ '' (registry: >= 0 expected, not enforced)'',
     q_locator = locator, q_metric = Some name\<rparr>"

text \<open>One turn of the loop over the metrics: the event it appends and the observation it yields.\<close>
definition map_metric ::
    "manifest \<Rightarrow> dataset_contract \<Rightarrow> source_record \<Rightarrow> mapping_context \<Rightarrow> record_frame \<Rightarrow> string \<Rightarrow> metric_mapping
     \<Rightarrow> map_error + quality_event list \<times> energy_observation" where
  "map_metric m contract r ctx fm name mm = (case metric_of contract name of
       None \<Rightarrow> Inl (Quarantined ''metric is not registered'' (rec_locator r))
     | Some spec \<Rightarrow> (case parse_decimal (field_of (rec_fields r) (mm_source mm)) (mm_decimal_separator mm) of
         Inl (ValueError e) \<Rightarrow> Inl (Quarantined (name @ '': '' @ e) (rec_locator r))
       | Inl e \<Rightarrow> Inl (Raised e)
       | Inr raw \<Rightarrow>
         (let v = apply_sign raw (mm_sign mm);
              negative = (case v of None \<Rightarrow> False | Some d \<Rightarrow> dec_negative d) in
          if negative \<and> ms_sign spec = Non_negative
          then Inl (Quarantined (name @ '': negative value for a non-negative metric'') (rec_locator r))
          else (case mk_observation (observation_of m contract ctx fm name mm v) of
              Inl (ValueError e) \<Rightarrow> Inl (Quarantined (name @ '': '' @ e) (rec_locator r))
            | Inl e \<Rightarrow> Inl (Raised e)
            | Inr x \<Rightarrow> Inr (if negative \<and> ms_sign spec = Non_negative_expected
                           then [negative_event name (the v) (rec_locator r)] else [], x)))))"

subsection \<open>A document\<close>

text \<open>\<open>seen\<close> and \<open>events\<close> of \<open>map_records\<close>\<close>
type_synonym map_state = "(observation_id, energy_observation) dict \<times> quality_event list"

definition same_value :: "decimal option \<Rightarrow> decimal option \<Rightarrow> bool" where
  "same_value a b \<longleftrightarrow> (case (a, b) of (None, None) \<Rightarrow> True | (Some x, Some y) \<Rightarrow> dec_eq x y | _ \<Rightarrow> False)"

definition absorb :: "source_record \<Rightarrow> quality_event list \<times> energy_observation \<Rightarrow> map_state \<Rightarrow> map_error + map_state" where
  "absorb r eo st = (case eo of (evs, x) \<Rightarrow> case st of (seen, events) \<Rightarrow>
     (case dget seen (observation_identity x) of
        Some earlier \<Rightarrow> if \<not> same_value (obs_value earlier) (obs_value x)
          then Inl (Quarantined (metric x @ '' for '' @ minute_stamp (delivery_start_utc x)
                 @ '' appears twice with different values'') (rec_locator r))
          else Inr (seen, events @ evs)
      | None \<Rightarrow> Inr (dset (observation_identity x) x seen, events @ evs)))"

fun map_metrics ::
    "manifest \<Rightarrow> dataset_contract \<Rightarrow> source_record \<Rightarrow> mapping_context \<Rightarrow> record_frame
     \<Rightarrow> (string, metric_mapping) dict \<Rightarrow> map_state \<Rightarrow> map_error + map_state" where
  "map_metrics m contract r ctx fm [] st = Inr st"
| "map_metrics m contract r ctx fm ((name, mm) # rest) st =
     bindR (map_metric m contract r ctx fm name mm) (\<lambda>eo.
     bindR (absorb r eo st) (\<lambda>st'. map_metrics m contract r ctx fm rest st'))"

fun map_all ::
    "pyenv \<Rightarrow> manifest \<Rightarrow> dataset_contract \<Rightarrow> mapping_context \<Rightarrow> source_record list \<Rightarrow> map_state \<Rightarrow> map_error + map_state" where
  "map_all env m contract ctx [] st = Inr st"
| "map_all env m contract ctx (r # rs) st =
     bindR (record_head env m r ctx) (\<lambda>fm.
     bindR (map_metrics m contract r ctx fm (mb_metrics (m_mapping m)) st) (\<lambda>st'. map_all env m contract ctx rs st'))"

definition unknown_fields :: "manifest \<Rightarrow> source_record list \<Rightarrow> string list" where
  "unknown_fields m rs = sort (first_places (filter
     (\<lambda>n. n \<notin> set (mapped_source_fields m) \<and> n \<notin> set (mb_ignore_fields (m_mapping m)))
     (concat (map (\<lambda>r. dkeys (rec_fields r)) rs))))"

definition py_list :: "string list \<Rightarrow> string" where
  "py_list ss = ''['' @ concat (case map (\<lambda>s. CHR 0x27 # s @ [CHR 0x27]) ss of [] \<Rightarrow> [] | q # qs \<Rightarrow> q # map (\<lambda>x. '', '' @ x) qs) @ '']''"

definition map_records ::
    "pyenv \<Rightarrow> manifest \<Rightarrow> source_record list \<Rightarrow> mapping_context \<Rightarrow> map_error + mapping_result" where
  "map_records env m rs ctx = (case dataset (ct_dataset_id (m_contract m)) of
       None \<Rightarrow> Inl (Quarantined ''dataset is not registered'' [])
     | Some contract \<Rightarrow> bindR (map_all env m contract ctx rs ([], [])) (\<lambda>(seen, events).
         Inr \<lparr>mr_observations = dvalues seen,
              mr_events = events @ (if unknown_fields m rs = [] then [] else
                [\<lparr>q_kind = ''unknown_field'', q_severity = Sev_warning,
                  q_message = ''fields not referenced by the mapping: '' @ py_list (unknown_fields m rs),
                  q_locator = [], q_metric = None\<rparr>])\<rparr>))"

subsection \<open>Completeness\<close>

definition add_period :: "energy_observation \<Rightarrow> (date, instant list) dict \<Rightarrow> (date, instant list) dict" where
  "add_period x p = (let old = (case dget p (local_date x) of None \<Rightarrow> [] | Some s \<Rightarrow> s) in
     dset (local_date x) (if obs_value x \<noteq> None then List.insert (delivery_start_utc x) old else old) p)"

fun present_periods :: "energy_observation list \<Rightarrow> (date, instant list) dict \<Rightarrow> (date, instant list) dict" where
  "present_periods [] p = p"
| "present_periods (x # xs) p = present_periods xs (add_period x p)"

definition status_word :: "nat \<Rightarrow> nat \<Rightarrow> string" where
  "status_word got expected = (if expected \<le> got then ''complete'' else if got = 0 then ''empty'' else ''partial'')"

definition partition_event :: "date \<Rightarrow> nat \<Rightarrow> nat \<Rightarrow> quality_event" where
  "partition_event day got expected =
     \<lparr>q_kind = ''partition_status'', q_severity = Sev_info,
      q_message = date_isoformat day @ '': '' @ status_word got expected @ '' '' @ str_nat got @ ''/'' @ str_nat expected,
      q_locator = [], q_metric = None\<rparr>"

definition partition_status :: "energy_observation list \<Rightarrow> string \<Rightarrow> zoneinfo \<Rightarrow> py_error + quality_event list" where
  "partition_status xs res tz =
     (let present = present_periods xs [] in
      mapR (\<lambda>day. bindR (local_day_intervals day res tz) (\<lambda>ivs.
              Inr (partition_event day (length (the (dget present day))) (length ivs))))
        (sort (dkeys present)))"

text \<open>\<open>event.message.split(": ", 1)[1].split(" ", 1)[0]\<close>\<close>
fun after_colon :: "string \<Rightarrow> string option" where
  "after_colon (a # b # s) = (if a = CHR '':'' \<and> b = CHR '' '' then Some s else after_colon (b # s))"
| "after_colon s = None"

definition status_of :: "quality_event \<Rightarrow> string option" where
  "status_of e = map_option (takeWhile (\<lambda>c. c \<noteq> CHR '' '')) (after_colon (q_message e))"

subsection \<open>Reconciliation of transports\<close>

type_synonym compare_key = observation_id

definition TOLERANCES :: "(string, decimal) dict" where
  "TOLERANCES = [(''EUR/MWh'', Dec False 1 (-2)), (''MWh'', Dec False 1 (-3))]"

definition compare_key_of :: "energy_observation \<Rightarrow> compare_key" where
  "compare_key_of x = (dataset_id x, sort (dimensions x), delivery_start_utc x, resolution x, metric x, source_version x)"

definition transport_text :: "transport \<Rightarrow> string" where
  "transport_text t = (case t of Soap \<Rightarrow> ''soap'' | Xlsx \<Rightarrow> ''xlsx'' | Html \<Rightarrow> ''html'' | Rest \<Rightarrow> ''rest'')"

definition tolerance_of :: "energy_observation \<Rightarrow> decimal" where
  "tolerance_of x = (case dget TOLERANCES (obs_unit x) of None \<Rightarrow> Dec False 0 0 | Some t \<Rightarrow> t)"

definition mismatch_event :: "energy_observation \<Rightarrow> transport \<Rightarrow> decimal \<Rightarrow> decimal \<Rightarrow> quality_event" where
  "mismatch_event x owner v w =
     (let (rec, copy) = (if source_transport x = owner then (v, w) else (w, v)) in
      \<lparr>q_kind = ''reconciliation_mismatch'', q_severity = Sev_warning,
       q_message = metric x @ '' '' @ minute_stamp (delivery_start_utc x) @ '': '' @ transport_text owner @ ''=''
         @ dec_str rec @ '' vs copy='' @ dec_str copy @ '' (tolerance '' @ dec_str (tolerance_of x) @ '' '' @ obs_unit x @ '')'',
       q_locator = [], q_metric = Some (metric x)\<rparr>)"

definition compare_one :: "(compare_key, transport \<times> decimal option) dict \<Rightarrow> energy_observation \<Rightarrow> quality_event list" where
  "compare_one other_current x = (case owner_transport_of x of
       None \<Rightarrow> []
     | Some owner \<Rightarrow> (case dget other_current (compare_key_of x) of
         None \<Rightarrow> []
       | Some (other_transport, other_value) \<Rightarrow>
           if other_transport = source_transport x then []
           else (case (obs_value x, other_value) of
               (Some v, Some w) \<Rightarrow> if dec_less (tolerance_of x) (dec_abs (dec_sub v w)) then [mismatch_event x owner v w] else []
             | _ \<Rightarrow> [])))"

definition reconcile_transports ::
    "energy_observation list \<Rightarrow> (compare_key, transport \<times> decimal option) dict \<Rightarrow> quality_event list" where
  "reconcile_transports xs other_current = concat (map (compare_one other_current) xs)"

end
