(* ===== verification/Decode.thy ===== *)
theory Decode
  imports Parse
begin

text \<open>
  From bytes to documents (src/energy_platform/parse/decode.py). What openpyxl, lxml, json and csv make of
  the bytes is the record \<open>decoders\<close>; what the module does with it is modelled: cell normalisation, XML
  element views, the SOAP envelope and fault checks, CSV and HTML tables, and the translation of the
  table selector to XPath.
\<close>

datatype decode_error = DecodeError string | SoapFault string

subsection \<open>Workbooks\<close>

text \<open>A worksheet value: a float is the decimal its \<open>repr\<close> denotes, a date or time its ISO text, anything
  else its \<open>str\<close>.\<close>
datatype sheet_value =
    SvNone | SvText string | SvBool bool | SvInt int | SvDec decimal | SvFloat decimal | SvTime string | SvOther string

definition cell_of :: "sheet_value \<Rightarrow> cell" where
  "cell_of v = (case v of SvNone \<Rightarrow> CNone | SvText s \<Rightarrow> CText s | SvBool b \<Rightarrow> CBool b | SvInt i \<Rightarrow> CInt i
     | SvDec d \<Rightarrow> CDec d | SvFloat d \<Rightarrow> CDec d | SvTime s \<Rightarrow> CText s | SvOther s \<Rightarrow> CText s)"

definition max_rows :: int where "max_rows = 1000000"

fun decode_sheets ::
    "(string \<times> sheet_value list list) list \<Rightarrow> (string, cell list list) dict \<Rightarrow> decode_error + (string, cell list list) dict"
  where
  "decode_sheets [] d = Inr d"
| "decode_sheets ((title, rows) # ws) d =
     (if int (length rows) > max_rows then Inl (DecodeError ''sheet exceeds the row limit'')
      else decode_sheets ws (dset title (map (map cell_of) rows) d))"

subsection \<open>XML\<close>

text \<open>An lxml node: comments and processing instructions have no text tag.\<close>
datatype xml_node = Node (nd_tag: "string option") (nd_attrib: "(string \<times> string) list") (nd_text: "string option")
  (nd_children: "xml_node list")

text \<open>Defined on nodes with a tag; the children without one are left out before the call.\<close>
fun element_of :: "xml_node \<Rightarrow> xml_element option" where
  "element_of (Node None a x cs) = None"
| "element_of (Node (Some t) a x cs) = Some (Elem t a
     (case x of None \<Rightarrow> None | Some s \<Rightarrow> if strip s = [] then None else Some (strip s))
     (List.map_filter id (map element_of cs)))"

fun el_text :: "xml_element \<Rightarrow> string" where
  "el_text (Elem t a (Some x) cs) = x"
| "el_text (Elem t a None cs) =
     concat (case filter (\<lambda>s. s \<noteq> []) (map el_text cs) of [] \<Rightarrow> [] | s # ss \<Rightarrow> s # map (\<lambda>u. CHR '' '' # u) ss)"

definition opt_text :: "xml_element option \<Rightarrow> string" where
  "opt_text e = (case e of None \<Rightarrow> [] | Some x \<Rightarrow> el_text x)"

definition first_of :: "string \<Rightarrow> string \<Rightarrow> xml_element \<Rightarrow> xml_element option" where
  "first_of a b e = (case xml_first a e of Some x \<Rightarrow> Some x | None \<Rightarrow> xml_first b e)"

definition check_soap :: "xml_element \<Rightarrow> decode_error + document" where
  "check_soap root =
     (if local_name root \<noteq> ''Envelope'' then Inl (DecodeError ''SOAP root must be Envelope'')
      else case xml_first ''Fault'' root of
        Some fault \<Rightarrow> Inl (SoapFault (''SOAP Fault '' @ opt_text (first_of ''faultcode'' ''Code'' fault) @ '': ''
                          @ opt_text (first_of ''faultstring'' ''Reason'' fault)))
      | None \<Rightarrow> Inr (XmlDoc root))"

subsection \<open>Tables\<close>

definition blank_cell :: "string \<Rightarrow> cell" where
  "blank_cell s = (if s = [] then CNone else CText s)"

definition csv_table :: "string list list \<Rightarrow> decode_error + document" where
  "csv_table raw = (case map (map strip) (filter (\<lambda>r. r \<noteq> []) raw) of
       [] \<Rightarrow> Inl (DecodeError ''csv has no header row'')
     | header # rows \<Rightarrow> Inr (Tabular Kind_csv header (map (map blank_cell) rows)))"

text \<open>The cells of a table row: whether each is a \<open>th\<close>, and its text.\<close>
type_synonym html_row = "(bool \<times> string) list"

fun html_rows :: "string list \<Rightarrow> html_row list \<Rightarrow> cell list list \<Rightarrow> string list \<times> cell list list" where
  "html_rows header [] rows = (header, rows)"
| "html_rows header (tr # trs) rows =
     (if tr = [] then html_rows header trs rows
      else (let texts = map (norm_ws \<circ> snd) tr in
        if header = [] then html_rows texts trs rows
        else html_rows header trs (rows @ [map blank_cell texts])))"

definition html_table :: "html_row list \<Rightarrow> decode_error + document" where
  "html_table trs = (case html_rows [] trs [] of (header, rows) \<Rightarrow>
     if header = [] then Inl (DecodeError ''table has no rows'') else Inr (Tabular Kind_html_table header rows))"

subsection \<open>Table selectors\<close>

definition ascii_letter :: "char \<Rightarrow> bool" where
  "ascii_letter c \<longleftrightarrow> (let n = (of_char c :: nat) in 65 \<le> n \<and> n \<le> 90 \<or> 97 \<le> n \<and> n \<le> 122)"

text \<open>\<open>\w\<close> below code point 256.\<close>
definition word_char :: "char \<Rightarrow> bool" where
  "word_char c \<longleftrightarrow> ascii_letter c \<or> is_digit c \<or> c = CHR ''_'' \<or> (let n = (of_char c :: nat) in
     n \<in> {170, 178, 179, 181, 185, 186, 188, 189, 190} \<or> 192 \<le> n \<and> n \<noteq> 215 \<and> n \<noteq> 247)"

definition name_char :: "char \<Rightarrow> bool" where
  "name_char c \<longleftrightarrow> word_char c \<or> c = CHR ''-''"

text \<open>\<open>(?:\.[\w-]+)*\<close> to the end: the class names.\<close>
function classes_of :: "string \<Rightarrow> string list option" where
  "classes_of [] = Some []"
| "classes_of (c # s) =
     (let name = takeWhile name_char s in
      if c \<noteq> CHR ''.'' \<or> name = [] then None
      else map_option (\<lambda>cs. name # cs) (classes_of (dropWhile name_char s)))"
  by pat_completeness auto
termination
  by (relation "measure length") (auto simp: le_imp_less_Suc length_dropWhile_le)

text \<open>\<open>_SIMPLE\<close>: tag, id and classes.\<close>
definition simple_selector :: "string \<Rightarrow> (string \<times> string \<times> string list) option" where
  "simple_selector token =
     (let has_tag = (token \<noteq> [] \<and> ascii_letter (hd token));
          tag = (if has_tag then takeWhile (\<lambda>c. ascii_letter c \<or> is_digit c) token else []);
          s1 = drop (length tag) token;
          has_id = (s1 \<noteq> [] \<and> hd s1 = CHR ''#'' \<and> takeWhile name_char (tl s1) \<noteq> []);
          ident = (if has_id then takeWhile name_char (tl s1) else []);
          s2 = (if has_id then dropWhile name_char (tl s1) else s1)
      in map_option (\<lambda>cs. (tag, ident, cs)) (classes_of s2))"

definition quoted :: "string \<Rightarrow> string" where
  "quoted s = [CHR 0x27] @ s @ [CHR 0x27]"

definition xpath_step :: "string \<times> string \<times> string list \<Rightarrow> string" where
  "xpath_step p = (case p of (tag, ident, cs) \<Rightarrow>
     (if tag = [] then ''*'' else tag)
     @ (if ident = [] then [] else ''[@id='' @ quoted ident @ '']'')
     @ concat (map (\<lambda>c. ''[contains(concat('' @ quoted '' '' @ '', normalize-space(@class), '' @ quoted '' '' @ ''), ''
         @ quoted ('' '' @ c @ '' '') @ '')]'') cs))"

definition css_to_xpath :: "string \<Rightarrow> decode_error + string" where
  "css_to_xpath selector =
     bindR (mapR (\<lambda>token. case simple_selector token of
         None \<Rightarrow> Inl (DecodeError ''unsupported table_selector'') | Some p \<Rightarrow> Inr (xpath_step p)) (split_ws selector))
       (\<lambda>steps. Inr (''//'' @ concat (case steps of [] \<Rightarrow> [] | s # ss \<Rightarrow> s # map (\<lambda>u. ''//'' @ u) ss)))"

subsection \<open>Dispatch\<close>

record decoders =
  lib_xlsx :: "bytes \<Rightarrow> (string \<times> sheet_value list list) list option"
  lib_xml :: "bytes \<Rightarrow> xml_node option"
  lib_json :: "bytes \<Rightarrow> json option"
  lib_csv :: "bytes \<Rightarrow> string list list option"
  lib_html :: "bytes \<Rightarrow> string \<Rightarrow> html_row list list option"

definition decode_xml :: "decoders \<Rightarrow> bytes \<Rightarrow> bool \<Rightarrow> decode_error + document" where
  "decode_xml lib payload soap = (case lib_xml lib payload of
       None \<Rightarrow> Inl (DecodeError ''not well-formed XML'')
     | Some node \<Rightarrow> (case element_of node of
         None \<Rightarrow> Inl (DecodeError ''empty XML document'')
       | Some root \<Rightarrow> if soap then check_soap root else Inr (XmlDoc root)))"

definition decode :: "decoders \<Rightarrow> bytes \<Rightarrow> decode_kind \<Rightarrow> decode_error + document" where
  "decode lib payload kd = (case kd of
       Dk_xlsx \<Rightarrow> (case lib_xlsx lib payload of None \<Rightarrow> Inl (DecodeError ''not an xlsx workbook'')
         | Some ws \<Rightarrow> bindR (decode_sheets ws []) (\<lambda>d. Inr (Sheets d)))
     | Dk_xml \<Rightarrow> decode_xml lib payload False
     | Dk_soap \<Rightarrow> decode_xml lib payload True
     | Dk_json \<Rightarrow> (case lib_json lib payload of None \<Rightarrow> Inl (DecodeError ''not JSON'') | Some j \<Rightarrow> Inr (JsonDoc j))
     | Dk_html_table \<Rightarrow> Inl (DecodeError ''html-table decoding needs a table selector; use decode_html_table'')
     | Dk_csv \<Rightarrow> (case lib_csv lib payload of None \<Rightarrow> Inl (DecodeError ''csv is not UTF-8'') | Some rs \<Rightarrow> csv_table rs))"

definition decode_html_table :: "decoders \<Rightarrow> bytes \<Rightarrow> string \<Rightarrow> decode_error + document" where
  "decode_html_table lib payload selector =
     bindR (css_to_xpath selector) (\<lambda>xpath. case lib_html lib payload xpath of
       None \<Rightarrow> Inl (DecodeError ''not HTML'')
     | Some tables \<Rightarrow> (case tables of [] \<Rightarrow> Inl (DecodeError ''no element matches table_selector'')
         | table # _ \<Rightarrow> html_table table))"

subsection \<open>What decoding guarantees\<close>

text \<open>A SOAP fault never becomes a document: when decoding as SOAP succeeds, the root is the envelope
  and no element of the document is called \<open>Fault\<close>.\<close>
theorem soap_fault_never_decoded:
  assumes "decode lib payload Dk_soap = Inr doc"
  shows "\<exists>root. doc = XmlDoc root \<and> local_name root = ''Envelope'' \<and> find_all ''Fault'' root = []"
proof -
  obtain root where "check_soap root = Inr doc"
    using assms by (auto simp: decode_def decode_xml_def split: option.splits)
  then have "doc = XmlDoc root" "local_name root = ''Envelope''" "xml_first ''Fault'' root = None"
    by (auto simp: check_soap_def split: if_splits option.splits)
  then show ?thesis using xml_first_in_head(1) [of "''Fault''" root] by (auto split: list.splits)
qed

definition sample_decoders :: decoders where
  "sample_decoders = \<lparr>lib_xlsx = (\<lambda>_. None),
     lib_xml = (\<lambda>_. Some (Node (Some ''{s}Envelope'') [] None [Node (Some ''Body'') [] (Some '' x '') []])),
     lib_json = (\<lambda>_. None), lib_csv = (\<lambda>_. None), lib_html = (\<lambda>_ _. None)\<rparr>"

theorem soap_fault_never_decoded_witness:
  "find_all ''Fault'' (Elem ''{s}Envelope'' [] None [Elem ''Body'' [] (Some ''x'') []]) = []"
proof -
  have "decode sample_decoders [] Dk_soap = Inr (XmlDoc (Elem ''{s}Envelope'' [] None [Elem ''Body'' [] (Some ''x'') []]))"
    by code_simp
  from soap_fault_never_decoded [OF this] show ?thesis by simp
qed

lemma classes_of_names: "classes_of s = Some cs \<Longrightarrow> c \<in> set cs \<Longrightarrow> list_all name_char c"
proof (induction s arbitrary: cs rule: classes_of.induct)
  case (2 d s)
  from "2.prems"(1) obtain rest where nm: "takeWhile name_char s \<noteq> []" "d = CHR ''.''"
    and r: "classes_of (dropWhile name_char s) = Some rest" "cs = takeWhile name_char s # rest"
    by (auto simp: Let_def split: if_splits)
  show ?case
  proof (cases "c = takeWhile name_char s")
    case True
    then show ?thesis by (auto simp: list_all_iff dest: set_takeWhileD)
  next
    case False
    with "2.prems"(2) r(2) have "c \<in> set rest" by simp
    with "2.IH" [OF refl] nm r(1) show ?thesis by blast
  qed
qed simp

lemma simple_selector_names:
  assumes "simple_selector token = Some (tag, ident, cs)"
  shows "list_all name_char tag \<and> list_all name_char ident \<and> (\<forall>c \<in> set cs. list_all name_char c)"
  using assms classes_of_names
  by (auto simp: simple_selector_def Let_def list_all_iff name_char_def word_char_def split: if_splits
      dest: set_takeWhileD)

definition xpath_specials :: string where
  "xpath_specials = [CHR 0x27, CHR ''['', CHR '']'', CHR ''/'', CHR '' '', CHR ''('', CHR '')'', CHR ''@'']"

lemma xpath_specials_not_names: "list_all (\<lambda>c. \<not> name_char c) xpath_specials"
  by code_simp

lemma names_not_special: "list_all name_char part \<Longrightarrow> set part \<inter> set xpath_specials = {}"
  using xpath_specials_not_names by (auto simp: list_all_iff)

lemma selector_steps:
  assumes "list_all2 (\<lambda>token s. (case simple_selector token of None \<Rightarrow> Inl e | Some p \<Rightarrow> Inr (xpath_step p)) = Inr s) tokens steps"
  shows "\<exists>parts. list_all2 (\<lambda>token p. simple_selector token = Some p) tokens parts \<and> steps = map xpath_step parts"
  using assms
proof (induction rule: list_all2_induct)
  case (Cons token tokens s steps)
  then obtain p parts where "simple_selector token = Some p" "s = xpath_step p"
    "list_all2 (\<lambda>token p. simple_selector token = Some p) tokens parts" "steps = map xpath_step parts"
    by (auto split: option.splits)
  then show ?case by (intro exI [of _ "p # parts"]) simp
qed simp

text \<open>No selector can smuggle XPath syntax into the query: every part of the expression that comes from
  the selector (tag, id, classes) consists of name characters only, so it contains no quote, bracket,
  slash or space, and everything else in the expression is fixed.\<close>
theorem css_to_xpath_no_injection:
  assumes "css_to_xpath selector = Inr xpath"
  shows "\<exists>parts. list_all2 (\<lambda>token p. simple_selector token = Some p) (split_ws selector) parts
    \<and> xpath = ''//'' @ concat (case map xpath_step parts of [] \<Rightarrow> [] | s # ss \<Rightarrow> s # map (\<lambda>u. ''//'' @ u) ss)
    \<and> (\<forall>p \<in> set parts. \<forall>part \<in> {fst p, fst (snd p)} \<union> set (snd (snd p)). set part \<inter> set xpath_specials = {})"
proof -
  obtain steps where steps: "list_all2 (\<lambda>token s. (case simple_selector token of
         None \<Rightarrow> Inl (DecodeError ''unsupported table_selector'') | Some p \<Rightarrow> Inr (xpath_step p)) = Inr s) (split_ws selector) steps"
    and x: "xpath = ''//'' @ concat (case steps of [] \<Rightarrow> [] | s # ss \<Rightarrow> s # map (\<lambda>u. ''//'' @ u) ss)"
    using assms by (auto simp: css_to_xpath_def mapR_Inr_iff)
  from selector_steps [OF steps] obtain parts
    where parts: "list_all2 (\<lambda>token p. simple_selector token = Some p) (split_ws selector) parts"
    and st: "steps = map xpath_step parts" by blast
  have clean: "set part \<inter> set xpath_specials = {}"
    if p: "p \<in> set parts" and part: "part \<in> {fst p, fst (snd p)} \<union> set (snd (snd p))" for p part
  proof -
    obtain token where "simple_selector token = Some (fst p, fst (snd p), snd (snd p))"
      using parts p by (auto simp: list_all2_conv_all_nth in_set_conv_nth)
    from simple_selector_names [OF this] part names_not_special show ?thesis by blast
  qed
  show ?thesis using parts x st clean by (intro exI [of _ parts]) simp
qed

theorem css_to_xpath_no_injection_witness:
  "css_to_xpath ''table.data #t1'' = Inr (''//table[contains(concat('' @ quoted '' '' @ '', normalize-space(@class), '' @ quoted '' '' @ ''), ''
     @ quoted '' data '' @ '')]//*[@id='' @ quoted ''t1'' @ '']'')
   \<and> (\<exists>parts. list_all2 (\<lambda>token p. simple_selector token = Some p) (split_ws ''table.data #t1'') parts)"
proof -
  have x: "css_to_xpath ''table.data #t1'' = Inr (''//table[contains(concat('' @ quoted '' '' @ '', normalize-space(@class), '' @ quoted '' '' @ ''), ''
     @ quoted '' data '' @ '')]//*[@id='' @ quoted ''t1'' @ '']'')" by code_simp
  from css_to_xpath_no_injection [OF x] x show ?thesis by blast
qed

end
