(* ===== verification/Runtime.thy ===== *)
theory Runtime
  imports Programs Mapping Cron Decode
begin

text \<open>
  The verbs that fetch and keep the ledger in step with Bronze (src/energy_platform/runtime):
  context.py, capture.py, backfill.py, recapture.py, reconcile.py, replay.py and gaps.py.

  A runtime carries the manifest and what is outside the model: the fetch (\<open>fetch_for_manifest\<close> and the
  fetcher factory: its answer may depend on the tick), SHA-256 of a payload and of the canonical JSON of
  a derivation, the version of the running package, the parsing libraries, the clock, the availability of the store and what other writers do to Bronze
  during a capture.
\<close>

subsection \<open>Context\<close>

text \<open>How \<open>fetch_for_manifest\<close> ends: a result, \<open>FetchFailed\<close> or \<open>EgressError\<close>, \<open>RenderError\<close>, \<open>SecretMissing\<close> or
  \<open>LookupError\<close>, or an exception that \<open>capture\<close> does not catch.\<close>
datatype fetch_answer =
    Fetched fetch_result
  | Source_unavailable string
  | Cannot_build string
  | Fetch_raised string

record runtime =
  rt_manifest :: manifest
  rt_env :: pyenv
  rt_sha :: "bytes \<Rightarrow> string"
  rt_fetch :: "nat \<Rightarrow> instant \<Rightarrow> date \<Rightarrow> capture_entry option \<Rightarrow> fetch_answer"
  rt_others :: "nat \<Rightarrow> bronze \<Rightarrow> bronze"
  rt_lib :: decoders
  rt_version :: string
  rt_hash :: "string \<Rightarrow> string \<Rightarrow> json \<Rightarrow> string \<Rightarrow> string"
  rt_clock :: "nat \<Rightarrow> instant"
  rt_up :: "nat \<Rightarrow> bool"
  rt_owner :: string
  rt_lease_ttl :: timedelta
  rt_reconcile_window :: timedelta

abbreviation rt_target :: "runtime \<Rightarrow> string" where
  "rt_target rt \<equiv> m_target_id (rt_manifest rt)"

definition rt_zone :: "runtime \<Rightarrow> zoneinfo" where
  "rt_zone rt = zone_info (rt_env rt) (tm_timezone (mb_time (m_mapping (rt_manifest rt))))"

definition delivery_day_for :: "instant \<Rightarrow> zoneinfo \<Rightarrow> date" where
  "delivery_day_for scheduled z = date_of (to_local z scheduled)"

definition delivery_day_bounds :: "date \<Rightarrow> zoneinfo \<Rightarrow> instant \<times> instant" where
  "delivery_day_bounds day z = (midnight_utc z day, midnight_utc z (day + 1))"

subsection \<open>Derivations\<close>

text \<open>\<open>mapping.model_dump(mode="json", exclude_none=True)\<close>\<close>
definition jopt :: "string \<Rightarrow> json option \<Rightarrow> (string \<times> json) list" where
  "jopt k v = (case v of None \<Rightarrow> [] | Some j \<Rightarrow> [(k, j)])"

definition field_ref_json :: "field_ref \<Rightarrow> json" where
  "field_ref_json f = JObject (jopt ''source'' (map_option JText (fr_source f)) @ jopt ''constant'' (map_option JText (fr_constant f))
     @ jopt ''context'' (map_option (\<lambda>c. JText (if c = Cx_delivery_day then ''delivery_day'' else ''scheduled_for'')) (fr_context f)))"

definition time_json :: "time_mapping \<Rightarrow> json" where
  "time_json t = JObject ([(''kind'', JText (if tm_kind t = Tk_period_index then ''period_index'' else ''timestamp'')),
       (''timezone'', JText (tm_timezone t)), (''resolution'', field_ref_json (tm_resolution t))]
     @ jopt ''date'' (map_option field_ref_json (tm_date t)) @ jopt ''index'' (map_option field_ref_json (tm_index t))
     @ jopt ''timestamp'' (map_option field_ref_json (tm_timestamp t))
     @ [(''interval_label'', JText (if tm_interval_label t = Label_start then ''start'' else ''end''))])"

definition metric_json :: "metric_mapping \<Rightarrow> json" where
  "metric_json m = JObject [(''source'', JText (mm_source m)), (''unit'', JText (mm_unit m)),
     (''sign'', JText (if mm_sign m = As_published then ''as_published'' else ''inverted'')),
     (''decimal_separator'', JText (if mm_decimal_separator m = Dot then ''dot'' else ''comma''))]"

definition mapping_json :: "mapping_block \<Rightarrow> json" where
  "mapping_json b = JObject ([(''dimensions'', JObject (map (\<lambda>(k, v). (k, JText v)) (mb_dimensions b))), (''time'', time_json (mb_time b))]
     @ jopt ''source_version'' (map_option field_ref_json (mb_source_version b))
     @ jopt ''source_published_at'' (map_option field_ref_json (mb_source_published_at b))
     @ [(''metrics'', JObject (map (\<lambda>(k, v). (k, metric_json v)) (mb_metrics b))),
        (''ignore_fields'', JList (map JText (mb_ignore_fields b)))])"

definition decode_text :: "decode_kind \<Rightarrow> string" where
  "decode_text k = (case k of Dk_soap \<Rightarrow> ''soap'' | Dk_xml \<Rightarrow> ''xml'' | Dk_html_table \<Rightarrow> ''html-table'' | Dk_xlsx \<Rightarrow> ''xlsx''
     | Dk_csv \<Rightarrow> ''csv'' | Dk_json \<Rightarrow> ''json'')"

definition parser_ref :: "runtime \<Rightarrow> string" where
  "parser_ref rt = ''generic:'' @ decode_text (ct_decode (m_contract (rt_manifest rt))) @ ''@'' @ rt_version rt"

definition derivation_for :: "runtime \<Rightarrow> py_error + derivation" where
  "derivation_for rt = (case dataset (ct_dataset_id (m_contract (rt_manifest rt))) of
       None \<Rightarrow> Inl (ValueError ''dataset is not registered'')
     | Some c \<Rightarrow> (let block = mapping_json (m_mapping (rt_manifest rt)) in
         Inr \<lparr>d_derivation_id = rt_hash rt (rt_version rt) (dc_contract_version c) block (parser_ref rt),
              d_platform_version = rt_version rt, d_contract_version = dc_contract_version c,
              d_mapping_block = block, d_parser_ref = parser_ref rt, d_registered_at = None\<rparr>))"

subsection \<open>Capture\<close>

record capture_report =
  cp_scheduled_for :: instant
  cp_outcome :: attempt_outcome
  cp_entry :: "capture_entry option"
  cp_created :: bool
  cp_error :: "string option"
  cp_ledger_updated :: bool

definition mk_report ::
    "instant \<Rightarrow> attempt_outcome \<Rightarrow> capture_entry option \<Rightarrow> bool \<Rightarrow> string option \<Rightarrow> bool \<Rightarrow> capture_report" where
  "mk_report t outcome entry created err updated =
     \<lparr>cp_scheduled_for = t, cp_outcome = outcome, cp_entry = entry, cp_created = created, cp_error = err,
      cp_ledger_updated = updated\<rparr>"

definition capture_baseline :: "runtime \<Rightarrow> instant \<Rightarrow> bronze \<Rightarrow> capture_entry option" where
  "capture_baseline rt scheduled b =
     (let day = delivery_day_for scheduled (rt_zone rt); (since, until) = delivery_day_bounds day (rt_zone rt) in
      last_opt (filter (\<lambda>e. ce_http_status e = 200 \<and> delivery_day_for (ce_scheduled_for e) (rt_zone rt) = day)
        (log_list (br_log b) (rt_target rt) (Some since) (Some until))))"

definition ack ::
    "runtime \<Rightarrow> instant \<Rightarrow> run_origin \<Rightarrow> attempt_kind \<Rightarrow> attempt_outcome \<Rightarrow> string option \<Rightarrow> string option \<Rightarrow> bool \<Rightarrow> bool prog"
  where
  "ack rt scheduled origin kd outcome capture err recaptured =
     bindP (now_of (rt_clock rt)) (\<lambda>now.
     if_unavailable False
       (bindP (call (rt_up rt) (\<lambda>s. ensure_run s (rt_target rt) scheduled
            (if capture \<noteq> None then RS_captured else RS_scheduled) origin capture now)) (\<lambda>run.
        bindP (case capture of
            Some cid \<Rightarrow> if recaptured \<and> r_capture_id run \<noteq> Some cid
              then callE (rt_up rt) (\<lambda>s. mark_recaptured s (r_id run) cid now) else ret run
          | None \<Rightarrow> ret run) (\<lambda>run'.
        bindP (if outcome \<noteq> AO_noop
               then bindP (call (rt_up rt) (\<lambda>s. record_attempt s (r_id run') kd outcome capture err now)) (\<lambda>_. ret ())
               else ret ()) (\<lambda>_. ret True)))))"

text \<open>\<open>rt.bronze.capture\<close>; the fetch and the write each see the world as it is then.\<close>
definition do_fetch :: "runtime \<Rightarrow> instant \<Rightarrow> date \<Rightarrow> capture_entry option \<Rightarrow> fetch_answer prog" where
  "do_fetch rt scheduled day base w = (Inr (rt_fetch rt (w_tick w) scheduled day base), tick w)"

definition do_bronze_capture :: "runtime \<Rightarrow> capture_request \<Rightarrow> (bronze_error + capture_entry \<times> bool) prog" where
  "do_bronze_capture rt q w = (case bronze_capture (rt_sha rt) (rt_others rt) q (w_bronze w) of
     (r, b) \<Rightarrow> (Inr r, w\<lparr>w_bronze := b\<rparr>))"

text \<open>\<open>delivery_day or delivery_day_for(scheduled_for, rt.timezone)\<close>\<close>
definition run_day :: "runtime \<Rightarrow> instant \<Rightarrow> date option \<Rightarrow> date" where
  "run_day rt scheduled day = (case day of Some d \<Rightarrow> d | None \<Rightarrow> delivery_day_for scheduled (rt_zone rt))"

definition capture ::
    "runtime \<Rightarrow> instant \<Rightarrow> date option \<Rightarrow> bool \<Rightarrow> attempt_kind \<Rightarrow> capture_report prog" where
  "capture rt scheduled day force kd =
     (let origin = (if kd = AK_backfill then RO_backfill else RO_scheduled) in
      bindP (bronze_of (\<lambda>b. entries_for (br_log b) (rt_target rt) scheduled)) (\<lambda>existing.
      if existing \<noteq> [] \<and> \<not> force
      then bindP (ack rt scheduled origin kd AO_noop (Some (ce_capture_id (last existing))) None False)
             (\<lambda>updated. ret (mk_report scheduled AO_noop (Some (last existing)) False None updated))
      else
        bindP (bronze_of (capture_baseline rt scheduled)) (\<lambda>base.
        bindP (do_fetch rt scheduled (run_day rt scheduled day) base) (\<lambda>answer.
        case answer of
          Source_unavailable e \<Rightarrow>
            bindP (ack rt scheduled origin kd AO_source_unavailable None (Some e) False)
              (\<lambda>updated. ret (mk_report scheduled AO_source_unavailable None False (Some e) updated))
        | Cannot_build e \<Rightarrow>
            bindP (ack rt scheduled origin kd AO_failed None (Some e) False)
              (\<lambda>updated. ret (mk_report scheduled AO_failed None False (Some e) updated))
        | Fetch_raised e \<Rightarrow> raiseP (Uncaught e)
        | Fetched result \<Rightarrow>
            bindP (do_bronze_capture rt
              \<lparr>cq_target_id = rt_target rt, cq_scheduled_for = scheduled, cq_result = result,
               cq_transport = ct_source_transport (m_contract (rt_manifest rt)), cq_force = force,
               cq_baseline = Given base\<rparr>) (\<lambda>r.
            case r of
              Inl (BronzeError e) \<Rightarrow>
                bindP (ack rt scheduled origin kd AO_failed None (Some e) False)
                  (\<lambda>updated. ret (mk_report scheduled AO_failed None False (Some e) updated))
            | Inr (entry, created) \<Rightarrow>
                bindP (ack rt scheduled origin kd AO_ok (Some (ce_capture_id entry)) None
                         (force \<and> created \<and> ce_content_changed entry))
                  (\<lambda>updated. ret (mk_report scheduled AO_ok (Some entry) created None updated)))))))"

subsection \<open>Backfill and recapture\<close>

text \<open>The loop of \<open>backfill\<close>: \<open>n\<close> reports so far.\<close>
fun backfill_loop :: "runtime \<Rightarrow> nat option \<Rightarrow> nat \<Rightarrow> run list \<Rightarrow> capture_report list prog" where
  "backfill_loop rt limit n [] = ret []"
| "backfill_loop rt limit n (r # rs) =
     (if r_state r \<noteq> RS_missing_capture then backfill_loop rt limit n rs
      else if (case limit of None \<Rightarrow> False | Some l \<Rightarrow> l \<le> n) then ret []
      else bindP (capture rt (r_scheduled_for r) None False AK_backfill) (\<lambda>rep.
           bindP (backfill_loop rt limit (Suc n) rs) (\<lambda>reps. ret (rep # reps))))"

definition backfill :: "runtime \<Rightarrow> nat option \<Rightarrow> capture_report list prog" where
  "backfill rt limit = bindP (query (rt_up rt) (\<lambda>s. runs_of s (rt_target rt) None None))
     (\<lambda>runs. backfill_loop rt limit 0 runs)"

record recapture_report =
  rc_delivery_day :: date
  rc_scheduled_for :: "instant option"
  rc_capture :: "capture_report option"

definition last_run_of_day :: "runtime \<Rightarrow> date \<Rightarrow> bronze \<Rightarrow> instant option" where
  "last_run_of_day rt day b =
     (let (since, until) = delivery_day_bounds day (rt_zone rt) in
      foldl (\<lambda>newest e. if delivery_day_for (ce_scheduled_for e) (rt_zone rt) \<noteq> day then newest
          else (case newest of None \<Rightarrow> Some (ce_scheduled_for e)
                | Some n \<Rightarrow> if n < ce_scheduled_for e then Some (ce_scheduled_for e) else newest))
        None (log_list (br_log b) (rt_target rt) (Some since) (Some until)))"

definition recapture_day :: "runtime \<Rightarrow> date \<Rightarrow> recapture_report prog" where
  "recapture_day rt day = bindP (bronze_of (last_run_of_day rt day)) (\<lambda>found. case found of
       None \<Rightarrow> ret \<lparr>rc_delivery_day = day, rc_scheduled_for = None, rc_capture = None\<rparr>
     | Some t \<Rightarrow> bindP (capture rt t None True AK_capture) (\<lambda>rep.
         ret \<lparr>rc_delivery_day = day, rc_scheduled_for = Some t, rc_capture = Some rep\<rparr>))"

definition recapture :: "runtime \<Rightarrow> int \<Rightarrow> instant option \<Rightarrow> recapture_report list prog" where
  "recapture rt days at =
     (if days < 1 then raiseP (Py (ValueError ''days must be >= 1''))
      else bindP (case at of Some t \<Rightarrow> ret t | None \<Rightarrow> now_of (rt_clock rt)) (\<lambda>now.
        mapP (\<lambda>back. recapture_day rt (delivery_day_for now (rt_zone rt) - back)) [1..days]))"

subsection \<open>Reconcile\<close>

text \<open>\<open>int(capture_id.rsplit(":", 1)[-1])\<close>\<close>
definition attempt_of :: "string \<Rightarrow> py_error + int" where
  "attempt_of cid = int_of (case split_last (CHR '':'') cid of None \<Rightarrow> cid | Some (_, n) \<Rightarrow> n)"

definition reconcile_since :: "runtime \<Rightarrow> timedelta option \<Rightarrow> instant \<Rightarrow> instant option" where
  "reconcile_since rt window now = (case window of None \<Rightarrow> None
     | Some wd \<Rightarrow> Some (now - wd - (case cad_correction (m_cadence (rt_manifest rt)) of
                            None \<Rightarrow> 0 | Some c \<Rightarrow> co_days c * usec_day)))"

text \<open>\<open>latest_by_instant\<close>: the last valid entry of every instant, in the order the instants first occur.\<close>
definition latest_valid :: "string \<Rightarrow> memory_store \<Rightarrow> capture_entry list \<Rightarrow> (instant, capture_entry) dict" where
  "latest_valid did s entries = foldl (\<lambda>d e.
       if is_invalidated s (ce_capture_id e) (Some did) then d
       else dset (ce_scheduled_for e) e d) [] entries"

text \<open>Is the entry a later attempt with another payload than the capture the run names?\<close>
definition supersedes :: "capture_log \<Rightarrow> capture_entry list \<Rightarrow> capture_entry \<Rightarrow> string option \<Rightarrow> py_error + bool" where
  "supersedes lg entries e named = (case named of
       None \<Rightarrow> Inr False
     | Some cid \<Rightarrow>
         if cid = ce_capture_id e then Inr False
         else bindR (attempt_of (ce_capture_id e)) (\<lambda>mine. bindR (attempt_of cid) (\<lambda>theirs.
           if mine \<le> theirs then Inr False
           else Inr (case (case dget (rev (map (\<lambda>x. (ce_capture_id x, x)) entries)) cid of
                         Some k \<Rightarrow> Some k | None \<Rightarrow> log_get lg cid) of
                       None \<Rightarrow> True
                     | Some known \<Rightarrow> ce_payload_sha256 known \<noteq> ce_payload_sha256 e))))"

definition reconcile_entry ::
    "runtime \<Rightarrow> instant \<Rightarrow> capture_log \<Rightarrow> capture_entry list \<Rightarrow> capture_entry \<Rightarrow> run list prog" where
  "reconcile_entry rt now lg entries e =
     bindP (query (rt_up rt) (\<lambda>s. get_run s (rt_target rt) (ce_scheduled_for e))) (\<lambda>before.
     bindP (call (rt_up rt) (\<lambda>s. ensure_run s (rt_target rt) (ce_scheduled_for e) RS_captured RO_reconciled
              (Some (ce_capture_id e)) now)) (\<lambda>after0.
     bindP (liftR (supersedes lg entries e (r_capture_id after0))) (\<lambda>newer.
     bindP (if newer then callE (rt_up rt) (\<lambda>s. mark_recaptured s (r_id after0) (ce_capture_id e) now)
            else ret after0) (\<lambda>after.
     ret (case before of None \<Rightarrow> [after]
          | Some r \<Rightarrow> if r_state r \<noteq> r_state after \<or> r_capture_id r \<noteq> r_capture_id after then [after] else [])))))"

definition reconcile :: "runtime \<Rightarrow> timedelta option \<Rightarrow> instant \<Rightarrow> run list prog" where
  "reconcile rt window now =
     bindP (bronze_of (\<lambda>b. log_invalidations (br_log b) (rt_target rt))) (\<lambda>ivs.
     bindP (mapP (\<lambda>iv. call (rt_up rt) (\<lambda>s. add_invalidation s iv)) ivs) (\<lambda>_.
     bindP (liftR (derivation_for rt)) (\<lambda>deriv.
     bindP (bronze_of br_log) (\<lambda>lg.
     let entries = log_list lg (rt_target rt) (reconcile_since rt window now) None in
     bindP (query (rt_up rt) (\<lambda>s. latest_valid (d_derivation_id deriv) s entries)) (\<lambda>latest.
     bindP (mapP (reconcile_entry rt now lg entries) (dvalues latest)) (\<lambda>touched.
     ret (concat touched)))))))"

subsection \<open>Replay\<close>

definition enqueue_all :: "runtime \<Rightarrow> instant \<Rightarrow> run list \<Rightarrow> run_attempt list prog" where
  "enqueue_all rt now runs = bindP (mapP (\<lambda>r. callE (rt_up rt) (\<lambda>s. enqueue_replay s (r_id r) now)) runs)
     (\<lambda>qs. ret (List.map_filter (\<lambda>q. q) qs))"

definition replay_range :: "runtime \<Rightarrow> instant \<Rightarrow> instant \<Rightarrow> run_attempt list prog" where
  "replay_range rt since until =
     bindP (now_of (rt_clock rt)) (\<lambda>now. bindP (reconcile rt None now) (\<lambda>_.
     bindP (query (rt_up rt) (\<lambda>s. runs_of s (rt_target rt) (Some since) (Some until))) (\<lambda>runs.
     enqueue_all rt now (filter (\<lambda>r. r_capture_id r \<noteq> None) runs))))"

definition replay_derivation :: "runtime \<Rightarrow> string \<Rightarrow> run_attempt list prog" where
  "replay_derivation rt did =
     bindP (now_of (rt_clock rt)) (\<lambda>now.
     bindP (queryE (rt_up rt) (\<lambda>s. runs_with_derivation s did)) (\<lambda>runs.
     enqueue_all rt now (filter (\<lambda>r. r_target_id r = rt_target rt) runs)))"

end
