(* ===== verification/Gaps.thy ===== *)
theory Gaps
  imports Runtime
begin

text \<open>
  The gap detector (src/energy_platform/runtime/gaps.py): the oldest instant a source still serves, by
  calendar arithmetic in the source's zone, and the classification of every expected instant against
  Bronze and the ledger.
\<close>

subsection \<open>History\<close>

text \<open>\<open>while month < 1: month += 12; year -= 1\<close>\<close>
function norm_month :: "int \<Rightarrow> int \<Rightarrow> int \<times> int" where
  "norm_month year month = (if month < 1 then norm_month (year - 1) (month + 12) else (year, month))"
  by pat_completeness auto
termination
  by (relation "measure (\<lambda>(y, m). nat (1 - m))") auto

declare norm_month.simps [simp del]

definition days_of_month :: "int \<Rightarrow> int \<Rightarrow> int" where
  "days_of_month year month = day_of (ymd2ord (year + month div 12) (month mod 12 + 1) 1 - 1)"

text \<open>The groups of \<open>_MAX_AGE\<close>: months, days and the exact part, when the text matches.\<close>
definition parse_max_age :: "string \<Rightarrow> (int \<times> int \<times> timedelta) option" where
  "parse_max_age age = (case age of
       [] \<Rightarrow> None
     | c # s \<Rightarrow>
       (let (years, s1) = opt_unit (CHR ''Y'') s; (months, s2) = opt_unit (CHR ''M'') s1;
            (weeks, s3) = opt_unit (CHR ''W'') s2; (days, s4) = opt_unit (CHR ''D'') s3;
            (hours, minutes, s5) = time_part s4
        in if c \<noteq> CHR ''P'' \<or> \<not> at_end s5 \<or> age = ''P'' \<or> age = ''PT'' then None
           else Some (int (or_zero years) * 12 + int (or_zero months),
                      int (or_zero weeks) * 7 + int (or_zero days),
                      int hours * usec_hour + int minutes * usec_minute)))"

definition max_age_cutoff :: "instant \<Rightarrow> string \<Rightarrow> zoneinfo \<Rightarrow> py_error + instant option" where
  "max_age_cutoff now age z =
     (if age = ''none'' then Inr None
      else case parse_max_age age of
        None \<Rightarrow> Inl (ValueError ''history.max_age is not an ISO 8601 duration'')
      | Some (months_back, days, exact) \<Rightarrow>
          (let local = to_local z now; d = date_of local;
               (year, month) = norm_month (year_of d) (month_of d - months_back) in
           if year < 1 then Inl (ValueError ''year is out of range'')
           else if days > max_timedelta_days then Inl OverflowError
           else (let day = min (day_of d) (days_of_month year month);
                     shifted = ymd2ord year month day - days in
             if shifted < 1 then Inl OverflowError
             else Inr (Some (from_local z \<lparr>wall = (shifted - epoch_ordinal) * usec_day + wall local mod usec_day,
                                          is_fold = False\<rparr> - exact)))))"

subsection \<open>Detection\<close>

datatype gap_kind = Gap_pending | Gap_unprocessed_capture | Gap_missing_capture | Gap_unrecoverable

record gap =
  gp_scheduled_for :: instant
  gp_kind :: gap_kind
  gp_action :: string

definition mk_gap :: "instant \<Rightarrow> gap_kind \<Rightarrow> string \<Rightarrow> gap" where
  "mk_gap t k action = \<lparr>gp_scheduled_for = t, gp_kind = k, gp_action = action\<rparr>"

definition gap_event :: "runtime \<Rightarrow> instant \<Rightarrow> quality_event" where
  "gap_event rt t = \<lparr>q_kind = ''unrecoverable_gap'', q_severity = Sev_error,
     q_message = minute_stamp t @ '': never captured and outside history.max_age '' @ m_max_age (rt_manifest rt),
     q_locator = [], q_metric = None\<rparr>"

definition alert :: "runtime \<Rightarrow> instant \<Rightarrow> instant \<Rightarrow> unit prog" where
  "alert rt t now = bindP (call (rt_up rt) (\<lambda>s. add_events s (rt_target rt) [gap_event rt t] None now)) (\<lambda>_. ret ())"

text \<open>One instant of the loop: \<open>entry\<close> and \<open>run\<close> are what the two dictionaries hold for it.\<close>
definition gap_step ::
    "runtime \<Rightarrow> instant \<Rightarrow> timedelta \<Rightarrow> instant option \<Rightarrow> capture_entry option \<Rightarrow> run option \<Rightarrow> instant \<Rightarrow> gap list prog"
  where
  "gap_step rt now tolerance cutoff entry run t =
     (if now - t < tolerance then ret [mk_gap t Gap_pending ''inside tolerance; nothing to do'']
      else case entry of
        Some e \<Rightarrow>
          bindP (case run of
              Some r \<Rightarrow> if r_capture_id r \<noteq> None then ret r
                else call (rt_up rt) (\<lambda>s. ensure_run s (rt_target rt) t RS_captured RO_reconciled (Some (ce_capture_id e)) now)
            | None \<Rightarrow> call (rt_up rt) (\<lambda>s. ensure_run s (rt_target rt) t RS_captured RO_reconciled (Some (ce_capture_id e)) now))
          (\<lambda>r. ret (if r_state r \<noteq> RS_processed
                 then [mk_gap t Gap_unprocessed_capture ''replay: the next process run claims it''] else []))
      | None \<Rightarrow>
          if (case cutoff of None \<Rightarrow> False | Some c \<Rightarrow> c \<le> t)
          then bindP (case run of
              None \<Rightarrow> bindP (call (rt_up rt) (\<lambda>s. ensure_run s (rt_target rt) t RS_missing_capture RO_backfill None now)) (\<lambda>_. ret ())
            | Some r \<Rightarrow> if r_state r = RS_scheduled \<or> r_state r = RS_failed
                then bindP (callE (rt_up rt) (\<lambda>s. set_state s (r_id r) RS_missing_capture now)) (\<lambda>_. ret ()) else ret ())
            (\<lambda>_. ret [mk_gap t Gap_missing_capture ''backfill: inside history.max_age''])
          else bindP (case run of
              None \<Rightarrow> bindP (call (rt_up rt) (\<lambda>s. ensure_run s (rt_target rt) t RS_unrecoverable RO_backfill None now)) (\<lambda>_. alert rt t now)
            | Some r \<Rightarrow> if r_state r \<noteq> RS_unrecoverable
                then bindP (callE (rt_up rt) (\<lambda>s. set_state s (r_id r) RS_unrecoverable now)) (\<lambda>_. alert rt t now) else ret ())
            (\<lambda>_. ret [mk_gap t Gap_unrecoverable ''alert: outside history.max_age, never captured'']))"

definition entries_by_instant :: "capture_entry list \<Rightarrow> (instant, capture_entry) dict" where
  "entries_by_instant es = foldl (\<lambda>d e. dset (ce_scheduled_for e) e d) [] es"

definition runs_by_instant :: "run list \<Rightarrow> (instant, run) dict" where
  "runs_by_instant rs = foldl (\<lambda>d r. dset (r_scheduled_for r) r d) [] rs"

definition detect_gaps :: "runtime \<Rightarrow> timedelta option \<Rightarrow> instant \<Rightarrow> gap list prog" where
  "detect_gaps rt lookback now =
     (let lb = (case lookback of None \<Rightarrow> rt_reconcile_window rt | Some l \<Rightarrow> if l = 0 then rt_reconcile_window rt else l);
          cad = m_cadence (rt_manifest rt); cz = zone_info (rt_env rt) (cad_timezone cad); start = now - lb in
      bindP (liftR (cadence_of (cad_cron cad) cz now)) (\<lambda>period.
      bindP (liftR (max_age_cutoff now (m_max_age (rt_manifest rt)) (rt_zone rt))) (\<lambda>cutoff.
      bindP (bronze_of (\<lambda>b. entries_by_instant (log_list (br_log b) (rt_target rt) (Some start) None))) (\<lambda>entries.
      bindP (query (rt_up rt) (\<lambda>s. runs_by_instant (runs_of s (rt_target rt) (Some start) None))) (\<lambda>runs.
      bindP (liftR (cron_instants (cad_cron cad) cz start now)) (\<lambda>instants.
      bindP (mapP (\<lambda>t. gap_step rt now (2 * period) cutoff (dget entries t) (dget runs t) t) instants)
        (\<lambda>gaps. ret (concat gaps))))))))"

end
