(* ===== verification/Process.thy ===== *)
theory Process
  imports Runtime
begin

text \<open>
  The verb \<open>process\<close> (src/energy_platform/runtime/process.py): reconcile, claim every pending run, read its
  payload from Bronze, decode, parse, map, and commit under the claim's fence.
\<close>

subsection \<open>From a payload to a mapping result\<close>

datatype source_error = Decode_failed decode_error | Parse_failed parse_error

definition decode_payload :: "runtime \<Rightarrow> bytes \<Rightarrow> decode_error + document" where
  "decode_payload rt payload =
     (let m = rt_manifest rt in
      case fb_html_table (m_fetch m) of
        Some h \<Rightarrow> if ct_decode (m_contract m) = Dk_html_table then decode_html_table (rt_lib rt) payload (ht_table_selector h)
                  else decode (rt_lib rt) payload (ct_decode (m_contract m))
      | None \<Rightarrow> decode (rt_lib rt) payload (ct_decode (m_contract m)))"

definition source_records :: "runtime \<Rightarrow> bytes \<Rightarrow> source_error + source_record list" where
  "source_records rt payload = bindR (catchE Decode_failed (decode_payload rt payload))
     (\<lambda>doc. catchE Parse_failed (generic_parse (rt_manifest rt) doc))"

definition source_error_text :: "source_error \<Rightarrow> string" where
  "source_error_text e = (case e of
       Decode_failed (DecodeError x) \<Rightarrow> ''DecodeError: '' @ x
     | Decode_failed (SoapFault x) \<Rightarrow> ''SoapFault: '' @ x
     | Parse_failed (ParseError x) \<Rightarrow> ''ParseError: '' @ x)"

definition map_payload :: "runtime \<Rightarrow> bytes \<Rightarrow> mapping_context \<Rightarrow> map_error + mapping_result" where
  "map_payload rt payload ctx = (case source_records rt payload of
       Inl e \<Rightarrow> Inl (Quarantined (source_error_text e) [])
     | Inr records \<Rightarrow> map_records (rt_env rt) (rt_manifest rt) records ctx)"

subsection \<open>Events of a document\<close>

definition completeness_events :: "energy_observation list \<Rightarrow> zoneinfo \<Rightarrow> py_error + quality_event list" where
  "completeness_events os tz = bindR (mapR (\<lambda>res. partition_status (filter (\<lambda>x. resolution x = res) os) res tz)
     (sort (remdups (map resolution os)))) (\<lambda>es. Inr (concat es))"

fun other_rows ::
    "memory_store \<Rightarrow> string \<Rightarrow> instant \<Rightarrow> instant \<Rightarrow> transport list \<Rightarrow> (compare_key, transport \<times> decimal option) dict
     \<Rightarrow> py_error + (compare_key, transport \<times> decimal option) dict" where
  "other_rows s ds start stop [] out = Inr out"
| "other_rows s ds start stop (tr # trs) out =
     bindR (current_rows s ds (Some start) (Some stop) None (Some tr)) (\<lambda>rows.
       other_rows s ds start stop trs
         (foldl (\<lambda>d row. dset (compare_key_of (cu_observation row)) (tr, cu_value row) d) out rows))"

definition other_transport_rows ::
    "runtime \<Rightarrow> energy_observation list \<Rightarrow> memory_store \<Rightarrow> py_error + (compare_key, transport \<times> decimal option) dict" where
  "other_transport_rows rt os s =
     (if os = [] then Inr []
      else case dataset (ct_dataset_id (m_contract (rt_manifest rt))) of
        None \<Rightarrow> Inr []
      | Some c \<Rightarrow>
          if \<not> list_ex (\<lambda>sp. ms_owner_transport sp \<noteq> None) (dvalues (dc_metrics c)) then Inr []
          else other_rows s (dc_dataset_id c) (Min (set (map delivery_start_utc os))) (Max (set (map delivery_end_utc os)))
                 (filter (\<lambda>tr. tr \<noteq> ct_source_transport (m_contract (rt_manifest rt))) all_transports) [])"

subsection \<open>One claim\<close>

record process_report =
  pr_run_id :: nat
  pr_scheduled_for :: instant
  pr_attempt_kind :: attempt_kind
  pr_outcome :: attempt_outcome
  pr_inserted :: nat
  pr_events :: nat
  pr_error :: "string option"

definition report_of :: "claim \<Rightarrow> attempt_outcome \<Rightarrow> nat \<Rightarrow> nat \<Rightarrow> string option \<Rightarrow> process_report" where
  "report_of c outcome inserted events err =
     \<lparr>pr_run_id = r_id (cl_run c), pr_scheduled_for = r_scheduled_for (cl_run c), pr_attempt_kind = a_kind (cl_attempt c),
      pr_outcome = outcome, pr_inserted = inserted, pr_events = events, pr_error = err\<rparr>"

text \<open>A commit without rows: the run fails with one event.\<close>
definition refuse :: "runtime \<Rightarrow> claim \<Rightarrow> derivation \<Rightarrow> attempt_outcome \<Rightarrow> string \<Rightarrow> quality_event \<Rightarrow> process_report prog" where
  "refuse rt c deriv outcome err e =
     bindP (now_of (rt_clock rt)) (\<lambda>now.
     bindP (callE (rt_up rt) (\<lambda>s. commit s c RS_failed outcome (Some err) (Some deriv) [] [e] now)) (\<lambda>res.
     ret (report_of c (if cr_lost_lease res then AO_lost_lease else outcome) 0 1 (Some err))))"

definition plain_event :: "string \<Rightarrow> severity \<Rightarrow> string \<Rightarrow> quality_event" where
  "plain_event k sev msg = \<lparr>q_kind = k, q_severity = sev, q_message = msg, q_locator = [], q_metric = None\<rparr>"

definition fail :: "runtime \<Rightarrow> claim \<Rightarrow> derivation \<Rightarrow> string \<Rightarrow> process_report prog" where
  "fail rt c deriv err = refuse rt c deriv AO_failed err (plain_event ''process_failed'' Sev_error err)"

definition join_reasons :: "string list \<Rightarrow> string" where
  "join_reasons rs = concat (case rs of [] \<Rightarrow> [] | r # rest \<Rightarrow> r # map (\<lambda>x. ''; '' @ x) rest)"

definition invalidated_text :: "derivation \<Rightarrow> string \<Rightarrow> invalidation list \<Rightarrow> string" where
  "invalidated_text deriv cid ivs =
     (let reasons = map i_reason (filter (\<lambda>i. i_capture_id i = cid
            \<and> (i_derivation_id i = None \<or> i_derivation_id i = Some (d_derivation_id deriv))) ivs);
          text0 = join_reasons reasons
      in ''invalidated: '' @ (if text0 = [] then ''recorded decision'' else text0) @ '' ('' @ cid @ '')'')"

definition refuse_invalidated :: "runtime \<Rightarrow> claim \<Rightarrow> derivation \<Rightarrow> string \<Rightarrow> process_report prog" where
  "refuse_invalidated rt c deriv cid =
     bindP (queryE (rt_up rt) (\<lambda>s. invalidations_of s (rt_target rt))) (\<lambda>ivs.
     refuse rt c deriv AO_quarantined (invalidated_text deriv cid ivs)
       (plain_event ''invalidated'' Sev_warning (invalidated_text deriv cid ivs)))"

definition commit_document :: "runtime \<Rightarrow> claim \<Rightarrow> derivation \<Rightarrow> mapping_result \<Rightarrow> process_report prog" where
  "commit_document rt c deriv res =
     bindP (liftR (completeness_events (mr_observations res) (rt_zone rt))) (\<lambda>ce.
     bindP (queryE (rt_up rt) (other_transport_rows rt (mr_observations res))) (\<lambda>others.
     let events = mr_events res @ ce @ reconcile_transports (mr_observations res) others in
     bindP (now_of (rt_clock rt)) (\<lambda>now.
     bindP (callE (rt_up rt) (\<lambda>s. commit s c RS_processed AO_ok None (Some deriv) (mr_observations res) events now)) (\<lambda>cr.
     if cr_lost_lease cr then ret (report_of c AO_lost_lease 0 0 None)
     else ret (report_of c (if cr_inserted cr \<noteq> 0 \<or> cr_occurrences cr \<noteq> 0 \<or> mr_observations res = [] then AO_ok else AO_noop)
                 (cr_inserted cr) (length events) None)))))"

text \<open>\<open>claim.attempt.capture_id or run.capture_id\<close>: an empty id counts as none.\<close>
definition named_capture :: "claim \<Rightarrow> string option" where
  "named_capture c = (case a_capture_id (cl_attempt c) of
       Some cid \<Rightarrow> if cid = [] then r_capture_id (cl_run c) else Some cid | None \<Rightarrow> r_capture_id (cl_run c))"

text \<open>The \<open>MappingContext\<close> of a claim and its entry.\<close>
definition claim_context :: "runtime \<Rightarrow> claim \<Rightarrow> derivation \<Rightarrow> capture_entry \<Rightarrow> instant \<Rightarrow> mapping_context" where
  "claim_context rt c deriv entry now =
     \<lparr>mc_target_id = rt_target rt, mc_scheduled_for = r_scheduled_for (cl_run c),
      mc_delivery_day = delivery_day_for (r_scheduled_for (cl_run c)) (rt_zone rt),
      mc_fetched_at = ce_fetched_at entry, mc_raw_ref = ce_raw_ref entry,
      mc_payload_sha256 = ce_payload_sha256 entry, mc_processed_at = now,
      mc_derivation_id = d_derivation_id deriv\<rparr>"

definition process_one :: "runtime \<Rightarrow> claim \<Rightarrow> derivation \<Rightarrow> process_report prog" where
  "process_one rt c deriv =
     bindP (bronze_of (\<lambda>b. Option.bind (named_capture c) (log_get (br_log b)))) (\<lambda>found.
     case found of
       None \<Rightarrow> fail rt c deriv ''capture entry not found in Bronze''
     | Some entry \<Rightarrow>
         bindP (query (rt_up rt) (\<lambda>s. is_invalidated s (ce_capture_id entry) (Some (d_derivation_id deriv)))) (\<lambda>bad.
         if bad then refuse_invalidated rt c deriv (ce_capture_id entry)
         else bindP (bronze_of (\<lambda>b. bronze_read (rt_sha rt) b (ce_raw_ref entry))) (\<lambda>got.
           case got of
             Inl (BronzeError e) \<Rightarrow> fail rt c deriv e
           | Inr (payload, _) \<Rightarrow>
               bindP (now_of (rt_clock rt)) (\<lambda>now.
               case map_payload rt payload (claim_context rt c deriv entry now) of
                 Inl (Quarantined reason locator) \<Rightarrow> refuse rt c deriv AO_quarantined reason (as_event reason locator)
               | Inl (Raised e) \<Rightarrow> raiseP (Py e)
               | Inr res \<Rightarrow> commit_document rt c deriv res))))"

text \<open>The loop of \<open>process\<close>: \<open>n\<close> reports so far.\<close>
fun process_loop :: "runtime \<Rightarrow> derivation \<Rightarrow> nat option \<Rightarrow> nat \<Rightarrow> run list \<Rightarrow> process_report list prog" where
  "process_loop rt deriv limit n [] = ret []"
| "process_loop rt deriv limit n (r # rs) =
     (if (case limit of None \<Rightarrow> False | Some l \<Rightarrow> l \<le> n) then ret []
      else bindP (now_of (rt_clock rt)) (\<lambda>now.
        bindP (callE (rt_up rt) (\<lambda>s. claim_run s (r_id r) (rt_owner rt) (rt_lease_ttl rt) now)) (\<lambda>cl.
        case cl of
          None \<Rightarrow> process_loop rt deriv limit n rs
        | Some c \<Rightarrow> bindP (process_one rt c deriv) (\<lambda>rep.
            bindP (process_loop rt deriv limit (Suc n) rs) (\<lambda>reps. ret (rep # reps))))))"

definition process :: "runtime \<Rightarrow> nat option \<Rightarrow> process_report list prog" where
  "process rt limit =
     bindP (now_of (rt_clock rt)) (\<lambda>now.
     bindP (reconcile rt (Some (rt_reconcile_window rt)) now) (\<lambda>_.
     bindP (liftR (derivation_for rt)) (\<lambda>deriv.
     bindP (query (rt_up rt) (\<lambda>s. pending_runs s (rt_target rt) now)) (\<lambda>runs.
     process_loop rt deriv limit 0 runs))))"

end
