(* ===== verification/Runtime_Safety.thy ===== *)
theory Runtime_Safety
  imports Gaps Process
begin

text \<open>
  Every verb is a sequence of store steps, whatever the fetch answers, whenever the store goes away and
  whichever exception ends it; so the invariant of the store survives every verb. A capture depends on
  the ledger for nothing: its outcome and Bronze are the same with the store down.
\<close>

subsection \<open>The acknowledgement\<close>

lemma call_Inr: "call up f w = (Inr x, v) \<Longrightarrow> f (w_store w) = (x, w_store v)"
  by (auto simp: call_def split: if_splits prod.splits)

lemma callE_Inr: "callE up f w = (Inr x, v) \<Longrightarrow> f (w_store w) = Inr (x, w_store v)"
  by (auto simp: callE_def split: if_splits prod.splits sum.splits)

definition run_there :: "run \<Rightarrow> memory_store \<Rightarrow> bool" where
  "run_there r s \<longleftrightarrow> dget (st_runs s) (r_id r) = Some r"

lemma mark_recaptured_there:
  assumes "store_ok s" and "mark_recaptured s i cap now = Inr (r, t)"
  shows "run_there r t"
proof -
  from mark_recaptured_ok [OF assms] have r: "dget (st_runs t) i = Some r" and "store_ok t" by auto
  from store_okD(1) [OF this(2)] r have "r_id r = i" by (simp add: runs_ok_def)
  with r show ?thesis by (simp add: run_there_def)
qed

lemma ack_run_there:
  assumes "store_ok (w_store w)" "run_there run (w_store w)"
    and "(case cap of
            Some cid \<Rightarrow> if recaptured \<and> r_capture_id run \<noteq> Some cid
              then callE up (\<lambda>s. mark_recaptured s (r_id run) cid now) else ret run
          | None \<Rightarrow> ret run) w = (Inr run', v)"
  shows "run_there run' (w_store v)"
  using assms mark_recaptured_there
  by (auto simp: ret_def dest!: callE_Inr split: option.splits if_splits)

lemma safe_ack [safe_intros]: "safe (ack rt scheduled origin kd outcome cap err recaptured)"
proof -
  have recorded: "safe_when (run_there run) (if outcome \<noteq> AO_noop
      then bindP (call (rt_up rt) (\<lambda>s. record_attempt s (r_id run) kd outcome cap err now)) (\<lambda>_. ret ()) else ret ())"
    for run now
  proof (cases "outcome = AO_noop")
    case True
    then show ?thesis by (auto intro!: safe_imp_when safe_intros)
  next
    case False
    have "safe_when (run_there run) (call (rt_up rt) (\<lambda>s. record_attempt s (r_id run) kd outcome cap err now))"
      using safe_record_attempt unfolding safe_when_def run_there_def by (metis option.distinct(1))
    then show ?thesis using False by (simp add: safe_when_then safe_ret)
  qed
  have ledger: "safe (bindP (call (rt_up rt) (\<lambda>s. ensure_run s (rt_target rt) scheduled state origin cap now)) (\<lambda>run.
        bindP (case cap of
            Some cid \<Rightarrow> if recaptured \<and> r_capture_id run \<noteq> Some cid
              then callE (rt_up rt) (\<lambda>s. mark_recaptured s (r_id run) cid now) else ret run
          | None \<Rightarrow> ret run) (\<lambda>run'.
        bindP (if outcome \<noteq> AO_noop
               then bindP (call (rt_up rt) (\<lambda>s. record_attempt s (r_id run') kd outcome cap err now)) (\<lambda>_. ret ())
               else ret ()) (\<lambda>_. ret True))))" for state now
    unfolding safe_when_True [symmetric]
    apply (rule safe_when_bind [where R = run_there])
      apply (simp add: safe_when_True safe_ops)
     apply (auto simp: run_there_def dest!: call_Inr dest: ensure_run_ok(3)) [1]
    apply (rule safe_when_bind [where R = run_there])
      apply (rule safe_imp_when, intro safe_intros)
     apply (rule ack_run_there, assumption+)
    apply (rule safe_when_then [OF recorded], intro safe_intros)
    done
  show ?thesis unfolding ack_def by (intro safe_intros ledger)
qed

lemma safe_do_fetch [safe_intros]: "safe (do_fetch rt scheduled day base)"
  by (simp add: safe_def do_fetch_def store_steps.intros)

lemma safe_do_bronze_capture [safe_intros]: "safe (do_bronze_capture rt q)"
  by (auto simp: safe_def do_bronze_capture_def store_steps.intros split: prod.split)

lemma safe_case_answer [safe_intros]:
  "(\<And>x. a = Fetched x \<Longrightarrow> safe (f x)) \<Longrightarrow> (\<And>e. a = Source_unavailable e \<Longrightarrow> safe (g e))
   \<Longrightarrow> (\<And>e. a = Cannot_build e \<Longrightarrow> safe (h e)) \<Longrightarrow> (\<And>e. a = Fetch_raised e \<Longrightarrow> safe (k e))
   \<Longrightarrow> safe (case a of Fetched x \<Rightarrow> f x | Source_unavailable e \<Rightarrow> g e | Cannot_build e \<Rightarrow> h e | Fetch_raised e \<Rightarrow> k e)"
  by (cases a) auto

lemma safe_case_bronze_error [safe_intros]: "(\<And>x. safe (f x)) \<Longrightarrow> safe (case e of BronzeError x \<Rightarrow> f x)"
  by (cases e) auto

lemma safe_case_map_error [safe_intros]:
  "(\<And>x y. safe (f x y)) \<Longrightarrow> (\<And>x. safe (g x)) \<Longrightarrow> safe (case e of Quarantined x y \<Rightarrow> f x y | Raised x \<Rightarrow> g x)"
  by (cases e) auto

subsection \<open>The verbs\<close>

lemma safe_capture [safe_intros]: "safe (capture rt scheduled day force kd)"
  unfolding capture_def Let_def by (intro safe_intros)

lemma safe_backfill_loop [safe_intros]: "safe (backfill_loop rt limit n rs)"
  by (induction rs arbitrary: n) (auto intro!: safe_intros)

lemma safe_backfill [safe_intros]: "safe (backfill rt limit)"
  unfolding backfill_def by (intro safe_intros)

lemma safe_recapture [safe_intros]: "safe (recapture rt days at)"
  unfolding recapture_def recapture_day_def by (intro safe_intros)

lemma safe_reconcile [safe_intros]: "safe (reconcile rt window now)"
  unfolding reconcile_def reconcile_entry_def Let_def by (intro safe_intros)

lemma safe_replay [safe_intros]: "safe (replay_range rt since until)" "safe (replay_derivation rt did)"
  unfolding replay_range_def replay_derivation_def enqueue_all_def by (intro safe_intros)+

lemma safe_detect_gaps [safe_intros]: "safe (detect_gaps rt lookback now)"
  unfolding detect_gaps_def gap_step_def alert_def Let_def by (intro safe_intros)

lemma safe_refuse [safe_intros]: "safe (refuse rt c deriv outcome err e)"
  unfolding refuse_def by (intro safe_intros)

lemma safe_process_one [safe_intros]: "safe (process_one rt c deriv)"
  unfolding process_one_def fail_def refuse_invalidated_def commit_document_def Let_def by (intro safe_intros)

lemma safe_process_loop [safe_intros]: "safe (process_loop rt deriv limit n rs)"
  by (induction rs arbitrary: n) (auto intro!: safe_intros)

lemma safe_process [safe_intros]: "safe (process rt limit)"
  unfolding process_def by (intro safe_intros)

lemma safe_keeps: "safe m \<Longrightarrow> store_ok (w_store w) \<Longrightarrow> store_ok (w_store (snd (m w))) \<and> store_grows (w_store w) (w_store (snd (m w)))"
  using store_steps_ok unfolding safe_def by blast

end
