(* ===== verification/Templates.thy ===== *)
theory Templates
  imports Manifest
begin

text \<open>
  Fetch templates (src/energy_platform/contracts/templates.py): \<open>string.Formatter.parse\<close>, modelled as the
  interpreter implements it, and the check of a template, with the grammar of what it accepts. Rendering
  is in Plan.thy.
\<close>

subsection \<open>Parsing a format string\<close>

text \<open>A literal text and the replacement field that follows it: its name, format specification and
  conversion. No value: the parser raises \<open>ValueError\<close>.\<close>
type_synonym field = "string \<times> string \<times> char option"
type_synonym piece = "string \<times> field option"

definition brace :: "char \<Rightarrow> bool" where
  "brace c \<longleftrightarrow> c = CHR ''{'' \<or> c = CHR ''}''"

text \<open>The name, the character that ends it and what follows. An index is skipped to its bracket.\<close>
function scan_name :: "string \<Rightarrow> (string \<times> char \<times> string) option" where
  "scan_name [] = None"
| "scan_name (c # s) =
     (if c = CHR ''{'' then None
      else if c = CHR ''['' then
        map_option (\<lambda>(n, e, r). (c # takeWhile (\<lambda>x. x \<noteq> CHR '']'') s @ n, e, r)) (scan_name (dropWhile (\<lambda>x. x \<noteq> CHR '']'') s))
      else if c \<in> {CHR ''}'', CHR '':'', CHR ''!''} then Some ([], c, s)
      else map_option (\<lambda>(n, e, r). (c # n, e, r)) (scan_name s))"
  by pat_completeness auto
termination
  by (relation "measure length") (auto simp: less_Suc_eq_le length_dropWhile_le)

text \<open>The format specification up to the brace that closes the field.\<close>
fun scan_spec :: "nat \<Rightarrow> string \<Rightarrow> (string \<times> string) option" where
  "scan_spec depth [] = None"
| "scan_spec depth (c # s) =
     (if c = CHR ''}'' \<and> depth = 0 then Some ([], s)
      else map_option (\<lambda>(spec, r). (c # spec, r))
             (scan_spec (if c = CHR ''{'' then Suc depth else if c = CHR ''}'' then depth - 1 else depth) s))"

definition scan_field :: "string \<Rightarrow> (field \<times> string) option" where
  "scan_field s = (case scan_name s of
       None \<Rightarrow> None
     | Some (name, e, r) \<Rightarrow>
         if e = CHR ''}'' then Some ((name, [], None), r)
         else if e = CHR '':'' then map_option (\<lambda>(spec, r'). ((name, spec, None), r')) (scan_spec 0 r)
         else (case r of
             [] \<Rightarrow> None
           | [conv] \<Rightarrow> None
           | conv # c # r' \<Rightarrow>
               if c = CHR ''}'' then Some ((name, [], Some conv), r')
               else if c = CHR '':'' then map_option (\<lambda>(spec, r''). ((name, spec, Some conv), r'')) (scan_spec 0 r')
               else None))"

definition next_piece :: "string \<Rightarrow> (piece \<times> string) option" where
  "next_piece s =
     (let literal = takeWhile (\<lambda>c. \<not> brace c) s in
      case dropWhile (\<lambda>c. \<not> brace c) s of
        [] \<Rightarrow> Some ((literal, None), [])
      | [c] \<Rightarrow> None
      | c # c' # r \<Rightarrow>
          if c = c' then Some ((literal @ [c], None), r)
          else if c = CHR ''}'' then None
          else map_option (\<lambda>(f, r'). ((literal, Some f), r')) (scan_field (c' # r)))"

lemma scan_name_shorter: "scan_name s = Some (n, e, r) \<Longrightarrow> length r < length s"
proof (induction s arbitrary: n e r rule: scan_name.induct)
  case (2 c s)
  have "length (dropWhile (\<lambda>x. x \<noteq> CHR '']'') s) \<le> length s" by (rule length_dropWhile_le)
  with 2 show ?case by (auto split: if_splits) 
qed simp

lemma scan_spec_shorter: "scan_spec depth s = Some (p, r) \<Longrightarrow> length r < length s"
  by (induction s arbitrary: depth p r) (auto split: if_splits, fastforce+)

lemma scan_field_shorter: "scan_field s = Some (f, r) \<Longrightarrow> length r < length s"
  by (auto simp: scan_field_def split: option.splits if_splits list.splits
      dest!: scan_name_shorter scan_spec_shorter)

lemma next_piece_shorter:
  assumes "next_piece s = Some (p, r)" "s \<noteq> []"
  shows "length r < length s"
proof -
  have "length (dropWhile (\<lambda>c. \<not> brace c) s) \<le> length s" by (rule length_dropWhile_le)
  with assms show ?thesis
    by (auto simp: next_piece_def Let_def split: list.splits if_splits dest!: scan_field_shorter)
qed

text \<open>\<open>list(_FORMATTER.parse(template))\<close>\<close>
function fmt_parse :: "string \<Rightarrow> piece list option" where
  "fmt_parse s = (if s = [] then Some [] else case next_piece s of
       None \<Rightarrow> None
     | Some (p, r) \<Rightarrow> map_option ((#) p) (fmt_parse r))"
  by pat_completeness auto
termination
  by (relation "measure length") (auto dest: next_piece_shorter)

declare fmt_parse.simps [simp del]

subsection \<open>Checking\<close>

datatype template_error = TemplateError string

definition run_names :: "string list" where
  "run_names = [''delivery_day'', ''next_delivery_day'', ''scheduled_for'']"

definition MAX_MONTHS_BACK :: int where
  "MAX_MONTHS_BACK = 12"

text \<open>\<open>_MONTH_FIELD.fullmatch\<close>: whether it is the end of the month, and the index.\<close>
definition month_field :: "string \<Rightarrow> (bool \<times> int) option" where
  "month_field f = (case split_first (CHR ''['') f of
       None \<Rightarrow> None
     | Some (name, rest) \<Rightarrow>
         if (name = ''month_start'' \<or> name = ''month_end'') \<and> rest \<noteq> [] \<and> last rest = CHR '']''
            \<and> list_all is_digit (butlast rest) \<and> length rest \<in> {2, 3}
         then Some (name = ''month_end'', int (nat_of_digits (butlast rest))) else None)"

definition check_field :: "string list \<Rightarrow> bool \<Rightarrow> field \<Rightarrow> template_error + unit" where
  "check_field names month_index fld = (case fld of (name, spec, conv) \<Rightarrow>
     if conv \<noteq> None then Inl (TemplateError ''conversions are not allowed'')
     else if list_ex brace spec then Inl (TemplateError ''nested placeholders are not allowed'')
     else if month_field name \<noteq> None \<and> month_index
     then (if snd (the (month_field name)) > MAX_MONTHS_BACK then Inl (TemplateError ''k must be 0..12'') else Inr ())
     else if CHR ''.'' \<in> set name \<or> CHR ''['' \<in> set name
     then Inl (TemplateError ''attribute and index access are not allowed'')
     else if name \<notin> set names then Inl (TemplateError ''unknown placeholder'')
     else Inr ())"

fun check_pieces :: "string list \<Rightarrow> bool \<Rightarrow> piece list \<Rightarrow> template_error + unit" where
  "check_pieces names month_index [] = Inr ()"
| "check_pieces names month_index ((_, None) # ps) = check_pieces names month_index ps"
| "check_pieces names month_index ((_, Some f) # ps) =
     bindR (check_field names month_index f) (\<lambda>_. check_pieces names month_index ps)"

definition check_template :: "string \<Rightarrow> string list \<Rightarrow> bool \<Rightarrow> template_error + unit" where
  "check_template template names month_index = (case fmt_parse template of
       None \<Rightarrow> Inl (TemplateError ''malformed template'')
     | Some ps \<Rightarrow> check_pieces names month_index ps)"

subsection \<open>The grammar of accepted templates\<close>

text \<open>A template as a sequence of tokens: a character, an escaped brace, a placeholder with or without a
  format specification.\<close>
datatype token = Chr char | Esc char | Placeholder string "string option"

fun print_token :: "token \<Rightarrow> string" where
  "print_token (Chr c) = [c]"
| "print_token (Esc c) = [c, c]"
| "print_token (Placeholder n spec) = CHR ''{'' # n @ (case spec of None \<Rightarrow> [] | Some p \<Rightarrow> CHR '':'' # p) @ ''}''"

definition plain :: "string \<Rightarrow> bool" where
  "plain n \<longleftrightarrow> set n \<inter> set ''{}:![.'' = {}"

definition month_name :: "string \<Rightarrow> bool" where
  "month_name n \<longleftrightarrow> (\<exists>a ds. a \<in> {''month_start'', ''month_end''} \<and> n = a @ ''['' @ ds @ '']'' \<and> list_all is_digit ds
     \<and> length ds \<in> {1, 2} \<and> nat_of_digits ds \<le> 12)"

fun token_ok :: "string list \<Rightarrow> bool \<Rightarrow> token \<Rightarrow> bool" where
  "token_ok names mi (Chr c) = (\<not> brace c)"
| "token_ok names mi (Esc c) = brace c"
| "token_ok names mi (Placeholder n spec) =
     ((n \<in> set names \<and> plain n \<or> mi \<and> month_name n) \<and> (case spec of None \<Rightarrow> True | Some p \<Rightarrow> \<not> list_ex brace p))"

lemma check_field_Inr:
  "check_field names mi (n, spec, conv) = Inr u \<longleftrightarrow> conv = None \<and> \<not> list_ex brace spec
     \<and> (if month_field n \<noteq> None \<and> mi then snd (the (month_field n)) \<le> 12
        else CHR ''.'' \<notin> set n \<and> CHR ''['' \<notin> set n \<and> n \<in> set names)"
  by (auto simp: check_field_def MAX_MONTHS_BACK_def)

lemma scan_name_plain:
  "set a \<inter> set ''{}:!['' = {} \<Longrightarrow> scan_name (a @ s) = map_option (\<lambda>(n, e, r). (a @ n, e, r)) (scan_name s)"
  by (induction a) (auto simp: option.map_comp comp_def case_prod_unfold option.map_ident)

lemma scan_name_parts:
  "scan_name s = Some (n, e, r) \<Longrightarrow> s = n @ e # r \<and> e \<in> {CHR ''}'', CHR '':'', CHR ''!''}
     \<and> (CHR ''['' \<notin> set n \<longrightarrow> set n \<inter> set ''{}:!['' = {})"
proof (induction s arbitrary: n e r rule: scan_name.induct)
  case (2 c s)
  show ?case
  proof (cases "c = CHR ''[''")
    case True
    with "2.prems" obtain n' where "scan_name (dropWhile (\<lambda>x. x \<noteq> CHR '']'') s) = Some (n', e, r)"
      and n: "n = c # takeWhile (\<lambda>x. x \<noteq> CHR '']'') s @ n'" by auto
    with "2.IH"(1) True have "dropWhile (\<lambda>x. x \<noteq> CHR '']'') s = n' @ e # r \<and> e \<in> {CHR ''}'', CHR '':'', CHR ''!''}" by auto
    with takeWhile_dropWhile_id [of "\<lambda>x. x \<noteq> CHR '']''" s] True show ?thesis by (auto simp: n)
  next
    case False
    with 2 show ?thesis by (auto split: if_splits)
  qed
qed simp

lemma scan_spec_flat: "\<not> list_ex brace p \<Longrightarrow> scan_spec 0 (p @ CHR ''}'' # r) = Some (p, r)"
  by (induction p) (auto simp: brace_def)

lemma scan_spec_parts: "scan_spec d s = Some (p, r) \<Longrightarrow> s = p @ CHR ''}'' # r"
  by (induction s arbitrary: d p r) (auto split: if_splits)

lemma month_field_parts:
  "month_field n = Some (e, k) \<longleftrightarrow> (\<exists>ds. n = (if e then ''month_end['' else ''month_start['') @ ds @ '']'' \<and> list_all is_digit ds
     \<and> length ds \<in> {1, 2} \<and> k = int (nat_of_digits ds))"
  (is "?l \<longleftrightarrow> ?r")
proof
  assume ?l
  then obtain name rest where s: "split_first (CHR ''['') n = Some (name, rest)"
    and c: "name = ''month_start'' \<or> name = ''month_end''" "rest \<noteq> []" "last rest = CHR '']''" "list_all is_digit (butlast rest)"
      "length rest \<in> {2, 3}" "e = (name = ''month_end'')" "k = int (nat_of_digits (butlast rest))"
    by (auto simp: month_field_def split: option.splits if_splits)
  have "n = name @ CHR ''['' # butlast rest @ '']''"
    using split_first_parts [OF s] c(2,3) append_butlast_last_id [of rest] by simp
  with c show ?r by (intro exI [of _ "butlast rest"]) auto
next
  assume ?r
  then obtain ds where d: "n = (if e then ''month_end'' else ''month_start'') @ CHR ''['' # (ds @ '']'')" "list_all is_digit ds"
    "length ds \<in> {1, 2}" "k = int (nat_of_digits ds)" by auto
  have "split_first (CHR ''['') n = Some ((if e then ''month_end'' else ''month_start''), ds @ '']'')"
    unfolding d(1) by (rule split_first_append) auto
  with d show ?l by (auto simp: month_field_def)
qed

definition accepts :: "string list \<Rightarrow> bool \<Rightarrow> string \<Rightarrow> bool" where
  "accepts names mi s \<longleftrightarrow> check_template s names mi = Inr ()"

lemma accepts_step:
  "s \<noteq> [] \<Longrightarrow> accepts names mi s \<longleftrightarrow> (\<exists>l f r. next_piece s = Some ((l, f), r)
     \<and> (case f of None \<Rightarrow> True | Some g \<Rightarrow> check_field names mi g = Inr ()) \<and> accepts names mi r)"
  unfolding accepts_def check_template_def fmt_parse.simps [of s] by (auto split: option.splits)

lemma accepts_empty [simp]: "accepts names mi []"
  by (simp add: accepts_def check_template_def fmt_parse.simps)

lemma next_piece_literal: "\<not> brace c \<Longrightarrow> next_piece (c # s) = map_option (\<lambda>((l, f), r). ((c # l, f), r)) (next_piece s)"
  unfolding next_piece_def Let_def by (auto simp: option.map_comp comp_def case_prod_unfold simp del: dropWhile_eq_Nil_conv split: list.split)

lemma next_piece_brace:
  "brace c \<Longrightarrow> next_piece (c # c # s) = Some (([c], None), s)"
  "c \<noteq> CHR ''{'' \<Longrightarrow> next_piece (CHR ''{'' # c # s) = map_option (\<lambda>(f, r). (([], Some f), r)) (scan_field (c # s))"
  "c \<noteq> CHR ''}'' \<Longrightarrow> next_piece (CHR ''}'' # c # s) = None"
  "brace c \<Longrightarrow> next_piece [c] = None"
  by (auto simp: next_piece_def brace_def)

lemmas next_piece_simps = next_piece_literal next_piece_brace

lemma accepts_simps:
  "\<not> brace c \<Longrightarrow> accepts names mi (c # s) \<longleftrightarrow> accepts names mi s"
  "brace c \<Longrightarrow> accepts names mi (c # c # s) \<longleftrightarrow> accepts names mi s"
  "c \<noteq> CHR ''{'' \<Longrightarrow> accepts names mi (CHR ''{'' # c # s) \<longleftrightarrow>
     (\<exists>g r. scan_field (c # s) = Some (g, r) \<and> check_field names mi g = Inr () \<and> accepts names mi r)"
  "c \<noteq> CHR ''}'' \<Longrightarrow> \<not> accepts names mi (CHR ''}'' # c # s)"
  "brace c \<Longrightarrow> \<not> accepts names mi [c]"
proof -
  show "accepts names mi (c # s) \<longleftrightarrow> accepts names mi s" if "\<not> brace c"
  proof (cases "s = []")
    case True
    then show ?thesis using that by (simp add: accepts_step next_piece_def)
  next
    case False
    then show ?thesis using that by (force simp: accepts_step next_piece_literal)
  qed
qed (auto simp: accepts_step next_piece_simps)

text \<open>A field that scans and passes the check is a placeholder of the grammar, and the other way round.\<close>
lemma placeholder_iff:
  "(\<exists>g. scan_field s = Some (g, r) \<and> check_field names mi g = Inr ()) \<longleftrightarrow>
     (\<exists>n spec. token_ok names mi (Placeholder n spec) \<and> CHR ''{'' # s = print_token (Placeholder n spec) @ r)"
  (is "?l \<longleftrightarrow> ?r")
proof
  assume ?l
  then obtain n spec where f: "scan_field s = Some ((n, spec, None), r)" and c: "check_field names mi (n, spec, None) = Inr ()"
    by (metis check_field_Inr prod_cases3)
  then obtain e r' where n: "scan_name s = Some (n, e, r')" by (auto simp: scan_field_def split: option.splits if_splits list.splits)
  from scan_name_parts [OF n] have s: "s = n @ e # r'" and np: "CHR ''['' \<notin> set n \<longrightarrow> set n \<inter> set ''{}:!['' = {}" by auto
  have e: "e = CHR ''}'' \<and> spec = [] \<and> r = r' \<or> e = CHR '':'' \<and> scan_spec 0 r' = Some (spec, r)"
    using f n scan_name_parts [OF n] by (auto simp: scan_field_def split: option.splits if_splits list.splits)
  have ok: "n \<in> set names \<and> plain n \<or> mi \<and> month_name n"
  proof (cases "month_field n \<noteq> None \<and> mi")
    case True
    then obtain e' k where k: "month_field n = Some (e', k)" by auto
    with c True have "k \<le> 12" by (simp add: check_field_Inr)
    from k [unfolded month_field_parts] obtain ds where "n = (if e' then ''month_end['' else ''month_start['') @ ds @ '']''"
      "list_all is_digit ds" "length ds \<in> {1, 2}" "k = int (nat_of_digits ds)" by blast
    with \<open>k \<le> 12\<close> have "month_name n" unfolding month_name_def
      by (intro exI [of _ "if e' then ''month_end'' else ''month_start''"] exI [of _ ds]) simp
    with True show ?thesis by blast
  next
    case False
    with c np show ?thesis by (auto simp: check_field_Inr plain_def)
  qed
  from e show ?r
  proof
    assume "e = CHR ''}'' \<and> spec = [] \<and> r = r'"
    then show ?thesis using ok s by (intro exI [of _ n] exI [of _ None]) simp
  next
    assume "e = CHR '':'' \<and> scan_spec 0 r' = Some (spec, r)"
    then show ?thesis using ok s c scan_spec_parts by (intro exI [of _ n] exI [of _ "Some spec"]) (auto simp: check_field_Inr)
  qed
next
  assume ?r
  then obtain n spec where ok: "token_ok names mi (Placeholder n spec)"
    and s: "s = n @ (case spec of None \<Rightarrow> [] | Some p \<Rightarrow> CHR '':'' # p) @ CHR ''}'' # r" by auto
  define p where "p = (case spec of None \<Rightarrow> [] | Some p \<Rightarrow> p)"
  have nb: "\<not> list_ex brace p" using ok by (auto simp: p_def split: option.splits)
  have name: "scan_name (n @ e # r') = Some (n, e, r')" if "e \<in> {CHR ''}'', CHR '':''}" for e r'
  proof (cases "plain n")
    case True
    then show ?thesis using that scan_name_plain [of n "e # r'"] by (auto simp: plain_def)
  next
    case False
    then have "month_name n" using ok by auto
    then obtain a ds where a: "a \<in> {''month_start'', ''month_end''}" and d: "n = a @ ''['' @ ds @ '']''" "list_all is_digit ds"
      unfolding month_name_def by blast
    from a have pa: "set a \<inter> set ''{}:!['' = {}" by auto
    have "CHR '']'' \<notin> set ds" using d(2) by (auto simp: list_all_iff is_digit_def)
    then have "takeWhile (\<lambda>x. x \<noteq> CHR '']'') (ds @ CHR '']'' # e # r') = ds"
      "dropWhile (\<lambda>x. x \<noteq> CHR '']'') (ds @ CHR '']'' # e # r') = CHR '']'' # e # r'"
      by (auto simp: takeWhile_append dropWhile_append)
    then show ?thesis using that scan_name_plain [OF pa, of "''['' @ ds @ '']'' @ e # r'"] by (auto simp: d(1))
  qed
  have "scan_field s = Some ((n, p, None), r)"
    using name [of "CHR ''}''"] name [of "CHR '':''"] scan_spec_flat [OF nb] by (auto simp: s p_def scan_field_def split: option.splits)
  moreover have "check_field names mi (n, p, None) = Inr ()"
  proof (cases "mi \<and> month_name n")
    case True
    then obtain a ds where a: "a \<in> {''month_start'', ''month_end''}" "n = a @ ''['' @ ds @ '']''" "list_all is_digit ds"
      "length ds \<in> {1, 2}" "nat_of_digits ds \<le> 12" unfolding month_name_def by blast
    have "month_field n = Some (a = ''month_end'', int (nat_of_digits ds))"
      unfolding month_field_parts using a(1-4) by (intro exI [of _ ds]) auto
    with True nb a(5) show ?thesis by (simp add: check_field_Inr)
  next
    case False
    then have pl: "n \<in> set names" "plain n" using ok by auto
    then have "month_field n = None" unfolding month_field_def plain_def by (auto simp: split_first_def)
    with pl nb show ?thesis by (auto simp: check_field_Inr plain_def)
  qed
  ultimately show ?l by blast
qed

lemma placeholder_head:
  assumes "token_ok names mi (Placeholder n spec)" and "CHR ''{'' # s = print_token (Placeholder n spec) @ r"
  shows "\<exists>c s'. s = c # s' \<and> c \<noteq> CHR ''{''"
proof -
  have s: "s = n @ (case spec of None \<Rightarrow> [] | Some p \<Rightarrow> CHR '':'' # p) @ CHR ''}'' # r" using assms(2) by auto
  have "CHR ''{'' \<notin> set (take 1 n)"
    using assms(1) set_take_subset [of 1 n] by (auto simp: plain_def month_name_def)
  then show ?thesis by (cases n; cases spec) (auto simp: s)
qed

lemma grammar_accepted: "list_all (token_ok names mi) toks \<Longrightarrow> accepts names mi (concat (map print_token toks))"
proof (induction toks)
  case (Cons tok toks)
  let ?r = "concat (map print_token toks)"
  have r: "accepts names mi ?r" and ok: "token_ok names mi tok" using Cons by auto
  show ?case
  proof (cases tok)
    case (Placeholder n spec)
    obtain s where s: "CHR ''{'' # s = print_token (Placeholder n spec) @ ?r" by simp
    from placeholder_head [OF ok [unfolded Placeholder] s] obtain c s' where c: "s = c # s'" "c \<noteq> CHR ''{''" by blast
    have "\<exists>g. scan_field s = Some (g, ?r) \<and> check_field names mi g = Inr ()"
      unfolding placeholder_iff using ok s Placeholder by blast
    with r have "accepts names mi (CHR ''{'' # c # s')" unfolding accepts_simps(3) [OF c(2)] c(1) by blast
    then show ?thesis using s c Placeholder by simp
  qed (use r ok accepts_simps in auto)
qed simp

lemma accepted_grammar:
  "accepts names mi t \<Longrightarrow> \<exists>toks. t = concat (map print_token toks) \<and> list_all (token_ok names mi) toks"
proof (induction t rule: length_induct)
  case (1 t)
  have step: ?case if "t = print_token tok @ r" "token_ok names mi tok" "accepts names mi r" "length r < length t" for tok r
  proof -
    from 1 that obtain toks where "r = concat (map print_token toks)" "list_all (token_ok names mi) toks" by blast
    with that show ?thesis by (intro exI [of _ "tok # toks"]) simp
  qed
  show ?case
  proof (cases t)
    case Nil
    then show ?thesis by (intro exI [of _ "[]"]) simp
  next
    case (Cons c s)
    show ?thesis
    proof (cases "brace c")
      case False
      then show ?thesis using step [of "Chr c" s] Cons "1.prems" accepts_simps(1) by simp
    next
      case True
      with "1.prems" Cons obtain c' s' where s: "s = c' # s'" using accepts_simps(5) by (cases s) auto
      show ?thesis
      proof (cases "c = c'")
        case same: True
        then show ?thesis using step [of "Esc c" s'] Cons s True "1.prems" accepts_simps(2) by simp
      next
        case False
        with True "1.prems" Cons s accepts_simps(4) have o: "c = CHR ''{''" "c' \<noteq> CHR ''{''" by (auto simp: brace_def)
        from "1.prems" [unfolded Cons s o(1) accepts_simps(3) [OF o(2)]]
        obtain g r where g: "scan_field (c' # s') = Some (g, r)" "check_field names mi g = Inr ()" "accepts names mi r" by blast
        then obtain n spec where "token_ok names mi (Placeholder n spec)" "CHR ''{'' # c' # s' = print_token (Placeholder n spec) @ r"
          using placeholder_iff [of "c' # s'" r names mi] by blast
        then show ?thesis using step [of "Placeholder n spec" r] g scan_field_shorter [OF g(1)] Cons s o by simp
      qed
    qed
  qed
qed

text \<open>C26. The template check accepts exactly the strings of the grammar: characters other than braces,
  doubled braces, and placeholders whose name is one of the given names without any of the characters
  \<open>{ } : ! [ .\<close>, or (where month indices are allowed) \<open>month_start[k]\<close> or \<open>month_end[k]\<close> with one or two
  digits and \<open>k \<le> 12\<close>, followed by an optional format specification without braces. So no conversion, no
  attribute, no other index and no nested placeholder ever reaches \<open>str.format\<close>.\<close>
theorem check_template_grammar:
  "check_template t names mi = Inr () \<longleftrightarrow> (\<exists>toks. t = concat (map print_token toks) \<and> list_all (token_ok names mi) toks)"
  using accepted_grammar grammar_accepted unfolding accepts_def by blast

end
