(* ===== verification/Freshness.thy ===== *)
theory Freshness
  imports Gaps Templates
begin

text \<open>
  The freshness indicator (src/energy_platform/runtime/freshness.py): the partition a target is in, how
  many of its periods Silver has, the instant by which they are expected, and the status; with the
  newest attempts of the ledger and the run of unchanged captures in Bronze.
\<close>

subsection \<open>Partitions\<close>

definition SOURCE_TIMEZONE :: string where
  "SOURCE_TIMEZONE = ''Europe/Prague''"

record partition_result =
  ps_start :: instant
  ps_end :: instant
  ps_expected :: nat
  ps_observed :: nat
  ps_expected_by :: instant
  ps_status :: freshness_status

text \<open>\<open>min(resolutions, key=parse_duration)\<close>: the first of the shortest.\<close>
fun finest_from :: "string \<Rightarrow> timedelta \<Rightarrow> string list \<Rightarrow> py_error + string" where
  "finest_from best d [] = Inr best"
| "finest_from best d (r # rs) = bindR (parse_duration r) (\<lambda>e. if e < d then finest_from r e rs else finest_from best d rs)"

definition finest_resolution :: "string list \<Rightarrow> py_error + string" where
  "finest_resolution rs = (case rs of [] \<Rightarrow> Inl (ValueError ''min() arg is an empty sequence'')
     | r # rest \<Rightarrow> bindR (parse_duration r) (\<lambda>d. finest_from r d rest))"

text \<open>\<open>month_start\[(\d{1,2})\]\<close> searched in a template.\<close>
fun month_index :: "string \<Rightarrow> nat option" where
  "month_index [] = None"
| "month_index (c # s) =
     (let rest = drop 12 (c # s); ds = takeWhile is_digit rest in
      if take 12 (c # s) = ''month_start['' \<and> (length ds = 1 \<or> length ds = 2)
         \<and> dropWhile is_digit rest \<noteq> [] \<and> hd (dropWhile is_digit rest) = CHR '']''
      then Some (nat_of_digits ds) else month_index s)"

definition month_offset :: "runtime \<Rightarrow> nat option" where
  "month_offset rt = (case List.map_filter (\<lambda>(_, template, _, _). month_index template) (fetch_templates run_names (m_fetch (rt_manifest rt))) of
     [] \<Rightarrow> None | k # _ \<Rightarrow> Some k)"

definition month_days :: "int \<Rightarrow> int \<Rightarrow> date list" where
  "month_days year month = (let first = ymd2ord year month 1; nxt = ymd2ord (year + month div 12) (month mod 12 + 1) 1
     in [first..nxt - 1])"

definition first_last :: "delivery_interval list \<Rightarrow> py_error + instant \<times> instant" where
  "first_last ivs = (if ivs = [] then Inl IndexError else Inr (di_start (hd ivs), di_end (last ivs)))"

definition partition_bounds :: "runtime \<Rightarrow> instant \<Rightarrow> int \<Rightarrow> py_error + instant \<times> instant \<times> nat" where
  "partition_bounds rt now back = (case dataset (ct_dataset_id (m_contract (rt_manifest rt))) of
       None \<Rightarrow> Inl (ValueError ''dataset is not registered'')
     | Some contract \<Rightarrow>
         bindR (finest_resolution (dc_resolutions contract)) (\<lambda>res.
         let day = delivery_day_for now (rt_zone rt); source = zone_info (rt_env rt) SOURCE_TIMEZONE in
         case month_offset rt of
           Some k \<Rightarrow>
             (case norm_month (year_of day) (month_of day - (int k + back)) of (year, month) \<Rightarrow>
              bindR (mapR (\<lambda>d. local_day_intervals d res source) (month_days year month)) (\<lambda>days.
              bindR (if days = [] then Inl IndexError else first_last (hd days)) (\<lambda>(start, _).
              bindR (first_last (last days)) (\<lambda>(_, stop).
              Inr (start, stop, length (concat days))))))
         | None \<Rightarrow>
             if dc_partition contract = Partition_hour
             then (let local = to_local (rt_zone rt) now;
                       start = from_local (rt_zone rt) (local\<lparr>wall := wall local - wall local mod usec_hour\<rparr>) - back * usec_hour
                   in bindR (parse_duration res) (\<lambda>step. Inr (start, start + usec_hour, nat (usec_hour div step))))
             else bindR (local_day_intervals (day - back) res source) (\<lambda>ivs.
                  bindR (first_last ivs) (\<lambda>(start, stop). Inr (start, stop, length ivs)))))"

subsection \<open>Status\<close>

text \<open>The first cadence instant of the partition and the instant it is expected by.\<close>
definition expectation :: "runtime \<Rightarrow> instant \<Rightarrow> instant \<Rightarrow> instant \<Rightarrow> py_error + instant \<times> instant" where
  "expectation rt now start stop =
     (let cad = m_cadence (rt_manifest rt); z = zone_info (rt_env rt) (cad_timezone cad) in
      case month_offset rt of
        Some _ \<Rightarrow>
          (let local = to_local z now; d = date_of local;
               m0 = (ymd2ord (year_of d) (month_of d) 1 - epoch_ordinal) * usec_day;
               window = (case cad_correction cad of None \<Rightarrow> 0 | Some c \<Rightarrow> co_days c) in
           bindR (cron_instants (cad_cron cad) z (from_local z \<lparr>wall = m0 - usec_minute, is_fold = False\<rparr>)
                    (from_local z \<lparr>wall = m0 + 62 * usec_day, is_fold = False\<rparr>)) (\<lambda>is.
           let first = (case is of [] \<Rightarrow> from_local z (local\<lparr>wall := m0\<rparr>) | i # _ \<Rightarrow> i)
           in Inr (first, first + window * usec_day)))
      | None \<Rightarrow>
          bindR (cron_instants (cad_cron cad) z (start - usec_minute) (stop - usec_minute)) (\<lambda>is.
          bindR (cadence_of (cad_cron cad) z now) (\<lambda>period.
          Inr (case is of [] \<Rightarrow> (start, stop + 2 * period) | i # _ \<Rightarrow> (i, last is + 2 * period)))))"

definition status_for :: "nat \<Rightarrow> nat \<Rightarrow> instant \<Rightarrow> instant \<Rightarrow> instant \<Rightarrow> freshness_status" where
  "status_for got expected now first_instant expected_by =
     (if expected \<le> got then FS_complete else if now < first_instant then FS_pending
      else if expected_by < now then FS_late else FS_partial)"

definition classify_partition :: "runtime \<Rightarrow> instant \<Rightarrow> int \<Rightarrow> memory_store \<Rightarrow> py_error + partition_result" where
  "classify_partition rt now back s =
     bindR (partition_bounds rt now back) (\<lambda>(start, stop, expected).
     bindR (expectation rt now start stop) (\<lambda>(first_instant, expected_by).
     bindR (count_periods s (ct_dataset_id (m_contract (rt_manifest rt))) start stop (rt_target rt)
              (ct_source_transport (m_contract (rt_manifest rt))) (dkeys (mb_metrics (m_mapping (rt_manifest rt))))) (\<lambda>got.
     Inr \<lparr>ps_start = start, ps_end = stop, ps_expected = expected, ps_observed = got, ps_expected_by = expected_by,
          ps_status = status_for got expected now first_instant expected_by\<rparr>)))"

subsection \<open>The row\<close>

definition newer :: "run_attempt option \<Rightarrow> run_attempt \<Rightarrow> run_attempt option" where
  "newer best a = (case best of None \<Rightarrow> Some a
     | Some b \<Rightarrow> if (a_started_at b, a_id b) < (a_started_at a, a_id a) then Some a else best)"

definition newest_attempts :: "runtime \<Rightarrow> instant \<Rightarrow> memory_store \<Rightarrow> run_attempt option \<times> run_attempt option" where
  "newest_attempts rt since s =
     (let as = concat (map (\<lambda>r. attempts_of s (r_id r)) (runs_of s (rt_target rt) (Some since) None))
      in (foldl newer None as, foldl newer None (filter (\<lambda>a. a_kind a = AK_capture \<or> a_kind a = AK_backfill) as)))"

definition stale_streak :: "runtime \<Rightarrow> instant \<Rightarrow> bronze \<Rightarrow> nat" where
  "stale_streak rt since b = length (takeWhile (\<lambda>e. \<not> ce_content_changed e) (rev (log_list (br_log b) (rt_target rt) (Some since) None)))"

definition compute_freshness :: "runtime \<Rightarrow> instant \<Rightarrow> freshness prog" where
  "compute_freshness rt now =
     bindP (queryE (rt_up rt) (classify_partition rt now 0)) (\<lambda>current_part.
     bindP (if ps_status current_part = FS_complete then ret current_part
            else bindP (queryE (rt_up rt) (classify_partition rt now 1)) (\<lambda>previous.
                 bindP (bronze_of (\<lambda>b. log_list (br_log b) (rt_target rt) (Some (ps_start previous)) (Some (ps_end previous)))) (\<lambda>collected.
                 ret (if ps_status previous = FS_late \<and> collected \<noteq> [] then previous else current_part)))) (\<lambda>chosen.
     let lookback = now - rt_reconcile_window rt in
     bindP (query (rt_up rt) (newest_attempts rt lookback)) (\<lambda>(newest, newest_capture).
     bindP (bronze_of (\<lambda>b. (log_latest (br_log b) (rt_target rt), stale_streak rt lookback b))) (\<lambda>(last_capture, streak).
     bindP (queryE (rt_up rt) (\<lambda>s. newest_delivery_start s (ct_dataset_id (m_contract (rt_manifest rt))) (rt_target rt)
              (ct_source_transport (m_contract (rt_manifest rt))))) (\<lambda>newest_start.
     let outcome = Option.bind newest a_outcome in
     ret \<lparr>f_target_id = rt_target rt, f_computed_at = now, f_partition_start = ps_start chosen,
          f_partition_end = ps_end chosen, f_expected_by = ps_expected_by chosen, f_status = ps_status chosen,
          f_observed_periods = ps_observed chosen, f_expected_periods = ps_expected chosen,
          f_newest_delivery_start = newest_start, f_last_capture_at = map_option ce_fetched_at last_capture,
          f_last_capture_outcome = Option.bind newest_capture a_outcome, f_stale_fetch_streak = streak,
          f_source_unavailable = (outcome = Some AO_source_unavailable),
          f_pipeline_failed = (outcome \<in> {Some AO_failed, Some AO_quarantined, Some AO_lost_lease})\<rparr>)))))"

definition record_freshness :: "runtime \<Rightarrow> instant \<Rightarrow> freshness prog" where
  "record_freshness rt now = bindP (compute_freshness rt now) (\<lambda>row.
     bindP (call (rt_up rt) (\<lambda>s. ((), upsert_freshness s row))) (\<lambda>_. ret row))"

end
