(* ===== verification/Mapping_Properties.thy ===== *)
theory Mapping_Properties
  imports Mapping
begin

text \<open>
  What the mapping engine guarantees: every observation it returns is the image of a record of the
  document and conforms to the registry, no record and no metric is dropped, a contradiction within
  the document refuses the document, and an admitted manifest is never refused for what the registry
  declares. The completeness count and the two-way comparison of transports follow.
\<close>

subsection \<open>One observation\<close>

definition negative_value :: "decimal option \<Rightarrow> bool" where
  "negative_value v \<longleftrightarrow> (case v of None \<Rightarrow> False | Some d \<Rightarrow> dec_negative d)"

text \<open>The observation \<open>x\<close> is what record \<open>r\<close> says about one metric.\<close>
definition row_of :: "pyenv \<Rightarrow> manifest \<Rightarrow> dataset_contract \<Rightarrow> mapping_context \<Rightarrow> source_record \<Rightarrow> string
    \<Rightarrow> metric_mapping \<Rightarrow> energy_observation \<Rightarrow> bool" where
  "row_of env m contract ctx r name mm x \<longleftrightarrow> (\<exists>fm raw. record_head env m r ctx = Inr fm
     \<and> parse_decimal (field_of (rec_fields r) (mm_source mm)) (mm_decimal_separator mm) = Inr raw
     \<and> x = observation_of m contract ctx fm name mm (apply_sign raw (mm_sign mm)))"

definition accepted :: "dataset_contract \<Rightarrow> energy_observation \<Rightarrow> bool" where
  "accepted contract x \<longleftrightarrow> mk_observation x = Inr x \<and> (\<exists>spec. metric_of contract (metric x) = Some spec
     \<and> \<not> (negative_value (obs_value x) \<and> ms_sign spec = Non_negative))"

lemma observation_of_sel [simp]:
  "metric (observation_of m c ctx fm name mm v) = name"
  "obs_value (observation_of m c ctx fm name mm v) = v"
  "dataset_id (observation_of m c ctx fm name mm v) = dc_dataset_id c"
  "source_transport (observation_of m c ctx fm name mm v) = ct_source_transport (m_contract m)"
  "raw_ref (observation_of m c ctx fm name mm v) = mc_raw_ref ctx"
  "payload_sha256 (observation_of m c ctx fm name mm v) = mc_payload_sha256 ctx"
  "derivation_id (observation_of m c ctx fm name mm v) = mc_derivation_id ctx"
  "fetched_at (observation_of m c ctx fm name mm v) = mc_fetched_at ctx"
  "processed_at (observation_of m c ctx fm name mm v) = mc_processed_at ctx"
  by (simp_all add: observation_of_def)

lemma map_metric_Inr:
  assumes "record_head env m r ctx = Inr fm" "map_metric m contract r ctx fm name mm = Inr (evs, x)"
  shows "row_of env m contract ctx r name mm x \<and> accepted contract x"
proof -
  obtain spec where s: "metric_of contract name = Some spec"
    using assms(2) by (auto simp: map_metric_def split: option.splits)
  obtain raw where raw: "parse_decimal (field_of (rec_fields r) (mm_source mm)) (mm_decimal_separator mm) = Inr raw"
    using assms(2) s by (auto simp: map_metric_def split: sum.splits py_error.splits)
  define v where "v = apply_sign raw (mm_sign mm)"
  have nn: "\<not> (negative_value v \<and> ms_sign spec = Non_negative)"
    using assms(2) s raw by (auto simp: map_metric_def v_def negative_value_def Let_def split: if_splits)
  have "mk_observation (observation_of m contract ctx fm name mm v) = Inr x"
    using assms(2) s raw by (auto simp: map_metric_def v_def Let_def split: sum.splits py_error.splits if_splits)
  moreover from mk_observation_id [OF this] have "x = observation_of m contract ctx fm name mm v" .
  ultimately show ?thesis
    using assms(1) raw s nn by (auto simp: row_of_def accepted_def v_def)
qed

subsection \<open>The dictionary of rows seen\<close>

definition seen_ok :: "(energy_observation \<Rightarrow> bool) \<Rightarrow> (observation_id, energy_observation) dict \<Rightarrow> bool" where
  "seen_ok P seen \<longleftrightarrow> distinct (dkeys seen) \<and> (\<forall>kx \<in> set seen. fst kx = observation_identity (snd kx) \<and> P (snd kx))"

definition represented :: "(observation_id, energy_observation) dict \<Rightarrow> energy_observation \<Rightarrow> bool" where
  "represented seen x \<longleftrightarrow> (\<exists>y. dget seen (observation_identity x) = Some y \<and> same_value (obs_value y) (obs_value x))"

lemma same_value_refl [simp]: "same_value v v"
  by (auto simp: same_value_def dec_eq_def split: option.splits)

lemma represented_mono: "represented seen x \<Longrightarrow> dget seen \<subseteq>\<^sub>m dget seen' \<Longrightarrow> represented seen' x"
  unfolding represented_def by (meson map_leD)

lemma absorb_Inr:
  assumes "absorb r (evs, x) (seen, events) = Inr (seen', events')" "seen_ok P seen" "P x"
  shows "seen_ok P seen' \<and> dget seen \<subseteq>\<^sub>m dget seen' \<and> represented seen' x"
proof (cases "dget seen (observation_identity x)")
  case None
  then have s': "seen' = dset (observation_identity x) x seen"
    using assms(1) by (simp add: absorb_def)
  have "seen_ok P seen'"
    using assms(2,3) set_dset_subset [of "observation_identity x" x seen]
    unfolding seen_ok_def s' by auto
  then show ?thesis using map_le_dset_new [OF None] by (simp add: s' represented_def)
next
  case (Some y)
  then have "seen' = seen" "same_value (obs_value y) (obs_value x)"
    using assms(1) by (auto simp: absorb_def split: if_splits)
  then show ?thesis using Some assms(2) by (auto simp: represented_def)
qed

lemma map_metrics_Inr:
  assumes "map_metrics m contract r ctx fm mms (seen, events) = Inr (seen', events')"
    and "record_head env m r ctx = Inr fm" "seen_ok P seen"
    and "\<And>name mm x. (name, mm) \<in> set mms \<Longrightarrow> row_of env m contract ctx r name mm x \<Longrightarrow> accepted contract x \<Longrightarrow> P x"
  shows "seen_ok P seen' \<and> dget seen \<subseteq>\<^sub>m dget seen' \<and> (\<forall>(name, mm) \<in> set mms.
    \<exists>x. row_of env m contract ctx r name mm x \<and> represented seen' x)"
  using assms
proof (induction mms arbitrary: seen events)
  case (Cons nm mms)
  obtain name mm where nm: "nm = (name, mm)" by (cases nm)
  with Cons.prems(1) obtain evs x where step: "map_metric m contract r ctx fm name mm = Inr (evs, x)"
    by auto
  with Cons.prems(1) nm obtain seen1 events1 where ab: "absorb r (evs, x) (seen, events) = Inr (seen1, events1)"
    and rest: "map_metrics m contract r ctx fm mms (seen1, events1) = Inr (seen', events')" by auto
  note row = map_metric_Inr [OF Cons.prems(2) step]
  have "P x" using Cons.prems(4) row nm by auto
  note one = absorb_Inr [OF ab Cons.prems(3) this]
  have IH: "seen_ok P seen' \<and> dget seen1 \<subseteq>\<^sub>m dget seen' \<and> (\<forall>(name, mm) \<in> set mms.
      \<exists>x. row_of env m contract ctx r name mm x \<and> represented seen' x)"
    using Cons.IH [OF rest Cons.prems(2)] one Cons.prems(4) by auto
  then have "represented seen' x" "dget seen \<subseteq>\<^sub>m dget seen'"
    using one represented_mono map_le_trans by blast+
  then show ?case using IH row nm by auto
qed simp

lemma map_all_Inr:
  assumes "map_all env m contract ctx rs (seen, events) = Inr (seen', events')" "seen_ok P seen"
    and "\<And>r name mm x. r \<in> set rs \<Longrightarrow> (name, mm) \<in> set (mb_metrics (m_mapping m))
      \<Longrightarrow> row_of env m contract ctx r name mm x \<Longrightarrow> accepted contract x \<Longrightarrow> P x"
  shows "seen_ok P seen' \<and> dget seen \<subseteq>\<^sub>m dget seen' \<and> (\<forall>r \<in> set rs. \<forall>(name, mm) \<in> set (mb_metrics (m_mapping m)).
    \<exists>x. row_of env m contract ctx r name mm x \<and> represented seen' x)"
  using assms
proof (induction rs arbitrary: seen events)
  case (Cons r rs)
  from Cons.prems(1) obtain fm seen1 events1 where head: "record_head env m r ctx = Inr fm"
    and here: "map_metrics m contract r ctx fm (mb_metrics (m_mapping m)) (seen, events) = Inr (seen1, events1)"
    and rest: "map_all env m contract ctx rs (seen1, events1) = Inr (seen', events')" by auto
  have one: "seen_ok P seen1 \<and> dget seen \<subseteq>\<^sub>m dget seen1 \<and> (\<forall>(name, mm) \<in> set (mb_metrics (m_mapping m)).
      \<exists>x. row_of env m contract ctx r name mm x \<and> represented seen1 x)"
    by (rule map_metrics_Inr [OF here head Cons.prems(2)]) (use Cons.prems(3) in force)
  have IH: "seen_ok P seen' \<and> dget seen1 \<subseteq>\<^sub>m dget seen' \<and> (\<forall>r \<in> set rs. \<forall>(name, mm) \<in> set (mb_metrics (m_mapping m)).
      \<exists>x. row_of env m contract ctx r name mm x \<and> represented seen' x)"
    by (rule Cons.IH [OF rest]) (use one Cons.prems(3) in force)+
  then have le: "dget seen1 \<subseteq>\<^sub>m dget seen'" by blast
  have "dget seen \<subseteq>\<^sub>m dget seen'" using one le map_le_trans by blast
  moreover have "\<forall>(name, mm) \<in> set (mb_metrics (m_mapping m)).
      \<exists>x. row_of env m contract ctx r name mm x \<and> represented seen' x"
    using one represented_mono [OF _ le] by blast
  ultimately show ?case using IH by auto
qed simp

subsection \<open>A document\<close>

lemma map_records_InrE:
  assumes "map_records env m rs ctx = Inr res"
  obtains contract seen events where "dataset (ct_dataset_id (m_contract m)) = Some contract"
    "map_all env m contract ctx rs ([], []) = Inr (seen, events)" "mr_observations res = dvalues seen"
  using assms by (auto simp: map_records_def split: option.splits)

lemma seen_ok_values:
  assumes "seen_ok P seen"
  shows "distinct (map observation_identity (dvalues seen)) \<and> (\<forall>x \<in> set (dvalues seen). P x)"
proof -
  have "map observation_identity (dvalues seen) = dkeys seen"
    using assms by (auto simp: seen_ok_def)
  moreover have "\<forall>x \<in> set (dvalues seen). P x" using assms by (auto simp: seen_ok_def)
  ultimately show ?thesis using assms by (metis seen_ok_def)
qed

text \<open>C13. Every observation the mapping engine returns was constructed under the registry contract of the
  manifest's dataset, is not negative where the registry forbids it, carries the envelope of its
  capture (raw reference, content address, derivation, fetch and processing instants) and no other
  observation of the result has its identity.\<close>
theorem mapped_observations_conform:
  assumes "map_records env m rs ctx = Inr res"
  shows "distinct (map observation_identity (mr_observations res)) \<and>
    (\<forall>x \<in> set (mr_observations res).
       (\<exists>contract spec. dataset (ct_dataset_id (m_contract m)) = Some contract \<and> conforms x contract spec
          \<and> (ms_sign spec = Non_negative \<longrightarrow> \<not> negative_value (obs_value x)))
       \<and> raw_ref x = mc_raw_ref ctx \<and> payload_sha256 x = mc_payload_sha256 ctx
       \<and> derivation_id x = mc_derivation_id ctx \<and> fetched_at x = mc_fetched_at ctx
       \<and> processed_at x = mc_processed_at ctx
       \<and> source_transport x = ct_source_transport (m_contract m))"
proof -
  obtain contract seen events where c: "dataset (ct_dataset_id (m_contract m)) = Some contract"
    and all: "map_all env m contract ctx rs ([], []) = Inr (seen, events)"
    and obs: "mr_observations res = dvalues seen" using map_records_InrE [OF assms] .
  define P where "P x \<longleftrightarrow> accepted contract x \<and> dataset_id x = dc_dataset_id contract
     \<and> raw_ref x = mc_raw_ref ctx \<and> payload_sha256 x = mc_payload_sha256 ctx
     \<and> derivation_id x = mc_derivation_id ctx \<and> fetched_at x = mc_fetched_at ctx
     \<and> processed_at x = mc_processed_at ctx \<and> source_transport x = ct_source_transport (m_contract m)" for x
  have rows: "row_of env m contract ctx r name mm x \<Longrightarrow> accepted contract x \<Longrightarrow> P x" for r name mm x
    by (auto simp: row_of_def P_def)
  have "seen_ok P []" by (simp add: seen_ok_def)
  with map_all_Inr [OF all, of P] rows have ok: "seen_ok P seen" by blast
  have conf: "\<exists>spec. conforms x contract spec \<and> (ms_sign spec = Non_negative \<longrightarrow> \<not> negative_value (obs_value x))"
    if "P x" for x
  proof -
    have "mk_observation x = Inr x" using that by (simp add: P_def accepted_def)
    then obtain contract' spec where "conforms x contract' spec"
      using against_registry_conforms [of x x] by (auto simp: mk_observation_def)
    moreover have "contract' = contract"
      using calculation that dataset_id_of [OF c] c by (auto simp: conforms_def P_def)
    ultimately show ?thesis using that by (auto simp: conforms_def P_def accepted_def)
  qed
  from seen_ok_values [OF ok] show ?thesis
    unfolding obs using conf c by (auto simp: P_def)
qed

text \<open>C14. The mapping drops nothing and resolves no contradiction on its own: when a document is accepted,
  every record and every mapped metric of it has an observation in the result with the same identity
  and an equal value; so two records that disagree on one identity refuse the whole document.\<close>
theorem mapping_drops_nothing:
  assumes "map_records env m rs ctx = Inr res" "r \<in> set rs" "(name, mm) \<in> set (mb_metrics (m_mapping m))"
  shows "\<exists>contract x y. dataset (ct_dataset_id (m_contract m)) = Some contract
    \<and> row_of env m contract ctx r name mm x \<and> y \<in> set (mr_observations res)
    \<and> observation_identity y = observation_identity x \<and> same_value (obs_value y) (obs_value x)"
proof -
  obtain contract seen events where c: "dataset (ct_dataset_id (m_contract m)) = Some contract"
    and all: "map_all env m contract ctx rs ([], []) = Inr (seen, events)"
    and obs: "mr_observations res = dvalues seen" using map_records_InrE [OF assms(1)] .
  have "seen_ok (\<lambda>_. True) seen \<and> (\<exists>x. row_of env m contract ctx r name mm x \<and> represented seen x)"
    using map_all_Inr [OF all, of "\<lambda>_. True"] assms(2,3) by (auto simp: seen_ok_def)
  then obtain x y where ok: "seen_ok (\<lambda>_. True) seen" and x: "row_of env m contract ctx r name mm x"
    and y: "dget seen (observation_identity x) = Some y" "same_value (obs_value y) (obs_value x)"
    by (auto simp: represented_def)
  from dget_SomeD [OF y(1)] ok have "y \<in> set (dvalues seen)" "observation_identity y = observation_identity x"
    by (force simp: seen_ok_def)+
  with c x y(2) obs show ?thesis by metis
qed

lemma interval_for_index_length:
  assumes "interval_for_index d k res tz = Inr iv"
  shows "1 \<le> k \<and> parse_duration res = Inr (duration iv)"
proof -
  obtain ivs where ivs: "local_day_intervals d res tz = Inr ivs" using assms by (auto simp: interval_for_index_def)
  then obtain step where s: "parse_duration res = Inr step" "ivs = tiling (local_midnight d tz) step (day_span d tz)"
    by (auto simp: local_day_intervals_tiling)
  have k: "1 \<le> k" "k \<le> int (length ivs)" "iv = ivs ! nat (k - 1)" using assms interval_for_index_Inr [OF ivs] by auto
  then have "iv \<in> set ivs" by (auto intro!: nth_mem)
  with s tiling_duration k(1) show ?thesis by simp
qed

lemma interval_from_timestamp_length:
  "interval_from_timestamp ts res label = Inr iv \<Longrightarrow> parse_duration res = Inr (duration iv)"
  by (cases label) (auto simp: interval_from_timestamp_def duration_def split: if_splits)

lemma catchE_Inr [simp]: "catchE h m = Inr y \<longleftrightarrow> m = Inr y"
  by (cases m) (simp_all add: catchE_def)

text \<open>What the time mapping gives: an interval of the length asked for, and an index that counts from 1.\<close>
lemma time_of_Inr:
  assumes "time_of env m r ctx res = Inr (iv, day, index)"
  shows "parse_duration res = Inr (duration iv)" "case index of None \<Rightarrow> True | Some i \<Rightarrow> 1 \<le> i"
proof -
  have "parse_duration res = Inr (duration iv) \<and> (case index of None \<Rightarrow> True | Some i \<Rightarrow> 1 \<le> i)"
  proof (cases "tm_kind (mb_time (m_mapping m)) = Tk_period_index")
    case True
    with assms obtain d k where "interval_for_index d k res (zone_info env (tm_timezone (mb_time (m_mapping m)))) = Inr iv"
        "index = Some k"
      by (auto simp: time_of_def Let_def)
    then show ?thesis using interval_for_index_length by simp
  next
    case False
    with assms obtain u l where "interval_from_timestamp (Aware u) res l = Inr iv" "index = None"
      by (auto simp: time_of_def Let_def split: option.splits)
    then show ?thesis using interval_from_timestamp_length by simp
  qed
  then show "parse_duration res = Inr (duration iv)" "case index of None \<Rightarrow> True | Some i \<Rightarrow> 1 \<le> i" by auto
qed

text \<open>The frame of a record: its interval has the length its resolution names, an index counts from 1, and a
  version is there when the manifest maps one.\<close>
lemma record_head_frame:
  assumes "record_head env m r ctx = Inr fm"
  shows "parse_duration (fm_resolution fm) = Inr (duration (fm_interval fm))"
    and "case fm_period_index fm of None \<Rightarrow> True | Some i \<Rightarrow> 1 \<le> i"
    and "mb_source_version (m_mapping m) \<noteq> None \<Longrightarrow> fm_source_version fm \<noteq> None"
    and "text_of (ref_of (Some (tm_resolution (mb_time (m_mapping m)))) r ctx) ''resolution'' r = Inr (fm_resolution fm)"
proof -
  obtain res iv day index where t: "time_of env m r ctx res = Inr (iv, day, index)"
    and fm: "fm_resolution fm = res" "fm_interval fm = iv" "fm_period_index fm = index"
    and res: "text_of (ref_of (Some (tm_resolution (mb_time (m_mapping m)))) r ctx) ''resolution'' r = Inr res"
    and version: "mb_source_version (m_mapping m) \<noteq> None \<longrightarrow> fm_source_version fm \<noteq> None"
    using assms by (auto simp: record_head_def Let_def split: if_splits)
  from time_of_Inr [OF t] fm res version show "parse_duration (fm_resolution fm) = Inr (duration (fm_interval fm))"
    "case fm_period_index fm of None \<Rightarrow> True | Some i \<Rightarrow> 1 \<le> i"
    "mb_source_version (m_mapping m) \<noteq> None \<Longrightarrow> fm_source_version fm \<noteq> None"
    "text_of (ref_of (Some (tm_resolution (mb_time (m_mapping m)))) r ctx) ''resolution'' r = Inr (fm_resolution fm)"
    by auto
qed

text \<open>The registered contracts have a version and resolutions that no white space surrounds.\<close>
lemma registered_texts: "list_all (\<lambda>(_, c). semver_pattern (dc_contract_version c) \<and> list_all (\<lambda>s. strip s = s) (dc_resolutions c)) DATASETS"
  by code_simp

lemma registered_text:
  assumes "dataset i = Some c"
  shows "semver_pattern (dc_contract_version c)" "res \<in> set (dc_resolutions c) \<Longrightarrow> strip res = res"
  using registered_texts assms by (auto simp: list_all_iff dataset_def dest: map_of_SomeD)

text \<open>A constant resolution reaches the frame as it is declared.\<close>
lemma constant_resolution:
  assumes "record_head env m r ctx = Inr fm" "fr_constant (tm_resolution (mb_time (m_mapping m))) = Some c"
    and "mk_field_ref (tm_resolution (mb_time (m_mapping m))) = Inr ref" "strip c = c"
  shows "fm_resolution fm = c"
proof -
  have "fr_source (tm_resolution (mb_time (m_mapping m))) = None"
    using assms(2,3) by (auto simp: mk_field_ref_def check_def count_set_def split: if_splits option.splits)
  then show ?thesis using record_head_frame(4) [OF assms(1)] assms(2,4)
    by (auto simp: ref_of_def text_of_def cell_str_def split: if_splits)
qed

text \<open>C15. What admission settles is not refused row by row. For every record whose head can be mapped and every metric of a
  manifest that passes admission, the observation is constructed exactly when the resolution of the record is
  declared by the registry; an undeclared one is refused with that error and no other. A resolution that the manifest
  fixes is a declared one, so there the observation is always constructed; one that is read from the source may not be.\<close>
theorem admitted_manifest_constructs:
  assumes "validate_manifest m = Inr vr" "vr_status vr = Vs_ok"
    and "dataset (ct_dataset_id (m_contract m)) = Some contract"
    and "name \<in> set (ct_metrics (m_contract m))" "dget (mb_metrics (m_mapping m)) name = Some mm"
    and "hex_pattern 16 (mc_derivation_id ctx)" "hex_pattern 64 (mc_payload_sha256 ctx)" "mc_raw_ref ctx \<noteq> []"
    and "mk_field_ref (tm_resolution (mb_time (m_mapping m))) = Inr ref"
    and "record_head env m r ctx = Inr fm"
  shows "mk_observation (observation_of m contract ctx fm name mm v)
      = (if fm_resolution fm \<in> set (dc_resolutions contract) then Inr (observation_of m contract ctx fm name mm v)
         else Inl (ValueError ''resolution not declared''))
    \<and> (fr_constant (tm_resolution (mb_time (m_mapping m))) \<noteq> None \<longrightarrow> fm_resolution fm \<in> set (dc_resolutions contract))"
proof
  have "metric_errors m contract = Inr [] \<and> dimension_errors m contract = Inr []
      \<and> other_errors m contract = [] \<and> metric_of contract name \<noteq> None"
    by (rule validate_manifest_ok [OF assms(1,2)]) (use assms(3,4) in auto)
  then have errs: "metric_errors m contract = Inr []" "dimension_errors m contract = Inr []"
      "other_errors m contract = []" "metric_of contract name \<noteq> None" by auto
  then obtain spec where s: "metric_of contract name = Some spec" by auto
  have u: "mm_unit mm = ms_unit spec"
    using metric_errors_none [OF errs(1) assms(4) s] assms(5) by auto
  have did: "dataset (dc_dataset_id contract) = Some contract"
    using dataset_id_of [OF assms(3)] assms(3) by simp
  have ver: "version_in_identity contract \<Longrightarrow> mb_source_version (m_mapping m) \<noteq> None"
    using errs(3) by (auto simp: other_errors_def split: if_splits)
  note fm = record_head_frame [OF assms(10)]
  show "mk_observation (observation_of m contract ctx fm name mm v)
      = (if fm_resolution fm \<in> set (dc_resolutions contract) then Inr (observation_of m contract ctx fm name mm v)
         else Inl (ValueError ''resolution not declared''))"
    using assms(3-8) s u did ver fm dimension_errors_none [OF errs(2)] registered_text(1) [OF assms(3)]
    by (auto simp: mk_observation_def fields_ok_def against_registry_def observation_of_def check_def)
  show "fr_constant (tm_resolution (mb_time (m_mapping m))) \<noteq> None \<longrightarrow> fm_resolution fm \<in> set (dc_resolutions contract)"
  proof (intro impI)
    assume "fr_constant (tm_resolution (mb_time (m_mapping m))) \<noteq> None"
    then obtain c where c: "fr_constant (tm_resolution (mb_time (m_mapping m))) = Some c" by auto
    then have d: "c \<in> set (dc_resolutions contract)" using errs(3) by (auto simp: other_errors_def split: if_splits)
    then show "fm_resolution fm \<in> set (dc_resolutions contract)"
      using constant_resolution [OF assms(10) c assms(9) registered_text(2) [OF assms(3) d]] by simp
  qed
qed

subsection \<open>A concrete document\<close>

definition sample_env :: pyenv where
  "sample_env = \<lparr>zone_info = (\<lambda>_. prague_2026), date_fromisoformat = (\<lambda>_. None),
     datetime_fromisoformat = (\<lambda>s. if s = ''2026-03-29T00:00:00+01:00'' then Some (Aware 1774738800000000) else None)\<rparr>"

definition sample_ctx :: mapping_context where
  "sample_ctx = \<lparr>mc_target_id = ''ceps_load'', mc_scheduled_for = 1774738800000000, mc_delivery_day = 739704,
     mc_fetched_at = 1774738800000000, mc_raw_ref = ''bronze/blobs/aa'',
     mc_payload_sha256 = ''aaaaaaaaaaaaaaaaaaaaaaaaaaaaaaaaaaaaaaaaaaaaaaaaaaaaaaaaaaaaaaaa'',
     mc_processed_at = 1774738800000000, mc_derivation_id = ''aaaaaaaaaaaaaaaa''\<rparr>"

definition sample_doc :: document where
  "sample_doc = XmlDoc (Elem ''root'' [] None
     [Elem ''{ns}item'' [(''date'', ''2026-03-29T00:00:00+01:00''), (''value1'', ''97''), (''value2'', ''-3'')] None []])"

definition sample_record :: source_record where
  "sample_record = \<lparr>rec_fields = [(''@date'', CText ''2026-03-29T00:00:00+01:00''), (''@value1'', CText ''97''),
     (''@value2'', CText ''-3'')], rec_locator = ''/root/item''\<rparr>"

lemma sample_parses: "generic_parse ceps_manifest sample_doc = Inr [sample_record]"
  by code_simp

theorem parsed_records_complete_witness:
  "''@date'' \<in> set (required_source_fields ceps_manifest) \<and> dget (rec_fields sample_record) ''@date'' \<noteq> None"
proof -
  have req: "''@date'' \<in> set (required_source_fields ceps_manifest)"
    and dec: "ct_decode (m_contract ceps_manifest) \<noteq> Dk_json" by code_simp+
  show ?thesis using parsed_records_complete [OF sample_parses _ dec req, of sample_record] req by simp
qed

definition sample_row :: energy_observation where
  "sample_row =
     \<lparr>source_id = ''ceps'', dataset_id = ''ceps.load'', source_transport = Soap,
      contract_version = ''1.0.0'', derivation_id = ''aaaaaaaaaaaaaaaa'', raw_ref = ''bronze/blobs/aa'',
      payload_sha256 = ''aaaaaaaaaaaaaaaaaaaaaaaaaaaaaaaaaaaaaaaaaaaaaaaaaaaaaaaaaaaaaaaa'',
      fetched_at = 1774738800000000, source_published_at = None, source_version = Some ''RT'',
      processed_at = 1774738800000000,
      delivery_interval = \<lparr>di_start = 1774738800000000, di_end = 1774739700000000\<rparr>,
      resolution = ''PT15M'', local_date = 739704, period_index = None, kind = Kind_interval,
      dimensions = [(''area'', ''CZ''), (''aggregation_function'', ''AVG'')], metric = ''load_incl_pumping'',
      obs_value = Some (Dec False 97 0), obs_unit = ''MW'', sign_convention = As_published\<rparr>"

text \<open>The second metric is negative where the registry only expects otherwise: an event, no refusal.\<close>
lemma sample_maps:
  "map_records sample_env ceps_manifest [sample_record] sample_ctx
   = Inr \<lparr>mr_observations = [sample_row, sample_row\<lparr>metric := ''load'', obs_value := Some (Dec True 3 0)\<rparr>],
          mr_events = [negative_event ''load'' (Dec True 3 0) ''/root/item'']\<rparr>"
  by code_simp

theorem mapped_observations_conform_witness:
  "mr_observations (\<lparr>mr_observations = [sample_row, sample_row\<lparr>metric := ''load'', obs_value := Some (Dec True 3 0)\<rparr>],
     mr_events = [negative_event ''load'' (Dec True 3 0) ''/root/item'']\<rparr>) \<noteq> []
   \<and> (\<exists>contract spec. conforms sample_row contract spec)"
  using mapped_observations_conform [OF sample_maps] by auto

theorem mapping_drops_nothing_witness:
  "\<exists>contract x y. dataset ''ceps.load'' = Some contract
    \<and> row_of sample_env ceps_manifest contract sample_ctx sample_record ''load_incl_pumping''
        \<lparr>mm_source = ''@value1'', mm_unit = ''MW'', mm_sign = As_published, mm_decimal_separator = Dot\<rparr> x
    \<and> y \<in> {sample_row, sample_row\<lparr>metric := ''load'', obs_value := Some (Dec True 3 0)\<rparr>}
    \<and> observation_identity y = observation_identity x"
proof -
  have mm: "(''load_incl_pumping'',
      \<lparr>mm_source = ''@value1'', mm_unit = ''MW'', mm_sign = As_published, mm_decimal_separator = Dot\<rparr>)
      \<in> set (mb_metrics (m_mapping ceps_manifest))" by code_simp
  have "ct_dataset_id (m_contract ceps_manifest) = ''ceps.load''" by code_simp
  then show ?thesis
    using mapping_drops_nothing [OF sample_maps _ mm] by (force simp del: observation_identity_def)
qed

definition sample_frame :: record_frame where
  "sample_frame = \<lparr>fm_resolution = ''PT15M'', fm_interval = \<lparr>di_start = 1774738800000000, di_end = 1774739700000000\<rparr>,
     fm_local_date = 739704, fm_period_index = None, fm_source_version = Some ''RT'', fm_published = None\<rparr>"

lemma sample_head: "record_head sample_env ceps_manifest sample_record sample_ctx = Inr sample_frame"
  by code_simp

theorem admitted_manifest_constructs_witness:
  "mk_observation (observation_of ceps_manifest ceps_load sample_ctx sample_frame ''load''
     \<lparr>mm_source = ''@value2'', mm_unit = ''MW'', mm_sign = As_published, mm_decimal_separator = Dot\<rparr> None)
   = Inr (observation_of ceps_manifest ceps_load sample_ctx sample_frame ''load''
     \<lparr>mm_source = ''@value2'', mm_unit = ''MW'', mm_sign = As_published, mm_decimal_separator = Dot\<rparr> None)"
proof -
  obtain vr where vr: "validate_manifest ceps_manifest = Inr vr" "vr_status vr = Vs_ok"
    using ceps_manifest_admitted by (cases "validate_manifest ceps_manifest") auto
  have facts: "dataset (ct_dataset_id (m_contract ceps_manifest)) = Some ceps_load"
    "''load'' \<in> set (ct_metrics (m_contract ceps_manifest))"
    "dget (mb_metrics (m_mapping ceps_manifest)) ''load'' = Some
       \<lparr>mm_source = ''@value2'', mm_unit = ''MW'', mm_sign = As_published, mm_decimal_separator = Dot\<rparr>"
    "hex_pattern 16 (mc_derivation_id sample_ctx)"
    "hex_pattern 64 (mc_payload_sha256 sample_ctx)" "mc_raw_ref sample_ctx \<noteq> []"
    "mk_field_ref (tm_resolution (mb_time (m_mapping ceps_manifest))) = Inr \<lparr>fr_source = None, fr_constant = Some ''PT15M'', fr_context = None\<rparr>"
    by code_simp+
  have "fr_constant (tm_resolution (mb_time (m_mapping ceps_manifest))) \<noteq> None" by code_simp
  with admitted_manifest_constructs [OF vr facts sample_head, of None] show ?thesis by simp
qed

subsection \<open>Completeness\<close>

definition periods_on :: "energy_observation list \<Rightarrow> date \<Rightarrow> instant set" where
  "periods_on xs d = {delivery_start_utc x |x. x \<in> set xs \<and> local_date x = d \<and> obs_value x \<noteq> None}"

lemma periods_on_Cons:
  "periods_on (x # xs) d = (if local_date x = d \<and> obs_value x \<noteq> None
     then insert (delivery_start_utc x) (periods_on xs d) else periods_on xs d)"
  by (auto simp: periods_on_def)

definition periods_in :: "(date, instant list) dict \<Rightarrow> date \<Rightarrow> instant set" where
  "periods_in p d = (case dget p d of None \<Rightarrow> {} | Some s \<Rightarrow> set s)"

definition periods_distinct :: "(date, instant list) dict \<Rightarrow> bool" where
  "periods_distinct p \<longleftrightarrow> (\<forall>d. distinct (case dget p d of None \<Rightarrow> [] | Some s \<Rightarrow> s))"

lemma add_period_distinct: "periods_distinct p \<Longrightarrow> periods_distinct (add_period x p)"
  unfolding periods_distinct_def add_period_def Let_def dget_dset by (simp add: distinct_insert)

lemma add_period_in:
  "periods_in (add_period x p) d = (if local_date x = d \<and> obs_value x \<noteq> None
     then insert (delivery_start_utc x) (periods_in p d) else periods_in p d)"
  by (cases "dget p d"; cases "d = local_date x") (auto simp: add_period_def periods_in_def Let_def)

lemma present_periods_lookup:
  assumes "periods_distinct p"
  shows "periods_distinct (present_periods xs p) \<and>
    periods_in (present_periods xs p) d = periods_in p d \<union> periods_on xs d"
  using assms
proof (induction xs arbitrary: p)
  case Nil
  then show ?case by (simp add: periods_on_def)
next
  case (Cons x xs)
  from Cons.IH [OF add_period_distinct [OF Cons.prems, of x]] show ?case
    by (auto simp: periods_on_Cons add_period_in)
qed

lemma dkeys_dset_set: "set (dkeys (dset k v d)) = insert k (set (dkeys d))"
  by (induction d) auto

lemma present_periods_keys: "set (dkeys (present_periods xs p)) = set (dkeys p) \<union> local_date ` set xs"
proof (induction xs arbitrary: p)
  case (Cons x xs)
  then show ?case by (simp only: present_periods.simps add_period_def Let_def dkeys_dset_set) simp
qed simp

lemma present_periods_distinct: "distinct (dkeys p) \<Longrightarrow> distinct (dkeys (present_periods xs p))"
proof (induction xs arbitrary: p)
  case (Cons x xs)
  then show ?case by (simp only: present_periods.simps add_period_def Let_def distinct_dset)
qed simp

lemma present_periods_length:
  assumes "d \<in> local_date ` set xs"
  shows "length (the (dget (present_periods xs []) d)) = card (periods_on xs d)"
proof -
  obtain s where s: "dget (present_periods xs []) d = Some s"
    using assms present_periods_keys [of xs "[]"] by (metis dget_None_iff empty_set list.simps(8) not_Some_eq sup_bot_left)
  have "distinct s" "set s = periods_on xs d"
    using present_periods_lookup [of "[]" xs d] s
    by (auto simp: periods_in_def periods_distinct_def dest: spec [of _ d])
  with s show ?thesis by (simp add: distinct_card [symmetric])
qed

lemma digit_char_neq [simp]: "digit_char n \<noteq> CHR '':''" "CHR '':'' \<noteq> digit_char n"
proof -
  have "n mod 10 \<le> 9" by simp
  then have "(of_char (digit_char n) :: nat) \<noteq> of_char (CHR '':'')" by (simp add: digit_char_def)
  then show "digit_char n \<noteq> CHR '':''" "CHR '':'' \<noteq> digit_char n" by metis+
qed

lemma after_colon_append: "CHR '':'' \<notin> set a \<Longrightarrow> after_colon (a @ CHR '':'' # CHR '' '' # b) = Some b"
proof (induction a)
  case (Cons c a)
  then show ?case by (cases a) auto
qed simp

text \<open>The status word read back from an event's text is the one the counts give.\<close>
lemma status_of_partition_event: "status_of (partition_event day got expected) = Some (status_word got expected)"
proof -
  have "CHR '':'' \<notin> set (date_isoformat day)"
    by (auto simp: date_isoformat_def pad4_def pad2_def)
  then show ?thesis
    by (simp add: status_of_def partition_event_def after_colon_append)
       (auto simp: status_word_def)
qed

text \<open>C16. The completeness events of a document are one per local day that occurs in it, in order; each
  counts the distinct periods with a value against the number of intervals the calendar gives that
  day, and its status reads complete, empty or partial accordingly.\<close>
theorem partition_status_counts:
  assumes "partition_status xs res tz = Inr evs"
  shows "list_all2 (\<lambda>day e. \<exists>ivs. local_day_intervals day res tz = Inr ivs
      \<and> e = partition_event day (card (periods_on xs day)) (length ivs)
      \<and> status_of e = Some (status_word (card (periods_on xs day)) (length ivs)))
    (sorted_list_of_set (local_date ` set xs)) evs"
proof -
  define present where "present = present_periods xs []"
  have days: "sort (dkeys present) = sorted_list_of_set (local_date ` set xs)"
    using present_periods_keys [of xs "[]"] present_periods_distinct [of "[]" xs]
    by (intro sorted_distinct_set_unique) (auto simp: present_def)
  have all: "list_all2 (\<lambda>day e. \<exists>ivs. local_day_intervals day res tz = Inr ivs
      \<and> e = partition_event day (length (the (dget present day))) (length ivs)) (sort (dkeys present)) evs"
    using assms unfolding partition_status_def present_def [symmetric] Let_def mapR_Inr_iff
    by (elim list_all2_mono) auto
  have keys: "day \<in> local_date ` set xs" if "day \<in> set (sort (dkeys present))" for day
    using that days by simp
  show ?thesis unfolding days [symmetric]
    by (rule list.rel_mono_strong [OF all])
       (metis keys present_def present_periods_length status_of_partition_event)
qed

theorem partition_status_counts_witness:
  "\<exists>e. partition_status [sample_row] ''PT15M'' prague_2026 = Inr [e] \<and> status_of e = Some ''partial''"
proof -
  obtain ivs where ivs: "local_day_intervals 739704 ''PT15M'' prague_2026 = Inr ivs" "length ivs = 92"
    using prague_spring_day length_tiling [of 900000000 82800000000 1774738800000000] by simp
  have "partition_status [sample_row] ''PT15M'' prague_2026 = Inr [partition_event 739704 1 92]"
    using ivs by (simp add: partition_status_def sample_row_def Let_def add_period_def)
  moreover from partition_status_counts [OF this] ivs
  have "status_of (partition_event 739704 1 92) = Some (status_word (card (periods_on [sample_row] 739704)) 92)"
    by (auto simp: sample_row_def)
  moreover have "periods_on [sample_row] 739704 = {1774738800000000}"
    by (auto simp: periods_on_def sample_row_def delivery_start_utc_def)
  ultimately show ?thesis by (auto simp: status_word_def)
qed

subsection \<open>Two transports\<close>

lemma dec_fix_sign: "dcoeff (dec_fix (Dec a n e)) = dcoeff (dec_fix (Dec b n e))"
  "dexp (dec_fix (Dec a n e)) = dexp (dec_fix (Dec b n e))"
  by (auto simp: dec_fix_def Let_def)

lemma dec_abs_sub_commute: "dec_abs (dec_sub v w) = dec_abs (dec_sub w v)"
proof -
  have "dmin_exp w v = dmin_exp v w" by (simp add: dmin_exp_def min.commute)
  then have "dec_sub w v = dec_fix (Dec (dscaled (dmin_exp v w) w - dscaled (dmin_exp v w) v < 0)
      (nat \<bar>dscaled (dmin_exp v w) v - dscaled (dmin_exp v w) w\<bar>) (dmin_exp v w))"
    by (simp add: dec_sub_def Let_def abs_minus_commute)
  moreover have "dec_sub v w = dec_fix (Dec (dscaled (dmin_exp v w) v - dscaled (dmin_exp v w) w < 0)
      (nat \<bar>dscaled (dmin_exp v w) v - dscaled (dmin_exp v w) w\<bar>) (dmin_exp v w))"
    by (simp add: dec_sub_def Let_def)
  ultimately show ?thesis unfolding dec_abs_def using dec_fix_sign by metis
qed

text \<open>The comparison of the two transports does not depend on which document arrives second: for two
  rows of the same period and unit from different transports, one of them the owner, comparing the
  first against the second gives the same event, or the same silence, as comparing the second
  against the first.\<close>
theorem reconcile_either_order:
  assumes "compare_key_of x = compare_key_of y" "obs_unit x = obs_unit y"
    and "source_transport x \<noteq> source_transport y"
    and "owner_transport_of x = Some owner" "owner \<in> {source_transport x, source_transport y}"
  shows "reconcile_transports [x] [(compare_key_of y, source_transport y, obs_value y)]
       = reconcile_transports [y] [(compare_key_of x, source_transport x, obs_value x)]"
proof -
  have same: "dataset_id x = dataset_id y" "metric x = metric y" "delivery_start_utc x = delivery_start_utc y"
    using assms(1) by (auto simp: compare_key_of_def)
  then have "owner_transport_of y = Some owner" using assms(4) unfolding owner_transport_of_def by metis
  moreover have "tolerance_of x = tolerance_of y" using assms(2) by (simp add: tolerance_of_def)
  moreover have "mismatch_event x owner v w = mismatch_event y owner w v" for v w
    using same assms(2,3,5) calculation(2) by (auto simp: mismatch_event_def)
  ultimately show ?thesis
    using assms by (auto simp: reconcile_transports_def compare_one_def dec_abs_sub_commute split: option.splits)
qed

theorem reconcile_either_order_witness:
  "reconcile_transports [sample_observation\<lparr>obs_value := Some (Dec False 98 0)\<rparr>]
     [(compare_key_of sample_observation, Xlsx, Some (Dec False 97 0))] \<noteq> []
   \<and> reconcile_transports [sample_observation\<lparr>source_transport := Xlsx\<rparr>]
     [(compare_key_of sample_observation, Soap, Some (Dec False 98 0))] \<noteq> []"
proof -
  define x where "x = sample_observation\<lparr>obs_value := Some (Dec False 98 0)\<rparr>"
  define y where "y = sample_observation\<lparr>source_transport := Xlsx\<rparr>"
  have facts: "compare_key_of x = compare_key_of sample_observation" "compare_key_of y = compare_key_of sample_observation"
    "obs_unit x = obs_unit y" "source_transport x = Soap" "source_transport y = Xlsx"
    "obs_value x = Some (Dec False 98 0)" "obs_value y = Some (Dec False 97 0)"
    by (simp_all add: x_def y_def sample_observation_def compare_key_of_def delivery_start_utc_def)
  have owner: "owner_transport_of x = Some Soap" unfolding x_def by code_simp
  have "reconcile_transports [x] [(compare_key_of sample_observation, Xlsx, Some (Dec False 97 0))] \<noteq> []"
    unfolding x_def by code_simp
  then show ?thesis
    using reconcile_either_order [of x y Soap] facts owner unfolding x_def [symmetric] y_def [symmetric] by simp
qed

end
