(* ===== verification/Capture_Properties.thy ===== *)
theory Capture_Properties
  imports Runtime_Safety Freshness Mapping_Properties
begin

text \<open>
  What the verbs of the runtime guarantee together: the store's invariant survives every verb, a capture
  is complete in Bronze before the ledger hears of it and does not depend on the ledger, and a run that
  has been captured is not fetched again unless forced.
\<close>

subsection \<open>A runtime\<close>

definition demo_rt :: runtime where
  "demo_rt = \<lparr>rt_manifest = ceps_manifest, rt_env = sample_env, rt_sha = demo_sha,
     rt_fetch = (\<lambda>_ _ _ _. Fetched (cq_result demo_request)), rt_others = (\<lambda>_ b. b), rt_lib = sample_decoders,
     rt_version = ''0.0.1'', rt_hash = (\<lambda>_ _ _ _. ''aaaaaaaaaaaaaaaa''), rt_clock = (\<lambda>_. 1774738800000000),
     rt_up = (\<lambda>_. True), rt_owner = ''worker'', rt_lease_ttl = 300000000, rt_reconcile_window = 172800000000\<rparr>"

definition demo_world :: world where
  "demo_world = \<lparr>w_bronze = demo_bronze, w_store = empty_store, w_tick = 0\<rparr>"

subsection \<open>The invariant\<close>

lemma safe_compute_freshness [safe_intros]: "safe (compute_freshness rt now)"
  unfolding compute_freshness_def Let_def by (intro safe_intros)

lemma safe_record_freshness [safe_intros]: "safe (record_freshness rt now)"
  unfolding record_freshness_def by (intro safe_intros)

text \<open>C17. Every verb of the runtime keeps the store's invariant and only adds to it: whatever the fetch
  answers, whatever is in Bronze, at whichever call the store becomes unavailable and whichever
  exception ends the verb, the store afterwards satisfies the invariant, no Silver row, derivation,
  invalidation or event of before is changed or gone, and no fence is lower.\<close>
theorem verbs_keep_store_invariant:
  assumes "store_ok (w_store w)"
  shows "\<forall>s \<in> {w_store (snd (capture rt t day force kd w)), w_store (snd (backfill rt limit w)),
      w_store (snd (recapture rt days at w)), w_store (snd (reconcile rt window now w)),
      w_store (snd (replay_range rt since until w)), w_store (snd (replay_derivation rt did w)),
      w_store (snd (detect_gaps rt lookback now w)), w_store (snd (process rt limit w)),
      w_store (snd (record_freshness rt now w))}. store_ok s \<and> store_grows (w_store w) s"
  by (auto simp: safe_keeps [OF safe_capture assms] safe_keeps [OF safe_backfill assms] safe_keeps [OF safe_recapture assms]
      safe_keeps [OF safe_reconcile assms] safe_keeps [OF safe_replay(1) assms] safe_keeps [OF safe_replay(2) assms]
      safe_keeps [OF safe_detect_gaps assms] safe_keeps [OF safe_process assms] safe_keeps [OF safe_record_freshness assms])

theorem verbs_keep_store_invariant_witness:
  "store_ok (w_store (snd (capture demo_rt 0 None False AK_capture demo_world)))"
proof -
  have "store_ok (w_store demo_world)" by (simp add: demo_world_def empty_store_ok)
  from verbs_keep_store_invariant [OF this, of demo_rt 0 None False AK_capture] show ?thesis by blast
qed

subsection \<open>The shape of a capture\<close>

lemma ack_total:
  assumes "store_ok (w_store w)"
  shows "\<exists>b v. ack rt t origin kd outcome cap err recap w = (Inr b, v) \<and> w_bronze v = w_bronze w"
proof -
  have keeps: "keeps_bronze (ack rt t origin kd outcome cap err recap)"
    unfolding ack_def by (intro bronze_intros)
  have marked: "\<exists>x. mark_recaptured s (r_id run) cid now = Inr x" if "run_there run s" for run s cid now
    using that by (auto simp: mark_recaptured_def run_there_def Let_def)
  have there: "run_there r t'" if "ensure_run (w_store w) tg sc st og cp nw = (r, t')" for r t' tg sc st og cp nw
    using ensure_run_ok(3) [OF assms that] by (simp add: run_there_def)
  have "\<exists>b. fst (ack rt t origin kd outcome cap err recap w) = Inr b"
    using marked there
    by (auto simp: ack_def bindP_def now_of_def if_unavailable_def call_def callE_def ret_def
        split: prod.splits option.splits sum.splits run_error.splits if_splits) (metis sum.distinct(1))+
  then obtain b where b: "fst (ack rt t origin kd outcome cap err recap w) = Inr b" by blast
  show ?thesis
  proof (cases "ack rt t origin kd outcome cap err recap w")
    case (Pair r v)
    with b keeps_bronzeD [OF keeps] show ?thesis by auto
  qed
qed

text \<open>What a capture did to Bronze before its acknowledgement.\<close>
definition capture_effect ::
    "runtime \<Rightarrow> instant \<Rightarrow> bool \<Rightarrow> bronze \<Rightarrow> bronze \<Rightarrow> attempt_outcome \<Rightarrow> capture_entry option \<Rightarrow> bool \<Rightarrow> bool" where
  "capture_effect rt t force b b1 outcome entry created \<longleftrightarrow>
     (let existing = entries_for (br_log b) (rt_target rt) t in
      outcome = AO_noop \<and> existing \<noteq> [] \<and> \<not> force \<and> b1 = b \<and> entry = Some (last existing) \<and> \<not> created
    \<or> (outcome = AO_source_unavailable \<or> outcome = AO_failed) \<and> b1 = b \<and> entry = None \<and> \<not> created
    \<or> (\<exists>q r. bronze_capture (rt_sha rt) (rt_others rt) q b = (r, b1) \<and> cq_target_id q = rt_target rt
         \<and> cq_scheduled_for q = t \<and> cq_force q = force \<and> cq_baseline q = Given (capture_baseline rt t b)
         \<and> (case r of Inl _ \<Rightarrow> outcome = AO_failed \<and> entry = None \<and> \<not> created
            | Inr (e, c) \<Rightarrow> outcome = AO_ok \<and> entry = Some e \<and> created = c)))"

lemma outage_irrelevant [simp]:
  "capture_baseline (rt\<lparr>rt_up := u\<rparr>) = capture_baseline rt"
  "do_fetch (rt\<lparr>rt_up := u\<rparr>) = do_fetch rt" "do_bronze_capture (rt\<lparr>rt_up := u\<rparr>) = do_bronze_capture rt"
  "rt_zone (rt\<lparr>rt_up := u\<rparr>) = rt_zone rt" "run_day (rt\<lparr>rt_up := u\<rparr>) = run_day rt"
  by (auto simp: fun_eq_iff capture_baseline_def do_fetch_def do_bronze_capture_def rt_zone_def run_day_def split: option.split)

lemma capture_shape:
  "(\<exists>e n d b. rt_fetch rt n t d b = Fetch_raised e \<and> (\<forall>u. capture (rt\<lparr>rt_up := u\<rparr>) t day force kd w = (Inl (Uncaught e), tick w))) \<or>
   (\<exists>outcome cap err recap entry created v.
     (\<forall>u. capture (rt\<lparr>rt_up := u\<rparr>) t day force kd w
        = bindP (ack (rt\<lparr>rt_up := u\<rparr>) t (if kd = AK_backfill then RO_backfill else RO_scheduled) kd outcome cap err recap)
            (\<lambda>updated. ret (mk_report t outcome entry created err updated)) v)
     \<and> w_store v = w_store w \<and> capture_effect rt t force (w_bronze w) (w_bronze v) outcome entry created)"
  (is "?raised \<or> ?acked")
proof -
  let ?existing = "entries_for (br_log (w_bronze w)) (rt_target rt) t"
  let ?base = "capture_baseline rt t (w_bronze w)"
  show ?thesis
  proof (cases "?existing \<noteq> [] \<and> \<not> force")
    case True
    then have ?acked
      by (intro exI [of _ AO_noop] exI [of _ "Some (ce_capture_id (last ?existing))"] exI [of _ None] exI [of _ False]
          exI [of _ "Some (last ?existing)"] exI [of _ w])
         (simp add: capture_def bindP_def bronze_of_def capture_effect_def)
    then show ?thesis ..
  next
    case False
    note defs = capture_def bindP_def bronze_of_def do_fetch_def capture_effect_def
    show ?thesis
    proof (cases "rt_fetch rt (w_tick w) t (run_day rt t day) ?base")
      case (Source_unavailable e)
      with False have ?acked
        by (intro exI [of _ AO_source_unavailable] exI [of _ None] exI [of _ "Some e"] exI [of _ False]
            exI [of _ "tick w"]) (auto simp: defs)
      then show ?thesis ..
    next
      case (Fetch_raised e)
      with False have ?raised by (intro exI [of _ e] exI [of _ "w_tick w"] exI) (auto simp: defs raiseP_def)
      then show ?thesis ..
    next
      case (Cannot_build e)
      with False have ?acked
        by (intro exI [of _ AO_failed] exI [of _ None] exI [of _ "Some e"] exI [of _ False]
            exI [of _ "tick w"]) (auto simp: defs)
      then show ?thesis ..
    next
      case (Fetched x)
      define q where "q = \<lparr>cq_target_id = rt_target rt, cq_scheduled_for = t, cq_result = x,
               cq_transport = ct_source_transport (m_contract (rt_manifest rt)), cq_force = force,
               cq_baseline = Given ?base\<rparr>"
      obtain r b1 where r: "bronze_capture (rt_sha rt) (rt_others rt) q (w_bronze w) = (r, b1)" by fastforce
      show ?thesis
      proof (cases r)
        case (Inl be)
        obtain e where "be = BronzeError e" by (cases be)
        with Inl False Fetched r have ?acked
          by (intro exI [of _ AO_failed] exI [of _ None] exI [of _ "Some e"] exI [of _ False]
              exI [of _ "(tick w)\<lparr>w_bronze := b1\<rparr>"])
             (auto simp: defs do_bronze_capture_def q_def intro!: exI [of _ q])
        then show ?thesis ..
      next
        case (Inr ec)
        obtain e c where "ec = (e, c)" by (cases ec)
        with Inr False Fetched r have ?acked
          by (intro exI [of _ AO_ok] exI [of _ "Some (ce_capture_id e)"] exI [of _ None]
              exI [of _ "force \<and> c \<and> ce_content_changed e"] exI [of _ "Some e"] exI [of _ c]
              exI [of _ "(tick w)\<lparr>w_bronze := b1\<rparr>"])
             (auto simp: defs do_bronze_capture_def q_def intro!: exI [of _ q])
        then show ?thesis ..
      qed
    qed
  qed
qed

lemma capture_effect_noop: "capture_effect rt t force b b1 AO_noop entry created \<Longrightarrow> b1 = b"
  unfolding capture_effect_def Let_def by (auto split: sum.split_asm prod.split_asm) (metis sum.exhaust surj_pair)

text \<open>The fetch ends in one of the ways a capture handles.\<close>
definition answered :: "runtime \<Rightarrow> bool" where
  "answered rt \<longleftrightarrow> (\<forall>n t d b e. rt_fetch rt n t d b \<noteq> Fetch_raised e)"

lemma capture_ends:
  assumes "store_ok (w_store w)"
  shows "(\<exists>e n d b. rt_fetch rt n t d b = Fetch_raised e \<and> (\<forall>u. capture (rt\<lparr>rt_up := u\<rparr>) t day force kd w = (Inl (Uncaught e), tick w))) \<or>
    (\<exists>outcome entry created err b1. capture_effect rt t force (w_bronze w) b1 outcome entry created \<and>
      (\<forall>u. \<exists>updated v. capture (rt\<lparr>rt_up := u\<rparr>) t day force kd w = (Inr (mk_report t outcome entry created err updated), v)
         \<and> w_bronze v = b1))"
  using capture_shape [of rt t day force kd w]
proof (elim disjE exE conjE)
  fix outcome cap err recap entry created v0
  assume shape: "\<forall>u. capture (rt\<lparr>rt_up := u\<rparr>) t day force kd w
        = bindP (ack (rt\<lparr>rt_up := u\<rparr>) t (if kd = AK_backfill then RO_backfill else RO_scheduled) kd outcome cap err recap)
            (\<lambda>updated. ret (mk_report t outcome entry created err updated)) v0"
    and v0: "w_store v0 = w_store w" "capture_effect rt t force (w_bronze w) (w_bronze v0) outcome entry created"
  have ok: "store_ok (w_store v0)" using assms v0 by simp
  have "\<exists>updated v. capture (rt\<lparr>rt_up := x\<rparr>) t day force kd w = (Inr (mk_report t outcome entry created err updated), v)
      \<and> w_bronze v = w_bronze v0" for x
    using ack_total [OF ok, of "rt\<lparr>rt_up := x\<rparr>" t "if kd = AK_backfill then RO_backfill else RO_scheduled" kd outcome cap err recap]
      shape by (auto simp: bindP_def ret_def)
  with v0 show ?thesis by blast
qed blast

lemma capture_total:
  assumes "store_ok (w_store w)" and "answered rt"
  shows "\<exists>rep v. capture rt t day force kd w = (Inr rep, v)"
  using capture_ends [OF assms(1), of rt t day force kd] assms(2) unfolding answered_def
  by (auto dest: spec [of _ "rt_up rt"])

lemma demo_answered: "answered demo_rt"
  by (simp add: answered_def demo_rt_def)

subsection \<open>Captures\<close>

text \<open>C18. A capture does not depend on the ledger (the store is written last and best-effort): for any two
  patterns of store outages, the capture ends the same way, with the same Bronze. It raises nothing
  but what the fetch raised unhandled; when it returns, its outcome, entry and error are the same and
  only the flag that tells whether the ledger was updated may differ.\<close>
theorem capture_survives_outage:
  assumes "store_ok (w_store w)"
  shows "\<exists>r r' v v'. capture (rt\<lparr>rt_up := u\<rparr>) t day force kd w = (r, v)
    \<and> capture (rt\<lparr>rt_up := u'\<rparr>) t day force kd w = (r', v') \<and> w_bronze v = w_bronze v'
    \<and> ((\<exists>rep rep'. r = Inr rep \<and> r' = Inr rep' \<and> rep' = rep\<lparr>cp_ledger_updated := cp_ledger_updated rep'\<rparr>)
       \<or> (\<exists>e n d b. r = Inl (Uncaught e) \<and> r' = r \<and> rt_fetch rt n t d b = Fetch_raised e))"
  using capture_ends [OF assms, of rt t day force kd]
proof (elim disjE exE conjE)
  fix outcome entry created err b1
  assume one: "\<forall>u. \<exists>updated v. capture (rt\<lparr>rt_up := u\<rparr>) t day force kd w
    = (Inr (mk_report t outcome entry created err updated), v) \<and> w_bronze v = b1"
  from spec [OF one, of u] spec [OF one, of u'] show ?thesis by (auto simp: mk_report_def)
qed blast

theorem capture_survives_outage_witness:
  "\<exists>r v. capture (demo_rt\<lparr>rt_up := (\<lambda>_. False)\<rparr>) 0 None False AK_capture demo_world = (Inr r, v)"
proof -
  have "store_ok (w_store demo_world)" by (simp add: demo_world_def empty_store_ok)
  from capture_survives_outage [OF this, where rt = demo_rt and u = "\<lambda>_. False"] demo_answered show ?thesis
    unfolding answered_def by blast
qed

lemma log_list_mem:
  assumes "bronze_ok sha b" "e \<in> set (log_list (br_log b) target since until)"
  shows "dget (lg_entries (br_log b)) (ce_key e) = Some e"
  using assms dvalues_iff [OF bronze_okD(2) [OF assms(1)]] bronze_okD(3) [OF assms(1)]
  by (auto simp: log_list_def ordered_def)

lemma capture_baseline_in_log:
  assumes "bronze_ok sha b" "capture_baseline rt t b = Some e"
  shows "dget (lg_entries (br_log b)) (ce_key e) = Some e"
proof -
  have "e \<in> set (log_list (br_log b) (rt_target rt) (Some (midnight_utc (rt_zone rt) (delivery_day_for t (rt_zone rt))))
      (Some (midnight_utc (rt_zone rt) (delivery_day_for t (rt_zone rt) + 1))))"
    using assms(2) by (auto simp: capture_baseline_def delivery_day_bounds_def Let_def dest!: last_opt_SomeD)
  then show ?thesis using log_list_mem [OF assms(1)] by blast
qed

lemma capture_effect_bronze:
  assumes "sha_ok (rt_sha rt)" "others_ok (rt_sha rt) (rt_others rt)" "bronze_ok (rt_sha rt) b"
    and "capture_effect rt t force b b1 outcome entry created"
  shows "bronze_ok (rt_sha rt) b1 \<and> bronze_grows b b1 \<and>
    (outcome = AO_ok \<or> outcome = AO_noop \<longrightarrow> (\<exists>e. entry = Some e \<and> dget (lg_entries (br_log b1)) (ce_key e) = Some e
       \<and> ce_target_id e = rt_target rt \<and> ce_scheduled_for e = t \<and> bronze_verify (rt_sha rt) b1 e))"
proof -
  have verified: "bronze_verify (rt_sha rt) b' e" if "bronze_ok (rt_sha rt) b'" "dget (lg_entries (br_log b')) (ce_key e) = Some e" for b' e
    using bronze_okD(3) [OF that] verify_there [OF assms(1)] by blast
  consider (noop) "outcome = AO_noop" "entries_for (br_log b) (rt_target rt) t \<noteq> []" "b1 = b"
      "entry = Some (last (entries_for (br_log b) (rt_target rt) t))"
    | (bad) "outcome = AO_source_unavailable \<or> outcome = AO_failed" "b1 = b"
    | (went) q r where "bronze_capture (rt_sha rt) (rt_others rt) q b = (r, b1)" "cq_target_id q = rt_target rt"
        "cq_scheduled_for q = t" "cq_baseline q = Given (capture_baseline rt t b)"
        "case r of Inl _ \<Rightarrow> outcome = AO_failed \<and> entry = None \<and> \<not> created
          | Inr (e, c) \<Rightarrow> outcome = AO_ok \<and> entry = Some e \<and> created = c"
    using assms(4) unfolding capture_effect_def Let_def by blast
  then show ?thesis
  proof cases
    case noop
    then have "last (entries_for (br_log b) (rt_target rt) t) \<in> set (entries_for (br_log b) (rt_target rt) t)" by simp
    with noop entries_for_mem [OF assms(3)] assms(3) verified show ?thesis by auto
  next
    case bad
    with assms(3) show ?thesis by auto
  next
    case went
    have base: "baseline_ok q b"
      using went(4) capture_baseline_in_log [OF assms(3)] by (auto simp: baseline_ok_def split: option.splits)
    have "capture_loop (rt_sha rt) (rt_others rt) q MAX_ENTRY_COLLISIONS None False b = (r, b1)"
      using went(1) by (simp add: bronze_capture_def)
    from capture_loop_ok [OF assms(2,3) base _ this]
    have c: "bronze_ok (rt_sha rt) b1" "bronze_grows b b1"
      "case r of Inl _ \<Rightarrow> True | Inr (e, created) \<Rightarrow> captured_in (rt_sha rt) b b1 q e created"
      by (auto simp: blob_ok_def split: sum.splits prod.splits)
    with went verified show ?thesis by (auto simp: captured_in_def split: sum.splits prod.splits)
  qed
qed

lemma capture_world:
  assumes "store_ok (w_store w)" "capture rt t day force kd w = (Inr rep, v)"
  shows "capture_effect rt t force (w_bronze w) (w_bronze v) (cp_outcome rep) (cp_entry rep) (cp_created rep)"
  using capture_ends [OF assms(1), of rt t day force kd] assms(2)
  by (auto simp: mk_report_def dest: spec [of _ "rt_up rt"])

text \<open>C19. A capture that reports \<open>ok\<close> or \<open>noop\<close> is complete in Bronze: the entry it names is in the log, is
  for this target and instant, and its payload is there and hashes to its address; and whatever it
  reports, Bronze stays complete and nothing in it is changed or lost. This holds whatever other
  writers do, whatever the source answers and with the store down.\<close>
theorem capture_reported_is_complete:
  assumes "sha_ok (rt_sha rt)" "others_ok (rt_sha rt) (rt_others rt)" "bronze_ok (rt_sha rt) (w_bronze w)"
    and "store_ok (w_store w)" "capture rt t day force kd w = (Inr rep, v)"
  shows "bronze_ok (rt_sha rt) (w_bronze v) \<and> bronze_grows (w_bronze w) (w_bronze v) \<and>
    (cp_outcome rep = AO_ok \<or> cp_outcome rep = AO_noop \<longrightarrow>
      (\<exists>e. cp_entry rep = Some e \<and> dget (lg_entries (br_log (w_bronze v))) (ce_key e) = Some e
         \<and> ce_target_id e = rt_target rt \<and> ce_scheduled_for e = t \<and> bronze_verify (rt_sha rt) (w_bronze v) e))"
  using capture_effect_bronze [OF assms(1-3) capture_world [OF assms(4,5)]] .

theorem capture_reported_is_complete_witness:
  "\<exists>rep v. capture demo_rt 0 None False AK_capture demo_world = (Inr rep, v) \<and> bronze_ok demo_sha (w_bronze v)"
proof -
  have ok: "store_ok (w_store demo_world)" by (simp add: demo_world_def empty_store_ok)
  obtain rep v where r: "capture demo_rt 0 None False AK_capture demo_world = (Inr rep, v)"
    using capture_total [OF ok demo_answered] by blast
  have "sha_ok (rt_sha demo_rt)" "others_ok (rt_sha demo_rt) (rt_others demo_rt)" "bronze_ok (rt_sha demo_rt) (w_bronze demo_world)"
    using demo_bronze_ok by (simp_all add: demo_rt_def demo_world_def)
  from capture_reported_is_complete [OF this ok r] r show ?thesis by (auto simp: demo_rt_def)
qed

text \<open>A run that has a capture is not fetched again: without \<open>force\<close>, a second capture answers \<open>noop\<close>
  with the run's newest entry and leaves Bronze as it is, whatever the source would answer now.\<close>
theorem capture_idempotent:
  assumes "store_ok (w_store w)" "entries_for (br_log (w_bronze w)) (rt_target rt) t \<noteq> []"
    and "capture rt t day False kd w = (Inr rep, v)"
  shows "cp_outcome rep = AO_noop \<and> cp_entry rep = Some (last (entries_for (br_log (w_bronze w)) (rt_target rt) t))
    \<and> w_bronze v = w_bronze w \<and> capture (rt\<lparr>rt_fetch := f\<rparr>) t day False kd w = (Inr rep, v)"
proof -
  have zone: "ack (rt\<lparr>rt_fetch := f\<rparr>) t og k oc cap er rc = ack rt t og k oc cap er rc" for og k oc cap er rc
    by (simp add: ack_def cong: if_cong option.case_cong)
  have "capture (rt\<lparr>rt_fetch := f\<rparr>) t day False kd w = capture rt t day False kd w"
    using assms(2) by (simp add: capture_def bindP_def bronze_of_def zone)
  moreover have "cp_outcome rep = AO_noop \<and> cp_entry rep = Some (last (entries_for (br_log (w_bronze w)) (rt_target rt) t))"
    using assms(2,3) by (auto simp: capture_def Let_def bindP_def bronze_of_def ret_def mk_report_def split: sum.splits prod.splits)
  moreover from this capture_world [OF assms(1,3)] have "w_bronze v = w_bronze w"
    using capture_effect_noop by metis
  ultimately show ?thesis using assms(3) by simp
qed

theorem capture_idempotent_witness:
  "\<exists>w rep v. entries_for (br_log (w_bronze w)) (rt_target demo_rt) 0 \<noteq> [] \<and>
     capture demo_rt 0 None False AK_capture w = (Inr rep, v) \<and> cp_outcome rep = AO_noop \<and> w_bronze v = w_bronze w"
proof -
  define e where "e = demo_entry\<lparr>ce_target_id := ''ceps_load'', ce_scheduled_for := 0\<rparr>"
  define w where "w = demo_world\<lparr>w_bronze := demo_bronze\<lparr>br_log := \<lparr>lg_entries = [(''k'', e)], lg_invalidations = []\<rparr>\<rparr>\<rparr>"
  have ok: "store_ok (w_store w)" by (simp add: w_def demo_world_def empty_store_ok)
  have ne: "entries_for (br_log (w_bronze w)) (rt_target demo_rt) 0 \<noteq> []"
    by (simp add: w_def e_def entries_for_def ordered_def demo_rt_def ceps_manifest_def)
  obtain rep v where r: "capture demo_rt 0 None False AK_capture w = (Inr rep, v)" using capture_total [OF ok demo_answered] by blast
  from capture_idempotent [OF ok ne r] ne r show ?thesis by blast
qed

end
