(* ===== verification/Process_Properties.thy ===== *)
theory Process_Properties
  imports Capture_Properties Store_Properties
begin

text \<open>
  What \<open>process\<close> writes: Silver changes only by the observations that a verified, valid capture maps to,
  under the fence of the claim; refused documents and invalidated captures write nothing. A crash of
  the mapping is shown where it can happen.
\<close>

subsection \<open>Programs that leave Silver alone\<close>

named_theorems silver_intros \<open>programs that leave Silver alone\<close>

definition keeps_silver :: "'a prog \<Rightarrow> bool" where
  "keeps_silver m \<longleftrightarrow> (\<forall>w. store_ok (w_store w) \<longrightarrow> store_ok (w_store (snd (m w))) \<and> silver (w_store (snd (m w))) = silver (w_store w))"

lemma keeps_silverD:
  "keeps_silver m \<Longrightarrow> store_ok (w_store w) \<Longrightarrow> m w = (r, v) \<Longrightarrow> store_ok (w_store v) \<and> silver (w_store v) = silver (w_store w)"
  unfolding keeps_silver_def by (metis snd_conv)

lemma keeps_silver_basic [silver_intros]:
  "keeps_silver (ret x)" "keeps_silver (raiseP e)" "keeps_silver (now_of clock)" "keeps_silver (bronze_of f)"
  "keeps_silver (query up g)" "keeps_silver (queryE up h)" "keeps_silver (liftR y)"
  by (auto simp: keeps_silver_def ret_def raiseP_def now_of_def bronze_of_def query_def queryE_def liftR_def
      split: sum.splits prod.splits)

lemma keeps_silver_bind [silver_intros]:
  assumes "keeps_silver m" and "\<And>x. keeps_silver (f x)"
  shows "keeps_silver (bindP m f)"
  unfolding keeps_silver_def
proof (intro allI impI)
  fix w :: world
  assume ok: "store_ok (w_store w)"
  show "store_ok (w_store (snd (bindP m f w))) \<and> silver (w_store (snd (bindP m f w))) = silver (w_store w)"
  proof (cases rule: bindP_cases [where m = m and w = w and f = f])
    case (Fail e v)
    then show ?thesis using keeps_silverD [OF assms(1) ok] by simp
  next
    case (Next x v)
    with keeps_silverD [OF assms(1) ok] have v: "store_ok (w_store v)" "silver (w_store v) = silver (w_store w)" by auto
    with Next assms(2) [of x] show ?thesis by (simp add: keeps_silver_def)
  qed
qed

lemma silver_attempts [simp]: "silver (s\<lparr>st_attempts := x\<rparr>) = silver s"
  by (auto simp: silver_def seen_at_def)

lemma commit_silver:
  assumes "store_ok s" and "commit s c state outcome err deriv os es now = Inr (res, t)"
  shows "store_ok t \<and> (if cr_lost_lease res then silver t = silver s \<and> run_fence s (r_id (cl_run c)) \<noteq> Some (cl_fence c)
    else silver t = silver s \<union> observed ` set os \<and> run_fence s (r_id (cl_run c)) = Some (cl_fence c))"
proof -
  obtain run where run: "dget (st_runs s) (r_id (cl_run c)) = Some run"
    using assms(2) by (auto simp: commit_def split: option.splits)
  show ?thesis
  proof (cases "r_fence run = cl_fence c")
    case True
    with commit_held [OF assms(1) run True assms(2)] run show ?thesis by (simp add: run_fence_def)
  next
    case False
    from commit_stale [OF assms(1) run False assms(2)]
    have t: "store_ok t" "cr_lost_lease res" "t = s\<lparr>st_attempts := st_attempts t\<rparr>" by blast+
    from arg_cong [OF t(3), of silver] have "silver t = silver s" by simp
    with t False run show ?thesis by (simp add: run_fence_def)
  qed
qed

lemma keeps_silver_commit_nothing [silver_intros]:
  "keeps_silver (callE up (\<lambda>s. commit s c state outcome err deriv [] es now))"
  unfolding keeps_silver_def
proof (intro allI impI)
  fix w :: world
  assume ok: "store_ok (w_store w)"
  let ?f = "\<lambda>s. commit s c state outcome err deriv [] es now"
  show "store_ok (w_store (snd (callE up ?f w))) \<and> silver (w_store (snd (callE up ?f w))) = silver (w_store w)"
  proof (cases "up (w_tick w)")
    case False
    then show ?thesis using ok by (simp add: callE_def)
  next
    case True
    show ?thesis
    proof (cases "?f (w_store w)")
      case (Inl e)
      then show ?thesis using ok True by (simp add: callE_def)
    next
      case (Inr y)
      obtain res t where y: "y = (res, t)" by (cases y)
      from commit_silver [OF ok Inr [unfolded y]] Inr y True show ?thesis
        by (simp add: callE_def split: if_splits)
    qed
  qed
qed

lemma keeps_silver_refuse [silver_intros]: "keeps_silver (refuse rt c deriv outcome err e)"
  unfolding refuse_def by (intro silver_intros)

lemma keeps_silver_fail [silver_intros]: "keeps_silver (fail rt c deriv err)" "keeps_silver (refuse_invalidated rt c deriv cid)"
  unfolding fail_def refuse_invalidated_def by (intro silver_intros)+

lemma keeps_silver_case [silver_intros]:
  "(b \<Longrightarrow> keeps_silver m) \<Longrightarrow> (\<not> b \<Longrightarrow> keeps_silver n) \<Longrightarrow> keeps_silver (if b then m else n)"
  by simp

subsection \<open>One claim\<close>

definition found_entry :: "claim \<Rightarrow> bronze \<Rightarrow> capture_entry option" where
  "found_entry c b = Option.bind (named_capture c) (log_get (br_log b))"

lemma bind_reading:
  assumes "\<And>w. w_store (snd (m w)) = w_store w" and "bindP m f w = (r, v)"
  obtains (Ends) "w_store v = w_store w" | (Goes) x u where "w_store u = w_store w" "f x u = (r, v)"
  using assms by (metis bindP_cases snd_conv)

lemma reading_store:
  "w_store (snd (liftR y w)) = w_store w" "w_store (snd (queryE up h w)) = w_store w" "w_store (snd (now_of clock w)) = w_store w"
  by (auto simp: liftR_def raiseP_def ret_def queryE_def now_of_def split: sum.split)

lemma bind_call:
  assumes "\<And>x w. w_store (snd (g x w)) = w_store w" and "bindP (callE up f) g w = (r, v)"
  shows "w_store v = w_store w \<or> (\<exists>x. f (w_store w) = Inr (x, w_store v))"
proof (cases rule: bindP_cases [where m = "callE up f" and f = g and w = w])
  case (Fail e u)
  with assms(2) show ?thesis by (auto simp: callE_def split: if_splits sum.splits prod.splits)
next
  case (Next x u)
  from callE_Inr [OF Next(1)] have "f (w_store w) = Inr (x, w_store u)" .
  moreover have "w_store v = w_store u" using Next(2) assms by (metis snd_conv)
  ultimately show ?thesis by auto
qed

lemma commit_document_silver:
  assumes "store_ok (w_store w)" and "commit_document rt c deriv res w = (r, v)"
  shows "silver (w_store v) = silver (w_store w)
    \<or> run_fence (w_store w) (r_id (cl_run c)) = Some (cl_fence c)
      \<and> silver (w_store v) = silver (w_store w) \<union> observed ` set (mr_observations res)"
proof -
  have "w_store v = w_store w \<or> (\<exists>es now cr. commit (w_store w) c RS_processed AO_ok None (Some deriv)
      (mr_observations res) es now = Inr (cr, w_store v))"
    using assms(2) unfolding commit_document_def Let_def
    apply (rule bind_reading [OF reading_store(1)], simp)
    apply (erule bind_reading [OF reading_store(2)], simp)
    apply (erule bind_reading [OF reading_store(3)], simp)
    apply (drule bind_call [rotated])
     apply (simp add: ret_def)
    apply metis
    done
  then show ?thesis using commit_silver [OF assms(1)] by (metis (full_types))
qed

lemma process_one_cases:
  assumes "process_one rt c deriv w = (r, v)"
  obtains (Other) m u where "keeps_silver (m :: process_report prog)" "w_store u = w_store w" "m u = (r, v)"
    | (Mapped) entry payload how now res u where "found_entry c (w_bronze w) = Some entry"
        "\<not> is_invalidated (w_store w) (ce_capture_id entry) (Some (d_derivation_id deriv))"
        "bronze_read (rt_sha rt) (w_bronze w) (ce_raw_ref entry) = Inr (payload, how)"
        "map_payload rt payload (claim_context rt c deriv entry now) = Inr res"
        "w_store u = w_store w" "commit_document rt c deriv res u = (r, v)"
proof (cases "found_entry c (w_bronze w)")
  case None
  then show ?thesis using assms that(1) [of "fail rt c deriv ''capture entry not found in Bronze''" w]
    by (simp add: process_one_def bindP_def bronze_of_def found_entry_def silver_intros)
next
  case (Some entry)
  note defs = process_one_def bindP_def bronze_of_def query_def Some [unfolded found_entry_def]
  let ?bad = "is_invalidated (w_store w) (ce_capture_id entry) (Some (d_derivation_id deriv))"
  consider (down) "\<not> rt_up rt (w_tick w)" | (bad) "rt_up rt (w_tick w)" "?bad"
    | (unread) e where "rt_up rt (w_tick w)" "\<not> ?bad" "bronze_read (rt_sha rt) (w_bronze w) (ce_raw_ref entry) = Inl (BronzeError e)"
    | (got) payload how where "rt_up rt (w_tick w)" "\<not> ?bad" "bronze_read (rt_sha rt) (w_bronze w) (ce_raw_ref entry) = Inr (payload, how)"
    by (metis bronze_error.exhaust sumE surj_pair)
  then show ?thesis
  proof cases
    case down
    then show ?thesis using assms that(1) [of "raiseP Store_unavailable" "tick w"]
      by (auto simp: defs raiseP_def silver_intros)
  next
    case bad
    then show ?thesis using assms that(1) [of "refuse_invalidated rt c deriv (ce_capture_id entry)" "tick w"]
      by (simp add: defs silver_intros)
  next
    case (unread e)
    then show ?thesis using assms that(1) [of "fail rt c deriv e" "tick w"] by (simp add: defs silver_intros)
  next
    case (got payload how)
    let ?now = "rt_clock rt (w_tick (tick w))"
    let ?m = "map_payload rt payload (claim_context rt c deriv entry ?now)"
    consider (q) reason locator where "?m = Inl (Quarantined reason locator)" | (x) e where "?m = Inl (Raised e)"
      | (ok) res where "?m = Inr res" by (metis map_error.exhaust sumE)
    then show ?thesis
    proof cases
      case (q reason locator)
      then show ?thesis using assms got
          that(1) [of "refuse rt c deriv AO_quarantined reason (as_event reason locator)" "tick (tick w)"]
        by (simp add: defs now_of_def silver_intros)
    next
      case (x e)
      then show ?thesis using assms got that(1) [of "raiseP (Py e)" "tick (tick w)"]
        by (simp add: defs now_of_def silver_intros)
    next
      case (ok res)
      then show ?thesis using assms got Some that(2) [of entry payload how ?now res "tick (tick w)"]
        by (simp add: defs now_of_def)
    qed
  qed
qed

text \<open>C20. What \<open>process\<close> writes for a claimed run. Silver is as before, or: the claim names an entry of the
  capture log, no recorded decision invalidates that capture for the derivation, its payload was read
  back from Bronze under its address, the payload decodes, parses and maps without refusal, the claim
  still holds the run's fence, and Silver has grown by exactly the observations of that mapping,
  whichever way the run ends and whenever the store goes away.\<close>
theorem processed_rows_provenance:
  assumes "store_ok (w_store w)" and "process_one rt c deriv w = (r, v)"
  shows "silver (w_store v) = silver (w_store w)
    \<or> (\<exists>entry payload how now res. found_entry c (w_bronze w) = Some entry
        \<and> \<not> is_invalidated (w_store w) (ce_capture_id entry) (Some (d_derivation_id deriv))
        \<and> bronze_read (rt_sha rt) (w_bronze w) (ce_raw_ref entry) = Inr (payload, how)
        \<and> map_payload rt payload (claim_context rt c deriv entry now) = Inr res
        \<and> run_fence (w_store w) (r_id (cl_run c)) = Some (cl_fence c)
        \<and> silver (w_store v) = silver (w_store w) \<union> observed ` set (mr_observations res))"
  using assms(2)
proof (cases rule: process_one_cases)
  case (Other m u)
  then show ?thesis using keeps_silverD [OF Other(1) _ Other(3)] assms(1) by simp
next
  case (Mapped entry payload how now res u)
  then show ?thesis using commit_document_silver [OF _ Mapped(6)] assms(1) by auto
qed

lemma demo_claimed_ok: "store_ok demo_claimed"
  using store_steps_ok [OF demo_steps(1) empty_store_ok] by simp

definition demo_claimed_world :: world where
  "demo_claimed_world = \<lparr>w_bronze = demo_bronze, w_store = demo_claimed, w_tick = 0\<rparr>"

theorem processed_rows_provenance_witness:
  "\<exists>r v. process_one demo_rt demo_claim demo_derivation demo_claimed_world = (r, v)
     \<and> silver (w_store v) = silver demo_claimed"
proof -
  let ?p = "process_one demo_rt demo_claim demo_derivation demo_claimed_world"
  have ok: "store_ok (w_store demo_claimed_world)" by (simp add: demo_claimed_world_def demo_claimed_ok)
  have none: "found_entry demo_claim (w_bronze demo_claimed_world) = None" by code_simp
  obtain r v where p: "?p = (r, v)" by (cases ?p)
  from processed_rows_provenance [OF ok p] none p show ?thesis by (simp add: demo_claimed_world_def)
qed

subsection \<open>Refusals\<close>

lemma refuse_report:
  "refuse rt c deriv outcome err e w = (Inr rep, v) \<Longrightarrow>
     pr_outcome rep \<in> {outcome, AO_lost_lease} \<and> pr_inserted rep = 0 \<and> pr_error rep = Some err"
  by (auto simp: refuse_def bindP_def now_of_def callE_def ret_def report_of_def split: if_splits sum.splits prod.splits)

text \<open>C21. A capture that a recorded decision invalidates writes nothing: a claimed run whose entry is
  invalidated for the derivation leaves Silver as it is, and when the run is reported it is reported
  as quarantined (or as a lost lease) with no row inserted and a text that names the capture.\<close>
theorem invalidated_capture_writes_nothing:
  assumes "store_ok (w_store w)" and "found_entry c (w_bronze w) = Some entry"
    and "is_invalidated (w_store w) (ce_capture_id entry) (Some (d_derivation_id deriv))"
    and "process_one rt c deriv w = (r, v)"
  shows "silver (w_store v) = silver (w_store w)
    \<and> (\<forall>rep. r = Inr rep \<longrightarrow> pr_outcome rep \<in> {AO_quarantined, AO_lost_lease} \<and> pr_inserted rep = 0
          \<and> (\<exists>ivs. pr_error rep = Some (invalidated_text deriv (ce_capture_id entry) ivs)))"
proof -
  let ?m = "refuse_invalidated rt c deriv (ce_capture_id entry)"
  have go: "(r, v) = (if rt_up rt (w_tick w) then ?m (tick w) else (Inl Store_unavailable, tick w))"
    using assms(2-4) by (simp add: process_one_def bindP_def bronze_of_def query_def found_entry_def split: if_splits)
  show ?thesis
  proof (cases "rt_up rt (w_tick w)")
    case True
    with go have m: "?m (tick w) = (r, v)" by simp
    have "silver (w_store v) = silver (w_store w)"
      using keeps_silverD [OF keeps_silver_fail(2) _ m] assms(1) by simp
    moreover have "pr_outcome rep \<in> {AO_quarantined, AO_lost_lease} \<and> pr_inserted rep = 0
          \<and> (\<exists>ivs. pr_error rep = Some (invalidated_text deriv (ce_capture_id entry) ivs))" if "r = Inr rep" for rep
      using m that unfolding refuse_invalidated_def
      by (auto simp: bindP_def queryE_def split: if_splits sum.splits dest!: refuse_report)
    ultimately show ?thesis by blast
  next
    case False
    with go show ?thesis by simp
  qed
qed

definition demo_invalidated :: memory_store where
  "demo_invalidated = snd (add_invalidation demo_claimed \<lparr>i_target_id = ''ote_idm'', i_capture_id = ce_capture_id demo_entry,
     i_derivation_id = None, i_reason = ''wrong day'', i_recorded_by = ''ops'', i_recorded_at = 9\<rparr>)"

lemma demo_invalidated_ok: "store_ok demo_invalidated"
proof -
  have "store_step demo_claimed demo_invalidated"
    unfolding demo_invalidated_def by (rule st_add_invalidation, rule prod.collapse [symmetric])
  from store_steps_ok [OF step_steps [OF this] demo_claimed_ok] show ?thesis by blast
qed

theorem invalidated_capture_writes_nothing_witness:
  "\<exists>c w entry. found_entry c (w_bronze w) = Some entry
     \<and> is_invalidated (w_store w) (ce_capture_id entry) (Some (d_derivation_id demo_derivation))
     \<and> silver (w_store (snd (process_one demo_rt c demo_derivation w))) = silver (w_store w)"
proof -
  define c where "c = demo_claim\<lparr>cl_attempt := (cl_attempt demo_claim)\<lparr>a_capture_id := Some (ce_capture_id demo_entry)\<rparr>\<rparr>"
  define w where "w = \<lparr>w_bronze = demo_bronze\<lparr>br_log := \<lparr>lg_entries = [(ce_key demo_entry, demo_entry)], lg_invalidations = []\<rparr>\<rparr>,
     w_store = demo_invalidated, w_tick = 0\<rparr>"
  have ok: "store_ok (w_store w)" by (simp add: w_def demo_invalidated_ok)
  have f: "found_entry c (w_bronze w) = Some demo_entry" unfolding c_def w_def by code_simp
  have i: "is_invalidated (w_store w) (ce_capture_id demo_entry) (Some (d_derivation_id demo_derivation))"
    unfolding w_def by code_simp
  let ?p = "process_one demo_rt c demo_derivation w"
  obtain r v where p: "?p = (r, v)" by (cases ?p)
  from invalidated_capture_writes_nothing [OF ok f i p] p
  have "silver (w_store (snd ?p)) = silver (w_store w)" by simp
  with f i show ?thesis by blast
qed

subsection \<open>A crash of the mapping\<close>

text \<open>C22. A crash of the mapping. A resolution the source supplies may name more days than a \<open>timedelta\<close>
  holds; the \<open>OverflowError\<close> passes \<open>except (ValueError, IndexError)\<close> of the time mapping, so a document
  whose first record carries such a resolution ends in that exception instead of a quarantine.\<close>
theorem oversized_resolution_escapes:
  assumes "dataset (ct_dataset_id (m_contract m)) = Some contract"
    and "text_of (ref_of (Some (tm_resolution (mb_time (m_mapping m)))) r ctx) ''resolution'' r = Inr res"
    and "parse_duration res = Inl OverflowError" and "tm_kind (mb_time (m_mapping m)) = Tk_period_index"
    and "date_of_ref env (ref_of (tm_date (mb_time (m_mapping m))) r ctx) r = Inr day"
    and "int_of_ref (ref_of (tm_index (mb_time (m_mapping m))) r ctx) ''period_index'' r = Inr i"
  shows "map_records env m (r # rs) ctx = Inl (Raised OverflowError)"
  using assms
  by (simp add: map_records_def record_head_def time_of_def interval_for_index_def local_day_intervals_def catchE_def
      time_error_def Let_def)

lemma billion_days: "parse_duration ''P1000000000D'' = Inl OverflowError"
proof -
  have "opt_unit (CHR ''D'') ''1000000000D'' = (Some 1000000000, [])"
    by (simp add: opt_unit_def is_digit_def nat_of_digits_def digit_val_def)
  then show ?thesis by (simp add: parse_duration_def time_part_def or_zero_def at_end_def max_timedelta_days_def usec_day_def)
qed

text \<open>A manifest that reads the resolution from the source, as five of the repository's targets do.\<close>
definition sourced_resolution :: manifest where
  "sourced_resolution = ceps_manifest\<lparr>m_mapping := (m_mapping ceps_manifest)\<lparr>mb_time := (mb_time (m_mapping ceps_manifest))
     \<lparr>tm_kind := Tk_period_index, tm_resolution := \<lparr>fr_source = Some ''PeriodResolution'', fr_constant = None, fr_context = None\<rparr>,
      tm_date := Some \<lparr>fr_source = None, fr_constant = None, fr_context = Some Cx_delivery_day\<rparr>,
      tm_index := Some \<lparr>fr_source = Some ''PeriodIndex'', fr_constant = None, fr_context = None\<rparr>\<rparr>\<rparr>\<rparr>"

theorem oversized_resolution_escapes_witness:
  "map_records sample_env sourced_resolution [\<lparr>rec_fields = [(''PeriodResolution'', CText ''P1000000000D''),
     (''PeriodIndex'', CInt 1)], rec_locator = ''Item''\<rparr>] sample_ctx = Inl (Raised OverflowError)"
proof -
  let ?r = "\<lparr>rec_fields = [(''PeriodResolution'', CText ''P1000000000D''), (''PeriodIndex'', CInt 1)], rec_locator = ''Item''\<rparr>"
  let ?t = "mb_time (m_mapping sourced_resolution)"
  have "dataset (ct_dataset_id (m_contract sourced_resolution)) = Some ceps_load"
    and "text_of (ref_of (Some (tm_resolution ?t)) ?r sample_ctx) ''resolution'' ?r = Inr ''P1000000000D''"
    and "tm_kind ?t = Tk_period_index" and "date_of_ref sample_env (ref_of (tm_date ?t) ?r sample_ctx) ?r = Inr 739704"
    and "int_of_ref (ref_of (tm_index ?t) ?r sample_ctx) ''period_index'' ?r = Inr 1"
    by code_simp+
  then show ?thesis using oversized_resolution_escapes billion_days by blast
qed

end
