(* ===== verification/Pynet.thy ===== *)
theory Pynet
  imports Pytext "HOL-Library.Word"
begin

text \<open>
  What the fetch layer uses of the standard library: addresses and networks of \<open>ipaddress\<close> (an IPv4
  address is a 32-bit word, an IPv6 address a 128-bit word with an optional scope), and \<open>urlsplit\<close> of
  \<open>urllib.parse\<close> with the \<open>hostname\<close> and \<open>port\<close> of its result, over code points below 256.
\<close>

unbundle bit_operations_syntax

declare map_of_eq_Some_iff [simp del] Some_eq_map_of_iff [simp del]

subsection \<open>Addresses\<close>

datatype ip_addr = V4 "32 word" | V6 "128 word" "string option"

definition parse_octet :: "string \<Rightarrow> int option" where
  "parse_octet s =
     (if s = [] \<or> \<not> list_all is_digit s \<or> length s > 3 \<or> (s \<noteq> ''0'' \<and> hd s = CHR ''0'') then None
      else case py_int s of None \<Rightarrow> None | Some n \<Rightarrow> if n > 255 then None else Some n)"

definition parse_ipv4 :: "string \<Rightarrow> 32 word option" where
  "parse_ipv4 s = (case map parse_octet (split_on (CHR ''.'') s) of
       [Some a, Some b, Some c, Some d] \<Rightarrow> Some (word_of_int (((a * 256 + b) * 256 + c) * 256 + d))
     | _ \<Rightarrow> None)"

definition hex_val :: "char \<Rightarrow> int option" where
  "hex_val c =
     (let n = of_char c in
      if is_digit c then Some (n - 48)
      else if 97 \<le> n \<and> n \<le> 102 then Some (n - 87) else if 65 \<le> n \<and> n \<le> 70 then Some (n - 55) else None)"

fun hex_int :: "int \<Rightarrow> string \<Rightarrow> int option" where
  "hex_int acc [] = Some acc"
| "hex_int acc (c # cs) = (case hex_val c of None \<Rightarrow> None | Some v \<Rightarrow> hex_int (acc * 16 + v) cs)"

definition parse_hextet :: "string \<Rightarrow> int option" where
  "parse_hextet s = (if s = [] \<or> length s > 4 then None else hex_int 0 s)"

fun all_some :: "'a option list \<Rightarrow> 'a list option" where
  "all_some [] = Some []"
| "all_some (x # xs) = (case x of None \<Rightarrow> None | Some y \<Rightarrow> map_option ((#) y) (all_some xs))"

text \<open>The parts of an IPv6 address as hextets: an IPv4 suffix counts for two.\<close>
definition v6_parts :: "string list \<Rightarrow> int option list option" where
  "v6_parts ps =
     (if CHR ''.'' \<in> set (last ps)
      then (case parse_ipv4 (last ps) of
              None \<Rightarrow> None
            | Some w \<Rightarrow> Some (map parse_hextet (butlast ps) @ [Some (uint w div 65536), Some (uint w mod 65536)]))
      else Some (map parse_hextet ps))"

text \<open>Whether the part at each place is empty, in the same order.\<close>
definition v6_empty :: "string list \<Rightarrow> bool list" where
  "v6_empty ps = (if CHR ''.'' \<in> set (last ps) then map (\<lambda>p. p = []) (butlast ps) @ [False, False] else map (\<lambda>p. p = []) ps)"

definition hextets_int :: "int list \<Rightarrow> int" where
  "hextets_int hs = foldl (\<lambda>acc h. acc * 65536 + h) 0 hs"

definition v6_int :: "int option list \<Rightarrow> bool list \<Rightarrow> int option" where
  "v6_int ps empties =
     (let n = length ps; skips = filter (\<lambda>i. empties ! i) [1..<n - 1] in
      if n > 9 \<or> length skips > 1 then None
      else case skips of
        [] \<Rightarrow> if n \<noteq> 8 \<or> hd empties \<or> last empties then None else map_option hextets_int (all_some ps)
      | i # _ \<Rightarrow>
          (let hi = (if hd empties then i - 1 else i);
               lo = (if last empties then n - i - 2 else n - i - 1) in
           if hd empties \<and> hi \<noteq> 0 \<or> last empties \<and> lo \<noteq> 0 \<or> 8 < hi + lo + 1 then None
           else case (all_some (take hi ps), all_some (drop (n - lo) ps)) of
               (Some his, Some los) \<Rightarrow> Some (hextets_int (his @ replicate (8 - (hi + lo)) 0 @ los))
             | _ \<Rightarrow> None))"

definition parse_ipv6 :: "string \<Rightarrow> 128 word option" where
  "parse_ipv6 s =
     (let ps = split_on (CHR '':'') s in
      if length ps < 3 then None
      else case v6_parts ps of None \<Rightarrow> None | Some hs \<Rightarrow> map_option word_of_int (v6_int hs (v6_empty ps)))"

definition ip_address :: "string \<Rightarrow> ip_addr option" where
  "ip_address s =
     (if CHR ''/'' \<in> set s then None
      else case parse_ipv4 s of
        Some w \<Rightarrow> Some (V4 w)
      | None \<Rightarrow> (case split_first (CHR ''%'') s of
            None \<Rightarrow> map_option (\<lambda>w. V6 w None) (parse_ipv6 s)
          | Some (a, scope) \<Rightarrow> if scope = [] \<or> CHR ''%'' \<in> set scope then None
                              else map_option (\<lambda>w. V6 w (Some scope)) (parse_ipv6 a)))"

definition ipv4_mapped :: "128 word \<Rightarrow> 32 word option" where
  "ipv4_mapped w = (if drop_bit 32 w = 0xFFFF then Some (ucast w) else None)"

subsection \<open>Networks\<close>

text \<open>A network is its address and the length of its prefix.\<close>
datatype ip_net = Net4 "32 word" nat | Net6 "128 word" nat

fun in_net :: "ip_addr \<Rightarrow> ip_net \<Rightarrow> bool" where
  "in_net (V4 a) (Net4 net n) \<longleftrightarrow> a AND NOT (mask (32 - n)) = net"
| "in_net (V6 a scope) (Net6 net n) \<longleftrightarrow> a AND NOT (mask (128 - n)) = net"
| "in_net _ _ \<longleftrightarrow> False"

lemma and_not_mask_drop: "a AND NOT (mask k) = push_bit k (drop_bit k (a :: 'a::len word))"
  by (rule bit_word_eqI) (auto simp: bit_simps)

lemma masked_eq_iff:
  fixes a net :: "'a::len word"
  assumes "take_bit k net = 0"
  shows "a AND NOT (mask k) = net \<longleftrightarrow> unat a div 2 ^ k = unat net div 2 ^ k"
proof -
  have net: "push_bit k (drop_bit k net) = net" using bits_ident [of k net] assms by simp
  have drop: "drop_bit k (a AND NOT (mask k)) = drop_bit k a"
    by (rule bit_word_eqI) (auto simp: bit_simps dest: bit_imp_le_length)
  have "a AND NOT (mask k) = net \<longleftrightarrow> drop_bit k a = drop_bit k net"
    using net drop and_not_mask_drop by metis
  also have "\<dots> \<longleftrightarrow> unat a div 2 ^ k = unat net div 2 ^ k"
    unfolding word_unat_eq_iff unat_drop_bit_eq by (simp add: drop_bit_eq_div)
  finally show ?thesis .
qed

subsection \<open>URLs\<close>

record url_parts =
  up_scheme :: string
  up_netloc :: string
  up_path :: string
  up_query :: string
  up_fragment :: string

definition ascii_alpha :: "char \<Rightarrow> bool" where
  "ascii_alpha c \<longleftrightarrow> (let n = (of_char c :: nat) in 65 \<le> n \<and> n \<le> 90 \<or> 97 \<le> n \<and> n \<le> 122)"

definition scheme_char :: "char \<Rightarrow> bool" where
  "scheme_char c \<longleftrightarrow> ascii_alpha c \<or> is_digit c \<or> c \<in> set ''+-.''"

definition c0_or_space :: "char \<Rightarrow> bool" where
  "c0_or_space c \<longleftrightarrow> (of_char c :: nat) \<le> 32"

text \<open>\<open>s.rpartition('@')[2]\<close>\<close>
definition after_last :: "char \<Rightarrow> string \<Rightarrow> string" where
  "after_last c s = (case split_last c s of None \<Rightarrow> s | Some (_, b) \<Rightarrow> b)"

text \<open>\<open>s.partition(c)\<close> without the separator.\<close>
definition partition_at :: "char \<Rightarrow> string \<Rightarrow> string \<times> string" where
  "partition_at c s = (case split_first c s of None \<Rightarrow> (s, []) | Some ab \<Rightarrow> ab)"

text \<open>\<open>_check_bracketed_host\<close>: an IPvFuture literal or an IPv6 address.\<close>
definition bracketed_host_ok :: "string \<Rightarrow> bool" where
  "bracketed_host_ok h =
     (if h \<noteq> [] \<and> hd h = CHR ''v''
      then (case split_first (CHR ''.'') (tl h) of
              None \<Rightarrow> False
            | Some (v, rest) \<Rightarrow> v \<noteq> [] \<and> list_all (\<lambda>c. hex_val c \<noteq> None) v \<and> rest \<noteq> [] \<and> CHR 0x0A \<notin> set rest)
      else case ip_address h of Some (V6 _ _) \<Rightarrow> True | _ \<Rightarrow> False)"

definition bracketed_netloc_ok :: "string \<Rightarrow> bool" where
  "bracketed_netloc_ok netloc =
     (let hp = after_last (CHR ''@'') netloc in
      case split_first (CHR ''['') hp of
        Some (front, bracketed) \<Rightarrow>
          (let (h, port) = partition_at (CHR '']'') bracketed in
           front = [] \<and> (port = [] \<or> hd port = CHR '':'') \<and> bracketed_host_ok h)
      | None \<Rightarrow> bracketed_host_ok (fst (partition_at (CHR '':'') hp)))"

text \<open>\<open>(scheme, rest)\<close> when the text before the first colon is a scheme.\<close>
definition split_scheme :: "string \<Rightarrow> string \<times> string" where
  "split_scheme url = (case split_first (CHR '':'') url of
       Some (s, rest) \<Rightarrow> if s \<noteq> [] \<and> ascii_alpha (hd s) \<and> list_all scheme_char s then (py_lower s, rest) else ([], url)
     | None \<Rightarrow> ([], url))"

definition split_netloc :: "string \<Rightarrow> string \<times> string" where
  "split_netloc url = (if take 2 url = ''//''
     then (takeWhile (\<lambda>c. c \<notin> set ''/?#'') (drop 2 url), dropWhile (\<lambda>c. c \<notin> set ''/?#'') (drop 2 url))
     else ([], url))"

definition urlsplit :: "string \<Rightarrow> py_error + url_parts" where
  "urlsplit url0 =
     (let url1 = filter (\<lambda>c. c \<notin> {CHR 0x09, CHR 0x0D, CHR 0x0A}) (dropWhile c0_or_space url0);
          (scheme, url2) = split_scheme url1;
          (netloc, url3) = split_netloc url2;
          has_open = CHR ''['' \<in> set netloc; has_close = CHR '']'' \<in> set netloc;
          (url4, fragment) = partition_at (CHR ''#'') url3;
          (path, query') = partition_at (CHR ''?'') url4
      in if has_open \<noteq> has_close \<or> has_open \<and> \<not> bracketed_netloc_ok netloc then Inl (ValueError ''Invalid IPv6 URL'')
         else Inr \<lparr>up_scheme = scheme, up_netloc = netloc, up_path = path, up_query = query', up_fragment = fragment\<rparr>)"

text \<open>\<open>_hostinfo\<close>: host and port text.\<close>
definition hostinfo :: "url_parts \<Rightarrow> string \<times> string option" where
  "hostinfo p =
     (let hi = after_last (CHR ''@'') (up_netloc p);
          (h, port) = (case split_first (CHR ''['') hi of
              Some (_, bracketed) \<Rightarrow> (let (h, rest) = partition_at (CHR '']'') bracketed in (h, snd (partition_at (CHR '':'') rest)))
            | None \<Rightarrow> partition_at (CHR '':'') hi)
      in (h, if port = [] then None else Some port))"

definition hostname :: "url_parts \<Rightarrow> string option" where
  "hostname p = (let h = fst (hostinfo p) in
     if h = [] then None
     else Some (case split_first (CHR ''%'') h of None \<Rightarrow> py_lower h | Some (a, zone) \<Rightarrow> py_lower a @ CHR ''%'' # zone))"

definition port_of :: "url_parts \<Rightarrow> py_error + int option" where
  "port_of p = (case snd (hostinfo p) of
       None \<Rightarrow> Inr None
     | Some s \<Rightarrow> if \<not> list_all is_digit s then Inl (ValueError ''Port could not be cast to integer value'')
         else (case py_int s of
             None \<Rightarrow> Inl (ValueError ''Port could not be cast to integer value'')
           | Some n \<Rightarrow> if 65535 < n then Inl (ValueError ''Port out of range 0-65535'') else Inr (Some n)))"

definition urlunsplit :: "url_parts \<Rightarrow> string" where
  "urlunsplit p =
     (let u1 = (if up_netloc p \<noteq> [] \<or> up_scheme p \<in> {''http'', ''https''} \<and> take 2 (up_path p) \<noteq> ''//''
                then ''//'' @ up_netloc p @ (if up_path p \<noteq> [] \<and> hd (up_path p) \<noteq> CHR ''/'' then CHR ''/'' # up_path p else up_path p)
                else up_path p);
          u2 = (if up_scheme p \<noteq> [] then up_scheme p @ CHR '':'' # u1 else u1);
          u3 = (if up_query p \<noteq> [] then u2 @ CHR ''?'' # up_query p else u2)
      in if up_fragment p \<noteq> [] then u3 @ CHR ''#'' # up_fragment p else u3)"

end
