(* ===== verification/Policy.thy ===== *)
theory Policy
  imports Pynet Parse
begin

text \<open>
  The egress policy (src/energy_platform/fetch/policy.py): the checks on a URL, on the addresses a name
  resolves to, on the peer of a connection and on the proxy variables. An accepted address lies in none
  of the blocked ranges, read off its octets.
\<close>

subsection \<open>Exceptions of the fetch layer\<close>

text \<open>\<open>EgressError\<close> with its code, \<open>FetchFailed\<close>, and what passes through: a \<open>ValueError\<close> of the standard
  library or an exception of the HTTP library.\<close>
datatype fetch_exc =
    EgressError string string
  | FetchFailed int string bytes
  | Stray string

definition exc_text :: "fetch_exc \<Rightarrow> string" where
  "exc_text e = (case e of
       EgressError code msg \<Rightarrow> code @ '': '' @ msg
     | FetchFailed status url _ \<Rightarrow> ''HTTP '' @ str_int status @ '' from '' @ url
     | Stray s \<Rightarrow> s)"

definition stray :: "py_error + 'a \<Rightarrow> fetch_exc + 'a" where
  "stray r = (case r of Inl _ \<Rightarrow> Inl (Stray ''ValueError'') | Inr x \<Rightarrow> Inr x)"

subsection \<open>URLs\<close>

record destination =
  dn_scheme :: string
  dn_host :: string
  dn_port :: int
  dn_entry :: host_entry

definition is_ip_literal :: "string \<Rightarrow> bool" where
  "is_ip_literal h = (let in_brackets = (\<lambda>c. c \<in> set ''[]'') in
     ip_address (rev (dropWhile in_brackets (rev (dropWhile in_brackets h)))) \<noteq> None)"

definition url_host :: "url_parts \<Rightarrow> string" where
  "url_host p = py_lower (case hostname p of None \<Rightarrow> [] | Some h \<Rightarrow> h)"

definition check_url :: "string \<Rightarrow> string list \<Rightarrow> bool \<Rightarrow> fetch_exc + destination" where
  "check_url url allowed_hosts allow_insecure =
     bindR (stray (urlsplit url)) (\<lambda>parts.
       let h = url_host parts in
       if h = [] then Inl (EgressError ''host_not_allowed'' (url @ '' has no host''))
       else if is_ip_literal h then Inl (EgressError ''ip_literal'' (url @ '': IP literals are never a destination''))
       else if up_scheme parts \<notin> {''https'', ''http''}
       then Inl (EgressError ''insecure_scheme'' (url @ '': scheme must be https''))
       else if h \<notin> set allowed_hosts
       then Inl (EgressError ''host_not_allowed'' (h @ '' is not in the manifest allowed_hosts''))
       else case host h of
         None \<Rightarrow> Inl (EgressError ''host_not_registered'' (h @ '' is not in the platform host registry''))
       | Some entry \<Rightarrow>
           if up_scheme parts = ''http'' \<and> \<not> allow_insecure
           then Inl (EgressError ''insecure_scheme'' (url @ '': http needs allow_insecure on the manifest''))
           else if up_scheme parts = ''http'' \<and> \<not> he_allow_insecure entry
           then Inl (EgressError ''insecure_host_not_registered'' (h @ '': the host registry does not allow http''))
           else bindR (stray (port_of parts)) (\<lambda>p.
             let port = (case p of Some n \<Rightarrow> n | None \<Rightarrow> if up_scheme parts = ''https'' then 443 else 80) in
             if port \<notin> set (he_ports entry)
             then Inl (EgressError ''port_not_allowed'' (h @ '': port is not in the registry''))
             else Inr \<lparr>dn_scheme = up_scheme parts, dn_host = h, dn_port = port, dn_entry = entry\<rparr>))"

subsection \<open>Addresses\<close>

definition blocked_networks :: "ip_net list" where
  "blocked_networks =
     [Net4 0 8, Net4 0x0A000000 8, Net4 0x64400000 10, Net4 0x7F000000 8, Net4 0xA9FE0000 16, Net4 0xAC100000 12,
      Net4 0xC0A80000 16, Net4 0xE0000000 4,
      Net6 0 128, Net6 1 128, Net6 0xFC000000000000000000000000000000 7, Net6 0xFE800000000000000000000000000000 10,
      Net6 0xFF000000000000000000000000000000 8]"

text \<open>The textual form of an address determines it: \<open>str(a) in METADATA_ADDRESSES\<close> is equality with one of them.\<close>
definition metadata_addresses :: "ip_addr list" where
  "metadata_addresses = [V4 0xA9FEA9FE, V6 0xFD000EC2000000000000000000000254 None, V4 0x646464C8]"

definition blocked :: "ip_addr \<Rightarrow> bool" where
  "blocked a \<longleftrightarrow> a \<in> set metadata_addresses \<or> list_ex (in_net a) blocked_networks"

definition candidates :: "ip_addr \<Rightarrow> ip_addr list" where
  "candidates a = a # (case a of V6 w _ \<Rightarrow> (case ipv4_mapped w of Some v \<Rightarrow> [V4 v] | None \<Rightarrow> []) | V4 _ \<Rightarrow> [])"

fun check_each :: "string \<Rightarrow> string list \<Rightarrow> fetch_exc + unit" where
  "check_each h [] = Inr ()"
| "check_each h (s # rest) = (case ip_address s of
       None \<Rightarrow> Inl (EgressError ''unresolvable'' (h @ '' resolved to '' @ s))
     | Some a \<Rightarrow> if list_ex blocked (candidates a)
                then Inl (EgressError ''private_address'' (h @ '' resolved to '' @ s @ '', a non-public address''))
                else check_each h rest)"

definition check_addresses :: "string \<Rightarrow> string list \<Rightarrow> fetch_exc + string list" where
  "check_addresses h addresses =
     (if addresses = [] then Inl (EgressError ''unresolvable'' (h @ '' did not resolve''))
      else bindR (check_each h addresses) (\<lambda>_. Inr addresses))"

fun find_peer :: "string \<Rightarrow> string \<Rightarrow> ip_addr \<Rightarrow> string list \<Rightarrow> fetch_exc + unit" where
  "find_peer h peer a [] = Inl (EgressError ''peer_mismatch'' (h @ '': connected to '' @ peer))"
| "find_peer h peer a (s # rest) = (case ip_address s of
       None \<Rightarrow> Inl (Stray ''ValueError'')
     | Some b \<Rightarrow> if b = a then Inr () else find_peer h peer a rest)"

definition check_peer :: "string \<Rightarrow> string option \<Rightarrow> string list \<Rightarrow> fetch_exc + unit" where
  "check_peer h peer resolved = (case peer of
       None \<Rightarrow> Inl (EgressError ''peer_unknown'' (h @ '': the transport reported no peer address''))
     | Some p \<Rightarrow> (case ip_address p of
         None \<Rightarrow> Inl (EgressError ''peer_mismatch'' (h @ '': unparseable peer '' @ p))
       | Some a \<Rightarrow> find_peer h p a resolved))"

subsection \<open>Proxies\<close>

fun check_proxies :: "(string, string) dict \<Rightarrow> string list \<Rightarrow> fetch_exc + string list" where
  "check_proxies env [] = Inr []"
| "check_proxies env (key # keys) = (case dget env key of
       None \<Rightarrow> check_proxies env keys
     | Some v \<Rightarrow> if v = [] then check_proxies env keys
         else bindR (stray (urlsplit v)) (\<lambda>parts.
           if url_host parts \<in> {''169.254.169.254'', ''fd00:ec2::254'', ''100.100.100.200''}
           then Inl (EgressError ''private_address'' (key @ '' points at a metadata address''))
           else bindR (check_proxies env keys) (\<lambda>found. Inr (v # found))))"

definition check_proxy_environment :: "(string, string) dict \<Rightarrow> fetch_exc + string list" where
  "check_proxy_environment env = check_proxies env [''HTTPS_PROXY'', ''HTTP_PROXY'', ''https_proxy'', ''http_proxy'']"

subsection \<open>What is public\<close>

text \<open>The ranges read off the octets of an IPv4 address and the leading bits of an IPv6 address.\<close>
definition public4 :: "32 word \<Rightarrow> bool" where
  "public4 w \<longleftrightarrow> (let a = unat w div 2 ^ 24; b = unat w div 2 ^ 16 mod 256 in
     a \<notin> {0, 10, 127} \<and> \<not> (a = 100 \<and> 64 \<le> b \<and> b < 128) \<and> \<not> (a = 169 \<and> b = 254)
     \<and> \<not> (a = 172 \<and> 16 \<le> b \<and> b < 32) \<and> \<not> (a = 192 \<and> b = 168) \<and> \<not> (224 \<le> a \<and> a < 240))"

definition public6 :: "128 word \<Rightarrow> bool" where
  "public6 w \<longleftrightarrow> w \<noteq> 0 \<and> w \<noteq> 1 \<and> unat w div 2 ^ 121 \<noteq> 126 \<and> unat w div 2 ^ 118 \<noteq> 1018 \<and> unat w div 2 ^ 120 \<noteq> 255
     \<and> (unat w div 2 ^ 32 = 65535 \<longrightarrow> public4 (ucast w))"

lemma in_net_prefix:
  "take_bit (32 - n) net = 0 \<Longrightarrow> in_net (V4 w) (Net4 net n) \<longleftrightarrow> unat w div 2 ^ (32 - n) = unat net div 2 ^ (32 - n)"
  "take_bit (128 - n) net' = 0 \<Longrightarrow> in_net (V6 w' sc) (Net6 net' n) \<longleftrightarrow> unat w' div 2 ^ (128 - n) = unat net' div 2 ^ (128 - n)"
  by (simp_all only: in_net.simps masked_eq_iff)

lemma net4_prefixes:
  "in_net (V4 w) (Net4 0 8) \<longleftrightarrow> unat w div 2 ^ 24 = 0"
  "in_net (V4 w) (Net4 0x0A000000 8) \<longleftrightarrow> unat w div 2 ^ 24 = 10"
  "in_net (V4 w) (Net4 0x64400000 10) \<longleftrightarrow> unat w div 2 ^ 22 = 401"
  "in_net (V4 w) (Net4 0x7F000000 8) \<longleftrightarrow> unat w div 2 ^ 24 = 127"
  "in_net (V4 w) (Net4 0xA9FE0000 16) \<longleftrightarrow> unat w div 2 ^ 16 = 43518"
  "in_net (V4 w) (Net4 0xAC100000 12) \<longleftrightarrow> unat w div 2 ^ 20 = 2753"
  "in_net (V4 w) (Net4 0xC0A80000 16) \<longleftrightarrow> unat w div 2 ^ 16 = 49320"
  "in_net (V4 w) (Net4 0xE0000000 4) \<longleftrightarrow> unat w div 2 ^ 28 = 14"
  by (subst in_net_prefix; simp)+

lemma net6_prefixes:
  "in_net (V6 w sc) (Net6 0 128) \<longleftrightarrow> w = 0"
  "in_net (V6 w sc) (Net6 1 128) \<longleftrightarrow> w = 1"
  "in_net (V6 w sc) (Net6 0xFC000000000000000000000000000000 7) \<longleftrightarrow> unat w div 2 ^ 121 = 126"
  "in_net (V6 w sc) (Net6 0xFE800000000000000000000000000000 10) \<longleftrightarrow> unat w div 2 ^ 118 = 1018"
  "in_net (V6 w sc) (Net6 0xFF000000000000000000000000000000 8) \<longleftrightarrow> unat w div 2 ^ 120 = 255"
  by (simp, simp) (subst in_net_prefix; simp)+

lemma div_eq_bounds: "0 < k \<Longrightarrow> m div k = c \<longleftrightarrow> c * k \<le> m \<and> m < Suc c * k" for c k m :: nat
  using less_eq_div_iff_mult_less_eq [of k c m] div_less_iff_less_mult [of k m "Suc c"] by auto

lemma mod_given_div: "m div 256 = c \<Longrightarrow> m mod 256 = m - 256 * c" for m :: nat
  by (auto simp: minus_mult_div_eq_mod)

lemma octet_prefixes:
  fixes n :: nat
  shows "n div 4194304 = 401 \<longleftrightarrow> n div 16777216 = 100 \<and> 64 \<le> n div 65536 mod 256 \<and> n div 65536 mod 256 < 128"
    and "n div 65536 = 43518 \<longleftrightarrow> n div 16777216 = 169 \<and> n div 65536 mod 256 = 254"
    and "n div 1048576 = 2753 \<longleftrightarrow> n div 16777216 = 172 \<and> 16 \<le> n div 65536 mod 256 \<and> n div 65536 mod 256 < 32"
    and "n div 65536 = 49320 \<longleftrightarrow> n div 16777216 = 192 \<and> n div 65536 mod 256 = 168"
    and "n div 268435456 = 14 \<longleftrightarrow> 224 \<le> n div 16777216 \<and> n div 16777216 < 240"
proof -
  define m where "m = n div 65536"
  have d: "n div 4194304 = m div 64" "n div 16777216 = m div 256" "n div 1048576 = m div 16" "n div 268435456 = m div 4096"
    by (simp_all add: m_def div_mult2_eq [symmetric])
  have r: "m div 256 = c \<and> P (m mod 256) \<longleftrightarrow> m div 256 = c \<and> P (m - 256 * c)" for c P
    using mod_given_div by auto
  have e: "m div 64 = 401 \<longleftrightarrow> m div 256 = 100 \<and> 64 \<le> m - 256 * 100 \<and> m - 256 * 100 < 128"
    "m = 43518 \<longleftrightarrow> m div 256 = 169 \<and> m - 256 * 169 = 254"
    "m div 16 = 2753 \<longleftrightarrow> m div 256 = 172 \<and> 16 \<le> m - 256 * 172 \<and> m - 256 * 172 < 32"
    "m = 49320 \<longleftrightarrow> m div 256 = 192 \<and> m - 256 * 192 = 168"
    "m div 4096 = 14 \<longleftrightarrow> 224 \<le> m div 256 \<and> m div 256 < 240"
    by (auto simp: div_eq_bounds less_eq_div_iff_mult_less_eq div_less_iff_less_mult)
  show "n div 4194304 = 401 \<longleftrightarrow> n div 16777216 = 100 \<and> 64 \<le> n div 65536 mod 256 \<and> n div 65536 mod 256 < 128"
    unfolding d m_def [symmetric] e(1) by (rule r [of _ "\<lambda>x. 64 \<le> x \<and> x < 128", symmetric])
  show "n div 65536 = 43518 \<longleftrightarrow> n div 16777216 = 169 \<and> n div 65536 mod 256 = 254"
    unfolding d m_def [symmetric] e(2) by (rule r [of _ "\<lambda>x. x = 254", symmetric])
  show "n div 1048576 = 2753 \<longleftrightarrow> n div 16777216 = 172 \<and> 16 \<le> n div 65536 mod 256 \<and> n div 65536 mod 256 < 32"
    unfolding d m_def [symmetric] e(3) by (rule r [of _ "\<lambda>x. 16 \<le> x \<and> x < 32", symmetric])
  show "n div 65536 = 49320 \<longleftrightarrow> n div 16777216 = 192 \<and> n div 65536 mod 256 = 168"
    unfolding d m_def [symmetric] e(4) by (rule r [of _ "\<lambda>x. x = 168", symmetric])
  show "n div 268435456 = 14 \<longleftrightarrow> 224 \<le> n div 16777216 \<and> n div 16777216 < 240"
    unfolding d by (rule e(5))
qed

lemma blocked4: "blocked (V4 w) \<longleftrightarrow> \<not> public4 w"
proof -
  have "list_ex (in_net (V4 w)) blocked_networks \<longleftrightarrow> \<not> public4 w"
    by (simp add: blocked_networks_def net4_prefixes public4_def Let_def octet_prefixes del: in_net.simps(1)) blast
  moreover have "\<not> public4 0xA9FEA9FE" "\<not> public4 0x646464C8" by (simp_all add: public4_def)
  ultimately show ?thesis by (auto simp: blocked_def metadata_addresses_def)
qed

lemma blocked6: "list_ex blocked (candidates (V6 w sc)) \<longleftrightarrow> \<not> public6 w"
proof -
  have net: "blocked (V6 w sc) \<longleftrightarrow> w = 0 \<or> w = 1 \<or> unat w div 2 ^ 121 = 126 \<or> unat w div 2 ^ 118 = 1018 \<or> unat w div 2 ^ 120 = 255"
    by (auto simp: blocked_def metadata_addresses_def blocked_networks_def net6_prefixes simp del: in_net.simps(2))
  have "ipv4_mapped w = (if unat w div 2 ^ 32 = 65535 then Some (ucast w) else None)"
    unfolding ipv4_mapped_def word_unat_eq_iff unat_drop_bit_eq by (simp add: drop_bit_eq_div)
  with net show ?thesis by (auto simp: candidates_def public6_def blocked4)
qed

fun public :: "ip_addr \<Rightarrow> bool" where
  "public (V4 w) = public4 w"
| "public (V6 w sc) = public6 w"

lemma blocked_candidates: "list_ex blocked (candidates a) \<longleftrightarrow> \<not> public a"
  using blocked4 blocked6 by (cases a) (simp_all add: candidates_def)

lemma check_each_Inr: "check_each h as = Inr u \<longleftrightarrow> (\<forall>s \<in> set as. \<exists>a. ip_address s = Some a \<and> public a)"
  by (induction as) (auto simp: blocked_candidates split: option.splits)

lemma check_addresses_Inr:
  "check_addresses h as = Inr rs \<longleftrightarrow> as \<noteq> [] \<and> rs = as \<and> (\<forall>s \<in> set as. \<exists>a. ip_address s = Some a \<and> public a)"
  by (auto simp: check_addresses_def check_each_Inr)

text \<open>C25. The address check accepts a resolution exactly when it is not empty and every address of it
  parses and is public: an IPv4 address outside 0/8, 10/8, 127/8, 100.64-127, 169.254, 172.16-31,
  192.168 and 224-239 by its octets; an IPv6 address that is neither unspecified nor loopback, outside
  fc00::/7, fe80::/10 and ff00::/8, and not the mapped form of an IPv4 address that is not public. The
  metadata addresses are among those refused.\<close>
theorem check_addresses_public:
  "(check_addresses h as = Inr rs \<longleftrightarrow> as \<noteq> [] \<and> rs = as \<and> (\<forall>s \<in> set as. \<exists>a. ip_address s = Some a \<and> public a))
   \<and> \<not> (\<exists>a \<in> set metadata_addresses. public a)"
proof -
  have "blocked a" if "a \<in> set metadata_addresses" for a using that by (simp add: blocked_def)
  then show ?thesis
    using blocked_candidates by (auto simp: check_addresses_Inr candidates_def)
qed

theorem check_addresses_public_witness:
  "check_addresses ''www.ceps.cz'' [''193.34.0.1'', ''2a00:1::5''] = Inr [''193.34.0.1'', ''2a00:1::5'']
   \<and> (\<forall>rs. check_addresses ''h'' [''::ffff:10.0.0.1''] \<noteq> Inr rs)"
proof -
  have ips: "ip_address ''193.34.0.1'' = Some (V4 0xC1220001)" "ip_address ''2a00:1::5'' = Some (V6 0x2a000001000000000000000000000005 None)"
    "ip_address ''::ffff:10.0.0.1'' = Some (V6 0xFFFF0A000001 None)" by code_simp+
  have "public (V4 0xC1220001)" "public (V6 0x2a000001000000000000000000000005 None)" "\<not> public (V6 0xFFFF0A000001 None)"
    by (simp_all add: public4_def public6_def)
  with ips show ?thesis
    using check_addresses_public [of "''www.ceps.cz''" "[''193.34.0.1'', ''2a00:1::5'']"]
      check_addresses_public [of "''h''" "[''::ffff:10.0.0.1'']"] by auto
qed

lemma find_peer_Inr: "find_peer h p a rs = Inr u \<Longrightarrow> \<exists>s \<in> set rs. ip_address s = Some a"
  by (induction rs) (auto split: option.splits if_splits)

lemma check_peer_Inr:
  "check_peer h peer rs = Inr u \<Longrightarrow> \<exists>p a. peer = Some p \<and> ip_address p = Some a \<and> (\<exists>s \<in> set rs. ip_address s = Some a)"
  by (auto simp: check_peer_def split: option.splits dest: find_peer_Inr)

text \<open>What the URL check promises of a URL.\<close>
definition allowed_url :: "string list \<Rightarrow> bool \<Rightarrow> string \<Rightarrow> bool" where
  "allowed_url allowed insecure url \<longleftrightarrow> (\<exists>parts entry p. urlsplit url = Inr parts \<and> url_host parts \<in> set allowed
     \<and> host (url_host parts) = Some entry \<and> \<not> is_ip_literal (url_host parts)
     \<and> (up_scheme parts = ''https'' \<or> up_scheme parts = ''http'' \<and> insecure \<and> he_allow_insecure entry)
     \<and> port_of parts = Inr p
     \<and> (case p of Some n \<Rightarrow> n | None \<Rightarrow> if up_scheme parts = ''https'' then 443 else 80) \<in> set (he_ports entry))"

lemma check_url_Inr: "check_url url allowed insecure = Inr d \<Longrightarrow> allowed_url allowed insecure url"
  unfolding allowed_url_def by (auto simp: check_url_def stray_def Let_def split: sum.splits if_splits option.splits)

end
