(* ===== verification/Pyquery.thy ===== *)
theory Pyquery
  imports Pynet
begin

text \<open>
  Query strings of \<open>urllib.parse\<close>: \<open>urlencode\<close> (\<open>quote_plus\<close> of names and values) and \<open>parse_qsl\<close> with blank
  values kept, over code points below 256, and the two round trips the fetch layer rests on: a query
  reads back as the pairs it was built from, and a URL splits into the parts it was put together from.
\<close>

subsection \<open>Quoting\<close>

definition hex_digit :: "nat \<Rightarrow> char" where
  "hex_digit n = ''0123456789ABCDEF'' ! n"

definition percent :: "nat \<Rightarrow> string" where
  "percent n = [CHR ''%'', hex_digit (n div 16), hex_digit (n mod 16)]"

definition unreserved :: "char \<Rightarrow> bool" where
  "unreserved c \<longleftrightarrow> ascii_alpha c \<or> is_digit c \<or> c \<in> set ''_.-~''"

text \<open>UTF-8 of a code point below 256.\<close>
definition utf8 :: "char \<Rightarrow> nat list" where
  "utf8 c = (let n = of_char c in if n < 128 then [n] else [192 + n div 64, 128 + n mod 64])"

definition quote_char :: "char \<Rightarrow> string" where
  "quote_char c = (if unreserved c then [c] else if c = CHR '' '' then [CHR ''+''] else concat (map percent (utf8 c)))"

definition quote_plus :: "string \<Rightarrow> string" where
  "quote_plus s = concat (map quote_char s)"

definition join_with :: "string \<Rightarrow> string list \<Rightarrow> string" where
  "join_with sep ss = (case ss of [] \<Rightarrow> [] | s # rest \<Rightarrow> s @ concat (map (\<lambda>x. sep @ x) rest))"

definition urlencode :: "(string \<times> string) list \<Rightarrow> string" where
  "urlencode ps = join_with ''&'' (map (\<lambda>(k, v). quote_plus k @ CHR ''='' # quote_plus v) ps)"

subsection \<open>Unquoting\<close>

definition hex_nat :: "char \<Rightarrow> nat option" where
  "hex_nat c = map_option nat (hex_val c)"

text \<open>Bytes of the ASCII runs and the code points between them.\<close>
fun unquote_bytes :: "string \<Rightarrow> (nat + char) list" where
  "unquote_bytes [] = []"
| "unquote_bytes (c # rest) =
     (if c = CHR ''%''
      then (case rest of
              h # l # rest' \<Rightarrow> (case (hex_nat h, hex_nat l) of
                  (Some a, Some b) \<Rightarrow> Inl (16 * a + b) # unquote_bytes rest'
                | _ \<Rightarrow> Inl 37 # unquote_bytes rest)
            | _ \<Rightarrow> Inl 37 # unquote_bytes rest)
      else if (of_char c :: nat) < 128 then Inl (of_char c) # unquote_bytes rest
      else Inr c # unquote_bytes rest)"

text \<open>Decoding as UTF-8. A sequence that is invalid or denotes a code point of 256 or more is outside the
  model of text; it stands as a question mark.\<close>
fun decode_utf8 :: "(nat + char) list \<Rightarrow> string" where
  "decode_utf8 [] = []"
| "decode_utf8 (Inr c # rest) = c # decode_utf8 rest"
| "decode_utf8 (Inl b # rest) =
     (if b < 128 then char_of b # decode_utf8 rest
      else case rest of
        Inl b' # rest' \<Rightarrow>
          if (b = 194 \<or> b = 195) \<and> 128 \<le> b' \<and> b' < 192 then char_of ((b - 192) * 64 + (b' - 128)) # decode_utf8 rest'
          else CHR ''?'' # decode_utf8 rest
      | _ \<Rightarrow> CHR ''?'' # decode_utf8 rest)"

definition unquote_plus :: "string \<Rightarrow> string" where
  "unquote_plus s = decode_utf8 (unquote_bytes (map (\<lambda>c. if c = CHR ''+'' then CHR '' '' else c) s))"

definition parse_qsl :: "string \<Rightarrow> (string \<times> string) list" where
  "parse_qsl qs = map (\<lambda>nv. (case split_first (CHR ''='') nv of
        None \<Rightarrow> (unquote_plus nv, [])
      | Some (n, v) \<Rightarrow> (unquote_plus n, unquote_plus v)))
     (filter (\<lambda>nv. nv \<noteq> []) (split_on (CHR ''&'') qs))"

subsection \<open>Round trips\<close>

lemma hex_digit_val: "n < 16 \<Longrightarrow> hex_nat (hex_digit n) = Some n"
proof -
  have "\<forall>n \<in> {0..<16}. hex_nat (hex_digit n) = Some n" by code_simp
  then show "n < 16 \<Longrightarrow> ?thesis" by simp
qed

lemma hex_digit_chars: "n < 16 \<Longrightarrow> hex_digit n \<notin> {CHR ''+'', CHR ''&'', CHR ''='', CHR ''#'', CHR ''?'', CHR 0x09, CHR 0x0A, CHR 0x0D}"
proof -
  have "\<forall>n \<in> {0..<16}. hex_digit n \<notin> {CHR ''+'', CHR ''&'', CHR ''='', CHR ''#'', CHR ''?'', CHR 0x09, CHR 0x0A, CHR 0x0D}" by code_simp
  then show "n < 16 \<Longrightarrow> ?thesis" by simp
qed

abbreviation plus_space :: "string \<Rightarrow> string" where
  "plus_space \<equiv> map (\<lambda>c. if c = CHR ''+'' then CHR '' '' else c)"

lemma unquote_percent:
  "n < 256 \<Longrightarrow> unquote_bytes (plus_space (percent n) @ rest) = Inl n # unquote_bytes rest"
  using hex_digit_chars [of "n div 16"] hex_digit_chars [of "n mod 16"]
  by (simp add: percent_def hex_digit_val)

lemma unquote_safe:
  assumes "unreserved c"
  shows "unquote_bytes (plus_space [c] @ rest) = Inl (of_char c) # unquote_bytes rest" "(of_char c :: nat) < 128"
proof -
  have "c \<noteq> CHR ''%'' \<and> c \<noteq> CHR ''+'' \<and> (of_char c :: nat) < 128"
    using assms by (auto simp: unreserved_def ascii_alpha_def is_digit_def Let_def)
  then show "unquote_bytes (plus_space [c] @ rest) = Inl (of_char c) # unquote_bytes rest" "(of_char c :: nat) < 128" by auto
qed

lemma utf8_bytes: "b \<in> set (utf8 c) \<Longrightarrow> b < 256"
proof -
  obtain n where n: "of_char c = n" "(n :: nat) < 256" by simp
  have "192 + n div 64 < 256" using n(2) by arith
  then show "b \<in> set (utf8 c) \<Longrightarrow> b < 256" using n(2) by (auto simp: utf8_def Let_def n(1) split: if_splits)
qed

lemma unquote_percents:
  "(\<And>b. b \<in> set bs \<Longrightarrow> b < 256) \<Longrightarrow>
     unquote_bytes (plus_space (concat (map percent bs)) @ rest) = map Inl bs @ unquote_bytes rest"
proof (induction bs)
  case (Cons b bs)
  then show ?case using unquote_percent [of b "plus_space (concat (map percent bs)) @ rest"] by simp
qed simp

lemma decode_utf8_char: "decode_utf8 (map Inl (utf8 c) @ rest) = c # decode_utf8 rest"
proof (cases "(of_char c :: nat) < 128")
  case True
  then show ?thesis by (simp add: utf8_def)
next
  case False
  obtain n where n: "of_char c = n" "(n :: nat) < 256" by simp
  have c: "c = char_of n" by (simp flip: n(1))
  have q: "n div 64 = 2 \<or> n div 64 = 3" using False n by arith
  moreover have "n = 128 + n mod 64" if "n div 64 = 2" using div_mult_mod_eq [of n 64, unfolded that] by simp
  moreover have "n = 192 + n mod 64" if "n div 64 = 3" using div_mult_mod_eq [of n 64, unfolded that] by simp
  ultimately have "n div 64 = 2 \<and> n = 128 + n mod 64 \<or> n div 64 = 3 \<and> n = 192 + n mod 64" by blast
  moreover have "n mod 64 < 64" by simp
  ultimately show ?thesis using False n(1) c by (auto simp: utf8_def Let_def)
qed

lemma unquote_quote_char: "decode_utf8 (unquote_bytes (plus_space (quote_char c) @ rest)) = c # decode_utf8 (unquote_bytes rest)"
proof (cases "unreserved c")
  case True
  then show ?thesis using unquote_safe [OF True] by (simp add: quote_char_def)
next
  case False
  show ?thesis
  proof (cases "c = CHR '' ''")
    case True
    have "char_of (32 :: nat) = CHR '' ''" by code_simp
    then show ?thesis using False True by (simp add: quote_char_def)
  next
    case sp: False
    have "unquote_bytes (plus_space (quote_char c) @ rest) = map Inl (utf8 c) @ unquote_bytes rest"
      using unquote_percents [of "utf8 c"] utf8_bytes False sp by (simp add: quote_char_def)
    then show ?thesis by (simp add: decode_utf8_char)
  qed
qed

lemma unquote_quote: "unquote_plus (quote_plus s) = s"
proof -
  have "decode_utf8 (unquote_bytes (plus_space (concat (map quote_char s)))) = s"
  proof (induction s)
    case (Cons c s)
    then show ?case using unquote_quote_char [of c "plus_space (concat (map quote_char s))"] by simp
  qed simp
  then show ?thesis by (simp add: unquote_plus_def quote_plus_def)
qed

text \<open>Quoted text has none of the characters that structure a URL.\<close>
definition query_safe :: "char \<Rightarrow> bool" where
  "query_safe c \<longleftrightarrow> c \<notin> {CHR ''&'', CHR ''='', CHR ''#'', CHR ''?'', CHR 0x09, CHR 0x0A, CHR 0x0D}"

lemma quote_char_safe: "c \<in> set (quote_char d) \<Longrightarrow> query_safe c"
proof -
  have "query_safe c" if "n < 256" "c \<in> set (percent n)" for n
  proof -
    have "n div 16 < 16" "n mod 16 < 16" using that by auto
    with that hex_digit_chars [of "n div 16"] hex_digit_chars [of "n mod 16"] show ?thesis
      by (auto simp: percent_def query_safe_def)
  qed
  moreover have "query_safe d" if "unreserved d"
    using that by (auto simp: unreserved_def ascii_alpha_def is_digit_def query_safe_def Let_def)
  ultimately show "c \<in> set (quote_char d) \<Longrightarrow> query_safe c"
    using utf8_bytes by (fastforce simp: quote_char_def query_safe_def split: if_splits)
qed

lemma quote_plus_safe: "c \<in> set (quote_plus s) \<Longrightarrow> query_safe c"
  using quote_char_safe by (auto simp: quote_plus_def)

lemma split_on_join:
  assumes "ss \<noteq> []" "\<And>s. s \<in> set ss \<Longrightarrow> c \<notin> set s"
  shows "split_on c (join_with [c] ss @ c # rest) = ss @ split_on c rest" "split_on c (join_with [c] ss) = ss"
  using assms
proof (induction ss arbitrary: rest rule: list_nonempty_induct)
  case (single s)
  { case 1 then show ?case by (simp add: join_with_def split_on_append) }
  { case 2 then show ?case by (simp add: join_with_def split_on_single) }
next
  case (cons s ss)
  obtain s2 ss2 where ss: "ss = s2 # ss2" using cons.hyps by (cases ss) auto
  have j: "join_with [c] (s # ss) = s @ c # join_with [c] ss" by (simp add: join_with_def ss)
  { case 1 with cons.IH(1) show ?case by (simp add: j split_on_append) }
  { case 2 with cons.IH(2) show ?case by (simp add: j split_on_append) }
qed

lemma parse_qsl_pairs:
  "map (\<lambda>nv. (case split_first (CHR ''='') nv of None \<Rightarrow> (unquote_plus nv, []) | Some (n, v) \<Rightarrow> (unquote_plus n, unquote_plus v)))
     (map (\<lambda>(k, v). quote_plus k @ CHR ''='' # quote_plus v) ps) = ps"
proof (induction ps)
  case (Cons p ps)
  obtain k v where p: "p = (k, v)" by (cases p)
  have "CHR ''='' \<notin> set (quote_plus k)" using quote_plus_safe by (fastforce simp: query_safe_def)
  then show ?case using Cons by (simp add: p split_first_append unquote_quote)
qed simp

lemma encoded_pieces:
  "s \<in> set (map (\<lambda>(k, v). quote_plus k @ CHR ''='' # quote_plus v) ps) \<Longrightarrow> CHR ''&'' \<notin> set s \<and> s \<noteq> []"
  using quote_plus_safe by (fastforce simp: query_safe_def)

lemma parse_qsl_urlencode: "parse_qsl (urlencode ps) = ps"
proof (cases "ps = []")
  case True
  then show ?thesis by (simp add: urlencode_def join_with_def parse_qsl_def)
next
  case False
  let ?ss = "map (\<lambda>(k, v). quote_plus k @ CHR ''='' # quote_plus v) ps"
  have "split_on (CHR ''&'') (urlencode ps) = ?ss"
    unfolding urlencode_def using split_on_join(2) [of ?ss "CHR ''&''"] encoded_pieces [of _ ps] False by blast
  moreover have "filter (\<lambda>nv. nv \<noteq> []) ?ss = ?ss" using encoded_pieces [of _ ps] by (auto simp: filter_id_conv)
  ultimately show ?thesis using parse_qsl_pairs [of ps] by (simp add: parse_qsl_def)
qed

lemma split_on_append2: "split_on c (a @ c # b) = split_on c a @ split_on c b"
  by (induction a) (auto split: list.split)

text \<open>A query appended to another.\<close>
lemma parse_qsl_append: "parse_qsl (a @ CHR ''&'' # urlencode ps) = parse_qsl a @ ps"
  using parse_qsl_urlencode [of ps] by (simp add: parse_qsl_def split_on_append2)

lemma join_with_set: "c \<in> set (join_with sep ss) \<Longrightarrow> c \<in> set sep \<or> (\<exists>s \<in> set ss. c \<in> set s)"
  by (auto simp: join_with_def split: list.splits if_splits)

lemma urlencode_safe: "c \<in> set (urlencode ps) \<Longrightarrow> query_safe c \<or> c = CHR ''&'' \<or> c = CHR ''=''"
  unfolding urlencode_def using quote_plus_safe by (auto dest!: join_with_set)

subsection \<open>Splitting what was put together\<close>

definition no_break :: "string \<Rightarrow> bool" where
  "no_break s \<longleftrightarrow> set s \<inter> {CHR 0x09, CHR 0x0D, CHR 0x0A} = {}"

definition netloc_ok :: "string \<Rightarrow> bool" where
  "netloc_ok n \<longleftrightarrow> (CHR ''['' \<in> set n) = (CHR '']'' \<in> set n) \<and> (CHR ''['' \<in> set n \<longrightarrow> bracketed_netloc_ok n)"

text \<open>The parts of a web URL.\<close>
definition web_parts :: "url_parts \<Rightarrow> bool" where
  "web_parts p \<longleftrightarrow> (up_scheme p = ''http'' \<or> up_scheme p = ''https'') \<and> up_netloc p \<noteq> [] \<and> set (up_netloc p) \<inter> set ''/?#'' = {}
     \<and> netloc_ok (up_netloc p) \<and> (up_path p = [] \<or> hd (up_path p) = CHR ''/'') \<and> set (up_path p) \<inter> set ''?#'' = {}
     \<and> CHR ''#'' \<notin> set (up_query p) \<and> no_break (up_netloc p) \<and> no_break (up_path p) \<and> no_break (up_query p) \<and> no_break (up_fragment p)"

lemma no_break_filter: "no_break s \<Longrightarrow> filter (\<lambda>c. c \<notin> {CHR 0x09, CHR 0x0D, CHR 0x0A}) s = s"
  by (auto simp: no_break_def filter_id_conv)

lemma no_break_simps [simp]: "no_break [] = True" "no_break (c # s) = (c \<notin> {CHR 0x09, CHR 0x0D, CHR 0x0A} \<and> no_break s)"
  "no_break (s @ s') = (no_break s \<and> no_break s')"
  by (auto simp: no_break_def)

lemma partition_at_absent: "c \<notin> set s \<Longrightarrow> partition_at c s = (s, [])"
  by (auto simp: partition_at_def split_first_def)

lemma partition_at_append: "c \<notin> set a \<Longrightarrow> partition_at c (a @ c # b) = (a, b)"
  by (simp add: partition_at_def split_first_append)

definition tail_of :: "url_parts \<Rightarrow> string" where
  "tail_of p = up_path p @ (if up_query p \<noteq> [] then CHR ''?'' # up_query p else [])
     @ (if up_fragment p \<noteq> [] then CHR ''#'' # up_fragment p else [])"

lemma urlunsplit_web: "web_parts p \<Longrightarrow> urlunsplit p = up_scheme p @ ''://'' @ up_netloc p @ tail_of p"
  by (auto simp: web_parts_def urlunsplit_def tail_of_def Let_def)

lemma tail_head: "web_parts p \<Longrightarrow> tail_of p = [] \<or> hd (tail_of p) \<in> set ''/?#''"
  by (cases "up_path p") (auto simp: web_parts_def tail_of_def)

lemma tail_parts:
  assumes "web_parts p"
  shows "partition_at (CHR ''#'') (tail_of p) = (up_path p @ (if up_query p \<noteq> [] then CHR ''?'' # up_query p else []), up_fragment p)"
    and "partition_at (CHR ''?'') (up_path p @ (if up_query p \<noteq> [] then CHR ''?'' # up_query p else [])) = (up_path p, up_query p)"
proof -
  let ?a = "up_path p @ (if up_query p \<noteq> [] then CHR ''?'' # up_query p else [])"
  have "CHR ''#'' \<notin> set ?a" "CHR ''?'' \<notin> set (up_path p)" using assms by (auto simp: web_parts_def)
  then show "partition_at (CHR ''#'') (tail_of p) = (?a, up_fragment p)" "partition_at (CHR ''?'') ?a = (up_path p, up_query p)"
    using partition_at_append [of "CHR ''#''" ?a "up_fragment p"] partition_at_absent [of "CHR ''#''" ?a]
      partition_at_append [of "CHR ''?''" "up_path p" "up_query p"] partition_at_absent [of "CHR ''?''" "up_path p"]
    by (auto simp: tail_of_def)
qed

lemma split_scheme_web:
  "s = ''http'' \<or> s = ''https'' \<Longrightarrow> split_scheme (s @ '':'' @ rest) = (s, rest)"
proof -
  assume s: "s = ''http'' \<or> s = ''https''"
  then have "split_first (CHR '':'') (s @ CHR '':'' # rest) = Some (s, rest)" by (intro split_first_append) auto
  moreover have "ascii_alpha (hd s) \<and> list_all scheme_char s \<and> py_lower s = s \<and> s \<noteq> []" using s by (elim disjE) (simp_all, code_simp+)
  ultimately show ?thesis by (simp add: split_scheme_def)
qed

lemma split_netloc_web:
  assumes "set n \<inter> set ''/?#'' = {}" "r = [] \<or> hd r \<in> set ''/?#''"
  shows "split_netloc (''//'' @ n @ r) = (n, r)"
proof -
  have "takeWhile (\<lambda>c. c \<notin> set ''/?#'') (n @ r) = n" "dropWhile (\<lambda>c. c \<notin> set ''/?#'') (n @ r) = r"
    using assms by (cases r; auto simp: takeWhile_append dropWhile_append)+
  then show ?thesis by (simp add: split_netloc_def)
qed

lemma urlsplit_unsplit:
  assumes "web_parts p"
  shows "urlsplit (urlunsplit p) = Inr p"
proof -
  let ?u = "up_scheme p @ '':'' @ ''//'' @ up_netloc p @ tail_of p"
  have u: "urlunsplit p = ?u" using urlunsplit_web [OF assms] by simp
  have "no_break ?u" using assms by (auto simp: web_parts_def tail_of_def)
  moreover have "dropWhile c0_or_space ?u = ?u" using assms by (auto simp: web_parts_def c0_or_space_def)
  ultimately have f: "filter (\<lambda>c. c \<notin> {CHR 0x09, CHR 0x0D, CHR 0x0A}) (dropWhile c0_or_space ?u) = ?u"
    using no_break_filter by metis
  have s: "split_scheme ?u = (up_scheme p, ''//'' @ up_netloc p @ tail_of p)"
    using assms by (intro split_scheme_web) (auto simp: web_parts_def)
  have n: "split_netloc (''//'' @ up_netloc p @ tail_of p) = (up_netloc p, tail_of p)"
    using assms tail_head [OF assms] by (intro split_netloc_web) (auto simp: web_parts_def)
  have "netloc_ok (up_netloc p)" using assms by (simp add: web_parts_def)
  then show ?thesis unfolding u urlsplit_def f s n Let_def prod.case tail_parts [OF assms] by (auto simp: netloc_ok_def)
qed

lemma partition_at_parts: "partition_at c s = (a, b) \<Longrightarrow> c \<notin> set a \<and> set a \<subseteq> set s \<and> set b \<subseteq> set s \<and> (a \<noteq> [] \<longrightarrow> hd a = hd s)"
proof (cases "split_first c s")
  case None
  then show "partition_at c s = (a, b) \<Longrightarrow> ?thesis" by (auto simp: partition_at_def)
next
  case (Some ab)
  then show "partition_at c s = (a, b) \<Longrightarrow> ?thesis"
    using split_first_parts [of c s a b] by (auto simp: partition_at_def)
qed

lemma no_break_subset: "set a \<subseteq> set s \<Longrightarrow> no_break s \<Longrightarrow> no_break a"
  by (auto simp: no_break_def)

lemma split_scheme_subset: "split_scheme u = (s, r) \<Longrightarrow> set r \<subseteq> set u"
  by (auto simp: split_scheme_def split: option.splits if_splits dest!: split_first_parts)

lemma split_netloc_parts:
  assumes "split_netloc u = (n, r)" "n \<noteq> []"
  shows "set n \<inter> set ''/?#'' = {}" "r = [] \<or> hd r \<in> set ''/?#''" "set n \<subseteq> set u" "set r \<subseteq> set u"
proof -
  let ?P = "\<lambda>c. c \<notin> set ''/?#''"
  have n: "n = takeWhile ?P (drop 2 u)" and r: "r = dropWhile ?P (drop 2 u)"
    using assms by (auto simp: split_netloc_def split: if_splits)
  show "set n \<inter> set ''/?#'' = {}" using set_takeWhileD [of _ ?P "drop 2 u"] unfolding n by blast
  show "r = [] \<or> hd r \<in> set ''/?#''" using hd_dropWhile [of ?P "drop 2 u"] unfolding r by blast
  show "set n \<subseteq> set u" "set r \<subseteq> set u" unfolding n r
    using set_takeWhileD [of _ ?P "drop 2 u"] set_dropWhileD [of _ ?P "drop 2 u"] set_drop_subset [of 2 u] by blast+
qed

lemma urlsplit_web:
  assumes "urlsplit url = Inr p" and "up_scheme p = ''http'' \<or> up_scheme p = ''https''" and "up_netloc p \<noteq> []"
  shows "web_parts p"
proof -
  define u1 where "u1 = filter (\<lambda>c. c \<notin> {CHR 0x09, CHR 0x0D, CHR 0x0A}) (dropWhile c0_or_space url)"
  have nb: "no_break u1" by (auto simp: no_break_def u1_def)
  obtain sc u2 where s: "split_scheme u1 = (sc, u2)" by (cases "split_scheme u1")
  obtain n u3 where nl: "split_netloc u2 = (n, u3)" by (cases "split_netloc u2")
  obtain u4 f where h: "partition_at (CHR ''#'') u3 = (u4, f)" by (cases "partition_at (CHR ''#'') u3")
  obtain pa q where qu: "partition_at (CHR ''?'') u4 = (pa, q)" by (cases "partition_at (CHR ''?'') u4")
  have p: "p = \<lparr>up_scheme = sc, up_netloc = n, up_path = pa, up_query = q, up_fragment = f\<rparr>" and ok: "netloc_ok n"
    using assms(1) unfolding urlsplit_def u1_def [symmetric] s nl h qu Let_def prod.case
    by (auto simp: netloc_ok_def s nl h qu split: if_splits)
  have n0: "n \<noteq> []" using assms(3) p by simp
  note np = split_netloc_parts [OF nl n0] and hp = partition_at_parts [OF h] and qp = partition_at_parts [OF qu]
  have sub: "set u2 \<subseteq> set u1" using split_scheme_subset [OF s] .
  have "set pa \<subseteq> set u1" "set q \<subseteq> set u1" "set f \<subseteq> set u1" "set n \<subseteq> set u1" using np hp qp sub by blast+
  then have "no_break pa" "no_break q" "no_break f" "no_break n" using no_break_subset nb by blast+
  moreover have "pa = [] \<or> hd pa = CHR ''/''"
  proof (cases "pa = []")
    case False
    then have "hd pa = hd u4" "u4 \<noteq> []" using qp by auto
    moreover from this hp have "hd u4 = hd u3" "u3 \<noteq> []" by auto
    ultimately have "hd pa \<in> set ''/?#''" using np(2) by simp
    moreover have "hd pa \<in> set pa" using False by simp
    moreover have "CHR ''?'' \<notin> set pa" "CHR ''#'' \<notin> set pa" using qp hp by blast+
    ultimately show ?thesis by auto
  qed simp
  ultimately show ?thesis using ok np(1) assms(2) n0 hp qp by (auto simp: web_parts_def p)
qed

end
