(* ===== verification/Fetcher.thy ===== *)
theory Fetcher
  imports Policy Pyquery
begin

text \<open>
  The fetcher (src/energy_platform/fetch/client.py): the checks before every request, retries, redirects
  followed by hand, the check of the peer, the response-body cap and the result; and \<open>redact_query\<close> of
  src/energy_platform/fetch/secrets.py.

  The network is a parameter: what the resolver answers, what the transport answers to each request and
  \<open>urljoin\<close>. Each depends on how many requests were sent before. A fetch keeps the list of the requests
  it has sent. Sleeping, logging and closing have no effect here; \<open>_client\<close> turns redirect following off.
\<close>

subsection \<open>Requests and responses\<close>

record conditional =
  cd_etag :: "string option"
  cd_last_modified :: "string option"

definition filled :: "string option \<Rightarrow> bool" where
  "filled x \<longleftrightarrow> (case x of None \<Rightarrow> False | Some s \<Rightarrow> s \<noteq> [])"

definition conditional_headers :: "conditional \<Rightarrow> (string, string) dict" where
  "conditional_headers c =
     (if filled (cd_etag c) then [(''If-None-Match'', the (cd_etag c))] else [])
     @ (if filled (cd_last_modified c) then [(''If-Modified-Since'', the (cd_last_modified c))] else [])"

record fetch_request =
  fq_url :: string
  fq_method :: string
  fq_headers :: "(string, string) dict"
  fq_body :: "bytes option"
  fq_conditional :: "conditional option"
  fq_redact :: "string list"

record sent =
  sn_url :: string
  sn_method :: string
  sn_headers :: "(string, string) dict"
  sn_body :: "bytes option"

text \<open>A response: its header names are lower case; the body arrives in chunks and may break off.\<close>
record response =
  rs_status :: int
  rs_headers :: "(string, string) dict"
  rs_chunks :: "bytes list"
  rs_broken :: bool
  rs_peer :: "string option"

record net =
  nt_resolve :: "nat \<Rightarrow> string \<Rightarrow> int \<Rightarrow> string list option"
  nt_send :: "nat \<Rightarrow> sent \<Rightarrow> string + response"
  nt_join :: "string \<Rightarrow> string \<Rightarrow> string option"
  nt_clock :: "nat \<Rightarrow> instant"

record fetcher =
  ft_allowed_hosts :: "string list"
  ft_allow_insecure :: bool
  ft_offline :: bool
  ft_max_redirects :: nat
  ft_attempts :: nat
  ft_max_body_bytes :: nat

definition REDIRECT_STATUSES :: "int list" where
  "REDIRECT_STATUSES = [301, 302, 303, 307, 308]"

definition ERROR_BODY_BYTES :: nat where
  "ERROR_BODY_BYTES = 2048"

definition USER_AGENT :: string where
  "USER_AGENT = ''energy-platform/0.0.1 (+https://github.com/energy-platform; data ingestion)''"

subsection \<open>Secrets in URLs\<close>

definition REDACTED :: string where
  "REDACTED = ''<redacted>''"

text \<open>The URL has been split before, so \<open>urlsplit\<close> does not raise here; the text itself stands in its place.\<close>
definition redact_query :: "string \<Rightarrow> string list \<Rightarrow> string" where
  "redact_query url params =
     (if params = [] then url
      else case urlsplit url of
        Inl _ \<Rightarrow> url
      | Inr parts \<Rightarrow> urlunsplit (parts\<lparr>up_query := urlencode
          (map (\<lambda>(k, v). (k, if k \<in> set params then REDACTED else v)) (parse_qsl (up_query parts)))\<rparr>))"

subsection \<open>Bodies\<close>

fun read_chunks :: "nat \<Rightarrow> string \<Rightarrow> nat \<Rightarrow> bytes list \<Rightarrow> bool \<Rightarrow> fetch_exc + bytes" where
  "read_chunks cap url sofar [] broken = (if broken then Inl (Stray ''httpx.ReadError'') else Inr [])"
| "read_chunks cap url sofar (c # cs) broken =
     (if sofar + length c > cap then Inl (EgressError ''response_too_large'' (url @ '': body exceeds the cap''))
      else bindR (read_chunks cap url (sofar + length c) cs broken) (\<lambda>rest. Inr (c @ rest)))"

text \<open>\<open>declared.isdigit()\<close> admits digits that \<open>int\<close> refuses.\<close>
definition declared_too_large :: "string option \<Rightarrow> nat \<Rightarrow> fetch_exc + bool" where
  "declared_too_large declared cap = (case declared of
       None \<Rightarrow> Inr False
     | Some s \<Rightarrow> if \<not> py_isdigit s then Inr False
         else (case py_int s of None \<Rightarrow> Inl (Stray ''ValueError'') | Some n \<Rightarrow> Inr (int cap < n)))"

definition read_body :: "fetcher \<Rightarrow> response \<Rightarrow> string \<Rightarrow> fetch_exc + bytes" where
  "read_body ft resp url =
     bindR (declared_too_large (dget (rs_headers resp) ''content-length'') (ft_max_body_bytes ft)) (\<lambda>large.
     if large then Inl (EgressError ''response_too_large'' (url @ '': Content-Length exceeds the cap''))
     else read_chunks (ft_max_body_bytes ft) url 0 (rs_chunks resp) (rs_broken resp))"

fun error_chunks :: "bytes \<Rightarrow> bytes list \<Rightarrow> bool \<Rightarrow> fetch_exc + bytes" where
  "error_chunks head' [] broken = (if broken then Inl (Stray ''httpx.ReadError'') else Inr (take ERROR_BODY_BYTES head'))"
| "error_chunks head' (c # cs) broken =
     (if length (head' @ c) \<ge> ERROR_BODY_BYTES then Inr (take ERROR_BODY_BYTES (head' @ c))
      else error_chunks (head' @ c) cs broken)"

definition error_body :: "response \<Rightarrow> fetch_exc + bytes" where
  "error_body resp = error_chunks [] (rs_chunks resp) (rs_broken resp)"

subsection \<open>Retries\<close>

datatype last_error = No_attempt | Transport_error string | Answered int string bytes

text \<open>\<open>n\<close> attempts are left.\<close>
fun send_attempts :: "net \<Rightarrow> sent \<Rightarrow> nat \<Rightarrow> last_error \<Rightarrow> sent list \<Rightarrow> (fetch_exc + response) \<times> sent list" where
  "send_attempts net q 0 le tr =
     (Inl (case le of
         Answered status url body \<Rightarrow> FetchFailed status url body
       | Transport_error e \<Rightarrow> EgressError ''fetch_error'' (sn_method q @ '' '' @ sn_url q @ '': '' @ e)
       | No_attempt \<Rightarrow> EgressError ''fetch_error'' (sn_method q @ '' '' @ sn_url q @ '': fetch_error: no attempt made'')), tr)"
| "send_attempts net q (Suc n) le tr = (case nt_send net (length tr) q of
       Inl e \<Rightarrow> send_attempts net q n (Transport_error e) (tr @ [q])
     | Inr resp \<Rightarrow>
         if rs_status resp < 500 then (Inr resp, tr @ [q])
         else (case error_body resp of
             Inl e \<Rightarrow> (Inl e, tr @ [q])
           | Inr body \<Rightarrow> send_attempts net q n (Answered (rs_status resp) (sn_url q) body) (tr @ [q])))"

definition send_with_retries :: "net \<Rightarrow> fetcher \<Rightarrow> sent \<Rightarrow> sent list \<Rightarrow> (fetch_exc + response) \<times> sent list" where
  "send_with_retries net ft q tr = send_attempts net q (ft_attempts ft) No_attempt tr"

subsection \<open>The fetch\<close>

definition resolve :: "net \<Rightarrow> fetcher \<Rightarrow> destination \<Rightarrow> sent list \<Rightarrow> fetch_exc + string list" where
  "resolve net ft d tr =
     (if ft_offline ft then Inr []
      else case nt_resolve net (length tr) (dn_host d) (dn_port d) of
        None \<Rightarrow> Inl (EgressError ''unresolvable'' (dn_host d))
      | Some addresses \<Rightarrow> check_addresses (dn_host d) addresses)"

definition verify_peer :: "fetcher \<Rightarrow> destination \<Rightarrow> response \<Rightarrow> string list \<Rightarrow> fetch_exc + unit" where
  "verify_peer ft d resp resolved = (if ft_offline ft then Inr () else check_peer (dn_host d) (rs_peer resp) resolved)"

definition result_of :: "net \<Rightarrow> fetcher \<Rightarrow> response \<Rightarrow> string list \<Rightarrow> nat \<Rightarrow> fetch_exc + fetch_result" where
  "result_of net ft resp hops n =
     (let status = rs_status resp; h = rs_headers resp in
      if status \<noteq> 304 \<and> \<not> (200 \<le> status \<and> status < 300)
      then bindR (error_body resp) (\<lambda>body. Inl (FetchFailed status (last hops) body))
      else bindR (if status = 304 then Inr [] else read_body ft resp (last hops)) (\<lambda>body.
        Inr \<lparr>res_url = last hops, res_status = status, res_headers = h, res_body = body,
             res_content_type = dget h ''content-type'', res_fetched_at = nt_clock net n, res_etag = dget h ''etag'',
             res_last_modified = dget h ''last-modified'', res_not_modified = (status = 304), res_hops = hops\<rparr>))"

definition redirect_target :: "response \<Rightarrow> string option" where
  "redirect_target resp = (if rs_status resp \<in> set REDIRECT_STATUSES then dget (rs_headers resp) ''location'' else None)"

text \<open>A 303, and a 301 or 302 that answers a POST, continues as a GET without a body.\<close>
definition next_request :: "response \<Rightarrow> string \<Rightarrow> sent \<Rightarrow> sent" where
  "next_request resp url q =
     (if rs_status resp = 303 \<or> rs_status resp \<in> {301, 302} \<and> sn_method q = ''POST''
      then q\<lparr>sn_url := url, sn_method := ''GET'', sn_body := None\<rparr> else q\<lparr>sn_url := url\<rparr>)"

fun fetch_hops :: "net \<Rightarrow> fetcher \<Rightarrow> string list \<Rightarrow> nat \<Rightarrow> sent \<Rightarrow> string list \<Rightarrow> sent list
     \<Rightarrow> (fetch_exc + fetch_result) \<times> sent list" where
  "fetch_hops net ft redact 0 q hops tr = (Inl (EgressError ''too_many_redirects'' (hd hops)), tr)"
| "fetch_hops net ft redact (Suc n) q hops tr =
     (case bindR (check_url (sn_url q) (ft_allowed_hosts ft) (ft_allow_insecure ft)) (\<lambda>d.
            bindR (resolve net ft d tr) (\<lambda>resolved. Inr (d, resolved))) of
        Inl e \<Rightarrow> (Inl e, tr)
      | Inr (d, resolved) \<Rightarrow> (case send_with_retries net ft q tr of
            (Inl e, tr') \<Rightarrow> (Inl e, tr')
          | (Inr resp, tr') \<Rightarrow> (case verify_peer ft d resp resolved of
                Inl e \<Rightarrow> (Inl e, tr')
              | Inr _ \<Rightarrow>
                  (let hops' = hops @ [redact_query (sn_url q) redact] in
                   case redirect_target resp of
                     None \<Rightarrow> (result_of net ft resp hops' (length tr'), tr')
                   | Some location \<Rightarrow> (case nt_join net (sn_url q) location of
                         None \<Rightarrow> (Inl (Stray ''ValueError''), tr')
                       | Some url \<Rightarrow> fetch_hops net ft redact n (next_request resp url q) hops' tr')))))"

definition request_headers :: "fetch_request \<Rightarrow> (string, string) dict" where
  "request_headers r =
     (let h = foldl (\<lambda>d (k, v). dset k v d) [(''User-Agent'', USER_AGENT)] (fq_headers r) in
      case fq_conditional r of None \<Rightarrow> h | Some c \<Rightarrow> foldl (\<lambda>d (k, v). dset k v d) h (conditional_headers c))"

definition fetch :: "net \<Rightarrow> fetcher \<Rightarrow> fetch_request \<Rightarrow> sent list \<Rightarrow> (fetch_exc + fetch_result) \<times> sent list" where
  "fetch net ft r tr =
     fetch_hops net ft (fq_redact r) (Suc (ft_max_redirects ft))
       \<lparr>sn_url = fq_url r, sn_method = fq_method r, sn_headers = request_headers r, sn_body = fq_body r\<rparr> [] tr"

end
