(* ===== verification/Plan.thy ===== *)
theory Plan
  imports Templates Fetcher Runtime
begin

text \<open>
  From a manifest's fetch block to the requests of one run: rendering
  (src/energy_platform/fetch/render.py), secrets (src/energy_platform/fetch/secrets.py) and the plan per
  modality (src/energy_platform/fetch/plan.py). The whole fetch of a run is the fetch of a runtime.

  Parameters: \<open>date.__format__\<close> and \<open>datetime.__format__\<close>, \<open>str.__format__\<close> with a format specification, and
  the search of a compiled \<open>link_regex\<close>.
\<close>

subsection \<open>Rendering\<close>

record fetch_context =
  fx_scheduled_for :: instant
  fx_delivery_day :: date

datatype run_value = Day date | Moment instant

record formats =
  fm_value :: "run_value \<Rightarrow> string \<Rightarrow> string option"
  fm_str :: "string \<Rightarrow> string \<Rightarrow> string option"
  fm_search :: "string \<Rightarrow> string \<Rightarrow> bool"

datatype plan_exc =
    RenderError string
  | SecretMissing string
  | SecretOutOfScope string
  | Lookup_error string
  | In_fetch fetch_exc

definition MAX_ORDINAL :: int where
  "MAX_ORDINAL = 3652059"

text \<open>\<open>_MonthBack.__getitem__\<close>; no value where \<open>date\<close> refuses the year.\<close>
definition month_back :: "bool \<Rightarrow> date \<Rightarrow> int \<Rightarrow> date option" where
  "month_back at_last day k =
     (let months = year_of day * 12 + (month_of day - 1) - k; year = months div 12; month = months mod 12 + 1 in
      if year < 1 then None else Some (ymd2ord year month (if at_last then days_in_month year month else 1)))"

definition context_value :: "fetch_context \<Rightarrow> string \<Rightarrow> run_value option" where
  "context_value ctx name =
     (if name = ''delivery_day'' then Some (Day (fx_delivery_day ctx))
      else if name = ''next_delivery_day'' then Some (Day (fx_delivery_day ctx + 1))
      else if name = ''scheduled_for'' then Some (Moment (fx_scheduled_for ctx))
      else case month_field name of
        Some (at_last, k) \<Rightarrow> map_option Day (month_back at_last (fx_delivery_day ctx) k)
      | None \<Rightarrow> None)"

text \<open>\<open>format_map\<close> over the pieces of a checked template.\<close>
fun expand :: "(string \<Rightarrow> string \<Rightarrow> string option) \<Rightarrow> piece list \<Rightarrow> string option" where
  "expand value [] = Some []"
| "expand value ((l, None) # ps) = map_option ((@) l) (expand value ps)"
| "expand value ((l, Some (name, spec, _)) # ps) = (case value name spec of
       None \<Rightarrow> None
     | Some v \<Rightarrow> map_option (\<lambda>r. l @ v @ r) (expand value ps))"

definition checked_pieces :: "string \<Rightarrow> string list \<Rightarrow> bool \<Rightarrow> plan_exc + piece list" where
  "checked_pieces template names month_index = (case check_template template names month_index of
       Inl (TemplateError e) \<Rightarrow> Inl (RenderError e)
     | Inr _ \<Rightarrow> Inr (the (fmt_parse template)))"

definition render :: "formats \<Rightarrow> string \<Rightarrow> fetch_context \<Rightarrow> plan_exc + string" where
  "render fs template ctx =
     bindR (checked_pieces template run_names True) (\<lambda>ps.
     if fx_delivery_day ctx + 1 > MAX_ORDINAL then Inl (In_fetch (Stray ''OverflowError''))
     else case expand (\<lambda>name spec. case context_value ctx name of None \<Rightarrow> None | Some v \<Rightarrow> fm_value fs v spec) ps of
       None \<Rightarrow> Inl (RenderError ''cannot render'')
     | Some s \<Rightarrow> Inr s)"

text \<open>A name of digits, or none, is positional for \<open>format_map\<close>, which then raises \<open>ValueError\<close>.\<close>
definition dict_value :: "formats \<Rightarrow> (string, string) dict \<Rightarrow> string \<Rightarrow> string \<Rightarrow> string option" where
  "dict_value fs values name spec =
     (if list_all is_digit name then None
      else case dget values name of None \<Rightarrow> None | Some v \<Rightarrow> if spec = [] then Some v else fm_str fs v spec)"

definition render_with :: "formats \<Rightarrow> string \<Rightarrow> (string, string) dict \<Rightarrow> plan_exc + string" where
  "render_with fs template values =
     bindR (checked_pieces template (dkeys values) False) (\<lambda>ps.
     case expand (dict_value fs values) ps of
       None \<Rightarrow> Inl (RenderError ''cannot render body'')
     | Some s \<Rightarrow> Inr s)"

fun render_dict :: "formats \<Rightarrow> fetch_context \<Rightarrow> (string, string) dict \<Rightarrow> plan_exc + (string, string) dict" where
  "render_dict fs ctx [] = Inr []"
| "render_dict fs ctx ((k, e) # rest) =
     bindR (render fs e ctx) (\<lambda>v. bindR (render_dict fs ctx rest) (\<lambda>d. Inr ((k, v) # d)))"

subsection \<open>Secrets\<close>

text \<open>\<open>re.sub("[^A-Z0-9]", "_", text.upper())\<close> per code point below 256: only the sharp s becomes two letters.\<close>
definition env_char :: "char \<Rightarrow> string" where
  "env_char c = (let n = (of_char c :: nat) in
     if 97 \<le> n \<and> n \<le> 122 then [char_of (n - 32)]
     else if 65 \<le> n \<and> n \<le> 90 \<or> is_digit c then [c]
     else if n = 223 then ''SS'' else ''_'')"

definition env_name :: "secret_ref \<Rightarrow> string" where
  "env_name ref = concat (map env_char (sr_name ref @ ''_'' @ sr_key ref))"

definition env_resolve :: "(string, string) dict \<Rightarrow> secret_ref \<Rightarrow> plan_exc + string" where
  "env_resolve env ref = (case dget env (env_name ref) of
       Some v \<Rightarrow> if v = [] then Inl (SecretMissing (env_name ref)) else Inr v
     | None \<Rightarrow> Inl (SecretMissing (env_name ref)))"

definition target_secret_name :: "string \<Rightarrow> string" where
  "target_secret_name target = ''target-'' @ map (\<lambda>c. if c = CHR ''_'' then CHR ''-'' else c) target"

definition scoped_resolve :: "string \<Rightarrow> (secret_ref \<Rightarrow> plan_exc + string) \<Rightarrow> secret_ref \<Rightarrow> plan_exc + string" where
  "scoped_resolve target inner ref =
     (if sr_name ref \<noteq> target_secret_name target then Inl (SecretOutOfScope (sr_name ref)) else inner ref)"

subsection \<open>Requests\<close>

abbreviation utf8_bytes_of :: "string \<Rightarrow> bytes" where
  "utf8_bytes_of s \<equiv> map of_nat (concat (map utf8 s))"

definition simple_request :: "string \<Rightarrow> conditional option \<Rightarrow> fetch_request" where
  "simple_request url cond = \<lparr>fq_url = url, fq_method = ''GET'', fq_headers = [], fq_body = None, fq_conditional = cond, fq_redact = []\<rparr>"

definition soap_request :: "formats \<Rightarrow> soap_xml_fetch \<Rightarrow> fetch_context \<Rightarrow> plan_exc + fetch_request" where
  "soap_request fs block ctx =
     bindR (render_dict fs ctx (sx_params block)) (\<lambda>params.
     bindR (render_with fs (sx_body_template block) params) (\<lambda>body.
     Inr \<lparr>fq_url = sx_url block, fq_method = ''POST'',
       fq_headers = (if sx_soap_version block = ''1.1''
         then [(''Content-Type'', ''text/xml; charset=utf-8''), (''SOAPAction'', CHR 0x22 # sx_soap_action block @ [CHR 0x22])]
         else [(''Content-Type'', ''application/soap+xml; charset=utf-8; action='' @ CHR 0x22 # sx_soap_action block @ [CHR 0x22])]),
       fq_body = Some (utf8_bytes_of body), fq_conditional = None, fq_redact = []\<rparr>))"

definition resolve_auth :: "auth \<Rightarrow> (secret_ref \<Rightarrow> plan_exc + string) option \<Rightarrow> plan_exc + string" where
  "resolve_auth a secrets = (case secrets of
       None \<Rightarrow> Inl (Lookup_error ''this fetch block needs a secretRef but no SecretResolver was given'')
     | Some f \<Rightarrow> f (au_secretRef a))"

text \<open>The URL with the query merged into the one it has.\<close>
definition merge_query :: "string \<Rightarrow> (string, string) dict \<Rightarrow> plan_exc + string" where
  "merge_query url q =
     (if q = [] then Inr url
      else case urlsplit url of
        Inl _ \<Rightarrow> Inl (In_fetch (Stray ''ValueError''))
      | Inr parts \<Rightarrow> Inr (urlunsplit (parts\<lparr>up_query :=
          (if up_query parts \<noteq> [] then up_query parts @ CHR ''&'' # urlencode q else urlencode q)\<rparr>)))"

definition rest_request ::
    "formats \<Rightarrow> rest_fetch \<Rightarrow> fetch_context \<Rightarrow> (secret_ref \<Rightarrow> plan_exc + string) option \<Rightarrow> conditional option
     \<Rightarrow> plan_exc + fetch_request" where
  "rest_request fs block ctx secrets cond =
     bindR (render fs (rf_url_template block) ctx) (\<lambda>url.
     bindR (render_dict fs ctx (rf_query block)) (\<lambda>q.
     bindR (render_dict fs ctx (rf_headers block)) (\<lambda>h.
     bindR (case rf_auth block of
         None \<Rightarrow> Inr (q, h, [])
       | Some a \<Rightarrow> bindR (resolve_auth a secrets) (\<lambda>v.
           if au_location a = In_query then Inr (dset (au_param a) v q, h, [au_param a])
           else Inr (q, dset (au_param a) v h, []))) (\<lambda>(q', h', redact).
     bindR (merge_query url q') (\<lambda>url'.
     Inr \<lparr>fq_url = url', fq_method = ''GET'', fq_headers = h', fq_body = None, fq_conditional = cond, fq_redact = redact\<rparr>)))))"

subsection \<open>Discovery\<close>

definition quote_mark :: "char \<Rightarrow> bool" where
  "quote_mark c \<longleftrightarrow> c = CHR 0x22 \<or> c = CHR 0x27"

text \<open>\<open>href\s*=\s*["']([^"']+)["']\<close> at the head of the text: the value and what follows.\<close>
definition href_at :: "string \<Rightarrow> (string \<times> string) option" where
  "href_at s =
     (if py_lower (take 4 s) \<noteq> ''href'' then None
      else case dropWhile py_space (drop 4 s) of
        [] \<Rightarrow> None
      | e # r \<Rightarrow> if e \<noteq> CHR ''='' then None
          else (case dropWhile py_space r of
              [] \<Rightarrow> None
            | q # v \<Rightarrow> if \<not> quote_mark q then None
                else (let value = takeWhile (\<lambda>c. \<not> quote_mark c) v; rest = dropWhile (\<lambda>c. \<not> quote_mark c) v in
                  if value = [] \<or> rest = [] then None else Some (value, tl rest))))"

text \<open>\<open>finditer\<close>: matches do not overlap; the length bounds the steps.\<close>
fun hrefs :: "nat \<Rightarrow> string \<Rightarrow> string list" where
  "hrefs 0 s = []"
| "hrefs (Suc n) s = (case s of
       [] \<Rightarrow> []
     | c # r \<Rightarrow> (case href_at s of None \<Rightarrow> hrefs n r | Some (v, rest) \<Rightarrow> v # hrefs n rest))"

definition discover_link :: "formats \<Rightarrow> net \<Rightarrow> string \<Rightarrow> string \<Rightarrow> string \<Rightarrow> fetch_exc + string option" where
  "discover_link fs net page base link_regex = (case find (fm_search fs link_regex) (hrefs (length page) page) of
       None \<Rightarrow> Inr None
     | Some h \<Rightarrow> (case nt_join net base h of None \<Rightarrow> Inl (Stray ''ValueError'') | Some u \<Rightarrow> Inr (Some u)))"

definition file_name :: "string \<Rightarrow> fetch_exc + string" where
  "file_name url = (case urlsplit url of
       Inl _ \<Rightarrow> Inl (Stray ''ValueError'')
     | Inr parts \<Rightarrow> Inr (case split_last (CHR ''/'') (up_path parts) of None \<Rightarrow> up_path parts | Some (_, n) \<Rightarrow> n))"

subsection \<open>The fetch of a run\<close>

definition page_text :: "bytes \<Rightarrow> string" where
  "page_text b = decode_utf8 (map (\<lambda>w. Inl (unat w)) b)"

text \<open>The link found on the discovery page, when it names the day's file.\<close>
definition discovered_url ::
    "formats \<Rightarrow> net \<Rightarrow> discovery \<Rightarrow> string \<Rightarrow> fetch_result \<Rightarrow> fetch_exc + string" where
  "discovered_url fs net dy template_url page =
     bindR (discover_link fs net (page_text (res_body page)) (res_url page) (dy_link_regex dy)) (\<lambda>found.
     case found of
       None \<Rightarrow> Inr template_url
     | Some u \<Rightarrow> bindR (file_name u) (\<lambda>a. bindR (file_name template_url) (\<lambda>b.
         Inr (if a = b \<and> u \<noteq> [] then u else template_url))))"

definition in_fetch :: "(fetch_exc + 'a) \<times> sent list \<Rightarrow> (plan_exc + 'a) \<times> sent list" where
  "in_fetch r = (case r of (Inl e, tr) \<Rightarrow> (Inl (In_fetch e), tr) | (Inr x, tr) \<Rightarrow> (Inr x, tr))"

definition fetch_dated_file ::
    "formats \<Rightarrow> net \<Rightarrow> fetcher \<Rightarrow> dated_file_fetch \<Rightarrow> fetch_context \<Rightarrow> conditional option \<Rightarrow> (plan_exc + fetch_result) \<times> sent list" where
  "fetch_dated_file fs net ft block ctx prev = (case render fs (df_url_template block) ctx of
       Inl e \<Rightarrow> (Inl e, [])
     | Inr template_url \<Rightarrow> (case df_discovery block of
           None \<Rightarrow> in_fetch (fetch net ft (simple_request template_url prev) [])
         | Some dy \<Rightarrow> (case fetch net ft (simple_request (dy_url dy) None) [] of
               (Inl e, tr) \<Rightarrow> (Inl (In_fetch e), tr)
             | (Inr page, tr) \<Rightarrow> (case discovered_url fs net dy template_url page of
                   Inl e \<Rightarrow> (Inl (In_fetch e), tr)
                 | Inr url \<Rightarrow> in_fetch (fetch net ft (simple_request url prev) tr)))))"

definition fetch_built :: "net \<Rightarrow> fetcher \<Rightarrow> plan_exc + fetch_request \<Rightarrow> (plan_exc + fetch_result) \<times> sent list" where
  "fetch_built net ft r = (case r of Inl e \<Rightarrow> (Inl e, []) | Inr q \<Rightarrow> in_fetch (fetch net ft q []))"

definition fetch_for_manifest ::
    "formats \<Rightarrow> net \<Rightarrow> fetcher \<Rightarrow> manifest \<Rightarrow> fetch_context \<Rightarrow> conditional option
     \<Rightarrow> (secret_ref \<Rightarrow> plan_exc + string) option \<Rightarrow> (plan_exc + fetch_result) \<times> sent list" where
  "fetch_for_manifest fs net ft m ctx prev secrets0 =
     (let secrets = map_option (scoped_resolve (m_target_id m)) secrets0; b = m_fetch m in
      case fb_soap_xml b of
        Some x \<Rightarrow> fetch_built net ft (soap_request fs x ctx)
      | None \<Rightarrow> (case fb_dated_file b of
          Some x \<Rightarrow> fetch_dated_file fs net ft x ctx prev
        | None \<Rightarrow> (case fb_html_table b of
            Some x \<Rightarrow> in_fetch (fetch net ft (simple_request (ht_url x) prev) [])
          | None \<Rightarrow> (case fb_rest_json b of
              Some x \<Rightarrow> fetch_built net ft (rest_request fs x ctx secrets prev)
            | None \<Rightarrow> (case fb_rest_xml b of
                Some x \<Rightarrow> fetch_built net ft (rest_request fs x ctx secrets prev)
              | None \<Rightarrow> (Inl (In_fetch (Stray ''ValueError'')), []))))))"

text \<open>How \<open>capture\<close> sees the outcome.\<close>
definition plan_text :: "plan_exc \<Rightarrow> string" where
  "plan_text e = (case e of RenderError s \<Rightarrow> s | SecretMissing s \<Rightarrow> s | SecretOutOfScope s \<Rightarrow> s | Lookup_error s \<Rightarrow> s
     | In_fetch x \<Rightarrow> exc_text x)"

definition answer_of :: "plan_exc + fetch_result \<Rightarrow> fetch_answer" where
  "answer_of r = (case r of
       Inr x \<Rightarrow> Fetched x
     | Inl (In_fetch (Stray s)) \<Rightarrow> Fetch_raised s
     | Inl (In_fetch e) \<Rightarrow> Source_unavailable (exc_text e)
     | Inl e \<Rightarrow> Cannot_build (plan_text e))"

definition baseline_conditional :: "capture_entry option \<Rightarrow> conditional option" where
  "baseline_conditional b = map_option (\<lambda>e. \<lparr>cd_etag = ce_etag e, cd_last_modified = ce_last_modified e\<rparr>) b"

text \<open>The fetch of a runtime whose network is \<open>net\<close> at the tick of the fetch.\<close>
definition manifest_fetch ::
    "formats \<Rightarrow> (nat \<Rightarrow> net) \<Rightarrow> fetcher \<Rightarrow> manifest \<Rightarrow> (secret_ref \<Rightarrow> plan_exc + string) option
     \<Rightarrow> nat \<Rightarrow> instant \<Rightarrow> date \<Rightarrow> capture_entry option \<Rightarrow> fetch_answer" where
  "manifest_fetch fs net ft m secrets n scheduled day base =
     answer_of (fst (fetch_for_manifest fs (net n) ft m \<lparr>fx_scheduled_for = scheduled, fx_delivery_day = day\<rparr>
       (baseline_conditional base) secrets))"

end
