(* ===== verification/Plan_Properties.thy ===== *)
theory Plan_Properties
  imports Plan Fetch_Properties
begin

text \<open>
  What the plan of a run guarantees: its requests are all allowed contacts and few, a target's requests
  depend on no secret but its own, the environment names of two targets' secrets never meet, and the
  URL that is kept of a request does not depend on the secret in it.
\<close>

subsection \<open>Contacts\<close>

lemma in_fetch_eq: "in_fetch x = (r, tr) \<Longrightarrow> \<exists>r'. x = (r', tr)"
  by (cases x) (auto simp: in_fetch_def split: sum.splits)

definition contacts_ok :: "net \<Rightarrow> fetcher \<Rightarrow> nat \<Rightarrow> sent list \<Rightarrow> bool" where
  "contacts_ok net ft k tr \<longleftrightarrow> (\<exists>hs. tr = requests_of hs \<and> length hs \<le> k * Suc (ft_max_redirects ft) \<and> hops_ok net ft 0 hs)"

lemma fetch_contacts:
  assumes "contacts_ok net ft k tr" and "fetch net ft req tr = (r, tr')"
  shows "contacts_ok net ft (Suc k) tr'"
proof -
  from assms(1) obtain hs where hs: "tr = requests_of hs" "length hs \<le> k * Suc (ft_max_redirects ft)" "hops_ok net ft 0 hs"
    by (auto simp: contacts_ok_def)
  from fetch_hops_contacts [OF assms(2) [unfolded fetch_def]]
  obtain more where "tr' = tr @ requests_of more" "length more \<le> Suc (ft_max_redirects ft)" "hops_ok net ft (length tr) more" by blast
  with hs show ?thesis unfolding contacts_ok_def by (intro exI [of _ "hs @ more"]) (simp add: hops_ok_append)
qed

lemma contacts_empty: "contacts_ok net ft k []"
  unfolding contacts_ok_def by (intro exI [of _ "[]"]) simp

lemma contacts_more: "contacts_ok net ft k tr \<Longrightarrow> k \<le> l \<Longrightarrow> contacts_ok net ft l tr"
  unfolding contacts_ok_def using mult_le_mono1 [of k l "Suc (ft_max_redirects ft)"] le_trans by blast

lemma fetch_once: "in_fetch (fetch net ft req []) = (r, tr) \<Longrightarrow> contacts_ok net ft 2 tr"
  using fetch_contacts [OF contacts_empty [of _ _ 1]] by (fastforce dest!: in_fetch_eq simp: numeral_2_eq_2)

lemma built_contacts: "fetch_built net ft x = (r, tr) \<Longrightarrow> contacts_ok net ft 2 tr"
  by (auto simp: fetch_built_def contacts_empty split: sum.splits dest: fetch_once)

lemma dated_contacts:
  assumes "fetch_dated_file fs net ft block ctx prev = (r, tr)"
  shows "contacts_ok net ft 2 tr"
proof (cases "render fs (df_url_template block) ctx")
  case (Inl e)
  with assms show ?thesis by (auto simp: fetch_dated_file_def contacts_empty)
next
  case (Inr url)
  show ?thesis
  proof (cases "df_discovery block")
    case None
    with assms Inr show ?thesis by (auto simp: fetch_dated_file_def dest: fetch_once)
  next
    case (Some dy)
    obtain y tr1 where y: "fetch net ft (simple_request (dy_url dy) None) [] = (y, tr1)" by fastforce
    have one: "contacts_ok net ft 1 tr1" using fetch_contacts [OF contacts_empty [of _ _ 0] y] by simp
    have "contacts_ok net ft 2 tr'" if "in_fetch (fetch net ft q tr1) = (r', tr')" for q r' tr'
      using that fetch_contacts [OF one] by (fastforce dest!: in_fetch_eq simp: numeral_2_eq_2)
    moreover have "contacts_ok net ft 2 tr1" using contacts_more [OF one] by simp
    ultimately show ?thesis using assms Inr Some y by (auto simp: fetch_dated_file_def split: sum.splits)
  qed
qed

text \<open>C23. Whatever a manifest says and whatever the network answers, the requests of a run are a sequence of at
  most twice (redirects + 1) hops, the discovery page and every redirect included, each sent at most (attempts)
  times in a row. Every hop goes to an allowed and registered host over an allowed scheme and port; and unless the
  fetcher is offline (then no name is resolved by the fetcher), the resolver, asked for that host and port after the
  last request of the hop before and before the first of this one, answered with public addresses only.
  The attempts of one hop share that answer.\<close>
theorem run_contacts_allowed:
  assumes "fetch_for_manifest fs net ft m ctx prev secrets = (r, tr)"
  shows "length tr \<le> 2 * (Suc (ft_max_redirects ft) * ft_attempts ft)
    \<and> (\<exists>hs. tr = requests_of hs \<and> length hs \<le> 2 * Suc (ft_max_redirects ft) \<and> hops_ok net ft 0 hs)"
proof -
  have "contacts_ok net ft 2 tr"
    using assms unfolding fetch_for_manifest_def Let_def
    by (auto simp: contacts_empty split: option.splits dest: built_contacts dated_contacts fetch_once)
  then obtain hs where hs: "tr = requests_of hs" "length hs \<le> 2 * Suc (ft_max_redirects ft)" "hops_ok net ft 0 hs"
    unfolding contacts_ok_def by blast
  with hops_ok_length [OF hs(3)] mult_le_mono1 [OF hs(2), of "ft_attempts ft"] show ?thesis
    by (auto simp: mult.assoc intro: order_trans)
qed

subsection \<open>Secrets\<close>

text \<open>C29. A target sees no secret but its own: two backends that agree on the references named
  \<open>target-<id>\<close> give the same requests and the same outcome, whatever reference the manifest carries.\<close>
theorem secrets_are_scoped:
  assumes "\<And>ref. sr_name ref = target_secret_name (m_target_id m) \<Longrightarrow> f ref = g ref"
  shows "fetch_for_manifest fs net ft m ctx prev (Some f) = fetch_for_manifest fs net ft m ctx prev (Some g)"
proof -
  have "scoped_resolve (m_target_id m) f = scoped_resolve (m_target_id m) g"
    using assms by (auto simp: scoped_resolve_def fun_eq_iff)
  then show ?thesis unfolding fetch_for_manifest_def by simp
qed

text \<open>Target ids and keys as the manifest admits them.\<close>
definition id_char :: "char \<Rightarrow> bool" where
  "id_char c \<longleftrightarrow> (let n = (of_char c :: nat) in 97 \<le> n \<and> n \<le> 122 \<or> is_digit c \<or> c = CHR ''_'')"

definition key_char :: "char \<Rightarrow> bool" where
  "key_char c \<longleftrightarrow> ascii_alpha c \<or> is_digit c"

definition ascii_upper :: "char \<Rightarrow> char" where
  "ascii_upper c = (let n = (of_char c :: nat) in if 97 \<le> n \<and> n \<le> 122 then char_of (n - 32) else c)"

lemma env_char_id: "id_char c \<Longrightarrow> env_char (if c = CHR ''_'' then CHR ''-'' else c) = [ascii_upper c]"
  by (auto simp: id_char_def env_char_def ascii_upper_def is_digit_def Let_def)

lemma env_char_key: "key_char c \<Longrightarrow> env_char c = [ascii_upper c] \<and> ascii_upper c \<noteq> CHR ''_''"
proof -
  assume k: "key_char c"
  have "ascii_upper c \<noteq> CHR ''_''"
  proof
    assume "ascii_upper c = CHR ''_''"
    then have "(of_char (ascii_upper c) :: nat) = 95" by simp
    with k show False by (auto simp: key_char_def ascii_upper_def ascii_alpha_def is_digit_def Let_def split: if_splits)
  qed
  with k show ?thesis by (auto simp: key_char_def env_char_def ascii_upper_def ascii_alpha_def is_digit_def Let_def)
qed

lemma ascii_upper_inj: "id_char c \<Longrightarrow> id_char d \<Longrightarrow> ascii_upper c = ascii_upper d \<Longrightarrow> c = d"
proof -
  assume ids: "id_char c" "id_char d" and eq: "ascii_upper c = ascii_upper d"
  let ?u = "\<lambda>n :: nat. if 97 \<le> n \<and> n \<le> 122 then n - 32 else n"
  have o: "(of_char (ascii_upper x) :: nat) = ?u (of_char x)" for x by (auto simp: ascii_upper_def Let_def)
  have u: "x = y" if "?u x = ?u y" "97 \<le> x \<and> x \<le> 122 \<or> x \<le> 57 \<or> x = 95" "97 \<le> y \<and> y \<le> 122 \<or> y \<le> 57 \<or> y = 95" for x y
    using that by (auto split: if_splits)
  have r: "97 \<le> n \<and> n \<le> 122 \<or> n \<le> 57 \<or> n = 95" if "id_char x" "n = of_char x" for x and n :: nat
    using that by (auto simp: id_char_def is_digit_def Let_def)
  have "?u (of_char c) = ?u (of_char d)" using o [of c] o [of d] eq by argo
  from u [OF this r [OF ids(1) refl] r [OF ids(2) refl]] show "c = d" by simp
qed

lemma env_name_own:
  assumes "list_all id_char t" "list_all key_char k"
  shows "env_name \<lparr>sr_name = target_secret_name t, sr_key = k\<rparr> = ''TARGET_'' @ map ascii_upper t @ CHR ''_'' # map ascii_upper k"
proof -
  have "concat (map env_char (map (\<lambda>c. if c = CHR ''_'' then CHR ''-'' else c) t)) = map ascii_upper t"
    using assms(1) by (induction t) (simp_all add: env_char_id del: if_split)
  moreover have "concat (map env_char k) = map ascii_upper k" using assms(2) by (induction k) (simp_all add: env_char_key)
  moreover have "concat (map env_char ''target-'') = ''TARGET_''" "env_char (CHR ''_'') = ''_''" by code_simp+
  ultimately show ?thesis unfolding env_name_def target_secret_name_def by simp
qed

text \<open>The environment variable of a target's secret starts with \<open>TARGET_\<close> and names one target only: for
  admitted target ids (lower case, digits, underscores) and alphanumeric keys, two references have the
  same variable only when the ids are equal and the keys differ at most in case.\<close>
theorem secret_variables_apart:
  assumes "list_all id_char t" "list_all key_char k" "list_all id_char t'" "list_all key_char k'"
  shows "take 7 (env_name \<lparr>sr_name = target_secret_name t, sr_key = k\<rparr>) = ''TARGET_'' \<and>
    (env_name \<lparr>sr_name = target_secret_name t, sr_key = k\<rparr> = env_name \<lparr>sr_name = target_secret_name t', sr_key = k'\<rparr>
       \<longleftrightarrow> t = t' \<and> map ascii_upper k = map ascii_upper k')"
proof -
  have no: "CHR ''_'' \<notin> set (map ascii_upper j)" if "list_all key_char j" for j
    using that env_char_key by (fastforce simp: list_all_iff)
  have inj: "x = y" if "list_all id_char x" "list_all id_char y" "map ascii_upper x = map ascii_upper y" for x y
    using that
  proof (induction x arbitrary: y)
    case (Cons c x)
    then obtain d y' where y: "y = d # y'" by (cases y) auto
    have ids: "id_char c" "id_char d" "list_all id_char x" "list_all id_char y'" using Cons.prems y by simp_all
    have eqs: "ascii_upper c = ascii_upper d" "map ascii_upper x = map ascii_upper y'" using Cons.prems(3) y by simp_all
    show ?case using ascii_upper_inj [OF ids(1,2) eqs(1)] Cons.IH [OF ids(3,4) eqs(2)] y by simp
  qed simp
  have "t = t' \<and> map ascii_upper k = map ascii_upper k'"
    if e: "map ascii_upper t @ CHR ''_'' # map ascii_upper k = map ascii_upper t' @ CHR ''_'' # map ascii_upper k'"
  proof -
    from arg_cong [OF e, of "split_last (CHR ''_'')"]
    have "map ascii_upper t = map ascii_upper t' \<and> map ascii_upper k = map ascii_upper k'"
      by (simp only: split_last_append [OF no [OF assms(2)]] split_last_append [OF no [OF assms(4)]]) simp
    with inj [OF assms(1,3)] show ?thesis by blast
  qed
  then show ?thesis by (auto simp: env_name_own assms)
qed

subsection \<open>What is kept of a URL\<close>

lemma redacted_pair:
  "map (\<lambda>(k, x). (k, if k \<in> set [p] then R else x)) (dset p v q) = map (\<lambda>(k, x). (k, if k \<in> set [p] then R else x)) (dset p v' q)"
  by (induction q) auto

lemma merged_web:
  assumes "web_parts p"
  shows "web_parts (p\<lparr>up_query := (if up_query p \<noteq> [] then up_query p @ CHR ''&'' # urlencode q else urlencode q)\<rparr>)"
proof -
  have "query_safe c \<or> c = CHR ''&'' \<or> c = CHR ''=''" if "c \<in> set (urlencode q)" for c using urlencode_safe that .
  then have "CHR ''#'' \<notin> set (urlencode q)" "no_break (urlencode q)"
    by (fastforce simp: query_safe_def no_break_def)+
  then show ?thesis using assms by (auto simp: web_parts_def)
qed

lemma redact_merged:
  assumes "web_parts p"
  shows "redact_query (urlunsplit (p\<lparr>up_query := (if up_query p \<noteq> [] then up_query p @ CHR ''&'' # urlencode q else urlencode q)\<rparr>)) [k]
    = urlunsplit (p\<lparr>up_query := urlencode (map (\<lambda>(n, x). (n, if n \<in> set [k] then REDACTED else x))
        ((if up_query p \<noteq> [] then parse_qsl (up_query p) else []) @ q))\<rparr>)"
  using urlsplit_unsplit [OF merged_web [OF assms, of q]]
  by (auto simp: redact_query_def parse_qsl_append parse_qsl_urlencode)

text \<open>C30. The URL that is stored and logged of an authenticated request does not depend on the secret: for a
  web URL and a secret in the query, any two values of the secret give the same redacted URL.\<close>
theorem stored_url_hides_secret:
  assumes "rf_auth block = Some a" and "au_location a = In_query"
    and "render fs (rf_url_template block) ctx = Inr url" and "urlsplit url = Inr p"
    and "up_scheme p = ''http'' \<or> up_scheme p = ''https''" and "up_netloc p \<noteq> []"
    and "rest_request fs block ctx (Some f) cond = Inr r" and "rest_request fs block ctx (Some g) cond = Inr r'"
  shows "redact_query (fq_url r) (fq_redact r) = redact_query (fq_url r') (fq_redact r') \<and> fq_redact r = [au_param a]"
proof -
  have web: "web_parts p" by (rule urlsplit_web [OF assms(4-6)])
  have one: "\<exists>q v. fq_redact r = [au_param a] \<and> render_dict fs ctx (rf_query block) = Inr q
      \<and> fq_url r = urlunsplit (p\<lparr>up_query := (if up_query p \<noteq> [] then up_query p @ CHR ''&'' # urlencode (dset (au_param a) v q)
          else urlencode (dset (au_param a) v q))\<rparr>)"
    if "rest_request fs block ctx (Some s) cond = Inr r" for s r
    using that assms(1-4) by (auto simp: rest_request_def merge_query_def resolve_auth_def split: if_splits)
  from one [OF assms(7)] obtain q v where r: "fq_redact r = [au_param a]" "render_dict fs ctx (rf_query block) = Inr q"
      "fq_url r = urlunsplit (p\<lparr>up_query := (if up_query p \<noteq> [] then up_query p @ CHR ''&'' # urlencode (dset (au_param a) v q)
          else urlencode (dset (au_param a) v q))\<rparr>)" by blast
  from one [OF assms(8)] r(2) obtain v' where r': "fq_redact r' = [au_param a]"
      "fq_url r' = urlunsplit (p\<lparr>up_query := (if up_query p \<noteq> [] then up_query p @ CHR ''&'' # urlencode (dset (au_param a) v' q)
          else urlencode (dset (au_param a) v' q))\<rparr>)" by auto
  show ?thesis unfolding r(1,3) r' redact_merged [OF web] map_append redacted_pair [of _ _ v q v'] by simp
qed

subsection \<open>What a failure tells\<close>

lemma exhausted:
  assumes "\<And>k. \<exists>resp. nt_send net k q = Inr resp \<and> 500 \<le> rs_status resp \<and> \<not> rs_broken resp"
    and "0 < n \<or> (\<exists>st body. le = Answered st (sn_url q) body)"
  shows "\<exists>st body. fst (send_attempts net q n le tr) = Inl (FetchFailed st (sn_url q) body)"
  using assms(2)
proof (induction n arbitrary: le tr)
  case (Suc n)
  obtain resp where r: "nt_send net (length tr) q = Inr resp" "500 \<le> rs_status resp" "\<not> rs_broken resp" using assms(1) by blast
  have "error_chunks h cs False \<noteq> Inl e" for h cs e by (induction cs arbitrary: h) auto
  with r obtain body where "error_body resp = Inr body" by (cases "error_body resp") (auto simp: error_body_def)
  with r Suc.IH show ?case by simp
qed auto

text \<open>C31. After the last retry the failure carries the URL as it was sent. When every answer is a server
  error, the fetch ends in \<open>FetchFailed\<close> whose text, which \<open>capture\<close> logs and records in the ledger, ends in
  the request's URL with the secret parameters in it, whatever the request asks to redact.\<close>
theorem failure_text_has_raw_url:
  assumes "check_url (fq_url req) (ft_allowed_hosts ft) (ft_allow_insecure ft) = Inr d" and "resolve net ft d tr = Inr rs"
    and "0 < ft_attempts ft" and "\<And>k q. \<exists>resp. nt_send net k q = Inr resp \<and> 500 \<le> rs_status resp \<and> \<not> rs_broken resp"
  shows "\<exists>st body. fst (fetch net ft req tr) = Inl (FetchFailed st (fq_url req) body)
    \<and> answer_of (Inl (In_fetch (FetchFailed st (fq_url req) body)))
        = Source_unavailable (''HTTP '' @ str_int st @ '' from '' @ fq_url req)"
proof -
  define q where "q = \<lparr>sn_url = fq_url req, sn_method = fq_method req, sn_headers = request_headers req, sn_body = fq_body req\<rparr>"
  obtain y tr1 where y: "send_with_retries net ft q tr = (y, tr1)" by fastforce
  with exhausted [of net q "ft_attempts ft" No_attempt tr] assms(3,4)
  obtain st body where "y = Inl (FetchFailed st (fq_url req) body)" by (auto simp: send_with_retries_def q_def)
  with assms(1,2) y have "fst (fetch net ft req tr) = Inl (FetchFailed st (fq_url req) body)"
    by (simp add: fetch_def q_def [symmetric]) (simp add: q_def)
  then show ?thesis by (intro exI [of _ st] exI [of _ body]) (simp add: answer_of_def exc_text_def)
qed

subsection \<open>A target with a secret\<close>

definition demo_formats :: formats where
  "demo_formats = \<lparr>fm_value = (\<lambda>_ _. Some ''2026-03-29''), fm_str = (\<lambda>v _. Some v), fm_search = (\<lambda>_ _. True)\<rparr>"

definition demo_ctx :: fetch_context where
  "demo_ctx = \<lparr>fx_scheduled_for = 1774738800000000, fx_delivery_day = 739704\<rparr>"

definition demo_auth :: auth where
  "demo_auth = \<lparr>au_secretRef = \<lparr>sr_name = ''target-ceps-load'', sr_key = ''token''\<rparr>, au_location = In_query, au_param = ''token''\<rparr>"

definition demo_rest :: rest_fetch where
  "demo_rest = \<lparr>rf_url_template = ''https://www.ceps.cz/api?v=1'', rf_query = [(''day'', ''{delivery_day:%Y-%m-%d}'')],
     rf_headers = [], rf_auth = Some demo_auth, rf_rate_limit = None\<rparr>"

definition demo_manifest :: manifest where
  "demo_manifest = ceps_manifest\<lparr>m_fetch := \<lparr>fb_soap_xml = None, fb_dated_file = None, fb_html_table = None,
     fb_rest_json = Some demo_rest, fb_rest_xml = None\<rparr>\<rparr>"

text \<open>The redirect of the example network makes it two hops.\<close>
lemma demo_run_urls:
  "map sn_url (snd (fetch_for_manifest demo_formats demo_net demo_ft demo_manifest demo_ctx None (Some (\<lambda>_. Inr ''s3cret''))))
   = [''https://www.ceps.cz/api?v=1&day=2026-03-29&token=s3cret'', ''https://www.ceps.cz/b'']"
  by code_simp

theorem run_contacts_allowed_witness:
  "\<exists>r tr hs. fetch_for_manifest demo_formats demo_net demo_ft demo_manifest demo_ctx None (Some (\<lambda>_. Inr ''s3cret'')) = (r, tr)
     \<and> tr \<noteq> [] \<and> length tr \<le> 32 \<and> tr = requests_of hs \<and> hops_ok demo_net demo_ft 0 hs"
proof -
  obtain r tr where f: "fetch_for_manifest demo_formats demo_net demo_ft demo_manifest demo_ctx None (Some (\<lambda>_. Inr ''s3cret'')) = (r, tr)"
    by fastforce
  with demo_run_urls have "tr \<noteq> []" by auto
  with run_contacts_allowed [OF f] f show ?thesis by (auto simp: demo_ft_def)
qed

theorem secrets_are_scoped_witness:
  "fetch_for_manifest demo_formats demo_net demo_ft demo_manifest demo_ctx None
     (Some (\<lambda>ref. if sr_name ref = ''target-ceps-load'' then Inr ''own'' else Inr ''db-password''))
   = fetch_for_manifest demo_formats demo_net demo_ft demo_manifest demo_ctx None (Some (\<lambda>ref. Inr ''own''))"
proof -
  have "target_secret_name (m_target_id demo_manifest) = ''target-ceps-load''" by code_simp
  then show ?thesis by (intro secrets_are_scoped) simp
qed

theorem secret_variables_apart_witness:
  "env_name \<lparr>sr_name = target_secret_name ''ceps_load'', sr_key = ''token''\<rparr>
     \<noteq> env_name \<lparr>sr_name = target_secret_name ''ceps'', sr_key = ''loadtoken''\<rparr>"
proof -
  have "list_all id_char ''ceps_load''" "list_all key_char ''token''" "list_all id_char ''ceps''" "list_all key_char ''loadtoken''"
    by code_simp+
  from secret_variables_apart [OF this] show ?thesis by simp
qed

theorem stored_url_hides_secret_witness:
  "\<exists>r r'. rest_request demo_formats demo_rest demo_ctx (Some (\<lambda>_. Inr ''s3cret'')) None = Inr r
     \<and> rest_request demo_formats demo_rest demo_ctx (Some (\<lambda>_. Inr ''other'')) None = Inr r'
     \<and> fq_url r \<noteq> fq_url r' \<and> redact_query (fq_url r) (fq_redact r) = redact_query (fq_url r') (fq_redact r')"
proof -
  let ?r = "\<lambda>s. rest_request demo_formats demo_rest demo_ctx (Some (\<lambda>_. Inr s)) None"
  have a: "rf_auth demo_rest = Some demo_auth" "au_location demo_auth = In_query"
    "render demo_formats (rf_url_template demo_rest) demo_ctx = Inr ''https://www.ceps.cz/api?v=1''"
    "urlsplit ''https://www.ceps.cz/api?v=1'' = Inr \<lparr>up_scheme = ''https'', up_netloc = ''www.ceps.cz'', up_path = ''/api'',
       up_query = ''v=1'', up_fragment = []\<rparr>" by code_simp+
  have u: "\<not> isl (?r ''s3cret'')" "\<not> isl (?r ''other'')" "fq_url (projr (?r ''s3cret'')) \<noteq> fq_url (projr (?r ''other''))"
    by code_simp+
  then obtain r r' where r: "?r ''s3cret'' = Inr r" "?r ''other'' = Inr r'" by (metis sum.collapse(2))
  let ?p = "\<lparr>up_scheme = ''https'', up_netloc = ''www.ceps.cz'', up_path = ''/api'', up_query = ''v=1'', up_fragment = []\<rparr>"
  have s: "up_scheme ?p = ''http'' \<or> up_scheme ?p = ''https''" "up_netloc ?p \<noteq> []" by simp_all
  from stored_url_hides_secret [OF a s r, THEN conjunct1] u r show ?thesis by simp
qed

theorem failure_text_has_raw_url_witness:
  "\<exists>st body. fst (fetch (demo_net\<lparr>nt_send := (\<lambda>_ _. Inr (demo_response\<lparr>rs_status := 503\<rparr>))\<rparr>) demo_ft
       (demo_get\<lparr>fq_url := ''https://www.ceps.cz/a?token=s3cret'', fq_redact := [''token'']\<rparr>) [])
     = Inl (FetchFailed st ''https://www.ceps.cz/a?token=s3cret'' body)"
proof -
  let ?net = "demo_net\<lparr>nt_send := (\<lambda>_ _. Inr (demo_response\<lparr>rs_status := 503\<rparr>))\<rparr>"
  let ?req = "demo_get\<lparr>fq_url := ''https://www.ceps.cz/a?token=s3cret'', fq_redact := [''token'']\<rparr>"
  define d where "d = projr (check_url (fq_url ?req) (ft_allowed_hosts demo_ft) (ft_allow_insecure demo_ft))"
  have "\<not> isl (check_url (fq_url ?req) (ft_allowed_hosts demo_ft) (ft_allow_insecure demo_ft))" by code_simp
  then have c: "check_url (fq_url ?req) (ft_allowed_hosts demo_ft) (ft_allow_insecure demo_ft) = Inr d" by (simp add: d_def)
  have "\<not> isl (resolve ?net demo_ft d [])" unfolding d_def by code_simp
  then have "resolve ?net demo_ft d [] = Inr (projr (resolve ?net demo_ft d []))" by simp
  from failure_text_has_raw_url [OF c this] show ?thesis
    by (auto simp: demo_ft_def demo_response_def demo_get_def)
qed

end
