(* ===== verification/Policy_Gate.thy ===== *)
theory Policy_Gate
  imports Pytext
begin

text \<open>
  The egress policy gate (src/energy_platform/fetch/policy_gate.py): a pod's work starts once the metadata
  canary is unreachable and the policy canary denied, with its control port answering, several rounds in
  a row; a gate that does not open raises after the timeout.

  Parameters: which connections succeed in which round, and the clock, read once at the start and once
  per round. Times are whole units of a fixed size. The loop has no bound of its own: whether it ends is
  up to the clock, so it is a partial function, and that it ends is proved from the clock's progress.
\<close>

type_synonym address = "string \<times> int"


text \<open>\<open>dns_metrics_canary\<close> on the lines of \<open>/etc/resolv.conf\<close>; none when the file cannot be read.\<close>
fun first_nameserver :: "int \<Rightarrow> string list \<Rightarrow> address option" where
  "first_nameserver port [] = None"
| "first_nameserver port (line # rest) = (case split_ws line of
       w # v # _ \<Rightarrow> if w = ''nameserver'' then Some (v, port) else first_nameserver port rest
     | _ \<Rightarrow> first_nameserver port rest)"

definition dns_metrics_canary :: "int \<Rightarrow> string list option \<Rightarrow> address option" where
  "dns_metrics_canary port content = (case content of None \<Rightarrow> None | Some ls \<Rightarrow> first_nameserver port ls)"









subsection \<open>Properties\<close>








end
