(* ===== verification/Pacing.thy ===== *)
theory Pacing
  imports Plan Complex_Main
begin

text \<open>
  Pacing of requests (src/energy_platform/fetch/client.py and plan.py): the token bucket, the delays between
  retries and the limiter a manifest declares. Seconds are rationals where the program has floats. A
  reading of the clock is an argument: \<open>acquire\<close> reads it on entry and again after its sleep.
\<close>

subsection \<open>Token bucket\<close>

record rate_limiter =
  lm_capacity :: rat
  lm_rate :: rat
  lm_tokens :: rat
  lm_last :: rat

definition new_limiter :: "int \<Rightarrow> rat \<Rightarrow> rat \<Rightarrow> rate_limiter" where
  "new_limiter requests per_seconds now =
     \<lparr>lm_capacity = of_int requests, lm_rate = of_int requests / per_seconds, lm_tokens = of_int requests, lm_last = now\<rparr>"

definition refill :: "rat \<Rightarrow> rate_limiter \<Rightarrow> rate_limiter" where
  "refill now l = l\<lparr>lm_tokens := min (lm_capacity l) (lm_tokens l + (now - lm_last l) * lm_rate l), lm_last := now\<rparr>"

text \<open>The seconds slept and the limiter afterwards.\<close>
definition acquire :: "rat \<Rightarrow> rat \<Rightarrow> rate_limiter \<Rightarrow> rat \<times> rate_limiter" where
  "acquire now woke l =
     (let l' = refill now l in
      if lm_tokens l' < 1 then ((1 - lm_tokens l') / lm_rate l', l'\<lparr>lm_tokens := 0, lm_last := woke\<rparr>)
      else (0, l'\<lparr>lm_tokens := lm_tokens l' - 1\<rparr>))"

text \<open>\<open>rate_limiter_for\<close>; \<open>total_seconds\<close> of a duration in microseconds.\<close>
definition rate_limiter_for :: "rest_fetch \<Rightarrow> rat \<Rightarrow> py_error + rate_limiter option" where
  "rate_limiter_for block now = (case rf_rate_limit block of
       None \<Rightarrow> Inr None
     | Some r \<Rightarrow> bindR (parse_duration (rl_per r)) (\<lambda>td. Inr (Some (new_limiter (rl_requests r) (of_int td / 1000000) now))))"

subsection \<open>Retry delays\<close>

record retry_policy =
  rp_attempts :: nat
  rp_base_seconds :: rat
  rp_cap_seconds :: rat
  rp_jitter :: rat

text \<open>\<open>u\<close> is what \<open>rng.uniform\<close> gave, between the jitter and its negative.\<close>
definition delay :: "retry_policy \<Rightarrow> nat \<Rightarrow> rat \<Rightarrow> rat" where
  "delay rp attempt u = min (rp_cap_seconds rp) (rp_base_seconds rp * 2 ^ (attempt - 1)) * (1 + u)"

definition DEFAULT_RETRY :: retry_policy where
  "DEFAULT_RETRY = \<lparr>rp_attempts = 4, rp_base_seconds = 1 / 2, rp_cap_seconds = 8, rp_jitter = 1 / 4\<rparr>"

text \<open>The sleeps of a request whose every attempt fails: one after each attempt but the last.\<close>
definition retry_sleeps :: "retry_policy \<Rightarrow> (nat \<Rightarrow> rat) \<Rightarrow> rat list" where
  "retry_sleeps rp u = map (\<lambda>attempt. delay rp attempt (u attempt)) [1..<rp_attempts rp]"

subsection \<open>Sequences of requests\<close>

text \<open>The times at which a sequence of calls returns, given the two readings of each.\<close>
fun grants :: "rate_limiter \<Rightarrow> (rat \<times> rat) list \<Rightarrow> rat list" where
  "grants l [] = []"
| "grants l ((now, woke) # rest) = (let l' = snd (acquire now woke l) in lm_last l' # grants l' rest)"

fun waits :: "rate_limiter \<Rightarrow> (rat \<times> rat) list \<Rightarrow> rat list" where
  "waits l [] = []"
| "waits l ((now, woke) # rest) = fst (acquire now woke l) # waits (snd (acquire now woke l)) rest"

text \<open>The clock never goes back, and a sleep lasts at least as long as was asked for.\<close>
fun clock_ok :: "rate_limiter \<Rightarrow> (rat \<times> rat) list \<Rightarrow> bool" where
  "clock_ok l [] = True"
| "clock_ok l ((now, woke) # rest) \<longleftrightarrow>
     lm_last l \<le> now \<and> now + fst (acquire now woke l) \<le> woke \<and> clock_ok (snd (acquire now woke l)) rest"

definition limiter_ok :: "rate_limiter \<Rightarrow> bool" where
  "limiter_ok l \<longleftrightarrow> 1 \<le> lm_capacity l \<and> 0 < lm_rate l \<and> 0 \<le> lm_tokens l \<and> lm_tokens l \<le> lm_capacity l"

lemma new_limiter_ok: "1 \<le> requests \<Longrightarrow> 0 < per \<Longrightarrow> limiter_ok (new_limiter requests per t)"
  by (simp add: limiter_ok_def new_limiter_def)

lemma acquire_fixed [simp]:
  "lm_capacity (snd (acquire now woke l)) = lm_capacity l" "lm_rate (snd (acquire now woke l)) = lm_rate l"
  by (simp_all add: acquire_def refill_def Let_def)

lemma acquire_ok:
  assumes "limiter_ok l" and "lm_last l \<le> now"
  shows "limiter_ok (snd (acquire now woke l))"
    and "0 \<le> fst (acquire now woke l)" and "fst (acquire now woke l) \<le> 1 / lm_rate l"
    and "lm_tokens (snd (acquire now woke l)) + 1 \<le> lm_capacity l"
proof -
  from assms have "0 \<le> (now - lm_last l) * lm_rate l" by (simp add: limiter_ok_def)
  with assms(1) have tokens: "0 \<le> lm_tokens (refill now l)" "lm_tokens (refill now l) \<le> lm_capacity l"
    by (auto simp: limiter_ok_def refill_def)
  with assms(1) show "limiter_ok (snd (acquire now woke l))"
    and "0 \<le> fst (acquire now woke l)" and "fst (acquire now woke l) \<le> 1 / lm_rate l"
    and "lm_tokens (snd (acquire now woke l)) + 1 \<le> lm_capacity l"
    by (auto simp: acquire_def Let_def limiter_ok_def refill_def divide_right_mono)
qed

text \<open>The ledger of tokens: a call spends one, and no more come in than the clock allows.\<close>
lemma acquire_spends:
  assumes "limiter_ok l" and "lm_last l \<le> now" and "now + fst (acquire now woke l) \<le> woke"
  shows "lm_tokens (snd (acquire now woke l)) + 1 \<le> lm_tokens l + lm_rate l * (lm_last (snd (acquire now woke l)) - lm_last l)"
proof (cases "lm_tokens (refill now l) < 1")
  case False
  then show ?thesis by (auto simp: acquire_def refill_def Let_def algebra_simps)
next
  case True
  then have wait: "fst (acquire now woke l) = (1 - lm_tokens (refill now l)) / lm_rate l"
    and after: "lm_tokens (snd (acquire now woke l)) = 0" "lm_last (snd (acquire now woke l)) = woke"
    by (simp_all add: acquire_def refill_def Let_def)
  from assms(1) have rate: "0 < lm_rate l" by (simp add: limiter_ok_def)
  from assms(3) wait have "(1 - lm_tokens (refill now l)) / lm_rate l \<le> woke - now" by simp
  with rate have "1 - lm_tokens (refill now l) \<le> (woke - now) * lm_rate l" by (simp add: pos_divide_le_eq)
  moreover have "lm_tokens (refill now l) \<le> lm_tokens l + (now - lm_last l) * lm_rate l" by (simp add: refill_def)
  ultimately show ?thesis unfolding after by (simp add: algebra_simps)
qed

lemma length_grants [simp]: "length (grants l reads) = length reads"
  by (induction l reads rule: grants.induct) (simp_all add: Let_def)

lemma grants_within_tokens:
  assumes "limiter_ok l" and "clock_ok l reads" and "k < length reads"
  shows "of_nat (Suc k) \<le> lm_tokens l + lm_rate l * (grants l reads ! k - lm_last l)"
  using assms
proof (induction l reads arbitrary: k rule: grants.induct)
  case (2 l now woke rest)
  let ?l = "snd (acquire now woke l)"
  from "2.prems" have ok: "limiter_ok ?l" "clock_ok ?l rest" and step: "lm_tokens ?l + 1 \<le> lm_tokens l + lm_rate l * (lm_last ?l - lm_last l)"
    using acquire_ok(1) [of l now woke] acquire_spends [of l now woke] by auto
  show ?case
  proof (cases k)
    case 0
    with ok(1) step show ?thesis by (simp add: Let_def limiter_ok_def)
  next
    case (Suc j)
    with "2.IH" [OF refl ok, of j] "2.prems" step show ?thesis by (simp add: Let_def algebra_simps)
  qed
qed simp

text \<open>The limiter as it stands before the \<open>i\<close>-th call.\<close>
lemma grants_window:
  assumes "limiter_ok l" and "clock_ok l reads" and "i < j" and "j < length reads"
  shows "of_nat (j - i + 1) \<le> lm_capacity l + lm_rate l * (grants l reads ! j - grants l reads ! i)"
  using assms
proof (induction l reads arbitrary: i j rule: grants.induct)
  case (2 l now woke rest)
  let ?l = "snd (acquire now woke l)"
  from "2.prems" have ok: "limiter_ok ?l" "clock_ok ?l rest" using acquire_ok(1) [of l now woke] by auto
  obtain j' where j: "j = Suc j'" using "2.prems"(3) by (cases j) auto
  show ?case
  proof (cases i)
    case 0
    have "of_nat (Suc j') \<le> lm_tokens ?l + lm_rate l * (grants ?l rest ! j' - lm_last ?l)"
      using grants_within_tokens [OF ok, of j'] "2.prems"(4) j by simp
    moreover have "lm_tokens ?l + 1 \<le> lm_capacity l" using acquire_ok(4) [of l now woke] "2.prems" by simp
    ultimately show ?thesis using 0 j by (simp add: Let_def)
  next
    case (Suc i')
    with "2.IH" [OF refl ok, of i' j'] "2.prems" j show ?thesis by (simp add: Let_def)
  qed
qed simp

lemma waits_bounded:
  "limiter_ok l \<Longrightarrow> clock_ok l reads \<Longrightarrow> w \<in> set (waits l reads) \<Longrightarrow> 0 \<le> w \<and> w \<le> 1 / lm_rate l"
proof (induction l reads rule: waits.induct)
  case (2 l now woke rest)
  then show ?case using acquire_ok(1-3) [of l now woke] by auto
qed simp

text \<open>C33. The limiter keeps its rate over every window: however the calls are spread over a clock that never
  goes back, the calls that return between the \<open>i\<close>-th and the \<open>j\<close>-th are at most the bucket's capacity
  plus what the declared rate allows for the time between them, and no call is asked to wait longer than
  one token takes to come in.\<close>
theorem limiter_keeps_rate:
  assumes "1 \<le> requests" and "0 < per" and "clock_ok (new_limiter requests per t0) reads" and "i < j" and "j < length reads"
  shows "of_nat (j - i + 1) \<le> (of_int requests :: rat)
      + of_int requests / per * (grants (new_limiter requests per t0) reads ! j - grants (new_limiter requests per t0) reads ! i)
    \<and> (\<forall>w \<in> set (waits (new_limiter requests per t0) reads). 0 \<le> w \<and> w \<le> per / of_int requests)"
proof
  note ok = new_limiter_ok [OF assms(1,2), of t0]
  show "of_nat (j - i + 1) \<le> (of_int requests :: rat)
      + of_int requests / per * (grants (new_limiter requests per t0) reads ! j - grants (new_limiter requests per t0) reads ! i)"
    using grants_window [OF ok assms(3-5)] by (simp add: new_limiter_def)
  show "\<forall>w \<in> set (waits (new_limiter requests per t0) reads). 0 \<le> w \<and> w \<le> per / of_int requests"
    using waits_bounded [OF ok assms(3)] by (simp add: new_limiter_def)
qed

text \<open>Two requests per two seconds: two at once, one each second afterwards; the third call waits.\<close>
definition demo_reads :: "(rat \<times> rat) list" where
  "demo_reads = [(0, 0), (0, 0), (0, 1), (2, 2)]"

theorem limiter_keeps_rate_witness:
  "clock_ok (new_limiter 2 2 0) demo_reads \<and> waits (new_limiter 2 2 0) demo_reads = [0, 0, 1, 0] \<and>
   of_nat (3 - 0 + 1) \<le> (of_int 2 :: rat)
      + of_int 2 / 2 * (grants (new_limiter 2 2 0) demo_reads ! 3 - grants (new_limiter 2 2 0) demo_reads ! 0)"
proof -
  have clock: "clock_ok (new_limiter 2 2 0) demo_reads" and ws: "waits (new_limiter 2 2 0) demo_reads = [0, 0, 1, 0]"
    and len: "3 < length demo_reads"
    by (simp_all add: demo_reads_def new_limiter_def acquire_def refill_def Let_def)
  show ?thesis using limiter_keeps_rate [OF _ _ clock _ len, of 0] clock ws by auto
qed

text \<open>The bound is met: four calls return within two seconds of each other.\<close>
lemma limiter_burst:
  "clock_ok (new_limiter 2 2 0) demo_reads \<and> grants (new_limiter 2 2 0) demo_reads = [0, 0, 1, 2]"
  by code_simp

subsection \<open>Retries end in time\<close>

lemma delay_bounds:
  assumes "0 \<le> rp_base_seconds rp" and "0 \<le> rp_cap_seconds rp" and "rp_jitter rp \<le> 1" and "\<bar>u\<bar> \<le> rp_jitter rp"
  shows "0 \<le> delay rp attempt u \<and> delay rp attempt u \<le> rp_cap_seconds rp * (1 + rp_jitter rp)"
proof -
  have u: "0 \<le> 1 + u" "1 + u \<le> 1 + rp_jitter rp" using assms(3,4) by auto
  let ?raw = "min (rp_cap_seconds rp) (rp_base_seconds rp * 2 ^ (attempt - 1))"
  have raw: "0 \<le> ?raw" "?raw \<le> rp_cap_seconds rp" using assms(1,2) by auto
  show ?thesis unfolding delay_def using mult_mono [OF raw(2) u(2) assms(2) u(1)] mult_nonneg_nonneg [OF raw(1) u(1)] by simp
qed

text \<open>A request whose every attempt fails sleeps at most the cap with its jitter after each attempt but the last.\<close>
lemma retry_sleeps_bounded:
  assumes "0 \<le> rp_base_seconds rp" and "0 \<le> rp_cap_seconds rp" and "rp_jitter rp \<le> 1"
    and u: "\<And>a. \<bar>u a\<bar> \<le> rp_jitter rp"
  shows "sum_list (retry_sleeps rp u) \<le> of_nat (rp_attempts rp - 1) * (rp_cap_seconds rp * (1 + rp_jitter rp))"
proof -
  have "sum_list (map (\<lambda>a. delay rp a (u a)) xs) \<le> of_nat (length xs) * (rp_cap_seconds rp * (1 + rp_jitter rp))" for xs
    using delay_bounds [OF assms(1-3) u] by (induction xs) (auto simp: algebra_simps intro: order_trans [OF add_mono])
  then show ?thesis unfolding retry_sleeps_def using length_upt [of 1 "rp_attempts rp"] by metis
qed

end
