(* ===== verification/Pyregex.thy ===== *)
theory Pyregex
  imports Pynet
begin

text \<open>
  The regular expressions of Python's \<open>re\<close> that the secret patterns use, over code points below 256:
  classes, runs, sequences, alternatives, word boundaries and one-character negative lookarounds.
  A class is a list of ranges of code points. A position is the code point before it and those after
  it. Only whether a match exists is modelled, so greed and groups play no part.
\<close>

type_synonym cls = "(nat \<times> nat) list"

datatype rx =
    One_of cls
  | Run cls nat
  | Seq rx rx
  | Alt rx rx
  | Nothing
  | Word_edge
  | Not_after cls
  | Not_before cls

type_synonym pos = "nat option \<times> nat list"

fun in_cls :: "cls \<Rightarrow> nat \<Rightarrow> bool" where
  "in_cls [] n = False"
| "in_cls ((a, b) # cs) n \<longleftrightarrow> a \<le> n \<and> n \<le> b \<or> in_cls cs n"

definition cls_digits :: cls where "cls_digits = [(48, 57)]"
definition cls_upper :: cls where "cls_upper = [(65, 90)]"
definition cls_alnum :: cls where "cls_alnum = [(97, 122), (65, 90), (48, 57)]"

text \<open>\<open>\w\<close>: letters, digits and numerals of the code points below 256, and the underscore. \<open>\s\<close>.\<close>
definition cls_word :: cls where
  "cls_word = cls_alnum @ [(95, 95), (170, 170), (178, 179), (181, 181), (185, 186), (188, 190), (192, 214), (216, 246), (248, 255)]"

definition cls_space :: cls where
  "cls_space = [(9, 13), (28, 32), (133, 133), (160, 160)]"

definition chars :: "string \<Rightarrow> cls" where
  "chars s = map (\<lambda>c. (of_char c, of_char c)) s"

definition holds_prev :: "cls \<Rightarrow> pos \<Rightarrow> bool" where
  "holds_prev P p = (case fst p of None \<Rightarrow> False | Some c \<Rightarrow> in_cls P c)"

definition holds_next :: "cls \<Rightarrow> pos \<Rightarrow> bool" where
  "holds_next P p = (case snd p of [] \<Rightarrow> False | c # _ \<Rightarrow> in_cls P c)"

text \<open>The positions after at least \<open>n\<close> characters of the class.\<close>
fun run_ends :: "cls \<Rightarrow> nat \<Rightarrow> nat option \<Rightarrow> nat list \<Rightarrow> pos list" where
  "run_ends P n p [] = (if n = 0 then [(p, [])] else [])"
| "run_ends P n p (c # s) = (if n = 0 then [(p, c # s)] else []) @ (if in_cls P c then run_ends P (n - 1) (Some c) s else [])"

fun ends :: "rx \<Rightarrow> pos \<Rightarrow> pos list" where
  "ends (One_of P) p = (case snd p of [] \<Rightarrow> [] | c # s \<Rightarrow> if in_cls P c then [(Some c, s)] else [])"
| "ends (Run P n) p = run_ends P n (fst p) (snd p)"
| "ends (Seq a b) p = concat (map (ends b) (ends a p))"
| "ends (Alt a b) p = ends a p @ ends b p"
| "ends Nothing p = [p]"
| "ends Word_edge p = (if holds_prev cls_word p \<noteq> holds_next cls_word p then [p] else [])"
| "ends (Not_after P) p = (if holds_prev P p then [] else [p])"
| "ends (Not_before P) p = (if holds_next P p then [] else [p])"

fun search_from :: "rx \<Rightarrow> nat option \<Rightarrow> nat list \<Rightarrow> bool" where
  "search_from r p [] \<longleftrightarrow> ends r (p, []) \<noteq> []"
| "search_from r p (c # s) \<longleftrightarrow> ends r (p, c # s) \<noteq> [] \<or> search_from r (Some c) s"

text \<open>\<open>pattern.search(text)\<close>\<close>
definition rx_search :: "rx \<Rightarrow> string \<Rightarrow> bool" where
  "rx_search r s = search_from r None (map of_char s)"

fun rx_seq :: "rx list \<Rightarrow> rx" where
  "rx_seq [] = Nothing"
| "rx_seq [r] = r"
| "rx_seq (r # rs) = Seq r (rx_seq rs)"

fun rx_alt :: "rx list \<Rightarrow> rx" where
  "rx_alt [] = One_of []"
| "rx_alt [r] = r"
| "rx_alt (r # rs) = Alt r (rx_alt rs)"

definition rx_exactly :: "cls \<Rightarrow> nat \<Rightarrow> rx" where
  "rx_exactly P n = rx_seq (replicate n (One_of P))"

definition rx_opt :: "rx \<Rightarrow> rx" where
  "rx_opt r = Alt r Nothing"

definition rx_lit :: "string \<Rightarrow> rx" where
  "rx_lit s = rx_seq (map (\<lambda>c. One_of [(of_char c, of_char c)]) s)"

text \<open>Lower-case letters and other characters under \<open>(?i)\<close>.\<close>
definition rx_lit_i :: "string \<Rightarrow> rx" where
  "rx_lit_i s = rx_seq (map (\<lambda>c. let n = of_char c in One_of (if 97 \<le> n \<and> n \<le> 122 then [(n, n), (n - 32, n - 32)] else [(n, n)])) s)"

subsection \<open>Searching\<close>

lemma ex_list: "(\<exists>u. Q u) \<longleftrightarrow> Q [] \<or> (\<exists>c u. Q (c # u))"
  by (metis list.exhaust)

text \<open>What a run reads.\<close>
lemma run_ends_spec:
  "(q, t) \<in> set (run_ends P n p s) \<longleftrightarrow>
     (\<exists>u. s = u @ t \<and> n \<le> length u \<and> list_all (in_cls P) u \<and> q = (if u = [] then p else Some (last u)))"
proof (induction P n p s rule: run_ends.induct)
  case (2 P n p c s)
  have "(\<exists>u. c # s = u @ t \<and> n \<le> length u \<and> list_all (in_cls P) u \<and> q = (if u = [] then p else Some (last u)))
     \<longleftrightarrow> (n = 0 \<and> t = c # s \<and> q = p)
       \<or> (in_cls P c \<and> (\<exists>u. s = u @ t \<and> n - 1 \<le> length u \<and> list_all (in_cls P) u \<and> q = (if u = [] then Some c else Some (last u))))"
    by (subst ex_list) (auto simp: le_diff_conv)
  moreover have "(q, t) \<in> set (run_ends P n p (c # s)) \<longleftrightarrow> (n = 0 \<and> t = c # s \<and> q = p)
      \<or> (in_cls P c \<and> (q, t) \<in> set (run_ends P (n - 1) (Some c) s))" by auto
  ultimately show ?case using "2.IH" by blast
qed auto

subsection \<open>Evaluation\<close>

text \<open>A test on the next code point that every match passes, so that a search can skip positions.\<close>
fun zero_width :: "rx \<Rightarrow> bool" where
  "zero_width Nothing = True"
| "zero_width Word_edge = True"
| "zero_width (Not_after P) = True"
| "zero_width (Not_before P) = True"
| "zero_width r = False"

fun starts :: "rx \<Rightarrow> nat \<Rightarrow> bool" where
  "starts (One_of P) c = in_cls P c"
| "starts (Run P n) c = (if n = 0 then True else in_cls P c)"
| "starts (Seq a b) c = (if zero_width a then starts b c else starts a c)"
| "starts (Alt a b) c = (if starts a c then True else starts b c)"
| "starts r c = True"

lemma zero_width_ends: "zero_width a \<Longrightarrow> set (ends a p) \<subseteq> {p}"
  by (cases a) auto

lemma ends_start: "ends r (p, c # s) \<noteq> [] \<Longrightarrow> starts r c"
proof (induction r arbitrary: p)
  case (Seq a b)
  then obtain q where "q \<in> set (ends a (p, c # s))" "ends b q \<noteq> []" by auto
  moreover from this have "ends a (p, c # s) \<noteq> []" by auto
  ultimately show ?case using Seq.IH zero_width_ends [of a "(p, c # s)"] by (cases "zero_width a") auto
qed (auto split: if_splits)

lemma search_from_code [code]:
  "search_from r p [] \<longleftrightarrow> ends r (p, []) \<noteq> []"
  "search_from r p (c # s) \<longleftrightarrow>
     (if starts r c then if ends r (p, c # s) \<noteq> [] then True else search_from r (Some c) s else search_from r (Some c) s)"
  using ends_start [of r p c s] by auto

end
