(* ===== verification/Manifest_Check.thy ===== *)
theory Manifest_Check
  imports Plan Gaps Pyregex
begin

text \<open>
  The validation of a manifest (src/energy_platform/contracts/manifest.py): the constraints and validators
  of its fields, the scan of the fetch block for credentials and the cross checks of
  \<open>Manifest._consistent\<close>. Pydantic runs the model validator when every field is valid. Parameters: the
  zones the zone database has and the texts that compile as a regular expression. Error texts keep
  their constant part.
\<close>

subsection \<open>Credentials\<close>

definition alnum :: "char \<Rightarrow> bool" where
  "alnum c \<longleftrightarrow> ascii_alpha c \<or> is_digit c"

definition SECRET_PATTERNS :: "(string, rx) dict" where
  "SECRET_PATTERNS =
    [(''AWS access key id'', rx_seq [Word_edge, rx_alt [rx_lit ''AKIA'', rx_lit ''ASIA''], rx_exactly (cls_upper @ cls_digits) 16, Word_edge]),
     (''private key block'', rx_seq [rx_lit ''-----BEGIN '',
        rx_opt (rx_alt (map rx_lit [''RSA '', ''EC '', ''OPENSSH '', ''DSA '', ''PGP ''])), rx_lit ''PRIVATE KEY-----'']),
     (''bearer token'', rx_seq [Word_edge, rx_lit_i ''bearer'', Run cls_space 1, Run (cls_alnum @ chars ''._-'') 24]),
     (''generic assignment'', rx_seq [Word_edge,
        rx_alt [rx_lit_i ''aws_secret_access_key'', rx_lit_i ''secret_key'',
             rx_seq [rx_lit_i ''api'', rx_opt (One_of (chars ''_-'')), rx_lit_i ''key''],
             rx_seq [rx_lit_i ''access'', rx_opt (One_of (chars ''_-'')), rx_lit_i ''token''], rx_lit_i ''password'', rx_lit_i ''passwd''],
        Run cls_space 0, One_of (chars '':=''), Run cls_space 0, rx_opt (One_of [(39, 39), (34, 34)]),
        Run (cls_alnum @ chars ''/+_-'') 16, rx_opt (One_of [(39, 39), (34, 34)])]),
     (''github token'', rx_seq [Word_edge, rx_alt (map rx_lit [''ghp'', ''gho'', ''ghu'', ''ghs'', ''ghr'']), rx_lit ''_'', Run cls_alnum 36, Word_edge]),
     (''slack token'', rx_seq [Word_edge, rx_lit ''xox'', One_of (chars ''baprs''), rx_lit ''-'', Run (cls_alnum @ chars ''-'') 10, Word_edge]),
     (''long opaque token'', rx_seq [Not_after (cls_alnum @ chars ''/''), Run cls_alnum 40, Not_before (cls_alnum @ chars ''/'')])]"

fun first_pattern :: "(string, rx) dict \<Rightarrow> string \<Rightarrow> string \<Rightarrow> string option" where
  "first_pattern [] path v = None"
| "first_pattern ((reason, pat) # rest) path v =
     (if rx_search pat v then Some (reason @ '' at '' @ path) else first_pattern rest path v)"

fun find_secret :: "string \<Rightarrow> json \<Rightarrow> string option"
  and find_members :: "string \<Rightarrow> (string \<times> json) list \<Rightarrow> string option"
  and find_items :: "string \<Rightarrow> nat \<Rightarrow> json list \<Rightarrow> string option" where
  "find_secret path (JObject kvs) = find_members path kvs"
| "find_secret path (JList vs) = find_items path 0 vs"
| "find_secret path (JText s) = first_pattern SECRET_PATTERNS path s"
| "find_secret path JNull = None"
| "find_secret path (JBool b) = None"
| "find_secret path (JInt i) = None"
| "find_secret path (JFloat s) = None"
| "find_members path [] = None"
| "find_members path ((k, v) # kvs) = (case find_secret (path @ ''.'' @ k) v of
       Some hit \<Rightarrow> Some hit
     | None \<Rightarrow> find_members path kvs)"
| "find_items path i [] = None"
| "find_items path i (v # vs) = (case find_secret (path @ ''['' @ str_nat i @ '']'') v of
       Some hit \<Rightarrow> Some hit
     | None \<Rightarrow> find_items path (Suc i) vs)"

text \<open>\<open>fetch.model_dump(mode="json")\<close>: absent blocks are null.\<close>
definition json_dict :: "(string, string) dict \<Rightarrow> json" where
  "json_dict d = JObject (map (\<lambda>(k, v). (k, JText v)) d)"

definition json_opt :: "('a \<Rightarrow> json) \<Rightarrow> 'a option \<Rightarrow> json" where
  "json_opt f x = (case x of None \<Rightarrow> JNull | Some y \<Rightarrow> f y)"

definition soap_json :: "soap_xml_fetch \<Rightarrow> json" where
  "soap_json b = JObject [(''url'', JText (sx_url b)), (''soap_action'', JText (sx_soap_action b)),
     (''body_template'', JText (sx_body_template b)), (''params'', json_dict (sx_params b)),
     (''soap_version'', JText (sx_soap_version b))]"

definition dated_json :: "dated_file_fetch \<Rightarrow> json" where
  "dated_json b = JObject [(''url_template'', JText (df_url_template b)),
     (''file_format'', JText (case df_file_format b of Ff_xlsx \<Rightarrow> ''xlsx'' | Ff_csv \<Rightarrow> ''csv'')),
     (''discovery'', json_opt (\<lambda>d. JObject [(''url'', JText (dy_url d)), (''link_regex'', JText (dy_link_regex d))]) (df_discovery b))]"

definition html_json :: "html_table_fetch \<Rightarrow> json" where
  "html_json b = JObject [(''url'', JText (ht_url b)), (''table_selector'', JText (ht_table_selector b))]"

definition auth_json :: "auth \<Rightarrow> json" where
  "auth_json a = JObject [(''secretRef'', JObject [(''name'', JText (sr_name (au_secretRef a))), (''key'', JText (sr_key (au_secretRef a)))]),
     (''location'', JText (case au_location a of In_query \<Rightarrow> ''query'' | In_header \<Rightarrow> ''header'')), (''param'', JText (au_param a))]"

definition rest_json :: "rest_fetch \<Rightarrow> json" where
  "rest_json b = JObject [(''url_template'', JText (rf_url_template b)), (''query'', json_dict (rf_query b)),
     (''headers'', json_dict (rf_headers b)), (''auth'', json_opt auth_json (rf_auth b)),
     (''rate_limit'', json_opt (\<lambda>r. JObject [(''requests'', JInt (rl_requests r)), (''per'', JText (rl_per r))]) (rf_rate_limit b))]"

definition fetch_json :: "fetch_block \<Rightarrow> json" where
  "fetch_json b = JObject [(''soap_xml'', json_opt soap_json (fb_soap_xml b)), (''dated_file'', json_opt dated_json (fb_dated_file b)),
     (''html_table'', json_opt html_json (fb_html_table b)), (''rest_json'', json_opt rest_json (fb_rest_json b)),
     (''rest_xml'', json_opt rest_json (fb_rest_xml b))]"

subsection \<open>Fields\<close>

definition lower_or_digit :: "char \<Rightarrow> bool" where
  "lower_or_digit c \<longleftrightarrow> (let n = (of_char c :: nat) in 97 \<le> n \<and> n \<le> 122) \<or> is_digit c"

definition lower_char :: "char \<Rightarrow> bool" where
  "lower_char c \<longleftrightarrow> (let n = (of_char c :: nat) in 97 \<le> n \<and> n \<le> 122)"

text \<open>\<open>_TARGET_ID\<close>, read by the regular expressions of pydantic, whose \<open>$\<close> is the end of the text.\<close>
definition target_id_ok :: "string \<Rightarrow> bool" where
  "target_id_ok s \<longleftrightarrow> 3 \<le> length s \<and> length s \<le> 64 \<and> lower_char (hd s)
     \<and> list_all (\<lambda>c. lower_or_digit c \<or> c = CHR ''_'') s"

text \<open>The text before \<open>$\<close>: without the newline it may end in.\<close>
definition before_end :: "string \<Rightarrow> string" where
  "before_end s = (if s \<noteq> [] \<and> last s = CHR 0x0A then butlast s else s)"

definition label_ok :: "string \<Rightarrow> bool" where
  "label_ok l \<longleftrightarrow> l \<noteq> [] \<and> length l \<le> 63 \<and> lower_or_digit (hd l) \<and> lower_or_digit (last l)
     \<and> list_all (\<lambda>c. lower_or_digit c \<or> c = CHR ''-'') l"

text \<open>\<open>_HOSTNAME.match\<close>\<close>
definition hostname_ok :: "string \<Rightarrow> bool" where
  "hostname_ok v \<longleftrightarrow> (let s = before_end v; labels = split_on (CHR ''.'') s in
     1 \<le> length s \<and> length s \<le> 253 \<and> 2 \<le> length labels \<and> list_all label_ok (butlast labels)
     \<and> 2 \<le> length (last labels) \<and> length (last labels) \<le> 63 \<and> list_all lower_char (last labels))"

text \<open>\<open>_MAX_AGE.match\<close> of the manifest.\<close>
definition max_age_ok :: "string \<Rightarrow> bool" where
  "max_age_ok v \<longleftrightarrow> before_end v = ''none'' \<or> (case before_end v of
       [] \<Rightarrow> False
     | c # s \<Rightarrow>
       (let (_, s1) = opt_unit (CHR ''Y'') s; (_, s2) = opt_unit (CHR ''M'') s1;
            (_, s3) = opt_unit (CHR ''W'') s2; (_, s4) = opt_unit (CHR ''D'') s3; (_, _, s5) = time_part s4
        in c = CHR ''P'' \<and> s \<noteq> [] \<and> s4 \<noteq> ''T'' \<and> s5 = []))"

text \<open>\<open>_five_field_cron\<close>\<close>
definition five_field_cron :: "string \<Rightarrow> py_error + string" where
  "five_field_cron v = bindR (check (length (split_ws v) = 5) ''cron must have five fields'') (\<lambda>_. Inr (strip v))"

definition terms_https :: "string \<Rightarrow> py_error + unit" where
  "terms_https v = bindR (urlsplit v) (\<lambda>parts.
     check (up_scheme parts = ''https'' \<and> up_netloc parts \<noteq> []) ''terms_url must be an https URL'')"

definition secret_key_ok :: "string \<Rightarrow> bool" where
  "secret_key_ok s \<longleftrightarrow> before_end s \<noteq> [] \<and> list_all alnum (before_end s)"

text \<open>The fields of the fetch block.\<close>
definition rate_limit_ok :: "rate_limit \<Rightarrow> py_error + unit" where
  "rate_limit_ok r = bindR (check (1 \<le> rl_requests r) ''requests'') (\<lambda>_. bindR (parse_duration (rl_per r)) (\<lambda>_. Inr ()))"

definition opt_ok :: "('a \<Rightarrow> py_error + unit) \<Rightarrow> 'a option \<Rightarrow> py_error + unit" where
  "opt_ok f x = (case x of None \<Rightarrow> Inr () | Some y \<Rightarrow> f y)"

definition auth_ok :: "auth \<Rightarrow> py_error + unit" where
  "auth_ok a = check (sr_name (au_secretRef a) \<noteq> [] \<and> sr_key (au_secretRef a) \<noteq> [] \<and> au_param a \<noteq> []) ''auth''"

definition rest_ok :: "rest_fetch \<Rightarrow> py_error + unit" where
  "rest_ok b = bindR (opt_ok auth_ok (rf_auth b)) (\<lambda>_. opt_ok rate_limit_ok (rf_rate_limit b))"

definition soap_ok :: "soap_xml_fetch \<Rightarrow> py_error + unit" where
  "soap_ok b = check (sx_soap_action b \<noteq> [] \<and> sx_body_template b \<noteq> [] \<and> sx_soap_version b \<in> {''1.1'', ''1.2''}) ''soap_xml''"

definition discovery_ok :: "(string \<Rightarrow> bool) \<Rightarrow> discovery \<Rightarrow> py_error + unit" where
  "discovery_ok compiles d = check (dy_link_regex d \<noteq> [] \<and> compiles (dy_link_regex d)) ''link_regex''"

definition fetch_fields_ok :: "(string \<Rightarrow> bool) \<Rightarrow> fetch_block \<Rightarrow> py_error + unit" where
  "fetch_fields_ok compiles b =
     bindR (opt_ok soap_ok (fb_soap_xml b)) (\<lambda>_.
     bindR (opt_ok (\<lambda>d. opt_ok (discovery_ok compiles) (df_discovery d)) (fb_dated_file b)) (\<lambda>_.
     bindR (opt_ok (\<lambda>h. check (ht_table_selector h \<noteq> []) ''table_selector'') (fb_html_table b)) (\<lambda>_.
     bindR (opt_ok rest_ok (fb_rest_json b)) (\<lambda>_.
     bindR (opt_ok rest_ok (fb_rest_xml b)) (\<lambda>_.
     bindR (fetch_exactly_one b) (\<lambda>_. Inr ()))))))"

text \<open>Cadence and contract; a cron expression is kept without surrounding white space.\<close>
definition mk_correction :: "correction \<Rightarrow> py_error + correction" where
  "mk_correction c = bindR (five_field_cron (co_cron c)) (\<lambda>v.
     bindR (check (1 \<le> co_days c \<and> co_days c \<le> 31) ''days'') (\<lambda>_. Inr (c\<lparr>co_cron := v\<rparr>)))"

definition mk_cadence :: "(string \<Rightarrow> bool) \<Rightarrow> cadence \<Rightarrow> py_error + cadence" where
  "mk_cadence zones c = bindR (five_field_cron (cad_cron c)) (\<lambda>v.
     bindR (check (zones (cad_timezone c)) ''unknown timezone'') (\<lambda>_.
     bindR (case cad_correction c of None \<Rightarrow> Inr None | Some k \<Rightarrow> bindR (mk_correction k) (\<lambda>k'. Inr (Some k'))) (\<lambda>k.
     Inr (c\<lparr>cad_cron := v, cad_correction := k\<rparr>))))"

definition contract_fields_ok :: "contract_block \<Rightarrow> py_error + unit" where
  "contract_fields_ok c = bindR (check (ct_dataset_id c \<noteq> [] \<and> ct_metrics c \<noteq> []) ''contract'')
     (\<lambda>_. check (distinct (ct_metrics c)) ''contract.metrics must not repeat a metric'')"

definition metric_ok :: "metric_mapping \<Rightarrow> py_error + unit" where
  "metric_ok mm = bindR (check (mm_source mm \<noteq> [] \<and> mm_unit mm \<noteq> []) ''metric'') (\<lambda>_. bindR (not_positional (mm_source mm)) (\<lambda>_. Inr ()))"

definition mapping_ok :: "(string \<Rightarrow> bool) \<Rightarrow> mapping_block \<Rightarrow> py_error + unit" where
  "mapping_ok zones b =
     (let t = mb_time b; ref = opt_ok (\<lambda>f. bindR (mk_field_ref f) (\<lambda>_. Inr ())) in
      bindR (ref (Some (tm_resolution t))) (\<lambda>_. bindR (ref (tm_date t)) (\<lambda>_. bindR (ref (tm_index t)) (\<lambda>_.
      bindR (ref (tm_timestamp t)) (\<lambda>_.
      bindR (check (zones (tm_timezone t)) ''unknown timezone'') (\<lambda>_. bindR (mk_time_mapping t) (\<lambda>_.
      bindR (ref (mb_source_version b)) (\<lambda>_. bindR (ref (mb_source_published_at b)) (\<lambda>_.
      bindR (check (mb_metrics b \<noteq> []) ''metrics'') (\<lambda>_.
      bindR (mapR metric_ok (dvalues (mb_metrics b))) (\<lambda>_.
      bindR (mk_mapping_block b) (\<lambda>_. Inr ()))))))))))))"

definition hostnames_ok :: "string list \<Rightarrow> py_error + unit" where
  "hostnames_ok hosts = bindR (check (hosts \<noteq> [] \<and> list_all hostname_ok hosts) ''allowed_hosts entry is not a lowercase hostname'')
     (\<lambda>_. check (distinct hosts) ''allowed_hosts must not repeat a host'')"

subsection \<open>Cross checks\<close>

definition format_decode :: "file_format \<Rightarrow> decode_kind" where
  "format_decode f = (case f of Ff_xlsx \<Rightarrow> Dk_xlsx | Ff_csv \<Rightarrow> Dk_csv)"

definition url_check :: "manifest \<Rightarrow> string \<Rightarrow> py_error + unit" where
  "url_check m url = bindR (urlsplit url) (\<lambda>parts.
     bindR (check (\<not> (up_scheme parts = ''http'' \<and> \<not> m_allow_insecure m)) ''uses http'') (\<lambda>_.
     bindR (check (up_scheme parts \<in> {''https'', ''http''}) ''must be https'') (\<lambda>_.
     bindR (check (case hostname parts of None \<Rightarrow> False | Some h \<Rightarrow> h \<in> set (m_allowed_hosts m)) ''host is not in allowed_hosts'') (\<lambda>_.
     bindR (port_of parts) (\<lambda>port. check (port = None) ''must not set a port'')))))"

definition block_auth :: "fetch_block \<Rightarrow> auth option" where
  "block_auth b = (case fetch_key b of
       Some Rest_json \<Rightarrow> rf_auth (the (fb_rest_json b))
     | Some Rest_xml \<Rightarrow> rf_auth (the (fb_rest_xml b))
     | _ \<Rightarrow> None)"

definition own_secret :: "string \<Rightarrow> auth \<Rightarrow> py_error + unit" where
  "own_secret target a =
     bindR (check (sr_name (au_secretRef a) = target_secret_name target) ''auth.secretRef.name must be its own'')
       (\<lambda>_. check (secret_key_ok (sr_key (au_secretRef a))) ''auth.secretRef.key must be alphanumeric'')"

definition template_check :: "string \<times> string \<times> string list \<times> bool \<Rightarrow> py_error + unit" where
  "template_check t = (case t of (where', template, names, month_index) \<Rightarrow>
     check (check_template template names month_index = Inr ()) ''template'')"

definition consistent :: "manifest \<Rightarrow> py_error + unit" where
  "consistent m =
     (let b = m_fetch m; c = m_contract m in
      bindR (check (fetch_key b = Some (m_modality m)) ''modality requires its fetch block'') (\<lambda>_.
      bindR (check (ct_source_transport c \<in> set (modality_transports (m_modality m))) ''source_transport'') (\<lambda>_.
      bindR (check (ct_decode c \<in> set (modality_decodes (m_modality m))) ''decode'') (\<lambda>_.
      bindR (check (case fb_dated_file b of None \<Rightarrow> True | Some d \<Rightarrow> format_decode (df_file_format d) = ct_decode c) ''file_format must equal contract.decode'') (\<lambda>_.
      bindR (mapR (url_check m) (fetch_urls b)) (\<lambda>_.
      bindR (check (find_secret ''fetch'' (fetch_json b) = None) ''fetch block contains a credential-looking string'') (\<lambda>_.
      bindR (opt_ok (own_secret (m_target_id m)) (block_auth b)) (\<lambda>_.
      bindR (mapR template_check (fetch_templates run_names b)) (\<lambda>_.
      check (set (ct_metrics c) = set (dkeys (mb_metrics (m_mapping m)))) ''contract.metrics must equal mapping.metrics keys'')))))))))"

text \<open>\<open>Manifest.model_validate\<close> on values of the declared types.\<close>
definition mk_manifest :: "(string \<Rightarrow> bool) \<Rightarrow> (string \<Rightarrow> bool) \<Rightarrow> manifest \<Rightarrow> py_error + manifest" where
  "mk_manifest zones compiles m =
     bindR (check (target_id_ok (m_target_id m) \<and> m_license m \<noteq> []) ''target_id'') (\<lambda>_.
     bindR (terms_https (m_terms_url m)) (\<lambda>_.
     bindR (hostnames_ok (m_allowed_hosts m)) (\<lambda>_.
     bindR (mk_cadence zones (m_cadence m)) (\<lambda>cad.
     bindR (check (max_age_ok (m_max_age m)) ''history.max_age'') (\<lambda>_.
     bindR (fetch_fields_ok compiles (m_fetch m)) (\<lambda>_.
     bindR (contract_fields_ok (m_contract m)) (\<lambda>_.
     bindR (mapping_ok zones (m_mapping m)) (\<lambda>_.
     bindR (consistent m) (\<lambda>_. Inr (m\<lparr>m_cadence := cad\<rparr>))))))))))"

abbreviation ceps_zones :: "string \<Rightarrow> bool" where
  "ceps_zones \<equiv> (\<lambda>z. z = ''Europe/Prague'')"

lemma first_pattern_None: "first_pattern ps path v = None \<longleftrightarrow> list_all (\<lambda>(_, pat). \<not> rx_search pat v) ps"
  by (induction ps path v rule: first_pattern.induct) auto

definition clean :: "string \<Rightarrow> bool" where
  "clean v = list_all (\<lambda>(_, pat). \<not> rx_search pat v) SECRET_PATTERNS"

lemma ceps_clean_1: "clean ''https://www.ceps.cz/_layouts/CepsData.asmx''"
  by code_simp

lemma ceps_clean_2: "clean ''https://www.ceps.cz/CepsData/Load''"
  by code_simp

lemma ceps_clean_3: "clean ''<Load>{date_from}/{date_to}</Load>''"
  by code_simp

lemma ceps_clean_4: "clean ''{delivery_day:%Y-%m-%d}T00:00:00''"
  by code_simp

lemma ceps_clean_5: "clean ''{delivery_day:%Y-%m-%d}T23:59:59''"
  by code_simp

lemma ceps_clean_6: "clean ''1.1''"
  by code_simp

lemma find_text_clean: "clean v \<Longrightarrow> find_secret path (JText v) = None"
  by (simp add: clean_def first_pattern_None)

lemma ceps_secret_free: "find_secret ''fetch'' (fetch_json (m_fetch ceps_manifest)) = None"
  using ceps_clean_1 ceps_clean_2 ceps_clean_3 ceps_clean_4 ceps_clean_5 ceps_clean_6
  by (simp add: ceps_manifest_def fetch_json_def soap_json_def json_dict_def json_opt_def find_text_clean del: find_secret.simps(3))

lemma ceps_terms: "terms_https (m_terms_url ceps_manifest) = Inr ()"
  by code_simp

lemma ceps_hosts: "hostnames_ok (m_allowed_hosts ceps_manifest) = Inr ()"
  by code_simp

lemma ceps_cadence: "mk_cadence ceps_zones (m_cadence ceps_manifest) = Inr (m_cadence ceps_manifest)"
  by code_simp

lemma ceps_age: "max_age_ok (m_max_age ceps_manifest)"
  by code_simp

lemma ceps_target: "target_id_ok (m_target_id ceps_manifest) \<and> m_license ceps_manifest \<noteq> []"
  by code_simp

lemma ceps_fetch: "fetch_fields_ok (\<lambda>_. True) (m_fetch ceps_manifest) = Inr ()"
  by code_simp

lemma ceps_contract: "contract_fields_ok (m_contract ceps_manifest) = Inr ()"
  by code_simp

lemma ceps_mapping: "mapping_ok ceps_zones (m_mapping ceps_manifest) = Inr ()"
  by code_simp

lemma ceps_urls: "mapR (url_check ceps_manifest) (fetch_urls (m_fetch ceps_manifest)) = Inr [()]"
  by code_simp

lemma ceps_templates: "mapR template_check (fetch_templates run_names (m_fetch ceps_manifest)) = Inr [(), (), ()]"
  by code_simp

lemma ceps_manifest_valid: "mk_manifest ceps_zones (\<lambda>_. True) ceps_manifest = Inr ceps_manifest"
proof -
  have rest: "fetch_key (m_fetch ceps_manifest) = Some (m_modality ceps_manifest)"
    "ct_source_transport (m_contract ceps_manifest) \<in> set (modality_transports (m_modality ceps_manifest))"
    "ct_decode (m_contract ceps_manifest) \<in> set (modality_decodes (m_modality ceps_manifest))"
    "fb_dated_file (m_fetch ceps_manifest) = None" "block_auth (m_fetch ceps_manifest) = None"
    "set (ct_metrics (m_contract ceps_manifest)) = set (dkeys (mb_metrics (m_mapping ceps_manifest)))"
    by (simp_all add: ceps_manifest_def fetch_key_def fetch_present_def modality_transports_def modality_decodes_def block_auth_def)
  have "consistent ceps_manifest = Inr ()"
    unfolding consistent_def Let_def by (simp add: rest ceps_urls ceps_secret_free ceps_templates check_def opt_ok_def)
  then show ?thesis
    unfolding mk_manifest_def by (simp add: ceps_target ceps_terms ceps_hosts ceps_cadence ceps_age ceps_fetch ceps_contract ceps_mapping check_def)
qed

end
