(* ===== verification/Manifest_Properties.thy ===== *)
theory Manifest_Properties
  imports Manifest_Check Plan_Properties
begin

text \<open>
  What a validated manifest promises the rest of the program: its templates always render, its
  credentials are its own, its literal URLs pass the egress policy once it is admitted, and no opaque
  token is written in it.
\<close>

subsection \<open>What validation establishes\<close>

lemma opt_ok_Inr [simp]: "opt_ok f x = Inr u \<longleftrightarrow> (case x of None \<Rightarrow> True | Some y \<Rightarrow> f y = Inr ())"
  by (cases x) (simp_all add: opt_ok_def)

lemma consistent_Inr:
  assumes "consistent m = Inr u"
  shows "\<forall>url \<in> set (fetch_urls (m_fetch m)). url_check m url = Inr ()"
    and "find_secret ''fetch'' (fetch_json (m_fetch m)) = None"
    and "\<forall>t \<in> set (fetch_templates run_names (m_fetch m)). template_check t = Inr ()"
    and "block_auth (m_fetch m) = Some a \<Longrightarrow> own_secret (m_target_id m) a = Inr ()"
  using assms unfolding consistent_def Let_def
  by (auto dest: mapR_mem)

lemma mk_manifest_Inr:
  assumes "mk_manifest zones compiles m0 = Inr m"
  obtains cad where "m = m0\<lparr>m_cadence := cad\<rparr>" "consistent m0 = Inr ()" "hostnames_ok (m_allowed_hosts m0) = Inr ()"
    "target_id_ok (m_target_id m0)" "max_age_ok (m_max_age m0)"
  using assms unfolding mk_manifest_def by auto

lemma mk_manifest_same:
  assumes "mk_manifest zones compiles m0 = Inr m"
  shows "m_fetch m = m_fetch m0" "m_target_id m = m_target_id m0" "m_allowed_hosts m = m_allowed_hosts m0"
    "m_allow_insecure m = m_allow_insecure m0" "m_max_age m = m_max_age m0"
  by (rule mk_manifest_Inr [OF assms], simp)+

subsection \<open>Templates\<close>

lemma check_pieces_mem:
  "check_pieces names mi ps = Inr u \<Longrightarrow> (l, Some f) \<in> set ps \<Longrightarrow> check_field names mi f = Inr ()"
  by (induction names mi ps rule: check_pieces.induct) auto

lemma expand_total:
  assumes "\<And>l n spec c. (l, Some (n, spec, c)) \<in> set ps \<Longrightarrow> val n spec \<noteq> None"
  shows "\<exists>s. expand val ps = Some s"
  using assms
proof (induction ps)
  case (Cons p ps)
  obtain l f where p: "p = (l, f)" by (cases p)
  from Cons.IH Cons.prems obtain s where s: "expand val ps = Some s" by (metis list.set_intros(2))
  show ?case
  proof (cases f)
    case None
    with p s show ?thesis by simp
  next
    case (Some g)
    obtain n spec c where g: "g = (n, spec, c)" by (cases g)
    with p Some Cons.prems [of l n spec c] s show ?thesis by auto
  qed
qed simp

lemma month_scan_pos: "list_all (\<lambda>k. 1 \<le> k) ms \<Longrightarrow> 1 \<le> fst (month_scan y r ms)"
  by (induction y r ms rule: month_scan.induct) auto

lemma month_of_pos: "1 \<le> month_of d"
  unfolding month_of_def ord2ymd_def Let_def
  using month_scan_pos [of "[1..12]" "year_of_ord d" "d - 1 - days_before_year (year_of_ord d)"]
  by (auto simp: list_all_iff split: prod.splits)

lemma month_back_total: "2 \<le> year_of d \<Longrightarrow> k \<le> 12 \<Longrightarrow> month_back b d k \<noteq> None"
  using month_of_pos [of d] by (auto simp: month_back_def Let_def)

lemma context_value_total:
  assumes "check_field run_names True (n, spec, c) = Inr ()" and "2 \<le> year_of (fx_delivery_day ctx)"
  shows "context_value ctx n \<noteq> None"
proof (cases "month_field n")
  case None
  with assms(1) have "n \<in> set run_names" by (simp add: check_field_Inr)
  then show ?thesis by (auto simp: run_names_def context_value_def)
next
  case (Some f)
  with assms have "month_back (fst f) (fx_delivery_day ctx) (snd f) \<noteq> None"
    by (intro month_back_total) (auto simp: check_field_Inr)
  with Some show ?thesis by (auto simp: context_value_def split: prod.splits)
qed

lemma render_total:
  assumes "check_template template run_names True = Inr ()" and "2 \<le> year_of (fx_delivery_day ctx)"
    and "fx_delivery_day ctx + 1 \<le> MAX_ORDINAL" and "\<And>v spec. fm_value fs v spec \<noteq> None"
  shows "\<exists>s. render fs template ctx = Inr s"
proof -
  from assms(1) obtain ps where ps: "fmt_parse template = Some ps" "check_pieces run_names True ps = Inr ()"
    by (auto simp: check_template_def split: option.splits)
  let ?val = "\<lambda>n spec. case context_value ctx n of None \<Rightarrow> None | Some v \<Rightarrow> fm_value fs v spec"
  have "\<exists>s. expand ?val ps = Some s"
  proof (rule expand_total)
    fix l n spec c assume "(l, Some (n, spec, c)) \<in> set ps"
    from context_value_total [OF check_pieces_mem [OF ps(2) this] assms(2)] assms(4)
    show "?val n spec \<noteq> None" by (auto split: option.splits)
  qed
  with ps assms(1,3) show ?thesis by (auto simp: render_def checked_pieces_def)
qed

lemma run_template_names:
  "(where', template, names, True) \<in> set (fetch_templates run_names b) \<Longrightarrow> names = run_names"
proof (cases "fetch_key b")
  case (Some k)
  then show "(where', template, names, True) \<in> set (fetch_templates run_names b) \<Longrightarrow> names = run_names"
    by (cases k) (auto simp: fetch_templates_def rest_templates_def Let_def)
qed (simp add: fetch_templates_def)

text \<open>C27. Validation catches every template error: a manifest that validates never fails to render a URL,
  query, header or SOAP parameter of a run, for every delivery day from the year 2 to the day before the
  last one, whatever the time of the run, wherever \<open>strftime\<close> accepts the format.\<close>
theorem validated_templates_render:
  assumes "mk_manifest zones compiles m0 = Inr m" and "(where', template, names, True) \<in> set (fetch_templates run_names (m_fetch m))"
    and "2 \<le> year_of (fx_delivery_day ctx)" and "fx_delivery_day ctx + 1 \<le> MAX_ORDINAL"
    and "\<And>v spec. fm_value fs v spec \<noteq> None"
  shows "\<exists>s. render fs template ctx = Inr s"
proof -
  have mem: "(where', template, names, True) \<in> set (fetch_templates run_names (m_fetch m0))"
    using assms(2) mk_manifest_same(1) [OF assms(1)] by simp
  obtain cad where "consistent m0 = Inr ()" using mk_manifest_Inr [OF assms(1)] by blast
  from consistent_Inr(3) [OF this] mem have "check_template template names True = Inr ()" by (auto simp: template_check_def)
  moreover have "names = run_names" using mem by (rule run_template_names)
  ultimately show ?thesis using render_total assms(3-5) by simp
qed

subsection \<open>Literal URLs\<close>

lemma lower_kept: "lower_or_digit c \<or> c \<in> {CHR ''-'', CHR ''.'', CHR 0x0A} \<Longrightarrow> py_lower_char c = c"
  by (auto simp: lower_or_digit_def py_lower_char_def is_digit_def Let_def)

lemma before_end_chars:
  assumes "hostname_ok h" and "c \<in> set (before_end h)"
  shows "lower_or_digit c \<or> c \<in> {CHR ''-'', CHR ''.''}"
proof -
  let ?ls = "split_on (CHR ''.'') (before_end h)"
  have "lower_or_digit c \<or> c = CHR ''-''" if p: "p \<in> set ?ls" "c \<in> set p" for p
  proof -
    have "?ls = butlast ?ls @ [last ?ls]" by simp
    with p have "p \<in> set (butlast ?ls) \<or> p = last ?ls" by (metis Un_iff empty_iff insert_iff list.set(1,2) set_append)
    with assms(1) p(2) show ?thesis
      by (auto simp: hostname_ok_def Let_def label_ok_def list_all_iff lower_char_def lower_or_digit_def)
  qed
  then show ?thesis using split_on_chars [OF assms(2), of "CHR ''.''"] by blast
qed

lemma before_end_cases: "s = before_end s \<or> s = before_end s @ [CHR 0x0A]"
  unfolding before_end_def by (metis append_butlast_last_id)

lemma hostname_lower: "hostname_ok h \<Longrightarrow> py_lower h = h"
  using before_end_cases [of h] before_end_chars [of h] unfolding py_lower_def
  by (intro map_idI lower_kept) (metis Un_iff empty_iff insert_iff list.set(1,2) set_append)

lemma no_space: "lower_or_digit c \<or> c \<in> {CHR ''-'', CHR ''.''} \<Longrightarrow> \<not> py_space c"
  by (auto simp: lower_or_digit_def py_space_def is_digit_def Let_def)

lemma strip_id: "list_all (\<lambda>c. \<not> py_space c) s \<Longrightarrow> strip s = s \<and> strip (s @ [CHR 0x0A]) = s"
proof -
  assume a: "list_all (\<lambda>c. \<not> py_space c) s"
  then have "\<forall>c \<in> set (rev s). \<not> py_space c" by (simp add: list_all_iff)
  then have d: "dropWhile py_space s = s" "dropWhile py_space (rev s) = rev s"
    using a by (simp_all add: dropWhile_eq_self_iff list_all_iff) (metis hd_in_set rev_is_Nil_conv set_rev)+
  have n: "py_space (CHR 0x0A)" by code_simp
  show "strip s = s \<and> strip (s @ [CHR 0x0A]) = s"
  proof (cases s)
    case Nil
    then show ?thesis using n by (simp add: strip_def)
  next
    case (Cons c s')
    then have "dropWhile py_space (s @ [CHR 0x0A]) = s @ [CHR 0x0A]" using a by simp
    then show ?thesis using d n by (simp add: strip_def)
  qed
qed

lemma strip_hostname: "hostname_ok h \<Longrightarrow> strip h = before_end h"
proof -
  assume h: "hostname_ok h"
  then have "list_all (\<lambda>c. \<not> py_space c) (before_end h)" using before_end_chars no_space by (auto simp: list_all_iff)
  with strip_id show "strip h = before_end h" using before_end_cases [of h] by metis
qed

lemma registered_hosts:
  assumes "hostname_ok h" and "host h = Some e"
  shows "443 \<in> set (he_ports e) \<and> \<not> he_allow_insecure e \<and> \<not> is_ip_literal h \<and> h \<noteq> []"
proof -
  let ?hs = "[''www.ote-cr.cz'', ''www.ceps.cz'', ''www.ote-cr.cz'' @ [CHR 0x0A], ''www.ceps.cz'' @ [CHR 0x0A]]"
  have "py_lower (before_end h) = before_end h" using before_end_chars [OF assms(1)] unfolding py_lower_def
    by (intro map_idI lower_kept) auto
  with assms have e: "dget HOSTS (before_end h) = Some e" by (simp add: host_def strip_hostname)
  then have "before_end h = ''www.ote-cr.cz'' \<or> before_end h = ''www.ceps.cz''" "443 \<in> set (he_ports e) \<and> \<not> he_allow_insecure e"
    by (auto simp: HOSTS_def split: if_splits)
  moreover from this(1) have "h \<in> set ?hs" using before_end_cases [of h] by auto
  moreover have "list_all (\<lambda>x. \<not> is_ip_literal x \<and> x \<noteq> []) ?hs" by code_simp
  ultimately show ?thesis by (auto simp: list_all_iff)
qed

text \<open>Admission and the egress policy agree: every literal URL of a manifest that validates and is
  admitted passes the check made before a request, over https on port 443; nothing admitted is refused at
  run time for its URL.\<close>
theorem admitted_urls_pass:
  assumes "mk_manifest zones compiles m0 = Inr m" and "validate_manifest m = Inr v" and "vr_status v = Vs_ok"
    and "url \<in> set (fetch_urls (m_fetch m))"
  shows "\<exists>d. check_url url (m_allowed_hosts m) (m_allow_insecure m) = Inr d \<and> dn_scheme d = ''https'' \<and> dn_port d = 443"
proof -
  note same = mk_manifest_same [OF assms(1)]
  obtain cad where m0: "m = m0\<lparr>m_cadence := cad\<rparr>" "consistent m0 = Inr ()" "hostnames_ok (m_allowed_hosts m0) = Inr ()"
    using mk_manifest_Inr [OF assms(1)] by metis
  from m0(3) have hosts: "m_allowed_hosts m \<noteq> []" "\<forall>h \<in> set (m_allowed_hosts m). hostname_ok h"
    by (auto simp: hostnames_ok_def list_all_iff same)
  from validate_manifest_ok [OF assms(2,3)] have
    reg: "\<forall>h \<in> set (m_allowed_hosts m). \<exists>e. host h = Some e \<and> (m_allow_insecure m \<longrightarrow> he_allow_insecure e)" by metis
  have secure: "\<not> m_allow_insecure m"
    using hosts reg registered_hosts by (metis list.set_intros(1) neq_Nil_conv)
  have "url_check m0 url = Inr ()" using consistent_Inr(1) [OF m0(2)] assms(4) same by simp
  then obtain parts h where p: "urlsplit url = Inr parts" "up_scheme parts = ''https''" "hostname parts = Some h"
      "h \<in> set (m_allowed_hosts m)" "port_of parts = Inr None"
    using secure same by (auto simp: url_check_def split: option.splits)
  from p(4) hosts(2) reg obtain e where e: "hostname_ok h" "host h = Some e" by blast
  from hostname_lower [OF e(1)] p have "url_host parts = h" by (simp add: url_host_def)
  with registered_hosts [OF e] p e show ?thesis by (simp add: check_url_def stray_def Let_def)
qed

subsection \<open>History\<close>

text \<open>The gap detector reads every age that validates, \<open>none\<close> apart, unless a newline ends it: the pattern of the
  manifest admits one there, and \<open>none\<close> with a newline is no age the detector knows.\<close>
lemma validated_age_readable:
  assumes "max_age_ok v" and "before_end v = v" and "v \<noteq> ''none''"
  shows "parse_max_age v \<noteq> None"
proof -
  from assms obtain c s where v: "v = c # s" by (cases v) (auto simp: max_age_ok_def)
  have "v \<noteq> ''PT''" using assms by (auto simp: max_age_ok_def opt_unit_def is_digit_def Let_def)
  with assms v show ?thesis
    by (auto simp: max_age_ok_def parse_max_age_def at_end_def Let_def split: prod.splits)
qed

lemma none_with_newline:
  "max_age_ok (''none'' @ [CHR 0x0A])" "parse_max_age (''none'' @ [CHR 0x0A]) = None"
  by code_simp+

subsection \<open>Credentials\<close>

text \<open>The reference of a validated manifest is in scope, and its key has no underscore to confuse.\<close>
lemma validated_secret_in_scope:
  assumes "mk_manifest zones compiles m0 = Inr m" and "block_auth (m_fetch m) = Some a"
  shows "scoped_resolve (m_target_id m) inner (au_secretRef a) = inner (au_secretRef a)"
proof -
  obtain cad where "consistent m0 = Inr ()" using mk_manifest_Inr [OF assms(1)] by metis
  from consistent_Inr(4) [OF this] assms(2) show ?thesis
    by (simp add: mk_manifest_same [OF assms(1)] own_secret_def scoped_resolve_def)
qed

text \<open>The texts of a JSON value that \<open>find_secret\<close> looks at.\<close>
fun json_texts :: "json \<Rightarrow> string list"
  and member_texts :: "(string \<times> json) list \<Rightarrow> string list"
  and item_texts :: "json list \<Rightarrow> string list" where
  "json_texts (JObject kvs) = member_texts kvs"
| "json_texts (JList vs) = item_texts vs"
| "json_texts (JText s) = [s]"
| "json_texts JNull = []"
| "json_texts (JBool b) = []"
| "json_texts (JInt i) = []"
| "json_texts (JFloat s) = []"
| "member_texts [] = []"
| "member_texts ((k, v) # kvs) = json_texts v @ member_texts kvs"
| "item_texts [] = []"
| "item_texts (v # vs) = json_texts v @ item_texts vs"

lemma find_secret_iff:
  "find_secret path j = None \<longleftrightarrow> list_all clean (json_texts j)"
  "find_members path kvs = None \<longleftrightarrow> list_all clean (member_texts kvs)"
  "find_items path i vs = None \<longleftrightarrow> list_all clean (item_texts vs)"
  by (induction path j and path kvs and path i vs rule: find_secret_find_members_find_items.induct)
    (auto simp: clean_def first_pattern_None split: option.splits)

lemma search_from_drop:
  "search_from r p s \<longleftrightarrow> (\<exists>u t. s = u @ t \<and> ends r (if u = [] then p else Some (last u), t) \<noteq> [])"
proof (induction s arbitrary: p)
  case (Cons c s)
  have "(\<exists>u t. c # s = u @ t \<and> ends r (if u = [] then p else Some (last u), t) \<noteq> []) \<longleftrightarrow>
      ends r (p, c # s) \<noteq> [] \<or> (\<exists>u t. s = u @ t \<and> ends r (if u = [] then Some c else Some (last u), t) \<noteq> [])"
    by (subst ex_list) (auto cong: if_cong)
  with Cons.IH [of "Some c"] show ?case by simp
qed auto

text \<open>A run of forty or more letters and digits that stands alone.\<close>
definition opaque_in :: "string \<Rightarrow> bool" where
  "opaque_in v \<longleftrightarrow> (\<exists>a u b. v = a @ u @ b \<and> 40 \<le> length u \<and> list_all alnum u
     \<and> (a = [] \<or> \<not> alnum (last a) \<and> last a \<noteq> CHR ''/'') \<and> (b = [] \<or> \<not> alnum (hd b) \<and> hd b \<noteq> CHR ''/''))"

lemma alnum_cls: "in_cls cls_alnum (of_char c) \<longleftrightarrow> alnum c"
  by (auto simp: cls_alnum_def alnum_def ascii_alpha_def is_digit_def Let_def)

lemma alnum_slash_cls: "in_cls (cls_alnum @ chars ''/'') (of_char c) \<longleftrightarrow> alnum c \<or> c = CHR ''/''"
proof -
  have "in_cls (xs @ ys) n \<longleftrightarrow> in_cls xs n \<or> in_cls ys n" for xs ys n by (induction xs n rule: in_cls.induct) auto
  moreover have "(of_char c :: nat) = 47 \<longleftrightarrow> c = CHR ''/''"
    using of_char_eq_iff [of c "CHR ''/''", where 'a = nat] by simp
  moreover have "in_cls (chars ''/'') n \<longleftrightarrow> n = 47" for n by (auto simp: chars_def)
  ultimately show ?thesis by (simp only: alnum_cls)
qed

text \<open>\<open>long opaque token\<close> of the patterns.\<close>
abbreviation opaque_pattern :: rx where
  "opaque_pattern \<equiv> rx_seq [Not_after (cls_alnum @ chars ''/''), Run cls_alnum 40, Not_before (cls_alnum @ chars ''/'')]"

lemma opaque_is_found: "opaque_in v \<Longrightarrow> rx_search opaque_pattern v"
proof -
  assume "opaque_in v"
  then obtain a u b where v: "v = a @ u @ b" "40 \<le> length u" "list_all alnum u"
    and a: "a = [] \<or> \<not> alnum (last a) \<and> last a \<noteq> CHR ''/''" and b: "b = [] \<or> \<not> alnum (hd b) \<and> hd b \<noteq> CHR ''/''"
    unfolding opaque_in_def by auto
  let ?n = "\<lambda>s. map of_char s :: nat list"
  let ?slash = "cls_alnum @ chars ''/''"
  define p where "p = (if ?n a = [] then None else Some (last (?n a)))"
  define q where "q = Some (last (?n u))"
  have u: "u \<noteq> []" using v(2) by auto
  have "\<not> holds_prev ?slash (p, t)" for t
    using a by (auto simp: p_def holds_prev_def last_map alnum_slash_cls simp del: in_cls.simps)
  then have e1: "ends (Not_after ?slash) (p, t) = [(p, t)]" for t by simp
  have "\<not> holds_next ?slash (q, ?n b)"
    using b by (cases b) (auto simp: holds_next_def alnum_slash_cls simp del: in_cls.simps)
  then have e3: "ends (Not_before ?slash) (q, ?n b) = [(q, ?n b)]" by simp
  have "(q, ?n b) \<in> set (run_ends cls_alnum 40 p (?n u @ ?n b))"
    unfolding run_ends_spec using v(2,3) u by (intro exI [of _ "?n u"]) (auto simp: q_def list_all_iff alnum_cls)
  then have e2: "(q, ?n b) \<in> set (ends (Run cls_alnum 40) (p, ?n u @ ?n b))" by simp
  have "(q, ?n b) \<in> set (ends (Seq (Run cls_alnum 40) (Not_before ?slash)) (p, ?n u @ ?n b))"
    unfolding ends.simps(3) set_concat set_map by (rule UN_I [OF imageI [OF e2]]) (simp only: e3 list.set_intros)
  then have "ends (Seq (Not_after ?slash) (Seq (Run cls_alnum 40) (Not_before ?slash))) (p, ?n u @ ?n b) \<noteq> []"
    unfolding ends.simps(3) [of "Not_after ?slash"] e1 by (simp only: list.map concat.simps append_Nil2 list.set empty_iff not_False_eq_True flip: set_empty) (metis empty_iff)
  then show "rx_search opaque_pattern v"
    unfolding rx_search_def search_from_drop rx_seq.simps p_def
    by (intro exI [of _ "?n a"] exI [of _ "?n u @ ?n b"]) (simp add: v(1))
qed

lemma found_is_opaque:
  assumes "rx_search opaque_pattern v"
  shows "opaque_in v"
proof -
  let ?slash = "cls_alnum @ chars ''/''"
  from assms obtain x t where v: "map of_char v = x @ t"
    and e: "ends (Seq (Not_after ?slash) (Seq (Run cls_alnum 40) (Not_before ?slash))) (if x = [] then None else Some (last x), t) \<noteq> []"
    unfolding rx_search_def search_from_drop rx_seq.simps by blast
  define p where "p = (if x = [] then None else Some (last x))"
  have prev: "\<not> holds_prev ?slash (p, t)" using e by (auto simp: p_def split: if_splits)
  then have "ends (Seq (Run cls_alnum 40) (Not_before ?slash)) (p, t) \<noteq> []" using e by (simp add: p_def)
  then obtain q b' where run: "(q, b') \<in> set (run_ends cls_alnum 40 p t)" and next': "\<not> holds_next ?slash (q, b')"
    by (auto simp: ex_in_conv [symmetric] split: if_splits)
  then obtain u' where u': "t = u' @ b'" "40 \<le> length u'" "list_all (in_cls cls_alnum) u'" unfolding run_ends_spec by blast
  from v obtain a c where c: "v = a @ c" "x = map of_char a" "t = map of_char c" by (auto simp: map_eq_append_conv)
  with u'(1) obtain u b where "c = u @ b" "u' = map of_char u" "b' = map of_char b" by (metis map_eq_append_conv)
  with c have abu: "v = a @ u @ b" "x = map of_char a" "u' = map of_char u" "b' = map of_char b" by auto
  have "list_all alnum u" "40 \<le> length u" using u'(2,3) abu(3) by (auto simp: list_all_iff alnum_cls)
  moreover have "a = [] \<or> \<not> alnum (last a) \<and> last a \<noteq> CHR ''/''"
    using prev abu(2) by (auto simp: p_def holds_prev_def last_map alnum_slash_cls simp del: in_cls.simps split: if_splits)
  moreover have "b = [] \<or> \<not> alnum (hd b) \<and> hd b \<noteq> CHR ''/''"
    using next' abu(4) by (cases b) (auto simp: holds_next_def alnum_slash_cls simp del: in_cls.simps)
  ultimately show ?thesis using abu(1) unfolding opaque_in_def by blast
qed

lemma opaque_not_clean: "opaque_in v \<Longrightarrow> \<not> clean v"
  using opaque_is_found by (simp add: clean_def SECRET_PATTERNS_def del: rx_seq.simps)

text \<open>C28. No opaque token is the value of a text field of the fetch block. The scan reads the text values of the
  block, however deep; not the names of its query parameters and headers. What its last pattern finds in such a value is
  exactly a run of forty or more letters and digits that no letter, digit or slash adjoins, so a run next to a
  slash, as in the path of a URL, is not found; and a manifest with a value where it is found does not
  validate.\<close>
theorem opaque_tokens_refused:
  assumes "v \<in> set (json_texts (fetch_json (m_fetch m)))"
  shows "(\<exists>pat. dget SECRET_PATTERNS ''long opaque token'' = Some pat \<and> (rx_search pat v \<longleftrightarrow> opaque_in v))
    \<and> (opaque_in v \<longrightarrow> isl (mk_manifest zones compiles m))"
proof (intro conjI impI)
  show "\<exists>pat. dget SECRET_PATTERNS ''long opaque token'' = Some pat \<and> (rx_search pat v \<longleftrightarrow> opaque_in v)"
    using opaque_is_found found_is_opaque by (intro exI [of _ opaque_pattern]) (auto simp: SECRET_PATTERNS_def simp del: rx_seq.simps)
next
  assume v: "opaque_in v"
  show "isl (mk_manifest zones compiles m)"
  proof (rule ccontr)
    assume "\<not> isl (mk_manifest zones compiles m)"
    then obtain m' where "mk_manifest zones compiles m = Inr m'" by (metis sum.collapse(2))
    then obtain cad where "consistent m = Inr ()" using mk_manifest_Inr by metis
    from consistent_Inr(2) [OF this] assms(1) have "clean v" by (auto simp: find_secret_iff list_all_iff)
    with opaque_not_clean [OF v] show False by simp
  qed
qed

subsection \<open>Witnesses\<close>

lemma ceps_strftime: "fm_value (demo_formats\<lparr>fm_value := (\<lambda>v spec. Some spec)\<rparr>) v spec \<noteq> None"
  by simp

theorem validated_templates_render_witness:
  "\<exists>s. render (demo_formats\<lparr>fm_value := (\<lambda>v spec. Some spec)\<rparr>) ''{delivery_day:%Y-%m-%d}T00:00:00''
     \<lparr>fx_scheduled_for = 0, fx_delivery_day = 739000\<rparr> = Inr s"
proof -
  have "(''params.date_from'', ''{delivery_day:%Y-%m-%d}T00:00:00'', run_names, True)
      \<in> set (fetch_templates run_names (m_fetch ceps_manifest))" by code_simp
  moreover have "2 \<le> year_of 739000" "739000 + 1 \<le> MAX_ORDINAL" by code_simp+
  ultimately show ?thesis
    using validated_templates_render [OF ceps_manifest_valid _ _ _ ceps_strftime] by simp
qed

theorem admitted_urls_pass_witness:
  "\<exists>d. check_url ''https://www.ceps.cz/_layouts/CepsData.asmx'' (m_allowed_hosts ceps_manifest) (m_allow_insecure ceps_manifest) = Inr d
     \<and> dn_scheme d = ''https'' \<and> dn_port d = 443"
proof -
  obtain v where "validate_manifest ceps_manifest = Inr v" "vr_status v = Vs_ok"
    using ceps_manifest_admitted by (cases "validate_manifest ceps_manifest") auto
  moreover have "''https://www.ceps.cz/_layouts/CepsData.asmx'' \<in> set (fetch_urls (m_fetch ceps_manifest))" by code_simp
  ultimately show ?thesis using admitted_urls_pass [OF ceps_manifest_valid] by blast
qed

text \<open>The manifest of the example with another SOAP action. With a short one it validates; the only
  difference of the other is the length of the token in it.\<close>
definition with_action :: "string \<Rightarrow> manifest" where
  "with_action s = ceps_manifest\<lparr>m_fetch := (m_fetch ceps_manifest)\<lparr>fb_soap_xml :=
     Some ((the (fb_soap_xml (m_fetch ceps_manifest)))\<lparr>sx_soap_action := s\<rparr>)\<rparr>\<rparr>"

lemma with_action_secret:
  "find_secret ''fetch'' (fetch_json (m_fetch (with_action s))) = first_pattern SECRET_PATTERNS ''fetch.soap_xml.soap_action'' s"
  using ceps_clean_1 ceps_clean_3 ceps_clean_4 ceps_clean_5 ceps_clean_6
  by (simp add: with_action_def ceps_manifest_def fetch_json_def soap_json_def json_dict_def json_opt_def
      find_text_clean [simplified] split: option.splits)

lemma with_action_validates:
  assumes "s \<noteq> []"
  shows "mk_manifest ceps_zones (\<lambda>_. True) (with_action s)
    = bindR (check (find_secret ''fetch'' (fetch_json (m_fetch (with_action s))) = None) ''fetch block contains a credential-looking string'')
        (\<lambda>_. Inr (with_action s))"
proof -
  have same: "m_target_id (with_action s) = m_target_id ceps_manifest" "m_license (with_action s) = m_license ceps_manifest"
    "m_terms_url (with_action s) = m_terms_url ceps_manifest" "m_allowed_hosts (with_action s) = m_allowed_hosts ceps_manifest"
    "m_cadence (with_action s) = m_cadence ceps_manifest" "m_max_age (with_action s) = m_max_age ceps_manifest"
    "m_contract (with_action s) = m_contract ceps_manifest" "m_mapping (with_action s) = m_mapping ceps_manifest"
    "m_modality (with_action s) = m_modality ceps_manifest" "m_allow_insecure (with_action s) = m_allow_insecure ceps_manifest"
    "fetch_urls (m_fetch (with_action s)) = fetch_urls (m_fetch ceps_manifest)"
    "fetch_templates run_names (m_fetch (with_action s)) = fetch_templates run_names (m_fetch ceps_manifest)"
    by (simp_all add: with_action_def ceps_manifest_def fetch_urls_def fetch_templates_def fetch_key_def fetch_present_def)
  have fetch: "fetch_fields_ok (\<lambda>_. True) (m_fetch (with_action s)) = Inr ()"
    using assms by (simp add: with_action_def ceps_manifest_def fetch_fields_ok_def opt_ok_def soap_ok_def check_def
        fetch_exactly_one_def fetch_present_def)
  have urls: "mapR (url_check (with_action s)) (fetch_urls (m_fetch ceps_manifest)) = Inr [()]"
  proof -
    have "url_check (with_action s) = url_check ceps_manifest" unfolding url_check_def same by (rule refl)
    with ceps_urls show ?thesis by simp
  qed
  have rest: "fetch_key (m_fetch (with_action s)) = Some (m_modality ceps_manifest)"
    "ct_source_transport (m_contract ceps_manifest) \<in> set (modality_transports (m_modality ceps_manifest))"
    "ct_decode (m_contract ceps_manifest) \<in> set (modality_decodes (m_modality ceps_manifest))"
    "fb_dated_file (m_fetch (with_action s)) = None" "block_auth (m_fetch (with_action s)) = None"
    "set (ct_metrics (m_contract ceps_manifest)) = set (dkeys (mb_metrics (m_mapping ceps_manifest)))"
    by (simp_all add: with_action_def ceps_manifest_def fetch_key_def fetch_present_def modality_transports_def modality_decodes_def block_auth_def)
  have "consistent (with_action s) = check (find_secret ''fetch'' (fetch_json (m_fetch (with_action s))) = None)
      ''fetch block contains a credential-looking string''"
    unfolding consistent_def Let_def by (simp add: same rest urls ceps_templates check_def opt_ok_def)
  then show ?thesis
    unfolding mk_manifest_def same fetch
    by (simp add: ceps_target ceps_terms ceps_hosts ceps_cadence ceps_age ceps_contract ceps_mapping check_def with_action_def)
qed

lemma short_action: "first_pattern SECRET_PATTERNS path ''urn:key kkkkkkkk'' = None"
  unfolding first_pattern_None by code_simp

theorem opaque_tokens_refused_witness:
  "isl (mk_manifest ceps_zones (\<lambda>_. True) (with_action (''urn:key '' @ replicate 40 (CHR ''k''))))
   \<and> mk_manifest ceps_zones (\<lambda>_. True) (with_action ''urn:key kkkkkkkk'') = Inr (with_action ''urn:key kkkkkkkk'')"
proof
  let ?v = "''urn:key '' @ replicate 40 (CHR ''k'')"
  have v: "?v \<in> set (json_texts (fetch_json (m_fetch (with_action ?v))))" by code_simp
  have "\<not> alnum (last ''urn:key '')" "last ''urn:key '' \<noteq> CHR ''/''" "alnum (CHR ''k'')" by code_simp+
  then have "opaque_in ?v"
    unfolding opaque_in_def
    by (intro exI [of _ "''urn:key ''"] exI [of _ "replicate 40 (CHR ''k'')"] exI [of _ "[]"]) (simp add: list_all_iff)
  with opaque_tokens_refused [OF v] show "isl (mk_manifest ceps_zones (\<lambda>_. True) (with_action ?v))" by simp
  show "mk_manifest ceps_zones (\<lambda>_. True) (with_action ''urn:key kkkkkkkk'') = Inr (with_action ''urn:key kkkkkkkk'')"
    by (simp add: with_action_validates with_action_secret short_action check_def del: find_secret.simps)
qed

end
