(* ===== verification/Pr_Surface.thy ===== *)
theory Pr_Surface
  imports Pytext
begin

text \<open>
  The classification of a pull request (src/energy_platform/harness/pr_surface.py): a request that
  touches a target may touch nothing else; one that touches no target is a platform request. Problems
  are values of a datatype where the program has texts.
\<close>

definition PROTECTED :: "(string, string) dict" where
  "PROTECTED =
    [(''energy_platform/contracts/registry.py'', ''dataset/metric registry (ADR-022 Route B)''),
     (''energy_platform/contracts/hosts.py'', ''host registry (ADR-026)''),
     (''deps-allowlist.txt'', ''dependency allowlist (ADR-006)''),
     (''pyproject.toml'', ''lint/type/test configuration (ADR-014)''),
     (''Makefile'', ''CI gates (ADR-015)''),
     (''CODEOWNERS'', ''ownership (ADR-006)''),
     (''conftest.py'', ''network block and collection rules (ADR-027 '' @ [CHR 0xA7] @ ''4)'')]"

definition PROTECTED_PREFIXES :: "(string, string) dict" where
  "PROTECTED_PREFIXES =
    [(''.github/'', ''CI workflows (ADR-015)''),
     (''docs/adr/'', ''architecture decisions''),
     (''deployment/'', ''deployment (ADR-006)''),
     (''scripts/'', ''CI gate scripts''),
     (''energy_platform/'', ''platform code (ADR-005: semantics live here)'')]"

datatype pr_kind = Pk_platform | Pk_target | Pk_invalid | Pk_empty

datatype pr_problem =
    Many_targets "string list"
  | Protected_path string string
  | Outside_target string "string option"

record pr_surface =
  ps_kind :: pr_kind
  ps_target :: "string option"
  ps_problems :: "pr_problem list"

definition ps_ok :: "pr_surface \<Rightarrow> bool" where
  "ps_ok s \<longleftrightarrow> ps_kind s \<noteq> Pk_invalid"

text \<open>\<open>PurePosixPath(path).parts\<close>: the root, one slash or exactly two, then the parts but empty ones and dots.\<close>
definition path_parts :: "string \<Rightarrow> string list" where
  "path_parts p =
     (let slashes = length (takeWhile (\<lambda>c. c = CHR ''/'') p) in
      (if slashes = 0 then [] else if slashes = 2 then [''//''] else [''/''])
      @ filter (\<lambda>x. x \<noteq> [] \<and> x \<noteq> ''.'') (split_on (CHR ''/'') p))"

definition target_of :: "string \<Rightarrow> string option" where
  "target_of p = (case path_parts p of
       a # b # c # _ \<Rightarrow> if a = ''targets'' then Some b else None
     | _ \<Rightarrow> None)"

fun prefix_reason :: "(string, string) dict \<Rightarrow> string \<Rightarrow> string option" where
  "prefix_reason [] p = None"
| "prefix_reason ((pre, reason) # rest) p = (if take (length pre) p = pre then Some reason else prefix_reason rest p)"

definition protected_reason :: "string \<Rightarrow> string option" where
  "protected_reason p = (case dget PROTECTED p of Some r \<Rightarrow> Some r | None \<Rightarrow> prefix_reason PROTECTED_PREFIXES p)"

definition normalised :: "string list \<Rightarrow> string list" where
  "normalised paths = sort (remdups (map (\<lambda>p. map (\<lambda>c. if c = CHR 0x5C then CHR ''/'' else c) (strip p))
     (filter (\<lambda>p. strip p \<noteq> []) paths)))"

definition path_problems :: "string option \<Rightarrow> string \<Rightarrow> pr_problem list" where
  "path_problems target p =
     (if target_of p \<noteq> None \<and> (target = None \<or> target_of p = target) then []
      else case protected_reason p of
        Some r \<Rightarrow> [Protected_path p r]
      | None \<Rightarrow> if target_of p = None then [Outside_target p target] else [])"

definition classify :: "string list \<Rightarrow> pr_surface" where
  "classify paths =
     (let ps = normalised paths; targets = sort (remdups (List.map_filter target_of ps)) in
      if ps = [] then \<lparr>ps_kind = Pk_empty, ps_target = None, ps_problems = []\<rparr>
      else if targets = [] then \<lparr>ps_kind = Pk_platform, ps_target = None, ps_problems = []\<rparr>
      else (let target = (if length targets = 1 then Some (hd targets) else None);
                problems = (if length targets > 1 then [Many_targets targets] else [])
                  @ concat (map (path_problems target) ps) in
        if problems \<noteq> [] then \<lparr>ps_kind = Pk_invalid, ps_target = target, ps_problems = problems\<rparr>
        else \<lparr>ps_kind = Pk_target, ps_target = target, ps_problems = []\<rparr>))"

subsection \<open>What each kind means\<close>

lemma map_filter_set: "set (List.map_filter f xs) = {y. \<exists>x \<in> set xs. f x = Some y}"
  by (force simp: List.map_filter_def)

lemma distinct_one: "distinct xs \<Longrightarrow> set xs = {x} \<Longrightarrow> xs = [x]"
  by (cases xs; cases "tl xs") auto

lemma one_target:
  assumes "ps \<noteq> []" and "\<forall>p \<in> set ps. target_of p = Some t"
  shows "sort (remdups (List.map_filter target_of ps)) = [t]"
proof (rule distinct_one)
  show "set (sort (remdups (List.map_filter target_of ps))) = {t}"
    using assms by (cases ps) (auto simp: map_filter_set)
qed simp

text \<open>Paths that touch a target, but not all of them the same one: the request is refused.\<close>
lemma mixed_invalid:
  assumes "target_of p0 = Some a" and "p0 \<in> set (normalised paths)"
    and "\<not> (\<exists>t. \<forall>p \<in> set (normalised paths). target_of p = Some t)"
  shows "ps_kind (classify paths) = Pk_invalid"
proof -
  define ps where "ps = normalised paths"
  define targets where "targets = sort (remdups (List.map_filter target_of ps))"
  have ts: "set targets = {t. \<exists>p \<in> set ps. target_of p = Some t}" by (simp add: targets_def map_filter_set)
  with assms(1,2) have a: "a \<in> set targets" "ps \<noteq> []" by (auto simp: ps_def)
  have "(if length targets > 1 then [Many_targets targets] else [])
      @ concat (map (path_problems (if length targets = 1 then Some (hd targets) else None)) ps) \<noteq> []"
  proof (cases "length targets > 1")
    case False
    with a(1) have one: "targets = [a]" by (cases targets; cases "tl targets") auto
    obtain p where p: "p \<in> set ps" "target_of p \<noteq> Some a" using assms(3) unfolding ps_def by blast
    from one ts have "b = a" if "target_of p = Some b" for b using p(1) that by auto
    with p(2) have "target_of p = None" by (cases "target_of p") auto
    then have "path_problems (Some a) p \<noteq> []" by (simp add: path_problems_def split: option.splits)
    with p(1) one show ?thesis by auto
  qed simp
  moreover have "targets \<noteq> []" using a(1) by auto
  ultimately show ?thesis
    using a(2) unfolding classify_def ps_def [symmetric] targets_def [symmetric] Let_def by simp
qed

lemma all_of_target:
  assumes "normalised paths \<noteq> []" and "\<forall>p \<in> set (normalised paths). target_of p = Some t"
  shows "classify paths = \<lparr>ps_kind = Pk_target, ps_target = Some t, ps_problems = []\<rparr>"
  using assms one_target [OF assms] by (simp add: classify_def path_problems_def)

lemma none_of_target:
  assumes "normalised paths \<noteq> []" and "\<forall>p \<in> set (normalised paths). target_of p = None"
  shows "classify paths = \<lparr>ps_kind = Pk_platform, ps_target = None, ps_problems = []\<rparr>"
proof -
  have "List.map_filter target_of (normalised paths) = []" using assms(2) map_filter_set [of target_of "normalised paths"] by auto
  with assms(1) show ?thesis by (simp add: classify_def)
qed

lemma none_named: "normalised paths = [] \<Longrightarrow> classify paths = \<lparr>ps_kind = Pk_empty, ps_target = None, ps_problems = []\<rparr>"
  by (simp add: classify_def)

text \<open>The four cases exclude one another and are all there are.\<close>
lemma classify_kind:
  "ps_kind (classify paths) =
     (if normalised paths = [] then Pk_empty
      else if \<forall>p \<in> set (normalised paths). target_of p = None then Pk_platform
      else if \<exists>u. \<forall>p \<in> set (normalised paths). target_of p = Some u then Pk_target
      else Pk_invalid)"
proof (cases "normalised paths = []")
  case False
  let ?ps = "set (normalised paths)"
  consider (One) u where "\<forall>p \<in> ?ps. target_of p = Some u" | (None) "\<forall>p \<in> ?ps. target_of p = None"
    | (Mixed) p0 a where "p0 \<in> ?ps" "target_of p0 = Some a" "\<not> (\<exists>u. \<forall>p \<in> ?ps. target_of p = Some u)"
    by (metis not_None_eq)
  then show ?thesis
  proof cases
    case One
    then have "\<not> (\<forall>p \<in> ?ps. target_of p = None)" using False by (cases "normalised paths") auto
    with all_of_target [OF False One] One False show ?thesis by auto
  next
    case None
    with none_of_target [OF False None] False show ?thesis by simp
  next
    case Mixed
    then have "\<not> (\<forall>p \<in> ?ps. target_of p = None)" by auto
    with mixed_invalid [OF Mixed(2,1,3)] Mixed(3) False show ?thesis by auto
  qed
qed (simp add: none_named)

lemma classify_target:
  "ps_kind (classify paths) = Pk_target \<and> ps_target (classify paths) = Some t
     \<longleftrightarrow> normalised paths \<noteq> [] \<and> (\<forall>p \<in> set (normalised paths). target_of p = Some t)"
proof
  assume l: "ps_kind (classify paths) = Pk_target \<and> ps_target (classify paths) = Some t"
  then obtain u where n: "normalised paths \<noteq> []" and u: "\<forall>p \<in> set (normalised paths). target_of p = Some u"
    unfolding classify_kind by (auto split: if_splits)
  with all_of_target [OF n u] l show "normalised paths \<noteq> [] \<and> (\<forall>p \<in> set (normalised paths). target_of p = Some t)" by simp
next
  assume "normalised paths \<noteq> [] \<and> (\<forall>p \<in> set (normalised paths). target_of p = Some t)"
  then have "classify paths = \<lparr>ps_kind = Pk_target, ps_target = Some t, ps_problems = []\<rparr>" using all_of_target by blast
  then show "ps_kind (classify paths) = Pk_target \<and> ps_target (classify paths) = Some t" by simp
qed

text \<open>C34. The gate on pull requests is exact. A request that names no path is empty, and the gate lets it pass; one whose
  paths touch no target is a platform request; one whose paths all lie under \<open>targets/t/\<close> for one \<open>t\<close> is a target request
  for that \<open>t\<close>; every other request is invalid, and these are the only ones that the gate does not let pass. A path
  lies under \<open>targets/t/\<close> when its parts begin with \<open>targets\<close> and \<open>t\<close> and a third one follows; a part \<open>..\<close> is not
  resolved.\<close>
theorem classify_exact:
  "(ps_kind (classify paths) = Pk_empty \<longleftrightarrow> normalised paths = [])
   \<and> (ps_kind (classify paths) = Pk_platform
      \<longleftrightarrow> normalised paths \<noteq> [] \<and> (\<forall>p \<in> set (normalised paths). target_of p = None))
   \<and> (ps_kind (classify paths) = Pk_target \<and> ps_target (classify paths) = Some t
      \<longleftrightarrow> normalised paths \<noteq> [] \<and> (\<forall>p \<in> set (normalised paths). target_of p = Some t))
   \<and> (ps_kind (classify paths) = Pk_target \<longrightarrow> ps_target (classify paths) \<noteq> None)
   \<and> (\<not> ps_ok (classify paths)
      \<longleftrightarrow> (\<exists>p \<in> set (normalised paths). target_of p \<noteq> None)
        \<and> \<not> (\<exists>u. \<forall>p \<in> set (normalised paths). target_of p = Some u))"
proof (intro conjI)
  show "ps_kind (classify paths) = Pk_target \<longrightarrow> ps_target (classify paths) \<noteq> None"
  proof
    assume "ps_kind (classify paths) = Pk_target"
    then obtain u where n: "normalised paths \<noteq> []" and u: "\<forall>p \<in> set (normalised paths). target_of p = Some u"
      unfolding classify_kind by (auto split: if_splits)
    show "ps_target (classify paths) \<noteq> None" by (simp add: all_of_target [OF n u])
  qed
  show "\<not> ps_ok (classify paths)
      \<longleftrightarrow> (\<exists>p \<in> set (normalised paths). target_of p \<noteq> None)
        \<and> \<not> (\<exists>u. \<forall>p \<in> set (normalised paths). target_of p = Some u)"
    unfolding ps_ok_def classify_kind by auto
qed (use classify_target in \<open>auto simp: classify_kind\<close>)

theorem classify_exact_witness:
  "ps_target (classify [''targets/ceps_load/manifest.yaml'', '' targets/ceps_load/tests/test_map.py'']) = Some ''ceps_load''
   \<and> \<not> ps_ok (classify [''targets/ceps_load/manifest.yaml'', ''Makefile'']) \<and> ps_kind (classify ['' '']) = Pk_empty"
proof (intro conjI)
  have "normalised [''targets/ceps_load/manifest.yaml'', '' targets/ceps_load/tests/test_map.py'']
      = [''targets/ceps_load/manifest.yaml'', ''targets/ceps_load/tests/test_map.py'']" by code_simp
  moreover have "target_of ''targets/ceps_load/manifest.yaml'' = Some ''ceps_load''"
    "target_of ''targets/ceps_load/tests/test_map.py'' = Some ''ceps_load''" by code_simp+
  ultimately show "ps_target (classify [''targets/ceps_load/manifest.yaml'', '' targets/ceps_load/tests/test_map.py'']) = Some ''ceps_load''"
    using classify_exact [of "[''targets/ceps_load/manifest.yaml'', '' targets/ceps_load/tests/test_map.py'']" "''ceps_load''"] by simp
  have "normalised [''targets/ceps_load/manifest.yaml'', ''Makefile''] = [''Makefile'', ''targets/ceps_load/manifest.yaml'']"
    "target_of ''targets/ceps_load/manifest.yaml'' = Some ''ceps_load''" "target_of ''Makefile'' = None" by code_simp+
  then show "\<not> ps_ok (classify [''targets/ceps_load/manifest.yaml'', ''Makefile''])"
    using classify_exact [of "[''targets/ceps_load/manifest.yaml'', ''Makefile'']"] by simp
  have "normalised ['' ''] = []" by code_simp
  then show "ps_kind (classify ['' '']) = Pk_empty" using classify_exact [of "['' '']"] by simp
qed

end
