(* ===== verification/Goldens.thy ===== *)
theory Goldens
  imports Process Manifest_Check
begin

text \<open>
  Golden files (src/energy_platform/contracts/golden.py) and their runner
  (src/energy_platform/harness/goldens.py): the production mapping over one fixture, and every way a golden
  can disagree with what it produced. Problems are values where the program has texts. A fixture is its
  entry and its payload; reading files and YAML is outside.
\<close>

subsection \<open>Golden files\<close>

text \<open>\<open>gw_source_version\<close> is none when the file does not set the field, and the value it sets otherwise.\<close>
record golden_row =
  gw_delivery_start_utc :: instant
  gw_resolution :: string
  gw_metric :: string
  gw_value :: "decimal option"
  gw_dimensions :: "(string, string) dict option"
  gw_source_version :: "string option option"
  gw_period_index :: "int option"

record golden_expect =
  ex_rows :: "golden_row list"
  ex_quarantine :: "string option"
  ex_row_count :: "int option"
  ex_quality_events :: "string list option"

record golden_file =
  gf_fixture :: string
  gf_checked_by :: string
  gf_note :: "string option"
  gf_expect :: golden_expect

definition fixture_name_ok :: "string \<Rightarrow> bool" where
  "fixture_name_ok s \<longleftrightarrow> s \<noteq> [] \<and> length s \<le> 64 \<and> lower_or_digit (hd s)
     \<and> list_all (\<lambda>c. lower_or_digit c \<or> c \<in> set ''_.-'') (tl s)"

definition row_resolution_ok :: "string \<Rightarrow> bool" where
  "row_resolution_ok s \<longleftrightarrow> take 2 s = ''PT'' \<and> 4 \<le> length s \<and> last s \<in> set ''MH'' \<and> list_all is_digit (butlast (drop 2 s))"

definition golden_row_ok :: "golden_row \<Rightarrow> bool" where
  "golden_row_ok r \<longleftrightarrow> row_resolution_ok (gw_resolution r) \<and> gw_metric r \<noteq> []
     \<and> (case gw_period_index r of None \<Rightarrow> True | Some i \<Rightarrow> 1 \<le> i)"

text \<open>\<open>_rows_or_quarantine\<close>\<close>
definition rows_or_quarantine :: "golden_expect \<Rightarrow> py_error + unit" where
  "rows_or_quarantine x =
     bindR (check (\<not> (ex_quarantine x = None \<and> ex_rows x = [] \<and> ex_row_count x \<noteq> Some 0)) ''expect.rows needs at least one row'') (\<lambda>_.
     check (\<not> (ex_quarantine x \<noteq> None \<and> (ex_rows x \<noteq> [] \<or> ex_row_count x \<noteq> None))) ''expect.quarantine excludes rows and row_count'')"

definition mk_expect :: "golden_expect \<Rightarrow> py_error + golden_expect" where
  "mk_expect x =
     bindR (check (list_all golden_row_ok (ex_rows x) \<and> ex_quarantine x \<noteq> Some []
         \<and> (case ex_row_count x of None \<Rightarrow> True | Some n \<Rightarrow> 0 \<le> n)) ''expect'') (\<lambda>_.
     bindR (rows_or_quarantine x) (\<lambda>_. Inr x))"

definition mk_golden :: "golden_file \<Rightarrow> py_error + golden_file" where
  "mk_golden g =
     bindR (check (fixture_name_ok (gf_fixture g)) ''fixture'') (\<lambda>_.
     bindR (check (strip (gf_checked_by g) \<noteq> []) ''checked_by must name who checked the values'') (\<lambda>_.
     bindR (mk_expect (gf_expect g)) (\<lambda>_. Inr g)))"

subsection \<open>The pipeline over a fixture\<close>

record pipeline_outcome =
  po_observations :: "energy_observation list"
  po_events :: "quality_event list"
  po_quarantine :: "string option"

definition fixture_context :: "runtime \<Rightarrow> capture_entry \<Rightarrow> derivation \<Rightarrow> instant \<Rightarrow> mapping_context" where
  "fixture_context rt entry deriv now =
     \<lparr>mc_target_id = rt_target rt, mc_scheduled_for = ce_scheduled_for entry,
      mc_delivery_day = delivery_day_for (ce_scheduled_for entry) (rt_zone rt),
      mc_fetched_at = ce_fetched_at entry, mc_raw_ref = ce_raw_ref entry,
      mc_payload_sha256 = ce_payload_sha256 entry, mc_processed_at = now,
      mc_derivation_id = d_derivation_id deriv\<rparr>"

definition run_pipeline :: "runtime \<Rightarrow> capture_entry \<Rightarrow> bytes \<Rightarrow> instant \<Rightarrow> py_error + pipeline_outcome" where
  "run_pipeline rt entry payload now =
     bindR (derivation_for rt) (\<lambda>deriv.
     case map_payload rt payload (fixture_context rt entry deriv now) of
       Inl (Quarantined reason locator) \<Rightarrow>
         Inr \<lparr>po_observations = [], po_events = [as_event reason locator], po_quarantine = Some reason\<rparr>
     | Inl (Raised e) \<Rightarrow> Inl e
     | Inr res \<Rightarrow> bindR (completeness_events (mr_observations res) (rt_zone rt)) (\<lambda>ce.
         Inr \<lparr>po_observations = mr_observations res, po_events = mr_events res @ ce, po_quarantine = None\<rparr>))"

subsection \<open>Comparison\<close>

text \<open>Equality of dictionaries, whatever their order.\<close>
definition same_dict :: "(string, string) dict \<Rightarrow> (string, string) dict \<Rightarrow> bool" where
  "same_dict a b \<longleftrightarrow> list_all (\<lambda>k. dget a k = dget b k) (dkeys a @ dkeys b)"

definition row_matches :: "golden_row \<Rightarrow> energy_observation \<Rightarrow> (string, string) dict \<Rightarrow> bool" where
  "row_matches r x dims \<longleftrightarrow> metric x = gw_metric r \<and> resolution x = gw_resolution r
     \<and> delivery_start_utc x = gw_delivery_start_utc r
     \<and> same_dict (dimensions x) (case gw_dimensions r of None \<Rightarrow> dims | Some d \<Rightarrow> d)
     \<and> (case gw_source_version r of None \<Rightarrow> True | Some v \<Rightarrow> source_version x = v)"

text \<open>\<open>sub in text\<close>\<close>
fun contains :: "string \<Rightarrow> string \<Rightarrow> bool" where
  "contains sub [] \<longleftrightarrow> sub = []"
| "contains sub (c # s) \<longleftrightarrow> take (length sub) (c # s) = sub \<or> contains sub s"

datatype golden_problem =
    Expected_quarantine string
  | Other_quarantine string string
  | Was_quarantined string
  | Wrong_row_count int nat
  | No_such_row golden_row
  | Wrong_value golden_row "decimal option"
  | Wrong_period golden_row "int option"
  | Wrong_events "string list"
  | Golden_unreadable
  | Manifest_unreadable
  | Fixture_unusable string

definition row_problems :: "golden_row \<Rightarrow> energy_observation list \<Rightarrow> (string, string) dict \<Rightarrow> golden_problem list" where
  "row_problems r os dims = (case filter (\<lambda>x. row_matches r x dims) os of
       [] \<Rightarrow> [No_such_row r]
     | x # _ \<Rightarrow> (if \<not> same_value (obs_value x) (gw_value r) then [Wrong_value r (obs_value x)] else [])
         @ (if gw_period_index r \<noteq> None \<and> period_index x \<noteq> gw_period_index r then [Wrong_period r (period_index x)] else []))"

definition event_kinds :: "string list \<Rightarrow> string list" where
  "event_kinds ks = sort (remdups ks)"

definition compare_golden :: "golden_file \<Rightarrow> pipeline_outcome \<Rightarrow> manifest \<Rightarrow> golden_problem list" where
  "compare_golden g out m =
     (let x = gf_expect g in
      case ex_quarantine x of
        Some q \<Rightarrow> (case po_quarantine out of
            None \<Rightarrow> [Expected_quarantine q]
          | Some r \<Rightarrow> if \<not> contains q r then [Other_quarantine q r] else [])
      | None \<Rightarrow> (case po_quarantine out of
            Some r \<Rightarrow> [Was_quarantined r]
          | None \<Rightarrow>
              (case ex_row_count x of None \<Rightarrow> []
               | Some n \<Rightarrow> if int (length (po_observations out)) \<noteq> n then [Wrong_row_count n (length (po_observations out))] else [])
              @ concat (map (\<lambda>r. row_problems r (po_observations out) (mb_dimensions (m_mapping m))) (ex_rows x))
              @ (case ex_quality_events x of None \<Rightarrow> []
                 | Some ks \<Rightarrow> if event_kinds (map q_kind (po_events out)) \<noteq> event_kinds ks
                     then [Wrong_events (event_kinds (map q_kind (po_events out)))] else [])))"

record golden_report =
  gr_target :: string
  gr_golden :: string
  gr_fixture :: string
  gr_problems :: "golden_problem list"
  gr_observations :: nat
  gr_events :: "string list"

definition gr_ok :: "golden_report \<Rightarrow> bool" where
  "gr_ok r \<longleftrightarrow> gr_problems r = []"

definition broken_golden :: "string \<Rightarrow> string \<Rightarrow> string \<Rightarrow> golden_problem \<Rightarrow> golden_report" where
  "broken_golden target name fixture p = \<lparr>gr_target = target, gr_golden = name, gr_fixture = fixture, gr_problems = [p], gr_observations = 0, gr_events = []\<rparr>"

text \<open>\<open>run_golden\<close>: the golden and the runtime of the manifest are none when their file does not load, a
  fixture when its directory does not; an exception that is no \<open>ValueError\<close> ends the run.\<close>
definition run_golden ::
    "string \<Rightarrow> string \<Rightarrow> golden_file option \<Rightarrow> runtime option \<Rightarrow> (string \<Rightarrow> (capture_entry \<times> bytes) option) \<Rightarrow> instant \<Rightarrow> py_error + golden_report" where
  "run_golden target name golden rt fixture now = (case golden of
       None \<Rightarrow> Inr (broken_golden target name ''?'' Golden_unreadable)
     | Some g \<Rightarrow> (case rt of
           None \<Rightarrow> Inr (broken_golden target name (gf_fixture g) Manifest_unreadable)
         | Some r \<Rightarrow> (case fixture (gf_fixture g) of
               None \<Rightarrow> Inr (broken_golden target name (gf_fixture g) (Fixture_unusable ''not a Bronze object''))
             | Some (entry, payload) \<Rightarrow> (case run_pipeline r entry payload now of
                   Inl (ValueError e) \<Rightarrow> Inr (broken_golden target name (gf_fixture g) (Fixture_unusable e))
                 | Inl e \<Rightarrow> Inl e
                 | Inr out \<Rightarrow> Inr \<lparr>gr_target = target, gr_golden = name, gr_fixture = gf_fixture g, gr_problems = compare_golden g out (rt_manifest r),
                     gr_observations = length (po_observations out), gr_events = map q_kind (po_events out)\<rparr>))))"

subsection \<open>A golden that passes\<close>

lemma contains_iff: "contains sub s \<longleftrightarrow> (\<exists>a b. s = a @ sub @ b)"
proof (induction sub s rule: contains.induct)
  case (2 sub c s)
  have "take (length sub) (c # s) = sub \<longleftrightarrow> (\<exists>b. c # s = sub @ b)" by (metis append_eq_conv_conj append_take_drop_id)
  moreover have "(\<exists>a b. c # s = a @ sub @ b) \<longleftrightarrow> (\<exists>b. c # s = sub @ b) \<or> (\<exists>a b. s = a @ sub @ b)"
    by (metis append_Cons append_Nil list.exhaust list.inject)
  ultimately show ?case using "2.IH" by simp
qed auto

lemma row_problems_none:
  "row_problems r os dims = [] \<longleftrightarrow> (\<exists>x rest. filter (\<lambda>x. row_matches r x dims) os = x # rest
     \<and> same_value (obs_value x) (gw_value r) \<and> (gw_period_index r = None \<or> period_index x = gw_period_index r))"
  by (auto simp: row_problems_def split: list.splits)

text \<open>A golden without problems that expects rows: the document was mapped, and each expected row is an
  observation with that identity, value and period.\<close>
theorem golden_passes:
  assumes "compare_golden g out m = []" and "ex_quarantine (gf_expect g) = None"
  shows "po_quarantine out = None \<and> (\<forall>r \<in> set (ex_rows (gf_expect g)). \<exists>x \<in> set (po_observations out).
      row_matches r x (mb_dimensions (m_mapping m)) \<and> same_value (obs_value x) (gw_value r)
      \<and> (gw_period_index r = None \<or> period_index x = gw_period_index r))"
proof -
  from assms have q: "po_quarantine out = None"
    and rows: "\<forall>r \<in> set (ex_rows (gf_expect g)). row_problems r (po_observations out) (mb_dimensions (m_mapping m)) = []"
    by (auto simp: compare_golden_def Let_def split: option.splits if_splits)
  have "\<exists>x \<in> set (po_observations out). row_matches r x (mb_dimensions (m_mapping m)) \<and> same_value (obs_value x) (gw_value r)
      \<and> (gw_period_index r = None \<or> period_index x = gw_period_index r)" if "r \<in> set (ex_rows (gf_expect g))" for r
    using rows that unfolding row_problems_none by (metis filter_eq_ConsD in_set_conv_decomp)
  with q show ?thesis by blast
qed

text \<open>A report without problems of a golden that expects rows: the production mapping of the fixture gave
  each of them.\<close>
theorem run_golden_ok:
  assumes "run_golden target name golden rt fixture now = Inr rep" and "gr_ok rep"
  obtains g r entry payload out where "golden = Some g" "rt = Some r" "fixture (gf_fixture g) = Some (entry, payload)"
    "run_pipeline r entry payload now = Inr out" "compare_golden g out (rt_manifest r) = []"
  using assms
  by (auto simp: run_golden_def gr_ok_def broken_golden_def split: option.splits sum.splits py_error.splits)

end
