(* ===== verification/Pyjson.thy ===== *)
theory Pyjson
  imports Goldens Pyquery
begin

text \<open>
  What the triage uses of the standard library: \<open>json.dumps\<close> with and without \<open>ensure_ascii\<close>, and \<open>repr\<close>
  of a JSON value, over code points below 256.
\<close>

definition hex_lower :: "nat \<Rightarrow> char" where
  "hex_lower n = ''0123456789abcdef'' ! (n mod 16)"

definition u_escape :: "nat \<Rightarrow> string" where
  "u_escape n = CHR 0x5C # ''u00'' @ [hex_lower (n div 16), hex_lower n]"

text \<open>The escapes of \<open>json.dumps\<close>; \<open>ascii\<close> also escapes what is not printable ASCII.\<close>
definition json_char :: "bool \<Rightarrow> char \<Rightarrow> string" where
  "json_char ascii c = (let n = of_char c :: nat in
     if n = 34 \<or> n = 92 then [CHR 0x5C, c]
     else if n = 10 then [CHR 0x5C, CHR ''n''] else if n = 13 then [CHR 0x5C, CHR ''r'']
     else if n = 9 then [CHR 0x5C, CHR ''t''] else if n = 8 then [CHR 0x5C, CHR ''b'']
     else if n = 12 then [CHR 0x5C, CHR ''f'']
     else if n < 32 \<or> ascii \<and> 126 < n then u_escape n else [c])"

definition json_string :: "bool \<Rightarrow> string \<Rightarrow> string" where
  "json_string ascii s = CHR 0x22 # concat (map (json_char ascii) s) @ [CHR 0x22]"

text \<open>\<open>json.dumps(value, ensure_ascii=True, sort_keys=True)\<close>\<close>
fun dumps :: "json \<Rightarrow> string" where
  "dumps JNull = ''null''"
| "dumps (JBool b) = (if b then ''true'' else ''false'')"
| "dumps (JInt i) = str_int i"
| "dumps (JFloat s) = s"
| "dumps (JText s) = json_string True s"
| "dumps (JList vs) = CHR ''['' # join_with '', '' (map dumps vs) @ '']''"
| "dumps (JObject kvs) = CHR ''{'' # join_with '', '' (map (\<lambda>(k, v). json_string True k @ '': '' @ v)
     (sort_key fst (map (\<lambda>(k, v). (k, dumps v)) kvs))) @ ''}''"

text \<open>\<open>repr\<close> of a text: single quotes unless it holds one and no double quote.\<close>
definition repr_char :: "char \<Rightarrow> char \<Rightarrow> string" where
  "repr_char quote c = (let n = of_char c :: nat in
     if c = quote \<or> n = 92 then [CHR 0x5C, c]
     else if n = 10 then [CHR 0x5C, CHR ''n''] else if n = 13 then [CHR 0x5C, CHR ''r'']
     else if n = 9 then [CHR 0x5C, CHR ''t'']
     else if n < 32 \<or> 127 \<le> n \<and> n \<le> 160 \<or> n = 173 then CHR 0x5C # CHR ''x'' # [hex_lower (n div 16), hex_lower n]
     else [c])"

definition repr_text :: "string \<Rightarrow> string" where
  "repr_text s = (let quote = (if CHR 0x27 \<in> set s \<and> CHR 0x22 \<notin> set s then CHR 0x22 else CHR 0x27) in
     quote # concat (map (repr_char quote) s) @ [quote])"

fun py_repr :: "json \<Rightarrow> string" where
  "py_repr JNull = ''None''"
| "py_repr (JBool b) = (if b then ''True'' else ''False'')"
| "py_repr (JInt i) = str_int i"
| "py_repr (JFloat s) = s"
| "py_repr (JText s) = repr_text s"
| "py_repr (JList vs) = CHR ''['' # join_with '', '' (map py_repr vs) @ '']''"
| "py_repr (JObject kvs) = CHR ''{'' # join_with '', '' (map (\<lambda>(k, v). repr_text k @ '': '' @ py_repr v) kvs) @ ''}''"

end
