(* ===== verification/Triage_Extract.thy ===== *)
theory Triage_Extract
  imports Pyjson
begin

text \<open>
  Bounded extraction (src/energy_platform/triage/extract.py): the sample of an untrusted payload that the
  language model may see: names that look like names, short printable values, and a bound on the whole.
  Texts are code points below 256; the ellipsis that marks a cut is written as the middle dot,
  which is neither unsafe nor white space either.
\<close>

definition MAX_RECORDS :: nat where "MAX_RECORDS = 3"
definition MAX_VALUE_CHARS :: nat where "MAX_VALUE_CHARS = 64"
definition MAX_FIELDS :: nat where "MAX_FIELDS = 64"
definition MAX_SAMPLE_CHARS :: nat where "MAX_SAMPLE_CHARS = 4000"

definition is_word :: "char \<Rightarrow> bool" where
  "is_word c \<longleftrightarrow> in_cls cls_word (of_char c)"

text \<open>\<open>SAFE_NAME.match\<close>\<close>
definition safe_name :: "string \<Rightarrow> bool" where
  "safe_name s = (case before_end (if s \<noteq> [] \<and> hd s = CHR ''@'' then tl s else s) of
       [] \<Rightarrow> False
     | c # t \<Rightarrow> is_word c \<and> \<not> is_digit c \<and> length t \<le> 63 \<and> list_all (\<lambda>x. is_word x \<or> x \<in> set '' .,:()/%@+-'') t)"

definition unsafe_char :: "char \<Rightarrow> bool" where
  "unsafe_char c \<longleftrightarrow> (let n = (of_char c :: nat) in n < 32 \<or> 127 \<le> n \<and> n < 160)"

definition ELLIPSIS :: char where
  "ELLIPSIS = CHR 0xB7"

definition clean_text :: "string \<Rightarrow> nat \<Rightarrow> string" where
  "clean_text s limit =
     (let t = join_with '' '' (split_ws (map (\<lambda>c. if unsafe_char c then CHR '' '' else c) s)) in
      if length t \<le> limit then t else take (limit - 1) t @ [ELLIPSIS])"

record sample =
  sa_fields :: "string list"
  sa_records :: "(string, string) dict list"
  sa_dropped :: nat
  sa_parse_error :: "string option"
  sa_truncated :: bool

definition sample_dict :: "sample \<Rightarrow> json" where
  "sample_dict s = JObject
     [(''fields'', JList (map JText (sa_fields s))), (''records'', JList (map json_dict (sa_records s))),
      (''dropped_fields'', JInt (int (sa_dropped s))), (''parse_error'', json_opt JText (sa_parse_error s)),
      (''truncated'', JBool (sa_truncated s))]"

definition sample_json :: "sample \<Rightarrow> string" where
  "sample_json s = dumps (sample_dict s)"

subsection \<open>The inventory\<close>

text \<open>\<open>_record_fields\<close>: attributes, then leaf children that do not repeat a name.\<close>
definition record_fields :: "xml_element \<Rightarrow> (string, cell) dict" where
  "record_fields e = foldl (\<lambda>d c. if xchildren c = [] \<and> dget d (local_name c) = None
       then dset (local_name c) (case xtext c of None \<Rightarrow> CNone | Some s \<Rightarrow> CText s) d else d)
     (foldl (\<lambda>d (k, v). dset (CHR ''@'' # k) (CText v) d) [] (xattrib e)) (xchildren e)"

definition larger :: "'a list \<Rightarrow> 'a list \<Rightarrow> 'a list" where
  "larger best members = (if length best < length members then members else best)"

definition sibling_groups :: "xml_element list \<Rightarrow> (string, xml_element list) dict" where
  "sibling_groups cs = foldl (\<lambda>d c. dset (local_name c)
     ((case dget d (local_name c) of None \<Rightarrow> [] | Some es \<Rightarrow> es) @ [c]) d) [] cs"

fun sibling_walk :: "xml_element list \<Rightarrow> xml_element \<Rightarrow> xml_element list" where
  "sibling_walk best (Elem t a x cs) = foldl sibling_walk (foldl larger best (dvalues (sibling_groups cs))) cs"

definition largest_sibling_group :: "xml_element \<Rightarrow> xml_element list" where
  "largest_sibling_group root = sibling_walk [] root"

definition objects_of :: "json list \<Rightarrow> (string \<times> json) list list" where
  "objects_of vs = List.map_filter (\<lambda>v. case v of JObject kvs \<Rightarrow> Some kvs | _ \<Rightarrow> None) vs"

fun object_walk :: "(string \<times> json) list list \<Rightarrow> json \<Rightarrow> (string \<times> json) list list"
  and object_walk_members :: "(string \<times> json) list list \<Rightarrow> (string \<times> json) list \<Rightarrow> (string \<times> json) list list"
  and object_walk_items :: "(string \<times> json) list list \<Rightarrow> json list \<Rightarrow> (string \<times> json) list list" where
  "object_walk best (JList vs) = object_walk_items (larger best (objects_of vs)) vs"
| "object_walk best (JObject kvs) = object_walk_members best kvs"
| "object_walk best JNull = best"
| "object_walk best (JBool b) = best"
| "object_walk best (JInt i) = best"
| "object_walk best (JFloat s) = best"
| "object_walk best (JText s) = best"
| "object_walk_members best [] = best"
| "object_walk_members best ((k, v) # kvs) = object_walk_members (object_walk best v) kvs"
| "object_walk_items best [] = best"
| "object_walk_items best (v # vs) = object_walk_items (object_walk best v) vs"

definition json_cell :: "json \<Rightarrow> cell" where
  "json_cell v = (case v of JText s \<Rightarrow> CText s | JInt i \<Rightarrow> CInt i | JBool b \<Rightarrow> CBool b | JNull \<Rightarrow> CNone | _ \<Rightarrow> CText (py_repr v))"

definition zip_row :: "string list \<Rightarrow> cell list \<Rightarrow> (string, cell) dict" where
  "zip_row header row = foldl (\<lambda>d (k, v). dset k v d) [] (zip header row)"

definition inventory :: "manifest \<Rightarrow> document \<Rightarrow> parse_error + (string, cell) dict list" where
  "inventory m doc = (case doc of
       Tabular k header rows \<Rightarrow> Inr (map (zip_row header) rows)
     | _ \<Rightarrow> bindR (generic_parse m doc) (\<lambda>records.
         if records \<noteq> [] then Inr (map rec_fields records)
         else Inr (case doc of
             XmlDoc root \<Rightarrow> map record_fields (largest_sibling_group root)
           | JsonDoc v \<Rightarrow> map (map (\<lambda>(k, x). (k, json_cell x))) (object_walk [] v)
           | _ \<Rightarrow> [])))"

subsection \<open>The sample\<close>

fun trim_records :: "nat \<Rightarrow> sample \<Rightarrow> sample" where
  "trim_records 0 s = s"
| "trim_records (Suc n) s =
     (if length (sample_json s) > MAX_SAMPLE_CHARS
      then trim_records n (s\<lparr>sa_records := butlast (sa_records s), sa_truncated := True\<rparr>) else s)"

fun trim_fields :: "nat \<Rightarrow> sample \<Rightarrow> sample" where
  "trim_fields 0 s = s"
| "trim_fields (Suc n) s =
     (if length (sample_json s) > MAX_SAMPLE_CHARS
      then trim_fields n (s\<lparr>sa_fields := butlast (sa_fields s), sa_records := [], sa_dropped := sa_dropped s + 1, sa_truncated := True\<rparr>)
      else s)"

definition header_names :: "document \<Rightarrow> (string, cell) dict list \<Rightarrow> string list" where
  "header_names doc rows = remdups (case doc of Tabular k header _ \<Rightarrow> header | _ \<Rightarrow> concat (map dkeys rows))"

definition bound_sample :: "string list \<Rightarrow> (string, cell) dict list \<Rightarrow> sample" where
  "bound_sample names rows =
     (let safe = take MAX_FIELDS (sort (filter safe_name names));
          recs = map (\<lambda>r. List.map_filter (\<lambda>n. map_option (\<lambda>v. (n, clean_text (cell_str v) MAX_VALUE_CHARS)) (dget r n)) safe)
            (take MAX_RECORDS rows);
          s0 = \<lparr>sa_fields = safe, sa_records = recs, sa_dropped = length names - length safe, sa_parse_error = None, sa_truncated = False\<rparr>;
          s1 = trim_records (length recs) s0
      in trim_fields (length safe) s1)"

text \<open>\<open>extract\<close>: a payload that does not decode or parse gives an empty sample with the error.\<close>
definition failed_sample :: "source_error \<Rightarrow> sample" where
  "failed_sample e = \<lparr>sa_fields = [], sa_records = [], sa_dropped = 0,
     sa_parse_error = Some (clean_text (source_error_text e) 200), sa_truncated = False\<rparr>"

definition extract_sample :: "runtime \<Rightarrow> bytes \<Rightarrow> sample" where
  "extract_sample rt payload = (case bindR (catchE Decode_failed (decode_payload rt payload)) (\<lambda>doc.
         bindR (catchE Parse_failed (inventory (rt_manifest rt) doc)) (\<lambda>rows. Inr (doc, rows))) of
       Inl e \<Rightarrow> failed_sample e
     | Inr (doc, rows) \<Rightarrow> bound_sample (header_names doc rows) rows)"

text \<open>\<open>SAFE_NAME\<close> ends in \<open>$\<close>: a name may end in one newline.\<close>
lemma safe_name_newline: "safe_name (''area'' @ [CHR 0x0A])"
  by code_simp

lemma clean_text_bound: "0 < limit \<Longrightarrow> length (clean_text s limit) \<le> limit"
  by (simp add: clean_text_def Let_def)

lemma bound_sample_fields:
  "set (sa_fields (bound_sample names rows)) \<subseteq> {n \<in> set names. safe_name n} \<and> length (sa_fields (bound_sample names rows)) \<le> MAX_FIELDS"
proof -
  have records: "sa_fields (trim_records n s) = sa_fields s" for n s by (induction n s rule: trim_records.induct) auto
  have trimmed: "set (sa_fields (trim_fields n s)) \<subseteq> set (sa_fields s) \<and> length (sa_fields (trim_fields n s)) \<le> length (sa_fields s)" for n s
    by (induction n s rule: trim_fields.induct) (auto dest: in_set_butlastD)
  let ?safe = "take MAX_FIELDS (sort (filter safe_name names))"
  have "set ?safe \<subseteq> {n \<in> set names. safe_name n}" "length ?safe \<le> MAX_FIELDS" by (auto dest: in_set_takeD)
  moreover obtain n k s where "bound_sample names rows = trim_fields n (trim_records k s)" "sa_fields s = ?safe"
    by (rule that [unfolded bound_sample_def Let_def, OF refl]) simp
  ultimately show ?thesis using trimmed [of n "trim_records k s"] by (metis (no_types, lifting) records order_trans)
qed

text \<open>The text that leaves the process is bounded: the loop that drops fields goes on until the sample fits or
  nothing is left to drop.\<close>
lemma trim_fields_fits:
  assumes "length (sa_fields s) \<le> n"
  shows "length (sample_json (trim_fields n s)) \<le> MAX_SAMPLE_CHARS \<or> sa_fields (trim_fields n s) = []"
  using assms by (induction n s rule: trim_fields.induct) auto

end
