(* ===== verification/Triage_Edit.thy ===== *)
theory Triage_Edit
  imports Triage_Extract
begin

text \<open>
  The text edits of a proposal (src/energy_platform/triage/pipeline.py, from \<open>_KEY\<close> to \<open>_add_ignore\<close>): each
  operation changes one scalar of the manifest's YAML text, or adds one line. What a regular expression
  reads is written out: the suffixes at which a part may end, in the order the engine tries them.
\<close>

datatype triage_exc = ProposalRefused string | ManifestSyntax string | Validation string | Escaped string

definition refused :: "string \<Rightarrow> triage_exc + 'a" where
  "refused msg = Inl (ProposalRefused msg)"

definition key_char' :: "char \<Rightarrow> bool" where
  "key_char' c \<longleftrightarrow> ascii_alpha c \<or> is_digit c \<or> c = CHR ''_''"

definition is_blank :: "char \<Rightarrow> bool" where
  "is_blank c \<longleftrightarrow> c = CHR '' ''"

text \<open>\<open>_yaml_scalar\<close>: \<open>_PLAIN.match\<close>, or a JSON text.\<close>
definition plain_scalar :: "string \<Rightarrow> bool" where
  "plain_scalar v = (case before_end v of
       [] \<Rightarrow> False
     | c # t \<Rightarrow> (ascii_alpha c \<or> c = CHR ''_'') \<and> list_all (\<lambda>x. key_char' x \<or> x \<in> set ''.@-'') t)"

definition yaml_scalar :: "string \<Rightarrow> string" where
  "yaml_scalar v = (if plain_scalar v then v else json_string False v)"

definition indent_of :: "string \<Rightarrow> nat" where
  "indent_of line = length (takeWhile is_blank line)"

definition has_content :: "string \<Rightarrow> bool" where
  "has_content line \<longleftrightarrow> (case strip line of [] \<Rightarrow> False | c # _ \<Rightarrow> c \<noteq> CHR ''#'')"

text \<open>\<open>_KEY.match\<close>: the indentation and the key.\<close>
definition key_line :: "string \<Rightarrow> (nat \<times> string) option" where
  "key_line line =
     (let s = dropWhile is_blank line; k = takeWhile key_char' s; r = dropWhile key_char' s in
      if k \<noteq> [] \<and> r \<noteq> [] \<and> hd r = CHR '':'' then Some (indent_of line, k) else None)"

text \<open>The end of the block that starts after line \<open>i\<close>.\<close>
fun block_end :: "string list \<Rightarrow> nat \<Rightarrow> nat \<Rightarrow> nat" where
  "block_end [] depth i = i"
| "block_end (l # ls) depth i = (if \<not> has_content l \<or> indent_of l > depth then block_end ls depth (Suc i) else i)"

definition slice :: "'a list \<Rightarrow> nat \<Rightarrow> nat \<Rightarrow> 'a list" where
  "slice xs lo hi = take (hi - lo) (drop lo xs)"

definition child :: "string list \<Rightarrow> nat \<Rightarrow> nat \<Rightarrow> string \<Rightarrow> (nat \<times> nat) option" where
  "child lines lo hi key = (case find has_content (slice lines lo hi) of
       None \<Rightarrow> None
     | Some l \<Rightarrow> (let depth = indent_of l in
         case find (\<lambda>i. key_line (lines ! i) = Some (depth, key)) [lo..<hi] of
           None \<Rightarrow> None
         | Some i \<Rightarrow> Some (i, block_end (slice lines (Suc i) hi) depth (Suc i))))"

fun path_in :: "string list \<Rightarrow> nat \<Rightarrow> nat \<Rightarrow> nat \<times> nat \<Rightarrow> string list \<Rightarrow> triage_exc + nat \<times> nat" where
  "path_in lines lo hi found [] = Inr found"
| "path_in lines lo hi found (k # ks) = (case child lines lo hi k of
       None \<Rightarrow> refused ''cannot locate the path in the manifest text''
     | Some (i, e) \<Rightarrow> path_in lines (Suc i) e (i, e) ks)"

definition path_of :: "string list \<Rightarrow> string list \<Rightarrow> triage_exc + nat \<times> nat" where
  "path_of lines keys = path_in lines 0 (length lines) (0, length lines) keys"

subsection \<open>Scalars\<close>

text \<open>\<open>head\<close>, and \<open>tail\<close> of a line \<open>key: old  # comment\<close>: the old value ends before the blanks that precede a
  comment or the end of the line.\<close>
definition scalar_line :: "string \<Rightarrow> (string \<times> string) option" where
  "scalar_line line =
     (let b = takeWhile is_blank line; s = dropWhile is_blank line; k = takeWhile key_char' s; r = dropWhile key_char' s in
      if k = [] \<or> r = [] \<or> hd r \<noteq> CHR '':'' then None
      else (let sp = takeWhile is_blank (tl r); v = dropWhile is_blank (tl r) in
        if v = [] \<or> hd v = CHR ''#'' \<or> py_space (hd v) \<or> hd v = CHR ''{'' then None
        else (let body = takeWhile (\<lambda>c. c \<noteq> CHR ''#'') v; comment = dropWhile (\<lambda>c. c \<noteq> CHR ''#'') v;
                  blanks = takeWhile is_blank (rev body)
          in Some (b @ k @ '':'' @ sp, blanks @ comment))))"

text \<open>No value: the key is not a child of the block.\<close>
definition set_scalar :: "string list \<Rightarrow> nat \<Rightarrow> nat \<Rightarrow> string \<Rightarrow> string \<Rightarrow> triage_exc + string list option" where
  "set_scalar lines lo hi key v = (case child lines lo hi key of
       None \<Rightarrow> Inr None
     | Some (i, _) \<Rightarrow> (case scalar_line (lines ! i) of
           None \<Rightarrow> refused ''not a plain scalar in the manifest text''
         | Some (h, t) \<Rightarrow> Inr (Some (lines[i := h @ yaml_scalar v @ t]))))"

subsection \<open>Flow mappings\<close>

text \<open>The suffixes after a greedy run of white space, longest run first.\<close>
fun space_ends :: "string \<Rightarrow> string list" where
  "space_ends [] = [[]]"
| "space_ends (c # s) = (if py_space c then space_ends s @ [c # s] else [c # s])"

text \<open>After a double-quoted text, whose opening quote has been read.\<close>
fun dquote_end :: "string \<Rightarrow> string option" where
  "dquote_end [] = None"
| "dquote_end (c # s) =
     (if c = CHR 0x22 then Some s
      else if c = CHR 0x5C then (case s of [] \<Rightarrow> None | d # s' \<Rightarrow> dquote_end s')
      else dquote_end s)"

definition quoted_ends :: "string \<Rightarrow> string list" where
  "quoted_ends s = (case s of
       [] \<Rightarrow> []
     | c # r \<Rightarrow> if c = CHR 0x22 then (case dquote_end r of None \<Rightarrow> [] | Some e \<Rightarrow> [e])
         else if c = CHR 0x27 then (case split_first (CHR 0x27) r of None \<Rightarrow> [] | Some (_, e) \<Rightarrow> [e]) else [])"

text \<open>The suffixes after one or more characters that do not end a flow item, shortest first.\<close>
fun bare_ends :: "string \<Rightarrow> string list" where
  "bare_ends [] = []"
| "bare_ends (c # s) = (if c \<in> set '',}'' then [] else s # bare_ends s)"

definition closes :: "string \<Rightarrow> bool" where
  "closes s \<longleftrightarrow> (case dropWhile py_space s of [] \<Rightarrow> False | c # _ \<Rightarrow> c \<in> set '',}'')"

text \<open>A match that starts here: the suffix at the value and the suffix after it.\<close>
definition flow_here :: "string \<Rightarrow> string \<Rightarrow> (string \<times> string) option" where
  "flow_here key s = (case s of
       [] \<Rightarrow> None
     | c # r \<Rightarrow> if c \<notin> set ''{,'' then None
         else (let k = key @ '':''; t = dropWhile py_space r in
           if take (length k) t \<noteq> k then None
           else find (\<lambda>(v, e). closes e)
             (concat (map (\<lambda>v. map (\<lambda>e. (v, e)) (quoted_ends v @ bare_ends v)) (space_ends (drop (length k) t))))))"

text \<open>The first match of the pattern in the line: what precedes the value and what follows it.\<close>
fun flow_search :: "string \<Rightarrow> string \<Rightarrow> (string \<times> string) option" where
  "flow_search key [] = None"
| "flow_search key (c # s) = (case flow_here key (c # s) of
       Some (v, e) \<Rightarrow> Some (take (length (c # s) - length v) (c # s), e)
     | None \<Rightarrow> map_option (\<lambda>(h, e). (c # h, e)) (flow_search key s))"

definition rstrip :: "string \<Rightarrow> string" where
  "rstrip s = rev (dropWhile py_space (rev s))"

text \<open>\<open>_set_flow\<close>; without a closing brace \<open>rfind\<close> is minus one, which cuts before the last character.\<close>
definition set_flow :: "string \<Rightarrow> string \<Rightarrow> string \<Rightarrow> string option" where
  "set_flow line key v =
     (if CHR ''{'' \<notin> set line then None
      else case flow_search key line of
        Some (h, e) \<Rightarrow> Some (h @ yaml_scalar v @ e)
      | None \<Rightarrow> (let close = (case split_last (CHR ''}'') line of Some (a, _) \<Rightarrow> length a | None \<Rightarrow> length line - 1) in
          Some (rstrip (take close line) @ '', '' @ key @ '': '' @ yaml_scalar v @ drop close line)))"

subsection \<open>Operations\<close>

type_synonym op = "(string, string) dict"

definition op_get :: "op \<Rightarrow> string \<Rightarrow> string" where
  "op_get p k = (case dget p k of None \<Rightarrow> [] | Some v \<Rightarrow> v)"

definition insert_at :: "nat \<Rightarrow> 'a \<Rightarrow> 'a list \<Rightarrow> 'a list" where
  "insert_at i x xs = take i xs @ x # drop i xs"

text \<open>A flow list on the line: what precedes its items, the items, and what follows. The opening bracket is the
  last one that a closing one follows without another between.\<close>
definition flow_list :: "string \<Rightarrow> (string \<times> string \<times> string) option" where
  "flow_list line =
     (case find (\<lambda>i. line ! i = CHR ''['' \<and> CHR '']'' \<in> set (drop (Suc i) line)) (rev [0..<length line]) of
        None \<Rightarrow> None
      | Some i \<Rightarrow> Some (take (Suc i) line, takeWhile (\<lambda>c. c \<noteq> CHR '']'') (drop (Suc i) line),
                       dropWhile (\<lambda>c. c \<noteq> CHR '']'') (drop (Suc i) line)))"

definition spaces :: "nat \<Rightarrow> string" where
  "spaces n = replicate n (CHR '' '')"

definition add_ignore :: "string list \<Rightarrow> string \<Rightarrow> triage_exc + string list" where
  "add_ignore lines name =
     bindR (path_of lines [''mapping'']) (\<lambda>(start, e).
     case child lines (Suc start) e ''ignore_fields'' of
       Some (i, ie) \<Rightarrow> (case flow_list (lines ! i) of
           Some (h, items, t) \<Rightarrow>
             Inr (lines[i := h @ (if strip items \<noteq> [] then strip items @ '', '' else []) @ yaml_scalar name @ t])
         | None \<Rightarrow> (case find (\<lambda>j. has_content (lines ! j)) (rev [Suc i..<ie]) of
               None \<Rightarrow> refused ''neither a flow nor a block list''
             | Some l \<Rightarrow> if take 2 (lstrip (lines ! l)) \<noteq> ''- '' then refused ''neither a flow nor a block list''
                 else Inr (insert_at (Suc l) (spaces (indent_of (lines ! l)) @ ''- '' @ yaml_scalar name) lines)))
     | None \<Rightarrow> (case child lines (Suc start) e ''metrics'' of
           None \<Rightarrow> refused ''cannot locate mapping.metrics in the manifest text''
         | Some (k, _) \<Rightarrow> Inr (insert_at k (spaces (indent_of (lines ! k)) @ ''ignore_fields: ['' @ yaml_scalar name @ '']'') lines)))"

definition set_metric :: "string list \<Rightarrow> string \<Rightarrow> bool \<Rightarrow> string \<Rightarrow> triage_exc + string list" where
  "set_metric lines name renames v =
     bindR (path_of lines [''mapping'', ''metrics'', name]) (\<lambda>(start, e).
     let key = (if renames then ''source'' else ''decimal_separator'') in
     case set_flow (lines ! start) key v of
       Some l \<Rightarrow> Inr (lines[start := l])
     | None \<Rightarrow> bindR (set_scalar lines (Suc start) e key v) (\<lambda>res.
         case res of
           Some lines' \<Rightarrow> Inr lines'
         | None \<Rightarrow> if renames then refused ''cannot locate the source''
             else (case child lines (Suc start) e ''source'' of
                 None \<Rightarrow> refused ''cannot locate the source''
               | Some (i, _) \<Rightarrow> Inr (insert_at (Suc i) (spaces (indent_of (lines ! i)) @ ''decimal_separator: '' @ v) lines))))"

definition set_time :: "string list \<Rightarrow> string \<Rightarrow> string \<Rightarrow> triage_exc + string list" where
  "set_time lines name v =
     bindR (path_of lines [''mapping'', ''time'', name]) (\<lambda>(start, e).
     case set_flow (lines ! start) ''source'' v of
       Some l \<Rightarrow> Inr (lines[start := l])
     | None \<Rightarrow> bindR (set_scalar lines (Suc start) e ''source'' v) (\<lambda>res.
         case res of Some lines' \<Rightarrow> Inr lines' | None \<Rightarrow> refused ''cannot locate the source''))"

definition apply_one :: "string list \<Rightarrow> op \<Rightarrow> triage_exc + string list" where
  "apply_one lines p =
     (let k = op_get p ''op'' in
      if k = ''rename_source'' \<or> k = ''set_decimal_separator''
      then set_metric lines (op_get p ''metric'') (k = ''rename_source'') (op_get p ''to'')
      else if k = ''rename_time_source'' then set_time lines (op_get p ''field'') (op_get p ''to'')
      else if k = ''add_ignore_field'' then add_ignore lines (op_get p ''field'')
      else Inr lines)"

fun apply_lines :: "string list \<Rightarrow> op list \<Rightarrow> triage_exc + string list" where
  "apply_lines lines [] = Inr lines"
| "apply_lines lines (p # ps) = bindR (apply_one lines p) (\<lambda>lines'. apply_lines lines' ps)"

definition apply_operations :: "string \<Rightarrow> op list \<Rightarrow> triage_exc + string" where
  "apply_operations t ops = bindR (apply_lines (split_on (CHR 0x0A) t) ops) (\<lambda>lines. Inr (join_with [CHR 0x0A] lines))"

end
