(* ===== verification/Triage_Guard.thy ===== *)
theory Triage_Guard
  imports Triage_Edit
begin

text \<open>
  The guard of a proposal (src/energy_platform/triage/pipeline.py, \<open>_diff_paths\<close> to \<open>guard\<close>): the JSON forms
  of two manifests are compared, and every path at which they differ must be one of four. The theory
  also says what the guard means for the two manifests: everything but the sources of the mapping is equal.
\<close>

subsection \<open>The JSON form of a manifest\<close>

definition modality_text :: "modality \<Rightarrow> string" where
  "modality_text m = (case m of Soap_xml \<Rightarrow> ''soap-xml'' | Dated_file \<Rightarrow> ''dated-file'' | Html_table \<Rightarrow> ''html-table''
     | Rest_json \<Rightarrow> ''rest-json'' | Rest_xml \<Rightarrow> ''rest-xml'')"

text \<open>\<open>model_dump(mode="json")\<close>, which keeps the fields that are none.\<close>
definition ref_dump :: "field_ref \<Rightarrow> json" where
  "ref_dump f = JObject [(''source'', json_opt JText (fr_source f)), (''constant'', json_opt JText (fr_constant f)),
     (''context'', json_opt (\<lambda>c. JText (if c = Cx_delivery_day then ''delivery_day'' else ''scheduled_for'')) (fr_context f))]"

definition time_dump :: "time_mapping \<Rightarrow> json" where
  "time_dump t = JObject
     [(''kind'', JText (if tm_kind t = Tk_period_index then ''period_index'' else ''timestamp'')),
      (''timezone'', JText (tm_timezone t)), (''resolution'', ref_dump (tm_resolution t)),
      (''date'', json_opt ref_dump (tm_date t)), (''index'', json_opt ref_dump (tm_index t)),
      (''timestamp'', json_opt ref_dump (tm_timestamp t)),
      (''interval_label'', JText (if tm_interval_label t = Label_start then ''start'' else ''end''))]"

definition mapping_dump :: "mapping_block \<Rightarrow> json" where
  "mapping_dump b = JObject
     [(''dimensions'', json_dict (mb_dimensions b)), (''time'', time_dump (mb_time b)),
      (''source_version'', json_opt ref_dump (mb_source_version b)),
      (''source_published_at'', json_opt ref_dump (mb_source_published_at b)),
      (''metrics'', JObject (map (\<lambda>(k, v). (k, metric_json v)) (mb_metrics b))),
      (''ignore_fields'', JList (map JText (mb_ignore_fields b)))]"

definition cadence_dump :: "cadence \<Rightarrow> json" where
  "cadence_dump c = JObject [(''cron'', JText (cad_cron c)), (''timezone'', JText (cad_timezone c)),
     (''correction'', json_opt (\<lambda>k. JObject [(''cron'', JText (co_cron k)), (''days'', JInt (co_days k))]) (cad_correction c))]"

definition contract_dump :: "contract_block \<Rightarrow> json" where
  "contract_dump c = JObject [(''dataset_id'', JText (ct_dataset_id c)),
     (''source_transport'', JText (transport_text (ct_source_transport c))),
     (''decode'', JText (decode_text (ct_decode c))), (''metrics'', JList (map JText (ct_metrics c)))]"

definition manifest_dump :: "manifest \<Rightarrow> json" where
  "manifest_dump m = JObject
     [(''schema_version'', JInt 1), (''target_id'', JText (m_target_id m)), (''description'', JText (m_description m)),
      (''license'', JText (m_license m)), (''terms_url'', JText (m_terms_url m)),
      (''allowed_hosts'', JList (map JText (m_allowed_hosts m))), (''allow_insecure'', JBool (m_allow_insecure m)),
      (''modality'', JText (modality_text (m_modality m))), (''cadence'', cadence_dump (m_cadence m)),
      (''history'', JObject [(''max_age'', JText (m_max_age m))]), (''fetch'', fetch_json (m_fetch m)),
      (''contract'', contract_dump (m_contract m)), (''mapping'', mapping_dump (m_mapping m))]"

subsection \<open>Differences\<close>

text \<open>\<open>a.get(key)\<close>\<close>
definition member :: "(string \<times> json) list \<Rightarrow> string \<Rightarrow> json" where
  "member kvs k = (case dget kvs k of None \<Rightarrow> JNull | Some v \<Rightarrow> v)"

lemma member_size: "k \<in> set (dkeys kvs) \<Longrightarrow> size (member kvs k) < size (JObject kvs)"
proof (induction kvs)
  case (Cons p kvs)
  then show ?case by (cases p) (force simp: member_def image_iff)
qed simp

lemma member_size_le: "size (member kvs k) \<le> size (JObject kvs)"
  using member_size [of k kvs] by (cases "k \<in> set (dkeys kvs)") (auto simp: member_def dget_None_iff [THEN iffD2])

lemma members_smaller:
  assumes "k \<in> set (dkeys x) \<union> set (dkeys y)"
  shows "size (member x k) + size (member y k) < size (JObject x) + size (JObject y)"
  using assms member_size member_size_le by (metis Un_iff add_less_le_mono add_le_less_mono)

text \<open>\<open>_diff_paths\<close>; the lists of a manifest hold texts, for which the equality of lists is structural.\<close>
function diff_paths :: "json \<Rightarrow> json \<Rightarrow> string list \<Rightarrow> string list list" where
  "diff_paths a b path = (case (a, b) of
       (JObject x, JObject y) \<Rightarrow> concat (map (\<lambda>k. diff_paths (member x k) (member y k) (path @ [k]))
          (sort (remdups (dkeys x @ dkeys y))))
     | _ \<Rightarrow> if a \<noteq> b then [path] else [])"
  by pat_completeness auto
termination
proof (relation "measure (\<lambda>(a, b, p). size a + size b)", goal_cases)
  case (2 a b path x y kvs kvs' k)
  then have "size (member kvs k) + size (member kvs' k) < size (JObject kvs) + size (JObject kvs')"
    by (intro members_smaller) auto
  with 2 show ?case by auto
qed simp

declare diff_paths.simps [simp del]

definition ALLOWED_PATHS :: "string list list" where
  "ALLOWED_PATHS = [[''mapping'', ''metrics'', ''*'', ''source''], [''mapping'', ''metrics'', ''*'', ''decimal_separator''],
     [''mapping'', ''time'', ''*'', ''source''], [''mapping'', ''ignore_fields'']]"

definition path_allowed :: "string list \<Rightarrow> bool" where
  "path_allowed path \<longleftrightarrow> list_ex (\<lambda>rule. list_all2 (\<lambda>r p. r = ''*'' \<or> r = p) rule path) ALLOWED_PATHS"

definition guard :: "manifest \<Rightarrow> manifest \<Rightarrow> triage_exc + unit" where
  "guard original patched =
     (if filter (\<lambda>p. \<not> path_allowed p) (diff_paths (manifest_dump original) (manifest_dump patched) []) \<noteq> []
      then refused ''only the mapping sources may change'' else Inr ())"

subsection \<open>What the guard leaves equal\<close>

text \<open>Equality of two manifests up to the sources and separators of metrics, the sources of time fields and
  the ignored fields; dictionaries are compared as maps.\<close>
definition same_soap :: "soap_xml_fetch \<Rightarrow> soap_xml_fetch \<Rightarrow> bool" where
  "same_soap a b \<longleftrightarrow> a\<lparr>sx_params := []\<rparr> = b\<lparr>sx_params := []\<rparr> \<and> dget (sx_params a) = dget (sx_params b)"

definition same_rest :: "rest_fetch \<Rightarrow> rest_fetch \<Rightarrow> bool" where
  "same_rest a b \<longleftrightarrow> a\<lparr>rf_query := [], rf_headers := []\<rparr> = b\<lparr>rf_query := [], rf_headers := []\<rparr>
     \<and> dget (rf_query a) = dget (rf_query b) \<and> dget (rf_headers a) = dget (rf_headers b)"

definition same_fetch :: "fetch_block \<Rightarrow> fetch_block \<Rightarrow> bool" where
  "same_fetch a b \<longleftrightarrow> rel_option same_soap (fb_soap_xml a) (fb_soap_xml b) \<and> fb_dated_file a = fb_dated_file b
     \<and> fb_html_table a = fb_html_table b \<and> rel_option same_rest (fb_rest_json a) (fb_rest_json b)
     \<and> rel_option same_rest (fb_rest_xml a) (fb_rest_xml b)"

definition same_but_source :: "field_ref \<Rightarrow> field_ref \<Rightarrow> bool" where
  "same_but_source f g \<longleftrightarrow> fr_constant f = fr_constant g \<and> fr_context f = fr_context g"

definition same_time :: "time_mapping \<Rightarrow> time_mapping \<Rightarrow> bool" where
  "same_time s t \<longleftrightarrow> tm_kind s = tm_kind t \<and> tm_timezone s = tm_timezone t \<and> tm_interval_label s = tm_interval_label t
     \<and> same_but_source (tm_resolution s) (tm_resolution t) \<and> rel_option same_but_source (tm_date s) (tm_date t)
     \<and> rel_option same_but_source (tm_index s) (tm_index t) \<and> rel_option same_but_source (tm_timestamp s) (tm_timestamp t)"

definition same_metric :: "metric_mapping \<Rightarrow> metric_mapping \<Rightarrow> bool" where
  "same_metric a b \<longleftrightarrow> mm_unit a = mm_unit b \<and> mm_sign a = mm_sign b"

definition same_mapping :: "mapping_block \<Rightarrow> mapping_block \<Rightarrow> bool" where
  "same_mapping a b \<longleftrightarrow> dget (mb_dimensions a) = dget (mb_dimensions b) \<and> same_time (mb_time a) (mb_time b)
     \<and> mb_source_version a = mb_source_version b \<and> mb_source_published_at a = mb_source_published_at b
     \<and> rel_fun (=) (rel_option same_metric) (dget (mb_metrics a)) (dget (mb_metrics b))"

definition confined :: "manifest \<Rightarrow> manifest \<Rightarrow> bool" where
  "confined m m' \<longleftrightarrow> m_target_id m = m_target_id m' \<and> m_description m = m_description m' \<and> m_license m = m_license m'
     \<and> m_terms_url m = m_terms_url m' \<and> m_allowed_hosts m = m_allowed_hosts m' \<and> m_allow_insecure m = m_allow_insecure m'
     \<and> m_modality m = m_modality m' \<and> m_cadence m = m_cadence m' \<and> m_max_age m = m_max_age m'
     \<and> same_fetch (m_fetch m) (m_fetch m') \<and> m_contract m = m_contract m' \<and> same_mapping (m_mapping m) (m_mapping m')"

subsection \<open>From paths to equalities\<close>

definition agree :: "json \<Rightarrow> json \<Rightarrow> string list \<Rightarrow> bool" where
  "agree a b path \<longleftrightarrow> list_all path_allowed (diff_paths a b path)"

lemma agree_members:
  assumes "agree (JObject x) (JObject y) path"
  shows "agree (member x k) (member y k) (path @ [k])"
proof (cases "k \<in> set (dkeys x) \<union> set (dkeys y)")
  case True
  with assms show ?thesis unfolding agree_def by (subst (asm) diff_paths.simps) (auto simp: list_all_iff)
next
  case False
  then have "member x k = JNull" "member y k = JNull" by (auto simp: member_def dget_None_iff [THEN iffD2])
  then show ?thesis by (simp add: agree_def diff_paths.simps)
qed

named_theorems agree_simps \<open>agreement at leaves and at absent objects\<close>

lemma agree_leaf [agree_simps]:
  "agree (JText s) b path \<longleftrightarrow> b = JText s \<or> path_allowed path"
  "agree (JInt i) b path \<longleftrightarrow> b = JInt i \<or> path_allowed path"
  "agree (JBool c) b path \<longleftrightarrow> b = JBool c \<or> path_allowed path"
  "agree (JList l) b path \<longleftrightarrow> b = JList l \<or> path_allowed path"
  "agree JNull b path \<longleftrightarrow> b = JNull \<or> path_allowed path"
  "agree (JObject x) JNull path \<longleftrightarrow> path_allowed path"
  "agree (JObject x) (JText s) path \<longleftrightarrow> path_allowed path"
  by (auto simp: agree_def diff_paths.simps)

lemma path_other [simp]: "h \<noteq> ''mapping'' \<Longrightarrow> \<not> path_allowed (h # ps)"
  by (auto simp: path_allowed_def ALLOWED_PATHS_def)

lemma path_short [simp]: "\<not> path_allowed [a]" "\<not> path_allowed []" "path_allowed [a, b] \<longleftrightarrow> a = ''mapping'' \<and> b = ''ignore_fields''"
  "\<not> path_allowed [a, b, c]" "path_allowed [a, b, c, d] \<longleftrightarrow> a = ''mapping''
     \<and> (b = ''metrics'' \<and> d \<in> {''source'', ''decimal_separator''} \<or> b = ''time'' \<and> d = ''source'')"
  by (auto simp: path_allowed_def ALLOWED_PATHS_def)

lemma agree_opt:
  assumes "agree (json_opt f a) (json_opt f b) path" and "\<not> path_allowed path" and "\<And>x. \<exists>kvs. f x = JObject kvs"
    and "\<And>x y. agree (f x) (f y) path \<Longrightarrow> R x y"
  shows "rel_option R a b"
  using assms(1,2,4) assms(3) [of "the a"] assms(3) [of "the b"]
  by (cases a; cases b) (auto simp: json_opt_def agree_simps)

lemma agree_text_opt:
  "agree (json_opt (\<lambda>x. JText (f x)) a) (json_opt (\<lambda>x. JText (f x)) b) path \<Longrightarrow> \<not> path_allowed path
     \<Longrightarrow> map_option f a = map_option f b"
  by (cases a; cases b) (auto simp: json_opt_def agree_simps)

lemma member_json_dict: "member (map (\<lambda>(k, v). (k, JText v)) d) k = json_opt JText (dget d k)"
  by (induction d) (auto simp: member_def json_opt_def split: option.splits)

lemma agree_dict:
  assumes "agree (json_dict a) (json_dict b) path" and "\<And>k. \<not> path_allowed (path @ [k])"
  shows "dget a = dget b"
proof
  fix k
  show "dget a k = dget b k"
    using agree_members [OF assms(1) [unfolded json_dict_def], of k] assms(2) [of k]
    by (cases "dget a k"; cases "dget b k") (auto simp: member_json_dict json_opt_def agree_simps)
qed

end
