(* ===== verification/Triage_Confined.thy ===== *)
theory Triage_Confined
  imports Triage_Guard
begin

text \<open>
  What the guard of a proposal means: when it passes, the two manifests are equal but for the sources and
  separators of metrics, the sources of time fields and the ignored fields.
\<close>

lemma all_keys: "(\<And>k. P k) \<Longrightarrow> list_all P ks"
  by (simp add: list_all_iff)

text \<open>Agreement of two objects, field by field.\<close>
lemma agree_fields:
  "agree (JObject x) (JObject y) path \<Longrightarrow> list_all (\<lambda>k. agree (member x k) (member y k) (path @ [k])) (dkeys x)"
  by (rule all_keys) (rule agree_members)

lemma objects [simp]: "\<exists>kvs. soap_json a = JObject kvs" "\<exists>kvs. dated_json d = JObject kvs" "\<exists>kvs. html_json e = JObject kvs"
  "\<exists>kvs. rest_json r = JObject kvs" "\<exists>kvs. auth_json u = JObject kvs" "\<exists>kvs. ref_dump f = JObject kvs"
  "\<exists>kvs. metric_json m = JObject kvs"
  by (simp_all add: soap_json_def dated_json_def html_json_def rest_json_def auth_json_def ref_dump_def metric_json_def)

subsection \<open>The fetch block\<close>

lemma same_soap_dump:
  assumes "agree (soap_json a) (soap_json b) (h # ps)" and "h \<noteq> ''mapping''"
  shows "same_soap a b"
proof -
  have "dget (sx_params a) = dget (sx_params b)"
    using agree_members [OF assms(1) [unfolded soap_json_def], of "''params''"] assms(2)
    by (intro agree_dict [where path = "h # ps @ [''params'']"]) (auto simp: member_def)
  with agree_fields [OF assms(1) [unfolded soap_json_def]] assms(2) show ?thesis
    by (simp add: same_soap_def member_def agree_simps soap_xml_fetch.equality)
qed

lemma auth_dump:
  assumes "agree (auth_json a) (auth_json b) (h # ps)" and "h \<noteq> ''mapping''"
  shows "a = b"
proof -
  let ?s = "\<lambda>r. [(''name'', JText (sr_name r)), (''key'', JText (sr_key r))]"
  from agree_fields [OF assms(1) [unfolded auth_json_def]] assms(2)
  have s: "agree (JObject (?s (au_secretRef a))) (JObject (?s (au_secretRef b))) (h # ps @ [''secretRef''])"
    and rest: "au_location a = au_location b" "au_param a = au_param b"
    by (auto simp: member_def agree_simps split: auth_location.splits)
  from agree_fields [OF s] assms(2) have "au_secretRef a = au_secretRef b"
    by (simp add: member_def agree_simps secret_ref.equality)
  with rest show ?thesis by simp
qed

lemma rate_dump:
  assumes "agree (JObject [(''requests'', JInt (rl_requests a)), (''per'', JText (rl_per a))])
      (JObject [(''requests'', JInt (rl_requests b)), (''per'', JText (rl_per b))]) (h # ps)" and "h \<noteq> ''mapping''"
  shows "a = (b :: rate_limit)"
  using agree_fields [OF assms(1)] assms(2) by (cases a; cases b) (simp add: member_def agree_simps)

lemma same_rest_dump:
  assumes "agree (rest_json a) (rest_json b) (h # ps)" and "h \<noteq> ''mapping''"
  shows "same_rest a b"
proof -
  note f = agree_fields [OF assms(1) [unfolded rest_json_def]]
  have "rel_option (=) (rf_auth a) (rf_auth b)"
    using f assms(2) by (intro agree_opt [where f = auth_json and path = "h # ps @ [''auth'']"])
      (auto simp: member_def dest: auth_dump)
  moreover have "rel_option (=) (rf_rate_limit a) (rf_rate_limit b)"
    using f assms(2) by (intro agree_opt [where path = "h # ps @ [''rate_limit'']"])
      (auto simp: member_def dest: rate_dump)
  moreover have "dget (rf_query a) = dget (rf_query b)" "dget (rf_headers a) = dget (rf_headers b)"
    using f assms(2) by (intro agree_dict [where path = "h # ps @ [''query'']"] agree_dict [where path = "h # ps @ [''headers'']"];
      simp add: member_def)+
  ultimately show ?thesis using f assms(2)
    by (simp add: same_rest_def member_def agree_simps option.rel_eq rest_fetch.equality)
qed

lemma html_dump:
  assumes "agree (html_json a) (html_json b) (h # ps)" and "h \<noteq> ''mapping''"
  shows "a = b"
  using agree_fields [OF assms(1) [unfolded html_json_def]] assms(2) by (cases a; cases b) (simp add: member_def agree_simps)

lemma dated_dump:
  assumes "agree (dated_json a) (dated_json b) (h # ps)" and "h \<noteq> ''mapping''"
  shows "a = b"
proof -
  note f = agree_fields [OF assms(1) [unfolded dated_json_def]]
  have "rel_option (=) (df_discovery a) (df_discovery b)"
    using f assms(2) by (intro agree_opt [where path = "h # ps @ [''discovery'']"])
      (auto simp: member_def agree_simps intro!: discovery.equality dest!: agree_fields)
  moreover have "df_file_format a = df_file_format b"
    using f assms(2) by (auto simp: member_def agree_simps split: file_format.splits)
  ultimately show ?thesis using f assms(2) by (cases a; cases b) (simp add: member_def agree_simps option.rel_eq)
qed

lemma same_fetch_dump:
  assumes "agree (fetch_json a) (fetch_json b) [''fetch'']"
  shows "same_fetch a b"
proof -
  note f = agree_fields [OF assms [unfolded fetch_json_def]]
  have "rel_option same_soap (fb_soap_xml a) (fb_soap_xml b)"
    using f by (intro agree_opt [where path = "[''fetch'', ''soap_xml'']"]) (auto simp: member_def dest: same_soap_dump)
  moreover have "rel_option (=) (fb_dated_file a) (fb_dated_file b)"
    using f by (intro agree_opt [where path = "[''fetch'', ''dated_file'']"]) (auto simp: member_def dest: dated_dump)
  moreover have "rel_option (=) (fb_html_table a) (fb_html_table b)"
    using f by (intro agree_opt [where path = "[''fetch'', ''html_table'']"]) (auto simp: member_def dest: html_dump)
  moreover have "rel_option same_rest (fb_rest_json a) (fb_rest_json b)"
    using f by (intro agree_opt [where path = "[''fetch'', ''rest_json'']"]) (auto simp: member_def dest: same_rest_dump)
  moreover have "rel_option same_rest (fb_rest_xml a) (fb_rest_xml b)"
    using f by (intro agree_opt [where path = "[''fetch'', ''rest_xml'']"]) (auto simp: member_def dest: same_rest_dump)
  ultimately show ?thesis by (simp add: same_fetch_def option.rel_eq)
qed

subsection \<open>The mapping\<close>

lemma agree_inj_opt:
  assumes "agree (json_opt (\<lambda>x. JText (f x)) a) (json_opt (\<lambda>x. JText (f x)) b) path" and "\<not> path_allowed path" and "inj f"
  shows "a = b"
  using agree_text_opt [OF assms(1,2)] option.inj_map [OF assms(3)] by (auto dest: injD)

lemma context_inj: "inj (\<lambda>c. if c = Cx_delivery_day then ''delivery_day'' else ''scheduled_for'')"
  by (rule injI) (case_tac x; case_tac y; simp)

lemma inj_same: "inj (\<lambda>x. x)"
  by simp

lemma ref_dump_but_source:
  assumes "agree (ref_dump f) (ref_dump g) [a, b, c]"
  shows "same_but_source f g"
  using agree_fields [OF assms [unfolded ref_dump_def]] unfolding same_but_source_def
  by (auto simp: member_def intro: agree_inj_opt [OF _ _ inj_same] agree_inj_opt [OF _ _ context_inj])

lemma ref_dump_all:
  assumes "agree (ref_dump f) (ref_dump g) [a, b]" and "b \<noteq> ''ignore_fields''"
  shows "f = g"
proof -
  note r = agree_fields [OF assms(1) [unfolded ref_dump_def]]
  have "fr_source f = fr_source g" "fr_constant f = fr_constant g" "fr_context f = fr_context g"
    using r by (auto simp: member_def intro: agree_inj_opt [OF _ _ inj_same] agree_inj_opt [OF _ _ context_inj])
  then show ?thesis by simp
qed

lemma same_time_dump:
  assumes "agree (time_dump s) (time_dump t) [''mapping'', ''time'']"
  shows "same_time s t"
proof -
  note f = agree_fields [OF assms [unfolded time_dump_def]]
  have ref: "rel_option same_but_source x y" if "agree (json_opt ref_dump x) (json_opt ref_dump y) [''mapping'', ''time'', k]" for x y k
    using that by (rule agree_opt) (auto dest: ref_dump_but_source)
  have "rel_option same_but_source (tm_date s) (tm_date t)" "rel_option same_but_source (tm_index s) (tm_index t)"
    "rel_option same_but_source (tm_timestamp s) (tm_timestamp t)" "same_but_source (tm_resolution s) (tm_resolution t)"
    using f by (auto simp: member_def intro: ref ref_dump_but_source)
  moreover have "tm_kind s = tm_kind t"
    using f by (cases "tm_kind s"; cases "tm_kind t") (simp_all add: member_def agree_simps)
  moreover have "tm_interval_label s = tm_interval_label t"
    using f by (cases "tm_interval_label s"; cases "tm_interval_label t") (simp_all add: member_def agree_simps)
  moreover have "tm_timezone s = tm_timezone t"
    using f by (simp add: member_def agree_simps)
  ultimately show ?thesis by (simp add: same_time_def)
qed

lemma same_metric_dump:
  assumes "agree (metric_json a) (metric_json b) [''mapping'', ''metrics'', k]"
  shows "same_metric a b"
proof -
  note f = agree_fields [OF assms [unfolded metric_json_def]]
  have "mm_sign a = mm_sign b"
    using f by (cases "mm_sign a"; cases "mm_sign b") (simp_all add: member_def agree_simps)
  with f show ?thesis by (simp add: same_metric_def member_def agree_simps)
qed

lemma member_metrics: "member (map (\<lambda>(k, v). (k, metric_json v)) d) k = json_opt metric_json (dget d k)"
  by (induction d) (auto simp: member_def json_opt_def split: option.splits)

lemma same_mapping_dump:
  assumes "agree (mapping_dump a) (mapping_dump b) [''mapping'']"
  shows "same_mapping a b"
proof -
  note f = agree_fields [OF assms [unfolded mapping_dump_def]]
  have "dget (mb_dimensions a) = dget (mb_dimensions b)"
    using f by (intro agree_dict [where path = "[''mapping'', ''dimensions'']"]) (simp_all add: member_def)
  moreover have "same_time (mb_time a) (mb_time b)"
    using f by (intro same_time_dump) (simp add: member_def)
  moreover have "rel_option (=) x y" if "agree (json_opt ref_dump x) (json_opt ref_dump y) [''mapping'', k]" "k \<noteq> ''ignore_fields''" for x y k
    using that(1) by (rule agree_opt) (use that(2) in \<open>auto dest: ref_dump_all\<close>)
  then have "mb_source_version a = mb_source_version b" "mb_source_published_at a = mb_source_published_at b"
    using f by (auto simp: member_def option.rel_eq)
  moreover have "rel_option same_metric (dget (mb_metrics a) k) (dget (mb_metrics b) k)" for k
  proof (rule agree_opt [where path = "[''mapping'', ''metrics'', k]"])
    from f have "agree (JObject (map (\<lambda>(k, v). (k, metric_json v)) (mb_metrics a)))
        (JObject (map (\<lambda>(k, v). (k, metric_json v)) (mb_metrics b))) [''mapping'', ''metrics'']"
      by (simp add: member_def)
    from agree_members [OF this, of k]
    show "agree (json_opt metric_json (dget (mb_metrics a) k)) (json_opt metric_json (dget (mb_metrics b) k)) [''mapping'', ''metrics'', k]"
      by (simp add: member_metrics)
  qed (auto dest: same_metric_dump)
  ultimately show ?thesis by (simp add: same_mapping_def rel_fun_def)
qed

subsection \<open>The manifest\<close>

lemma texts_same: "map JText xs = map JText ys \<longleftrightarrow> xs = ys"
  by (auto dest: map_injective simp: inj_def)

lemma cadence_dump_all:
  assumes "agree (cadence_dump a) (cadence_dump b) [''cadence'']"
  shows "a = b"
proof -
  note f = agree_fields [OF assms [unfolded cadence_dump_def]]
  have "rel_option (=) (cad_correction a) (cad_correction b)"
    using f by (intro agree_opt [where path = "[''cadence'', ''correction'']"])
      (auto simp: member_def agree_simps intro!: correction.equality dest!: agree_fields)
  with f show ?thesis by (cases a; cases b) (simp add: member_def agree_simps option.rel_eq)
qed

lemma contract_dump_all:
  assumes "agree (contract_dump a) (contract_dump b) [''contract'']"
  shows "a = b"
proof -
  note f = agree_fields [OF assms [unfolded contract_dump_def]]
  have "ct_source_transport a = ct_source_transport b"
    using f by (cases "ct_source_transport a"; cases "ct_source_transport b") (simp_all add: member_def agree_simps transport_text_def)
  moreover have "ct_decode a = ct_decode b"
    using f by (cases "ct_decode a"; cases "ct_decode b") (simp_all add: member_def agree_simps decode_text_def)
  ultimately show ?thesis using f by (cases a; cases b) (simp add: member_def agree_simps texts_same)
qed

lemma guard_confined:
  assumes "guard m m' = Inr ()"
  shows "confined m m'"
proof -
  have "agree (manifest_dump m) (manifest_dump m') []"
    using assms by (auto simp: guard_def agree_def refused_def list_all_iff filter_empty_conv split: if_splits)
  note f = agree_fields [OF this [unfolded manifest_dump_def]]
  have "m_modality m = m_modality m'"
    using f by (cases "m_modality m"; cases "m_modality m'") (simp_all add: member_def agree_simps modality_text_def)
  moreover have "m_max_age m = m_max_age m'"
    using f by (auto simp: member_def agree_simps dest!: agree_fields)
  moreover have "m_cadence m = m_cadence m'" "m_contract m = m_contract m'" "same_fetch (m_fetch m) (m_fetch m')"
    "same_mapping (m_mapping m) (m_mapping m')"
    using f by (auto simp: member_def intro: cadence_dump_all contract_dump_all same_fetch_dump same_mapping_dump)
  ultimately show ?thesis using f by (simp add: confined_def member_def agree_simps texts_same)
qed

end
