(* ===== verification/Triage.thy ===== *)
theory Triage
  imports Triage_Confined
begin

text \<open>
  Drift triage (src/energy_platform/triage/pipeline.py) and \<open>parse_manifest\<close>: detection of drift, the
  request to the language model, the closed schema of its answer, the constraints on its operations, and
  the pipeline from a drifted capture to a proposal. The backend, PyYAML and \<open>json.loads\<close> are arguments.
\<close>

subsection \<open>Reading a manifest\<close>

datatype yaml_token = Yt_anchor | Yt_alias | Yt_tag | Yt_document_start | Yt_document_end | Yt_other

text \<open>What \<open>safe_load\<close> gives: a value that is not a mapping, or a mapping with its keys and the values the
  declared fields of the models take (none when a field is missing, unknown or of another type).\<close>
datatype yaml_data = Not_mapping | Mapping_of "string list" "manifest option"

text \<open>\<open>scan\<close> gives the tokens before an error, and whether one ends them.\<close>
record yaml_lib =
  yl_scan :: "string \<Rightarrow> yaml_token list \<times> bool"
  yl_load :: "string \<Rightarrow> yaml_data option"
  yl_zones :: "string \<Rightarrow> bool"
  yl_compiles :: "string \<Rightarrow> bool"

text \<open>An exception of a validator that is not a \<open>ValueError\<close> passes pydantic.\<close>
definition validation_exc :: "py_error \<Rightarrow> triage_exc" where
  "validation_exc e = (case e of ValueError msg \<Rightarrow> Validation msg | _ \<Rightarrow> Escaped ''not a ValueError'')"

definition parse_manifest :: "yaml_lib \<Rightarrow> string \<Rightarrow> triage_exc + manifest" where
  "parse_manifest lib t = (case yl_scan lib t of (tokens, failed) \<Rightarrow>
     if list_ex (\<lambda>k. k \<noteq> Yt_other) tokens then Inl (ManifestSyntax ''YAML anchors, tags and documents are not allowed'')
     else if failed then Inl (Escaped ''YAMLError'')
     else case yl_load lib t of
       None \<Rightarrow> Inl (Escaped ''YAMLError'')
     | Some Not_mapping \<Rightarrow> Inl (ManifestSyntax ''manifest must be a mapping'')
     | Some (Mapping_of ks data) \<Rightarrow>
         if ''<<'' \<in> set ks then Inl (ManifestSyntax ''YAML merge keys are not allowed'')
         else case data of
           None \<Rightarrow> Inl (Validation ''fields'')
         | Some m \<Rightarrow> (case mk_manifest (yl_zones lib) (yl_compiles lib) m of
               Inl e \<Rightarrow> Inl (validation_exc e)
             | Inr m' \<Rightarrow> Inr m'))"

subsection \<open>Drift\<close>

definition MAX_OPERATIONS :: nat where "MAX_OPERATIONS = 16"
definition MAX_RATIONALE_CHARS :: nat where "MAX_RATIONALE_CHARS = 300"

definition TIME_FIELDS :: "string list" where
  "TIME_FIELDS = [''resolution'', ''date'', ''index'', ''timestamp'']"

datatype missing_source = Missing_metric string string | Missing_time string string

record drift_report =
  dr_target_id :: string
  dr_quarantine :: "string option"
  dr_unknown_fields :: "string list"
  dr_missing_sources :: "missing_source list"
  dr_observations :: nat
  dr_no_records :: bool

definition drifted :: "drift_report \<Rightarrow> bool" where
  "drifted d \<longleftrightarrow> truthy (dr_quarantine d) \<or> dr_unknown_fields d \<noteq> [] \<or> dr_missing_sources d \<noteq> [] \<or> dr_no_records d"

definition missing_json :: "missing_source \<Rightarrow> json" where
  "missing_json s = (case s of
       Missing_metric n f \<Rightarrow> JObject [(''kind'', JText ''metric''), (''name'', JText n), (''source'', JText f)]
     | Missing_time n f \<Rightarrow> JObject [(''kind'', JText ''time''), (''name'', JText n), (''source'', JText f)])"

definition drift_dict :: "drift_report \<Rightarrow> json" where
  "drift_dict d = JObject [(''quarantine'', json_opt JText (dr_quarantine d)),
     (''unknown_fields'', JList (map JText (dr_unknown_fields d))),
     (''missing_sources'', JList (map missing_json (dr_missing_sources d))),
     (''observations'', JInt (int (dr_observations d))), (''no_records'', JBool (dr_no_records d))]"

text \<open>\<open>getattr(m.mapping.time, name)\<close> for the names of \<open>TIME_FIELDS\<close>, and the source there.\<close>
definition time_field :: "time_mapping \<Rightarrow> string \<Rightarrow> field_ref option" where
  "time_field t name = (if name = ''resolution'' then Some (tm_resolution t) else if name = ''date'' then tm_date t
     else if name = ''index'' then tm_index t else if name = ''timestamp'' then tm_timestamp t else None)"

definition source_of :: "field_ref option \<Rightarrow> string option" where
  "source_of r = Option.bind r fr_source"

definition time_sources :: "manifest \<Rightarrow> (string \<times> string) list" where
  "time_sources m = List.map_filter (\<lambda>n. map_option (Pair n) (source_of (time_field (mb_time (m_mapping m)) n))) TIME_FIELDS"

definition referenced :: "manifest \<Rightarrow> string list" where
  "referenced m = map mm_source (dvalues (mb_metrics (m_mapping m))) @ map snd (time_sources m)
     @ List.map_filter source_of [mb_source_version (m_mapping m), mb_source_published_at (m_mapping m)]"

text \<open>\<open>s.strip(chars)\<close>\<close>
definition strip_chars :: "string \<Rightarrow> string \<Rightarrow> string" where
  "strip_chars cs s = rev (dropWhile (\<lambda>c. c \<in> set cs) (rev (dropWhile (\<lambda>c. c \<in> set cs) s)))"

definition unknown_from_event :: "string \<Rightarrow> string list" where
  "unknown_from_event msg = (case split_first (CHR ''['') msg of
       None \<Rightarrow> []
     | Some (a, b) \<Rightarrow> (case split_last (CHR '']'') b of
           None \<Rightarrow> []
         | Some (inner, c) \<Rightarrow> map (\<lambda>p. strip_chars [CHR 0x27, CHR 0x22] (strip p))
             (filter (\<lambda>p. strip p \<noteq> []) (split_on (CHR '','') inner))))"

definition missing_sources :: "manifest \<Rightarrow> string list \<Rightarrow> missing_source list" where
  "missing_sources m names =
     List.map_filter (\<lambda>(n, mm). if mm_source mm \<notin> set names then Some (Missing_metric n (mm_source mm)) else None)
       (mb_metrics (m_mapping m))
     @ List.map_filter (\<lambda>(n, f). if f \<notin> set names then Some (Missing_time n f) else None) (time_sources m)"

definition unknown_names :: "manifest \<Rightarrow> sample \<Rightarrow> pipeline_outcome \<Rightarrow> string list" where
  "unknown_names m s out =
     (let ignored = mb_ignore_fields (m_mapping m);
          seen = concat (map (\<lambda>e. if q_kind e = ''unknown_field'' then filter safe_name (unknown_from_event (q_message e)) else [])
            (po_events out))
      in sort (remdups (filter (\<lambda>n. n \<notin> set ignored) (filter (\<lambda>n. n \<notin> set (referenced m)) (sa_fields s) @ seen))))"

definition drift_of :: "manifest \<Rightarrow> sample \<Rightarrow> pipeline_outcome \<Rightarrow> drift_report" where
  "drift_of m s out =
     (let q = (if truthy (po_quarantine out) then po_quarantine out else sa_parse_error s) in
      \<lparr>dr_target_id = m_target_id m,
       dr_quarantine = (if truthy q then map_option (\<lambda>v. clean_text v 200) q else None),
       dr_unknown_fields = unknown_names m s out,
       dr_missing_sources = (if sa_fields s = [] then [] else missing_sources m (sa_fields s)),
       dr_observations = length (po_observations out),
       dr_no_records = (sa_fields s \<noteq> [] \<and> po_observations out = [] \<and> q = None)\<rparr>)"

definition detect :: "runtime \<Rightarrow> capture_entry \<Rightarrow> bytes \<Rightarrow> sample \<Rightarrow> instant \<Rightarrow> py_error + drift_report" where
  "detect rt entry payload s now =
     bindR (run_pipeline rt entry payload now) (\<lambda>out. Inr (drift_of (rt_manifest rt) s out))"

subsection \<open>The request and the answer\<close>

definition separator_text :: "separator \<Rightarrow> string" where
  "separator_text s = (if s = Dot then ''dot'' else ''comma'')"

definition request_json :: "manifest \<Rightarrow> drift_report \<Rightarrow> sample \<Rightarrow> json" where
  "request_json m d s = JObject
     [(''task'', JText ''repair-mapping''), (''target_id'', JText (m_target_id m)),
      (''dataset_id'', JText (ct_dataset_id (m_contract m))),
      (''mapping'', JObject
         [(''metrics'', JObject (map (\<lambda>(n, mm). (n, JObject [(''source'', JText (mm_source mm)),
              (''decimal_separator'', JText (separator_text (mm_decimal_separator mm)))])) (mb_metrics (m_mapping m)))),
          (''time'', JObject (map (\<lambda>(n, f). (n, JText f)) (time_sources m))),
          (''ignore_fields'', JList (map JText (mb_ignore_fields (m_mapping m)))),
          (''referenced'', JList (map JText (sort (remdups (referenced m)))))]),
      (''drift'', drift_dict d), (''sample'', sample_dict s)]"

definition build_request :: "manifest \<Rightarrow> drift_report \<Rightarrow> sample \<Rightarrow> string" where
  "build_request m d s = dumps (request_json m d s)"

definition OPS :: "(string, string list) dict" where
  "OPS = [(''rename_source'', [''op'', ''metric'', ''to'']), (''rename_time_source'', [''op'', ''field'', ''to'']),
     (''set_decimal_separator'', [''op'', ''metric'', ''to'']), (''add_ignore_field'', [''op'', ''field''])]"

definition op_of_json :: "json \<Rightarrow> triage_exc + op" where
  "op_of_json v = (case v of
       JObject kvs \<Rightarrow>
         (if list_all (\<lambda>(k, x). case x of JText s \<Rightarrow> True | _ \<Rightarrow> False) kvs
          then (let p = map (\<lambda>(k, x). (k, case x of JText s \<Rightarrow> s | _ \<Rightarrow> [])) kvs in
            case Option.bind (dget p ''op'') (dget OPS) of
              None \<Rightarrow> refused ''not an allowed operation''
            | Some ks \<Rightarrow> if set (dkeys p) \<noteq> set ks then refused ''operation has other fields'' else Inr p)
          else refused ''operation must be an object of strings'')
     | _ \<Rightarrow> refused ''operation must be an object of strings'')"

text \<open>\<open>loads\<close> is \<open>json.loads\<close>; none is its \<open>JSONDecodeError\<close>.\<close>
definition parse_answer :: "(string \<Rightarrow> json option) \<Rightarrow> string \<Rightarrow> triage_exc + op list \<times> string" where
  "parse_answer loads t = (case loads t of
       None \<Rightarrow> refused ''the answer is not JSON''
     | Some (JObject data) \<Rightarrow>
         (if \<not> set (dkeys data) \<subseteq> {''operations'', ''rationale''} then refused ''the answer must be an object with operations and rationale only''
          else case dget data ''operations'' of
            Some (JList ops) \<Rightarrow>
              (if length ops > MAX_OPERATIONS then refused ''too many operations''
               else case (case dget data ''rationale'' of None \<Rightarrow> JText [] | Some r \<Rightarrow> r) of
                 JText r \<Rightarrow> bindR (mapR op_of_json ops) (\<lambda>ps. Inr (ps, clean_text r MAX_RATIONALE_CHARS))
               | _ \<Rightarrow> refused ''rationale must be a string'')
          | _ \<Rightarrow> refused ''operations must be a list'')
     | _ \<Rightarrow> refused ''the answer must be an object with operations and rationale only'')"

subsection \<open>Constraints\<close>

definition op_subject :: "op \<Rightarrow> string" where
  "op_subject p = (if truthy (dget p ''metric'') then op_get p ''metric'' else op_get p ''field'')"

text \<open>One operation, against the metrics, the time fields, the fields of the sample and the referenced names.\<close>
definition constrain_op :: "manifest \<Rightarrow> sample \<Rightarrow> op \<Rightarrow> triage_exc + unit" where
  "constrain_op m s p =
     (let k = op_get p ''op''; subject = op_subject p; to = op_get p ''to''; name = op_get p ''field'' in
      if k \<in> {''rename_source'', ''set_decimal_separator''} \<and> dget (mb_metrics (m_mapping m)) subject = None
      then refused ''no mapped metric''
      else if k = ''rename_time_source'' \<and> source_of (time_field (mb_time (m_mapping m)) subject) = None
      then refused ''no time field''
      else if k \<in> {''rename_source'', ''rename_time_source''} \<and> (\<not> safe_name to \<or> to \<notin> set (sa_fields s))
      then refused ''not a field of the captured document''
      else if k \<in> {''rename_source'', ''rename_time_source''} \<and> to \<in> set (referenced m)
      then refused ''already mapped''
      else if k = ''set_decimal_separator'' \<and> to \<notin> {''dot'', ''comma''}
      then refused ''decimal separator must be dot or comma''
      else if k = ''add_ignore_field'' \<and> (\<not> safe_name name \<or> name \<notin> set (sa_fields s) \<or> name \<in> set (referenced m))
      then refused ''not an unmapped field of the document''
      else Inr ())"

fun constrain_in :: "manifest \<Rightarrow> sample \<Rightarrow> (string \<times> string) list \<Rightarrow> op list \<Rightarrow> triage_exc + unit" where
  "constrain_in m s seen [] = Inr ()"
| "constrain_in m s seen (p # ps) =
     (let t = (op_get p ''op'', op_subject p) in
      if t \<in> set seen then refused ''appears twice''
      else bindR (constrain_op m s p) (\<lambda>_. constrain_in m s (t # seen) ps))"

definition constrain :: "op list \<Rightarrow> manifest \<Rightarrow> sample \<Rightarrow> triage_exc + unit" where
  "constrain ops m s = constrain_in m s [] ops"

subsection \<open>The pipeline\<close>

datatype triage_status = No_drift | No_proposal | Refused_answer | Proposed

text \<open>\<open>tr_refusal\<close> is the exception that was caught; \<open>tr_patch\<close> is the pair of texts whose difference is
  proposed, with the report of the second one.\<close>
record triage_result =
  tr_status :: triage_status
  tr_target_id :: string
  tr_drift :: drift_report
  tr_operations :: "op list"
  tr_refusal :: "triage_exc option"
  tr_rationale :: string
  tr_patch :: "(string \<times> string \<times> drift_report) option"

text \<open>\<open>tb_complete\<close> answers a request; none is \<open>LLMUnavailable\<close>.\<close>
record triage_backend =
  tb_complete :: "string \<Rightarrow> string option"
  tb_loads :: "string \<Rightarrow> json option"

definition raised :: "py_error + 'a \<Rightarrow> triage_exc + 'a" where
  "raised x = (case x of Inl e \<Rightarrow> Inl (Escaped ''exception of the mapping'') | Inr y \<Rightarrow> Inr y)"

definition with_manifest :: "runtime \<Rightarrow> manifest \<Rightarrow> runtime" where
  "with_manifest rt m = rt\<lparr>rt_manifest := m\<rparr>"

definition triage_result_of :: "triage_status \<Rightarrow> manifest \<Rightarrow> drift_report \<Rightarrow> triage_result" where
  "triage_result_of st m d = \<lparr>tr_status = st, tr_target_id = m_target_id m, tr_drift = d, tr_operations = [], tr_refusal = None,
     tr_rationale = [], tr_patch = None\<rparr>"

text \<open>The part of \<open>triage\<close> under \<open>try\<close>, after the answer has been parsed: the patched text and its report.\<close>
definition patch ::
    "yaml_lib \<Rightarrow> runtime \<Rightarrow> string \<Rightarrow> capture_entry \<Rightarrow> bytes \<Rightarrow> instant \<Rightarrow> manifest \<Rightarrow> sample \<Rightarrow> op list
     \<Rightarrow> triage_exc + string \<times> drift_report" where
  "patch lib rt t entry payload now m s ops =
     bindR (constrain ops m s) (\<lambda>_.
     bindR (apply_operations t ops) (\<lambda>patched_text.
     bindR (parse_manifest lib patched_text) (\<lambda>patched.
     bindR (guard m patched) (\<lambda>_.
     bindR (raised (validate_manifest patched)) (\<lambda>verdict.
     if vr_status verdict \<noteq> Vs_ok then refused ''the patched manifest does not validate''
     else bindR (raised (detect (with_manifest rt patched) entry payload (extract_sample (with_manifest rt patched) payload) now)) (\<lambda>after.
       if truthy (dr_quarantine after) \<or> dr_missing_sources after \<noteq> [] then refused ''the patch does not repair the capture''
       else Inr (patched_text, after)))))))"

definition propose ::
    "yaml_lib \<Rightarrow> triage_backend \<Rightarrow> runtime \<Rightarrow> string \<Rightarrow> capture_entry \<Rightarrow> bytes \<Rightarrow> instant \<Rightarrow> manifest \<Rightarrow> sample
     \<Rightarrow> drift_report \<Rightarrow> string \<Rightarrow> triage_exc + triage_result" where
  "propose lib llm rt t entry payload now m s d answer =
     bindR (parse_answer (tb_loads llm) answer) (\<lambda>(ops, rationale).
     if ops = [] then Inr ((triage_result_of No_proposal m d)\<lparr>tr_rationale := rationale\<rparr>)
     else bindR (patch lib rt t entry payload now m s ops) (\<lambda>(patched_text, after).
       Inr ((triage_result_of Proposed m d)\<lparr>tr_operations := ops, tr_rationale := rationale,
         tr_patch := Some (t, patched_text, after)\<rparr>)))"

definition triage ::
    "yaml_lib \<Rightarrow> triage_backend \<Rightarrow> runtime \<Rightarrow> string \<Rightarrow> capture_entry \<Rightarrow> bytes \<Rightarrow> instant \<Rightarrow> triage_exc + triage_result" where
  "triage lib llm rt t entry payload now =
     bindR (parse_manifest lib t) (\<lambda>m.
     let s = extract_sample (with_manifest rt m) payload in
     bindR (raised (detect (with_manifest rt m) entry payload s now)) (\<lambda>d.
     if \<not> drifted d then Inr (triage_result_of No_drift m d)
     else case tb_complete llm (build_request m d s) of
       None \<Rightarrow> Inr (triage_result_of No_proposal m d)
     | Some answer \<Rightarrow> (case propose lib llm rt t entry payload now m s d answer of
           Inr r \<Rightarrow> Inr r
         | Inl (Escaped e) \<Rightarrow> Inl (Escaped e)
         | Inl e \<Rightarrow> Inr ((triage_result_of Refused_answer m d)\<lparr>tr_refusal := Some e\<rparr>))))"

end
