(* ===== verification/Triage_Properties.thy ===== *)
theory Triage_Properties
  imports Triage Capture_Properties
begin

text \<open>
  What a proposal of the triage can be: whatever the language model answers, it is a manifest that differs
  from the original only in the sources of the mapping, is admitted, and maps the drifted capture.
\<close>

lemma patch_sound:
  assumes "patch lib rt t entry payload now m s ops = Inr (t', after)"
  shows "\<exists>m' v. parse_manifest lib t' = Inr m' \<and> confined m m' \<and> validate_manifest m' = Inr v \<and> vr_status v = Vs_ok
    \<and> detect (with_manifest rt m') entry payload (extract_sample (with_manifest rt m') payload) now = Inr after
    \<and> \<not> truthy (dr_quarantine after) \<and> dr_missing_sources after = []"
  using assms unfolding patch_def
  by (auto simp: refused_def raised_def guard_confined split: if_splits sum.splits)

lemma triage_proposed:
  assumes "triage lib llm rt t entry payload now = Inr r" and "tr_status r = Proposed"
  obtains m ops t' after where "parse_manifest lib t = Inr m" "tr_patch r = Some (t, t', after)" "tr_operations r = ops"
    "patch lib rt t entry payload now m (extract_sample (with_manifest rt m) payload) ops = Inr (t', after)"
  using assms
  by (auto simp: triage_def propose_def triage_result_of_def raised_def Let_def
      split: if_splits sum.splits option.splits triage_exc.splits)

text \<open>C35. A proposal is confined, whatever the model answers. When the triage proposes a patch, the patched
  text is a manifest that equals the original in everything but metric sources and separators, time
  sources and ignored fields: the hosts, the fetch block, the credentials, the contract, the cadence, the
  units, the signs and the dimensions are those of the original; it passes the admission check; and it
  maps the drifted capture without quarantine and without a mapped source that is missing.\<close>
theorem proposal_confined:
  assumes "triage lib llm rt t entry payload now = Inr r" and "tr_status r = Proposed"
  shows "\<exists>m m' v t' after. tr_patch r = Some (t, t', after)
    \<and> parse_manifest lib t = Inr m \<and> parse_manifest lib t' = Inr m' \<and> confined m m'
    \<and> validate_manifest m' = Inr v \<and> vr_status v = Vs_ok
    \<and> detect (with_manifest rt m') entry payload (extract_sample (with_manifest rt m') payload) now = Inr after
    \<and> \<not> truthy (dr_quarantine after) \<and> dr_missing_sources after = []"
  using triage_proposed [OF assms] patch_sound by metis

subsection \<open>A repair\<close>

definition drifted_manifest :: manifest where
  "drifted_manifest = ceps_manifest\<lparr>m_mapping := (m_mapping ceps_manifest)\<lparr>mb_metrics :=
     [(''load_incl_pumping'', \<lparr>mm_source = ''@value9'', mm_unit = ''MW'', mm_sign = As_published, mm_decimal_separator = Dot\<rparr>),
      (''load'', \<lparr>mm_source = ''@value2'', mm_unit = ''MW'', mm_sign = As_published, mm_decimal_separator = Dot\<rparr>)]\<rparr>\<rparr>"

definition mapping_text :: "string \<Rightarrow> string" where
  "mapping_text source = join_with [CHR 0x0A] [''mapping:'', ''  metrics:'',
     ''    load_incl_pumping: {source: '' @ json_string False source @ '', unit: MW}'',
     ''    load: {source: '' @ json_string False ''@value2'' @ '', unit: MW}'']"

definition repair_yaml :: yaml_lib where
  "repair_yaml = \<lparr>yl_scan = (\<lambda>_. ([Yt_other], False)),
     yl_load = (\<lambda>t. if t = mapping_text ''@value9'' then Some (Mapping_of [''mapping''] (Some drifted_manifest))
       else if t = mapping_text ''@value1'' then Some (Mapping_of [''mapping''] (Some ceps_manifest)) else None),
     yl_zones = ceps_zones, yl_compiles = (\<lambda>_. True)\<rparr>"

definition repair_answer :: json where
  "repair_answer = JObject [(''operations'', JList [JObject [(''op'', JText ''rename_source''),
     (''metric'', JText ''load_incl_pumping''), (''to'', JText ''@value1'')]]), (''rationale'', JText ''renamed'')]"

definition repair_backend :: triage_backend where
  "repair_backend = \<lparr>tb_complete = (\<lambda>_. Some []), tb_loads = (\<lambda>_. Some repair_answer)\<rparr>"

definition repair_lib :: decoders where
  "repair_lib = sample_decoders\<lparr>lib_xml := (\<lambda>_. Some (Node (Some ''{s}Envelope'') [] None [Node (Some ''Body'') [] None
     [Node (Some ''{ns}item'') [(''date'', ''2026-03-29T00:00:00+01:00''), (''value1'', ''97''), (''value2'', ''3'')] None []]]))\<rparr>"

definition repair_rt :: runtime where
  "repair_rt = demo_rt\<lparr>rt_lib := repair_lib, rt_sha := (\<lambda>_. mc_payload_sha256 sample_ctx)\<rparr>"

lemma repair_edit:
  "apply_operations (mapping_text ''@value9'') [[(''op'', ''rename_source''), (''metric'', ''load_incl_pumping''), (''to'', ''@value1'')]]
   = Inr (mapping_text ''@value1'')"
  by code_simp

lemma repair_guard: "guard drifted_manifest ceps_manifest = Inr ()"
  by code_simp

text \<open>A change of the mapping keeps a valid manifest valid as long as the mapping is valid and its metrics are
  the same.\<close>
lemma mk_manifest_mapping:
  assumes "mk_manifest zones compiles m = Inr m" and "mapping_ok zones b = Inr ()"
    and "dkeys (mb_metrics b) = dkeys (mb_metrics (m_mapping m))"
  shows "mk_manifest zones compiles (m\<lparr>m_mapping := b\<rparr>) = Inr (m\<lparr>m_mapping := b\<rparr>)"
proof -
  have "url_check (m\<lparr>m_mapping := b\<rparr>) = url_check m" by (simp add: fun_eq_iff url_check_def cong: option.case_cong)
  then have "consistent (m\<lparr>m_mapping := b\<rparr>) = consistent m"
    using assms(3) by (simp add: consistent_def flip: set_map)
  moreover obtain cad where cad: "mk_cadence zones (m_cadence m) = Inr cad" "m\<lparr>m_cadence := cad\<rparr> = m"
    using assms(1) by (auto simp: mk_manifest_def)
  then have "m_cadence m = cad" by (metis manifest.select_convs(8) manifest.surjective manifest.update_convs(8))
  ultimately show ?thesis using assms(1,2) cad by (auto simp: mk_manifest_def)
qed

lemma drifted_valid: "mk_manifest ceps_zones (\<lambda>_. True) drifted_manifest = Inr drifted_manifest"
proof -
  let ?b = "m_mapping drifted_manifest"
  have "mapping_ok ceps_zones ?b = Inr ()" "dkeys (mb_metrics ?b) = dkeys (mb_metrics (m_mapping ceps_manifest))"
    by code_simp+
  from mk_manifest_mapping [OF ceps_manifest_valid this] show ?thesis by (simp add: drifted_manifest_def)
qed

lemma repair_texts: "mapping_text ''@value1'' \<noteq> mapping_text ''@value9''"
  by code_simp

lemma repair_parses:
  "parse_manifest repair_yaml (mapping_text ''@value9'') = Inr drifted_manifest"
  "parse_manifest repair_yaml (mapping_text ''@value1'') = Inr ceps_manifest"
  using repair_texts by (simp_all add: parse_manifest_def repair_yaml_def drifted_valid ceps_manifest_valid)

definition repair_entry :: capture_entry where
  "repair_entry = demo_entry\<lparr>ce_scheduled_for := 1774738800000000, ce_fetched_at := 1774738800000000,
     ce_payload_sha256 := mc_payload_sha256 sample_ctx, ce_raw_ref := mc_raw_ref sample_ctx\<rparr>"

subsection \<open>The capture before and after\<close>

definition repair_doc :: document where
  "repair_doc = XmlDoc (Elem ''{s}Envelope'' [] None [Elem ''Body'' [] None
     [Elem ''{ns}item'' [(''date'', ''2026-03-29T00:00:00+01:00''), (''value1'', ''97''), (''value2'', ''3'')] None []]])"

definition repair_record :: source_record where
  "repair_record = \<lparr>rec_fields = [(''@date'', CText ''2026-03-29T00:00:00+01:00''), (''@value1'', CText ''97''),
     (''@value2'', CText ''3'')], rec_locator = ''/Envelope/Body/item''\<rparr>"

lemma repair_decode: "decode repair_lib [] Dk_soap = Inr repair_doc"
  by code_simp

lemma repair_required: "required_source_fields ceps_manifest = [''@date'']" "required_source_fields drifted_manifest = [''@date'']"
  by code_simp+

lemma repair_walk: "(case repair_doc of XmlDoc e \<Rightarrow> xml_walk [''@date''] [] e | _ \<Rightarrow> []) = [repair_record]"
  by code_simp

lemma repair_kind: "ct_decode (m_contract ceps_manifest) = Dk_soap" "ct_decode (m_contract drifted_manifest) = Dk_soap"
  "fb_html_table (m_fetch ceps_manifest) = None" "fb_html_table (m_fetch drifted_manifest) = None"
  by (simp_all add: ceps_manifest_def drifted_manifest_def)

lemma repair_parse:
  assumes "m \<in> {ceps_manifest, drifted_manifest}"
  shows "decode_payload (with_manifest repair_rt m) [] = Inr repair_doc" and "generic_parse m repair_doc = Inr [repair_record]"
proof -
  show "decode_payload (with_manifest repair_rt m) [] = Inr repair_doc"
    using assms repair_kind repair_decode by (auto simp: decode_payload_def with_manifest_def repair_rt_def)
  show "generic_parse m repair_doc = Inr [repair_record]"
    using assms repair_kind repair_required repair_walk by (auto simp: generic_parse_def repair_doc_def)
qed

definition repair_sample :: sample where
  "repair_sample = \<lparr>sa_fields = [''@date'', ''@value1'', ''@value2''],
     sa_records = [[(''@date'', ''2026-03-29T00:00:00+01:00''), (''@value1'', ''97''), (''@value2'', ''3'')]],
     sa_dropped = 0, sa_parse_error = None, sa_truncated = False\<rparr>"

lemma repair_bound: "bound_sample (header_names repair_doc [rec_fields repair_record]) [rec_fields repair_record] = repair_sample"
  by code_simp

lemma repair_extract:
  assumes "m \<in> {ceps_manifest, drifted_manifest}"
  shows "extract_sample (with_manifest repair_rt m) [] = repair_sample"
proof -
  have "inventory m repair_doc = Inr [rec_fields repair_record]"
    using repair_parse(2) [OF assms] by (simp add: inventory_def repair_doc_def)
  then show ?thesis using repair_parse(1) [OF assms] repair_bound
    by (simp add: extract_sample_def catchE_def with_manifest_def)
qed

definition repair_rows :: "energy_observation list" where
  "repair_rows = [sample_row, sample_row\<lparr>metric := ''load'', obs_value := Some (Dec False 3 0)\<rparr>]"

lemma repair_maps:
  "map_records sample_env ceps_manifest [repair_record] sample_ctx = Inr \<lparr>mr_observations = repair_rows, mr_events = []\<rparr>"
  by code_simp

definition drifted_rows :: "energy_observation list" where
  "drifted_rows = [sample_row\<lparr>obs_value := None\<rparr>, sample_row\<lparr>metric := ''load'', obs_value := Some (Dec False 3 0)\<rparr>]"

lemma drifted_maps:
  "map_sum id mr_observations (map_records sample_env drifted_manifest [repair_record] sample_ctx) = Inr drifted_rows"
  by code_simp

lemma one_day_complete:
  assumes "sort (remdups (map resolution os)) = [''PT15M'']" and "filter (\<lambda>x. resolution x = ''PT15M'') os = os"
    and "dkeys (present_periods os []) = [739704]"
  shows "\<exists>es. completeness_events os prague_2026 = Inr es"
  using assms by (simp add: completeness_events_def partition_status_def prague_spring_day Let_def)

lemma repair_complete:
  "\<exists>es. completeness_events repair_rows prague_2026 = Inr es" "\<exists>es. completeness_events drifted_rows prague_2026 = Inr es"
  by (rule one_day_complete; code_simp)+

lemma repair_runtime:
  "rt_zone (with_manifest repair_rt m) = prague_2026" "rt_env (with_manifest repair_rt m) = sample_env"
  "rt_manifest (with_manifest repair_rt m) = m"
  by (simp_all add: rt_zone_def with_manifest_def repair_rt_def demo_rt_def sample_env_def)

lemma repair_day: "delivery_day_for 1774738800000000 prague_2026 = 739704"
  by code_simp

lemma repair_ids: "m_target_id ceps_manifest = ''ceps_load'' \<and> m_target_id drifted_manifest = ''ceps_load''"
  "ct_dataset_id (m_contract ceps_manifest) = ''ceps.load'' \<and> ct_dataset_id (m_contract drifted_manifest) = ''ceps.load''"
  by (simp_all add: ceps_manifest_def drifted_manifest_def)

lemma repair_dataset: "dataset ''ceps.load'' = Some ceps_load"
  by code_simp

lemma repair_context:
  assumes "m \<in> {ceps_manifest, drifted_manifest}"
  obtains d where "derivation_for (with_manifest repair_rt m) = Inr d"
    "fixture_context (with_manifest repair_rt m) repair_entry d 1774738800000000 = sample_ctx"
proof -
  obtain d where d: "derivation_for (with_manifest repair_rt m) = Inr d" "d_derivation_id d = ''aaaaaaaaaaaaaaaa''"
    using assms repair_ids repair_dataset
    by (auto simp: derivation_for_def repair_runtime Let_def) (simp_all add: with_manifest_def repair_rt_def demo_rt_def)
  have "fixture_context (with_manifest repair_rt m) repair_entry d 1774738800000000 = sample_ctx"
    using assms d(2) repair_ids by (auto simp: fixture_context_def repair_runtime repair_entry_def repair_day sample_ctx_def)
  with d(1) show thesis by (rule that)
qed

lemma repair_pipeline:
  assumes "m \<in> {ceps_manifest, drifted_manifest}" and "map_records sample_env m [repair_record] sample_ctx = Inr res"
    and "mr_observations res \<in> {repair_rows, drifted_rows}"
  shows "\<exists>out. run_pipeline (with_manifest repair_rt m) repair_entry [] 1774738800000000 = Inr out \<and> po_quarantine out = None
    \<and> po_observations out = mr_observations res"
proof -
  obtain d where d: "derivation_for (with_manifest repair_rt m) = Inr d"
    "fixture_context (with_manifest repair_rt m) repair_entry d 1774738800000000 = sample_ctx"
    by (rule repair_context [OF assms(1)])
  have "map_payload (with_manifest repair_rt m) [] sample_ctx = Inr res"
    using repair_parse [OF assms(1)] assms(2)
    by (simp add: map_payload_def source_records_def catchE_def repair_runtime)
  with d assms(3) repair_complete show ?thesis by (auto simp: run_pipeline_def repair_runtime)
qed

lemma repair_missing: "missing_sources ceps_manifest (sa_fields repair_sample) = []"
  "missing_sources drifted_manifest (sa_fields repair_sample) = [Missing_metric ''load_incl_pumping'' ''@value9'']"
  by code_simp+

lemma repair_detect:
  assumes "m \<in> {ceps_manifest, drifted_manifest}"
  shows "\<exists>d. detect (with_manifest repair_rt m) repair_entry [] repair_sample 1774738800000000 = Inr d
     \<and> dr_quarantine d = None \<and> dr_missing_sources d = missing_sources m (sa_fields repair_sample)"
proof -
  have "\<exists>res. map_records sample_env m [repair_record] sample_ctx = Inr res \<and> mr_observations res \<in> {repair_rows, drifted_rows}"
    using assms repair_maps drifted_maps by (cases "map_records sample_env drifted_manifest [repair_record] sample_ctx") auto
  then obtain out where "run_pipeline (with_manifest repair_rt m) repair_entry [] 1774738800000000 = Inr out" "po_quarantine out = None"
    using repair_pipeline [OF assms] by blast
  then show ?thesis by (simp add: detect_def drift_of_def repair_runtime truthy_def repair_sample_def)
qed

definition repair_ops :: "op list" where
  "repair_ops = [[(''op'', ''rename_source''), (''metric'', ''load_incl_pumping''), (''to'', ''@value1'')]]"

lemma repair_answered: "parse_answer (tb_loads repair_backend) [] = Inr (repair_ops, ''renamed'')"
  by code_simp

lemma repair_asked: "tb_complete repair_backend x = Some []"
  by (simp add: repair_backend_def)

lemma repair_constrained: "constrain repair_ops drifted_manifest repair_sample = Inr ()"
  by code_simp

theorem proposal_confined_witness:
  "\<exists>r. triage repair_yaml repair_backend repair_rt (mapping_text ''@value9'') repair_entry [] 1774738800000000 = Inr r
     \<and> tr_status r = Proposed \<and> (\<exists>after. tr_patch r = Some (mapping_text ''@value9'', mapping_text ''@value1'', after))
     \<and> confined drifted_manifest ceps_manifest"
proof -
  let ?t = "triage repair_yaml repair_backend repair_rt (mapping_text ''@value9'') repair_entry [] 1774738800000000"
  obtain d where d: "detect (with_manifest repair_rt drifted_manifest) repair_entry [] repair_sample 1774738800000000 = Inr d"
    "dr_missing_sources d \<noteq> []" using repair_detect [of drifted_manifest] repair_missing by auto
  obtain d' where d': "detect (with_manifest repair_rt ceps_manifest) repair_entry [] repair_sample 1774738800000000 = Inr d'"
    "dr_quarantine d' = None" "dr_missing_sources d' = []" using repair_detect [of ceps_manifest] repair_missing by auto
  obtain v where v: "validate_manifest ceps_manifest = Inr v" "vr_status v = Vs_ok"
    using ceps_manifest_admitted by (cases "validate_manifest ceps_manifest") auto
  have p: "patch repair_yaml repair_rt (mapping_text ''@value9'') repair_entry [] 1774738800000000 drifted_manifest repair_sample repair_ops
      = Inr (mapping_text ''@value1'', d')"
    using v d' repair_extract [of ceps_manifest]
    by (simp add: patch_def repair_constrained repair_edit [folded repair_ops_def] repair_parses repair_guard raised_def truthy_def)
  obtain r where r: "?t = Inr r" "tr_status r = Proposed" "tr_patch r = Some (mapping_text ''@value9'', mapping_text ''@value1'', d')"
    using d repair_extract [of drifted_manifest] p repair_answered
    by (simp add: triage_def propose_def repair_parses raised_def drifted_def triage_result_of_def repair_ops_def repair_asked Let_def)
  have "confined drifted_manifest ceps_manifest"
    using proposal_confined [OF r(1,2)] r(3) repair_parses by auto
  with r show ?thesis by blast
qed

end
