(* ===== verification/Surface.thy ===== *)
theory Surface
  imports Goldens
begin

text \<open>
  The capability boundary of a target (src/energy_platform/harness/surface.py): which files a target may
  hold, what its texts and its parser may contain, and what makes it complete. Problems are values where
  the program has texts. A target is its files with their texts; parsing Python, YAML and the loading of
  fixtures are arguments.
\<close>

subsection \<open>Python syntax\<close>

text \<open>The nodes of \<open>ast\<close> with the attributes the rules read; operators and contexts are attributes, not nodes.
  The children are those of \<open>iter_child_nodes\<close>: a subscript has its value and its slice, a unary operation its
  operand, a call its function, its arguments and its keywords.\<close>
datatype py_kind =
    K_import "string list"
  | K_import_from nat "string option"
  | K_int | K_bool | K_constant
  | K_minus | K_binop string | K_subscript
  | K_name string | K_attribute string | K_call | K_keyword "string option"
  | K_function string | K_async_function string | K_class
  | K_other

datatype py_node = Py_node (nd_kind: py_kind) (nd_line: nat) (nd_children: "py_node list")

fun node_count :: "py_node \<Rightarrow> nat" where
  "node_count (Py_node k l cs) = Suc (sum_list (map node_count cs))"

text \<open>\<open>ast.walk\<close>: breadth first.\<close>
function walk_queue :: "py_node list \<Rightarrow> py_node list" where
  "walk_queue [] = []"
| "walk_queue (n # q) = n # walk_queue (q @ nd_children n)"
  by pat_completeness auto
termination
proof (relation "measure (\<lambda>q. sum_list (map node_count q))", goal_cases)
  case (2 n q)
  then show ?case by (cases n) simp
qed simp

definition ast_walk :: "py_node \<Rightarrow> py_node list" where
  "ast_walk tree = walk_queue [tree]"

inductive below :: "py_node \<Rightarrow> py_node \<Rightarrow> bool" where
  below_refl: "below n n"
| below_child: "below m c \<Longrightarrow> c \<in> set (nd_children n) \<Longrightarrow> below m n"

inductive_cases belowE: "below m n"

text \<open>The walk reaches every node.\<close>
lemma walk_queue_nodes: "set (walk_queue q) = {m. \<exists>n \<in> set q. below m n}"
proof (induction q rule: walk_queue.induct)
  case (2 n q)
  have "{m. \<exists>x \<in> set (n # q). below m x} = insert n {m. \<exists>x \<in> set (q @ nd_children n). below m x}"
    by (auto intro: below.intros elim: belowE)
  with 2 show ?case by simp
qed simp

lemma ast_walk_nodes: "set (ast_walk tree) = {m. below m tree}"
  using walk_queue_nodes [of "[tree]"] by (simp add: ast_walk_def del: walk_queue.simps)

subsection \<open>Rules for a parser\<close>

definition PARSER_STDLIB :: "string list" where
  "PARSER_STDLIB = [''decimal'', ''datetime'', ''zoneinfo'', ''re'', ''typing'', ''dataclasses'', ''collections'', ''collections.abc'',
     ''enum'', ''itertools'', ''functools'', ''math'', ''fractions'']"

definition PARSER_PLATFORM_PREFIX :: string where
  "PARSER_PLATFORM_PREFIX = ''energy_platform.contracts''"

text \<open>The names of \<open>contracts.__all__\<close> that can be called and are no classes: its functions and its
  \<open>Literal\<close> types.\<close>
definition PLATFORM_UTILITIES :: "string list" where
  "PLATFORM_UTILITIES = [''DecodeKind'', ''Modality'', ''Separator'', ''Sign'', ''SignRule'', ''Transport'', ''ValidationStatus'', ''IntervalLabel'',
     ''apply_sign'', ''dataset'', ''derivation_id'', ''host'', ''interval_for_index'', ''interval_from_timestamp'', ''load_manifest'',
     ''local_day_intervals'', ''observation_identity'', ''parse_decimal'', ''parse_duration'', ''validate_manifest'', ''version_identity'']"

definition NORMALISE_BINOPS :: "(string, string) dict" where
  "NORMALISE_BINOPS = [(''Mult'', ''multiplication''), (''Div'', ''division''), (''FloorDiv'', ''floor division''), (''Pow'', ''power'')]"

datatype parser_problem =
    Relative_import nat
  | Import_refused nat string
  | Positional_access nat
  | Normalise nat string
  | Duplicated_utility nat string
  | Not_one_parser nat
  | Syntax_error

definition import_ok :: "string \<Rightarrow> bool" where
  "import_ok name \<longleftrightarrow> name \<in> set PARSER_STDLIB \<or> starts_with PARSER_PLATFORM_PREFIX name"

definition imported :: "py_node \<Rightarrow> string list" where
  "imported n = (case nd_kind n of
       K_import names \<Rightarrow> names
     | K_import_from level m \<Rightarrow> if level \<noteq> 0 then [] else [case m of None \<Rightarrow> [] | Some s \<Rightarrow> s]
     | _ \<Rightarrow> [])"

definition import_problems :: "py_node \<Rightarrow> parser_problem list" where
  "import_problems n =
     (case nd_kind n of K_import_from level m \<Rightarrow> if level \<noteq> 0 then [Relative_import (nd_line n)] else [] | _ \<Rightarrow> [])
     @ map (Import_refused (nd_line n)) (filter (\<lambda>name. \<not> import_ok name) (imported n))"

definition parser_imports :: "py_node \<Rightarrow> parser_problem list" where
  "parser_imports tree = concat (map import_problems (ast_walk tree))"

definition is_int_literal :: "py_node \<Rightarrow> bool" where
  "is_int_literal n \<longleftrightarrow> nd_kind n = K_int
     \<or> nd_kind n = K_minus \<and> (case nd_children n of c # _ \<Rightarrow> nd_kind c \<in> {K_int, K_bool} | [] \<Rightarrow> False)"

definition call_name :: "py_node \<Rightarrow> string option" where
  "call_name n = (case nd_children n of [] \<Rightarrow> None
     | f # _ \<Rightarrow> (case nd_kind f of K_name s \<Rightarrow> Some s | K_attribute s \<Rightarrow> Some s | _ \<Rightarrow> None))"

definition has_tzinfo :: "py_node \<Rightarrow> bool" where
  "has_tzinfo n \<longleftrightarrow> list_ex (\<lambda>c. nd_kind c = K_keyword (Some ''tzinfo'')) (nd_children n)"

definition node_problems :: "py_node \<Rightarrow> parser_problem list" where
  "node_problems n = (let l = nd_line n in case nd_kind n of
       K_subscript \<Rightarrow> (case nd_children n of _ # s # _ \<Rightarrow> if is_int_literal s then [Positional_access l] else [] | _ \<Rightarrow> [])
     | K_binop b \<Rightarrow> (case dget NORMALISE_BINOPS b of Some what \<Rightarrow> [Normalise l what] | None \<Rightarrow> [])
     | K_minus \<Rightarrow> (case nd_children n of
           c # _ \<Rightarrow> if nd_kind c \<in> {K_int, K_bool, K_constant} then [] else [Normalise l ''sign flip'']
         | [] \<Rightarrow> [])
     | K_call \<Rightarrow> if call_name n = Some ''astimezone'' \<or> has_tzinfo n then [Normalise l ''timezone conversion'']
         else if call_name n = Some ''timedelta'' then [Normalise l ''interval arithmetic''] else []
     | K_function f \<Rightarrow> if f \<in> set PLATFORM_UTILITIES then [Duplicated_utility l f] else []
     | K_async_function f \<Rightarrow> if f \<in> set PLATFORM_UTILITIES then [Duplicated_utility l f] else []
     | _ \<Rightarrow> [])"

text \<open>The classes of the module with a \<open>parse\<close> method.\<close>
definition parser_classes :: "py_node \<Rightarrow> py_node list" where
  "parser_classes tree = filter (\<lambda>n. nd_kind n = K_class \<and> list_ex (\<lambda>c. nd_kind c = K_function ''parse'') (nd_children n))
     (nd_children tree)"

definition parser_ast :: "py_node \<Rightarrow> parser_problem list" where
  "parser_ast tree = concat (map node_problems (ast_walk tree))
     @ (let n = length (parser_classes tree) in if n \<noteq> 1 then [Not_one_parser n] else [])"

text \<open>\<open>ast.parse\<close> is an argument; none is its \<open>SyntaxError\<close>.\<close>
definition check_parser :: "(string \<Rightarrow> py_node option) \<Rightarrow> string \<Rightarrow> parser_problem list" where
  "check_parser parse t = (case parse t of
       None \<Rightarrow> [Syntax_error]
     | Some tree \<Rightarrow> parser_imports tree @ parser_ast tree)"

subsection \<open>Texts\<close>

definition line_end :: "char \<Rightarrow> bool" where
  "line_end c \<longleftrightarrow> (of_char c :: nat) \<in> {10, 11, 12, 13, 28, 29, 30, 133}"

text \<open>\<open>str.splitlines\<close>\<close>
fun lines_from :: "string \<Rightarrow> string \<Rightarrow> string list" where
  "lines_from cur [] = (if cur = [] then [] else [rev cur])"
| "lines_from cur [c] = (if line_end c then [rev cur] else [rev (c # cur)])"
| "lines_from cur (c # d # s) =
     (if c = CHR 0x0D \<and> d = CHR 0x0A then rev cur # lines_from [] s
      else if line_end c then rev cur # lines_from [] (d # s) else lines_from (c # cur) (d # s))"

definition splitlines :: "string \<Rightarrow> string list" where
  "splitlines t = lines_from [] t"

definition FORBIDDEN_TOKENS :: "(string, rx) dict" where
  "FORBIDDEN_TOKENS =
    [(''lint suppression'', rx_seq [rx_lit ''#'', Run cls_space 0, rx_lit ''noqa'']),
     (''type suppression'', rx_seq [rx_lit ''#'', Run cls_space 0, rx_lit ''type:'', Run cls_space 0, rx_lit ''ignore'']),
     (''coverage/pragma suppression'', rx_seq [rx_lit ''#'', Run cls_space 0, rx_lit ''pragma'']),
     (''test skip'', rx_alt [rx_seq [rx_lit ''pytest.mark.'', rx_alt [rx_lit ''skip'', rx_lit ''xfail'']],
        rx_lit ''pytest.importorskip'', rx_lit ''pytest.skip('']),
     (''dynamic import'', rx_alt [rx_lit ''__import__'', rx_lit ''importlib'']),
     (''code execution'', rx_seq [Word_edge, rx_alt [rx_lit ''exec'', rx_lit ''eval''], rx_lit ''('']),
     (''file access'', rx_seq [Word_edge, rx_lit ''open('']),
     (''builtins access'', rx_lit ''__builtins__''),
     (''hardcoded URL (fetch lives in the manifest)'', rx_seq [rx_lit ''http'', rx_opt (rx_lit ''s''), rx_lit ''://'']),
     (''float() on a raw value (use Decimal, 01 '' @ CHR 0xA7 # ''9)'', rx_seq [Word_edge, rx_lit ''float('']),
     (''unbounded loop'', rx_seq [Word_edge, rx_lit ''while'', Run cls_space 1, rx_alt [rx_lit ''True'', rx_lit ''1''], Word_edge])]"

definition PLACEHOLDER :: rx where
  "PLACEHOLDER = rx_seq [Word_edge, rx_alt (map rx_lit [''REPLACE_ME'', ''replace-me'', ''TODO'', ''FIXME'']), Word_edge]"

subsection \<open>Files\<close>

type_synonym path = "string list"

text \<open>A target: its name, its files in the order of their paths, and the directories under \<open>fixtures\<close>.\<close>
record target_dir =
  td_name :: string
  td_files :: "(path, string) dict"
  td_fixtures :: "string list"

definition ALLOWED_TOP_FILES :: "string list" where
  "ALLOWED_TOP_FILES = [''__init__.py'', ''manifest.yaml'', ''parser.py'', ''README.md'']"

definition FIXTURE_FILES :: "string list" where
  "FIXTURE_FILES = [''entry.json'', ''blob'']"

definition ends_with :: "string \<Rightarrow> string \<Rightarrow> bool" where
  "ends_with suffix s \<longleftrightarrow> length suffix \<le> length s \<and> drop (length s - length suffix) s = suffix"

definition test_file :: "string \<Rightarrow> bool" where
  "test_file name = (let s = before_end name; middle = drop 5 (take (length s - 3) s) in
     take 5 s = ''test_'' \<and> ends_with ''.py'' s \<and> middle \<noteq> [] \<and> list_all (\<lambda>c. lower_or_digit c \<or> c = CHR ''_'') middle)"

definition golden_file_name :: "string \<Rightarrow> bool" where
  "golden_file_name name = (let s = before_end name in
     list_ex (\<lambda>suffix. ends_with suffix s \<and> length suffix < length s
       \<and> list_all (\<lambda>c. lower_or_digit c \<or> c \<in> set ''_.-'') (take (length s - length suffix) s)) [''.yaml'', ''.yml''])"

definition classify_file :: "path \<Rightarrow> string option" where
  "classify_file p = (case p of
       [name] \<Rightarrow> if name \<in> set ALLOWED_TOP_FILES then None else Some ''file outside the target surface''
     | d # rest \<Rightarrow>
         if d = ''fixtures'' then (case rest of
             [n, f] \<Rightarrow> if f \<in> set FIXTURE_FILES then None else Some ''file outside the target surface (a fixture is fixtures/<name>/{entry.json,blob})''
           | _ \<Rightarrow> Some ''file outside the target surface (a fixture is fixtures/<name>/{entry.json,blob})'')
         else if d = ''tests'' then (case rest of
             [name] \<Rightarrow> if name = ''__init__.py'' \<or> test_file name then None
               else if name = ''conftest.py'' then Some ''conftest.py is not allowed in a target'' else Some ''file outside the target surface''
           | [g, name] \<Rightarrow> if g = ''golden'' \<and> golden_file_name name then None else Some ''file outside the target surface''
           | _ \<Rightarrow> Some ''file outside the target surface'')
         else Some ''file outside the target surface''
     | [] \<Rightarrow> Some ''file outside the target surface'')"

text \<open>\<open>path.suffix == ".py"\<close>\<close>
definition py_suffix :: "string \<Rightarrow> bool" where
  "py_suffix name \<longleftrightarrow> ends_with ''.py'' name \<and> 3 < length name"

definition placeholder_file :: "path \<Rightarrow> bool" where
  "placeholder_file p \<longleftrightarrow> p = [''manifest.yaml''] \<or> p = [''parser.py''] \<or> 2 \<le> length p \<and> hd p = ''tests''"

datatype surface_problem =
    Bad_target_id
  | Manifest_missing
  | Manifest_not_yaml
  | Wrong_target_id "string option"
  | Outside_surface path string
  | Init_not_empty path
  | Forbidden_token path nat string
  | Placeholder_left path nat
  | In_parser path parser_problem
  | Missing_init path
  | No_fixture
  | Not_a_fixture string
  | No_golden
  | Bad_golden path
  | Golden_without_fixture path string
  | No_test_module

text \<open>The libraries: \<open>ast.parse\<close>; the \<open>target_id\<close> of a YAML text (none for a text that is no YAML, and no name
  when it declares no text); whether a fixture directory loads; the golden a YAML text declares.\<close>
record surface_lib =
  sl_parse :: "string \<Rightarrow> py_node option"
  sl_target_id :: "string \<Rightarrow> string option option"
  sl_fixture :: "string \<Rightarrow> bool"
  sl_golden :: "string \<Rightarrow> golden_file option"

definition check_tokens :: "path \<Rightarrow> string \<Rightarrow> surface_problem list" where
  "check_tokens p t = concat (map (\<lambda>(i, line). map (\<lambda>(reason, pat). Forbidden_token p i reason)
     (filter (\<lambda>(reason, pat). rx_search pat line) FORBIDDEN_TOKENS)) (enumerate 1 (splitlines t)))"

definition check_placeholders :: "path \<Rightarrow> string \<Rightarrow> surface_problem list" where
  "check_placeholders p t = (if \<not> placeholder_file p then []
     else map (\<lambda>(i, line). Placeholder_left p i) (filter (\<lambda>(i, line). rx_search PLACEHOLDER line) (enumerate 1 (splitlines t))))"

definition manifest_target_id :: "surface_lib \<Rightarrow> target_dir \<Rightarrow> surface_problem list" where
  "manifest_target_id lib td = (case dget (td_files td) [''manifest.yaml''] of
       None \<Rightarrow> [Manifest_missing]
     | Some t \<Rightarrow> (case sl_target_id lib t of
           None \<Rightarrow> [Manifest_not_yaml]
         | Some declared \<Rightarrow> if declared \<noteq> Some (td_name td) then [Wrong_target_id declared] else []))"

subsection \<open>Completeness\<close>

definition fixture_names :: "target_dir \<Rightarrow> string list" where
  "fixture_names td = sort (td_fixtures td)"

definition golden_paths :: "target_dir \<Rightarrow> (path \<times> string) list" where
  "golden_paths td = filter (\<lambda>(p, t). case p of [a, b, name] \<Rightarrow> a = ''tests'' \<and> b = ''golden'' \<and> golden_file_name name | _ \<Rightarrow> False) (td_files td)"

definition golden_problems :: "surface_lib \<Rightarrow> string list \<Rightarrow> path \<times> string \<Rightarrow> surface_problem list" where
  "golden_problems lib fixtures pt = (case pt of (p, t) \<Rightarrow>
     (case sl_golden lib t of
        None \<Rightarrow> [Bad_golden p]
      | Some g \<Rightarrow> (case mk_golden g of
            Inl e \<Rightarrow> [Bad_golden p]
          | Inr g' \<Rightarrow> if gf_fixture g' \<notin> set fixtures then [Golden_without_fixture p (gf_fixture g')] else [])))"

definition has_test_module :: "target_dir \<Rightarrow> bool" where
  "has_test_module td = list_ex (\<lambda>(p, t). case p of [a, name] \<Rightarrow> a = ''tests'' \<and> test_file name | _ \<Rightarrow> False) (td_files td)"

definition completeness :: "surface_lib \<Rightarrow> target_dir \<Rightarrow> surface_problem list" where
  "completeness lib td =
     (if dget (td_files td) [''manifest.yaml''] = None then [Manifest_missing] else [])
     @ map Missing_init (filter (\<lambda>p. dget (td_files td) p = None) [[''__init__.py''], [''tests'', ''__init__.py'']])
     @ (if fixture_names td = [] then [No_fixture] else [])
     @ map Not_a_fixture (filter (\<lambda>n. \<not> sl_fixture lib n) (fixture_names td))
     @ (if golden_paths td = [] then [No_golden] else [])
     @ concat (map (golden_problems lib (fixture_names td)) (golden_paths td))
     @ (if has_test_module td then [] else [No_test_module])"

subsection \<open>Entry points\<close>

definition file_problems :: "surface_lib \<Rightarrow> path \<times> string \<Rightarrow> surface_problem list" where
  "file_problems lib pt = (case pt of (p, t) \<Rightarrow>
     if ''__pycache__'' \<in> set p then []
     else case classify_file p of
       Some reason \<Rightarrow> [Outside_surface p reason]
     | None \<Rightarrow> (if last p = ''__init__.py'' \<and> strip t \<noteq> [] then [Init_not_empty p] else [])
         @ (if py_suffix (last p) then check_tokens p t else [])
         @ check_placeholders p t
         @ (if last p = ''parser.py'' then map (In_parser p) (check_parser (sl_parse lib) t) else []))"

text \<open>\<open>TARGET_ID.match\<close>: one final newline passes \<open>$\<close>.\<close>
definition target_name_ok :: "string \<Rightarrow> bool" where
  "target_name_ok name \<longleftrightarrow> target_id_ok (before_end name)"

definition check_target :: "surface_lib \<Rightarrow> target_dir \<Rightarrow> surface_problem list" where
  "check_target lib td = (if target_name_ok (td_name td) then [] else [Bad_target_id]) @ manifest_target_id lib td
     @ concat (map (file_problems lib) (td_files td)) @ completeness lib td"

definition unloadable_parser :: "target_dir \<Rightarrow> bool" where
  "unloadable_parser td \<longleftrightarrow> dget (td_files td) [''parser.py''] \<noteq> None"

text \<open>The entries of the root directory: targets, and files by name.\<close>
datatype root_entry = Target_entry target_dir | File_entry string

datatype root_problem = In_target string surface_problem | Not_a_target string

definition entry_problems :: "surface_lib \<Rightarrow> root_entry \<Rightarrow> root_problem list" where
  "entry_problems lib x = (case x of
       Target_entry td \<Rightarrow> if td_name td \<in> {''__init__.py'', ''__pycache__''} then [] else map (In_target (td_name td)) (check_target lib td)
     | File_entry n \<Rightarrow> if n \<in> {''__init__.py'', ''__pycache__''} then [] else [Not_a_target n])"

definition check_root :: "surface_lib \<Rightarrow> root_entry list \<Rightarrow> root_problem list" where
  "check_root lib xs = concat (map (entry_problems lib) xs)"

definition target_dirs :: "root_entry list \<Rightarrow> target_dir list" where
  "target_dirs xs = List.map_filter (\<lambda>x. case x of Target_entry td \<Rightarrow> if td_name td = ''__pycache__'' then None else Some td | _ \<Rightarrow> None) xs"

definition incomplete_targets :: "surface_lib \<Rightarrow> root_entry list \<Rightarrow> root_problem list" where
  "incomplete_targets lib xs = concat (map (\<lambda>td. map (In_target (td_name td)) (completeness lib td)) (target_dirs xs))"

definition report_code :: "surface_lib \<Rightarrow> root_entry list \<Rightarrow> nat" where
  "report_code lib xs = (if check_root lib xs \<noteq> [] then 1 else 0)"

subsection \<open>What an accepted target is\<close>

lemma ends_withE: "ends_with suffix s \<Longrightarrow> \<exists>u. s = u @ suffix"
  unfolding ends_with_def by (metis append_take_drop_id)

text \<open>The surface of a target: four files at the top, two files per fixture, test modules, goldens.\<close>
inductive in_surface :: "path \<Rightarrow> bool" where
  top: "name \<in> {''__init__.py'', ''manifest.yaml'', ''parser.py'', ''README.md''} \<Longrightarrow> in_surface [name]"
| fixture: "f \<in> {''entry.json'', ''blob''} \<Longrightarrow> in_surface [''fixtures'', n, f]"
| test_init: "in_surface [''tests'', ''__init__.py'']"
| test: "test_file name \<Longrightarrow> in_surface [''tests'', name]"
| golden: "golden_file_name name \<Longrightarrow> in_surface [''tests'', ''golden'', name]"

lemma classify_file_surface: "classify_file p = None \<Longrightarrow> in_surface p"
  by (auto simp: classify_file_def ALLOWED_TOP_FILES_def FIXTURE_FILES_def split: list.splits if_splits intro: in_surface.intros)

text \<open>What a parser may hold, said of its syntax and not of the rules. The modules that may be imported: thirteen
  of the standard library, and any whose name starts with that of the contracts package.\<close>
definition permitted_module :: "string \<Rightarrow> bool" where
  "permitted_module name \<longleftrightarrow> name \<in> {''decimal'', ''datetime'', ''zoneinfo'', ''re'', ''typing'', ''dataclasses'', ''collections'',
       ''collections.abc'', ''enum'', ''itertools'', ''functools'', ''math'', ''fractions''}
     \<or> (\<exists>rest. name = ''energy_platform.contracts'' @ rest)"

text \<open>An import is absolute and names permitted modules only.\<close>
definition imports_confined :: "py_node \<Rightarrow> bool" where
  "imports_confined n \<longleftrightarrow> (case nd_kind n of
       K_import names \<Rightarrow> list_all permitted_module names
     | K_import_from level m \<Rightarrow> level = 0 \<and> (\<exists>name. m = Some name \<and> permitted_module name)
     | _ \<Rightarrow> True)"

text \<open>No binary operator is one of the four; only a literal is negated; no index is an integer literal, negated or
  not; nothing called \<open>astimezone\<close> or \<open>timedelta\<close> is called, and nothing with the keyword \<open>tzinfo\<close>; no function
  has the name of one of the platform's.\<close>
definition normalises_nothing :: "py_node \<Rightarrow> bool" where
  "normalises_nothing n \<longleftrightarrow>
     (\<forall>b. nd_kind n = K_binop b \<longrightarrow> b \<notin> {''Mult'', ''Div'', ''FloorDiv'', ''Pow''})
     \<and> (\<forall>c rest. nd_kind n = K_minus \<and> nd_children n = c # rest \<longrightarrow> nd_kind c \<in> {K_int, K_bool, K_constant})
     \<and> (\<forall>v s rest. nd_kind n = K_subscript \<and> nd_children n = v # s # rest \<longrightarrow> nd_kind s \<noteq> K_int
         \<and> (\<forall>c more. nd_kind s = K_minus \<and> nd_children s = c # more \<longrightarrow> nd_kind c \<notin> {K_int, K_bool}))
     \<and> (\<forall>f args. nd_kind n = K_call \<and> nd_children n = f # args \<longrightarrow>
         nd_kind f \<notin> {K_name ''astimezone'', K_attribute ''astimezone'', K_name ''timedelta'', K_attribute ''timedelta''}
         \<and> (\<forall>c \<in> set args. nd_kind c \<noteq> K_keyword (Some ''tzinfo'')))
     \<and> (\<forall>f. nd_kind n = K_function f \<or> nd_kind n = K_async_function f \<longrightarrow> f \<notin> set PLATFORM_UTILITIES)"

definition parser_confined :: "py_node \<Rightarrow> bool" where
  "parser_confined tree \<longleftrightarrow> length (parser_classes tree) = 1
     \<and> (\<forall>n. below n tree \<longrightarrow> imports_confined n \<and> normalises_nothing n)"

lemma import_ok_permitted: "import_ok name \<Longrightarrow> permitted_module name"
proof -
  assume "import_ok name"
  then consider "name \<in> set PARSER_STDLIB" | "starts_with PARSER_PLATFORM_PREFIX name" by (auto simp: import_ok_def)
  then show ?thesis
  proof cases
    case 2
    then have "name = PARSER_PLATFORM_PREFIX @ drop (length PARSER_PLATFORM_PREFIX) name"
      unfolding starts_with_def by (metis append_take_drop_id)
    then show ?thesis unfolding permitted_module_def PARSER_PLATFORM_PREFIX_def by blast
  qed (auto simp: PARSER_STDLIB_def permitted_module_def)
qed

lemma import_problems_none: "import_problems n = [] \<Longrightarrow> imports_confined n"
proof (cases "nd_kind n")
  case (K_import names)
  assume "import_problems n = []"
  with K_import show ?thesis
    by (auto simp: import_problems_def imported_def imports_confined_def filter_empty_conv list_all_iff intro: import_ok_permitted)
next
  case (K_import_from level m)
  assume clean: "import_problems n = []"
  have "\<not> import_ok []" by code_simp
  with clean K_import_from show ?thesis
    by (cases m) (auto simp: import_problems_def imported_def imports_confined_def filter_empty_conv intro: import_ok_permitted
        split: if_splits)
qed (simp_all add: imports_confined_def)

lemma node_problems_none: "node_problems n = [] \<Longrightarrow> normalises_nothing n"
  by (cases n) (auto simp: node_problems_def normalises_nothing_def Let_def NORMALISE_BINOPS_def is_int_literal_def call_name_def
      has_tzinfo_def list_ex_iff split: if_splits)

lemma check_parser_none:
  assumes "check_parser parse t = []"
  shows "\<exists>tree. parse t = Some tree \<and> parser_confined tree"
proof -
  obtain tree where tree: "parse t = Some tree" using assms by (auto simp: check_parser_def split: option.splits)
  with assms have p: "parser_imports tree = []" "parser_ast tree = []" by (auto simp: check_parser_def)
  have "imports_confined n" if "below n tree" for n
    using p(1) that by (auto simp: parser_imports_def ast_walk_nodes intro: import_problems_none)
  moreover have "normalises_nothing n" if "below n tree" for n
    using p(2) that by (auto simp: parser_ast_def ast_walk_nodes intro: node_problems_none)
  moreover have "length (parser_classes tree) = 1" using p(2) by (auto simp: parser_ast_def Let_def split: if_splits)
  ultimately show ?thesis using tree by (auto simp: parser_confined_def)
qed

lemma enumerate_values: "(\<exists>i. (i, x) \<in> set (enumerate n xs)) \<longleftrightarrow> x \<in> set xs"
proof -
  have "x \<in> snd ` set (enumerate n xs) \<longleftrightarrow> x \<in> set xs" by (metis list.set_map map_snd_enumerate)
  then show ?thesis by force
qed

lemma check_tokens_none:
  "check_tokens p t = [] \<Longrightarrow> line \<in> set (splitlines t) \<Longrightarrow> (reason, pat) \<in> set FORBIDDEN_TOKENS \<Longrightarrow> \<not> rx_search pat line"
  using enumerate_values [of line 1 "splitlines t"] by (fastforce simp: check_tokens_def filter_empty_conv)

lemma check_placeholders_none:
  "check_placeholders p t = [] \<Longrightarrow> placeholder_file p \<Longrightarrow> line \<in> set (splitlines t) \<Longrightarrow> \<not> rx_search PLACEHOLDER line"
  using enumerate_values [of line 1 "splitlines t"] by (fastforce simp: check_placeholders_def filter_empty_conv)

text \<open>What holds of a file of an accepted target.\<close>
definition file_confined :: "surface_lib \<Rightarrow> path \<Rightarrow> string \<Rightarrow> bool" where
  "file_confined lib p t \<longleftrightarrow> in_surface p
     \<and> (last p = ''__init__.py'' \<longrightarrow> strip t = [])
     \<and> (py_suffix (last p) \<longrightarrow> (\<forall>line \<in> set (splitlines t). \<forall>(reason, pat) \<in> set FORBIDDEN_TOKENS. \<not> rx_search pat line))
     \<and> (placeholder_file p \<longrightarrow> (\<forall>line \<in> set (splitlines t). \<not> rx_search PLACEHOLDER line))
     \<and> (last p = ''parser.py'' \<longrightarrow> (\<exists>tree. sl_parse lib t = Some tree \<and> parser_confined tree))"

lemma file_problems_none:
  assumes "file_problems lib (p, t) = []" and "''__pycache__'' \<notin> set p"
  shows "file_confined lib p t"
proof -
  from assms have c: "classify_file p = None" by (auto simp: file_problems_def split: option.splits)
  with assms have init: "last p = ''__init__.py'' \<Longrightarrow> strip t = []" and toks: "py_suffix (last p) \<Longrightarrow> check_tokens p t = []"
    and place: "check_placeholders p t = []" and parser: "last p = ''parser.py'' \<Longrightarrow> check_parser (sl_parse lib) t = []"
    by (auto simp: file_problems_def split: if_splits)
  show ?thesis unfolding file_confined_def
    using classify_file_surface [OF c] init check_tokens_none [OF toks] check_placeholders_none [OF place] check_parser_none [OF parser]
    by auto
qed

lemma completeness_none:
  assumes "completeness lib td = []"
  shows "fixture_names td \<noteq> [] \<and> (\<forall>f \<in> set (fixture_names td). sl_fixture lib f) \<and> golden_paths td \<noteq> [] \<and> has_test_module td"
    and "(p, t) \<in> set (golden_paths td) \<Longrightarrow> \<exists>g g'. sl_golden lib t = Some g \<and> mk_golden g = Inr g' \<and> gf_fixture g' \<in> set (fixture_names td)"
proof -
  show "fixture_names td \<noteq> [] \<and> (\<forall>f \<in> set (fixture_names td). sl_fixture lib f) \<and> golden_paths td \<noteq> [] \<and> has_test_module td"
    using assms by (auto simp: completeness_def filter_empty_conv split: if_splits)
  assume "(p, t) \<in> set (golden_paths td)"
  with assms have "golden_problems lib (fixture_names td) (p, t) = []" by (auto simp: completeness_def)
  then show "\<exists>g g'. sl_golden lib t = Some g \<and> mk_golden g = Inr g' \<and> gf_fixture g' \<in> set (fixture_names td)"
    by (auto simp: golden_problems_def split: option.splits sum.splits if_splits)
qed

text \<open>C36. A target without problems stays inside its capability boundary. Its manifest declares the name of
  its directory. Every file outside a bytecode cache is one of the surface; an \<open>__init__.py\<close> is blank; no line of a
  Python file holds one of the forbidden tokens, and no line of the manifest, the parser or a test is a placeholder.
  The parser is Python; wherever they stand in its tree, its imports are absolute and name pure-data modules of the
  standard library or modules whose name starts with that of the contracts package; it multiplies, divides and
  raises to a power in no binary operation, negates only literals, indexes by no integer literal, converts no time zone,
  builds no time delta and defines no function with the name of one of the platform's; and it has exactly one parser
  class. The target has a fixture, all of whose fixtures load, a golden, all of whose goldens name one of them,
  and a test module. The rules leave \<open>+\<close>, binary \<open>-\<close>, \<open>%\<close> and augmented assignments of every operator to the parser.\<close>
theorem accepted_target_confined:
  assumes "check_target lib td = []"
  shows "target_name_ok (td_name td)
    \<and> (\<exists>t. dget (td_files td) [''manifest.yaml''] = Some t \<and> sl_target_id lib t = Some (Some (td_name td)))
    \<and> (\<forall>(p, t) \<in> set (td_files td). ''__pycache__'' \<notin> set p \<longrightarrow> file_confined lib p t)
    \<and> fixture_names td \<noteq> [] \<and> (\<forall>f \<in> set (fixture_names td). sl_fixture lib f)
    \<and> golden_paths td \<noteq> [] \<and> (\<forall>(p, t) \<in> set (golden_paths td). \<exists>g g'. sl_golden lib t = Some g \<and> mk_golden g = Inr g'
        \<and> gf_fixture g' \<in> set (fixture_names td))
    \<and> has_test_module td"
proof -
  from assms have parts: "target_name_ok (td_name td)" "manifest_target_id lib td = []" "completeness lib td = []"
    and files: "\<forall>pt \<in> set (td_files td). file_problems lib pt = []"
    by (auto simp: check_target_def split: if_splits)
  have "\<exists>t. dget (td_files td) [''manifest.yaml''] = Some t \<and> sl_target_id lib t = Some (Some (td_name td))"
    using parts(2) by (auto simp: manifest_target_id_def split: option.splits if_splits)
  with parts(1) files completeness_none [OF parts(3)] file_problems_none show ?thesis by auto
qed

lemma accepted_target_surface:
  assumes "check_target lib td = []"
  shows "target_name_ok (td_name td)" and "\<forall>(p, t) \<in> set (td_files td). ''__pycache__'' \<notin> set p \<longrightarrow> in_surface p"
proof -
  show "target_name_ok (td_name td)" using assms by (auto simp: check_target_def split: if_splits)
  have "in_surface p" if "(p, t) \<in> set (td_files td)" "''__pycache__'' \<notin> set p" for p t
  proof -
    have "file_problems lib (p, t) = []" using assms that(1) by (auto simp: check_target_def)
    with that(2) show ?thesis by (auto simp: file_problems_def intro: classify_file_surface split: option.splits)
  qed
  then show "\<forall>(p, t) \<in> set (td_files td). ''__pycache__'' \<notin> set p \<longrightarrow> in_surface p" by blast
qed

text \<open>The prefix test of an import also admits a module beside the contracts package.\<close>
lemma import_prefix_is_loose: "import_ok ''energy_platform.contracts_extra''"
  by code_simp

subsection \<open>An accepted target\<close>

definition demo_tree :: py_node where
  "demo_tree = Py_node K_other 0 [Py_node (K_import_from 0 (Some ''energy_platform.contracts'')) 1 [],
     Py_node K_class 2 [Py_node (K_function ''parse'') 3 [Py_node (K_import [''re'']) 4 []]]]"

definition demo_golden :: golden_file where
  "demo_golden = \<lparr>gf_fixture = ''day'', gf_checked_by = ''J. N.'', gf_note = None,
     gf_expect = \<lparr>ex_rows = [], ex_quarantine = None, ex_row_count = Some 0, ex_quality_events = None\<rparr>\<rparr>"

definition demo_lib :: surface_lib where
  "demo_lib = \<lparr>sl_parse = (\<lambda>_. Some demo_tree), sl_target_id = (\<lambda>_. Some (Some ''ceps_load'')), sl_fixture = (\<lambda>_. True),
     sl_golden = (\<lambda>_. Some demo_golden)\<rparr>"

definition demo_target :: target_dir where
  "demo_target = \<lparr>td_name = ''ceps_load'',
     td_files = [([''__init__.py''], []), ([''fixtures'', ''day'', ''blob''], ''x''), ([''manifest.yaml''], ''target_id: ceps_load''),
       ([''parser.py''], ''import re''), ([''tests'', ''__init__.py''], []), ([''tests'', ''golden'', ''day.yaml''], ''fixture: day''),
       ([''tests'', ''test_map.py''], ''import x'')],
     td_fixtures = [''day'']\<rparr>"

lemma demo_target_accepted: "check_target demo_lib demo_target = []"
  by code_simp

theorem accepted_target_confined_witness:
  "in_surface [''tests'', ''golden'', ''day.yaml''] \<and> (\<exists>tree. sl_parse demo_lib ''import re'' = Some tree \<and> parser_confined tree)"
proof -
  have f: "([''tests'', ''golden'', ''day.yaml''], ''fixture: day'') \<in> set (td_files demo_target)"
    "([''parser.py''], ''import re'') \<in> set (td_files demo_target)" by (simp_all add: demo_target_def)
  from accepted_target_confined [OF demo_target_accepted]
  have all: "\<forall>(p, t) \<in> set (td_files demo_target). ''__pycache__'' \<notin> set p \<longrightarrow> file_confined demo_lib p t" by blast
  from bspec [OF all f(1)] bspec [OF all f(2)] show ?thesis by (simp add: file_confined_def)
qed

end
