(* ===== verification/Base64.thy ===== *)
theory Base64
  imports Bronze
begin

text \<open>
  \<open>base64.b64encode\<close> and \<open>base64.b64decode\<close> with \<open>validate=True\<close>, and that decoding what was encoded gives the
  bytes back.
\<close>

definition b64_alphabet :: string where
  "b64_alphabet = ''ABCDEFGHIJKLMNOPQRSTUVWXYZabcdefghijklmnopqrstuvwxyz0123456789+/''"

definition b64_digit :: "nat \<Rightarrow> char" where
  "b64_digit n = b64_alphabet ! n"

definition b64_value :: "char \<Rightarrow> nat option" where
  "b64_value c = find (\<lambda>n. b64_alphabet ! n = c) [0..<64]"

text \<open>\<open>base64.b64encode\<close>\<close>
fun b64encode :: "bytes \<Rightarrow> string" where
  "b64encode [] = []"
| "b64encode [a] = (let x = unat a in [b64_digit (x div 4), b64_digit (x mod 4 * 16), CHR ''='', CHR ''=''])"
| "b64encode [a, b] = (let x = unat a; y = unat b in
     [b64_digit (x div 4), b64_digit (x mod 4 * 16 + y div 16), b64_digit (y mod 16 * 4), CHR ''=''])"
| "b64encode (a # b # c # s) = (let x = unat a; y = unat b; z = unat c in
     b64_digit (x div 4) # b64_digit (x mod 4 * 16 + y div 16) # b64_digit (y mod 16 * 4 + z div 64) # b64_digit (z mod 64)
     # b64encode s)"

definition b64_one :: "nat \<Rightarrow> nat \<Rightarrow> 8 word" where
  "b64_one p q = word_of_nat (p * 4 + q div 16)"

definition b64_two :: "nat \<Rightarrow> nat \<Rightarrow> 8 word" where
  "b64_two q r = word_of_nat (q mod 16 * 16 + r div 4)"

definition b64_three :: "nat \<Rightarrow> nat \<Rightarrow> 8 word" where
  "b64_three r t = word_of_nat (r mod 4 * 64 + t)"

text \<open>\<open>base64.b64decode(text, validate=True)\<close>; none is its exception.\<close>
fun b64decode :: "string \<Rightarrow> bytes option" where
  "b64decode [] = Some []"
| "b64decode (a # b # c # d # s) = (case (b64_value a, b64_value b) of
       (Some p, Some q) \<Rightarrow>
         if c = CHR ''='' \<and> d = CHR ''='' \<and> s = [] then Some [b64_one p q]
         else (case b64_value c of
             None \<Rightarrow> None
           | Some r \<Rightarrow> if d = CHR ''='' \<and> s = [] then Some [b64_one p q, b64_two q r]
               else (case b64_value d of
                   None \<Rightarrow> None
                 | Some t \<Rightarrow> map_option (\<lambda>rest. b64_one p q # b64_two q r # b64_three r t # rest) (b64decode s)))
     | _ \<Rightarrow> None)"
| "b64decode s = None"

lemma b64_digits: "list_all (\<lambda>n. b64_value (b64_digit n) = Some n \<and> b64_digit n \<noteq> CHR ''='') [0..<64]"
  by code_simp

lemma b64_digit_value [simp]:
  assumes "n < 64"
  shows "b64_value (b64_digit n) = Some n" and "b64_digit n \<noteq> CHR ''=''"
  using b64_digits assms by (auto simp: list_all_iff)

lemma byte_bound: "unat (x :: 8 word) < 256"
proof -
  have "unat x < 2 ^ LENGTH(8)" by (rule unsigned_less)
  then show ?thesis by simp
qed

lemma b64_bytes:
  "b64_one (unat a div 4) (unat a mod 4 * 16) = a" "b64_one (unat a div 4) (unat a mod 4 * 16 + unat b div 16) = a"
  "b64_two (unat a mod 4 * 16 + unat b div 16) (unat b mod 16 * 4) = b"
  "b64_two (unat a mod 4 * 16 + unat b div 16) (unat b mod 16 * 4 + unat c div 64) = b"
  "b64_three (unat b mod 16 * 4 + unat c div 64) (unat c mod 64) = c"
  for a b c :: "8 word"
proof -
  have b: "unat b div 16 < 16" and c: "unat c div 64 < 4" using byte_bound [of b] byte_bound [of c] by auto
  have "(unat a mod 4 * 16 + unat b div 16) div 16 = unat a mod 4" "(unat a mod 4 * 16 + unat b div 16) mod 16 = unat b div 16"
    using b by simp_all
  moreover have "(unat b mod 16 * 4 + unat c div 64) div 4 = unat b mod 16" "(unat b mod 16 * 4 + unat c div 64) mod 4 = unat c div 64"
    using c by simp_all
  ultimately show "b64_one (unat a div 4) (unat a mod 4 * 16) = a" "b64_one (unat a div 4) (unat a mod 4 * 16 + unat b div 16) = a"
    "b64_two (unat a mod 4 * 16 + unat b div 16) (unat b mod 16 * 4) = b"
    "b64_two (unat a mod 4 * 16 + unat b div 16) (unat b mod 16 * 4 + unat c div 64) = b"
    "b64_three (unat b mod 16 * 4 + unat c div 64) (unat c mod 64) = c"
    by (simp_all add: b64_one_def b64_two_def b64_three_def)
qed

lemma b64_round_trip: "b64decode (b64encode bs) = Some bs"
proof (induction bs rule: b64encode.induct)
  case (2 a)
  have "unat a div 4 < 64" "unat a mod 4 * 16 < 64" using byte_bound [of a] by simp_all
  then show ?case by (simp add: Let_def b64_bytes)
next
  case (3 a b)
  have "unat a div 4 < 64" "unat a mod 4 * 16 + unat b div 16 < 64" "unat b mod 16 * 4 < 64"
    using byte_bound [of a] byte_bound [of b] by simp_all
  then show ?case by (simp add: Let_def b64_bytes)
next
  case (4 a b c s)
  have "unat a div 4 < 64" "unat a mod 4 * 16 + unat b div 16 < 64" "unat b mod 16 * 4 + unat c div 64 < 64" "unat c mod 64 < 64"
    using byte_bound [of a] byte_bound [of b] byte_bound [of c] by simp_all
  with 4 show ?case by (simp add: Let_def b64_bytes)
qed simp

end
