(* ===== verification/Pr_Bundle.thy ===== *)
theory Pr_Bundle
  imports Surface Pr_Surface Triage Base64
begin

text \<open>
  Pull-request bundles (src/energy_platform/harness/pr.py): the gates of a target as data, the bundle a
  green target is packed into, and the check of a bundle that comes from outside. Texts for a reader keep
  their constant part.
\<close>

subsection \<open>A target on disk\<close>

text \<open>The files of a target with their bytes, in the order of their paths, and the directories under
  \<open>fixtures\<close>.\<close>
record target_tree =
  tt_name :: string
  tt_files :: "(path, bytes) dict"
  tt_fixtures :: "string list"

text \<open>The libraries: UTF-8, \<open>ast.parse\<close>, the \<open>target_id\<close> of a YAML text, \<open>CaptureEntry.from_json\<close>, the golden a
  YAML text declares, PyYAML on manifests; and the runtime that stands for the rest of the platform.\<close>
record harness_lib =
  hl_utf8 :: "bytes \<Rightarrow> string"
  hl_parse :: "string \<Rightarrow> py_node option"
  hl_target_id :: "string \<Rightarrow> string option option"
  hl_entry :: "string \<Rightarrow> capture_entry option"
  hl_golden :: "string \<Rightarrow> golden_file option"
  hl_yaml :: yaml_lib
  hl_runtime :: runtime

text \<open>\<open>load_fixture\<close> of src/energy_platform/bronze/fixtures.py; none is any of its exceptions.\<close>
definition load_fixture :: "harness_lib \<Rightarrow> target_tree \<Rightarrow> string \<Rightarrow> (capture_entry \<times> bytes) option" where
  "load_fixture lib tt name =
     (case (dget (tt_files tt) [''fixtures'', name, ''entry.json''], dget (tt_files tt) [''fixtures'', name, ''blob'']) of
        (Some e, Some payload) \<Rightarrow> (case hl_entry lib (hl_utf8 lib e) of
            None \<Rightarrow> None
          | Some entry \<Rightarrow> if rt_sha (hl_runtime lib) payload \<noteq> ce_payload_sha256 entry then None else Some (entry, payload))
      | _ \<Rightarrow> None)"

definition surface_lib_of :: "harness_lib \<Rightarrow> target_tree \<Rightarrow> surface_lib" where
  "surface_lib_of lib tt = \<lparr>sl_parse = hl_parse lib, sl_target_id = hl_target_id lib,
     sl_fixture = (\<lambda>n. load_fixture lib tt n \<noteq> None), sl_golden = hl_golden lib\<rparr>"

definition target_dir_of :: "harness_lib \<Rightarrow> target_tree \<Rightarrow> target_dir" where
  "target_dir_of lib tt = \<lparr>td_name = tt_name tt, td_files = map (\<lambda>(p, b). (p, hl_utf8 lib b)) (tt_files tt),
     td_fixtures = tt_fixtures tt\<rparr>"

definition manifest_of :: "harness_lib \<Rightarrow> target_tree \<Rightarrow> triage_exc + manifest" where
  "manifest_of lib tt = (case dget (tt_files tt) [''manifest.yaml''] of
       None \<Rightarrow> Inl (Validation ''no such file'')
     | Some b \<Rightarrow> parse_manifest (hl_yaml lib) (hl_utf8 lib b))"

subsection \<open>Gates\<close>

datatype bundle_exc = BundleRefused string | Bundle_raised

text \<open>\<open>load_golden\<close>\<close>
definition golden_of :: "harness_lib \<Rightarrow> string \<Rightarrow> golden_file option" where
  "golden_of lib t = (case hl_golden lib t of None \<Rightarrow> None | Some g \<Rightarrow> (case mk_golden g of Inl e \<Rightarrow> None | Inr g' \<Rightarrow> Some g'))"

text \<open>\<open>run_golden\<close> on the path and the text of a golden: the manifest is read once the golden has loaded.\<close>
definition run_golden_file :: "harness_lib \<Rightarrow> target_tree \<Rightarrow> instant \<Rightarrow> path \<Rightarrow> string \<Rightarrow> bundle_exc + golden_report" where
  "run_golden_file lib tt now p t = (case golden_of lib t of
       None \<Rightarrow> Inr (broken_golden (tt_name tt) (last p) ''?'' Golden_unreadable)
     | Some g \<Rightarrow> (case manifest_of lib tt of
           Inl (Escaped e) \<Rightarrow> Inl Bundle_raised
         | Inl e \<Rightarrow> Inr (broken_golden (tt_name tt) (last p) (gf_fixture g) Manifest_unreadable)
         | Inr m \<Rightarrow> (case run_golden (tt_name tt) (last p) (Some g) (Some (with_manifest (hl_runtime lib) m)) (load_fixture lib tt) now of
               Inl e \<Rightarrow> Inl Bundle_raised
             | Inr r \<Rightarrow> Inr r)))"

definition run_target :: "harness_lib \<Rightarrow> target_tree \<Rightarrow> instant \<Rightarrow> bundle_exc + golden_report list" where
  "run_target lib tt now = mapR (\<lambda>(p, t). run_golden_file lib tt now p t) (golden_paths (target_dir_of lib tt))"

record gates =
  gt_surface :: "surface_problem list"
  gt_custom_parser :: bool
  gt_validation :: validation_status
  gt_goldens :: "golden_report list"

definition gates_ok :: "gates \<Rightarrow> bool" where
  "gates_ok g \<longleftrightarrow> gt_surface g = [] \<and> \<not> gt_custom_parser g \<and> gt_validation g = Vs_ok \<and> gt_goldens g \<noteq> []
     \<and> list_all gr_ok (gt_goldens g)"

text \<open>The status of the manifest: refusals of the loader are \<open>INVALID\<close>, other exceptions end the report.\<close>
definition gate_validation :: "harness_lib \<Rightarrow> target_tree \<Rightarrow> bundle_exc + validation_status" where
  "gate_validation lib tt = (case manifest_of lib tt of
       Inl (Escaped e) \<Rightarrow> Inl Bundle_raised
     | Inl e \<Rightarrow> Inr Vs_invalid
     | Inr m \<Rightarrow> (case validate_manifest m of Inl e \<Rightarrow> Inl Bundle_raised | Inr v \<Rightarrow> Inr (vr_status v)))"

definition gate_report :: "harness_lib \<Rightarrow> target_tree \<Rightarrow> instant \<Rightarrow> bundle_exc + gates" where
  "gate_report lib tt now =
     (let td = target_dir_of lib tt in
      bindR (gate_validation lib tt) (\<lambda>st. bindR (run_target lib tt now) (\<lambda>gs.
      Inr \<lparr>gt_surface = check_target (surface_lib_of lib tt) td, gt_custom_parser = unloadable_parser td,
           gt_validation = st, gt_goldens = gs\<rparr>)))"

subsection \<open>Bundles\<close>

definition BUNDLE_VERSION :: int where "BUNDLE_VERSION = 1"

definition files_of :: "target_tree \<Rightarrow> (path \<times> bytes) list" where
  "files_of tt = filter (\<lambda>(p, b). ''__pycache__'' \<notin> set p) (tt_files tt)"

definition repo_path :: "string \<Rightarrow> path \<Rightarrow> string" where
  "repo_path target p = ''targets/'' @ target @ ''/'' @ join_with ''/'' p"

definition bundle_item :: "(bytes \<Rightarrow> string) \<Rightarrow> string \<Rightarrow> path \<times> bytes \<Rightarrow> json" where
  "bundle_item sha target pb = (case pb of (p, b) \<Rightarrow>
     JObject [(''path'', JText (repo_path target p)), (''sha256'', JText (sha b)), (''content_b64'', JText (b64encode b))])"

text \<open>The gates as the bundle holds them. Only green gates come this far, so the lists of texts are empty.\<close>
definition NOT_RUN_BY_BUNDLE :: "string list" where
  "NOT_RUN_BY_BUNDLE = [''target pytest'', ''ruff'', ''mypy'']"

definition golden_json :: "golden_report \<Rightarrow> json" where
  "golden_json r = JObject [(''golden'', JText (gr_golden r)), (''fixture'', JText (gr_fixture r)), (''ok'', JBool (gr_ok r)),
     (''problems'', JList [])]"

definition green_gates_json :: "gates \<Rightarrow> json" where
  "green_gates_json g = JObject
     [(''ok'', JBool (gates_ok g)), (''surface'', JList []),
      (''validation'', JObject [(''status'', JText ''OK''), (''errors'', JList []), (''missing'',
         JObject (map (\<lambda>k. (k, JList [])) [''datasets'', ''metrics'', ''hosts'', ''insecure_hosts'']))]),
      (''goldens'', JList (map golden_json (gt_goldens g))),
      (''not_run'', JList (map JText NOT_RUN_BY_BUNDLE))]"

text \<open>The code has a long dash where this text has a hyphen, a character above 255.\<close>
definition bundle_body :: "string \<Rightarrow> string \<Rightarrow> string" where
  "bundle_body target body = (if body \<noteq> [] then body else
     ''Adds `targets/'' @ target @ ''/` only (manifest, fixtures, goldens, tests). Surface, admission and golden gates were green when this bundle was prepared. ''
     @ ''Not run by pr-bundle: the target's pytest, ruff and mypy - CI runs them and is the gate for them.''
     @ [CHR 0x0A, CHR 0x0A] @ ''Route A adapter addition (ADR-022). No registry, platform or deployment change.'')"

definition bundle_json :: "(bytes \<Rightarrow> string) \<Rightarrow> target_tree \<Rightarrow> string \<Rightarrow> string option \<Rightarrow> string \<Rightarrow> gates \<Rightarrow> (string \<times> json) list" where
  "bundle_json sha tt created title body g =
     (let target = tt_name tt in
      [(''bundle_version'', JInt BUNDLE_VERSION), (''created_at'', JText created), (''target_id'', JText target),
       (''branch'', JText (''target/'' @ target)),
       (''title'', JText (if truthy title then the title else ''feat(target): '' @ target @ '' (Route A, ADR-022)'')),
       (''body'', JText (bundle_body target body)), (''gates'', green_gates_json g),
       (''files'', JList (map (bundle_item sha target) (files_of tt)))])"

text \<open>\<open>prepare_bundle\<close> of the target whose tree is \<open>tt\<close>; \<open>touched\<close> are the paths of the session, if it has some;
  \<open>created\<close> is the formatted time.\<close>
definition prepare_bundle ::
    "harness_lib \<Rightarrow> target_tree \<Rightarrow> string list option \<Rightarrow> string option \<Rightarrow> string \<Rightarrow> instant \<Rightarrow> string \<Rightarrow> bundle_exc + (string \<times> json) list" where
  "prepare_bundle lib tt touched title body now created =
     (if dget (tt_files tt) [''manifest.yaml''] = None then Inl (BundleRefused ''manifest.yaml does not exist'')
      else (let s = classify (case touched of Some ps \<Rightarrow> ps | None \<Rightarrow> map (\<lambda>(p, b). repo_path (tt_name tt) p) (files_of tt)) in
        if \<not> ps_ok s \<or> ps_kind s \<noteq> Pk_target \<or> ps_target s \<noteq> Some (tt_name tt) then Inl (BundleRefused ''not a Route A change set'')
        else bindR (gate_report lib tt now) (\<lambda>g.
          if \<not> gates_ok g then Inl (BundleRefused ''gates are red'')
          else Inr (bundle_json (rt_sha (hl_runtime lib)) tt created title body g))))"

text \<open>\<open>str\<close> of a JSON value\<close>
definition py_str :: "json \<Rightarrow> string" where
  "py_str v = (case v of JText s \<Rightarrow> s | _ \<Rightarrow> py_repr v)"

definition str_field :: "(string \<times> json) list \<Rightarrow> string \<Rightarrow> string" where
  "str_field d k = (case dget d k of None \<Rightarrow> [] | Some v \<Rightarrow> py_str v)"

text \<open>\<open>True\<close> and \<open>1.0\<close> equal the version.\<close>
definition load_bundle :: "json \<Rightarrow> bundle_exc + (string \<times> json) list" where
  "load_bundle v = (case v of
       JObject d \<Rightarrow> if dget d ''bundle_version'' \<notin> set (map Some [JInt BUNDLE_VERSION, JBool True, JFloat ''1.0'']) then Inl (BundleRefused ''not a bundle'') else Inr d
     | _ \<Rightarrow> Inl (BundleRefused ''not a bundle''))"

datatype bundle_problem =
    No_files
  | Entry_not_mapping
  | Outside_prefix string
  | Not_base64 string
  | Wrong_sha256 string
  | Surface_problem pr_problem
  | Not_one_target

definition item_problems :: "(bytes \<Rightarrow> string) \<Rightarrow> string \<Rightarrow> json \<Rightarrow> bundle_problem list" where
  "item_problems sha target item = (case item of
       JObject d \<Rightarrow> (let path = str_field d ''path''; pre = ''targets/'' @ target @ ''/'' in
         (if \<not> starts_with pre path \<or> ''..'' \<in> set (path_parts path) \<or> starts_with ''/'' path then [Outside_prefix path] else [])
         @ (case b64decode (str_field d ''content_b64'') of
              None \<Rightarrow> [Not_base64 path]
            | Some content \<Rightarrow> if dget d ''sha256'' \<noteq> Some (JText (sha content)) then [Wrong_sha256 path] else []))
     | _ \<Rightarrow> [Entry_not_mapping])"

definition item_paths :: "json list \<Rightarrow> string list" where
  "item_paths files = List.map_filter (\<lambda>v. case v of JObject d \<Rightarrow> Some (str_field d ''path'') | _ \<Rightarrow> None) files"

definition verify_bundle :: "(bytes \<Rightarrow> string) \<Rightarrow> (string \<times> json) list \<Rightarrow> bundle_problem list" where
  "verify_bundle sha data = (case dget data ''files'' of
       Some (JList files) \<Rightarrow>
         (if files = [] then [No_files]
          else (let target = str_field data ''target_id''; s = classify (item_paths files) in
            concat (map (item_problems sha target) files)
            @ (if \<not> ps_ok s \<or> ps_target s \<noteq> Some target
               then (if ps_problems s = [] then [Not_one_target] else map Surface_problem (ps_problems s)) else [])))
     | _ \<Rightarrow> [No_files])"

subsection \<open>A prepared bundle verifies\<close>

text \<open>What a directory listing gives: no path is empty, and a component is no dot name and holds no slash.\<close>
definition names_ok :: "target_tree \<Rightarrow> bool" where
  "names_ok tt \<longleftrightarrow> list_all (\<lambda>(p, b). list_all (\<lambda>c. c \<noteq> [] \<and> c \<noteq> ''.'' \<and> c \<noteq> ''..'' \<and> CHR ''/'' \<notin> set c) p) (tt_files tt)"

lemma join_slash: "list_all (\<lambda>c. CHR ''/'' \<notin> set c) p \<Longrightarrow> p \<noteq> [] \<Longrightarrow> split_on (CHR ''/'') (join_with ''/'' p) = p"
proof (induction p)
  case (Cons c p)
  show ?case
  proof (cases p)
    case Nil
    with Cons show ?thesis by (simp add: join_with_def split_on_single)
  next
    case (Cons d q)
    then have "join_with ''/'' (c # p) = c @ CHR ''/'' # join_with ''/'' p" by (simp add: join_with_def)
    with Cons.IH Cons.prems Cons show ?thesis by (simp add: split_on_append)
  qed
qed simp

lemma parts_of_repo_path:
  assumes "CHR ''/'' \<notin> set target"
  shows "path_parts (''targets/'' @ target @ ''/'' @ rest)
    = ''targets'' # filter (\<lambda>x. x \<noteq> [] \<and> x \<noteq> ''.'') [target] @ filter (\<lambda>x. x \<noteq> [] \<and> x \<noteq> ''.'') (split_on (CHR ''/'') rest)"
proof -
  have "split_on (CHR ''/'') (''targets'' @ CHR ''/'' # target @ CHR ''/'' # rest)
      = ''targets'' # target # split_on (CHR ''/'') rest"
    using assms by (subst split_on_append, simp)+ simp
  then show ?thesis by (simp add: path_parts_def)
qed

lemma kept_by_dropWhile: "c \<in> set xs \<Longrightarrow> \<not> P c \<Longrightarrow> c \<in> set (dropWhile P xs)"
  by (induction xs) auto

lemma strip_behind:
  assumes "a \<noteq> []" and "\<not> py_space (hd a)" and "c \<in> set s" and "\<not> py_space c"
  shows "strip (a @ s) = a @ rev (dropWhile py_space (rev s))"
proof -
  have "dropWhile py_space (a @ s) = a @ s" using assms(1,2) by (cases a) auto
  moreover have "dropWhile py_space (rev s @ rev a) = dropWhile py_space (rev s) @ rev a"
    using assms(3,4) by (intro dropWhile_append1 [of c]) auto
  ultimately show ?thesis by (simp add: strip_def)
qed

text \<open>The characters of a target's name.\<close>
lemma target_name_chars:
  assumes "target_name_ok t"
  shows "t \<noteq> []" "t \<noteq> ''.''" "t \<noteq> ''..''" "CHR ''/'' \<notin> set t" "CHR 0x5C \<notin> set t"
proof -
  have "lower_or_digit c \<or> c = CHR ''_'' \<or> c = CHR 0x0A" if "c \<in> set t" for c
    using assms that by (cases t rule: rev_cases) (auto simp: target_name_ok_def target_id_ok_def before_end_def list_all_iff split: if_splits)
  from this [of "CHR ''/''"] this [of "CHR 0x5C"] this [of "CHR ''.''"]
  show "t \<noteq> ''.''" "t \<noteq> ''..''" "CHR ''/'' \<notin> set t" "CHR 0x5C \<notin> set t"
    by (auto simp: lower_or_digit_def lower_char_def is_digit_def Let_def)
  show "t \<noteq> []" using assms by (auto simp: target_name_ok_def target_id_ok_def before_end_def)
qed

definition slashed :: "char \<Rightarrow> char" where
  "slashed c = (if c = CHR 0x5C then CHR ''/'' else c)"

lemma slashed_fun: "(\<lambda>c. if c = CHR 0x5C then CHR ''/'' else c) = slashed"
  by (auto simp: slashed_def)

lemma letters_stand_out:
  assumes "ascii_alpha c"
  shows "\<not> py_space c" "c \<noteq> CHR ''/''" "c \<noteq> CHR ''.''" "slashed c = c"
  using assms by (auto simp: ascii_alpha_def slashed_def py_space_def Let_def)

lemma target_of_repo_path:
  assumes "target_name_ok t" and "c \<in> set s" and "ascii_alpha c"
  shows "target_of (map slashed (strip (''targets/'' @ t @ ''/'' @ s))) = Some t"
proof -
  note l = letters_stand_out [OF assms(3)]
  define s' where "s' = map slashed (rev (dropWhile py_space (rev s)))"
  have "c \<in> set s'" using assms(2) l(1,4) kept_by_dropWhile [of c "rev s" py_space] by (force simp: s'_def)
  then obtain x where x: "x \<in> set (split_on (CHR ''/'') s')" "c \<in> set x" using split_on_chars [of c s' "CHR ''/''"] l(2) by blast
  then have "x \<in> set (filter (\<lambda>x. x \<noteq> [] \<and> x \<noteq> ''.'') (split_on (CHR ''/'') s'))" using l(3) by auto
  then obtain y ys where y: "filter (\<lambda>x. x \<noteq> [] \<and> x \<noteq> ''.'') (split_on (CHR ''/'') s') = y # ys"
    by (cases "filter (\<lambda>x. x \<noteq> [] \<and> x \<noteq> ''.'') (split_on (CHR ''/'') s')") auto
  have "strip ((''targets/'' @ t @ ''/'') @ s) = (''targets/'' @ t @ ''/'') @ rev (dropWhile py_space (rev s))"
    by (rule strip_behind [OF _ _ assms(2) l(1)]) (simp_all add: py_space_def Let_def)
  moreover have "map slashed t = t" using target_name_chars(5) [OF assms(1)] by (intro map_idI) (auto simp: slashed_def)
  ultimately have "map slashed (strip (''targets/'' @ t @ ''/'' @ s)) = ''targets/'' @ t @ ''/'' @ s'"
    by (simp add: s'_def slashed_def)
  with parts_of_repo_path [OF target_name_chars(4) [OF assms(1)], of s']
  show ?thesis using y target_name_chars(1,2) [OF assms(1)] by (simp add: target_of_def)
qed

text \<open>Every path of the surface has a component, and a letter.\<close>
lemma surface_not_empty: "in_surface p \<Longrightarrow> p \<noteq> []"
  by (cases rule: in_surface.cases) auto

lemma ends_with_set: "ends_with suffix s \<Longrightarrow> set suffix \<subseteq> set s"
  using ends_withE by fastforce

lemma before_end_set: "set (before_end s) \<subseteq> set s"
  by (auto simp: before_end_def dest: in_set_butlastD)

lemma surface_letter:
  assumes "in_surface p"
  shows "\<exists>x \<in> set p. \<exists>c \<in> set x. ascii_alpha c"
  using assms
proof cases
  case (test name)
  have "CHR ''p'' \<in> set (before_end name)" using test(2) ends_with_set [of "''.py''"] by (auto simp: test_file_def Let_def)
  then have "CHR ''p'' \<in> set name" using before_end_set by blast
  moreover have "ascii_alpha (CHR ''p'')" by code_simp
  ultimately show ?thesis using test(1) by auto
next
  case (golden name)
  have "CHR ''y'' \<in> set (before_end name)"
    using golden(2) ends_with_set [of "''.yaml''"] ends_with_set [of "''.yml''"] by (auto simp: golden_file_name_def Let_def)
  then have "CHR ''y'' \<in> set name" using before_end_set by blast
  moreover have "ascii_alpha (CHR ''y'')" by code_simp
  ultimately show ?thesis using golden(1) by auto
qed (auto simp: ascii_alpha_def Let_def)

lemma join_with_mem: "x \<in> set p \<Longrightarrow> c \<in> set x \<Longrightarrow> c \<in> set (join_with sep p)"
  by (cases p) (auto simp: join_with_def)

lemma classify_repo_paths:
  assumes "target_name_ok t" and "ps \<noteq> []" and "list_all in_surface ps"
  shows "classify (map (repo_path t) ps) = \<lparr>ps_kind = Pk_target, ps_target = Some t, ps_problems = []\<rparr>"
proof (rule all_of_target)
  have each: "target_of (map slashed (strip (repo_path t p))) = Some t" if "p \<in> set ps" for p
  proof -
    have "in_surface p" using assms(3) that by (simp add: list_all_iff)
    from surface_letter [OF this] obtain x c where "x \<in> set p" "c \<in> set x" "ascii_alpha c" by blast
    then show ?thesis unfolding repo_path_def by (intro target_of_repo_path [OF assms(1)] join_with_mem)
  qed
  have norm: "set (normalised (map (repo_path t) ps)) \<subseteq> (\<lambda>p. map slashed (strip (repo_path t p))) ` set ps"
    unfolding normalised_def slashed_fun by auto
  with each show "\<forall>p \<in> set (normalised (map (repo_path t) ps)). target_of p = Some t" by auto
  obtain p where p: "p \<in> set ps" using assms(2) by (cases ps) auto
  have "target_of (map slashed []) = None" by (simp add: target_of_def path_parts_def)
  with each [OF p] have "strip (repo_path t p) \<noteq> []" by (metis option.distinct(1))
  with p have "map slashed (strip (repo_path t p)) \<in> set (normalised (map (repo_path t) ps))"
    unfolding normalised_def slashed_fun by auto
  then show "normalised (map (repo_path t) ps) \<noteq> []" by auto
qed

lemma bundle_item_verifies:
  assumes "target_name_ok t" and "list_all (\<lambda>c. c \<noteq> [] \<and> c \<noteq> ''.'' \<and> c \<noteq> ''..'' \<and> CHR ''/'' \<notin> set c) p" and "p \<noteq> []"
  shows "item_problems sha t (bundle_item sha t (p, b)) = []"
proof -
  note t = target_name_chars [OF assms(1)]
  have "split_on (CHR ''/'') (join_with ''/'' p) = p" using assms(2,3) by (intro join_slash) (auto simp: list_all_iff)
  moreover have "filter (\<lambda>x. x \<noteq> [] \<and> x \<noteq> ''.'') p = p" using assms(2) by (auto simp: list_all_iff filter_id_conv)
  moreover have "path_parts (repo_path t p) = ''targets'' # filter (\<lambda>x. x \<noteq> [] \<and> x \<noteq> ''.'') [t]
      @ filter (\<lambda>x. x \<noteq> [] \<and> x \<noteq> ''.'') (split_on (CHR ''/'') (join_with ''/'' p))"
    unfolding repo_path_def by (rule parts_of_repo_path [OF t(4)])
  ultimately have "path_parts (repo_path t p) = ''targets'' # t # p" using t(1,2) by simp
  then have "''..'' \<notin> set (path_parts (repo_path t p))" using t assms(2) by (auto simp: list_all_iff)
  moreover have "starts_with (''targets/'' @ t @ ''/'') (repo_path t p)" "\<not> starts_with ''/'' (repo_path t p)"
    by (simp_all add: starts_with_def repo_path_def)
  ultimately show ?thesis
    by (simp add: item_problems_def bundle_item_def str_field_def py_str_def b64_round_trip Let_def)
qed

lemma bundle_paths: "item_paths (map (bundle_item sha t) fs) = map (repo_path t) (map fst fs)"
  by (induction fs) (auto simp: item_paths_def bundle_item_def str_field_def py_str_def List.map_filter_def)

end
