(* ===== verification/Bundle_Properties.thy ===== *)
theory Bundle_Properties
  imports Pr_Bundle Triage_Properties
begin

text \<open>
  What a pull-request bundle guarantees: it verifies, and it exists only for a target whose gates are green.
\<close>

text \<open>C37. Round trip of a bundle: what \<open>prepare_bundle\<close> writes for a target, \<open>load_bundle\<close> reads back and
  \<open>verify_bundle\<close> accepts without a problem, whatever the session touched and whatever bytes the files
  hold; and the bundle is only written when every gate is green: no surface problem, an admitted manifest,
  and a golden, all of whose goldens pass.\<close>
theorem prepared_bundle_verifies:
  assumes "prepare_bundle lib tt touched title body now created = Inr data" and "names_ok tt"
  shows "load_bundle (JObject data) = Inr data \<and> verify_bundle (rt_sha (hl_runtime lib)) data = []
    \<and> (\<exists>g. gate_report lib tt now = Inr g \<and> gates_ok g)"
proof -
  let ?sha = "rt_sha (hl_runtime lib)" and ?t = "tt_name tt" and ?fs = "files_of tt"
  from assms(1) obtain g where g: "gate_report lib tt now = Inr g" "gates_ok g" and data: "data = bundle_json ?sha tt created title body g"
    and manifest: "dget (tt_files tt) [''manifest.yaml''] \<noteq> None"
    by (auto simp: prepare_bundle_def Let_def split: if_splits)
  from g have "check_target (surface_lib_of lib tt) (target_dir_of lib tt) = []"
    by (auto simp: gate_report_def gates_ok_def Let_def)
  note clean = accepted_target_surface [OF this]
  have t: "target_name_ok ?t" using clean(1) by (simp add: target_dir_of_def)
  have surface: "list_all in_surface (map fst ?fs)"
    using clean(2) by (force simp: files_of_def target_dir_of_def list_all_iff)
  have ne: "?fs \<noteq> []" using manifest by (force simp: files_of_def filter_empty_conv dest!: map_of_SomeD)
  have "classify (item_paths (map (bundle_item ?sha ?t) ?fs)) = \<lparr>ps_kind = Pk_target, ps_target = Some ?t, ps_problems = []\<rparr>"
    using classify_repo_paths [OF t _ surface] ne by (simp add: bundle_paths)
  moreover have "item_problems ?sha ?t (bundle_item ?sha ?t pb) = []" if "pb \<in> set ?fs" for pb
  proof -
    have "fst pb \<noteq> []" using surface that surface_not_empty by (auto simp: list_all_iff)
    then show ?thesis using bundle_item_verifies [OF t] assms(2) that
      by (cases pb) (auto simp: names_ok_def files_of_def list_all_iff)
  qed
  ultimately have "verify_bundle ?sha data = []"
    using ne by (simp add: data verify_bundle_def bundle_json_def str_field_def py_str_def ps_ok_def Let_def)
  moreover have "load_bundle (JObject data) = Inr data"
    by (simp add: data load_bundle_def bundle_json_def Let_def)
  ultimately show ?thesis using g by blast
qed

subsection \<open>A bundle\<close>

definition bundle_golden :: golden_file where
  "bundle_golden = \<lparr>gf_fixture = ''day'', gf_checked_by = ''J. N.'', gf_note = None, gf_expect = \<lparr>ex_rows =
     [\<lparr>gw_delivery_start_utc = 1774738800000000, gw_resolution = ''PT15M'', gw_metric = ''load_incl_pumping'', gw_value = Some (Dec False 97 0),
       gw_dimensions = None, gw_source_version = Some (Some ''RT''), gw_period_index = None\<rparr>],
     ex_quarantine = None, ex_row_count = Some 2, ex_quality_events = None\<rparr>\<rparr>"

definition bundle_yaml :: yaml_lib where
  "bundle_yaml = \<lparr>yl_scan = (\<lambda>_. ([Yt_other], False)), yl_load = (\<lambda>_. Some (Mapping_of [''mapping''] (Some ceps_manifest))),
     yl_zones = ceps_zones, yl_compiles = (\<lambda>_. True)\<rparr>"

definition bundle_lib :: harness_lib where
  "bundle_lib = \<lparr>hl_utf8 = (\<lambda>_. []), hl_parse = (\<lambda>_. None), hl_target_id = (\<lambda>_. Some (Some ''ceps_load'')), hl_entry = (\<lambda>_. Some repair_entry),
     hl_golden = (\<lambda>_. Some bundle_golden), hl_yaml = bundle_yaml, hl_runtime = repair_rt\<rparr>"

definition bundle_tree :: target_tree where
  "bundle_tree = \<lparr>tt_name = ''ceps_load'',
     tt_files = [([''__init__.py''], []), ([''fixtures'', ''day'', ''blob''], []), ([''fixtures'', ''day'', ''entry.json''], [123, 125]),
       ([''manifest.yaml''], [97, 58, 32, 49]), ([''tests'', ''__init__.py''], []), ([''tests'', ''golden'', ''day.yaml''], [98]),
       ([''tests'', ''test_map.py''], [99])],
     tt_fixtures = [''day'']\<rparr>"

lemma bundle_manifest: "manifest_of bundle_lib bundle_tree = Inr ceps_manifest"
  by (simp add: manifest_of_def bundle_tree_def bundle_lib_def parse_manifest_def bundle_yaml_def ceps_manifest_valid)

lemma bundle_fixture: "load_fixture bundle_lib bundle_tree ''day'' = Some (repair_entry, [])"
  by (simp add: load_fixture_def bundle_tree_def bundle_lib_def repair_rt_def repair_entry_def)

text \<open>The surface check asks about the fixtures of the target only.\<close>
lemma check_target_fixtures:
  assumes "\<And>n. n \<in> set (td_fixtures td) \<Longrightarrow> f n = g n"
  shows "check_target (lib\<lparr>sl_fixture := f\<rparr>) td = check_target (lib\<lparr>sl_fixture := g\<rparr>) td"
proof -
  have "filter (\<lambda>n. \<not> f n) (sort (td_fixtures td)) = filter (\<lambda>n. \<not> g n) (sort (td_fixtures td))"
    using assms by (intro filter_cong) auto
  moreover have "golden_problems (lib\<lparr>sl_fixture := f\<rparr>) = golden_problems (lib\<lparr>sl_fixture := g\<rparr>)"
    by (auto simp: golden_problems_def fun_eq_iff)
  ultimately have "completeness (lib\<lparr>sl_fixture := f\<rparr>) td = completeness (lib\<lparr>sl_fixture := g\<rparr>) td"
    by (simp add: completeness_def fixture_names_def)
  moreover have "file_problems (lib\<lparr>sl_fixture := f\<rparr>) = file_problems (lib\<lparr>sl_fixture := g\<rparr>)"
    by (simp add: file_problems_def fun_eq_iff cong: option.case_cong)
  moreover have "manifest_target_id (lib\<lparr>sl_fixture := f\<rparr>) td = manifest_target_id (lib\<lparr>sl_fixture := g\<rparr>) td"
    by (simp add: manifest_target_id_def cong: option.case_cong)
  ultimately show ?thesis by (simp add: check_target_def)
qed

definition bundle_surface :: surface_lib where
  "bundle_surface = \<lparr>sl_parse = (\<lambda>_. None), sl_target_id = (\<lambda>_. Some (Some ''ceps_load'')), sl_fixture = (\<lambda>_. True),
     sl_golden = (\<lambda>_. Some bundle_golden)\<rparr>"

lemma bundle_surface_clean: "check_target (bundle_surface\<lparr>sl_fixture := (\<lambda>_. True)\<rparr>) (target_dir_of bundle_lib bundle_tree) = []"
  by code_simp

lemma bundle_target_clean: "check_target (surface_lib_of bundle_lib bundle_tree) (target_dir_of bundle_lib bundle_tree) = []"
proof -
  have "surface_lib_of bundle_lib bundle_tree = bundle_surface\<lparr>sl_fixture := (\<lambda>n. load_fixture bundle_lib bundle_tree n \<noteq> None)\<rparr>"
    by (simp add: surface_lib_of_def bundle_lib_def bundle_surface_def)
  moreover have "td_fixtures (target_dir_of bundle_lib bundle_tree) = [''day'']" by (simp add: target_dir_of_def bundle_tree_def)
  ultimately show ?thesis
    using check_target_fixtures [of "target_dir_of bundle_lib bundle_tree" "\<lambda>n. load_fixture bundle_lib bundle_tree n \<noteq> None" "\<lambda>_. True" bundle_surface]
      bundle_surface_clean bundle_fixture by simp
qed

lemma bundle_golden_matches:
  "compare_golden bundle_golden \<lparr>po_observations = repair_rows, po_events = es, po_quarantine = None\<rparr> ceps_manifest = []"
  by code_simp

lemma bundle_golden_valid: "mk_golden bundle_golden = Inr bundle_golden"
  by code_simp

lemma bundle_golden_run:
  "\<exists>r. run_golden_file bundle_lib bundle_tree 1774738800000000 p t = Inr r \<and> gr_ok r"
proof -
  obtain out where out: "run_pipeline (with_manifest repair_rt ceps_manifest) repair_entry [] 1774738800000000 = Inr out"
      "po_quarantine out = None" "po_observations out = repair_rows"
    using repair_pipeline [OF _ repair_maps] by auto
  then have "compare_golden bundle_golden out ceps_manifest = []" using bundle_golden_matches [of "po_events out"] by (cases out) simp
  with out(1) bundle_fixture bundle_manifest bundle_golden_valid show ?thesis
    by (simp add: run_golden_file_def golden_of_def run_golden_def bundle_lib_def bundle_golden_def gr_ok_def repair_runtime)
qed

lemma bundle_goldens: "\<exists>p t. golden_paths (target_dir_of bundle_lib bundle_tree) = [(p, t)]"
  by (simp add: golden_paths_def target_dir_of_def bundle_tree_def golden_file_name_def before_end_def ends_with_def Let_def
      lower_or_digit_def is_digit_def)

lemma bundle_admitted: "map_sum id vr_status (validate_manifest ceps_manifest) = Inr Vs_ok"
  by (rule ceps_manifest_admitted)

lemma bundle_gates: "\<exists>g. gate_report bundle_lib bundle_tree 1774738800000000 = Inr g \<and> gates_ok g"
proof -
  obtain p t where p: "golden_paths (target_dir_of bundle_lib bundle_tree) = [(p, t)]" using bundle_goldens by blast
  obtain r where r: "run_golden_file bundle_lib bundle_tree 1774738800000000 p t = Inr r" "gr_ok r" using bundle_golden_run by blast
  obtain v where v: "validate_manifest ceps_manifest = Inr v" "vr_status v = Vs_ok"
    using bundle_admitted by (cases "validate_manifest ceps_manifest") auto
  have "gate_validation bundle_lib bundle_tree = Inr Vs_ok" using v by (simp add: gate_validation_def bundle_manifest)
  moreover have "run_target bundle_lib bundle_tree 1774738800000000 = Inr [r]" using r by (simp add: run_target_def p)
  moreover have "\<not> unloadable_parser (target_dir_of bundle_lib bundle_tree)"
    by (simp add: unloadable_parser_def target_dir_of_def bundle_tree_def)
  ultimately show ?thesis using bundle_target_clean r(2) by (simp add: gate_report_def gates_ok_def Let_def)
qed

lemma bundle_touched:
  "classify [''targets/ceps_load/manifest.yaml''] = \<lparr>ps_kind = Pk_target, ps_target = Some ''ceps_load'', ps_problems = []\<rparr>"
  by code_simp

theorem prepared_bundle_verifies_witness:
  "\<exists>data. prepare_bundle bundle_lib bundle_tree (Some [''targets/ceps_load/manifest.yaml'']) None [] 1774738800000000 ''20260329T000000Z'' = Inr data
     \<and> length data = 8 \<and> verify_bundle (rt_sha repair_rt) data = []"
proof -
  obtain g where g: "gate_report bundle_lib bundle_tree 1774738800000000 = Inr g" "gates_ok g" using bundle_gates by blast
  have name: "tt_name bundle_tree = ''ceps_load''" "dget (tt_files bundle_tree) [''manifest.yaml''] \<noteq> None"
    by (simp_all add: bundle_tree_def)
  obtain data where data: "prepare_bundle bundle_lib bundle_tree (Some [''targets/ceps_load/manifest.yaml'']) None [] 1774738800000000 ''20260329T000000Z'' = Inr data"
    "length data = 8"
    using g name bundle_touched by (simp add: prepare_bundle_def ps_ok_def Let_def bundle_json_def del: not_None_eq)
  have "names_ok bundle_tree" by (simp add: names_ok_def bundle_tree_def)
  from prepared_bundle_verifies [OF data(1) this] data show ?thesis by (auto simp: bundle_lib_def)
qed

end
