(* ===== verification/Scaffold.thy ===== *)
theory Scaffold
  imports Pr_Bundle Plan
begin

text \<open>
  The skeleton of a new target (src/energy_platform/harness/scaffold.py): the texts that
  \<open>energyctl new-target\<close> writes, from the registry where the dataset is registered. A long dash, an arrow
  and a paragraph sign have stand-ins below code point 128. The last part shows that a skeleton stays on the
  surface and is refused as a target until its author has filled it.
\<close>

definition REPLACE_ME :: string where "REPLACE_ME = ''REPLACE_ME''"
definition PLACEHOLDER_HOST :: string where "PLACEHOLDER_HOST = ''replace-me.example''"

definition lines_text :: "string list \<Rightarrow> string" where
  "lines_text ls = concat (map (\<lambda>l. l @ [CHR 0x0A]) ls)"

text \<open>\<open>_FETCH_BLOCKS[modality].format(...)\<close>: doubled braces are single by now.\<close>
definition fetch_block_lines :: "modality \<Rightarrow> string \<Rightarrow> string \<Rightarrow> string \<Rightarrow> string list" where
  "fetch_block_lines m h file_format secret_name = ''fetch:'' # (case m of
       Soap_xml \<Rightarrow>
        [''  soap_xml:'',
         ''    url: https://'' @ h @ ''/REPLACE_ME/service'',
         ''    soap_action: https://'' @ h @ ''/REPLACE_ME/Action'',
         ''    soap_version: \"1.1\"'',
         ''    body_template: |'',
         ''      <soapenv:Envelope xmlns:soapenv=\"http://schemas.xmlsoap.org/soap/envelope/\">'',
         ''        <soapenv:Body>'',
         ''          <REPLACE_ME>'',
         ''            <StartDate>{start_date}</StartDate>'',
         ''            <EndDate>{end_date}</EndDate>'',
         ''          </REPLACE_ME>'',
         ''        </soapenv:Body>'',
         ''      </soapenv:Envelope>'',
         ''    params:'',
         ''      start_date: \"{delivery_day:%Y-%m-%d}\"'',
         ''      end_date: \"{delivery_day:%Y-%m-%d}\"'']
     | Dated_file \<Rightarrow>
        [''  dated_file:'',
         ''    file_format: '' @ file_format,
         ''    discovery:                      # optional (ADR-005): read the link from a page, then download'',
         ''      url: https://'' @ h @ ''/REPLACE_ME/page'',
         ''      link_regex: '' @ CHR 0x27 # ''REPLACE_ME_'' @ CHR 0x5C # ''d{4}'' @ CHR 0x5C # ''.'' @ file_format @ [CHR 0x27],
         ''    url_template: \"https://'' @ h @ ''/REPLACE_ME/{delivery_day:%Y-%m-%d}.'' @ file_format @ ''\"'']
     | Html_table \<Rightarrow>
        [''  html_table:'',
         ''    url: https://'' @ h @ ''/REPLACE_ME/page'',
         ''    table_selector: \"table.REPLACE_ME\"'']
     | Rest_json \<Rightarrow>
        [''  rest_json:'',
         ''    url_template: \"https://'' @ h @ ''/REPLACE_ME/api\"'',
         ''    query:'',
         ''      date: \"{delivery_day:%Y-%m-%d}\"'',
         ''    headers: {}'',
         ''    # auth: {secretRef: {name: '' @ secret_name @ '', key: REPLACE_ME}, location: query, param: token}'']
     | Rest_xml \<Rightarrow>
        [''  rest_xml:'',
         ''    url_template: \"https://'' @ h @ ''/REPLACE_ME/api\"'',
         ''    query:'',
         ''      date: \"{delivery_day:%Y-%m-%d}\"'',
         ''    headers: {}''])"

definition CONTRACT_DEFAULTS :: "modality \<Rightarrow> string \<times> string" where
  "CONTRACT_DEFAULTS m = (case m of Soap_xml \<Rightarrow> (''soap'', ''soap'') | Dated_file \<Rightarrow> (''xlsx'', ''xlsx'')
     | Html_table \<Rightarrow> (''html'', ''html-table'') | Rest_json \<Rightarrow> (''rest'', ''json'') | Rest_xml \<Rightarrow> (''rest'', ''xml''))"

definition dimension_line :: "dataset_contract \<Rightarrow> string \<Rightarrow> string" where
  "dimension_line c d = ''    '' @ d @ '': '' @ (case dget (dc_fixed_dimensions c) d of
       Some v \<Rightarrow> v
     | None \<Rightarrow> (case dget (dc_allowed_dimension_values c) d of
           Some (v # vs) \<Rightarrow> REPLACE_ME @ ''   # one of '' @ py_repr (JList (map JText (v # vs)))
         | _ \<Rightarrow> REPLACE_ME))"

definition dimension_lines :: "dataset_contract option \<Rightarrow> string list" where
  "dimension_lines contract = (let dims = (case contract of None \<Rightarrow> [] | Some c \<Rightarrow> map (dimension_line c) (manifest_dimensions c)) in
     if dims = [] then [''    '' @ REPLACE_ME @ '': '' @ REPLACE_ME @ ''   # identity dimensions of the dataset''] else dims)"

definition resolution_text :: "dataset_contract option \<Rightarrow> string" where
  "resolution_text contract = (case Option.bind contract (\<lambda>c. case dc_resolutions c of [] \<Rightarrow> None | r # _ \<Rightarrow> Some r) of
       Some r \<Rightarrow> ''{constant: '' @ r @ ''}''
     | None \<Rightarrow> ''{constant: PT15M}         # or {source: <field>} when the document says'')"

definition version_text :: "dataset_contract option \<Rightarrow> string" where
  "version_text contract = (if (case contract of None \<Rightarrow> False | Some c \<Rightarrow> version_in_identity c)
     then ''{constant: '' @ REPLACE_ME @ ''}   # bound to the `version` identity dimension''
     else ''null                        # the source publishes no revision marker'')"

text \<open>The unit is quoted: a dimensionless unit is the text 1, which YAML would read as an integer.\<close>
definition metric_line :: "dataset_contract option \<Rightarrow> string \<Rightarrow> string" where
  "metric_line contract m = (let unit = (case Option.bind contract (\<lambda>c. metric_of c m) of Some spec \<Rightarrow> ms_unit spec | None \<Rightarrow> REPLACE_ME) in
     ''    '' @ m @ '': {source: '' @ REPLACE_ME @ '', unit: \"'' @ unit @ ''\", sign: as_published, decimal_separator: dot}'')"

definition mapping_lines :: "dataset_contract option \<Rightarrow> string list \<Rightarrow> string list" where
  "mapping_lines contract metrics =
     [''mapping:'', ''  dimensions:''] @ dimension_lines contract
     @ [''  time:'',
        ''    kind: period_index          # or `timestamp` with `timestamp` + `interval_label`'',
        ''    timezone: Europe/Prague'',
        ''    date: {source: '' @ REPLACE_ME @ ''}          # or {context: delivery_day}'',
        ''    index: {source: '' @ REPLACE_ME @ ''}'',
        ''    resolution: '' @ resolution_text contract,
        ''  source_version: '' @ version_text contract,
        ''  source_published_at: null     # never derived from fetch time (01 '' @ CHR 0xA7 # ''6.1)'',
        ''  metrics:'']
     @ map (metric_line contract) metrics"

definition head_lines :: "string \<Rightarrow> modality \<Rightarrow> string \<Rightarrow> string list" where
  "head_lines target_id m h =
     [''# '' @ target_id @ '' - scaffolded by `energyctl new-target`; every REPLACE_ME must go before'',
      ''# this is a target (05 C-13). Fetch and normalise are declared here, never coded (ADR-005).'',
      ''schema_version: 1'',
      ''target_id: '' @ target_id,
      ''description: '' @ REPLACE_ME,
      ''license: \"'' @ REPLACE_ME @ '': the terms under which the data is reused (01 '' @ CHR 0xA7 # ''10)\"'',
      ''terms_url: https://'' @ h @ ''/'' @ REPLACE_ME @ ''/terms'',
      ''allowed_hosts:'',
      ''  - '' @ h,
      ''modality: '' @ modality_text m,
      ''cadence:'',
      ''  cron: \"*/15 * * * *\"'',
      ''  timezone: Europe/Prague'',
      ''history:'',
      ''  max_age: P1Y                  # how far back the source still serves data (ADR-024 '' @ CHR 0xA7 # ''5)'']"

definition contract_lines :: "string \<Rightarrow> modality \<Rightarrow> string list \<Rightarrow> string list" where
  "contract_lines did m metrics = (case CONTRACT_DEFAULTS m of (tr, dk) \<Rightarrow>
     [''contract:'', ''  dataset_id: '' @ did, ''  source_transport: '' @ tr, ''  decode: '' @ dk,
      ''  metrics: ['' @ join_with '', '' metrics @ '']''])"

text \<open>The skeleton and whether the dataset is unregistered; an empty \<open>dataset_id\<close> counts as none.\<close>
definition render_manifest :: "string \<Rightarrow> modality \<Rightarrow> string option \<Rightarrow> string \<Rightarrow> string \<times> bool" where
  "render_manifest target_id m ds h =
     (let given = (if truthy ds then ds else None);
          contract = Option.bind given dataset;
          did = (case given of Some d \<Rightarrow> d | None \<Rightarrow> REPLACE_ME @ ''.dataset'');
          metrics = (case contract of Some c \<Rightarrow> dkeys (dc_metrics c) | None \<Rightarrow> [REPLACE_ME])
      in (lines_text (head_lines target_id m h @ fetch_block_lines m h ''xlsx'' (target_secret_name target_id)
            @ contract_lines did m metrics @ mapping_lines contract metrics), contract = None))"

subsection \<open>The other files\<close>

definition README_text :: "string \<Rightarrow> modality \<Rightarrow> string" where
  "README_text target_id m = lines_text
     [''# '' @ target_id,
      [],
      ''Scaffolded by `energyctl new-target '' @ target_id @ '' --modality '' @ modality_text m @ ''`. This directory is the'',
      ''whole contribution (ADR-027): a manifest, optional `parser.py`, Bronze fixtures, goldens, tests.'',
      [],
      ''Steps to make it a target:'',
      [],
      ''1. Fill every `REPLACE_ME` in `manifest.yaml` from the source'' @ [CHR 0x27] @ ''s documentation and terms page.'',
      ''   `energyctl validate '' @ target_id @ ''` must say `OK`; `ADMISSION_REQUIRED` means the dataset, a'',
      ''   metric or a host is not admitted - run `energyctl admission-request '' @ target_id @ ''` and open a PR'',
      ''   with only that file (ADR-022 Route B). Do not invent a unit or edit a registry.'',
      ''2. Record a fixture: `energyctl record-fixture '' @ target_id @ '' --name ordinary_day --live` (network is'',
      ''   opt-in) or `--from-file <payload>` for a synthetic copy of the real shape (01 '' @ [CHR 0xA7] @ ''10).'',
      ''3. Write `tests/golden/ordinary_day.yaml`: values you checked by hand against the document, your'',
      ''   name in `checked_by`. Add the 01 '' @ [CHR 0xA7] @ ''7/'' @ [CHR 0xA7] @ ''9 cases (DST days, negative price, NULL, changed header >'',
      ''   `expect.quarantine`).'',
      ''4. `energyctl run-target-tests '' @ target_id @ ''`; then `make check`.'',
      ''5. Open a PR that touches only `targets/'' @ target_id @ ''/` (`energyctl pr-bundle '' @ target_id @ ''`).'',
      [],
      ''What is *not* here: fetch code, unit or timezone conversion, retries, secrets. Those are the'',
      ''platform'' @ [CHR 0x27] @ ''s (`energy_platform/`), driven by the manifest.'']"

definition GOLDEN_text :: "string \<Rightarrow> string" where
  "GOLDEN_text fixture = lines_text
     [''# Expected canonical rows for fixtures/'' @ fixture @ ''/, values checked by a human (ADR-020).'',
      ''fixture: '' @ fixture,
      ''checked_by: REPLACE_ME            # who checked the values, against what, when'',
      ''expect:'',
      ''  # row_count: 192'',
      ''  rows:'',
      ''    - delivery_start_utc: 2026-01-01T00:00:00+01:00'',
      ''      resolution: PT15M'',
      ''      metric: REPLACE_ME'',
      ''      value: \"REPLACE_ME\"          # quoted decimal, or null'',
      ''  # quality_events: [partition_status]'']"

definition TEST_text :: "string" where
  "TEST_text = lines_text
     [''\"\"\"Golden files load and point at existing fixtures; the platform runs the values.\"\"\"'',
      [],
      ''from pathlib import Path'',
      [],
      ''from energy_platform.contracts.golden import load_golden'',
      [],
      ''HERE = Path(__file__).parent'',
      [],
      [],
      ''def test_goldens_reference_existing_fixtures() -> None:'',
      ''    goldens = sorted((HERE / \"golden\").glob(\"*.yaml\"))'',
      ''    assert goldens'',
      ''    for path in goldens:'',
      ''        golden = load_golden(path)'',
      ''        assert (HERE.parent / \"fixtures\" / golden.fixture).is_dir(), golden.fixture'']"

definition PARSER_text :: "string" where
  "PARSER_text = lines_text
     [''\"\"\"Custom parser: only when the generic parser cannot read this source'' @ [CHR 0x27] @ ''s syntax.'',
      [],
      ''It receives the document already decoded (04 '' @ [CHR 0xA7] @ ''3.8) and emits records in the source'' @ [CHR 0x27] @ ''s own'',
      ''vocabulary. Units, timezones, intervals and signs are applied by the platform from the manifest.'',
      ''\"\"\"'',
      [],
      ''from decimal import Decimal'',
      [],
      ''from energy_platform.contracts import SourceRecord, XmlDocument'',
      [],
      [],
      ''class Parser:'',
      ''    def parse(self, doc: XmlDocument) -> list[SourceRecord]:'',
      ''        records: list[SourceRecord] = []'',
      ''        for item in doc.root.find_all(\"REPLACE_ME\"):'',
      ''            value = item.first(\"REPLACE_ME\")'',
      ''            fields = {\"REPLACE_ME\": Decimal(value.text) if value and value.text else None}'',
      ''            records.append(SourceRecord(fields, locator=item.local_name))'',
      ''        return records'']"


text \<open>The files in the order they are written.\<close>
definition scaffold_files :: "string \<Rightarrow> modality \<Rightarrow> string \<Rightarrow> bool \<Rightarrow> (path, string) dict" where
  "scaffold_files target_id m manifest with_parser =
     [([''__init__.py''], []),
      ([''manifest.yaml''], manifest),
      ([''README.md''], README_text target_id m),
      ([''tests'', ''__init__.py''], []),
      ([''tests'', ''test_golden.py''], TEST_text),
      ([''tests'', ''golden'', ''ordinary_day.yaml''], GOLDEN_text ''ordinary_day'')]
     @ (if with_parser then [([''parser.py''], PARSER_text)] else [])"

datatype scaffold_error = ScaffoldError string

text \<open>\<open>scaffold_target\<close> up to the writing: the files of the new target and whether admission is required;
  \<open>present\<close> tells whether the directory is there already.\<close>
definition scaffold_target ::
    "bool \<Rightarrow> string \<Rightarrow> modality \<Rightarrow> string option \<Rightarrow> string \<Rightarrow> bool \<Rightarrow> scaffold_error + (path, string) dict \<times> bool" where
  "scaffold_target present target_id m ds h with_parser =
     (if \<not> target_name_ok target_id then Inl (ScaffoldError ''target id must match'')
      else if present then Inl (ScaffoldError ''already exists'')
      else (case render_manifest target_id m ds h of (manifest, admission) \<Rightarrow>
        Inr (scaffold_files target_id m manifest with_parser, admission)))"

text \<open>What is on disk afterwards.\<close>
definition scaffolded :: "string \<Rightarrow> (path, string) dict \<Rightarrow> target_dir" where
  "scaffolded target_id files = \<lparr>td_name = target_id, td_files = sort_key fst files, td_fixtures = []\<rparr>"

subsection \<open>A skeleton is on the surface and is no target\<close>

lemma skeleton_names: "test_file ''test_golden.py''" "golden_file_name ''ordinary_day.yaml''"
  by code_simp+

lemma scaffold_surface:
  assumes "scaffold_target present target_id m ds h with_parser = Inr (files, admission)"
  shows "(p, t) \<in> set files \<Longrightarrow> classify_file p = None" "target_name_ok target_id" "\<not> present"
    "([''manifest.yaml''], fst (render_manifest target_id m ds h)) \<in> set files"
  using assms
  by (auto simp: scaffold_target_def scaffold_files_def classify_file_def ALLOWED_TOP_FILES_def skeleton_names
      split: if_splits prod.splits)

lemma lines_from_after: "set (lines_from [] rest) \<subseteq> set (lines_from cur (a @ CHR 0x0A # rest))"
proof (induction cur a rule: lines_from.induct)
  case (1 cur)
  have "line_end (CHR 0x0A)" by code_simp
  then show ?case by (cases rest) auto
next
  case (2 cur c)
  have "line_end (CHR 0x0A)" by code_simp
  then show ?case by (cases rest) auto
next
  case (3 cur c d s)
  then show ?case by auto
qed

lemma lines_from_line: "list_all (\<lambda>c. \<not> line_end c) l \<Longrightarrow> rev cur @ l \<in> set (lines_from cur (l @ CHR 0x0A # rest))"
proof (induction l arbitrary: cur)
  case Nil
  have "line_end (CHR 0x0A)" by code_simp
  then show ?case by (cases rest) auto
next
  case (Cons c l)
  have "line_end (CHR 0x0D)" by code_simp
  with Cons.prems have c: "\<not> line_end c" "c \<noteq> CHR 0x0D" by auto
  obtain x ys where y: "l @ CHR 0x0A # rest = x # ys" by (cases l) auto
  have "lines_from cur (c # x # ys) = lines_from (c # cur) (x # ys)" using c by simp
  with Cons.IH [of "c # cur"] Cons.prems y show ?case by simp
qed

lemma line_of_text:
  assumes "list_all (\<lambda>c. \<not> line_end c) l"
  shows "l \<in> set (splitlines (lines_text (a @ l' # l # b)))"
proof -
  have "lines_text (a @ l' # l # b) = (lines_text a @ l') @ CHR 0x0A # (l @ CHR 0x0A # lines_text b)" by (simp add: lines_text_def)
  moreover have "l \<in> set (lines_from [] (l @ CHR 0x0A # lines_text b))" using lines_from_line [OF assms, of "[]"] by simp
  ultimately show ?thesis
    using lines_from_after [of "l @ CHR 0x0A # lines_text b" "[]" "lines_text a @ l'"] unfolding splitlines_def by auto
qed

lemma placeholder_line:
  assumes "l \<in> set (splitlines t)" and "rx_search PLACEHOLDER l" and "placeholder_file p"
  shows "\<exists>i. Placeholder_left p i \<in> set (check_placeholders p t)"
proof -
  obtain j where "j < length (splitlines t)" "splitlines t ! j = l" using assms(1) by (auto simp: in_set_conv_nth)
  then have "(Suc j, l) \<in> set (enumerate 1 (splitlines t))" by (force simp: in_set_enumerate_eq)
  with assms(2,3) show ?thesis unfolding check_placeholders_def by force
qed

text \<open>Whatever the arguments, a skeleton holds only files of the surface, and the surface rules refuse it for
  want of a fixture and for a placeholder in its manifest.\<close>
theorem skeleton_is_no_target:
  assumes "scaffold_target present target_id m ds h with_parser = Inr (files, admission)"
  shows "No_fixture \<in> set (check_target lib (scaffolded target_id files))"
    and "\<exists>i. Placeholder_left [''manifest.yaml''] i \<in> set (check_target lib (scaffolded target_id files))"
    and "Outside_surface p r \<notin> set (concat (map (file_problems lib) (td_files (scaffolded target_id files))))"
proof -
  let ?td = "scaffolded target_id files" and ?t = "fst (render_manifest target_id m ds h)"
  note s = scaffold_surface [OF assms]
  show "No_fixture \<in> set (check_target lib ?td)"
    by (simp add: check_target_def completeness_def fixture_names_def scaffolded_def)
  have "\<exists>a b. ?t = lines_text (a @ (''target_id: '' @ target_id) # ''description: REPLACE_ME'' # b)"
    unfolding render_manifest_def head_lines_def REPLACE_ME_def Let_def fst_conv
    by (rule exI [of _ "[_, _, _]"]) auto
  moreover have "list_all (\<lambda>c. \<not> line_end c) ''description: REPLACE_ME''" "rx_search PLACEHOLDER ''description: REPLACE_ME''"
    by code_simp+
  ultimately obtain i where i: "Placeholder_left [''manifest.yaml''] i \<in> set (check_placeholders [''manifest.yaml''] ?t)"
    using placeholder_line line_of_text by (metis placeholder_file_def)
  have "([''manifest.yaml''], ?t) \<in> set (td_files ?td)" using s(4) by (simp add: scaffolded_def)
  moreover from this s(1) [OF s(4)] have "set (check_placeholders [''manifest.yaml''] ?t) \<subseteq> set (file_problems lib ([''manifest.yaml''], ?t))"
    by (auto simp: file_problems_def)
  ultimately show "\<exists>i. Placeholder_left [''manifest.yaml''] i \<in> set (check_target lib ?td)"
    using i unfolding check_target_def by fastforce
  show "Outside_surface p r \<notin> set (concat (map (file_problems lib) (td_files ?td)))"
    using s(1) by (auto simp: scaffolded_def file_problems_def check_tokens_def check_placeholders_def split: if_splits)
qed

end
