(* ===== verification/Surface_Text.thy ===== *)
theory Surface_Text
  imports Scaffold
begin

text \<open>
  The texts of the problems that the surface rules (src/energy_platform/harness/surface.py) and the admission
  of a manifest (src/energy_platform/contracts/manifest.py) report. The tools of the MCP server compare
  problems as texts. Texts of exceptions and values that are no texts are the argument \<open>detail\<close>; a long
  dash is a hyphen.
\<close>

definition slash_path :: "path \<Rightarrow> string" where
  "slash_path p = concat (map (\<lambda>c. CHR ''/'' # c) p)"

definition par :: string where
  "par = [CHR 0xA7]"

definition normalise_hint :: "string \<Rightarrow> string" where
  "normalise_hint what =
     (if what = ''sign flip'' then ''(declare `sign` in the mapping, 05 C-03)''
      else if what = ''timezone conversion'' then ''(declare `time.timezone` in the mapping, 05 C-03)''
      else if what = ''interval arithmetic'' then ''(the platform tiles the day, 04 '' @ par @ ''2.2; 05 C-03)''
      else ''(units and factors belong to the mapping, 05 C-03)'')"

text \<open>What follows the path of the parser.\<close>
definition parser_text :: "string \<Rightarrow> parser_problem \<Rightarrow> string" where
  "parser_text detail q = (case q of
       Relative_import l \<Rightarrow> '':'' @ str_nat l @ '': relative import in parser''
     | Import_refused l name \<Rightarrow> '':'' @ str_nat l @ '': import not allowed in a parser: '' @ name
     | Positional_access l \<Rightarrow> '':'' @ str_nat l @ '': positional access (key by header or element name, 05 C-04)''
     | Normalise l what \<Rightarrow> '':'' @ str_nat l @ '': normalise code in a parser: '' @ what @ '' '' @ normalise_hint what
     | Duplicated_utility l f \<Rightarrow> '':'' @ str_nat l @ '': duplicated platform utility '' @ repr_text f
         @ '' (import it from energy_platform.contracts, 05 C-06)''
     | Not_one_parser n \<Rightarrow> '': parser.py must define exactly one class with a parse() method (found '' @ str_nat n @ ''; 04 '' @ par @ ''3.1)''
     | Syntax_error \<Rightarrow> '': syntax error: '' @ detail)"

text \<open>\<open>target\<close> is the directory of the target named \<open>name\<close>.\<close>
definition surface_text :: "(surface_problem \<Rightarrow> string) \<Rightarrow> string \<Rightarrow> string \<Rightarrow> surface_problem \<Rightarrow> string" where
  "surface_text detail target name q = (let file = (\<lambda>p. target @ slash_path p) in case q of
       Bad_target_id \<Rightarrow> target @ '': target id must match ^[a-z][a-z0-9_]{2,63}$''
     | Manifest_missing \<Rightarrow> target @ '': manifest.yaml missing''
     | Manifest_not_yaml \<Rightarrow> file [''manifest.yaml''] @ '': not valid YAML: '' @ detail q
     | Wrong_target_id declared \<Rightarrow> file [''manifest.yaml''] @ '': target_id ''
         @ (case declared of Some s \<Rightarrow> repr_text s | None \<Rightarrow> detail q)
         @ '' must equal the directory name '' @ repr_text name @ '' (05 C-19)''
     | Outside_surface p reason \<Rightarrow> file p @ '': '' @ reason
     | Init_not_empty p \<Rightarrow> file p @ '': __init__.py must be empty''
     | Forbidden_token p i reason \<Rightarrow> file p @ '':'' @ str_nat i @ '': '' @ reason
     | Placeholder_left p i \<Rightarrow> file p @ '':'' @ str_nat i @ '': placeholder left in the target (05 C-13)''
     | In_parser p r \<Rightarrow> file p @ parser_text (detail q) r
     | Missing_init p \<Rightarrow> file p @ '': missing (packaging, ADR-027 '' @ par @ ''1)''
     | No_fixture \<Rightarrow> target @ '': no fixture - record one with `energyctl record-fixture` (05 C-14)''
     | Not_a_fixture n \<Rightarrow> file [''fixtures'', n] @ '': not a Bronze object: '' @ detail q @ '' (05 C-18)''
     | No_golden \<Rightarrow> target @ '': no golden under tests/golden/ (05 C-15)''
     | Bad_golden p \<Rightarrow> file p @ '': '' @ detail q @ '' (05 C-16)''
     | Golden_without_fixture p f \<Rightarrow> file p @ '': fixture '' @ repr_text f @ '' does not exist (05 C-15)''
     | No_test_module \<Rightarrow> target @ '': no tests/test_*.py module (05 C-15)'')"

definition check_lines :: "(surface_problem \<Rightarrow> string) \<Rightarrow> string \<Rightarrow> surface_lib \<Rightarrow> target_dir \<Rightarrow> string list" where
  "check_lines detail target lib td = map (surface_text detail target (td_name td)) (check_target lib td)"

definition unloadable_lines :: "string \<Rightarrow> target_dir \<Rightarrow> string list" where
  "unloadable_lines target td = (if \<not> unloadable_parser td then [] else
     [target @ ''/parser.py: custom parsers are not loaded by the platform yet (README, G13): the generic parser would be used and your parser ignored ''
      @ ''- remove parser.py, or stop and ask for a platform loader (a platform PR, not a target PR)''])"

subsection \<open>Errors of the admission\<close>

text \<open>\<open>repr\<close> of a list and of a tuple of texts.\<close>
definition repr_list :: "string list \<Rightarrow> string" where
  "repr_list ss = ''['' @ join_with '', '' (map repr_text ss) @ '']''"

definition repr_tuple :: "string list \<Rightarrow> string" where
  "repr_tuple ss = (case ss of [s] \<Rightarrow> ''('' @ repr_text s @ '',)'' | _ \<Rightarrow> ''('' @ join_with '', '' (map repr_text ss) @ '')'')"

definition given_dimension :: "manifest \<Rightarrow> string \<Rightarrow> string" where
  "given_dimension m key = (case dget (mb_dimensions (m_mapping m)) key of Some v \<Rightarrow> v | None \<Rightarrow> [])"

definition manifest_error_text :: "manifest \<Rightarrow> dataset_contract \<Rightarrow> manifest_error \<Rightarrow> string" where
  "manifest_error_text m c e = (let did = ct_dataset_id (m_contract m) in case e of
       Unit_mismatch name \<Rightarrow> ''metric '' @ name @ '': unit ''
         @ (case dget (mb_metrics (m_mapping m)) name of Some mm \<Rightarrow> repr_text (mm_unit mm) | None \<Rightarrow> [])
         @ '' must be the registry unit '' @ (case metric_of c name of Some spec \<Rightarrow> repr_text (ms_unit spec) | None \<Rightarrow> [])
     | Dimension_keys \<Rightarrow> ''mapping.dimensions keys '' @ repr_list (sort (dkeys (mb_dimensions (m_mapping m))))
         @ '' must be exactly '' @ repr_list (sort (manifest_dimensions c)) @ '' for '' @ did
     | Dimension_fixed key \<Rightarrow> ''dimension '' @ key @ ''='' @ repr_text (given_dimension m key) @ '' must be ''
         @ (case dget (dc_fixed_dimensions c) key of Some v \<Rightarrow> repr_text v | None \<Rightarrow> [])
     | Dimension_not_allowed key \<Rightarrow> ''dimension '' @ key @ ''='' @ repr_text (given_dimension m key) @ '' not in ''
         @ (case dget (dc_allowed_dimension_values c) key of Some vs \<Rightarrow> repr_tuple vs | None \<Rightarrow> [])
     | Version_needed \<Rightarrow> did @ '' carries `version` in its identity key: mapping.source_version needed''
     | Resolution_not_declared \<Rightarrow> ''resolution ''
         @ (case fr_constant (tm_resolution (mb_time (m_mapping m))) of Some r \<Rightarrow> repr_text r | None \<Rightarrow> [])
         @ '' is not declared for '' @ did @ '': '' @ repr_tuple (dc_resolutions c))"

text \<open>Errors exist only where the dataset is registered.\<close>
definition error_texts :: "manifest \<Rightarrow> manifest_error list \<Rightarrow> string list" where
  "error_texts m es = (case dataset (ct_dataset_id (m_contract m)) of
       None \<Rightarrow> [] | Some c \<Rightarrow> map (manifest_error_text m c) es)"

definition status_text :: "validation_status \<Rightarrow> string" where
  "status_text st = (case st of Vs_ok \<Rightarrow> ''OK'' | Vs_invalid \<Rightarrow> ''INVALID'' | Vs_admission_required \<Rightarrow> ''ADMISSION_REQUIRED'')"

subsection \<open>The admission request\<close>

text \<open>\<open>text.replace(old, new)\<close> for a text \<open>old\<close> that is not empty.\<close>
fun replace_all :: "string \<Rightarrow> string \<Rightarrow> string \<Rightarrow> string" where
  "replace_all old new [] = []"
| "replace_all old new (c # s) =
     (if old \<noteq> [] \<and> starts_with old (c # s) then new @ replace_all old new (drop (length old - 1) s)
      else c # replace_all old new s)"

definition ticked :: "string list \<Rightarrow> string" where
  "ticked ss = join_with '', '' (map (\<lambda>s. ''`'' @ s @ ''`'') ss)"

definition or_text :: "string \<Rightarrow> string \<Rightarrow> string" where
  "or_text s other = (if s = [] then other else s)"

definition declared_line :: "string \<times> metric_mapping \<Rightarrow> string" where
  "declared_line nm = (case nm of (name, m) \<Rightarrow> ''| `'' @ name @ ''` | `'' @ mm_unit m @ ''` | ''
     @ (if mm_sign m = As_published then ''as_published'' else ''inverted'') @ '' | '' @ separator_text (mm_decimal_separator m) @ '' |'')"

text \<open>The values of the template (src/energy_platform/harness/admission.py), in the order of their replacement.\<close>
definition request_values :: "manifest \<Rightarrow> validation_result \<Rightarrow> string \<Rightarrow> (string \<times> string) list" where
  "request_values m r today = (let gaps = vr_missing r in
     [(''target_id'', m_target_id m),
      (''date'', today),
      (''status'', status_text (vr_status r)),
      (''dataset_id'', ct_dataset_id (m_contract m)),
      (''missing_datasets'', or_text (ticked (ag_datasets gaps)) ''none''),
      (''missing_metrics'', or_text (ticked (map (\<lambda>(d, n). d @ ''.'' @ n) (ag_metrics gaps))) ''none''),
      (''missing_hosts'', or_text (ticked (ag_hosts gaps)) ''none''),
      (''missing_insecure_hosts'', or_text (ticked (ag_insecure_hosts gaps)) ''none''),
      (''errors'', or_text (join_with [CHR 0x0A] (map (\<lambda>e. ''- '' @ e) (error_texts m (vr_errors r)))) ''- none''),
      (''license'', m_license m),
      (''terms_url'', m_terms_url m),
      (''allowed_hosts'', ticked (m_allowed_hosts m)),
      (''modality'', modality_text (m_modality m)),
      (''declared_metrics'', join_with [CHR 0x0A] (map declared_line (mb_metrics (m_mapping m))))])"

definition fill_in :: "(string \<times> string) list \<Rightarrow> string \<Rightarrow> string" where
  "fill_in vs template = foldl (\<lambda>t (k, v). replace_all (''{{'' @ k @ ''}}'') v t) template vs"

definition render_request :: "manifest \<Rightarrow> validation_result \<Rightarrow> string \<Rightarrow> string \<Rightarrow> string" where
  "render_request m r today template = fill_in (request_values m r today) template"

end
