(* ===== verification/Checkout.thy ===== *)
theory Checkout
  imports Surface_Text
begin

text \<open>
  The checkout a tool server works on: files with their bytes and directories, by absolute path, with the
  file operations the tools use (pathlib), and the recording of fixtures in it
  (src/energy_platform/harness/fixtures.py, \<open>write_fixture\<close> of src/energy_platform/bronze/fixtures.py). Paths
  are real ones; symbolic links are seen by \<open>resolve\<close> only, which is an argument of the tools. An
  \<open>OSError\<close> is none.
\<close>

subsection \<open>Files\<close>

record checkout =
  ck_files :: "(path, bytes) dict"
  ck_dirs :: "path list"

definition is_file :: "checkout \<Rightarrow> path \<Rightarrow> bool" where
  "is_file c p \<longleftrightarrow> dget (ck_files c) p \<noteq> None"

definition is_dir :: "checkout \<Rightarrow> path \<Rightarrow> bool" where
  "is_dir c p \<longleftrightarrow> p \<in> set (ck_dirs c)"

definition prefixes_of :: "path \<Rightarrow> path list" where
  "prefixes_of p = map (\<lambda>n. take n p) [0..<Suc (length p)]"

text \<open>\<open>mkdir(parents=True, exist_ok=True)\<close>\<close>
definition mkdirs :: "path \<Rightarrow> checkout \<Rightarrow> checkout option" where
  "mkdirs p c = (if list_ex (is_file c) (prefixes_of p) then None
     else Some (c\<lparr>ck_dirs := ck_dirs c @ filter (\<lambda>d. \<not> is_dir c d) (prefixes_of p)\<rparr>))"

definition write_bytes :: "path \<Rightarrow> bytes \<Rightarrow> checkout \<Rightarrow> checkout option" where
  "write_bytes p b c = (if is_dir c p then None else Some (c\<lparr>ck_files := dset p b (ck_files c)\<rparr>))"

definition read_bytes :: "checkout \<Rightarrow> path \<Rightarrow> bytes option" where
  "read_bytes c p = dget (ck_files c) p"

definition unlink :: "path \<Rightarrow> checkout \<Rightarrow> checkout" where
  "unlink p c = c\<lparr>ck_files := filter (\<lambda>(q, b). q \<noteq> p) (ck_files c)\<rparr>"

definition child_of :: "path \<Rightarrow> path \<Rightarrow> bool" where
  "child_of d p \<longleftrightarrow> p \<noteq> [] \<and> butlast p = d"

definition dir_empty :: "checkout \<Rightarrow> path \<Rightarrow> bool" where
  "dir_empty c d \<longleftrightarrow> \<not> list_ex (child_of d) (dkeys (ck_files c)) \<and> \<not> list_ex (child_of d) (ck_dirs c)"

definition rmdir :: "path \<Rightarrow> checkout \<Rightarrow> checkout" where
  "rmdir d c = c\<lparr>ck_dirs := filter (\<lambda>e. e \<noteq> d) (ck_dirs c)\<rparr>"

text \<open>The names in a directory, with whether each is a directory.\<close>
definition listdir :: "checkout \<Rightarrow> path \<Rightarrow> (string \<times> bool) list" where
  "listdir c d = map (\<lambda>p. (last p, False)) (filter (child_of d) (dkeys (ck_files c)))
     @ map (\<lambda>p. (last p, True)) (filter (child_of d) (ck_dirs c))"

text \<open>The files below a directory, sorted by path (\<open>sorted(target.rglob("*"))\<close>).\<close>
definition below_dir :: "path \<Rightarrow> path \<Rightarrow> bool" where
  "below_dir d p \<longleftrightarrow> take (length d) p = d \<and> length d < length p"

definition files_below :: "checkout \<Rightarrow> path \<Rightarrow> (path, bytes) dict" where
  "files_below c d = sort_key fst (map (\<lambda>(p, b). (drop (length d) p, b)) (filter (\<lambda>(p, b). below_dir d p) (ck_files c)))"

definition tree_at :: "checkout \<Rightarrow> path \<Rightarrow> target_tree" where
  "tree_at c target = \<lparr>tt_name = (if target = [] then [] else last target), tt_files = files_below c target,
     tt_fixtures = map fst (filter snd (listdir c (target @ [''fixtures''])))\<rparr>"

text \<open>Writing several files, each after its parent directory.\<close>
fun write_all :: "(path \<times> bytes) list \<Rightarrow> checkout \<Rightarrow> checkout option" where
  "write_all [] c = Some c"
| "write_all ((p, b) # rest) c =
     Option.bind (mkdirs (butlast p) c) (\<lambda>c1. Option.bind (write_bytes p b c1) (write_all rest))"

subsection \<open>Recording a fixture\<close>

text \<open>\<open>Fixture_raised\<close> is an exception that is neither a \<open>FixtureError\<close> nor an \<open>OSError\<close>.\<close>
datatype fixture_exc = FixtureError string | Os_error | Fixture_raised string

definition DEFAULT_CONTENT_TYPES :: "decode_kind \<Rightarrow> string" where
  "DEFAULT_CONTENT_TYPES k = (case k of Dk_soap \<Rightarrow> ''text/xml; charset=utf-8'' | Dk_xml \<Rightarrow> ''application/xml''
     | Dk_json \<Rightarrow> ''application/json'' | Dk_xlsx \<Rightarrow> ''application/vnd.openxmlformats-officedocument.spreadsheetml.sheet''
     | Dk_csv \<Rightarrow> ''text/csv'' | Dk_html_table \<Rightarrow> ''text/html; charset=utf-8'')"

definition fixture_dir :: "checkout \<Rightarrow> path \<Rightarrow> string \<Rightarrow> fixture_exc + path" where
  "fixture_dir c target name =
     (if \<not> fixture_name_ok (before_end name) then Inl (FixtureError ''fixture name must match'')
      else (let d = target @ [''fixtures'', name] in
        if is_file c d \<or> is_dir c d then Inl (FixtureError ''already exists; fixtures are immutable'') else Inr d))"

text \<open>\<open>write_fixture\<close>; \<open>entry_text\<close> is \<open>to_json\<close> with the UTF-8 codec.\<close>
definition write_fixture ::
    "(bytes \<Rightarrow> string) \<Rightarrow> (capture_entry \<Rightarrow> bytes) \<Rightarrow> path \<Rightarrow> capture_entry \<Rightarrow> bytes \<Rightarrow> checkout \<Rightarrow> (fixture_exc + unit) \<times> checkout" where
  "write_fixture sha entry_text d entry payload c =
     (if sha payload \<noteq> ce_payload_sha256 entry then (Inl (Fixture_raised ''BronzeError''), c)
      else case write_all [(d @ [''blob''], payload), (d @ [''entry.json''], entry_text entry)] c of
        None \<Rightarrow> (Inl Os_error, c)
      | Some c' \<Rightarrow> (Inr (), c'))"

text \<open>\<open>if x\<close> for an optional text: none and the empty text are false.\<close>
definition given_text :: "string option \<Rightarrow> string \<Rightarrow> string" where
  "given_text t other = (if truthy t then the t else other)"

text \<open>The entry of a saved payload; \<open>urls\<close> are those of the manifest's fetch block.\<close>
definition file_entry ::
    "(bytes \<Rightarrow> string) \<Rightarrow> manifest \<Rightarrow> instant \<Rightarrow> string option \<Rightarrow> string \<Rightarrow> bytes \<Rightarrow> capture_entry" where
  "file_entry sha m when content_type url payload =
     \<lparr>ce_capture_id = capture_id (m_target_id m) when 1, ce_target_id = m_target_id m, ce_scheduled_for = when,
      ce_attempt = 1, ce_fetched_at = when, ce_source_url = url, ce_http_status = 200,
      ce_content_type = Some (given_text content_type (DEFAULT_CONTENT_TYPES (ct_decode (m_contract m)))),
      ce_payload_sha256 = sha payload, ce_raw_ref = blob_key (sha payload), ce_size = length payload,
      ce_content_changed = True, ce_source_transport = ct_source_transport (m_contract m),
      ce_source_published_at = None, ce_tier = Tier_hot, ce_etag = None, ce_last_modified = None, ce_hops = []\<rparr>"

definition record_from_file ::
    "(bytes \<Rightarrow> string) \<Rightarrow> (capture_entry \<Rightarrow> bytes) \<Rightarrow> path \<Rightarrow> manifest \<Rightarrow> string \<Rightarrow> path \<Rightarrow> instant \<Rightarrow> string option
     \<Rightarrow> checkout \<Rightarrow> (fixture_exc + capture_entry) \<times> checkout" where
  "record_from_file sha entry_text target m name payload_path when content_type c =
     (case fixture_dir c target name of
        Inl e \<Rightarrow> (Inl e, c)
      | Inr d \<Rightarrow> (case read_bytes c payload_path of
          None \<Rightarrow> (Inl Os_error, c)
        | Some payload \<Rightarrow> (case fetch_urls (m_fetch m) of
            [] \<Rightarrow> (Inl (Fixture_raised ''IndexError''), c)
          | url # _ \<Rightarrow> (let entry = file_entry sha m when content_type url payload in
              case write_fixture sha entry_text d entry payload c of
                (Inl e, c') \<Rightarrow> (Inl e, c')
              | (Inr u, c') \<Rightarrow> (Inr entry, c')))))"

text \<open>One capture into a scratch Bronze, with no ledger: every call of the store finds it unavailable, and no
  other writer is at work.\<close>
definition scratch_runtime :: "runtime \<Rightarrow> manifest \<Rightarrow> runtime" where
  "scratch_runtime rt m = (with_manifest rt m)\<lparr>rt_up := (\<lambda>_. False), rt_others := (\<lambda>_ b. b)\<rparr>"

definition scratch_world :: world where
  "scratch_world = \<lparr>w_bronze = \<lparr>br_hot = [], br_cold = None, br_log = \<lparr>lg_entries = [], lg_invalidations = []\<rparr>\<rparr>,
     w_store = empty_store, w_tick = 0\<rparr>"

definition scratch_capture :: "runtime \<Rightarrow> manifest \<Rightarrow> instant \<Rightarrow> fixture_exc + capture_entry \<times> bytes" where
  "scratch_capture rt m when =
     (case capture (scratch_runtime rt m) when None False AK_capture scratch_world of
        (Inl e, w) \<Rightarrow> Inl (Fixture_raised ''exception of the capture'')
      | (Inr r, w) \<Rightarrow> (case cp_entry r of
            None \<Rightarrow> Inl (FixtureError ''capture failed'')
          | Some entry \<Rightarrow> if cp_outcome r \<noteq> AO_ok then Inl (FixtureError ''capture failed'')
              else (case bronze_read (rt_sha rt) (w_bronze w) (ce_raw_ref entry) of
                  Inl e \<Rightarrow> Inl (Fixture_raised ''BronzeError'')
                | Inr (payload, tr) \<Rightarrow> Inr (entry, payload))))"

definition record_live ::
    "runtime \<Rightarrow> (capture_entry \<Rightarrow> bytes) \<Rightarrow> path \<Rightarrow> manifest \<Rightarrow> string \<Rightarrow> instant \<Rightarrow> checkout
     \<Rightarrow> (fixture_exc + capture_entry) \<times> checkout" where
  "record_live rt entry_text target m name when c =
     (case fixture_dir c target name of
        Inl e \<Rightarrow> (Inl e, c)
      | Inr d \<Rightarrow> (case scratch_capture rt m when of
          Inl e \<Rightarrow> (Inl e, c)
        | Inr (entry, payload) \<Rightarrow> (case write_fixture (rt_sha rt) entry_text d entry payload c of
            (Inl e, c') \<Rightarrow> (Inl e, c')
          | (Inr u, c') \<Rightarrow> (Inr entry, c'))))"

text \<open>\<open>import_fixture\<close> of src/energy_platform/bronze/fixtures.py: a fixture as if it had been captured.\<close>
definition import_fixture :: "harness_lib \<Rightarrow> target_tree \<Rightarrow> string \<Rightarrow> bronze \<Rightarrow> bronze_error + capture_entry \<times> bronze" where
  "import_fixture lib tt name b = (case load_fixture lib tt name of
       None \<Rightarrow> Inl (BronzeError ''not a Bronze object'')
     | Some (entry, payload) \<Rightarrow> bindR (bronze_ingest (rt_sha (hl_runtime lib)) entry payload b) (\<lambda>b'. Inr (entry, b')))"

text \<open>\<open>write_request\<close> of src/energy_platform/harness/admission.py; none is an exception.\<close>
definition write_request ::
    "(string \<Rightarrow> bytes) \<Rightarrow> manifest \<Rightarrow> path \<Rightarrow> string \<Rightarrow> string \<Rightarrow> checkout \<Rightarrow> checkout option" where
  "write_request encode m out_dir today template c = (case validate_manifest m of
       Inl e \<Rightarrow> None
     | Inr v \<Rightarrow> Option.bind (mkdirs out_dir c)
         (write_bytes (out_dir @ [m_target_id m @ ''.md'']) (encode (render_request m v today template))))"

lemma write_all_reads:
  assumes "write_all [(p, a), (q, b)] c = Some c'" and "p \<noteq> q"
  shows "read_bytes c' p = Some a" "read_bytes c' q = Some b"
  using assms by (auto simp: read_bytes_def bind_eq_Some_conv write_bytes_def mkdirs_def split: if_splits)

text \<open>What \<open>write_fixture\<close> writes is what \<open>load_fixture\<close> reads: the entry and the payload of the recording.\<close>
lemma recorded_fixture_reads:
  assumes "write_fixture sha entry_text d entry payload c = (Inr u, c')"
  shows "read_bytes c' (d @ [''blob'']) = Some payload" "read_bytes c' (d @ [''entry.json'']) = Some (entry_text entry)"
    "sha payload = ce_payload_sha256 entry"
proof -
  from assms have w: "write_all [(d @ [''blob''], payload), (d @ [''entry.json''], entry_text entry)] c = Some c'"
    and sha: "sha payload = ce_payload_sha256 entry"
    by (auto simp: write_fixture_def split: if_splits option.splits simp del: write_all.simps)
  from write_all_reads [OF w] sha
  show "read_bytes c' (d @ [''blob'']) = Some payload" "read_bytes c' (d @ [''entry.json'']) = Some (entry_text entry)"
    "sha payload = ce_payload_sha256 entry" by simp_all
qed

end
