(* ===== verification/Mcp_Tools.thy ===== *)
theory Mcp_Tools
  imports Checkout
begin

text \<open>
  The tools of the MCP server (src/energy_platform/mcp/tools.py): the guards on reads and writes, the journal
  of a session, and one operation per tool, as functions of the server's state: the checkout, the journal
  and the outbox. Arguments have the types the tools declare. \<open>run_target_tests\<close>
  (src/energy_platform/harness/runner.py) runs the target's own tests, which is code outside the
  repository: an argument that may do anything to the checkout.
\<close>

subsection \<open>State\<close>

text \<open>\<open>ToolError\<close>, or an exception that is none, which the server does not catch.\<close>
datatype tool_exc = ToolError string | Tool_raised string

datatype outbox_file = Outbox_text string | Outbox_json json

record mcp_state =
  ms_checkout :: checkout
  ms_journal :: "(string, string list) dict"
  ms_outbox :: "(string, outbox_file) dict"

text \<open>What is outside: \<open>resolve()\<close>, the libraries of the harness, UTF-8, the texts of exceptions, whether the
  network is allowed, the serialisation of an entry, \<open>datetime.fromisoformat\<close> (none is its \<open>ValueError\<close>, no
  instant a time without an offset), \<open>strftime\<close> of the bundle, pytest, and the date of today.\<close>
record mcp_env =
  me_repo :: path
  me_resolve :: "path \<Rightarrow> path"
  me_lib :: harness_lib
  me_decode :: "bytes \<Rightarrow> string option"
  me_encode :: "string \<Rightarrow> bytes"
  me_detail :: "surface_problem \<Rightarrow> string"
  me_allow_network :: bool
  me_entry_text :: "capture_entry \<Rightarrow> bytes"
  me_iso :: "string \<Rightarrow> instant option option"
  me_created :: "instant \<Rightarrow> string"
  me_pytest :: "path \<Rightarrow> checkout \<Rightarrow> (int option \<times> string) \<times> checkout"

subsection \<open>Guards\<close>

definition READ_ROOTS :: "string list" where
  "READ_ROOTS = [''docs'', ''targets'', ''examples'', ''schemas'', ''README.md'', ''CLAUDE.md'', ''AGENTS.md'']"

definition DENY_PARTS :: "string list" where
  "DENY_PARTS = [''.git'', ''.venv'', ''__pycache__'', ''.env'', ''secrets'', ''.ssh'', ''.kube'']"

definition DENY_SUFFIXES :: "string list" where
  "DENY_SUFFIXES = [''.pem'', ''.key'', ''.p12'', ''.pfx'', ''.jks'', ''.crt'', ''.lock'']"

text \<open>\<open>DENY_NAMES.match\<close>: the dot stops at a newline, and \<open>$\<close> passes before a final one.\<close>
definition deny_name :: "string \<Rightarrow> bool" where
  "deny_name name = (let s = before_end (map py_lower_char name) in
     CHR 0x0A \<notin> set s \<and> (starts_with ''.env'' s \<or> contains ''secret'' s \<or> contains ''credential'' s
       \<or> starts_with ''id_rsa'' s \<or> starts_with ''kubeconfig'' s))"

definition MAX_READ :: nat where "MAX_READ = 64 * 1024"
definition MAX_WRITE :: nat where "MAX_WRITE = 2 * 1024 * 1024"
definition MAX_LIST :: nat where "MAX_LIST = 500"

definition MODALITIES :: "modality list" where
  "MODALITIES = [Soap_xml, Dated_file, Html_table, Rest_json, Rest_xml]"

text \<open>The components of a relative path under \<open>/\<close> of pathlib.\<close>
definition rel_parts :: "string \<Rightarrow> path" where
  "rel_parts rel = filter (\<lambda>x. x \<noteq> [] \<and> x \<noteq> ''.'') (split_on (CHR ''/'') rel)"

definition bad_relative :: "string \<Rightarrow> bool" where
  "bad_relative rel \<longleftrightarrow> rel = [] \<or> hd rel = CHR ''/'' \<or> hd rel = CHR ''~'' \<or> CHR 0x5C \<in> set rel"

text \<open>\<open>(base / rel).resolve()\<close>: a NUL character is a \<open>ValueError\<close>.\<close>
definition resolved :: "mcp_env \<Rightarrow> path \<Rightarrow> string \<Rightarrow> tool_exc + path" where
  "resolved env base rel = (if CHR 0x00 \<in> set rel then Inl (Tool_raised ''embedded null character'')
     else Inr (me_resolve env (base @ rel_parts rel)))"

text \<open>\<open>Path.suffix\<close>\<close>
definition suffix_of :: "string \<Rightarrow> string" where
  "suffix_of name = (case split_last (CHR ''.'') name of
       Some (a, b) \<Rightarrow> if a \<noteq> [] \<and> b \<noteq> [] then CHR ''.'' # b else []
     | None \<Rightarrow> [])"

definition inside :: "path \<Rightarrow> path \<Rightarrow> bool" where
  "inside d p \<longleftrightarrow> take (length d) p = d"

definition denied :: "path \<Rightarrow> bool" where
  "denied parts \<longleftrightarrow> list_ex (\<lambda>p. p \<in> set DENY_PARTS \<or> deny_name p) parts"

definition confine :: "mcp_env \<Rightarrow> string \<Rightarrow> tool_exc + path" where
  "confine env rel =
     (if bad_relative rel then Inl (ToolError ''path must be repository-relative'')
      else bindR (resolved env (me_repo env) rel) (\<lambda>candidate.
        if \<not> inside (me_repo env) candidate then Inl (ToolError ''is outside the repository'')
        else if denied (drop (length (me_repo env)) candidate) then Inl (ToolError ''is not readable through this tool'')
        else if candidate \<noteq> [] \<and> suffix_of (last candidate) \<in> set DENY_SUFFIXES then Inl (ToolError ''is not readable through this tool'')
        else Inr candidate))"

definition target_path :: "mcp_env \<Rightarrow> string \<Rightarrow> path" where
  "target_path env target_id = me_repo env @ [''targets'', target_id]"

definition target_guard :: "mcp_env \<Rightarrow> string \<Rightarrow> tool_exc + path" where
  "target_guard env target_id = (if \<not> target_name_ok target_id then Inl (ToolError ''target id must match'')
     else Inr (target_path env target_id))"

definition existing_target :: "mcp_env \<Rightarrow> string \<Rightarrow> checkout \<Rightarrow> tool_exc + path" where
  "existing_target env target_id c = bindR (target_guard env target_id) (\<lambda>target.
     if \<not> is_file c (target @ [''manifest.yaml'']) then Inl (ToolError ''does not exist (scaffold_target first)'')
     else Inr target)"

text \<open>\<open>_journal\<close>: the value of a key is a set.\<close>
definition journal :: "string \<Rightarrow> path \<Rightarrow> mcp_state \<Rightarrow> mcp_state" where
  "journal target_id rel st = (let old = (case dget (ms_journal st) target_id of None \<Rightarrow> [] | Some xs \<Rightarrow> xs);
       x = repo_path target_id rel in
     st\<lparr>ms_journal := dset target_id (if x \<in> set old then old else old @ [x]) (ms_journal st)\<rparr>)"

text \<open>The paths of the session.\<close>
definition journaled :: "mcp_state \<Rightarrow> string list" where
  "journaled st = concat (dvalues (ms_journal st))"

subsection \<open>Reading\<close>

text \<open>The status of the manifest of a target: refused with a text, or checked.\<close>
record manifest_summary =
  su_modality :: modality
  su_dataset_id :: string
  su_metrics :: "string list"
  su_allowed_hosts :: "string list"
  su_license :: string

datatype tool_result =
    Listing string "string list" bool
  | Binary_file string nat
  | Text_file string string bool nat
  | Inspection string "string list" "string list" "string list" "string list" "string list"
      "string + manifest_summary \<times> validation_result"
  | Scaffold_made string "string list" bool
  | Written string "string list"
  | Validation_of string "string + validation_result" "string list"
  | Admission_of string validation_status admission_gaps
  | Fixture_recorded string capture_entry
  | Tests_run string bool string
  | Pr_prepared string "string list"

definition rel_text :: "mcp_env \<Rightarrow> path \<Rightarrow> string" where
  "rel_text env p = (let rel = drop (length (me_repo env)) p in if rel = [] then ''.'' else join_with ''/'' rel)"

definition dir_entries :: "checkout \<Rightarrow> path \<Rightarrow> bool \<Rightarrow> string list" where
  "dir_entries c d at_root = sort (map (\<lambda>(n, b). n @ (if b then ''/'' else []))
     (filter (\<lambda>(n, b). n \<notin> set DENY_PARTS \<and> (\<not> at_root \<or> n \<in> set READ_ROOTS)) (listdir c d)))"

definition read_repository :: "mcp_env \<Rightarrow> string \<Rightarrow> checkout \<Rightarrow> tool_exc + tool_result" where
  "read_repository env path c = bindR (confine env path) (\<lambda>candidate.
     let rel = drop (length (me_repo env)) candidate; txt = rel_text env candidate in
     if rel \<noteq> [] \<and> hd rel \<notin> set READ_ROOTS then Inl (ToolError ''readable roots'')
     else if is_dir c candidate then (let entries = dir_entries c candidate (rel = []) in
       Inr (Listing txt (take MAX_LIST entries) (MAX_LIST < length entries)))
     else (case read_bytes c candidate of
         None \<Rightarrow> Inl (ToolError ''does not exist'')
       | Some data \<Rightarrow> (case me_decode env (take MAX_READ data) of
             None \<Rightarrow> Inr (Binary_file txt (length data))
           | Some t \<Rightarrow> Inr (Text_file txt t (MAX_READ < length data) (length data)))))"

text \<open>The problems of a target, as texts.\<close>
definition target_text :: "path \<Rightarrow> string" where
  "target_text target = slash_path target"

definition problems_at :: "mcp_env \<Rightarrow> checkout \<Rightarrow> path \<Rightarrow> string list" where
  "problems_at env c target = (let tt = tree_at c target in
     check_lines (me_detail env) (target_text target) (surface_lib_of (me_lib env) tt) (target_dir_of (me_lib env) tt))"

definition manifest_at :: "mcp_env \<Rightarrow> checkout \<Rightarrow> path \<Rightarrow> tool_exc + (string + manifest)" where
  "manifest_at env c target = (case manifest_of (me_lib env) (tree_at c target) of
       Inl (Escaped e) \<Rightarrow> Inl (Tool_raised e)
     | Inl (ProposalRefused e) \<Rightarrow> Inr (Inl e) | Inl (ManifestSyntax e) \<Rightarrow> Inr (Inl e) | Inl (Validation e) \<Rightarrow> Inr (Inl e)
     | Inr m \<Rightarrow> Inr (Inr m))"

definition checked_manifest :: "manifest \<Rightarrow> tool_exc + validation_result" where
  "checked_manifest m = (case validate_manifest m of Inl e \<Rightarrow> Inl (Tool_raised ''KeyError'') | Inr v \<Rightarrow> Inr v)"

definition summary_of :: "manifest \<Rightarrow> manifest_summary" where
  "summary_of m = \<lparr>su_modality = m_modality m, su_dataset_id = ct_dataset_id (m_contract m), su_metrics = ct_metrics (m_contract m),
     su_allowed_hosts = m_allowed_hosts m, su_license = m_license m\<rparr>"

definition inspect_target :: "mcp_env \<Rightarrow> string \<Rightarrow> checkout \<Rightarrow> tool_exc + tool_result" where
  "inspect_target env target_id c = bindR (existing_target env target_id c) (\<lambda>target.
     let tt = tree_at c target; lib = me_lib env; td = target_dir_of lib tt;
         out = Inspection target_id (map (\<lambda>(p, b). join_with ''/'' p) (files_of tt)) (fixture_names td)
           (map (\<lambda>(p, t). last p) (golden_paths td)) (problems_at env c target)
           (map (surface_text (me_detail env) (target_text target) target_id) (completeness (surface_lib_of lib tt) td)) in
     bindR (manifest_at env c target) (\<lambda>r. case r of
         Inl e \<Rightarrow> Inr (out (Inl e))
       | Inr m \<Rightarrow> bindR (checked_manifest m) (\<lambda>v. Inr (out (Inr (summary_of m, v))))))"

definition validate_target :: "mcp_env \<Rightarrow> string \<Rightarrow> checkout \<Rightarrow> tool_exc + tool_result" where
  "validate_target env target_id c = bindR (existing_target env target_id c) (\<lambda>target.
     let surface = problems_at env c target @ unloadable_lines (target_text target) (target_dir_of (me_lib env) (tree_at c target)) in
     bindR (manifest_at env c target) (\<lambda>r. case r of
         Inl e \<Rightarrow> Inr (Validation_of target_id (Inl e) surface)
       | Inr m \<Rightarrow> bindR (checked_manifest m) (\<lambda>v. Inr (Validation_of target_id (Inr v) surface))))"

end
