(* ===== verification/Mcp_Session.thy ===== *)
theory Mcp_Session
  imports Mcp_Tools
begin

text \<open>
  The tools of the MCP server that change the state (src/energy_platform/mcp/tools.py), the dispatch of a
  call, and a session: any sequence of calls an agent makes.
\<close>

type_synonym 'a tool = "mcp_state \<Rightarrow> (tool_exc + 'a) \<times> mcp_state"

definition with_checkout :: "checkout \<Rightarrow> mcp_state \<Rightarrow> mcp_state" where
  "with_checkout c st = st\<lparr>ms_checkout := c\<rparr>"

definition journal_all :: "string \<Rightarrow> path list \<Rightarrow> mcp_state \<Rightarrow> mcp_state" where
  "journal_all target_id rels st = foldl (\<lambda>s rel. journal target_id rel s) st rels"

subsection \<open>Scaffolding\<close>

definition modality_named :: "string \<Rightarrow> modality option" where
  "modality_named t = find (\<lambda>m. modality_text m = t) MODALITIES"

definition encoded :: "mcp_env \<Rightarrow> path \<Rightarrow> (path, string) dict \<Rightarrow> (path \<times> bytes) list" where
  "encoded env target files = map (\<lambda>(p, t). (target @ p, me_encode env t)) files"

definition scaffold_tool ::
    "mcp_env \<Rightarrow> string \<Rightarrow> string \<Rightarrow> string option \<Rightarrow> string option \<Rightarrow> bool \<Rightarrow> tool_result tool" where
  "scaffold_tool env target_id modality_arg ds h with_parser st =
     (let c = ms_checkout st in
      case target_guard env target_id of Inl e \<Rightarrow> (Inl e, st) | Inr target \<Rightarrow>
      case modality_named modality_arg of None \<Rightarrow> (Inl (ToolError ''modality must be one of''), st) | Some m \<Rightarrow>
      case scaffold_target (is_file c target \<or> is_dir c target) target_id m ds (given_text h PLACEHOLDER_HOST) with_parser of
        Inl (ScaffoldError e) \<Rightarrow> (Inl (ToolError e), st)
      | Inr (files, admission) \<Rightarrow>
          (case Option.bind (mkdirs (target @ [''fixtures'']) c) (write_all (encoded env target files)) of
             None \<Rightarrow> (Inl (Tool_raised ''OSError''), st)
           | Some c' \<Rightarrow> (Inr (Scaffold_made target_id (map (repo_path target_id) (sort (dkeys files))) admission),
               journal_all target_id (sort (dkeys files)) (with_checkout c' st))))"

subsection \<open>Writing a file\<close>

definition parents_of :: "path \<Rightarrow> path list" where
  "parents_of p = rev (map (\<lambda>n. take n p) [0..<length p])"

text \<open>The directories a rejected write leaves empty are removed, up to the target.\<close>
fun prune_dirs :: "path \<Rightarrow> path list \<Rightarrow> checkout \<Rightarrow> checkout" where
  "prune_dirs target [] c = c"
| "prune_dirs target (p # ps) c = (if p = target then c
     else prune_dirs target ps (if is_dir c p \<and> dir_empty c p then rmdir p c else c))"

definition roll_back :: "path \<Rightarrow> path \<Rightarrow> bytes option \<Rightarrow> checkout \<Rightarrow> checkout" where
  "roll_back target candidate previous c = (case previous of
       None \<Rightarrow> prune_dirs target (parents_of candidate) (unlink candidate c)
     | Some b \<Rightarrow> c\<lparr>ck_files := dset candidate b (ck_files c)\<rparr>)"

definition new_problems :: "string \<Rightarrow> path \<Rightarrow> string list \<Rightarrow> string list \<Rightarrow> string list" where
  "new_problems rel candidate earlier later =
     filter (\<lambda>p. p \<notin> set earlier \<and> (contains rel p \<or> contains (slash_path candidate) p)) later"

text \<open>The path of a write, behind its guards.\<close>
definition write_guard :: "mcp_env \<Rightarrow> path \<Rightarrow> string \<Rightarrow> string \<Rightarrow> tool_exc + path" where
  "write_guard env target path content =
     (if MAX_WRITE < length (me_encode env content) then Inl (ToolError ''content exceeds'')
      else if bad_relative path then Inl (ToolError ''path must be relative'')
      else bindR (resolved env target path) (\<lambda>candidate.
        if \<not> inside target candidate then Inl (ToolError ''escapes'')
        else if take 1 (drop (length target) candidate) = [''fixtures''] then Inl (ToolError ''fixtures are written by record_fixture only'')
        else Inr candidate))"

definition write_target_file :: "mcp_env \<Rightarrow> string \<Rightarrow> string \<Rightarrow> string \<Rightarrow> tool_result tool" where
  "write_target_file env target_id path content st =
     (let c = ms_checkout st in
      case existing_target env target_id c of Inl e \<Rightarrow> (Inl e, st) | Inr target \<Rightarrow>
      case write_guard env target path content of Inl e \<Rightarrow> (Inl e, st) | Inr candidate \<Rightarrow>
      if is_dir c candidate then (Inl (Tool_raised ''IsADirectoryError''), st)
      else (let rel = drop (length target) candidate; previous = read_bytes c candidate in
        case Option.bind (mkdirs (butlast candidate) c) (write_bytes candidate (me_encode env content)) of
          None \<Rightarrow> (Inl (Tool_raised ''OSError''), st)
        | Some c' \<Rightarrow> (let later = problems_at env c' target in
            if new_problems (join_with ''/'' rel) candidate (problems_at env c target) later \<noteq> []
            then (Inl (ToolError ''write rejected by the surface rules (rolled back)''), with_checkout (roll_back target candidate previous c') st)
            else (Inr (Written (repo_path target_id rel) later), journal target_id rel (with_checkout c' st)))))"

subsection \<open>Fixtures, tests, admission, pull request\<close>

definition loaded_manifest :: "mcp_env \<Rightarrow> checkout \<Rightarrow> path \<Rightarrow> tool_exc + manifest" where
  "loaded_manifest env c target = bindR (manifest_at env c target)
     (\<lambda>r. case r of Inl e \<Rightarrow> Inl (ToolError e) | Inr m \<Rightarrow> Inr m)"

definition when_of :: "mcp_env \<Rightarrow> instant \<Rightarrow> string option \<Rightarrow> tool_exc + instant" where
  "when_of env now scheduled_for =
     (if \<not> truthy scheduled_for then Inr now
      else case me_iso env (the scheduled_for) of
        None \<Rightarrow> Inl (Tool_raised ''ValueError'')
      | Some None \<Rightarrow> Inl (ToolError ''scheduled_for must carry an offset (ADR-014)'')
      | Some (Some t) \<Rightarrow> Inr t)"

definition tool_of_fixture :: "fixture_exc \<Rightarrow> tool_exc" where
  "tool_of_fixture e = (case e of FixtureError t \<Rightarrow> ToolError t | Os_error \<Rightarrow> ToolError ''record_fixture'' | Fixture_raised t \<Rightarrow> Tool_raised t)"

definition record_run ::
    "mcp_env \<Rightarrow> path \<Rightarrow> manifest \<Rightarrow> string \<Rightarrow> string option \<Rightarrow> instant \<Rightarrow> string option \<Rightarrow> checkout
     \<Rightarrow> (tool_exc + capture_entry) \<times> checkout" where
  "record_run env target m name payload_path when content_type c =
     (let rt = hl_runtime (me_lib env) in case payload_path of
        None \<Rightarrow> if \<not> me_allow_network env then (Inl (ToolError ''network is not enabled for this server''), c)
          else apfst (map_sum tool_of_fixture id) (record_live rt (me_entry_text env) target m name when c)
      | Some p \<Rightarrow> (case confine env p of
            Inl e \<Rightarrow> (Inl e, c)
          | Inr candidate \<Rightarrow> apfst (map_sum tool_of_fixture id)
              (record_from_file (rt_sha rt) (me_entry_text env) target m name candidate when content_type c)))"

definition record_fixture ::
    "mcp_env \<Rightarrow> instant \<Rightarrow> string \<Rightarrow> string \<Rightarrow> string option \<Rightarrow> bool \<Rightarrow> string option \<Rightarrow> string option \<Rightarrow> tool_result tool" where
  "record_fixture env now target_id name payload_path live scheduled_for content_type st =
     (let c = ms_checkout st in
      case existing_target env target_id c of Inl e \<Rightarrow> (Inl e, st) | Inr target \<Rightarrow>
      if live = (payload_path \<noteq> None) then (Inl (ToolError ''give exactly one of payload_path (offline) or live: true''), st)
      else case bindR (loaded_manifest env c target) (\<lambda>m. bindR (when_of env now scheduled_for) (\<lambda>t. Inr (m, t))) of
        Inl e \<Rightarrow> (Inl e, st)
      | Inr (m, t) \<Rightarrow> (case record_run env target m name payload_path t content_type c of
          (Inl e, c') \<Rightarrow> (Inl e, with_checkout c' st)
        | (Inr entry, c') \<Rightarrow> (Inr (Fixture_recorded (repo_path target_id [''fixtures'', name]) entry),
            journal_all target_id [[''fixtures'', name, ''entry.json''], [''fixtures'', name, ''blob'']] (with_checkout c' st))))"

record target_test_report =
  tt_target_id :: string
  tt_surface :: "string list"
  tt_goldens :: "golden_report list"
  tt_pytest_exit :: "int option"
  tt_pytest_output :: string

definition tests_ok :: "target_test_report \<Rightarrow> bool" where
  "tests_ok r \<longleftrightarrow> tt_surface r = [] \<and> list_all gr_ok (tt_goldens r) \<and> tt_pytest_exit r \<in> {Some 0, None}"

text \<open>The checks read the checkout first; pytest then runs the target's tests.\<close>
definition run_target_tests :: "mcp_env \<Rightarrow> instant \<Rightarrow> path \<Rightarrow> checkout \<Rightarrow> (tool_exc + target_test_report) \<times> checkout" where
  "run_target_tests env now target c =
     (case run_target (me_lib env) (tree_at c target) now of
        Inl e \<Rightarrow> (Inl (Tool_raised ''exception of a golden''), c)
      | Inr gs \<Rightarrow> (case me_pytest env (target @ [''tests'']) c of
          ((code, output), c') \<Rightarrow> (Inr \<lparr>tt_target_id = last target, tt_surface = problems_at env c target, tt_goldens = gs,
             tt_pytest_exit = code, tt_pytest_output = output\<rparr>, c')))"

text \<open>The last 8000 characters of the output.\<close>
definition tail_of :: "nat \<Rightarrow> string \<Rightarrow> string" where
  "tail_of n s = drop (length s - n) s"

definition tests_tool :: "mcp_env \<Rightarrow> instant \<Rightarrow> string \<Rightarrow> tool_result tool" where
  "tests_tool env now target_id st =
     (case existing_target env target_id (ms_checkout st) of Inl e \<Rightarrow> (Inl e, st) | Inr target \<Rightarrow>
      case run_target_tests env now target (ms_checkout st) of
        (Inl e, c') \<Rightarrow> (Inl e, with_checkout c' st)
      | (Inr r, c') \<Rightarrow> (Inr (Tests_run target_id (tests_ok r) (tail_of 8000 (tt_pytest_output r))), with_checkout c' st))"

definition today_text :: "instant \<Rightarrow> string" where
  "today_text now = take 10 (stamp now)"

definition admission_request :: "mcp_env \<Rightarrow> instant \<Rightarrow> string \<Rightarrow> tool_result tool" where
  "admission_request env now target_id st =
     (let c = ms_checkout st in
      case bindR (existing_target env target_id c) (loaded_manifest env c) of Inl e \<Rightarrow> (Inl e, st) | Inr m \<Rightarrow>
      case read_bytes c (me_repo env @ [''docs'', ''admissions'', ''TEMPLATE.md'']) of
        None \<Rightarrow> (Inl (ToolError ''docs/admissions/TEMPLATE.md is missing from this checkout''), st)
      | Some template \<Rightarrow> (case checked_manifest m of
          Inl e \<Rightarrow> (Inl e, st)
        | Inr v \<Rightarrow> (Inr (Admission_of target_id (vr_status v) (vr_missing v)),
            st\<lparr>ms_outbox := dset (''admissions/'' @ target_id @ ''.md'')
              (Outbox_text (render_request m v (today_text now) (hl_utf8 (me_lib env) template))) (ms_outbox st)\<rparr>)))"

definition open_pr :: "mcp_env \<Rightarrow> instant \<Rightarrow> string \<Rightarrow> string option \<Rightarrow> string option \<Rightarrow> tool_result tool" where
  "open_pr env now target_id title body st =
     (let c = ms_checkout st; touched = sort (journaled st) in
      case existing_target env target_id c of Inl e \<Rightarrow> (Inl e, st) | Inr target \<Rightarrow>
      if touched = [] then (Inl (ToolError ''nothing was written in this session; there is nothing to propose''), st)
      else (case prepare_bundle (me_lib env) (tree_at c target) (Some touched) title (given_text body []) now (me_created env now) of
          Inl (BundleRefused e) \<Rightarrow> (Inl (ToolError e), st)
        | Inl Bundle_raised \<Rightarrow> (Inl (Tool_raised ''exception of a gate''), st)
        | Inr bundle \<Rightarrow> (Inr (Pr_prepared (''target/'' @ target_id) (map (\<lambda>(p, b). repo_path target_id p) (files_of (tree_at c target)))),
            st\<lparr>ms_outbox := dset (target_id @ ''-'' @ me_created env now @ ''.json'') (Outbox_json (JObject bundle)) (ms_outbox st)\<rparr>)))"

subsection \<open>Calls\<close>

datatype tool_call =
    Read_repository string
  | Inspect_target string
  | Scaffold_target string string "string option" "string option" bool
  | Write_target_file string string string
  | Validate_target string
  | Record_fixture string string "string option" bool "string option" "string option"
  | Run_target_tests string
  | Admission_request string
  | Open_pr string "string option" "string option"

definition call_tool :: "mcp_env \<Rightarrow> instant \<Rightarrow> tool_call \<Rightarrow> tool_result tool" where
  "call_tool env now k st = (case k of
       Read_repository p \<Rightarrow> (read_repository env p (ms_checkout st), st)
     | Inspect_target t \<Rightarrow> (inspect_target env t (ms_checkout st), st)
     | Scaffold_target t m ds h wp \<Rightarrow> scaffold_tool env t m ds h wp st
     | Write_target_file t p content \<Rightarrow> write_target_file env t p content st
     | Validate_target t \<Rightarrow> (validate_target env t (ms_checkout st), st)
     | Record_fixture t n p live s ct \<Rightarrow> record_fixture env now t n p live s ct st
     | Run_target_tests t \<Rightarrow> tests_tool env now t st
     | Admission_request t \<Rightarrow> admission_request env now t st
     | Open_pr t title body \<Rightarrow> open_pr env now t title body st)"

text \<open>A session: the calls of an agent, each with the time it is made.\<close>
fun run_calls :: "mcp_env \<Rightarrow> (instant \<times> tool_call) list \<Rightarrow> mcp_state \<Rightarrow> mcp_state" where
  "run_calls env [] st = st"
| "run_calls env ((now, k) # ks) st = run_calls env ks (snd (call_tool env now k st))"

end
