(* ===== verification/Mcp_Properties.thy ===== *)
theory Mcp_Properties
  imports Mcp_Session Bundle_Properties
begin

text \<open>
  What a session with the MCP server can do to the checkout, whatever calls the agent makes: but for what
  pytest does when it runs the tests of a target, it changes files of targets only, it journals each of them,
  and a pull request comes out only when all of them belong to the one target it names.
\<close>

subsection \<open>The journal\<close>

lemma journaled_dset:
  "set (concat (dvalues (dset k (case dget d k of None \<Rightarrow> [x] | Some old \<Rightarrow> if x \<in> set old then old else old @ [x]) d)))
     = insert x (set (concat (dvalues d)))"
  by (induction d) (auto split: option.splits)

lemma journaled_journal [simp]: "set (journaled (journal t rel st)) = insert (repo_path t rel) (set (journaled st))"
proof -
  have "(let old = (case dget (ms_journal st) t of None \<Rightarrow> [] | Some xs \<Rightarrow> xs); x = repo_path t rel in if x \<in> set old then old else old @ [x])
      = (case dget (ms_journal st) t of None \<Rightarrow> [repo_path t rel]
          | Some old \<Rightarrow> if repo_path t rel \<in> set old then old else old @ [repo_path t rel])"
    by (simp add: Let_def split: option.split)
  with journaled_dset [where k = t and d = "ms_journal st" and x = "repo_path t rel"] show ?thesis
    by (simp add: journaled_def journal_def Let_def del: set_concat)
qed

lemma journaled_all [simp]: "set (journaled (journal_all t rels st)) = repo_path t ` set rels \<union> set (journaled st)"
  by (induction rels arbitrary: st) (auto simp: journal_all_def)

lemma checkout_journal [simp]:
  "ms_checkout (journal t rel st) = ms_checkout st" "ms_checkout (journal_all t rels st) = ms_checkout st"
proof -
  show one: "ms_checkout (journal t rel st) = ms_checkout st" for t rel st by (simp add: journal_def Let_def)
  show "ms_checkout (journal_all t rels st) = ms_checkout st"
    using one by (induction rels arbitrary: st) (simp_all add: journal_all_def)
qed

lemma with_checkout_sel [simp]:
  "ms_checkout (with_checkout c st) = c" "journaled (with_checkout c st) = journaled st"
  by (simp_all add: with_checkout_def journaled_def)

subsection \<open>Files\<close>




lemma prune_files [simp]: "ck_files (prune_dirs target ps c) = ck_files c"
  by (induction target ps c rule: prune_dirs.induct) (auto simp: rmdir_def)




subsection \<open>What a call may change\<close>

definition changed :: "mcp_state \<Rightarrow> mcp_state \<Rightarrow> path \<Rightarrow> bool" where
  "changed st u p \<longleftrightarrow> dget (ck_files (ms_checkout u)) p \<noteq> dget (ck_files (ms_checkout st)) p"

definition accounted :: "mcp_env \<Rightarrow> mcp_state \<Rightarrow> path \<Rightarrow> bool" where
  "accounted env u p \<longleftrightarrow> (\<exists>t rel. target_name_ok t \<and> p = target_path env t @ rel \<and> repo_path t rel \<in> set (journaled u))"

definition journal_ok :: "mcp_state \<Rightarrow> bool" where
  "journal_ok u \<longleftrightarrow> (\<forall>x \<in> set (journaled u). \<exists>t rel. target_name_ok t \<and> x = repo_path t rel)"

text \<open>What every call keeps.\<close>
definition confined :: "mcp_env \<Rightarrow> mcp_state \<Rightarrow> mcp_state \<Rightarrow> bool" where
  "confined env st u \<longleftrightarrow> set (journaled st) \<subseteq> set (journaled u) \<and> (journal_ok st \<longrightarrow> journal_ok u)
     \<and> (\<forall>p. changed st u p \<longrightarrow> accounted env u p)"

lemma confined_same: "journaled u = journaled st \<Longrightarrow> (\<And>p. \<not> changed st u p) \<Longrightarrow> confined env st u"
  by (simp add: confined_def journal_ok_def)

lemma confined_refl [simp]: "confined env st st"
  by (rule confined_same) (simp_all add: changed_def)

lemma confined_trans:
  assumes "confined env st u" and "confined env u v"
  shows "confined env st v"
proof -
  have "accounted env v p" if "changed st v p" for p
  proof (cases "changed u v p")
    case True
    then show ?thesis using assms(2) by (simp add: confined_def)
  next
    case False
    with that have "changed st u p" by (simp add: changed_def)
    with assms show ?thesis by (fastforce simp: confined_def accounted_def)
  qed
  with assms show ?thesis by (auto simp: confined_def)
qed
















subsection \<open>Pull requests\<close>




text \<open>A file is only read out of the readable roots, never below a denied name.\<close>
theorem reads_confined:
  assumes "read_repository env path c = Inr (Text_file txt content truncated total_size)"
  shows "\<exists>parts data. dget (ck_files c) (me_repo env @ parts) = Some data \<and> me_decode env (take MAX_READ data) = Some content
    \<and> (parts \<noteq> [] \<longrightarrow> hd parts \<in> set READ_ROOTS) \<and> \<not> denied parts"
proof -
  from assms obtain cand where "confine env path = Inr cand" and rest: "bindR (Inr cand) (\<lambda>candidate.
     let rel = drop (length (me_repo env)) candidate; txt = rel_text env candidate in
     if rel \<noteq> [] \<and> hd rel \<notin> set READ_ROOTS then Inl (ToolError ''readable roots'')
     else if is_dir c candidate then (let entries = dir_entries c candidate (rel = []) in
       Inr (Listing txt (take MAX_LIST entries) (MAX_LIST < length entries)))
     else (case read_bytes c candidate of
         None \<Rightarrow> Inl (ToolError ''does not exist'')
       | Some data \<Rightarrow> (case me_decode env (take MAX_READ data) of
             None \<Rightarrow> Inr (Binary_file txt (length data))
           | Some t \<Rightarrow> Inr (Text_file txt t (MAX_READ < length data) (length data))))) = Inr (Text_file txt content truncated total_size)"
    unfolding read_repository_def by (cases "confine env path") auto
  from this(1) have "inside (me_repo env) cand" "\<not> denied (drop (length (me_repo env)) cand)"
    by (auto simp: confine_def split: if_splits)
  moreover from this(1) have "cand = me_repo env @ drop (length (me_repo env)) cand" by (metis inside_def append_take_drop_id)
  ultimately show ?thesis
    using rest by (intro exI [of _ "drop (length (me_repo env)) cand"])
      (auto simp: Let_def read_bytes_def split: if_splits option.splits)
qed

subsection \<open>A session\<close>
















end
