(* ===== verification/Mcp_Server.thy ===== *)
theory Mcp_Server
  imports Mcp_Tools
begin

text \<open>
  The MCP server (src/energy_platform/mcp/server.py): JSON-RPC 2.0 over lines, and the tool definitions it lists
  (src/energy_platform/mcp/tools.py). As in the code, the server is given its tools; a call of a tool is a
  function of the tools' state. An exception that the server does not catch ends it. Long dashes and
  arrows have stand-ins below code point 128.
\<close>

subsection \<open>Tool definitions\<close>

type_synonym tool_prop = "(string \<times> json) list \<times> bool"

definition s_prop :: "string \<Rightarrow> bool \<Rightarrow> (string \<times> json) list \<Rightarrow> tool_prop" where
  "s_prop desc required extra = ([(''type'', JText ''string''), (''description'', JText desc)] @ extra, required)"

definition b_prop :: "string \<Rightarrow> tool_prop" where
  "b_prop desc = ([(''type'', JText ''boolean''), (''description'', JText desc)], False)"

definition schema :: "(string \<times> tool_prop) list \<Rightarrow> json" where
  "schema props = JObject
     [(''type'', JText ''object''),
      (''properties'', JObject (map (\<lambda>(k, (fs, r)). (k, JObject fs)) props)),
      (''required'', JList (map (\<lambda>(k, p). JText k) (filter (\<lambda>(k, (fs, r)). r) props))),
      (''additionalProperties'', JBool False)]"

definition target_id_prop :: "string \<times> tool_prop" where
  "target_id_prop = (''target_id'', s_prop ''target id'' True [])"

definition TOOL_SPECS :: "(string \<times> string \<times> json) list" where
  "TOOL_SPECS =
    [(''read_repository'',
      ''List a directory or read a file under docs/, targets/, examples/, schemas/ or the top-level README/CLAUDE.md (Level 0). ''
        @ ''Secrets, .git and anything outside are refused.'',
      schema [(''path'', s_prop ''repository-relative path; a directory lists, a file reads'' True [])]),
     (''inspect_target'', ''Manifest summary, validation result, surface problems, fixtures and goldens of a target.'',
      schema [target_id_prop]),
     (''scaffold_target'', ''Create targets/<id>/ with exactly the ADR-027 surface (placeholders included).'',
      schema [(''target_id'', s_prop ''target id ^[a-z][a-z0-9_]{2,63}$'' True []),
              (''modality'', s_prop (''one of '' @ join_with '', '' (map modality_text MODALITIES)) True
                 [(''enum'', JList (map (\<lambda>m. JText (modality_text m)) MODALITIES))]),
              (''dataset_id'', s_prop ''registered dataset_id to fill from (optional)'' False []),
              (''host'', s_prop ''source hostname (optional)'' False []),
              (''with_parser'', b_prop ''add a parser.py skeleton'')]),
     (''write_target_file'',
      ''Write one file inside targets/<id>/ (manifest.yaml, parser.py, README.md, tests/...). The surface rules run on the result; ''
        @ ''a rejected write is rolled back.'',
      schema [target_id_prop, (''path'', s_prop ''path relative to targets/<id>/'' True []), (''content'', s_prop ''full file content'' True [])]),
     (''validate_target'',
      ''energyctl validate <id>: structural + admission result (OK | INVALID | ADMISSION_REQUIRED with the exact registry gaps) ''
        @ ''and surface problems.'',
      schema [target_id_prop]),
     (''record_fixture'',
      ''Write targets/<id>/fixtures/<name>/ as a Bronze object. `payload_path` wraps a saved payload offline; ''
        @ ''`live: true` fetches once and needs the server's --allow-network.'',
      schema [target_id_prop, (''name'', s_prop ''fixture name, e.g. ordinary_day'' True []),
              (''payload_path'', s_prop ''repository-relative path of a saved payload (offline mode)'' False []),
              (''live'', b_prop ''fetch from the source (opt-in)''),
              (''scheduled_for'', s_prop ''ISO 8601 instant with offset'' False []),
              (''content_type'', s_prop ''content type for payload_path mode'' False [])]),
     (''run_target_tests'', ''Surface rules, every golden through the platform pipeline, then the target's pytest.'', schema [target_id_prop]),
     (''admission_request'',
      ''Route B (ADR-022): render docs/admissions/<id>.md for a target whose validation is ADMISSION_REQUIRED, into the outbox - ''
        @ ''never into the repository. A human opens the PR that carries only that file; nothing else changes until a maintainer admits the source.'',
      schema [target_id_prop]),
     (''open_pr'',
      ''Prepare a Route A pull request for the one target this session touched: refuses if any gate is red; ''
        @ ''writes a bundle to the outbox for a human/CI to push (never pushes).'',
      schema [target_id_prop, (''title'', s_prop ''PR title (optional)'' False []), (''body'', s_prop ''PR body (optional)'' False [])])]"

definition TOOL_NAMES :: "string list" where
  "TOOL_NAMES = [''read_repository'', ''inspect_target'', ''scaffold_target'', ''write_target_file'', ''validate_target'', ''record_fixture'',
     ''run_target_tests'', ''admission_request'', ''open_pr'']"

text \<open>The specification of a name; every name has one.\<close>
definition tool_definitions :: "json list" where
  "tool_definitions = concat (map (\<lambda>name. case dget TOOL_SPECS name of None \<Rightarrow> []
     | Some (desc, sch) \<Rightarrow> [JObject [(''name'', JText name), (''description'', JText desc), (''inputSchema'', sch)]]) TOOL_NAMES)"

subsection \<open>The protocol\<close>

definition PROTOCOL_VERSION :: string where "PROTOCOL_VERSION = ''2025-06-18''"
definition PARSE_ERROR :: int where "PARSE_ERROR = - 32700"
definition INVALID_REQUEST :: int where "INVALID_REQUEST = - 32600"
definition METHOD_NOT_FOUND :: int where "METHOD_NOT_FOUND = - 32601"
definition INVALID_PARAMS :: int where "INVALID_PARAMS = - 32602"

text \<open>How a call of a tool ends badly: a \<open>ToolError\<close>, a \<open>TypeError\<close> (wrong argument names), anything else.\<close>
datatype call_exc = Call_refused string | Call_type_error string | Call_raised

text \<open>\<open>sv_call\<close>: the tools; \<open>sv_dumps\<close>: \<open>json.dumps(payload, indent=2)\<close>; \<open>sv_version\<close>: the version of the package.\<close>
record 's mcp_server =
  sv_call :: "string \<Rightarrow> (string \<times> json) list \<Rightarrow> 's \<Rightarrow> (call_exc + json) \<times> 's"
  sv_dumps :: "json \<Rightarrow> string"
  sv_version :: string

record 's server_state =
  ss_initialized :: bool
  ss_tools :: 's

definition or_null :: "json option \<Rightarrow> json" where
  "or_null v = (case v of None \<Rightarrow> JNull | Some j \<Rightarrow> j)"

definition rpc_result :: "json \<Rightarrow> json \<Rightarrow> json" where
  "rpc_result i r = JObject [(''jsonrpc'', JText ''2.0''), (''id'', i), (''result'', r)]"

definition rpc_error :: "json \<Rightarrow> int \<Rightarrow> string \<Rightarrow> json" where
  "rpc_error i code message = JObject [(''jsonrpc'', JText ''2.0''), (''id'', i),
     (''error'', JObject [(''code'', JInt code), (''message'', JText message)])]"

definition content_of :: "string \<Rightarrow> bool \<Rightarrow> json" where
  "content_of t is_error = JObject [(''content'', JList [JObject [(''type'', JText ''text''), (''text'', JText t)]]), (''isError'', JBool is_error)]"

definition INSTRUCTIONS :: string where
  "INSTRUCTIONS = ''Golden path (ADR-007): scaffold_target > write_target_file (manifest, goldens) > record_fixture > validate_target > ''
     @ ''run_target_tests > open_pr. A target touches only targets/<id>/. ADMISSION_REQUIRED means stop and call admission_request ''
     @ ''(Route B: the document goes to the outbox for a human to file); never invent a unit or edit a registry.''"

definition initialize_result :: "'s mcp_server \<Rightarrow> json" where
  "initialize_result sv = JObject
     [(''protocolVersion'', JText PROTOCOL_VERSION),
      (''capabilities'', JObject [(''tools'', JObject [(''listChanged'', JBool False)])]),
      (''serverInfo'', JObject [(''name'', JText ''energy-platform''), (''version'', JText (sv_version sv))]),
      (''instructions'', JText INSTRUCTIONS)]"

text \<open>\<open>bool(value)\<close>; a float is written with its digits.\<close>
definition truthy_json :: "json \<Rightarrow> bool" where
  "truthy_json v = (case v of JNull \<Rightarrow> False | JBool b \<Rightarrow> b | JInt i \<Rightarrow> i \<noteq> 0 | JFloat s \<Rightarrow> \<not> list_all (\<lambda>c. c \<in> set ''-0.'') (takeWhile (\<lambda>c. c \<notin> set ''eE'') s)
     | JText s \<Rightarrow> s \<noteq> [] | JList l \<Rightarrow> l \<noteq> [] | JObject d \<Rightarrow> d \<noteq> [])"

definition or_empty :: "json option \<Rightarrow> json" where
  "or_empty v = (case v of None \<Rightarrow> JObject [] | Some j \<Rightarrow> if truthy_json j then j else JObject [])"

text \<open>\<open>_call\<close>; none is an exception that ends the server. Parameters that are no mapping have no \<open>get\<close>.\<close>
definition rpc_call :: "'s mcp_server \<Rightarrow> json \<Rightarrow> json \<Rightarrow> 's \<Rightarrow> json option \<times> 's" where
  "rpc_call sv i params s = (case params of
       JObject ps \<Rightarrow> (case (dget ps ''name'', or_empty (dget ps ''arguments'')) of
           (Some (JText name), JObject args) \<Rightarrow> (case sv_call sv name args s of
               (Inl (Call_refused e), s') \<Rightarrow> (Some (rpc_result i (content_of e True)), s')
             | (Inl (Call_type_error e), s') \<Rightarrow> (Some (rpc_result i (content_of (''invalid arguments: '' @ e) True)), s')
             | (Inl Call_raised, s') \<Rightarrow> (None, s')
             | (Inr payload, s') \<Rightarrow> (Some (rpc_result i (content_of (sv_dumps sv payload) False)), s'))
         | _ \<Rightarrow> (Some (rpc_error i INVALID_PARAMS ''tools/call needs name and arguments''), s))
     | _ \<Rightarrow> (None, s))"

text \<open>What a message leads to: a response, none (a notification), or the end of the server.\<close>
datatype reply = Respond json | Silent | Crash

definition replied :: "json option \<Rightarrow> reply" where
  "replied r = (case r of None \<Rightarrow> Crash | Some j \<Rightarrow> Respond j)"

definition handle :: "'s mcp_server \<Rightarrow> (string \<times> json) list \<Rightarrow> 's server_state \<Rightarrow> reply \<times> 's server_state" where
  "handle sv msg st =
     (let i = or_null (dget msg ''id''); params = or_empty (dget msg ''params'') in
      if dget msg ''jsonrpc'' \<noteq> Some (JText ''2.0'') then (Respond (rpc_error i INVALID_REQUEST ''not a JSON-RPC 2.0 request''), st)
      else case dget msg ''method'' of
        None \<Rightarrow> (Respond (rpc_error i INVALID_REQUEST ''not a JSON-RPC 2.0 request''), st)
      | Some (JText m) \<Rightarrow>
          if starts_with ''notifications/'' m
          then (Silent, if m = ''notifications/initialized'' then st\<lparr>ss_initialized := True\<rparr> else st)
          else if m = ''initialize'' then (Respond (rpc_result i (initialize_result sv)), st)
          else if m = ''ping'' then (Respond (rpc_result i (JObject [])), st)
          else if m = ''tools/list'' then (Respond (rpc_result i (JObject [(''tools'', JList tool_definitions)])), st)
          else if m = ''tools/call'' then (case rpc_call sv i params (ss_tools st) of (r, s') \<Rightarrow> (replied r, st\<lparr>ss_tools := s'\<rparr>))
          else (Respond (rpc_error i METHOD_NOT_FOUND (''unknown method '' @ repr_text m)), st)
      | Some _ \<Rightarrow> (Crash, st))"

text \<open>A line: blank, no JSON, a message, or another JSON value.\<close>
definition handle_line :: "(string \<Rightarrow> json option) \<Rightarrow> 's mcp_server \<Rightarrow> string \<Rightarrow> 's server_state \<Rightarrow> reply \<times> 's server_state" where
  "handle_line loads sv raw st = (if strip raw = [] then (Silent, st)
     else case loads (strip raw) of
       None \<Rightarrow> (Respond (rpc_error JNull PARSE_ERROR ''invalid JSON''), st)
     | Some (JObject msg) \<Rightarrow> handle sv msg st
     | Some v \<Rightarrow> (Respond (rpc_error JNull INVALID_REQUEST ''batch requests are not supported''), st))"

text \<open>\<open>serve\<close>: the responses written, and whether the end of the input was reached (exit code 0).\<close>
fun serve :: "(string \<Rightarrow> json option) \<Rightarrow> 's mcp_server \<Rightarrow> string list \<Rightarrow> 's server_state \<Rightarrow> json list \<times> bool \<times> 's server_state" where
  "serve loads sv [] st = ([], True, st)"
| "serve loads sv (raw # rest) st = (case handle_line loads sv raw st of
       (Crash, st') \<Rightarrow> ([], False, st')
     | (Silent, st') \<Rightarrow> serve loads sv rest st'
     | (Respond r, st') \<Rightarrow> (case serve loads sv rest st' of (rs, ended, u) \<Rightarrow> (r # rs, ended, u)))"

subsection \<open>One response to each request\<close>

lemma every_tool_is_listed: "map fst TOOL_SPECS = TOOL_NAMES"
  by (simp add: TOOL_SPECS_def TOOL_NAMES_def)

text \<open>The lines that get no response: blank ones and notifications.\<close>
definition silent_line :: "(string \<Rightarrow> json option) \<Rightarrow> string \<Rightarrow> bool" where
  "silent_line loads raw \<longleftrightarrow> strip raw = [] \<or> (case loads (strip raw) of
       Some (JObject msg) \<Rightarrow> dget msg ''jsonrpc'' = Some (JText ''2.0'')
         \<and> (case dget msg ''method'' of Some (JText m) \<Rightarrow> starts_with ''notifications/'' m | _ \<Rightarrow> False)
     | _ \<Rightarrow> False)"

lemma handle_line_silent:
  assumes "handle_line loads sv raw st = (r, st')"
  shows "r = Silent \<longleftrightarrow> silent_line loads raw"
  using assms
  by (auto simp: handle_line_def handle_def silent_line_def replied_def Let_def
      split: if_splits option.splits json.splits prod.splits) (metis json.exhaust)

theorem serve_answers:
  assumes "serve loads sv ls st = (rs, True, u)"
  shows "length rs = length (filter (\<lambda>raw. \<not> silent_line loads raw) ls)"
  using assms
proof (induction ls arbitrary: st rs u)
  case (Cons raw ls)
  obtain r st' where r: "handle_line loads sv raw st = (r, st')" by (cases "handle_line loads sv raw st")
  from handle_line_silent [OF r] show ?case
    using Cons r by (cases r) (auto split: prod.splits)
qed simp

text \<open>A response to a call carries the id of its request.\<close>
lemma call_keeps_id:
  assumes "rpc_call sv i params s = (Some r, s')"
  shows "\<exists>d. r = JObject d \<and> dget d ''id'' = Some i"
  using assms by (auto simp: rpc_call_def rpc_result_def rpc_error_def split: json.splits option.splits prod.splits sum.splits call_exc.splits)

text \<open>What ends the server: parameters that are no mapping, a method that is no text, and an exception of a tool
  that is neither a \<open>ToolError\<close> nor a \<open>TypeError\<close>.\<close>
lemma list_params_crash: "rpc_call sv i (JList l) s = (None, s)"
  by (simp add: rpc_call_def)

lemma number_method_crash:
  "dget msg ''jsonrpc'' = Some (JText ''2.0'') \<Longrightarrow> dget msg ''method'' = Some (JInt n) \<Longrightarrow> fst (handle sv msg st) = Crash"
  by (simp add: handle_def Let_def)

lemma raising_tool_crash:
  assumes "sv_call sv name args s = (Inl Call_raised, s')" and "args \<noteq> []"
  shows "rpc_call sv i (JObject [(''name'', JText name), (''arguments'', JObject args)]) s = (None, s')"
  using assms by (simp add: rpc_call_def or_empty_def truthy_json_def)

end
