(* ===== verification/Calendar.thy ===== *)
theory Calendar
  imports Pytime
begin

text \<open>
  The proleptic Gregorian calendar of Pytime is the one of \<open>datetime\<close>: taking a date apart and putting it
  together again gives the date, with a month from 1 to 12 and a day of that month.
\<close>

lemma days_before_split:
  fixes a b c e :: int
  assumes "0 \<le> b" "b \<le> 3" "0 \<le> c" "c \<le> 24" "0 \<le> e" "e \<le> 3"
  shows "days_before_year (400 * a + 100 * b + 4 * c + e + 1) = 146097 * a + 36524 * b + 1461 * c + 365 * e"
proof -
  let ?p = "400 * a + 100 * b + 4 * c + e"
  have "?p div 4 = 100 * a + 25 * b + c" "?p div 100 = 4 * a + b" "?p div 400 = a" using assms by auto
  then show ?thesis by (simp add: days_before_year_def Let_def)
qed

text \<open>The day of the year, from 0.\<close>
lemma year_bounds:
  fixes n :: int
  defines "y \<equiv> year_of_ord n"
  shows "0 \<le> n - 1 - days_before_year y" "n - 1 - days_before_year y < 365 + (if is_leap y then 1 else 0)"
proof -
  define n0 a r400 b r100 c r4 e where "n0 = n - 1" and "a = n0 div 146097" and "r400 = n0 mod 146097"
    and "b = r400 div 36524" and "r100 = r400 mod 36524" and "c = r100 div 1461" and "r4 = r100 mod 1461" and "e = r4 div 365"
  note defs = n0_def a_def r400_def b_def r100_def c_def r4_def e_def
  have n0: "n0 = 146097 * a + r400" "0 \<le> r400" "r400 < 146097" by (simp_all add: a_def r400_def)
  have r400: "r400 = 36524 * b + r100" "0 \<le> r100" "r100 < 36524" by (simp_all add: b_def r100_def)
  have r100: "r100 = 1461 * c + r4" "0 \<le> r4" "r4 < 1461" by (simp_all add: c_def r4_def)
  have r4: "r4 = 365 * e + r4 mod 365" "0 \<le> r4 mod 365" "r4 mod 365 < 365" by (simp_all add: e_def)
  have b: "0 \<le> b" "b \<le> 4" using n0 r400 by linarith+
  have c: "0 \<le> c" "c \<le> 24" using r400 r100 by linarith+
  have e: "0 \<le> e" "e \<le> 4" using r100 r4 by linarith+
  let ?year = "400 * a + 1 + 100 * b + 4 * c + e"
  have y: "y = (if e = 4 \<or> b = 4 then ?year - 1 else ?year)"
    unfolding y_def year_of_ord_def Let_def defs by (simp add: algebra_simps)
  have "0 \<le> n - 1 - days_before_year y \<and> n - 1 - days_before_year y < 365 + (if is_leap y then 1 else 0)"
  proof (cases "e = 4 \<or> b = 4")
    case False
    then have "b \<le> 3" "e \<le> 3" using b e by auto
    then have "days_before_year y = 146097 * a + 36524 * b + 1461 * c + 365 * e"
      using days_before_split [of b c e a] b(1) c e(1) False y by (simp add: algebra_simps)
    then have "n - 1 - days_before_year y = r4 mod 365" using n0(1) r400(1) r100(1) r4(1) n0_def by linarith
    then show ?thesis using r4(2,3) by auto
  next
    case True
    show ?thesis
    proof (cases "b = 4")
      case b4: True
      then have r0: "r100 = 0" using n0 r400 by linarith
      then have zero: "r100 = 0" "c = 0" "e = 0" by (simp_all add: c_def r4_def e_def)
      then have "y = 400 * a + 100 * 3 + 4 * 24 + 3 + 1" using y b4 by simp
      moreover have "days_before_year (400 * a + 100 * 3 + 4 * 24 + 3 + 1) = 146097 * a + 36524 * 3 + 1461 * 24 + 365 * 3"
        using days_before_split [of 3 24 3 a] by simp
      ultimately have "days_before_year y = 146097 * a + 36524 * 3 + 1461 * 24 + 365 * 3" by simp
      moreover have "is_leap y"
      proof -
        have "y = 400 * (a + 1)" using \<open>y = 400 * a + 100 * 3 + 4 * 24 + 3 + 1\<close> by simp
        then show ?thesis by (simp add: is_leap_def)
      qed
      ultimately show ?thesis using n0 r400 zero b4 by (simp add: n0_def)
    next
      case b3: False
      with True have e4: "e = 4" by simp
      then have r: "r4 = 1460" using r4 r100 by linarith
      then have "c \<noteq> 24" using r100 r400 by linarith
      then have c': "c \<le> 23" using c by simp
      have yy: "y = 400 * a + 100 * b + 4 * c + 3 + 1" using y e4 by simp
      have "b \<le> 3" using b b3 by simp
      then have "days_before_year y = 146097 * a + 36524 * b + 1461 * c + 365 * 3"
        unfolding yy using days_before_split [of b c 3 a] b(1) c by simp
      moreover have "is_leap y"
      proof -
        have "y = 4 * (100 * a + 25 * b + c + 1)" using yy by simp
        then have "y mod 4 = 0" by simp
        moreover have "y mod 100 = 4 * c + 4"
        proof -
          have "y = 100 * (4 * a + b) + (4 * c + 4)" using yy by simp
          then have "y mod 100 = (4 * c + 4) mod 100" by (simp only: mod_mult_self4)
          also have "\<dots> = 4 * c + 4" using c(1) c' by (intro mod_pos_pos_trivial) auto
          finally show ?thesis .
        qed
        ultimately show ?thesis using c(1) by (simp add: is_leap_def)
      qed
      ultimately show ?thesis using n0 r400 r100 r by (simp add: n0_def)
    qed
  qed
  then show "0 \<le> n - 1 - days_before_year y" "n - 1 - days_before_year y < 365 + (if is_leap y then 1 else 0)" by auto
qed

lemma twelve: "[1..12] = [1, 2, 3, 4, 5, 6, 7, 8, 9, 10, 11, 12::int]"
  by (simp add: upto.simps)

text \<open>The month of a day of the year.\<close>
lemma month_found:
  assumes "0 \<le> r" "r < 365 + (if is_leap y then 1 else 0)" and "month_scan y r [1..12] = (m, d)"
  shows "1 \<le> m \<and> m \<le> 12 \<and> 1 \<le> d \<and> d \<le> days_in_month y m \<and> days_before_month y m + d = r + 1"
  using assms unfolding twelve
  by (auto simp: days_in_month_def days_before_month_def upto.simps split: if_splits)

theorem ymd_round_trip:
  "ymd2ord (year_of n) (month_of n) (day_of n) = n"
  "1 \<le> month_of n" "month_of n \<le> 12" "1 \<le> day_of n" "day_of n \<le> days_in_month (year_of n) (month_of n)"
proof -
  let ?y = "year_of_ord n"
  obtain m d where md: "month_scan ?y (n - 1 - days_before_year ?y) [1..12] = (m, d)" by fastforce
  from month_found [OF year_bounds md] md
  show "ymd2ord (year_of n) (month_of n) (day_of n) = n"
    "1 \<le> month_of n" "month_of n \<le> 12" "1 \<le> day_of n" "day_of n \<le> days_in_month (year_of n) (month_of n)"
    by (simp_all add: ymd2ord_def year_of_def month_of_def day_of_def ord2ymd_def Let_def)
qed

end
