(* ===== verification/S3_Keys.thy ===== *)
theory S3_Keys
  imports Calendar Bronze
begin

text \<open>
  The keys of the capture log in an object store (src/energy_platform/bronze/s3.py): the instant and the
  attempt are read off the key of an entry, so that a window is decided from a listing alone. \<open>strptime\<close> is
  written out for the one format that is used: its fields may be one digit short, and letters match in
  either case.
\<close>

subsection \<open>strptime\<close>

definition two_or_one :: "(char \<Rightarrow> char \<Rightarrow> bool) \<Rightarrow> (char \<Rightarrow> bool) \<Rightarrow> string \<Rightarrow> (nat \<times> string) list" where
  "two_or_one two one s =
     (case s of a # b # r \<Rightarrow> if two a b then [(10 * digit_val a + digit_val b, r)] else [] | _ \<Rightarrow> [])
     @ (case s of a # r \<Rightarrow> if one a then [(digit_val a, r)] else [] | [] \<Rightarrow> [])"

definition between :: "nat \<Rightarrow> nat \<Rightarrow> char \<Rightarrow> bool" where
  "between lo hi c \<longleftrightarrow> is_digit c \<and> lo \<le> digit_val c \<and> digit_val c \<le> hi"

definition stamp_month :: "string \<Rightarrow> (nat \<times> string) list" where
  "stamp_month = two_or_one (\<lambda>a b. a = CHR ''1'' \<and> between 0 2 b \<or> a = CHR ''0'' \<and> between 1 9 b) (between 1 9)"

definition day_field :: "string \<Rightarrow> (nat \<times> string) list" where
  "day_field s = two_or_one (\<lambda>a b. a = CHR ''3'' \<and> between 0 1 b \<or> between 1 2 a \<and> is_digit b \<or> a = CHR ''0'' \<and> between 1 9 b) (between 1 9) s
     @ (case s of a # b # r \<Rightarrow> if a = CHR '' '' \<and> between 1 9 b then [(digit_val b, r)] else [] | _ \<Rightarrow> [])"

definition hour_field :: "string \<Rightarrow> (nat \<times> string) list" where
  "hour_field = two_or_one (\<lambda>a b. a = CHR ''2'' \<and> between 0 3 b \<or> between 0 1 a \<and> is_digit b) is_digit"

definition minute_field :: "string \<Rightarrow> (nat \<times> string) list" where
  "minute_field = two_or_one (\<lambda>a b. between 0 5 a \<and> is_digit b) is_digit"

definition second_field :: "string \<Rightarrow> (nat \<times> string) list" where
  "second_field = two_or_one (\<lambda>a b. a = CHR ''6'' \<and> between 0 1 b \<or> between 0 5 a \<and> is_digit b) is_digit"

definition year_field :: "string \<Rightarrow> (nat \<times> string) list" where
  "year_field s = (if 4 \<le> length s \<and> list_all is_digit (take 4 s) then [(nat_of_digits (take 4 s), drop 4 s)] else [])"

text \<open>A letter or a dash of the format.\<close>
definition literal :: "char \<Rightarrow> (nat \<times> string) list \<Rightarrow> (nat \<times> string) list" where
  "literal c xs = concat (map (\<lambda>(n, s). case s of a # r \<Rightarrow> if py_lower_char a = py_lower_char c then [(n, r)] else [] | [] \<Rightarrow> []) xs)"

text \<open>The matches of \<open>%Y-%m-%dT%H%M%SZ\<close> in the order the pattern tries them.\<close>
definition stamp_matches :: "string \<Rightarrow> (nat \<times> nat \<times> nat \<times> nat \<times> nat \<times> nat \<times> string) list" where
  "stamp_matches s =
     concat (map (\<lambda>(y, s1). concat (map (\<lambda>(mo, s2). concat (map (\<lambda>(d, s3). concat (map (\<lambda>(h, s4).
     concat (map (\<lambda>(mi, s5). map (\<lambda>(sec, s6). (y, mo, d, h, mi, sec, s6))
       (literal (CHR ''Z'') (second_field s5))) (minute_field s4))) (hour_field s3)))
       (literal (CHR ''T'') (day_field s2)))) (literal (CHR ''-'') (stamp_month s1)))) (literal (CHR ''-'') (year_field s)))"

definition usec_second :: int where "usec_second = 1000000"

text \<open>\<open>_parse_stamp\<close>: the first match must end the text, and the fields must make a datetime.\<close>
definition parse_stamp :: "string \<Rightarrow> instant option" where
  "parse_stamp s = (case stamp_matches s of
       [] \<Rightarrow> None
     | (y, mo, d, h, mi, sec, rest) # _ \<Rightarrow>
         if rest \<noteq> [] \<or> y < 1 \<or> 59 < sec \<or> days_in_month (int y) (int mo) < int d then None
         else Some ((ymd2ord (int y) (int mo) (int d) - epoch_ordinal) * usec_day + int h * usec_hour + int mi * usec_minute + int sec * usec_second))"

text \<open>\<open>rpartition\<close> has its separator, and both halves parse.\<close>
definition key_instant :: "string \<Rightarrow> (instant \<times> int) option" where
  "key_instant key =
     (let name = (case split_last (CHR ''/'') key of None \<Rightarrow> key | Some (_, n) \<Rightarrow> n) in
      if \<not> (5 \<le> length name \<and> drop (length name - 5) name = ''.json'') then None
      else case split_last (CHR ''_'') (take (length name - 5) name) of
        None \<Rightarrow> None
      | Some (st, attempt) \<Rightarrow> (case (parse_stamp st, py_int attempt) of (Some t, Some n) \<Rightarrow> Some (t, n) | _ \<Rightarrow> None))"

subsection \<open>Digits\<close>

lemma digit_char_val [simp]: "d < 10 \<Longrightarrow> digit_val (digit_char d) = d" "is_digit (digit_char d)"
  by (simp_all add: digit_val_def is_digit_def digit_char_def)

lemma not_a_digit [simp]: "digit_char d \<noteq> CHR ''/''" "digit_char d \<noteq> CHR ''_''" "CHR ''/'' \<noteq> digit_char d" "CHR ''_'' \<noteq> digit_char d"
proof -
  have "\<not> is_digit (CHR ''/'')" "\<not> is_digit (CHR ''_'')" by (simp_all add: is_digit_def)
  then show "digit_char d \<noteq> CHR ''/''" "digit_char d \<noteq> CHR ''_''" "CHR ''/'' \<noteq> digit_char d" "CHR ''_'' \<noteq> digit_char d"
    using digit_char_val(2) [of d] by metis+
qed

lemma digit_char_mod: "digit_char (n mod 10) = digit_char n"
  by (simp add: digit_char_def)

lemma digit_char_eq: "d < 10 \<Longrightarrow> digit_char d = c \<longleftrightarrow> (of_char c :: nat) = 48 + d"
proof -
  assume "d < 10"
  then have "(of_char (digit_char d) :: nat) = 48 + d" by (simp add: digit_char_def)
  then show ?thesis by (metis of_char_eq_iff)
qed

lemma between_digit [simp]: "d < 10 \<Longrightarrow> between lo hi (digit_char d) \<longleftrightarrow> lo \<le> d \<and> d \<le> hi"
  by (simp add: between_def)

lemma pad2_digits: "pad2 n = [digit_char (nat n div 10), digit_char (nat n mod 10)]"
  by (simp add: pad2_def digit_char_mod)

lemma str_nat_digits: "list_all is_digit (str_nat n)" "str_nat n \<noteq> []"
  by (induction n rule: str_nat.induct) (auto simp: str_nat.simps [of _])

lemma nat_of_str_nat: "nat_of_digits (str_nat n) = n"
proof (induction n rule: str_nat.induct)
  case (1 n)
  show ?case
  proof (cases "n < 10")
    case True
    then show ?thesis by (subst str_nat.simps) (simp add: nat_of_digits_def)
  next
    case False
    then have "nat_of_digits (str_nat n) = nat_of_digits (str_nat (n div 10)) * 10 + digit_val (digit_char (n mod 10))"
      by (subst str_nat.simps) (simp add: nat_of_digits_def digit_char_mod)
    then show ?thesis using 1 [OF False] by simp
  qed
qed

lemma digits_rest_value:
  "list_all is_digit ds \<Longrightarrow> digits_rest acc ds = Some (foldl (\<lambda>a c. a * 10 + digit_val c) acc ds)"
  by (induction ds arbitrary: acc) auto

lemma py_int_str_nat: "py_int (str_nat n) = Some (int n)"
proof -
  note d = str_nat_digits [of n]
  obtain c cs where p: "str_nat n = c # cs" using d(2) by (cases "str_nat n") auto
  have "strip (str_nat n) = str_nat n" using d by (simp add: strip_def dropWhile_space_digit)
  moreover have "c \<noteq> CHR ''-''" "c \<noteq> CHR ''+''" using d p by (auto simp: is_digit_def)
  moreover have "digits_start 0 (str_nat n) = Some (nat_of_digits (str_nat n))"
    using d p digits_rest_value [of cs] by (simp add: nat_of_digits_def)
  ultimately show ?thesis using nat_of_str_nat [of n] by (simp add: py_int_def p)
qed

subsection \<open>Reading a stamp back\<close>

lemma field_first:
  assumes "0 \<le> n" "n < 100" "\<And>a b. a < 10 \<Longrightarrow> b < 10 \<Longrightarrow> n = 10 * int a + int b \<Longrightarrow> two (digit_char a) (digit_char b)"
  shows "\<exists>xs. two_or_one two one (pad2 n @ r) = (nat n, r) # xs"
proof -
  have "nat n div 10 < 10" using assms(2) by auto
  moreover have "n = 10 * int (nat n div 10) + int (nat n mod 10)"
    using assms(1) mult_div_mod_eq [of 10 "nat n"] by (metis int_nat_eq of_nat_add of_nat_mult of_nat_numeral)
  ultimately have "nat n div 10 < 10" "n = 10 * int (nat n div 10) + int (nat n mod 10)" by simp_all
  with assms(3) [of "nat n div 10" "nat n mod 10"] have "two (digit_char (nat n div 10)) (digit_char (nat n mod 10))" by simp
  with \<open>nat n div 10 < 10\<close> show ?thesis by (simp add: two_or_one_def pad2_digits)
qed

lemma month_first: "1 \<le> n \<Longrightarrow> n \<le> 12 \<Longrightarrow> \<exists>xs. stamp_month (pad2 n @ r) = (nat n, r) # xs"
  unfolding stamp_month_def by (rule field_first) (auto simp: digit_char_eq)

lemma day_first: "1 \<le> n \<Longrightarrow> n \<le> 31 \<Longrightarrow> \<exists>xs. day_field (pad2 n @ r) = (nat n, r) # xs"
proof -
  assume n: "1 \<le> n" "n \<le> 31"
  then have "\<exists>xs. two_or_one (\<lambda>a b. a = CHR ''3'' \<and> between 0 1 b \<or> between 1 2 a \<and> is_digit b \<or> a = CHR ''0'' \<and> between 1 9 b)
      (between 1 9) (pad2 n @ r) = (nat n, r) # xs"
    by (intro field_first) (auto simp: digit_char_eq)
  then show ?thesis by (auto simp: day_field_def)
qed

lemma hour_first: "0 \<le> n \<Longrightarrow> n \<le> 23 \<Longrightarrow> \<exists>xs. hour_field (pad2 n @ r) = (nat n, r) # xs"
  unfolding hour_field_def by (rule field_first) (auto simp: digit_char_eq)

lemma minute_first: "0 \<le> n \<Longrightarrow> n \<le> 59 \<Longrightarrow> \<exists>xs. minute_field (pad2 n @ r) = (nat n, r) # xs"
  unfolding minute_field_def by (rule field_first) (auto simp: digit_char_eq)

lemma second_first: "0 \<le> n \<Longrightarrow> n \<le> 59 \<Longrightarrow> \<exists>xs. second_field (pad2 n @ r) = (nat n, r) # xs"
  unfolding second_field_def by (rule field_first) (auto simp: digit_char_eq)

lemma year_first:
  assumes "0 \<le> n" "n < 10000"
  shows "year_field (pad4 n @ r) = [(nat n, r)]"
proof -
  have "nat (n div 100) div 10 < 10" "nat (n mod 100) div 10 < 10" using assms by auto
  moreover have "((nat (n div 100) div 10 * 10 + nat (n div 100) mod 10) * 10 + nat (n mod 100) div 10) * 10 + nat (n mod 100) mod 10 = nat n"
  proof -
    have "nat (n div 100) div 10 * 10 + nat (n div 100) mod 10 = nat (n div 100)" by (rule div_mult_mod_eq)
    moreover have "nat (n mod 100) div 10 * 10 + nat (n mod 100) mod 10 = nat (n mod 100)" by (rule div_mult_mod_eq)
    moreover have "nat (n div 100) * 100 + nat (n mod 100) = nat n"
      using assms(1) by (simp add: nat_div_distrib nat_mod_distrib)
    moreover have split: "((a * 10 + b) * 10 + c) * 10 + d = (a * 10 + b) * 100 + (c * 10 + d)" for a b c d :: nat by simp
    ultimately show ?thesis unfolding split by (simp only:)
  qed
  ultimately show ?thesis
    by (simp add: year_field_def pad4_def pad2_digits nat_of_digits_def)
qed

lemma literal_match [simp]: "literal c ((n, c # r) # xs) = (n, r) # literal c xs"
  by (simp add: literal_def)

lemma stamp_matches_first:
  assumes "0 \<le> y" "y < 10000" "1 \<le> mo" "mo \<le> 12" "1 \<le> d" "d \<le> 31" "0 \<le> h" "h \<le> 23" "0 \<le> mi" "mi \<le> 59" "0 \<le> sec" "sec \<le> 59"
  shows "\<exists>xs. stamp_matches (pad4 y @ ''-'' @ pad2 mo @ ''-'' @ pad2 d @ ''T'' @ pad2 h @ pad2 mi @ pad2 sec @ ''Z'')
    = (nat y, nat mo, nat d, nat h, nat mi, nat sec, []) # xs"
proof -
  define r6 where "r6 = ''Z''"
  define r5 where "r5 = pad2 sec @ r6"
  define r4 where "r4 = pad2 mi @ r5"
  define r3 where "r3 = pad2 h @ r4"
  define r2 where "r2 = pad2 d @ CHR ''T'' # r3"
  define r1 where "r1 = pad2 mo @ CHR ''-'' # r2"
  obtain ms ds hs mis ss where
    f: "stamp_month r1 = (nat mo, CHR ''-'' # r2) # ms" "day_field r2 = (nat d, CHR ''T'' # r3) # ds"
      "hour_field r3 = (nat h, r4) # hs" "minute_field r4 = (nat mi, r5) # mis" "second_field r5 = (nat sec, CHR ''Z'' # []) # ss"
    unfolding r1_def r2_def r3_def r4_def r5_def r6_def
    using month_first [OF assms(3,4)] day_first [OF assms(5,6)] hour_first [OF assms(7,8)] minute_first [OF assms(9,10)]
      second_first [OF assms(11,12)] by metis
  have "stamp_matches (pad4 y @ CHR ''-'' # r1) = (nat y, nat mo, nat d, nat h, nat mi, nat sec, [])
      # tl (stamp_matches (pad4 y @ CHR ''-'' # r1))"
    by (simp add: stamp_matches_def year_first [OF assms(1,2)] f)
  then show ?thesis unfolding r1_def r2_def r3_def r4_def r5_def r6_def by (metis append_Cons append_Nil)
qed

lemma days_in_month_bound: "days_in_month y m \<le> 31"
  by (simp add: days_in_month_def)

lemma time_of_day:
  "t div usec_day * usec_day + hour_of (utc_clock t) * usec_hour + minute_of (utc_clock t) * usec_minute
     + t mod usec_minute div 1000000 * 1000000 = t - t mod 1000000"
proof -
  have 1: "t mod usec_day div usec_hour * usec_hour = t mod usec_day - t mod usec_hour"
    by (simp add: minus_mod_eq_div_mult [symmetric] mod_mod_cancel usec_defs)
  have 2: "t mod usec_hour div usec_minute * usec_minute = t mod usec_hour - t mod usec_minute"
    by (simp add: minus_mod_eq_div_mult [symmetric] mod_mod_cancel usec_defs)
  have 3: "t mod usec_minute div 1000000 * 1000000 = t mod usec_minute - t mod 1000000"
    by (simp add: minus_mod_eq_div_mult [symmetric] mod_mod_cancel usec_defs)
  show ?thesis unfolding hour_of_def minute_of_def utc_clock_def local_time.select_convs 1 2 3
    by (simp add: minus_mod_eq_div_mult [symmetric])
qed

text \<open>What \<open>strftime\<close> writes is read back, to the second.\<close>
theorem parse_stamp_stamp:
  assumes "1 \<le> year_of (date_of (utc_clock t))" "year_of (date_of (utc_clock t)) \<le> 9999"
  shows "parse_stamp (stamp t) = Some (t - t mod 1000000)"
proof -
  let ?n = "date_of (utc_clock t)"
  note ymd = ymd_round_trip [of ?n]
  have d31: "day_of ?n \<le> 31" using ymd(5) days_in_month_bound order_trans by blast
  have h: "0 \<le> hour_of (utc_clock t)" "hour_of (utc_clock t) \<le> 23"
    using pos_mod_sign [of usec_day t] pos_mod_bound [of usec_day t] by (simp_all add: hour_of_def utc_clock_def usec_defs)
  have mi: "0 \<le> minute_of (utc_clock t)" "minute_of (utc_clock t) \<le> 59"
    using pos_mod_sign [of usec_hour t] pos_mod_bound [of usec_hour t] by (simp_all add: minute_of_def utc_clock_def usec_defs)
  have sec: "0 \<le> t mod usec_minute div 1000000" "t mod usec_minute div 1000000 \<le> 59"
    using pos_mod_sign [of usec_minute t] pos_mod_bound [of usec_minute t] by (simp_all add: usec_defs)
  obtain xs where xs: "stamp_matches (stamp t) = (nat (year_of ?n), nat (month_of ?n), nat (day_of ?n), nat (hour_of (utc_clock t)),
      nat (minute_of (utc_clock t)), nat (t mod usec_minute div 1000000), []) # xs"
    using stamp_matches_first [of "year_of ?n" "month_of ?n" "day_of ?n" "hour_of (utc_clock t)" "minute_of (utc_clock t)"
        "t mod usec_minute div 1000000"] assms ymd(2-4) d31 h mi sec
    unfolding stamp_def Let_def by auto
  have "(ymd2ord (year_of ?n) (month_of ?n) (day_of ?n) - epoch_ordinal) * usec_day = t div usec_day * usec_day"
    by (simp add: ymd(1)) (simp add: date_of_def utc_clock_def)
  then have "(ymd2ord (year_of ?n) (month_of ?n) (day_of ?n) - epoch_ordinal) * usec_day + hour_of (utc_clock t) * usec_hour
      + minute_of (utc_clock t) * usec_minute + t mod usec_minute div 1000000 * usec_second = t - t mod 1000000"
    using time_of_day [of t] unfolding usec_second_def by (simp only:)
  moreover have "int (nat (t mod usec_minute div 1000000)) = t mod usec_minute div 1000000" using sec(1) by simp
  moreover have "nat (t mod usec_minute div 1000000) \<le> 59" using sec(2) by simp
  ultimately show ?thesis using assms ymd(2-5) h mi by (simp add: parse_stamp_def xs del: int_nat_eq nat_le_iff)
qed

lemma stamp_plain: "CHR ''/'' \<notin> set (stamp t)" "CHR ''_'' \<notin> set (stamp t)"
  by (simp_all add: stamp_def Let_def pad4_def pad2_def)

lemma str_nat_plain: "CHR ''/'' \<notin> set (str_nat n)" "CHR ''_'' \<notin> set (str_nat n)"
  using str_nat_digits(1) [of n] by (auto simp: list_all_iff is_digit_def)

lemma entry_key_parts:
  "entry_key target t n = (''captures/'' @ target @ ''/'' @ pad4 (year_of (date_of (utc_clock t))) @ ''/'' @ pad2 (month_of (date_of (utc_clock t)))
     @ ''/'' @ pad2 (day_of (date_of (utc_clock t)))) @ CHR ''/'' # stamp t @ CHR ''_'' # str_nat n @ ''.json''"
  by (simp add: entry_key_def Let_def)

text \<open>The key of an entry gives its instant, to the second, and its attempt.\<close>
theorem key_instant_entry_key:
  assumes "1 \<le> year_of (date_of (utc_clock t))" "year_of (date_of (utc_clock t)) \<le> 9999"
  shows "key_instant (entry_key target t n) = Some (t - t mod 1000000, int n)"
proof -
  let ?name = "stamp t @ CHR ''_'' # str_nat n @ ''.json''"
  have "CHR ''/'' \<notin> set ?name" using stamp_plain str_nat_plain by simp
  then have last: "split_last (CHR ''/'') (entry_key target t n) = Some (''captures/'' @ target @ ''/'' @ pad4 (year_of (date_of (utc_clock t)))
      @ ''/'' @ pad2 (month_of (date_of (utc_clock t))) @ ''/'' @ pad2 (day_of (date_of (utc_clock t))), ?name)"
    unfolding entry_key_parts by (rule split_last_append)
  have "take (length ?name - 5) ?name = stamp t @ CHR ''_'' # str_nat n" "drop (length ?name - 5) ?name = ''.json''" "5 \<le> length ?name"
    by simp_all
  moreover have "split_last (CHR ''_'') (stamp t @ CHR ''_'' # str_nat n) = Some (stamp t, str_nat n)"
    by (rule split_last_append) (rule str_nat_plain)
  ultimately show ?thesis
    by (simp only: key_instant_def last Let_def option.case prod.case parse_stamp_stamp [OF assms] py_int_str_nat) simp
qed

end
