(* ===== verification/Object_Store.thy ===== *)
theory Object_Store
  imports Base64 Plan Parse Decode
begin

text \<open>
  The S3 client (src/energy_platform/fetch/objectstore.py): the check of the endpoint, Signature Version 4,
  and the verbs over a signed, retried request. HMAC, SHA-256, MD5, the XML parser, the clock and the
  transport are arguments; a request that is sent is appended to a trace. Sleeping and logging are left
  out, and so is the timeout, which the transport enforces.
\<close>

subsection \<open>Configuration\<close>

datatype store_exc = ObjectStoreError string string | Store_raised string

datatype retention_mode = Compliance | Governance

record retention =
  rn_mode :: retention_mode
  rn_days :: int

definition mk_retention :: "retention_mode \<Rightarrow> int \<Rightarrow> py_error + retention" where
  "mk_retention mode days = (if days < 1 then Inl (ValueError ''retention days must be >= 1'') else Inr \<lparr>rn_mode = mode, rn_days = days\<rparr>)"

record object_store_config =
  oc_endpoint :: string
  oc_bucket :: string
  oc_region :: string
  oc_allowed_hosts :: "string list"
  oc_allow_insecure :: bool
  oc_allow_delete :: bool
  oc_retention :: "retention option"

record credentials =
  cr_access_key_id :: string
  cr_secret_access_key :: string
  cr_session_token :: "string option"

definition credentials_from_env :: "(string, string) dict \<Rightarrow> string \<Rightarrow> plan_exc + credentials" where
  "credentials_from_env env name =
     (let token = (case env_resolve env \<lparr>sr_name = name, sr_key = ''session-token''\<rparr> of Inl e \<Rightarrow> None | Inr t \<Rightarrow> Some t) in
      bindR (env_resolve env \<lparr>sr_name = name, sr_key = ''access-key-id''\<rparr>) (\<lambda>i.
      bindR (env_resolve env \<lparr>sr_name = name, sr_key = ''secret-access-key''\<rparr>) (\<lambda>s.
      Inr \<lparr>cr_access_key_id = i, cr_secret_access_key = s, cr_session_token = token\<rparr>)))"

definition raise_store :: "py_error + 'a \<Rightarrow> store_exc + 'a" where
  "raise_store x = (case x of Inl e \<Rightarrow> Inl (Store_raised ''ValueError'') | Inr y \<Rightarrow> Inr y)"

text \<open>A URL carries credentials when its authority has an at sign.\<close>
definition check_endpoint :: "string \<Rightarrow> string list \<Rightarrow> bool \<Rightarrow> store_exc + string" where
  "check_endpoint endpoint allowed_hosts allow_insecure =
     bindR (raise_store (urlsplit endpoint)) (\<lambda>parts.
     let h = url_host parts; scheme = up_scheme parts in
     if h = [] then Inl (ObjectStoreError ''endpoint_not_allowed'' ''has no host'')
     else if scheme \<notin> {''https'', ''http''} then Inl (ObjectStoreError ''insecure_endpoint'' ''scheme must be https'')
     else if scheme = ''http'' \<and> \<not> allow_insecure then Inl (ObjectStoreError ''insecure_endpoint'' ''http needs allow_insecure'')
     else if CHR 0x40 \<in> set (up_netloc parts) then Inl (ObjectStoreError ''endpoint_not_allowed'' ''credentials in the URL'')
     else if up_query parts \<noteq> [] \<or> up_fragment parts \<noteq> [] \<or> up_path parts \<notin> {[], ''/''}
       then Inl (ObjectStoreError ''endpoint_not_allowed'' ''path, query or fragment'')
     else if h \<notin> set allowed_hosts then Inl (ObjectStoreError ''endpoint_not_allowed'' ''is not in the object-store allowlist'')
     else bindR (raise_store (port_of parts)) (\<lambda>port.
       let default_port = (if scheme = ''https'' then 443 else 80) in
       Inr (scheme @ ''://'' @ (case port of None \<Rightarrow> h | Some p \<Rightarrow> if p = default_port then h else h @ CHR '':'' # str_int p))))"

subsection \<open>Signing\<close>

record signed_request =
  sg_method :: string
  sg_url :: string
  sg_headers :: "(string, string) dict"
  sg_canonical_request :: string
  sg_string_to_sign :: string
  sg_signature :: string

text \<open>HMAC-SHA-256 of a key and a message, SHA-256 in hexadecimal, MD5, the XML parser (none is an
  \<open>XMLSyntaxError\<close>), the transport (a text is a \<open>TransportError\<close>) and the clock, by the number of requests sent.\<close>
record os_response =
  or_status :: int
  or_headers :: "(string, string) dict"
  or_content :: bytes

record os_lib =
  ol_hmac :: "bytes \<Rightarrow> bytes \<Rightarrow> bytes"
  ol_sha :: "bytes \<Rightarrow> string"
  ol_md5 :: "bytes \<Rightarrow> bytes"
  ol_xml :: "bytes \<Rightarrow> xml_node option"
  ol_send :: "nat \<Rightarrow> signed_request \<Rightarrow> bytes \<Rightarrow> string + os_response"
  ol_clock :: "nat \<Rightarrow> instant"

definition ALGORITHM :: string where "ALGORITHM = ''AWS4-HMAC-SHA256''"
definition SERVICE :: string where "SERVICE = ''s3''"

text \<open>\<open>%Y%m%d\<close> and \<open>%Y%m%dT%H%M%SZ\<close>\<close>
definition amz_date :: "instant \<Rightarrow> string" where
  "amz_date t = (let d = date_of (utc_clock t) in pad4 (year_of d) @ pad2 (month_of d) @ pad2 (day_of d))"

definition amz_stamp :: "instant \<Rightarrow> string" where
  "amz_stamp t = amz_date t @ ''T'' @ pad2 (hour_of (utc_clock t)) @ pad2 (minute_of (utc_clock t))
     @ pad2 (t mod usec_minute div 1000000) @ ''Z''"

definition uri_char :: "bool \<Rightarrow> char \<Rightarrow> string" where
  "uri_char keep_slash c = (if unreserved c \<or> keep_slash \<and> c = CHR ''/'' then [c] else concat (map percent (utf8 c)))"

definition uri_encode :: "bool \<Rightarrow> string \<Rightarrow> string" where
  "uri_encode keep_slash s = concat (map (uri_char keep_slash) s)"

definition canonical_query :: "string \<Rightarrow> string" where
  "canonical_query q = join_with ''&'' (map (\<lambda>(k, v). k @ CHR ''='' # v)
     (sort (map (partition_at (CHR ''='')) (filter (\<lambda>i. i \<noteq> []) (split_on (CHR ''&'') q)))))"

definition hex_of :: "bytes \<Rightarrow> string" where
  "hex_of bs = concat (map (\<lambda>b. [''0123456789abcdef'' ! (unat b div 16), ''0123456789abcdef'' ! (unat b mod 16)]) bs)"

text \<open>The headers that are signed: names lower-cased and stripped, values with single spaces, and those of the
  protocol over them.\<close>
definition header_text :: "string \<Rightarrow> string" where
  "header_text v = join_with '' '' (split_ws v)"

definition all_headers ::
    "(string, string) dict \<Rightarrow> string \<Rightarrow> string \<Rightarrow> string \<Rightarrow> credentials \<Rightarrow> (string, string) dict" where
  "all_headers headers netloc psha at_stamp cr =
     (let given = foldl (\<lambda>d (k, v). dset (strip (py_lower k)) (header_text v) d) [] headers;
          d = dset ''x-amz-date'' at_stamp (dset ''x-amz-content-sha256'' psha (dset ''host'' netloc given))
      in if truthy (cr_session_token cr) then dset ''x-amz-security-token'' (the (cr_session_token cr)) d else d)"

definition signing_key :: "os_lib \<Rightarrow> credentials \<Rightarrow> string \<Rightarrow> string \<Rightarrow> bytes" where
  "signing_key lib cr day region =
     foldl (\<lambda>key part. ol_hmac lib key (utf8_bytes_of part)) (utf8_bytes_of (''AWS4'' @ cr_secret_access_key cr))
       [day, region, SERVICE, ''aws4_request'']"

definition canonical_request_of :: "string \<Rightarrow> url_parts \<Rightarrow> (string, string) dict \<Rightarrow> string \<Rightarrow> string" where
  "canonical_request_of method parts headers psha =
     (let names = sort (dkeys headers) in
      join_with [CHR 0x0A]
        [method, (if up_path parts = [] then ''/'' else up_path parts), canonical_query (up_query parts),
         concat (map (\<lambda>n. n @ '':'' @ the (dget headers n) @ [CHR 0x0A]) names), join_with '';'' names, psha])"

text \<open>The methods of this client are upper-case already.\<close>
definition sign_v4 ::
    "os_lib \<Rightarrow> string \<Rightarrow> string \<Rightarrow> (string, string) dict \<Rightarrow> string \<Rightarrow> credentials \<Rightarrow> string \<Rightarrow> instant \<Rightarrow> store_exc + signed_request" where
  "sign_v4 lib method url headers psha cr region t =
     bindR (raise_store (urlsplit url)) (\<lambda>parts.
     let at_stamp = amz_stamp t; day = amz_date t;
         hs = all_headers headers (up_netloc parts) psha at_stamp cr;
         canonical = canonical_request_of method parts hs psha;
         scope = join_with ''/'' [day, region, SERVICE, ''aws4_request''];
         string_to_sign = join_with [CHR 0x0A] [ALGORITHM, at_stamp, scope, ol_sha lib (utf8_bytes_of canonical)];
         signature = hex_of (ol_hmac lib (signing_key lib cr day region) (utf8_bytes_of string_to_sign)) in
     Inr \<lparr>sg_method = method, sg_url = url,
       sg_headers = dset ''authorization'' (ALGORITHM @ '' Credential='' @ cr_access_key_id cr @ ''/'' @ scope @ '', SignedHeaders=''
         @ join_with '';'' (sort (dkeys hs)) @ '', Signature='' @ signature) hs,
       sg_canonical_request = canonical, sg_string_to_sign = string_to_sign, sg_signature = signature\<rparr>)"

subsection \<open>Requests\<close>

type_synonym trace = "(signed_request \<times> bytes) list"

record object_store =
  ob_config :: object_store_config
  ob_base :: string
  ob_credentials :: credentials
  ob_attempts :: nat

definition mk_object_store :: "object_store_config \<Rightarrow> credentials \<Rightarrow> nat \<Rightarrow> store_exc + object_store" where
  "mk_object_store config cr attempts =
     bindR (check_endpoint (oc_endpoint config) (oc_allowed_hosts config) (oc_allow_insecure config)) (\<lambda>base.
     Inr \<lparr>ob_config = config, ob_base = base, ob_credentials = cr, ob_attempts = attempts\<rparr>)"

text \<open>\<open>etree.QName(el).localname\<close>\<close>
definition node_local :: "xml_node \<Rightarrow> string option" where
  "node_local n = map_option (\<lambda>t. case split_last (CHR 0x7D) t of None \<Rightarrow> t | Some (_, l) \<Rightarrow> l) (nd_tag n)"

definition child_text :: "xml_node \<Rightarrow> string \<Rightarrow> string option" where
  "child_text n name = Option.bind (find (\<lambda>c. node_local c = Some name) (nd_children n)) nd_text"

definition error_code :: "os_lib \<Rightarrow> bytes \<Rightarrow> string" where
  "error_code lib body = (case ol_xml lib body of
       None \<Rightarrow> ''unknown''
     | Some root \<Rightarrow> (let c = child_text root ''Code'' in if truthy c then the c else ''unknown''))"

definition object_url :: "object_store \<Rightarrow> string \<Rightarrow> store_exc + string" where
  "object_url st key =
     (if key = [] \<or> hd key = CHR ''/'' then Inl (ObjectStoreError ''bad_key'' key)
      else Inr (ob_base st @ ''/'' @ uri_encode False (oc_bucket (ob_config st)) @ ''/'' @ uri_encode True key))"

definition bucket_url :: "object_store \<Rightarrow> (string, string) dict \<Rightarrow> string" where
  "bucket_url st params =
     (let query = join_with ''&'' (map (\<lambda>(k, v). uri_encode False k @ CHR ''='' # uri_encode False v) (sort params));
          base = ob_base st @ ''/'' @ uri_encode False (oc_bucket (ob_config st))
      in if query \<noteq> [] then base @ CHR ''?'' # query else base)"

text \<open>\<open>_request\<close>: \<open>n\<close> attempts are left; each is signed anew.\<close>
fun send_signed ::
    "os_lib \<Rightarrow> object_store \<Rightarrow> string \<Rightarrow> string \<Rightarrow> (string, string) dict \<Rightarrow> bytes \<Rightarrow> nat \<Rightarrow> store_exc \<Rightarrow> trace
     \<Rightarrow> (store_exc + os_response) \<times> trace" where
  "send_signed lib st method url headers body 0 le tr = (Inl le, tr)"
| "send_signed lib st method url headers body (Suc n) le tr =
     (case sign_v4 lib method url headers (ol_sha lib body) (ob_credentials st) (oc_region (ob_config st)) (ol_clock lib (length tr)) of
        Inl e \<Rightarrow> (Inl e, tr)
      | Inr q \<Rightarrow> (case ol_send lib (length tr) q body of
            Inl e \<Rightarrow> send_signed lib st method url headers body n (ObjectStoreError ''request_failed'' (method @ '' '' @ url @ '': '' @ e)) (tr @ [(q, body)])
          | Inr resp \<Rightarrow> if or_status resp < 500 then (Inr resp, tr @ [(q, body)])
              else send_signed lib st method url headers body n
                (ObjectStoreError (error_code lib (or_content resp)) (''HTTP '' @ str_int (or_status resp) @ '' from '' @ method @ '' '' @ url)) (tr @ [(q, body)])))"

definition os_request ::
    "os_lib \<Rightarrow> object_store \<Rightarrow> string \<Rightarrow> string \<Rightarrow> (string, string) dict \<Rightarrow> bytes \<Rightarrow> trace \<Rightarrow> (store_exc + os_response) \<times> trace" where
  "os_request lib st method url headers body tr =
     send_signed lib st method url headers body (ob_attempts st) (ObjectStoreError ''request_failed'' ''no attempt made'') tr"

definition raise_unless :: "os_lib \<Rightarrow> object_store \<Rightarrow> os_response \<Rightarrow> int list \<Rightarrow> string \<Rightarrow> store_exc + unit" where
  "raise_unless lib st resp accepted what = (if or_status resp \<in> set accepted then Inr ()
     else Inl (ObjectStoreError (error_code lib (or_content resp))
       (''HTTP '' @ str_int (or_status resp) @ '' for '' @ what @ '' on '' @ ob_base st @ ''/'' @ oc_bucket (ob_config st))))"

text \<open>A verb: one request, then what is made of its response.\<close>
definition verb ::
    "os_lib \<Rightarrow> object_store \<Rightarrow> string \<Rightarrow> store_exc + string \<Rightarrow> (string, string) dict \<Rightarrow> bytes \<Rightarrow> (os_response \<Rightarrow> store_exc + 'a) \<Rightarrow> trace
     \<Rightarrow> (store_exc + 'a) \<times> trace" where
  "verb lib st method url headers body answer tr = (case url of
       Inl e \<Rightarrow> (Inl e, tr)
     | Inr u \<Rightarrow> (case os_request lib st method u headers body tr of
           (Inl e, tr') \<Rightarrow> (Inl e, tr')
         | (Inr resp, tr') \<Rightarrow> (answer resp, tr')))"

subsection \<open>Verbs\<close>

text \<open>\<open>%Y-%m-%dT%H:%M:%SZ\<close>\<close>
definition retain_until :: "instant \<Rightarrow> string" where
  "retain_until t = (let d = date_of (utc_clock t) in
     pad4 (year_of d) @ ''-'' @ pad2 (month_of d) @ ''-'' @ pad2 (day_of d) @ ''T'' @ pad2 (hour_of (utc_clock t)) @ '':''
     @ pad2 (minute_of (utc_clock t)) @ '':'' @ pad2 (t mod usec_minute div 1000000) @ ''Z'')"

definition retention_headers :: "os_lib \<Rightarrow> object_store \<Rightarrow> trace \<Rightarrow> (string, string) dict" where
  "retention_headers lib st tr = (case oc_retention (ob_config st) of
       None \<Rightarrow> []
     | Some r \<Rightarrow> [(''x-amz-object-lock-mode'', if rn_mode r = Compliance then ''COMPLIANCE'' else ''GOVERNANCE''),
         (''x-amz-object-lock-retain-until-date'', retain_until (ol_clock lib (length tr) + rn_days r * usec_day))])"

definition body_headers :: "os_lib \<Rightarrow> string \<Rightarrow> bytes \<Rightarrow> (string, string) dict" where
  "body_headers lib content_type data = [(''content-type'', content_type), (''content-md5'', b64encode (ol_md5 lib data))]"

definition header_of :: "os_response \<Rightarrow> string \<Rightarrow> string option" where
  "header_of resp name = dget (or_headers resp) name"

definition os_put ::
    "os_lib \<Rightarrow> object_store \<Rightarrow> string \<Rightarrow> bytes \<Rightarrow> string \<Rightarrow> string option \<Rightarrow> trace \<Rightarrow> (store_exc + string) \<times> trace" where
  "os_put lib st key data content_type storage_class tr =
     verb lib st ''PUT'' (object_url st key)
       (body_headers lib content_type data @ retention_headers lib st tr
         @ (case storage_class of None \<Rightarrow> [] | Some c \<Rightarrow> [(''x-amz-storage-class'', c)])) data
       (\<lambda>resp. bindR (raise_unless lib st resp [200] key)
         (\<lambda>_. Inr (case header_of resp ''etag'' of None \<Rightarrow> [] | Some t \<Rightarrow> t))) tr"

text \<open>The object existed already: 412.\<close>
definition os_put_new ::
    "os_lib \<Rightarrow> object_store \<Rightarrow> string \<Rightarrow> bytes \<Rightarrow> string \<Rightarrow> trace \<Rightarrow> (store_exc + bool) \<times> trace" where
  "os_put_new lib st key data content_type tr =
     verb lib st ''PUT'' (object_url st key)
       (body_headers lib content_type data @ [(''if-none-match'', ''*'')] @ retention_headers lib st tr) data
       (\<lambda>resp. if or_status resp = 412 then Inr False else bindR (raise_unless lib st resp [200] key) (\<lambda>_. Inr True)) tr"

definition bucket_exists :: "os_lib \<Rightarrow> object_store \<Rightarrow> trace \<Rightarrow> (store_exc + bool) \<times> trace" where
  "bucket_exists lib st tr =
     verb lib st ''HEAD'' (Inr (bucket_url st [])) [] []
       (\<lambda>resp. if or_status resp = 404 then Inr False
         else bindR (raise_unless lib st resp [200] (oc_bucket (ob_config st))) (\<lambda>_. Inr True)) tr"

definition create_bucket :: "os_lib \<Rightarrow> object_store \<Rightarrow> bool \<Rightarrow> trace \<Rightarrow> (store_exc + bool) \<times> trace" where
  "create_bucket lib st object_lock tr =
     (case bucket_exists lib st tr of
        (Inl e, tr') \<Rightarrow> (Inl e, tr')
      | (Inr True, tr') \<Rightarrow> (Inr False, tr')
      | (Inr False, tr') \<Rightarrow>
          verb lib st ''PUT'' (Inr (bucket_url st [])) (if object_lock then [(''x-amz-bucket-object-lock-enabled'', ''true'')] else []) []
            (\<lambda>resp. if or_status resp = 409 then Inr False
              else bindR (raise_unless lib st resp [200] (oc_bucket (ob_config st))) (\<lambda>_. Inr True)) tr')"

definition versioning_body :: "bool \<Rightarrow> string" where
  "versioning_body enabled = ''<VersioningConfiguration xmlns=\"http://s3.amazonaws.com/doc/2006-03-01/\"><Status>''
     @ (if enabled then ''Enabled'' else ''Suspended'') @ ''</Status></VersioningConfiguration>''"

definition put_bucket_versioning :: "os_lib \<Rightarrow> object_store \<Rightarrow> bool \<Rightarrow> trace \<Rightarrow> (store_exc + unit) \<times> trace" where
  "put_bucket_versioning lib st enabled tr =
     verb lib st ''PUT'' (Inr (bucket_url st [(''versioning'', [])])) [(''content-type'', ''application/xml'')]
       (utf8_bytes_of (versioning_body enabled))
       (\<lambda>resp. raise_unless lib st resp [200] (oc_bucket (ob_config st) @ ''?versioning'')) tr"

definition os_get :: "os_lib \<Rightarrow> object_store \<Rightarrow> string \<Rightarrow> trace \<Rightarrow> (store_exc + bytes option) \<times> trace" where
  "os_get lib st key tr =
     verb lib st ''GET'' (object_url st key) [] []
       (\<lambda>resp. if or_status resp = 404 then Inr None
         else bindR (raise_unless lib st resp [200] key) (\<lambda>_. Inr (Some (or_content resp)))) tr"

record object_info =
  oi_key :: string
  oi_size :: int
  oi_etag :: "string option"
  oi_content_type :: "string option"
  oi_last_modified :: "string option"
  oi_storage_class :: "string option"

definition int_text :: "string \<Rightarrow> store_exc + int" where
  "int_text s = (case py_int s of None \<Rightarrow> Inl (Store_raised ''ValueError'') | Some n \<Rightarrow> Inr n)"

definition os_head :: "os_lib \<Rightarrow> object_store \<Rightarrow> string \<Rightarrow> trace \<Rightarrow> (store_exc + object_info option) \<times> trace" where
  "os_head lib st key tr =
     verb lib st ''HEAD'' (object_url st key) [] []
       (\<lambda>resp. if or_status resp = 404 then Inr None
         else bindR (raise_unless lib st resp [200] key) (\<lambda>_.
           bindR (int_text (case header_of resp ''content-length'' of None \<Rightarrow> ''0'' | Some n \<Rightarrow> n)) (\<lambda>n.
           Inr (Some \<lparr>oi_key = key, oi_size = n, oi_etag = header_of resp ''etag'', oi_content_type = header_of resp ''content-type'',
             oi_last_modified = header_of resp ''last-modified'', oi_storage_class = header_of resp ''x-amz-storage-class''\<rparr>)))) tr"

definition os_delete :: "os_lib \<Rightarrow> object_store \<Rightarrow> string \<Rightarrow> trace \<Rightarrow> (store_exc + unit) \<times> trace" where
  "os_delete lib st key tr =
     (if \<not> oc_allow_delete (ob_config st) then (Inl (ObjectStoreError ''delete_not_allowed'' ''this store was not built with allow_delete''), tr)
      else verb lib st ''DELETE'' (object_url st key) [] [] (\<lambda>resp. raise_unless lib st resp [200, 204] key) tr)"

subsection \<open>Listing\<close>

definition or_default :: "string option \<Rightarrow> string \<Rightarrow> string" where
  "or_default t other = (if truthy t then the t else other)"

definition content_info :: "xml_node \<Rightarrow> store_exc + object_info" where
  "content_info el = (case child_text el ''Key'' of
       None \<Rightarrow> Inl (ObjectStoreError ''bad_listing'' ''Contents without Key'')
     | Some key \<Rightarrow> bindR (int_text (or_default (child_text el ''Size'') ''0'')) (\<lambda>n.
         Inr \<lparr>oi_key = key, oi_size = n, oi_etag = child_text el ''ETag'', oi_content_type = None,
           oi_last_modified = child_text el ''LastModified'', oi_storage_class = None\<rparr>))"

text \<open>The entries of a page and the token of the next one.\<close>
definition parse_listing :: "os_lib \<Rightarrow> bytes \<Rightarrow> store_exc + object_info list \<times> string option" where
  "parse_listing lib body = (case ol_xml lib body of
       None \<Rightarrow> Inl (Store_raised ''XMLSyntaxError'')
     | Some root \<Rightarrow>
         if node_local root \<noteq> Some ''ListBucketResult'' then Inl (ObjectStoreError ''bad_listing'' ''response is not a ListBucketResult'')
         else bindR (mapR content_info (filter (\<lambda>el. node_local el = Some ''Contents'') (nd_children root))) (\<lambda>page.
           let truncated = (py_lower (strip (or_default (child_text root ''IsTruncated'') ''false'')) = ''true'');
               token = (if truncated then child_text root ''NextContinuationToken'' else None) in
           if truncated \<and> \<not> truthy token then Inl (ObjectStoreError ''bad_listing'' ''IsTruncated without NextContinuationToken'')
           else Inr (page, token)))"

definition list_params :: "string \<Rightarrow> nat \<Rightarrow> string option \<Rightarrow> (string, string) dict" where
  "list_params pre page_size token = [(''list-type'', ''2''), (''max-keys'', str_nat page_size), (''prefix'', pre)]
     @ (case token of None \<Rightarrow> [] | Some t \<Rightarrow> [(''continuation-token'', t)])"

definition list_page ::
    "os_lib \<Rightarrow> object_store \<Rightarrow> string \<Rightarrow> nat \<Rightarrow> string option \<Rightarrow> trace \<Rightarrow> (store_exc + object_info list \<times> string option) \<times> trace" where
  "list_page lib st pre page_size token tr =
     verb lib st ''GET'' (Inr (bucket_url st (list_params pre page_size token))) [] []
       (\<lambda>resp. bindR (raise_unless lib st resp [200] pre) (\<lambda>_. parse_listing lib (or_content resp))) tr"

text \<open>\<open>list\<close> with what its consumer does to each object: a page is asked for when the consumer has had the objects of
  the one before, so the consumer's requests stand between those of the listing. A service that never stops
  to hand out tokens is followed for ever.\<close>
fun each_info :: "('i \<Rightarrow> 'a \<Rightarrow> 's \<Rightarrow> ('e + 'a) \<times> 's) \<Rightarrow> 'i list \<Rightarrow> 'a \<Rightarrow> 's \<Rightarrow> ('e + 'a) \<times> 's" where
  "each_info f [] acc s = (Inr acc, s)"
| "each_info f (i # is) acc s = (case f i acc s of (Inl e, s') \<Rightarrow> (Inl e, s') | (Inr acc', s') \<Rightarrow> each_info f is acc' s')"

partial_function (option) list_each ::
    "(string option \<Rightarrow> 's \<Rightarrow> ('e + 'i list \<times> string option) \<times> 's) \<Rightarrow> ('i \<Rightarrow> 'a \<Rightarrow> 's \<Rightarrow> ('e + 'a) \<times> 's)
     \<Rightarrow> string option \<Rightarrow> 'a \<Rightarrow> 's \<Rightarrow> (('e + 'a) \<times> 's) option" where
  "list_each page f token acc s =
     (case page token s of
        (Inl e, s') \<Rightarrow> Some (Inl e, s')
      | (Inr (infos, next), s') \<Rightarrow> (case each_info f infos acc s' of
            (Inl e, s'') \<Rightarrow> Some (Inl e, s'')
          | (Inr acc', s'') \<Rightarrow> (case next of
                None \<Rightarrow> Some (Inr acc', s'')
              | Some t \<Rightarrow> list_each page f (Some t) acc' s'')))"

end
