(* ===== verification/S3_Bronze.thy ===== *)
theory S3_Bronze
  imports S3_Keys Object_Store
begin

text \<open>
  Bronze on an object store (src/energy_platform/bronze/s3.py): the blob store and the capture log, over the
  verbs of an object store as a parameter. The client of Object_Store is one instance. How pydantic writes an
  entry and reads it back is a parameter too.
\<close>

subsection \<open>Verbs\<close>

text \<open>The verbs the adapters call; \<open>s3_page\<close> is a page of \<open>list\<close>, by its token.\<close>
record 's s3_ops =
  s3_head :: "string \<Rightarrow> 's \<Rightarrow> (store_exc + object_info option) \<times> 's"
  s3_get :: "string \<Rightarrow> 's \<Rightarrow> (store_exc + bytes option) \<times> 's"
  s3_put :: "string \<Rightarrow> bytes \<Rightarrow> string \<Rightarrow> 's \<Rightarrow> (store_exc + string) \<times> 's"
  s3_put_new :: "string \<Rightarrow> bytes \<Rightarrow> string \<Rightarrow> 's \<Rightarrow> (store_exc + bool) \<times> 's"
  s3_page :: "string \<Rightarrow> string option \<Rightarrow> 's \<Rightarrow> (store_exc + object_info list \<times> string option) \<times> 's"

definition client_ops :: "os_lib \<Rightarrow> object_store \<Rightarrow> trace s3_ops" where
  "client_ops lib st = \<lparr>s3_head = os_head lib st, s3_get = os_get lib st,
     s3_put = (\<lambda>key data ct. os_put lib st key data ct None), s3_put_new = os_put_new lib st,
     s3_page = (\<lambda>pre. list_page lib st pre 1000)\<rparr>"

text \<open>\<open>to_json().encode()\<close>, and \<open>from_json(raw.decode())\<close> with what it raises.\<close>
record codec =
  cd_dump :: "capture_entry \<Rightarrow> bytes"
  cd_load :: "bytes \<Rightarrow> store_exc + capture_entry"
  cd_dump_invalidation :: "invalidation \<Rightarrow> bytes"
  cd_load_invalidation :: "bytes \<Rightarrow> store_exc + invalidation"

text \<open>A call, then what follows it when it did not raise.\<close>
definition then_do :: "('e + 'a) \<times> 's \<Rightarrow> ('a \<Rightarrow> 's \<Rightarrow> ('e + 'b) \<times> 's) \<Rightarrow> ('e + 'b) \<times> 's" where
  "then_do r f = (case r of (Inl e, s) \<Rightarrow> (Inl e, s) | (Inr x, s) \<Rightarrow> f x s)"

lemma then_do_simps [simp]: "then_do (Inl e, s) f = (Inl e, s)" "then_do (Inr x, s) f = f x s"
  by (simp_all add: then_do_def)

subsection \<open>Blobs\<close>

definition OCTET_STREAM :: string where "OCTET_STREAM = ''application/octet-stream''"
definition ENTRY_CONTENT_TYPE :: string where "ENTRY_CONTENT_TYPE = ''application/json''"

definition s3_blob_put :: "'s s3_ops \<Rightarrow> (bytes \<Rightarrow> string) \<Rightarrow> bytes \<Rightarrow> 's \<Rightarrow> (store_exc + string) \<times> 's" where
  "s3_blob_put ops sha data s =
     (let a = sha data; key = blob_key a in
      then_do (s3_head ops key s) (\<lambda>found s.
        if found = None then then_do (s3_put ops key data OCTET_STREAM s) (\<lambda>_ s. (Inr a, s)) else (Inr a, s)))"

definition s3_blob_get :: "'s s3_ops \<Rightarrow> string \<Rightarrow> 's \<Rightarrow> (store_exc + bytes option) \<times> 's" where
  "s3_blob_get ops a s = s3_get ops (blob_key a) s"

definition s3_blob_exists :: "'s s3_ops \<Rightarrow> string \<Rightarrow> 's \<Rightarrow> (store_exc + bool) \<times> 's" where
  "s3_blob_exists ops a s = then_do (s3_head ops (blob_key a) s) (\<lambda>found s. (Inr (found \<noteq> None), s))"

subsection \<open>The capture log\<close>

definition s3_read :: "'s s3_ops \<Rightarrow> codec \<Rightarrow> string \<Rightarrow> 's \<Rightarrow> (store_exc + capture_entry option) \<times> 's" where
  "s3_read ops cd key s = then_do (s3_get ops key s) (\<lambda>raw s. (case raw of
       None \<Rightarrow> Inr None | Some b \<Rightarrow> bindR (cd_load cd b) (\<lambda>e. Inr (Some e)), s))"

definition s3_log_put :: "'s s3_ops \<Rightarrow> codec \<Rightarrow> capture_entry \<Rightarrow> 's \<Rightarrow> (store_exc + unit) \<times> 's" where
  "s3_log_put ops cd e s = then_do (s3_put ops (ce_key e) (cd_dump cd e) ENTRY_CONTENT_TYPE s) (\<lambda>_ s. (Inr (), s))"

text \<open>An entry that reads back as someone else's was lost.\<close>
definition same_capture :: "capture_entry \<Rightarrow> capture_entry option \<Rightarrow> bool" where
  "same_capture e stored = (case stored of
       None \<Rightarrow> False
     | Some x \<Rightarrow> ce_capture_id x = ce_capture_id e \<and> ce_payload_sha256 x = ce_payload_sha256 e \<and> ce_fetched_at x = ce_fetched_at e)"

definition s3_log_put_new :: "'s s3_ops \<Rightarrow> codec \<Rightarrow> capture_entry \<Rightarrow> 's \<Rightarrow> (store_exc + bool) \<times> 's" where
  "s3_log_put_new ops cd e s = then_do (s3_put_new ops (ce_key e) (cd_dump cd e) ENTRY_CONTENT_TYPE s) (\<lambda>created s.
     if \<not> created then (Inr False, s)
     else then_do (s3_read ops cd (ce_key e) s) (\<lambda>stored s. (Inr (same_capture e stored), s)))"

text \<open>\<open>entry_key\<close> of an attempt that was read off a text.\<close>
definition entry_key_int :: "string \<Rightarrow> instant \<Rightarrow> int \<Rightarrow> string" where
  "entry_key_int target t n = (let d = date_of (utc_clock t) in
     ''captures/'' @ target @ ''/'' @ pad4 (year_of d) @ ''/'' @ pad2 (month_of d) @ ''/'' @ pad2 (day_of d)
     @ ''/'' @ stamp t @ ''_'' @ str_int n @ ''.json'')"

definition s3_log_get :: "'s s3_ops \<Rightarrow> codec \<Rightarrow> string \<Rightarrow> 's \<Rightarrow> (store_exc + capture_entry option) \<times> 's" where
  "s3_log_get ops cd cid s = (case rsplit3 cid of
       None \<Rightarrow> (Inr None, s)
     | Some (target, st, attempt) \<Rightarrow> (case (parse_stamp st, py_int attempt) of
           (Some t, Some n) \<Rightarrow> s3_read ops cd (entry_key_int target t n) s
         | _ \<Rightarrow> (Inr None, s)))"

definition within :: "instant \<Rightarrow> instant option \<Rightarrow> instant option \<Rightarrow> bool" where
  "within t since until =
     (if (case since of None \<Rightarrow> False | Some b \<Rightarrow> t < b) then False else \<not> (case until of None \<Rightarrow> False | Some u \<Rightarrow> u \<le> t))"

text \<open>One object of a listing: read when its key is an instant's that is wanted.\<close>
definition keep_entry ::
    "'s s3_ops \<Rightarrow> codec \<Rightarrow> (instant \<Rightarrow> bool) \<Rightarrow> object_info \<Rightarrow> capture_entry list \<Rightarrow> 's \<Rightarrow> (store_exc + capture_entry list) \<times> 's" where
  "keep_entry ops cd wanted info acc s = (case key_instant (oi_key info) of
       None \<Rightarrow> (Inr acc, s)
     | Some (t, n) \<Rightarrow> if \<not> wanted t then (Inr acc, s)
         else then_do (s3_read ops cd (oi_key info) s) (\<lambda>r s. (Inr (case r of None \<Rightarrow> acc | Some e \<Rightarrow> acc @ [e]), s)))"

definition s3_entries ::
    "'s s3_ops \<Rightarrow> codec \<Rightarrow> string \<Rightarrow> (instant \<Rightarrow> bool) \<Rightarrow> 's \<Rightarrow> ((store_exc + capture_entry list) \<times> 's) option" where
  "s3_entries ops cd pre wanted s = map_option (\<lambda>r. then_do r (\<lambda>es s. (Inr (ordered es), s)))
     (list_each (s3_page ops pre) (keep_entry ops cd wanted) None [] s)"

text \<open>The prefix of the attempts of one instant.\<close>
definition stamp_prefix :: "string \<Rightarrow> instant \<Rightarrow> string" where
  "stamp_prefix target t = (case split_last (CHR ''_'') (entry_key target t 1) of None \<Rightarrow> entry_key target t 1 | Some (a, _) \<Rightarrow> a) @ ''_''"

definition s3_entries_for ::
    "'s s3_ops \<Rightarrow> codec \<Rightarrow> string \<Rightarrow> instant \<Rightarrow> 's \<Rightarrow> ((store_exc + capture_entry list) \<times> 's) option" where
  "s3_entries_for ops cd target scheduled s = s3_entries ops cd (stamp_prefix target scheduled) (\<lambda>_. True) s"

definition s3_log_list ::
    "'s s3_ops \<Rightarrow> codec \<Rightarrow> string \<Rightarrow> instant option \<Rightarrow> instant option \<Rightarrow> 's \<Rightarrow> ((store_exc + capture_entry list) \<times> 's) option" where
  "s3_log_list ops cd target since until s =
     s3_entries ops cd (''captures/'' @ target @ ''/'') (\<lambda>t. within t since until) s"

text \<open>\<open>max\<close>: the first of the greatest.\<close>
fun max_instant :: "(string \<times> instant \<times> int) list \<Rightarrow> (string \<times> instant \<times> int) option" where
  "max_instant [] = None"
| "max_instant (x # xs) = Some (foldl (\<lambda>b y. if snd b < snd y then y else b) x xs)"

definition s3_latest :: "'s s3_ops \<Rightarrow> codec \<Rightarrow> string \<Rightarrow> 's \<Rightarrow> ((store_exc + capture_entry option) \<times> 's) option" where
  "s3_latest ops cd target s = map_option (\<lambda>r. then_do r (\<lambda>found s. (case max_instant found of
        None \<Rightarrow> (Inr None, s)
      | Some (key, _) \<Rightarrow> s3_read ops cd key s)))
     (list_each (s3_page ops (''captures/'' @ target @ ''/''))
        (\<lambda>info acc s. (Inr (case key_instant (oi_key info) of None \<Rightarrow> acc | Some i \<Rightarrow> acc @ [(oi_key info, i)]), s)) None [] s)"

definition s3_put_invalidation :: "'s s3_ops \<Rightarrow> codec \<Rightarrow> invalidation \<Rightarrow> 's \<Rightarrow> (store_exc + bool) \<times> 's" where
  "s3_put_invalidation ops cd i s = (case i_key i of
       Inl e \<Rightarrow> (Inl (Store_raised ''ValueError''), s)
     | Inr k \<Rightarrow> s3_put_new ops k (cd_dump_invalidation cd i) ENTRY_CONTENT_TYPE s)"

definition s3_invalidations ::
    "'s s3_ops \<Rightarrow> codec \<Rightarrow> string \<Rightarrow> 's \<Rightarrow> ((store_exc + invalidation list) \<times> 's) option" where
  "s3_invalidations ops cd target s = map_option (\<lambda>r. then_do r (\<lambda>is s.
       (raise_store (bindR (mapR (\<lambda>i. bindR (i_key i) (\<lambda>k. Inr (k, i))) is) (\<lambda>ks. Inr (map snd (sort_key fst ks)))), s)))
     (list_each (s3_page ops (''invalidations/'' @ target @ ''/''))
        (\<lambda>info acc s. then_do (s3_get ops (oi_key info) s) (\<lambda>raw s. (case raw of
            None \<Rightarrow> Inr acc | Some b \<Rightarrow> bindR (cd_load_invalidation cd b) (\<lambda>i. Inr (acc @ [i])), s))) None [] s)"

end
