(* ===== verification/Object_Store_Properties.thy ===== *)
theory Object_Store_Properties
  imports Object_Store
begin

text \<open>
  What the client of an object store promises, for every sequence of its verbs: each request is one the service
  accepts, its signature recomputed from what is sent; it goes to a host of the allowlist and, without leave,
  never in clear; a verb sends no extra requests than the retry policy has attempts; nothing is deleted without
  leave; and every object written under a retention carries its lock.
\<close>

subsection \<open>The base\<close>

text \<open>A host as the allowlist names it.\<close>
definition dns_char :: "char \<Rightarrow> bool" where
  "dns_char c \<longleftrightarrow> is_digit c \<or> 97 \<le> (of_char c :: nat) \<and> (of_char c :: nat) \<le> 122 \<or> c = CHR ''-'' \<or> c = CHR ''.''"

definition dns_hosts :: "string list \<Rightarrow> bool" where
  "dns_hosts hs \<longleftrightarrow> list_all (\<lambda>h. list_all dns_char h) hs"

definition port_text :: "string \<Rightarrow> bool" where
  "port_text s \<longleftrightarrow> list_all is_digit s \<or> (\<exists>r. s = CHR ''-'' # r \<and> list_all is_digit r)"

lemma str_nat_digit_list: "list_all is_digit (str_nat n)"
proof (induction n rule: str_nat.induct)
  case (1 n)
  have d: "is_digit (digit_char m)" for m by (simp add: is_digit_def digit_char_def)
  show ?case
  proof (cases "n < 10")
    case False
    with 1 d show ?thesis by (subst str_nat.simps) simp
  qed (subst str_nat.simps, simp add: d)
qed

lemma check_endpoint_base:
  assumes "check_endpoint endpoint allowed insecure = Inr base"
  shows "\<exists>sch h tail. base = sch @ ''://'' @ h @ tail \<and> (sch = ''https'' \<or> sch = ''http'' \<and> insecure) \<and> h \<noteq> [] \<and> h \<in> set allowed
    \<and> (tail = [] \<or> (\<exists>p. tail = CHR '':'' # str_int p))"
proof -
  obtain parts where p: "raise_store (urlsplit endpoint) = Inr parts"
    using assms by (auto simp: check_endpoint_def)
  let ?h = "url_host parts" and ?s = "up_scheme parts"
  have g: "?h \<noteq> []" "?s \<in> {''https'', ''http''}" "\<not> (?s = ''http'' \<and> \<not> insecure)" "?h \<in> set allowed"
    using assms by (auto simp: check_endpoint_def p Let_def split: if_splits)
  obtain port where "base = ?s @ ''://'' @ (case port of None \<Rightarrow> ?h | Some p \<Rightarrow> if p = (if ?s = ''https'' then 443 else 80) then ?h else ?h @ CHR '':'' # str_int p)"
    using assms by (auto simp: check_endpoint_def p Let_def split: if_splits)
  then have "base = ?s @ ''://'' @ ?h @ [] \<or> (\<exists>p. base = ?s @ ''://'' @ ?h @ CHR '':'' # str_int p)"
    by (auto split: option.splits if_splits)
  with g show ?thesis by blast
qed

subsection \<open>The URLs\<close>

lemma uri_char_safe: "c \<in> set (uri_char keep d) \<Longrightarrow> query_safe c"
proof -
  assume c: "c \<in> set (uri_char keep d)"
  have "query_safe c" if "n < 256" "c \<in> set (percent n)" for n
  proof -
    have "n div 16 < 16" "n mod 16 < 16" using that by auto
    with that hex_digit_chars [of "n div 16"] hex_digit_chars [of "n mod 16"] show ?thesis
      by (auto simp: percent_def query_safe_def)
  qed
  moreover have "query_safe d" if "unreserved d \<or> d = CHR ''/''"
    using that by (auto simp: unreserved_def ascii_alpha_def is_digit_def query_safe_def Let_def)
  ultimately show ?thesis
    using c utf8_bytes by (fastforce simp: uri_char_def split: if_splits)
qed

lemma uri_encode_safe: "c \<in> set (uri_encode keep s) \<Longrightarrow> query_safe c"
  using uri_char_safe by (auto simp: uri_encode_def)

text \<open>Where a request of a store built on this base goes.\<close>
definition goes_to_base :: "string \<Rightarrow> string \<Rightarrow> string \<Rightarrow> bool" where
  "goes_to_base sch netloc url \<longleftrightarrow> (\<exists>p. urlsplit url = Inr p \<and> up_scheme p = sch \<and> up_netloc p = netloc \<and> up_fragment p = [])"

definition netloc_plain :: "string \<Rightarrow> bool" where
  "netloc_plain n \<longleftrightarrow> n \<noteq> [] \<and> set n \<inter> set ''/?#[]@'' = {} \<and> no_break n"

lemma url_goes_to_base:
  assumes "sch = ''http'' \<or> sch = ''https''" "netloc_plain netloc"
    and "path = [] \<or> hd path = CHR ''/''" "set path \<inter> set ''?#'' = {}" "no_break path" "CHR ''#'' \<notin> set q" "no_break q"
  shows "goes_to_base sch netloc (sch @ ''://'' @ netloc @ path @ (if q = [] then [] else CHR ''?'' # q))"
proof -
  let ?p = "\<lparr>up_scheme = sch, up_netloc = netloc, up_path = path, up_query = q, up_fragment = []\<rparr>"
  have w: "web_parts ?p" using assms by (auto simp: web_parts_def netloc_plain_def netloc_ok_def)
  from urlsplit_unsplit [OF w] urlunsplit_web [OF w]
  show ?thesis by (auto simp: goes_to_base_def tail_of_def)
qed

lemma safe_chars: "(\<And>c. c \<in> set s \<Longrightarrow> query_safe c \<or> c = CHR ''&'' \<or> c = CHR ''='') \<Longrightarrow> CHR ''#'' \<notin> set s \<and> CHR ''?'' \<notin> set s \<and> no_break s"
  by (force simp: query_safe_def no_break_def)

lemma object_url_goes:
  assumes "object_url st key = Inr url" "ob_base st = sch @ ''://'' @ netloc" "sch = ''http'' \<or> sch = ''https''" "netloc_plain netloc"
  shows "goes_to_base sch netloc url"
proof -
  let ?path = "CHR ''/'' # uri_encode False (oc_bucket (ob_config st)) @ CHR ''/'' # uri_encode True key"
  have "url = sch @ ''://'' @ netloc @ ?path @ []"
    using assms(1,2) by (simp add: object_url_def split: if_splits)
  moreover have s: "CHR ''#'' \<notin> set (uri_encode k s) \<and> CHR ''?'' \<notin> set (uri_encode k s) \<and> no_break (uri_encode k s)" for k s
    using uri_encode_safe by (intro safe_chars) blast
  then have "set ?path \<inter> set ''?#'' = {}" "no_break ?path" by auto
  ultimately show ?thesis using url_goes_to_base [OF assms(3,4), of ?path "[]"] by simp
qed

lemma bucket_url_goes:
  assumes "ob_base st = sch @ ''://'' @ netloc" "sch = ''http'' \<or> sch = ''https''" "netloc_plain netloc"
  shows "goes_to_base sch netloc (bucket_url st params)"
proof -
  let ?path = "CHR ''/'' # uri_encode False (oc_bucket (ob_config st))"
  define q where "q = join_with ''&'' (map (\<lambda>(k, v). uri_encode False k @ CHR ''='' # uri_encode False v) (sort params))"
  have "bucket_url st params = sch @ ''://'' @ netloc @ ?path @ (if q = [] then [] else CHR ''?'' # q)"
    using assms(1) by (simp add: bucket_url_def q_def Let_def)
  moreover have "query_safe c \<or> c = CHR ''&'' \<or> c = CHR ''=''" if "c \<in> set q" for c
    using that uri_encode_safe unfolding q_def by (auto dest!: join_with_set)
  then have "CHR ''#'' \<notin> set q \<and> CHR ''?'' \<notin> set q \<and> no_break q" by (intro safe_chars) blast
  moreover have s: "CHR ''#'' \<notin> set (uri_encode k s) \<and> CHR ''?'' \<notin> set (uri_encode k s) \<and> no_break (uri_encode k s)" for k s
    using uri_encode_safe by (intro safe_chars) blast
  then have "set ?path \<inter> set ''?#'' = {}" "no_break ?path" by auto
  ultimately show ?thesis using url_goes_to_base [OF assms(2,3), of ?path q] by simp
qed

subsection \<open>Requests\<close>

text \<open>Signed for its method, its address and its body, with the credentials of the store, as request number \<open>k\<close>.\<close>
definition signed_for :: "os_lib \<Rightarrow> object_store \<Rightarrow> string \<Rightarrow> string \<Rightarrow> (string, string) dict \<Rightarrow> nat \<Rightarrow> signed_request \<times> bytes \<Rightarrow> bool" where
  "signed_for lib st method url headers k x \<longleftrightarrow>
     sign_v4 lib method url headers (ol_sha lib (snd x)) (ob_credentials st) (oc_region (ob_config st)) (ol_clock lib k) = Inr (fst x)"

lemma nth_Cons_all: "(\<forall>i < length (x # xs). P i ((x # xs) ! i)) \<longleftrightarrow> P 0 x \<and> (\<forall>i < length xs. P (Suc i) (xs ! i))"
  by (auto simp: less_Suc_eq_0_disj)

text \<open>The requests of one verb are appended: at most as many as there are attempts, each signed anew.\<close>
lemma send_signed_trace:
  assumes "send_signed lib st method url headers body n le tr = (r, tr')"
  shows "\<exists>new. tr' = tr @ new \<and> length new \<le> n
    \<and> (\<forall>i < length new. snd (new ! i) = body \<and> signed_for lib st method url headers (length tr + i) (new ! i))"
  using assms
proof (induction n arbitrary: le tr)
  case (Suc n)
  let ?sig = "sign_v4 lib method url headers (ol_sha lib body) (ob_credentials st) (oc_region (ob_config st)) (ol_clock lib (length tr))"
  show ?case
  proof (cases ?sig)
    case (Inl e)
    with Suc.prems show ?thesis by auto
  next
    case (Inr q)
    then have q: "signed_for lib st method url headers (length tr) (q, body)" by (auto simp: signed_for_def)
    have one: ?thesis if "tr' = tr @ [(q, body)]"
      using q that by (intro exI [of _ "[(q, body)]"]) auto
    have further: ?thesis if rec: "send_signed lib st method url headers body n le' (tr @ [(q, body)]) = (r, tr')" for le'
    proof -
      from Suc.IH [OF rec] obtain new where "tr' = (tr @ [(q, body)]) @ new" "length new \<le> n"
          "\<forall>i < length new. snd (new ! i) = body \<and> signed_for lib st method url headers (length (tr @ [(q, body)]) + i) (new ! i)" by blast
      then show ?thesis using q
        by (intro exI [of _ "(q, body) # new"]) (simp add: nth_Cons_all [where P = "\<lambda>i x. snd x = body \<and> signed_for lib st method url headers (length tr + i) x", simplified])
    qed
    from Suc.prems Inr q show ?thesis
      by (cases "ol_send lib (length tr) q body") (auto split: if_splits intro: further one)
  qed
qed simp

lemma verb_trace:
  assumes "verb lib st method url headers body answer tr = (r, tr')"
  shows "\<exists>new. tr' = tr @ new \<and> length new \<le> ob_attempts st
    \<and> (\<forall>i < length new. \<exists>u. url = Inr u \<and> snd (new ! i) = body \<and> signed_for lib st method u headers (length tr + i) (new ! i))"
proof (cases url)
  case (Inl e)
  with assms show ?thesis by (auto simp: verb_def)
next
  case (Inr u)
  obtain r0 tr0 where o: "os_request lib st method u headers body tr = (r0, tr0)" by (cases "os_request lib st method u headers body tr")
  then have "tr' = tr0" using assms Inr by (auto simp: verb_def split: sum.splits)
  with send_signed_trace [OF o [unfolded os_request_def]] Inr show ?thesis by auto
qed

text \<open>What the service does with a request that reaches it at time \<open>t\<close>: it takes the headers that came but for the
  authorization, in order, rebuilds from them, the method, the address and the body the canonical request and the
  text to sign, derives the key of the day from the secret it shares with the client, and compares. So a request is
  accepted only when its authorization names every other header as signed, the host it goes to, the digest of the
  body it carries and the time of signing among them, and its signature is the one over all of this.\<close>
definition service_accepts :: "os_lib \<Rightarrow> credentials \<Rightarrow> string \<Rightarrow> instant \<Rightarrow> signed_request \<times> bytes \<Rightarrow> bool" where
  "service_accepts lib cr region t x \<longleftrightarrow> (case x of (q, body) \<Rightarrow> \<exists>p. urlsplit (sg_url q) = Inr p \<and>
     (let hs = sg_headers q; nl = [CHR 0x0A]; names = sort (filter (\<lambda>n. n \<noteq> ''authorization'') (dkeys hs));
          scope = amz_date t @ ''/'' @ region @ ''/s3/aws4_request'';
          canonical = sg_method q @ nl @ (if up_path p = [] then ''/'' else up_path p) @ nl @ canonical_query (up_query p) @ nl
            @ concat (map (\<lambda>n. n @ '':'' @ the (dget hs n) @ nl) names) @ nl @ join_with '';'' names @ nl @ ol_sha lib body;
          to_sign = ''AWS4-HMAC-SHA256'' @ nl @ amz_stamp t @ nl @ scope @ nl @ ol_sha lib (utf8_bytes_of canonical);
          step = (\<lambda>key part. ol_hmac lib key (utf8_bytes_of part));
          key = step (step (step (step (utf8_bytes_of (''AWS4'' @ cr_secret_access_key cr)) (amz_date t)) region) ''s3'') ''aws4_request''
      in {''host'', ''x-amz-content-sha256'', ''x-amz-date''} \<subseteq> set names
         \<and> dget hs ''host'' = Some (up_netloc p) \<and> dget hs ''x-amz-content-sha256'' = Some (ol_sha lib body)
         \<and> dget hs ''x-amz-date'' = Some (amz_stamp t)
         \<and> (truthy (cr_session_token cr) \<longrightarrow> dget hs ''x-amz-security-token'' = cr_session_token cr)
         \<and> dget hs ''authorization'' = Some (''AWS4-HMAC-SHA256 Credential='' @ cr_access_key_id cr @ ''/'' @ scope
             @ '', SignedHeaders='' @ join_with '';'' names @ '', Signature='' @ hex_of (ol_hmac lib key (utf8_bytes_of to_sign)))))"

text \<open>No header that a verb passes has the name of the one that carries the signature.\<close>
definition no_authorization :: "(string, string) dict \<Rightarrow> bool" where
  "no_authorization headers \<longleftrightarrow> list_all (\<lambda>(k, v). strip (py_lower k) \<noteq> ''authorization'') headers"

lemma dkeys_dset_new: "k \<notin> set (dkeys d) \<Longrightarrow> dkeys (dset k v d) = dkeys d @ [k]"
  by (induction d) auto

lemma names_dset: "fst ` set (dset k v d) = insert k (fst ` set d)"
  by (induction d) auto

lemma dkeys_dset_in: "n \<in> set (dkeys (dset k v d)) \<longleftrightarrow> n = k \<or> n \<in> set (dkeys d)"
  by (induction d) auto

lemma all_headers_names:
  assumes "no_authorization headers"
  shows "''authorization'' \<notin> set (dkeys (all_headers headers netloc psha at cr))"
    and "{''host'', ''x-amz-content-sha256'', ''x-amz-date''} \<subseteq> set (dkeys (all_headers headers netloc psha at cr))"
proof -
  have given: "n \<in> set (dkeys (foldl (\<lambda>d (k, v). dset (strip (py_lower k)) (header_text v) d) d0 hs))
      \<Longrightarrow> n \<in> set (dkeys d0) \<or> (\<exists>(k, v) \<in> set hs. n = strip (py_lower k))" for n d0 hs
  proof (induction hs arbitrary: d0)
    case (Cons x hs)
    obtain k v where x: "x = (k, v)" by (cases x)
    from Cons.prems have "n \<in> set (dkeys (foldl (\<lambda>d (k, v). dset (strip (py_lower k)) (header_text v) d) (dset (strip (py_lower k)) (header_text v) d0) hs))"
      by (simp add: x)
    from Cons.IH [OF this] show ?case unfolding x dkeys_dset_in list.set by blast
  qed simp
  have "''authorization'' \<notin> set (dkeys (foldl (\<lambda>d (k, v). dset (strip (py_lower k)) (header_text v) d) [] headers))"
  proof
    assume "''authorization'' \<in> set (dkeys (foldl (\<lambda>d (k, v). dset (strip (py_lower k)) (header_text v) d) [] headers))"
    from given [OF this] obtain k v where "(k, v) \<in> set headers" "''authorization'' = strip (py_lower k)" by auto
    with assms show False by (auto simp: no_authorization_def list_all_iff)
  qed
  then show "''authorization'' \<notin> set (dkeys (all_headers headers netloc psha at cr))"
    by (simp add: all_headers_def Let_def names_dset)
  show "{''host'', ''x-amz-content-sha256'', ''x-amz-date''} \<subseteq> set (dkeys (all_headers headers netloc psha at cr))"
    by (simp add: all_headers_def Let_def names_dset)
qed

lemma all_headers_values:
  "dget (all_headers headers netloc psha at cr) ''host'' = Some netloc"
  "dget (all_headers headers netloc psha at cr) ''x-amz-content-sha256'' = Some psha"
  "dget (all_headers headers netloc psha at cr) ''x-amz-date'' = Some at"
  "truthy (cr_session_token cr) \<Longrightarrow> dget (all_headers headers netloc psha at cr) ''x-amz-security-token'' = cr_session_token cr"
  by (auto simp: all_headers_def Let_def truthy_def split: option.splits)

lemma join_with_Cons: "join_with sep (x # xs) = x @ concat (map (\<lambda>y. sep @ y) xs)"
  by (simp add: join_with_def)

text \<open>What is signed is what the service checks.\<close>
lemma signed_accepted:
  assumes "sign_v4 lib method url headers (ol_sha lib body) cr region t = Inr q" and "no_authorization headers"
  shows "service_accepts lib cr region t (q, body) \<and> sg_method q = method \<and> sg_url q = url"
proof -
  obtain p where p: "urlsplit url = Inr p" using assms(1) by (auto simp: sign_v4_def raise_store_def split: sum.splits)
  define hs where "hs = all_headers headers (up_netloc p) (ol_sha lib body) (amz_stamp t) cr"
  note names = all_headers_names [OF assms(2), of "up_netloc p" "ol_sha lib body" "amz_stamp t" cr, folded hs_def]
  note vals = all_headers_values [where headers = headers and netloc = "up_netloc p" and psha = "ol_sha lib body" and at = "amz_stamp t" and cr = cr, folded hs_def]
  obtain auth where q: "sg_method q = method" "sg_url q = url" "sg_headers q = dset ''authorization'' auth hs"
    and auth: "auth = ALGORITHM @ '' Credential='' @ cr_access_key_id cr @ ''/'' @ join_with ''/'' [amz_date t, region, SERVICE, ''aws4_request'']
         @ '', SignedHeaders='' @ join_with '';'' (sort (dkeys hs)) @ '', Signature=''
         @ hex_of (ol_hmac lib (signing_key lib cr (amz_date t) region) (utf8_bytes_of (join_with [CHR 0x0A] [ALGORITHM, amz_stamp t,
             join_with ''/'' [amz_date t, region, SERVICE, ''aws4_request''],
             ol_sha lib (utf8_bytes_of (canonical_request_of method p hs (ol_sha lib body)))])))"
    using assms(1) p by (auto simp: sign_v4_def raise_store_def Let_def hs_def)
  have keys: "filter (\<lambda>n. n \<noteq> ''authorization'') (dkeys (dset ''authorization'' auth hs)) = dkeys hs"
  proof -
    have "filter (\<lambda>n. n \<noteq> ''authorization'') (dkeys hs) = dkeys hs" by (rule filter_True) (use names(1) in blast)
    then show ?thesis unfolding dkeys_dset_new [OF names(1)] filter_append by simp
  qed
  have lines: "map (\<lambda>n. n @ '':'' @ the (dget (dset ''authorization'' auth hs) n) @ [CHR 0x0A]) (sort (dkeys hs))
      = map (\<lambda>n. n @ '':'' @ the (dget hs n) @ [CHR 0x0A]) (sort (dkeys hs))"
    using names(1) by (intro map_cong refl) force
  show ?thesis
    unfolding service_accepts_def Let_def case_prod_conv q keys lines
    using p names(2) vals by (simp add: auth canonical_request_of_def signing_key_def ALGORITHM_def SERVICE_def Let_def join_with_Cons)
qed

subsection \<open>Sessions\<close>

datatype os_call =
    Put string bytes string "string option"
  | Put_new string bytes string
  | Get string
  | Head string
  | Delete string
  | List_page string nat "string option"
  | Bucket_exists
  | Create_bucket bool
  | Set_versioning bool

fun after_call :: "os_lib \<Rightarrow> object_store \<Rightarrow> os_call \<Rightarrow> trace \<Rightarrow> trace" where
  "after_call lib st (Put key data ct cls) tr = snd (os_put lib st key data ct cls tr)"
| "after_call lib st (Put_new key data ct) tr = snd (os_put_new lib st key data ct tr)"
| "after_call lib st (Get key) tr = snd (os_get lib st key tr)"
| "after_call lib st (Head key) tr = snd (os_head lib st key tr)"
| "after_call lib st (Delete key) tr = snd (os_delete lib st key tr)"
| "after_call lib st (List_page pre n token) tr = snd (list_page lib st pre n token tr)"
| "after_call lib st Bucket_exists tr = snd (bucket_exists lib st tr)"
| "after_call lib st (Create_bucket lock) tr = snd (create_bucket lib st lock tr)"
| "after_call lib st (Set_versioning b) tr = snd (put_bucket_versioning lib st b tr)"

definition run_calls :: "os_lib \<Rightarrow> object_store \<Rightarrow> os_call list \<Rightarrow> trace" where
  "run_calls lib st calls = foldl (\<lambda>tr c. after_call lib st c tr) [] calls"

text \<open>Request number \<open>k\<close> goes to a host of the allowlist, is one the service accepts at the time it was signed,
  and deletes nothing without leave.\<close>
definition confined_request :: "os_lib \<Rightarrow> object_store_config \<Rightarrow> credentials \<Rightarrow> nat \<Rightarrow> signed_request \<times> bytes \<Rightarrow> bool" where
  "confined_request lib config cr k x \<longleftrightarrow> (\<exists>p. urlsplit (sg_url (fst x)) = Inr p
       \<and> url_host p \<in> set (oc_allowed_hosts config)
       \<and> (up_scheme p = ''https'' \<or> up_scheme p = ''http'' \<and> oc_allow_insecure config) \<and> up_fragment p = [])
     \<and> service_accepts lib cr (oc_region config) (ol_clock lib k) x
     \<and> (sg_method (fst x) = ''DELETE'' \<longrightarrow> oc_allow_delete config)"

definition confined_from :: "os_lib \<Rightarrow> object_store_config \<Rightarrow> credentials \<Rightarrow> nat \<Rightarrow> trace \<Rightarrow> bool" where
  "confined_from lib config cr n xs \<longleftrightarrow> (\<forall>i < length xs. confined_request lib config cr (n + i) (xs ! i))"

lemma confined_from_append:
  "confined_from lib config cr n xs \<Longrightarrow> confined_from lib config cr (n + length xs) ys \<Longrightarrow> confined_from lib config cr n (xs @ ys)"
proof -
  assume xs: "confined_from lib config cr n xs" and ys: "confined_from lib config cr (n + length xs) ys"
  have "confined_request lib config cr (n + i) ((xs @ ys) ! i)" if i: "i < length (xs @ ys)" for i
  proof (cases "i < length xs")
    case False
    then have j: "i - length xs < length ys" using i by simp
    from ys have "\<forall>j < length ys. confined_request lib config cr (n + length xs + j) (ys ! j)" by (simp add: confined_from_def)
    from this [rule_format, OF j] False show ?thesis by (simp add: nth_append)
  qed (use xs in \<open>simp add: confined_from_def nth_append\<close>)
  then show ?thesis by (simp add: confined_from_def)
qed

text \<open>How many requests a call may send: its attempts, and twice that when it looks before it creates.\<close>
definition call_bound :: "nat \<Rightarrow> os_call \<Rightarrow> nat" where
  "call_bound n c = (case c of Create_bucket _ \<Rightarrow> 2 * n | _ \<Rightarrow> n)"

lemma dns_chars: "dns_char c \<Longrightarrow> c \<notin> set ''/?#[]@:%'' \<and> c \<notin> {CHR 0x09, CHR 0x0D, CHR 0x0A} \<and> py_lower_char c = c"
  by (auto simp: dns_char_def is_digit_def py_lower_char_def Let_def)

lemma dns_lower: "list_all dns_char h \<Longrightarrow> py_lower h = h"
  using dns_chars by (induction h) (auto simp: py_lower_def)

lemma str_int_chars: "c \<in> set (str_int p) \<Longrightarrow> is_digit c \<or> c = CHR ''-''"
  using str_nat_digit_list by (auto simp: str_int_def list_all_iff split: if_splits)

definition port_suffix :: "string \<Rightarrow> bool" where
  "port_suffix s \<longleftrightarrow> s = [] \<or> (\<exists>p. s = CHR '':'' # str_int p)"

lemma port_suffix_chars:
  assumes "port_suffix s" "c \<in> set s"
  shows "c \<notin> set ''/?#[]@'' \<and> c \<notin> {CHR 0x09, CHR 0x0D, CHR 0x0A}"
proof -
  have "c = CHR '':'' \<or> is_digit c \<or> c = CHR ''-''" using assms by (auto simp: port_suffix_def dest: str_int_chars)
  then show ?thesis by (elim disjE) (auto simp: is_digit_def)
qed

lemma dns_list_chars: "list_all dns_char h \<Longrightarrow> c \<in> set h \<Longrightarrow> c \<notin> set ''/?#[]@:%'' \<and> c \<notin> {CHR 0x09, CHR 0x0D, CHR 0x0A}"
  using dns_chars by (auto simp: list_all_iff)

lemma base_plain: "list_all dns_char h \<Longrightarrow> h \<noteq> [] \<Longrightarrow> port_suffix s \<Longrightarrow> netloc_plain (h @ s)"
  using dns_list_chars [of h] port_suffix_chars [of s] unfolding netloc_plain_def no_break_def
  by (simp add: disjoint_iff)

lemma base_host:
  assumes "list_all dns_char h" "h \<noteq> []" "port_suffix s" "up_netloc parts = h @ s"
  shows "url_host parts = h"
proof -
  have no: "CHR ''@'' \<notin> set (h @ s)" "CHR ''['' \<notin> set (h @ s)" "CHR '':'' \<notin> set h" "CHR ''%'' \<notin> set h"
    using dns_list_chars [OF assms(1), of "CHR ''@''"] dns_list_chars [OF assms(1), of "CHR ''[''"] dns_list_chars [OF assms(1), of "CHR '':''"]
      dns_list_chars [OF assms(1), of "CHR ''%''"] port_suffix_chars [OF assms(3), of "CHR ''@''"] port_suffix_chars [OF assms(3), of "CHR ''[''"]
    by auto
  have "fst (partition_at (CHR '':'') (h @ s)) = h"
    using assms(3) partition_at_absent [OF no(3)] partition_at_append [OF no(3)] by (auto simp: port_suffix_def)
  moreover have "after_last (CHR ''@'') (h @ s) = h @ s" using no(1) by (simp add: after_last_def split_last_def)
  moreover have n: "split_first (CHR ''['') (h @ s) = None" "split_first (CHR ''%'') h = None" using no by simp_all
  ultimately have "fst (hostinfo parts) = h" by (simp only: hostinfo_def assms(4) Let_def case_prod_unfold n option.case fst_conv)
  then show ?thesis
    using assms(2) dns_lower [OF assms(1)] by (simp add: url_host_def hostname_def n Let_def)
qed

text \<open>The base of a store that was built.\<close>
definition built :: "object_store_config \<Rightarrow> object_store \<Rightarrow> bool" where
  "built config st \<longleftrightarrow> ob_config st = config \<and> (\<exists>sch h tail. ob_base st = sch @ ''://'' @ h @ tail
     \<and> (sch = ''https'' \<or> sch = ''http'' \<and> oc_allow_insecure config) \<and> h \<noteq> [] \<and> h \<in> set (oc_allowed_hosts config)
     \<and> port_suffix tail)"

lemma mk_built: "mk_object_store config cr n = Inr st \<Longrightarrow> built config st \<and> ob_attempts st = n \<and> ob_credentials st = cr"
  using check_endpoint_base by (fastforce simp: mk_object_store_def built_def port_suffix_def)

text \<open>An address of the store: an object's or the bucket's.\<close>
definition store_url :: "object_store \<Rightarrow> store_exc + string \<Rightarrow> bool" where
  "store_url st url \<longleftrightarrow> (\<exists>key. url = object_url st key) \<or> (\<exists>params. url = Inr (bucket_url st params))"

lemma header_names:
  "strip (py_lower ''content-type'') = ''content-type''" "strip (py_lower ''content-md5'') = ''content-md5''"
  "strip (py_lower ''if-none-match'') = ''if-none-match''" "strip (py_lower ''x-amz-storage-class'') = ''x-amz-storage-class''"
  "strip (py_lower ''x-amz-object-lock-mode'') = ''x-amz-object-lock-mode''"
  "strip (py_lower ''x-amz-object-lock-retain-until-date'') = ''x-amz-object-lock-retain-until-date''"
  "strip (py_lower ''x-amz-bucket-object-lock-enabled'') = ''x-amz-bucket-object-lock-enabled''"
  "header_text ''COMPLIANCE'' = ''COMPLIANCE''" "header_text ''GOVERNANCE'' = ''GOVERNANCE''"
  by code_simp+

lemma no_authorization_simps:
  "no_authorization []" "no_authorization (xs @ ys) \<longleftrightarrow> no_authorization xs \<and> no_authorization ys"
  "no_authorization (body_headers lib ct data)" "no_authorization (retention_headers lib st tr)"
  "no_authorization ((''if-none-match'', v) # xs) \<longleftrightarrow> no_authorization xs" "no_authorization [(''x-amz-storage-class'', v)]"
  "no_authorization [(''content-type'', v)]" "no_authorization [(''x-amz-bucket-object-lock-enabled'', v)]"
  by (simp_all add: no_authorization_def body_headers_def retention_headers_def header_names split: option.split)

lemma verb_confined:
  assumes "built config st" "dns_hosts (oc_allowed_hosts config)" "store_url st url" "method = ''DELETE'' \<longrightarrow> oc_allow_delete config"
    and "no_authorization headers"
  shows "\<exists>new. snd (verb lib st method url headers body answer tr) = tr @ new \<and> length new \<le> ob_attempts st
    \<and> confined_from lib config (ob_credentials st) (length tr) new"
proof -
  obtain sch h tail where b: "ob_base st = sch @ ''://'' @ h @ tail" "sch = ''https'' \<or> sch = ''http'' \<and> oc_allow_insecure config"
      "h \<noteq> []" "h \<in> set (oc_allowed_hosts config)" "port_suffix tail"
    using assms(1) by (auto simp: built_def)
  have dns: "list_all dns_char h" using assms(2) b(4) by (simp add: dns_hosts_def list_all_iff)
  note nl = base_plain [OF dns b(3,5)] base_host [OF dns b(3,5)]
  obtain r tr' where v: "verb lib st method url headers body answer tr = (r, tr')" by (cases "verb lib st method url headers body answer tr")
  from verb_trace [OF v] obtain new where new: "tr' = tr @ new" "length new \<le> ob_attempts st"
    "\<forall>i < length new. \<exists>u. url = Inr u \<and> snd (new ! i) = body \<and> signed_for lib st method u headers (length tr + i) (new ! i)" by blast
  have "confined_request lib config (ob_credentials st) (length tr + i) (new ! i)" if i: "i < length new" for i
  proof -
    obtain u where u: "url = Inr u" "snd (new ! i) = body" "signed_for lib st method u headers (length tr + i) (new ! i)" using new(3) i by blast
    have "sign_v4 lib method u headers (ol_sha lib body) (ob_credentials st) (oc_region config) (ol_clock lib (length tr + i)) = Inr (fst (new ! i))"
      using u(2,3) assms(1) by (simp add: signed_for_def built_def)
    note s = signed_accepted [OF this assms(5)]
    have "sch = ''http'' \<or> sch = ''https''" using b(2) by blast
    then have "goes_to_base sch (h @ tail) u"
      using assms(3) u(1) object_url_goes [OF _ b(1) _ nl(1)] bucket_url_goes [OF b(1) _ nl(1)]
      unfolding store_url_def by (metis sum.inject(2))
    then obtain p where p: "urlsplit u = Inr p" "up_scheme p = sch" "up_netloc p = h @ tail" "up_fragment p = []"
      by (auto simp: goes_to_base_def)
    have "(fst (new ! i), body) = new ! i" using u(2) by (cases "new ! i") simp
    with s p nl(2) [OF p(3)] b(2,4) assms(4) show ?thesis by (auto simp: confined_request_def)
  qed
  with new v show ?thesis by (auto simp: confined_from_def)
qed

lemma create_bucket_confined:
  assumes "built config st" "dns_hosts (oc_allowed_hosts config)"
  shows "\<exists>new. snd (create_bucket lib st lock tr) = tr @ new \<and> length new \<le> 2 * ob_attempts st
    \<and> confined_from lib config (ob_credentials st) (length tr) new"
proof -
  have o: "store_url st (Inr (bucket_url st []))" unfolding store_url_def by blast
  obtain r tr1 where ex: "bucket_exists lib st tr = (r, tr1)" by (cases "bucket_exists lib st tr")
  then have "snd (bucket_exists lib st tr) = tr1" by simp
  then obtain n1 where n1: "tr1 = tr @ n1" "length n1 \<le> ob_attempts st" "confined_from lib config (ob_credentials st) (length tr) n1"
    using verb_confined [OF assms o, of "''HEAD''" "[]"] unfolding bucket_exists_def by (fastforce simp: no_authorization_simps)
  show ?thesis
  proof (cases "r = Inr False")
    case True
    define hs where "hs = (if lock then [(''x-amz-bucket-object-lock-enabled'', ''true'')] else [])"
    have hs: "no_authorization hs" by (simp add: hs_def no_authorization_simps)
    from True ex obtain n2 where "snd (create_bucket lib st lock tr) = tr1 @ n2" "length n2 \<le> ob_attempts st"
        "confined_from lib config (ob_credentials st) (length tr1) n2"
      using verb_confined [OF assms o _ hs, of "''PUT''"] unfolding create_bucket_def hs_def [symmetric] by fastforce
    with n1 show ?thesis by (intro exI [of _ "n1 @ n2"]) (auto intro: confined_from_append)
  next
    case False
    then have "snd (create_bucket lib st lock tr) = tr1" using ex by (cases r) (auto simp: create_bucket_def)
    with n1 show ?thesis by (intro exI [of _ n1]) auto
  qed
qed

lemma os_call_confined:
  assumes "built config st" "dns_hosts (oc_allowed_hosts config)"
  shows "\<exists>new. after_call lib st c tr = tr @ new \<and> length new \<le> call_bound (ob_attempts st) c
    \<and> confined_from lib config (ob_credentials st) (length tr) new"
proof -
  have one: "\<exists>new. snd (verb lib st m url hs body answer tr) = tr @ new \<and> length new \<le> ob_attempts st
      \<and> confined_from lib config (ob_credentials st) (length tr) new"
    if "store_url st url" "m = ''DELETE'' \<longrightarrow> oc_allow_delete config" "no_authorization hs"
    for m url hs body and tr :: trace and answer :: "os_response \<Rightarrow> store_exc + 'b"
    by (rule verb_confined [OF assms that])
  have cfg: "ob_config st = config" using assms(1) by (simp add: built_def)
  have o: "store_url st (object_url st key)" "store_url st (Inr (bucket_url st params))" for key params
    unfolding store_url_def by blast+
  have empty: "confined_from lib config (ob_credentials st) k []" for k by (simp add: confined_from_def)
  show ?thesis
  proof (cases c)
    case (Create_bucket lock)
    then show ?thesis using create_bucket_confined [OF assms] by (simp add: call_bound_def)
  next
    case (Delete key)
    then show ?thesis using one [OF o(1), of "''DELETE''" "[]"] empty by (auto simp: os_delete_def cfg call_bound_def no_authorization_simps)
  qed (auto intro!: one o simp: os_put_def os_put_new_def os_get_def os_head_def list_page_def bucket_exists_def put_bucket_versioning_def
      call_bound_def no_authorization_simps split: option.split)
qed

text \<open>C39. Whatever a client does with a store, a call appends to what was sent at most as many requests as there are
  attempts, twice as many when it looks for a bucket before it creates it; and request number \<open>k\<close> of the session goes to a
  host of the allowlist, in clear only with leave, is one that the service accepts, its signature recomputed over the
  method, the address, every other header sent (the host, the digest of the body it carries and the time of this
  very attempt among them) with the secret of the store, and deletes nothing unless deletion was allowed. The allowlist is one
  of DNS names: for a literal IPv6 address the client builds an endpoint without brackets that names another host.\<close>
theorem client_confined:
  assumes "mk_object_store config cr n = Inr st" "dns_hosts (oc_allowed_hosts config)"
  shows "confined_from lib config cr 0 (run_calls lib st calls)
    \<and> (\<exists>new. run_calls lib st (calls @ [c]) = run_calls lib st calls @ new \<and> length new \<le> call_bound n c)"
proof -
  have step: "\<exists>new. run_calls lib st (cs @ [x]) = run_calls lib st cs @ new \<and> length new \<le> call_bound n x
      \<and> confined_from lib config cr (length (run_calls lib st cs)) new" for cs x
    using os_call_confined [of config st lib x "run_calls lib st cs"] mk_built [OF assms(1)] assms(2) by (simp add: run_calls_def)
  have "confined_from lib config cr 0 (run_calls lib st calls)"
  proof (induction calls rule: rev_induct)
    case (snoc x cs)
    with step [where cs = cs and x = x] confined_from_append [of lib config cr 0 "run_calls lib st cs"] show ?case by auto
  qed (simp add: run_calls_def confined_from_def)
  with step [where cs = calls and x = c] show ?thesis by blast
qed

definition demo_config :: object_store_config where
  "demo_config = \<lparr>oc_endpoint = ''https://s3.example.net/'', oc_bucket = ''bronze'', oc_region = ''us-east-1'',
     oc_allowed_hosts = [''s3.example.net''], oc_allow_insecure = False, oc_allow_delete = False,
     oc_retention = Some \<lparr>rn_mode = Compliance, rn_days = 30\<rparr>\<rparr>"

definition demo_credentials :: credentials where
  "demo_credentials = \<lparr>cr_access_key_id = ''AK'', cr_secret_access_key = ''SK'', cr_session_token = None\<rparr>"

definition demo_os_lib :: os_lib where
  "demo_os_lib = \<lparr>ol_hmac = (\<lambda>k m. take 32 (m @ k)), ol_sha = (\<lambda>b. concat (map (\<lambda>w. str_nat (unat w)) b)), ol_md5 = rev, ol_xml = (\<lambda>_. None),
     ol_send = (\<lambda>n q b. if n = 0 then Inl ''connection reset'' else Inr \<lparr>or_status = 200, or_headers = [], or_content = []\<rparr>),
     ol_clock = (\<lambda>n. int n)\<rparr>"

definition demo_store :: object_store where
  "demo_store = \<lparr>ob_config = demo_config, ob_base = ''https://s3.example.net'', ob_credentials = demo_credentials, ob_attempts = 3\<rparr>"

lemma demo_store_built: "mk_object_store demo_config demo_credentials 3 = Inr demo_store"
proof -
  have "check_endpoint (oc_endpoint demo_config) (oc_allowed_hosts demo_config) (oc_allow_insecure demo_config) = Inr ''https://s3.example.net''"
    by code_simp
  then show ?thesis by (simp add: mk_object_store_def demo_store_def)
qed

lemma demo_hosts: "dns_hosts (oc_allowed_hosts demo_config)"
  by code_simp

theorem client_confined_witness:
  "confined_from demo_os_lib demo_config demo_credentials 0 (run_calls demo_os_lib demo_store [Put ''captures/x.json'' [1] ''application/json'' None])
   \<and> length (run_calls demo_os_lib demo_store [Put ''captures/x.json'' [1] ''application/json'' None]) \<le> 3"
  using client_confined [OF demo_store_built demo_hosts, of demo_os_lib "[Put ''captures/x.json'' [1] ''application/json'' None]"]
    client_confined [OF demo_store_built demo_hosts, of demo_os_lib "[]" "Put ''captures/x.json'' [1] ''application/json'' None"]
  by (auto simp: call_bound_def run_calls_def)

subsection \<open>Errors and locks\<close>

text \<open>Without leave a deletion is refused before anything is sent.\<close>
lemma delete_refused:
  "\<not> oc_allow_delete (ob_config st) \<Longrightarrow> os_delete lib st key tr = (Inl (ObjectStoreError ''delete_not_allowed'' ''this store was not built with allow_delete''), tr)"
  by (simp add: os_delete_def)

definition locked :: "retention \<Rightarrow> signed_request \<Rightarrow> bool" where
  "locked r q \<longleftrightarrow> dget (sg_headers q) ''x-amz-object-lock-mode'' = Some (if rn_mode r = Compliance then ''COMPLIANCE'' else ''GOVERNANCE'')
     \<and> dget (sg_headers q) ''x-amz-object-lock-retain-until-date'' \<noteq> None"

lemma signed_locked:
  assumes "sign_v4 lib m u (body_headers lib ct data @ extra @ [(''x-amz-object-lock-mode'', if rn_mode r = Compliance then ''COMPLIANCE'' else ''GOVERNANCE''),
      (''x-amz-object-lock-retain-until-date'', date)] @ cls) psha cr region t = Inr q"
    and "extra \<in> {[], [(''if-none-match'', ''*'')]}" "cls = [] \<or> (\<exists>c. cls = [(''x-amz-storage-class'', c)])"
  shows "locked r q"
  using assms by (auto simp: sign_v4_def raise_store_def all_headers_def Let_def body_headers_def header_names locked_def split: sum.splits)

text \<open>Under a retention every request that writes an object carries its lock.\<close>
theorem writes_are_locked:
  assumes "oc_retention (ob_config st) = Some r"
  shows "\<exists>new. snd (os_put lib st key data ct cls tr) = tr @ new \<and> (\<forall>x \<in> set new. locked r (fst x))"
    and "\<exists>new. snd (os_put_new lib st key data ct tr) = tr @ new \<and> (\<forall>x \<in> set new. locked r (fst x))"
proof -
  have v: "\<exists>new. snd (verb lib st ''PUT'' (object_url st key) hs data answer tr) = tr @ new \<and> (\<forall>x \<in> set new. locked r (fst x))"
    if locks: "\<And>u p t q. sign_v4 lib ''PUT'' u hs p (ob_credentials st) (oc_region (ob_config st)) t = Inr q \<Longrightarrow> locked r q" for hs and answer :: "os_response \<Rightarrow> store_exc + 'b"
  proof -
    obtain res tr' where e: "verb lib st ''PUT'' (object_url st key) hs data answer tr = (res, tr')"
      by (cases "verb lib st ''PUT'' (object_url st key) hs data answer tr")
    from verb_trace [OF e] obtain new where new: "tr' = tr @ new" and signed: "\<forall>i < length new. \<exists>u. object_url st key = Inr u
        \<and> snd (new ! i) = data \<and> signed_for lib st ''PUT'' u hs (length tr + i) (new ! i)" by blast
    have "locked r (fst x)" if x: "x \<in> set new" for x
    proof -
      obtain i where i: "i < length new" "new ! i = x" using x by (auto simp: in_set_conv_nth)
      from signed [rule_format, OF i(1)] i(2) obtain u where "signed_for lib st ''PUT'' u hs (length tr + i) x" by blast
      then show ?thesis unfolding signed_for_def by (rule locks)
    qed
    with new e show ?thesis by auto
  qed
  show "\<exists>new. snd (os_put lib st key data ct cls tr) = tr @ new \<and> (\<forall>x \<in> set new. locked r (fst x))"
    unfolding os_put_def retention_headers_def assms option.case
    by (rule v) (rule signed_locked [where extra = "[]" and cls = "case cls of None \<Rightarrow> [] | Some c \<Rightarrow> [(''x-amz-storage-class'', c)]"],
        auto split: option.splits)
  show "\<exists>new. snd (os_put_new lib st key data ct tr) = tr @ new \<and> (\<forall>x \<in> set new. locked r (fst x))"
    unfolding os_put_new_def retention_headers_def assms option.case
    by (rule v) (rule signed_locked [where extra = "[(''if-none-match'', ''*'')]" and cls = "[]"], auto)
qed

text \<open>An endpoint that is an IPv6 address loses its brackets: what is built from it has no host to send to.\<close>
lemma ipv6_endpoint:
  "check_endpoint ''https://[fd00::10]'' [''fd00::10''] False = Inr ''https://fd00::10''"
  "map_sum id hostname (urlsplit ''https://fd00::10/bronze/k'') = Inr (Some ''fd00'')"
  by code_simp+

end
