(* ===== verification/Bronze_Config.thy ===== *)
theory Bronze_Config
  imports S3_Bronze Object_Store_Properties
begin

text \<open>
  Bronze from the environment (src/energy_platform/bronze/config.py): which backend a process runs against,
  and the configuration of its object stores. Keyword arguments for tests are left out; the attempts of the
  retry policy are an argument.
\<close>

datatype config_exc =
    BronzeConfigError string
  | Config_value string
  | Config_secret plan_exc
  | Config_store store_exc

definition S3_PREFIX :: string where "S3_PREFIX = ''ENERGY_PLATFORM_S3''"
definition COLD_PREFIX :: string where "COLD_PREFIX = ''ENERGY_PLATFORM_S3_COLD''"
definition REPLICA_PREFIX :: string where "REPLICA_PREFIX = ''ENERGY_PLATFORM_S3_REPLICA''"

text \<open>\<open>str.upper\<close> below code point 256; sharp s becomes two letters. The micro sign and y with diaeresis, whose
  capitals lie above, stand for themselves.\<close>
definition py_upper_char :: "char \<Rightarrow> string" where
  "py_upper_char c = (let n = (of_char c :: nat) in
     if n = 223 then ''SS''
     else if 97 \<le> n \<and> n \<le> 122 \<or> 224 \<le> n \<and> n \<le> 254 \<and> n \<noteq> 247 then [char_of (n - 32)] else [c])"

definition py_upper :: "string \<Rightarrow> string" where
  "py_upper s = concat (map py_upper_char s)"

definition env_text :: "(string, string) dict \<Rightarrow> string \<Rightarrow> string \<Rightarrow> string" where
  "env_text env name other = (case dget env name of None \<Rightarrow> other | Some v \<Rightarrow> v)"

definition flag :: "(string, string) dict \<Rightarrow> string \<Rightarrow> bool" where
  "flag env name \<longleftrightarrow> py_lower (strip (env_text env name ''false'')) \<in> {''1'', ''true'', ''yes'', ''on''}"

definition endpoint_host :: "string \<Rightarrow> config_exc + string" where
  "endpoint_host endpoint = (case urlsplit endpoint of Inl e \<Rightarrow> Inl (Config_value ''Invalid IPv6 URL'') | Inr p \<Rightarrow> Inr (url_host p))"

definition hosts_of :: "string \<Rightarrow> string \<Rightarrow> string list" where
  "hosts_of raw h0 = (let hs = map (\<lambda>h. py_lower (strip h)) (filter (\<lambda>h. strip h \<noteq> []) (split_on (CHR '','') raw))
     in if hs = [] then [h0] else hs)"

definition retention_of :: "string \<Rightarrow> string \<Rightarrow> config_exc + retention option" where
  "retention_of mode days =
     (if mode = [] \<and> days = [] then Inr None
      else if mode \<notin> {''COMPLIANCE'', ''GOVERNANCE''} \<or> \<not> py_isdigit days then Inl (BronzeConfigError ''RETENTION_MODE must be COMPLIANCE|GOVERNANCE'')
      else (case py_int days of
          None \<Rightarrow> Inl (Config_value ''invalid literal for int()'')
        | Some n \<Rightarrow> (case mk_retention (if mode = ''COMPLIANCE'' then Compliance else Governance) n of
            Inl e \<Rightarrow> Inl (Config_value ''retention days must be >= 1'')
          | Inr r \<Rightarrow> Inr (Some r))))"

definition object_store_config_of :: "(string, string) dict \<Rightarrow> string \<Rightarrow> bool \<Rightarrow> config_exc + object_store_config option" where
  "object_store_config_of env pre allow_delete =
     (let endpoint = strip (env_text env (pre @ ''_ENDPOINT'') []);
          bucket = strip (env_text env (pre @ ''_BUCKET'') []);
          region = strip (env_text env (pre @ ''_REGION'') ''us-east-1'') in
      if endpoint = [] then Inr None
      else if bucket = [] then Inl (BronzeConfigError ''BUCKET is required'')
      else bindR (endpoint_host endpoint) (\<lambda>h.
        bindR (retention_of (py_upper (strip (env_text env (pre @ ''_RETENTION_MODE'') [])))
          (strip (env_text env (pre @ ''_RETENTION_DAYS'') []))) (\<lambda>r.
        Inr (Some \<lparr>oc_endpoint = endpoint, oc_bucket = bucket, oc_region = (if region = [] then ''us-east-1'' else region),
          oc_allowed_hosts = hosts_of (strip (env_text env (pre @ ''_ALLOWED_HOSTS'') [])) h,
          oc_allow_insecure = flag env (pre @ ''_ALLOW_INSECURE''), oc_allow_delete = allow_delete, oc_retention = r\<rparr>))))"

definition object_store_from_env ::
    "(string, string) dict \<Rightarrow> string \<Rightarrow> string \<Rightarrow> bool \<Rightarrow> nat \<Rightarrow> config_exc + object_store" where
  "object_store_from_env env pre credentials_ref allow_delete attempts =
     bindR (object_store_config_of env pre allow_delete) (\<lambda>config. case config of
       None \<Rightarrow> Inl (BronzeConfigError ''ENDPOINT is not set'')
     | Some c \<Rightarrow> (case credentials_from_env env credentials_ref of
         Inl e \<Rightarrow> Inl (Config_secret e)
       | Inr cr \<Rightarrow> (case mk_object_store c cr attempts of Inl e \<Rightarrow> Inl (Config_store e) | Inr st \<Rightarrow> Inr st)))"

text \<open>The Bronze that is built: on a directory, or hot with an optional cold store.\<close>
datatype bronze_backend = Dir_backend string | S3_backend object_store "object_store option"

definition bronze_from_env :: "(string, string) dict \<Rightarrow> nat \<Rightarrow> config_exc + bronze_backend" where
  "bronze_from_env env attempts =
     (let mode0 = py_lower (strip (env_text env ''ENERGY_PLATFORM_BRONZE'' ''dir''));
          mode = (if mode0 = [] then ''dir'' else mode0);
          root = env_text env ''ENERGY_PLATFORM_BRONZE_DIR'' [] in
      if mode = ''dir'' then Inr (Dir_backend (if root = [] then ''.bronze'' else root))
      else if mode \<noteq> ''s3'' then Inl (BronzeConfigError ''ENERGY_PLATFORM_BRONZE must be dir|s3'')
      else bindR (object_store_from_env env S3_PREFIX ''BRONZE'' False attempts) (\<lambda>hot.
        bindR (object_store_config_of env COLD_PREFIX False) (\<lambda>cold_config. case cold_config of
          None \<Rightarrow> Inr (S3_backend hot None)
        | Some _ \<Rightarrow> bindR (object_store_from_env env COLD_PREFIX ''BRONZE_COLD'' False attempts) (\<lambda>cold.
            Inr (S3_backend hot (Some cold))))))"

definition replica_bronze_from_env :: "(string, string) dict \<Rightarrow> nat \<Rightarrow> config_exc + bronze_backend" where
  "replica_bronze_from_env env attempts =
     bindR (object_store_from_env env REPLICA_PREFIX ''BRONZE_REPLICA'' False attempts) (\<lambda>st. Inr (S3_backend st None))"

subsection \<open>What is built\<close>

lemma from_env_built:
  assumes "object_store_from_env env pre ref allow_delete n = Inr st"
  shows "\<exists>config cr. object_store_config_of env pre allow_delete = Inr (Some config) \<and> mk_object_store config cr n = Inr st
    \<and> oc_allow_delete config = allow_delete"
proof -
  obtain config where c: "object_store_config_of env pre allow_delete = Inr (Some config)"
    using assms by (auto simp: object_store_from_env_def split: option.splits)
  then have "oc_allow_delete config = allow_delete"
    by (auto simp: object_store_config_of_def Let_def split: if_splits)
  with assms c show ?thesis by (auto simp: object_store_from_env_def split: sum.splits)
qed

text \<open>No process that gets its Bronze from the environment can delete from it.\<close>
theorem bronze_never_deletes:
  assumes "bronze_from_env env n = Inr (S3_backend hot cold)"
  shows "os_delete lib hot key tr = (Inl (ObjectStoreError ''delete_not_allowed'' ''this store was not built with allow_delete''), tr)"
    and "cold = Some c \<Longrightarrow> os_delete lib c key tr = (Inl (ObjectStoreError ''delete_not_allowed'' ''this store was not built with allow_delete''), tr)"
proof -
  have no: "\<not> oc_allow_delete (ob_config st)" if "object_store_from_env env pre ref False n = Inr st" for pre ref st
    using from_env_built [OF that] mk_built by (auto simp: built_def)
  have "object_store_from_env env S3_PREFIX ''BRONZE'' False n = Inr hot"
    using assms by (auto simp: bronze_from_env_def Let_def split: if_splits option.splits)
  with no show "os_delete lib hot key tr = (Inl (ObjectStoreError ''delete_not_allowed'' ''this store was not built with allow_delete''), tr)"
    by (intro delete_refused) blast
  assume "cold = Some c"
  then have "object_store_from_env env COLD_PREFIX ''BRONZE_COLD'' False n = Inr c"
    using assms by (auto simp: bronze_from_env_def Let_def split: if_splits option.splits)
  with no show "os_delete lib c key tr = (Inl (ObjectStoreError ''delete_not_allowed'' ''this store was not built with allow_delete''), tr)"
    by (intro delete_refused) blast
qed

text \<open>Without a list of its own, the endpoint's host is the allowlist, so that it is never refused for its host.\<close>
lemma default_allowlist:
  assumes "object_store_config_of env pre d = Inr (Some config)" "env_text env (pre @ ''_ALLOWED_HOSTS'') [] = []"
    and "urlsplit (oc_endpoint config) = Inr p"
  shows "oc_allowed_hosts config = [url_host p]"
  using assms by (auto simp: object_store_config_of_def Let_def endpoint_host_def hosts_of_def strip_def split: if_splits sum.splits)

text \<open>A positive number of days is asked for, but a zero and a superscript pass the test of digits: what is raised
  then is not the configuration error.\<close>
lemma retention_days_edges:
  "retention_of ''COMPLIANCE'' ''0'' = Inl (Config_value ''retention days must be >= 1'')"
  "retention_of ''COMPLIANCE'' [CHR 0xB2] = Inl (Config_value ''invalid literal for int()'')"
  "retention_of ''COMPLIANCE'' ''-1'' = Inl (BronzeConfigError ''RETENTION_MODE must be COMPLIANCE|GOVERNANCE'')"
  by code_simp+

end
