(* ===== verification/S3_Refine.thy ===== *)
theory S3_Refine
  imports S3_Bronze Bronze_Capture
begin

text \<open>
  Bronze on an object store against Bronze in memory. The service is the one S3 documents: a map from keys to
  objects, listed in the order of the keys, a page at a time, the token of a page being its last key. Over it
  the adapters read, list and create what the memory log reads, lists and creates, and the listing ends.
\<close>

subsection \<open>The service\<close>

type_synonym objects = "(string, bytes) dict"

definition info_of :: "objects \<Rightarrow> string \<Rightarrow> object_info" where
  "info_of objs k = \<lparr>oi_key = k, oi_size = (case dget objs k of None \<Rightarrow> 0 | Some d \<Rightarrow> int (length d)), oi_etag = None,
     oi_content_type = None, oi_last_modified = None, oi_storage_class = None\<rparr>"

definition keys_under :: "string \<Rightarrow> string list \<Rightarrow> string list" where
  "keys_under pre ks = filter (starts_with pre) (sort ks)"

definition page_after :: "nat \<Rightarrow> string \<Rightarrow> string option \<Rightarrow> objects \<Rightarrow> (store_exc + object_info list \<times> string option) \<times> objects" where
  "page_after n pre token objs =
     (let rest = (case token of None \<Rightarrow> keys_under pre (dkeys objs) | Some t \<Rightarrow> dropWhile (\<lambda>k. k \<le> t) (keys_under pre (dkeys objs)));
          page = take n rest
      in (Inr (map (info_of objs) page, if n < length rest then Some (last page) else None), objs))"

definition service_ops :: "nat \<Rightarrow> objects s3_ops" where
  "service_ops n = \<lparr>s3_head = (\<lambda>k objs. (Inr (if dget objs k = None then None else Some (info_of objs k)), objs)),
     s3_get = (\<lambda>k objs. (Inr (dget objs k), objs)),
     s3_put = (\<lambda>k d ct objs. (Inr [], dset k d objs)),
     s3_put_new = (\<lambda>k d ct objs. if dget objs k \<noteq> None then (Inr False, objs) else (Inr True, dset k d objs)),
     s3_page = page_after n\<rparr>"

lemma service_simps [simp]:
  "s3_head (service_ops n) k objs = (Inr (if dget objs k = None then None else Some (info_of objs k)), objs)"
  "s3_get (service_ops n) k objs = (Inr (dget objs k), objs)"
  "s3_put (service_ops n) k d ct objs = (Inr [], dset k d objs)"
  "s3_put_new (service_ops n) k d ct objs = (if dget objs k \<noteq> None then (Inr False, objs) else (Inr True, dset k d objs))"
  "s3_page (service_ops n) = page_after n"
  by (simp_all add: service_ops_def)

subsection \<open>Pages\<close>

lemma each_info_append:
  "each_info f (xs @ ys) acc s = (case each_info f xs acc s of (Inl e, s') \<Rightarrow> (Inl e, s') | (Inr a, s') \<Rightarrow> each_info f ys a s')"
  by (induction xs arbitrary: acc s) (auto split: prod.split sum.split)

lemma each_info_state:
  assumes "\<And>i acc. snd (f i acc s) = s"
  shows "snd (each_info f is acc s) = s"
proof (induction "is" arbitrary: acc)
  case (Cons i "is")
  obtain r where "f i acc s = (r, s)" using assms [of i acc] by (metis prod.collapse)
  with Cons show ?case by (auto split: sum.split)
qed simp

lemma dropWhile_done:
  assumes "sorted_wrt (<) (xs @ ys)" "xs \<noteq> []"
  shows "dropWhile (\<lambda>k. k \<le> last xs) (xs @ ys) = (ys :: 'a :: linorder list)"
proof -
  have "sorted xs" using assms(1) by (simp add: sorted_wrt_append strict_sorted_iff)
  then have "\<forall>k \<in> set xs. k \<le> last xs" using assms(2) by (induction xs) auto
  moreover have "\<forall>k \<in> set ys. last xs < k" using assms by (simp add: sorted_wrt_append)
  ultimately show ?thesis by (cases ys) (auto simp: dropWhile_append3)
qed

lemma keys_strict: "distinct ks \<Longrightarrow> sorted_wrt (<) (keys_under pre ks)"
  by (simp add: keys_under_def strict_sorted_iff sorted_wrt_filter)

text \<open>Following the pages gives every object under the prefix once, in the order of the keys, and ends.\<close>
lemma list_each_service:
  assumes "0 < n" "distinct (dkeys objs)" "\<And>i acc. snd (f i acc objs) = objs"
    and "keys_under pre (dkeys objs) = front @ rest" "token = (if front = [] then None else Some (last front))"
  shows "list_each (page_after n pre) f token acc objs = Some (each_info f (map (info_of objs) rest) acc objs)"
  using assms(4,5)
proof (induction "length rest" arbitrary: rest front token acc rule: less_induct)
  case less
  have strict: "sorted_wrt (<) (front @ rest)" using keys_strict [OF assms(2), of pre] less.prems(1) by simp
  have "(case token of None \<Rightarrow> keys_under pre (dkeys objs) | Some t \<Rightarrow> dropWhile (\<lambda>k. k \<le> t) (keys_under pre (dkeys objs))) = rest"
    using dropWhile_done [OF strict] less.prems by (cases "front = []") auto
  then have page: "page_after n pre token objs
      = (Inr (map (info_of objs) (take n rest), if n < length rest then Some (last (take n rest)) else None), objs)"
    by (simp add: page_after_def Let_def)
  obtain r where r: "each_info f (map (info_of objs) (take n rest)) acc objs = (r, objs)"
    using each_info_state [of f objs] assms(3) by (metis prod.collapse)
  have all: "each_info f (map (info_of objs) rest) acc objs = (case r of Inl e \<Rightarrow> (Inl e, objs)
      | Inr a \<Rightarrow> each_info f (map (info_of objs) (drop n rest)) a objs)"
    using each_info_append [of f "map (info_of objs) (take n rest)" "map (info_of objs) (drop n rest)" acc objs]
    by (simp add: r flip: map_append)
  show ?case
  proof (cases r)
    case (Inl e)
    then show ?thesis by (subst list_each.simps) (simp add: page r all)
  next
    case (Inr a)
    show ?thesis
    proof (cases "n < length rest")
      case False
      then show ?thesis by (subst list_each.simps) (simp add: page r all Inr)
    next
      case True
      have "take n rest \<noteq> []" using True assms(1) by auto
      moreover have "keys_under pre (dkeys objs) = (front @ take n rest) @ drop n rest" using less.prems(1) by simp
      ultimately have "list_each (page_after n pre) f (Some (last (take n rest))) a objs
          = Some (each_info f (map (info_of objs) (drop n rest)) a objs)"
        using True assms(1) by (intro less.hyps [where front = "front @ take n rest"]) auto
      then show ?thesis using True by (subst list_each.simps) (simp add: page r all Inr)
    qed
  qed
qed

lemma list_service:
  assumes "0 < n" "distinct (dkeys objs)" "\<And>i acc. snd (f i acc objs) = objs"
  shows "list_each (page_after n pre) f None acc objs = Some (each_info f (map (info_of objs) (keys_under pre (dkeys objs))) acc objs)"
  by (rule list_each_service [where front = "[]"]) (use assms in simp_all)

subsection \<open>The log in the service\<close>

text \<open>A capture of the log: instants are whole seconds of years that \<open>strftime\<close> writes with four digits.\<close>
definition s3_ready :: "capture_entry \<Rightarrow> bool" where
  "s3_ready e \<longleftrightarrow> CHR ''/'' \<notin> set (ce_target_id e) \<and> ce_scheduled_for e mod 1000000 = 0
     \<and> 1000 \<le> year_of (date_of (utc_clock (ce_scheduled_for e))) \<and> year_of (date_of (utc_clock (ce_scheduled_for e))) \<le> 9999"

definition log_ready :: "capture_log \<Rightarrow> bool" where
  "log_ready l \<longleftrightarrow> distinct (dkeys (lg_entries l))
     \<and> list_all (\<lambda>(k, e). ce_key e = k \<and> s3_ready e \<and> ce_capture_id e = capture_id (ce_target_id e) (ce_scheduled_for e) (ce_attempt e)) (lg_entries l)"

text \<open>Under \<open>captures/\<close> the service holds the entries of the log, and nothing else; the codec reads what it wrote.\<close>
definition holds_log :: "codec \<Rightarrow> objects \<Rightarrow> capture_log \<Rightarrow> bool" where
  "holds_log cd objs l \<longleftrightarrow> distinct (dkeys objs)
     \<and> (\<forall>k. starts_with ''captures/'' k \<longrightarrow> dget objs k = map_option (cd_dump cd) (dget (lg_entries l) k))"

definition codec_ok :: "codec \<Rightarrow> capture_log \<Rightarrow> bool" where
  "codec_ok cd l \<longleftrightarrow> list_all (\<lambda>(_, e). cd_load cd (cd_dump cd e) = Inr e) (lg_entries l)"

lemma ready_entry:
  assumes "log_ready l" "dget (lg_entries l) k = Some e"
  shows "ce_key e = k" "s3_ready e" "ce_capture_id e = capture_id (ce_target_id e) (ce_scheduled_for e) (ce_attempt e)"
  using assms map_of_SomeD [OF assms(2)] by (auto simp: log_ready_def list_all_iff)

lemma ready_instant: "s3_ready e \<Longrightarrow> key_instant (ce_key e) = Some (ce_scheduled_for e, int (ce_attempt e))"
  using key_instant_entry_key [of "ce_scheduled_for e"] by (simp add: s3_ready_def ce_key_def)

lemma captures_prefix: "starts_with (''captures/'' @ p) k \<Longrightarrow> starts_with ''captures/'' k"
  by (auto simp: starts_with_append)

lemma entry_captures: "starts_with ''captures/'' (ce_key e)"
  by (simp add: starts_with_append ce_key_def entry_key_def Let_def)

text \<open>The entries of the log whose keys have a prefix, in the order of their keys.\<close>
definition entries_under :: "string \<Rightarrow> capture_log \<Rightarrow> capture_entry list" where
  "entries_under pre l = map (\<lambda>k. the (dget (lg_entries l) k)) (keys_under pre (dkeys (lg_entries l)))"

lemma keys_under_log:
  assumes "holds_log cd objs l" "log_ready l"
  shows "keys_under (''captures/'' @ p) (dkeys objs) = keys_under (''captures/'' @ p) (dkeys (lg_entries l))"
proof -
  let ?pre = "''captures/'' @ p"
  have d: "distinct (dkeys objs)" "distinct (dkeys (lg_entries l))" using assms by (auto simp: holds_log_def log_ready_def)
  have "k \<in> set (dkeys objs) \<longleftrightarrow> k \<in> set (dkeys (lg_entries l))" if "starts_with ?pre k" for k
  proof -
    have "dget objs k = map_option (cd_dump cd) (dget (lg_entries l) k)"
      using assms(1) captures_prefix [OF that] by (simp add: holds_log_def)
    then show ?thesis by (metis dom_map_of_conv_image_fst domIff list.set_map map_option_is_None)
  qed
  then have "set (keys_under ?pre (dkeys objs)) = set (keys_under ?pre (dkeys (lg_entries l)))" unfolding keys_under_def by auto
  with d show ?thesis by (metis strict_sorted_equal keys_strict)
qed

lemma under_entry:
  assumes "log_ready l" "k \<in> set (keys_under pre (dkeys (lg_entries l)))"
  shows "\<exists>e. dget (lg_entries l) k = Some e \<and> ce_key e = k \<and> s3_ready e \<and> starts_with pre k"
proof -
  have "k \<in> set (dkeys (lg_entries l))" and s: "starts_with pre k" using assms(2) by (auto simp: keys_under_def)
  then obtain e where "dget (lg_entries l) k = Some e"
    by (metis dom_map_of_conv_image_fst domIff list.set_map option.exhaust)
  with s ready_entry [OF assms(1)] show ?thesis by blast
qed

lemma read_service:
  assumes "holds_log cd objs l" "codec_ok cd l" "dget (lg_entries l) k = Some e" "ce_key e = k"
  shows "s3_read (service_ops n) cd k objs = (Inr (Some e), objs)"
proof -
  have "dget objs k = Some (cd_dump cd e)" using assms entry_captures [of e] by (simp add: holds_log_def)
  moreover have "cd_load cd (cd_dump cd e) = Inr e"
    using assms(2) map_of_SomeD [OF assms(3)] by (auto simp: codec_ok_def list_all_iff)
  ultimately show ?thesis by (simp add: s3_read_def)
qed

lemma keep_entries:
  assumes "holds_log cd objs l" "codec_ok cd l"
    and "\<And>k. k \<in> set ks \<Longrightarrow> \<exists>e. dget (lg_entries l) k = Some e \<and> ce_key e = k \<and> s3_ready e"
  shows "each_info (keep_entry (service_ops n) cd wanted) (map (info_of objs) ks) acc objs
    = (Inr (acc @ filter (\<lambda>e. wanted (ce_scheduled_for e)) (map (\<lambda>k. the (dget (lg_entries l) k)) ks)), objs)"
  using assms(3)
proof (induction ks arbitrary: acc)
  case (Cons k ks)
  obtain e where e: "dget (lg_entries l) k = Some e" "ce_key e = k" "s3_ready e" using Cons.prems [of k] by auto
  have "key_instant k = Some (ce_scheduled_for e, int (ce_attempt e))" using ready_instant [OF e(3)] e(2) by simp
  then have "keep_entry (service_ops n) cd wanted (info_of objs k) acc objs
      = (Inr (if wanted (ce_scheduled_for e) then acc @ [e] else acc), objs)"
    using read_service [OF assms(1,2) e(1,2)] by (simp add: keep_entry_def info_of_def)
  with Cons e(1) show ?case by simp
qed simp

lemma keep_entry_state: "snd (keep_entry (service_ops n) cd wanted i acc objs) = objs"
  by (auto simp: keep_entry_def s3_read_def then_do_def bindR_def split: option.splits sum.splits prod.splits)

text \<open>A listing under a prefix of \<open>captures/\<close>: the wanted entries of the log with that prefix.\<close>
lemma s3_entries_service:
  assumes "holds_log cd objs l" "log_ready l" "codec_ok cd l" "0 < n"
  shows "s3_entries (service_ops n) cd (''captures/'' @ p) wanted objs
    = Some (Inr (ordered (filter (\<lambda>e. wanted (ce_scheduled_for e)) (entries_under (''captures/'' @ p) l))), objs)"
proof -
  let ?ks = "keys_under (''captures/'' @ p) (dkeys (lg_entries l))"
  have "distinct (dkeys objs)" using assms(1) by (simp add: holds_log_def)
  then have "list_each (page_after n (''captures/'' @ p)) (keep_entry (service_ops n) cd wanted) None [] objs
      = Some (each_info (keep_entry (service_ops n) cd wanted) (map (info_of objs) ?ks) [] objs)"
    using list_service [OF assms(4), of objs "keep_entry (service_ops n) cd wanted"] keep_entry_state keys_under_log [OF assms(1,2)]
    by metis
  also have "each_info (keep_entry (service_ops n) cd wanted) (map (info_of objs) ?ks) [] objs
      = (Inr ([] @ filter (\<lambda>e. wanted (ce_scheduled_for e)) (map (\<lambda>k. the (dget (lg_entries l) k)) ?ks)), objs)"
    using under_entry [OF assms(2)] by (intro keep_entries [OF assms(1,3)]) blast
  finally show ?thesis by (simp add: s3_entries_def entries_under_def)
qed

subsection \<open>The same lists\<close>

lemma entries_under_iff:
  assumes "log_ready l"
  shows "e \<in> set (entries_under pre l) \<longleftrightarrow> dget (lg_entries l) (ce_key e) = Some e \<and> starts_with pre (ce_key e)"
proof
  assume "e \<in> set (entries_under pre l)"
  then obtain k where k: "k \<in> set (keys_under pre (dkeys (lg_entries l)))" "e = the (dget (lg_entries l) k)"
    by (auto simp: entries_under_def)
  with under_entry [OF assms k(1)] show "dget (lg_entries l) (ce_key e) = Some e \<and> starts_with pre (ce_key e)" by auto
next
  assume e: "dget (lg_entries l) (ce_key e) = Some e \<and> starts_with pre (ce_key e)"
  then have "ce_key e \<in> set (dkeys (lg_entries l))" by (metis dom_map_of_conv_image_fst domI list.set_map)
  with e have "ce_key e \<in> set (keys_under pre (dkeys (lg_entries l)))" by (simp add: keys_under_def)
  with e show "e \<in> set (entries_under pre l)" by (force simp: entries_under_def)
qed

lemma entries_under_distinct: "log_ready l \<Longrightarrow> distinct (entries_under pre l)"
proof -
  assume l: "log_ready l"
  then have "distinct (keys_under pre (dkeys (lg_entries l)))" by (simp add: log_ready_def keys_under_def)
  moreover have "inj_on (\<lambda>k. the (dget (lg_entries l) k)) (set (keys_under pre (dkeys (lg_entries l))))"
    using under_entry [OF l] by (intro inj_onI) (metis option.sel)
  ultimately show ?thesis by (simp add: entries_under_def distinct_map)
qed

lemma values_distinct: "log_ready l \<Longrightarrow> distinct (dvalues (lg_entries l))"
proof -
  assume l: "log_ready l"
  then have "map ce_key (dvalues (lg_entries l)) = dkeys (lg_entries l)" by (auto simp: log_ready_def list_all_iff)
  then show ?thesis using l by (metis distinct_map log_ready_def)
qed

lemma values_iff: "log_ready l \<Longrightarrow> e \<in> set (dvalues (lg_entries l)) \<longleftrightarrow> dget (lg_entries l) (ce_key e) = Some e"
  using dvalues_iff [of "lg_entries l" e] ready_entry(1) by (metis log_ready_def)

lemma ordered_unique:
  assumes "mset xs = mset ys" "inj_on (\<lambda>e. (ce_scheduled_for e, ce_attempt e)) (set xs)"
  shows "ordered xs = ordered ys"
  unfolding ordered_def using assms by (intro sort_key_inj_key_eq) simp_all

text \<open>Entries of one target are told apart by their instant and attempt.\<close>
lemma instants_apart:
  assumes "log_ready l" "\<And>e. e \<in> set xs \<Longrightarrow> dget (lg_entries l) (ce_key e) = Some e \<and> ce_target_id e = target"
  shows "inj_on (\<lambda>e. (ce_scheduled_for e, ce_attempt e)) (set xs)"
proof (rule inj_onI)
  fix x y
  assume "x \<in> set xs" "y \<in> set xs" "(ce_scheduled_for x, ce_attempt x) = (ce_scheduled_for y, ce_attempt y)"
  moreover from this have "ce_key x = ce_key y" using assms(2) by (simp add: ce_key_def)
  ultimately show "x = y" using assms(2) by (metis option.inject)
qed

lemma ordered_under:
  assumes "log_ready l" "\<And>e. dget (lg_entries l) (ce_key e) = Some e \<Longrightarrow> starts_with pre (ce_key e) \<and> P e \<longleftrightarrow> ce_target_id e = target \<and> Q e"
  shows "ordered (filter P (entries_under pre l)) = ordered (filter (\<lambda>e. ce_target_id e = target \<and> Q e) (dvalues (lg_entries l)))"
proof (rule ordered_unique)
  let ?xs = "filter P (entries_under pre l)" and ?ys = "filter (\<lambda>e. ce_target_id e = target \<and> Q e) (dvalues (lg_entries l))"
  have "set ?xs = set ?ys" using assms(2) entries_under_iff [OF assms(1)] values_iff [OF assms(1)] unfolding set_filter by blast
  then show "mset ?xs = mset ?ys"
    using entries_under_distinct [OF assms(1)] values_distinct [OF assms(1)]
    by (intro set_eq_iff_mset_eq_distinct [THEN iffD1] distinct_filter)
  show "inj_on (\<lambda>e. (ce_scheduled_for e, ce_attempt e)) (set ?xs)"
    using assms(2) by (intro instants_apart [OF assms(1), where target = target]) (auto simp: entries_under_iff [OF assms(1)])
qed

lemma stamp_prefix_key: "entry_key target t n = stamp_prefix target t @ str_nat n @ ''.json''"
proof -
  let ?dir = "''captures/'' @ target @ ''/'' @ pad4 (year_of (date_of (utc_clock t))) @ ''/'' @ pad2 (month_of (date_of (utc_clock t)))
     @ ''/'' @ pad2 (day_of (date_of (utc_clock t)))"
  have "split_last (CHR ''_'') ((?dir @ CHR ''/'' # stamp t) @ CHR ''_'' # str_nat 1 @ ''.json'') = Some (?dir @ CHR ''/'' # stamp t, str_nat 1 @ ''.json'')"
    using str_nat_plain by (intro split_last_append) simp
  then have "stamp_prefix target t = ?dir @ CHR ''/'' # stamp t @ ''_''"
    by (simp add: stamp_prefix_def entry_key_parts)
  then show ?thesis by (simp add: entry_key_parts)
qed

lemma stamp_prefix_form:
  "stamp_prefix target t = (''captures/'' @ target @ ''/'') @ (pad4 (year_of (date_of (utc_clock t))) @ ''/'' @ pad2 (month_of (date_of (utc_clock t)))
     @ ''/'' @ pad2 (day_of (date_of (utc_clock t))) @ ''/'') @ stamp t @ ''_''"
proof -
  have "stamp_prefix target t @ str_nat 1 @ ''.json'' = ((''captures/'' @ target @ ''/'') @ (pad4 (year_of (date_of (utc_clock t))) @ ''/''
     @ pad2 (month_of (date_of (utc_clock t))) @ ''/'' @ pad2 (day_of (date_of (utc_clock t))) @ ''/'') @ stamp t @ ''_'') @ str_nat 1 @ ''.json''"
    using stamp_prefix_key [of target t 1] by (simp add: entry_key_parts)
  then show ?thesis by (simp only: append_same_eq)
qed

lemma stamp_length: "length (stamp t) = 18"
  by (simp add: stamp_def Let_def pad4_def pad2_def)

lemma stamp_prefix_iff:
  assumes "CHR ''/'' \<notin> set target" "s3_ready e" "t mod 1000000 = 0"
    "1000 \<le> year_of (date_of (utc_clock t))" "year_of (date_of (utc_clock t)) \<le> 9999"
  shows "starts_with (stamp_prefix target t) (ce_key e) \<longleftrightarrow> ce_target_id e = target \<and> ce_scheduled_for e = t"
proof
  assume a: "starts_with (stamp_prefix target t) (ce_key e)"
  then have "starts_with (''captures/'' @ target @ ''/'') (ce_key e)" unfolding stamp_prefix_form starts_with_append by auto
  then have target: "ce_target_id e = target"
    using key_prefix [OF assms(1)] assms(2) by (simp add: s3_ready_def ce_key_def)
  obtain u where "stamp_prefix target (ce_scheduled_for e) @ str_nat (ce_attempt e) @ ''.json'' = stamp_prefix target t @ u"
    using a by (auto simp: starts_with_append ce_key_def stamp_prefix_key target)
  then have "stamp (ce_scheduled_for e) = stamp t"
    unfolding stamp_prefix_form by (simp add: pad4_def pad2_def append_eq_append_conv stamp_length)
  then have "parse_stamp (stamp (ce_scheduled_for e)) = parse_stamp (stamp t)" by simp
  then show "ce_target_id e = target \<and> ce_scheduled_for e = t"
    using assms(2-5) target by (simp add: s3_ready_def parse_stamp_stamp)
next
  assume "ce_target_id e = target \<and> ce_scheduled_for e = t"
  then show "starts_with (stamp_prefix target t) (ce_key e)" by (auto simp: ce_key_def stamp_prefix_key starts_with_append)
qed

text \<open>C38. The capture log on an object store lists what the memory log lists: whatever the size of its pages, following them
  ends, and the entries that are read off the keys of the listing are those of the window, and of the run, in the same
  order.\<close>
theorem s3_log_agrees:
  assumes "log_ready l" "holds_log cd objs l" "codec_ok cd l" "0 < n" "CHR ''/'' \<notin> set target"
    and "scheduled mod 1000000 = 0" "1000 \<le> year_of (date_of (utc_clock scheduled))" "year_of (date_of (utc_clock scheduled)) \<le> 9999"
  shows "s3_log_list (service_ops n) cd target since until objs = Some (Inr (log_list l target since until), objs)
    \<and> s3_entries_for (service_ops n) cd target scheduled objs = Some (Inr (entries_for l target scheduled), objs)"
proof
  have "starts_with (''captures/'' @ target @ ''/'') (ce_key e) \<and> within (ce_scheduled_for e) since until
      \<longleftrightarrow> ce_target_id e = target \<and> entry_in_window e since until" if "dget (lg_entries l) (ce_key e) = Some e" for e
    using ready_entry(2) [OF assms(1) that] key_prefix [OF assms(5)]
    by (simp add: s3_ready_def ce_key_def within_def entry_in_window_def)
  then show "s3_log_list (service_ops n) cd target since until objs = Some (Inr (log_list l target since until), objs)"
    using s3_entries_service [OF assms(2,1,3,4)] ordered_under [OF assms(1)] by (simp add: s3_log_list_def log_list_def)
  obtain p where p: "stamp_prefix target scheduled = ''captures/'' @ p" by (simp add: stamp_prefix_form)
  have "starts_with (stamp_prefix target scheduled) (ce_key e) \<and> True \<longleftrightarrow> ce_target_id e = target \<and> ce_scheduled_for e = scheduled"
    if "dget (lg_entries l) (ce_key e) = Some e" for e
    using stamp_prefix_iff [OF assms(5) ready_entry(2) [OF assms(1) that] assms(6-8)] by simp
  then show "s3_entries_for (service_ops n) cd target scheduled objs = Some (Inr (entries_for l target scheduled), objs)"
    using s3_entries_service [OF assms(2,1,3,4), of p "\<lambda>_. True"]
      ordered_under [OF assms(1), of "stamp_prefix target scheduled" "\<lambda>_. True" target "\<lambda>e. ce_scheduled_for e = scheduled"]
    by (simp add: s3_entries_for_def entries_for_def p)
qed

definition demo_log :: capture_log where
  "demo_log = \<lparr>lg_entries = [(ce_key demo_entry, demo_entry)], lg_invalidations = []\<rparr>"

definition demo_codec :: codec where
  "demo_codec = \<lparr>cd_dump = (\<lambda>_. [1]), cd_load = (\<lambda>_. Inr demo_entry), cd_dump_invalidation = (\<lambda>_. []),
     cd_load_invalidation = (\<lambda>_. Inl (Store_raised ''JSONDecodeError''))\<rparr>"

definition demo_objects :: objects where
  "demo_objects = [(ce_key demo_entry, [1]), (blob_key ''a1'', [1])]"

lemma demo_entry_fields: "ce_target_id demo_entry = ''ote_idm''" "ce_scheduled_for demo_entry = 0" "ce_attempt demo_entry = 1"
    "ce_capture_id demo_entry = capture_id ''ote_idm'' 0 1"
  by (simp_all add: demo_entry_def demo_request_def)

lemma epoch_year: "year_of (date_of (utc_clock 0)) = 1970"
  by code_simp

lemma demo_log_ready: "log_ready demo_log" "codec_ok demo_codec demo_log"
  by (simp_all add: log_ready_def demo_log_def s3_ready_def demo_entry_fields epoch_year codec_ok_def demo_codec_def)

lemma demo_holds: "holds_log demo_codec demo_objects demo_log"
proof -
  have "\<not> starts_with ''captures/'' (blob_key ''a1'')" by code_simp
  moreover have "blob_key ''a1'' \<noteq> ce_key demo_entry" by (simp add: blob_key_def ce_key_def entry_key_def Let_def)
  ultimately show ?thesis by (auto simp: holds_log_def demo_objects_def demo_log_def demo_codec_def)
qed

theorem s3_log_agrees_witness:
  "s3_log_list (service_ops 1) demo_codec ''ote_idm'' None (Some 1) demo_objects = Some (Inr (log_list demo_log ''ote_idm'' None (Some 1)), demo_objects)
   \<and> s3_entries_for (service_ops 1) demo_codec ''ote_idm'' 0 demo_objects = Some (Inr (entries_for demo_log ''ote_idm'' 0), demo_objects)"
  using s3_log_agrees [OF demo_log_ready(1) demo_holds demo_log_ready(2), of 1 "''ote_idm''" 0 None "Some 1"] by (simp add: epoch_year)

subsection \<open>Creating and overwriting\<close>

lemma holds_put:
  assumes "holds_log cd objs l"
  shows "holds_log cd (dset (ce_key e) (cd_dump cd e) objs) (log_put e l)"
  using assms by (auto simp: holds_log_def log_put_def)

text \<open>\<open>put_new\<close> answers and leaves what the memory log's does; the read-back finds the entry that was written.\<close>
theorem s3_put_new_agrees:
  assumes "holds_log cd objs l" "cd_load cd (cd_dump cd e) = Inr e"
  shows "fst (s3_log_put_new (service_ops n) cd e objs) = Inr (fst (log_put_new e l))
    \<and> holds_log cd (snd (s3_log_put_new (service_ops n) cd e objs)) (snd (log_put_new e l))"
proof -
  have "dget objs (ce_key e) = map_option (cd_dump cd) (dget (lg_entries l) (ce_key e))"
    using assms(1) entry_captures [of e] by (simp add: holds_log_def)
  then show ?thesis using assms holds_put [OF assms(1), of e]
    by (auto simp: s3_log_put_new_def log_put_new_def s3_read_def same_capture_def)
qed

theorem s3_put_agrees:
  assumes "holds_log cd objs l"
  shows "fst (s3_log_put (service_ops n) cd e objs) = Inr () \<and> holds_log cd (snd (s3_log_put (service_ops n) cd e objs)) (log_put e l)"
  using holds_put [OF assms] by (simp add: s3_log_put_def)

lemma holds_other:
  assumes "holds_log cd objs l" "\<not> starts_with ''captures/'' k"
  shows "holds_log cd (dset k d objs) l"
  using assms by (auto simp: holds_log_def)

subsection \<open>The newest entry\<close>

lemma max_instant_is:
  assumes "xs \<noteq> []"
  shows "\<exists>m \<in> set xs. max_instant xs = Some m \<and> (\<forall>y \<in> set xs. snd y \<le> snd m)"
proof -
  have "\<exists>m \<in> set (x # ys). foldl (\<lambda>b y. if snd b < snd y then y else b) x ys = m \<and> (\<forall>y \<in> set (x # ys). snd y \<le> snd m)"
    for x :: "string \<times> instant \<times> int" and ys
  proof (induction ys arbitrary: x)
    case (Cons y ys)
    let ?b = "if snd x < snd y then y else x"
    obtain m where "m \<in> set (?b # ys)" "foldl (\<lambda>b y. if snd b < snd y then y else b) ?b ys = m" "\<forall>z \<in> set (?b # ys). snd z \<le> snd m"
      using Cons.IH [of ?b] by blast
    moreover have "snd x \<le> snd ?b" "snd y \<le> snd ?b" by auto
    ultimately have "m \<in> set (x # y # ys)" "\<forall>z \<in> set (x # y # ys). snd z \<le> snd m" by (auto split: if_splits)
    with \<open>foldl _ ?b ys = m\<close> show ?case by auto
  qed simp
  with assms show ?thesis by (cases xs) auto
qed

lemma ordered_set [simp]: "set (ordered xs) = set xs" "ordered xs = [] \<longleftrightarrow> xs = []"
  by (simp add: ordered_def) (metis ordered_def set_empty set_sort)

lemma last_ordered: "x \<in> set xs \<Longrightarrow> (ce_scheduled_for x, ce_attempt x) \<le> (ce_scheduled_for (last (ordered xs)), ce_attempt (last (ordered xs)))"
proof -
  assume x: "x \<in> set xs"
  let ?f = "\<lambda>e. (ce_scheduled_for e, ce_attempt e)" and ?s = "ordered xs"
  have s: "sorted (map ?f ?s)" "x \<in> set ?s" using x by (simp add: ordered_def, simp)
  then have "?s \<noteq> []" by auto
  have "?f x \<in> set (map ?f ?s)" using s(2) by auto
  moreover have "y \<in> set ys \<Longrightarrow> sorted ys \<Longrightarrow> y \<le> last ys" for y :: "instant \<times> nat" and ys
    by (induction ys rule: rev_induct) (auto simp: sorted_append)
  ultimately have "?f x \<le> last (map ?f ?s)" using s(1) by blast
  then show ?thesis using \<open>?s \<noteq> []\<close> by (simp add: last_map)
qed

text \<open>The newest entry is found from the listing alone, and only it is fetched.\<close>
theorem s3_latest_agrees:
  assumes "log_ready l" "holds_log cd objs l" "codec_ok cd l" "0 < n" "CHR ''/'' \<notin> set target"
  shows "s3_latest (service_ops n) cd target objs = Some (Inr (log_latest l target), objs)"
proof -
  let ?pre = "''captures/'' @ target @ ''/''"
  let ?f = "\<lambda>info acc (s :: objects). (Inr (case key_instant (oi_key info) of None \<Rightarrow> acc | Some i \<Rightarrow> acc @ [(oi_key info, i)]), s)"
  let ?es = "entries_under ?pre l"
  let ?row = "\<lambda>e. (ce_key e, ce_scheduled_for e, int (ce_attempt e))"
  let ?ks = "keys_under ?pre (dkeys (lg_entries l))"
  have "each_info ?f (map (info_of objs) ks) acc objs = (Inr (acc @ map (\<lambda>k. ?row (the (dget (lg_entries l) k))) ks) :: store_exc + _, objs)"
    if "\<And>k. k \<in> set ks \<Longrightarrow> \<exists>e. dget (lg_entries l) k = Some e \<and> ce_key e = k \<and> s3_ready e" for ks acc
    using that
  proof (induction ks arbitrary: acc)
    case (Cons k ks)
    obtain e where e: "dget (lg_entries l) k = Some e" "ce_key e = k" "s3_ready e" using Cons.prems [of k] by auto
    with ready_instant [OF e(3)] Cons show ?case by (simp add: info_of_def)
  qed simp
  from this [of ?ks "[]"] have "each_info ?f (map (info_of objs) ?ks) [] objs = (Inr (map ?row ?es) :: store_exc + _, objs)"
    using under_entry [OF assms(1), of _ ?pre] by (simp add: entries_under_def comp_def) blast
  then have found: "list_each (page_after n ?pre) ?f None [] objs = Some (Inr (map ?row ?es), objs)"
    using list_service [OF assms(4), of objs ?f] keys_under_log [OF assms(2,1)] assms(2) by (simp add: holds_log_def)
  have "starts_with ?pre (ce_key e) \<and> True \<longleftrightarrow> ce_target_id e = target \<and> entry_in_window e None None"
    if "dget (lg_entries l) (ce_key e) = Some e" for e
    using ready_entry(2) [OF assms(1) that] key_prefix [OF assms(5)] by (simp add: s3_ready_def ce_key_def entry_in_window_def)
  then have same: "ordered ?es = log_list l target None None"
    using ordered_under [OF assms(1), of ?pre "\<lambda>_. True"] by (simp add: log_list_def)
  show ?thesis
  proof (cases "?es = []")
    case True
    with found same show ?thesis by (simp add: s3_latest_def log_latest_def ordered_def flip: same)
  next
    case False
    define z where "z = last (ordered ?es)"
    have "z \<in> set ?es" using False last_in_set [of "ordered ?es"] unfolding z_def ordered_set by blast
    then have z: "dget (lg_entries l) (ce_key z) = Some z" by (simp add: entries_under_iff [OF assms(1)])
    obtain e where e: "e \<in> set ?es" "max_instant (map ?row ?es) = Some (?row e)" "\<forall>y \<in> set ?es. snd (?row y) \<le> snd (?row e)"
      using max_instant_is [of "map ?row ?es"] False by auto
    have "snd (?row z) \<le> snd (?row e)" using e(3) \<open>z \<in> set ?es\<close> by blast
    moreover have "(ce_scheduled_for e, ce_attempt e) \<le> (ce_scheduled_for z, ce_attempt z)"
      using last_ordered [OF e(1)] by (simp add: z_def)
    ultimately have "ce_scheduled_for e = ce_scheduled_for z" "ce_attempt e = ce_attempt z" by auto
    moreover have "ce_target_id e = target" "ce_target_id z = target"
      using e(1) \<open>z \<in> set ?es\<close> key_prefix [OF assms(5)] ready_entry(2) [OF assms(1)]
      by (auto simp: entries_under_iff [OF assms(1)] s3_ready_def ce_key_def)
    ultimately have "ce_key e = ce_key z" by (simp add: ce_key_def)
    then show ?thesis
      using found e(2) read_service [OF assms(2,3) z] False same
      by (simp add: s3_latest_def log_latest_def last_opt_def z_def flip: same)
  qed
qed

subsection \<open>One entry\<close>

lemma entry_key_int_nat: "entry_key_int target t (int n) = entry_key target t n"
  by (simp add: entry_key_int_def entry_key_def Let_def str_int_def)

lemma stamp_no_colon: "CHR '':'' \<notin> set (stamp t)" "CHR '':'' \<notin> set (str_nat n)"
proof -
  have "digit_char d \<noteq> CHR '':''" "CHR '':'' \<noteq> digit_char d" for d
  proof -
    have "\<not> is_digit (CHR '':'')" by (simp add: is_digit_def)
    then show "digit_char d \<noteq> CHR '':''" "CHR '':'' \<noteq> digit_char d" using digit_char_val(2) [of d] by metis+
  qed
  then show "CHR '':'' \<notin> set (stamp t)" by (simp add: stamp_def Let_def pad4_def pad2_def)
  show "CHR '':'' \<notin> set (str_nat n)" using str_nat_digits(1) [of n] by (auto simp: list_all_iff is_digit_def)
qed

lemma rsplit_capture_id: "rsplit3 (capture_id target t n) = Some (target, stamp t, str_nat n)"
proof -
  have "split_last (CHR '':'') ((target @ CHR '':'' # stamp t) @ CHR '':'' # str_nat n) = Some (target @ CHR '':'' # stamp t, str_nat n)"
    "split_last (CHR '':'') (target @ CHR '':'' # stamp t) = Some (target, stamp t)"
    using stamp_no_colon by (intro split_last_append; simp)+
  then show ?thesis by (simp add: rsplit3_def capture_id_def)
qed

text \<open>The id of an entry finds it in both logs.\<close>
theorem s3_get_agrees:
  assumes "log_ready l" "holds_log cd objs l" "codec_ok cd l" "e \<in> set (dvalues (lg_entries l))"
  shows "s3_log_get (service_ops n) cd (ce_capture_id e) objs = (Inr (Some e), objs) \<and> log_get l (ce_capture_id e) = Some e"
proof -
  have e: "dget (lg_entries l) (ce_key e) = Some e" using assms(1,4) values_iff by blast
  note r = ready_entry [OF assms(1) e]
  have p: "parse_stamp (stamp (ce_scheduled_for e)) = Some (ce_scheduled_for e)"
    using r(2) parse_stamp_stamp [of "ce_scheduled_for e"] by (simp add: s3_ready_def)
  then have "s3_log_get (service_ops n) cd (ce_capture_id e) objs = (Inr (Some e), objs)"
    using read_service [OF assms(2,3) e] by (simp add: s3_log_get_def r(3) rsplit_capture_id py_int_str_nat entry_key_int_nat flip: ce_key_def)
  moreover have "x = e" if "x \<in> set (dvalues (lg_entries l))" "ce_capture_id x = ce_capture_id e" for x
  proof -
    have x: "dget (lg_entries l) (ce_key x) = Some x" using assms(1) that(1) values_iff by blast
    note rx = ready_entry [OF assms(1) x]
    have px: "parse_stamp (stamp (ce_scheduled_for x)) = Some (ce_scheduled_for x)"
      using rx(2) parse_stamp_stamp [of "ce_scheduled_for x"] by (simp add: s3_ready_def)
    have "rsplit3 (ce_capture_id x) = rsplit3 (ce_capture_id e)" using that(2) by simp
    then have "ce_target_id x = ce_target_id e" "stamp (ce_scheduled_for x) = stamp (ce_scheduled_for e)"
        "str_nat (ce_attempt x) = str_nat (ce_attempt e)"
      by (simp_all add: r(3) rx(3) rsplit_capture_id)
    moreover from this(2) p px have "ce_scheduled_for x = ce_scheduled_for e" by simp
    moreover have "ce_attempt x = ce_attempt e" using calculation(3) nat_of_str_nat by metis
    ultimately have "ce_key x = ce_key e" by (simp add: ce_key_def)
    with e x show ?thesis by simp
  qed
  moreover have "find (\<lambda>x. ce_capture_id x = ce_capture_id e) xs = Some e"
    if "e \<in> set xs" "\<And>x. x \<in> set xs \<Longrightarrow> ce_capture_id x = ce_capture_id e \<Longrightarrow> x = e" for xs
    using that by (induction xs) auto
  ultimately show ?thesis using assms(4) unfolding log_get_def by blast
qed

subsection \<open>Blobs\<close>

text \<open>Over the service no verb raises: the blob store is the file store with keys for paths.\<close>
definition service_put :: "nat \<Rightarrow> (bytes \<Rightarrow> string) \<Rightarrow> bytes \<Rightarrow> objects \<Rightarrow> string \<times> objects" where
  "service_put n sha d objs = (case s3_blob_put (service_ops n) sha d objs of (Inl _, s) \<Rightarrow> ([], s) | (Inr a, s) \<Rightarrow> (a, s))"

definition service_get :: "nat \<Rightarrow> objects \<Rightarrow> string \<Rightarrow> bytes option" where
  "service_get n objs a = (case s3_blob_get (service_ops n) a objs of (Inl _, _) \<Rightarrow> None | (Inr r, _) \<Rightarrow> r)"

lemma service_blobs: "service_put n sha d objs = file_put sha d objs" "service_get n objs a = file_get objs a"
  by (simp_all add: service_put_def s3_blob_put_def file_put_def service_get_def s3_blob_get_def file_get_def Let_def)

interpretation s3_blobs: blob_store sha "service_put n sha" "service_get n" "file_addressed sha" for sha n
  by unfold_locales
    (use file_blobs.put_address file_blobs.put_addressed file_blobs.get_put file_blobs.get_kept file_blobs.get_address
      in \<open>simp_all add: service_blobs\<close>)

lemma s3_blob_exists_service: "s3_blob_exists (service_ops n) a objs = (Inr (file_exists objs a), objs)"
  by (simp add: s3_blob_exists_def file_exists_def)

text \<open>A blob does not touch the log.\<close>
lemma blob_keeps_log: "holds_log cd objs l \<Longrightarrow> holds_log cd (snd (service_put n sha d objs)) l"
  by (auto simp: service_blobs file_put_def Let_def blob_key_def starts_with_append intro!: holds_other)

end
