(* ===== verification/Spec2Isabelle.thy ===== *)
theory Spec2Isabelle
  imports Store_View Cron Process_Properties Plan_Properties Policy_Gate Pacing Manifest_Properties Pr_Surface
    Triage_Properties Bundle_Properties Mcp_Properties Mcp_Server Bronze_Config S3_Refine
begin

text \<open>
  A verification library of the energy platform (src/energy_platform): a program that fetches the
  publications of the Czech electricity market, keeps every payload in a content-addressed raw layer
  (Bronze), decodes, parses and maps the payloads to canonical observations, and commits them to an
  append-only store (Silver) under a fenced ledger of runs.

  \<^bold>\<open>Parts and how they interact.\<close> A target is a manifest (contracts/manifest.py). Its cron expression
  gives the instants of its runs. \<open>capture\<close> builds the request of a run from the manifest (fetch/plan.py),
  sends it under the egress policy (fetch/client.py, fetch/policy.py), writes the answer to Bronze and
  acknowledges it in the ledger; \<open>process\<close> claims captured runs, reads the payload back, decodes
  (parse/decode.py), parses (parse/generic.py) and maps it (mapping/engine.py) and commits the
  observations under the fence of its claim; \<open>reconcile\<close>, \<open>recapture\<close>, \<open>backfill\<close>, \<open>replay\<close>, the gap
  detector and freshness work on the same ledger.

  \<^bold>\<open>Where each part is.\<close>
  \<^item> Prelude: result type, dictionaries, generic lemmas. Pytext, Pytime, Pynet, Pyquery, Pyregex: what the
    sources use of the standard library (str, datetime and zoneinfo, ipaddress and urllib.parse, re).
  \<^item> Intervals, Registry, Decimals, Observation: contracts/intervals.py, registry.py, decimals.py,
    observation.py.
  \<^item> Manifest, Manifest_Check, Templates: contracts/manifest.py (data and admission; validation and
    credential scan), contracts/hosts.py, contracts/templates.py. Manifest_Properties: what validation
    promises to the fetch and to the gap detector.
  \<^item> Store_Types, Memory_Store: store/protocol.py, store/ordering.py, store/memory.py. Store_Invariant (the
    invariant), Store_Claim (leases), Store_Commit (refinement of an abstract set of versions),
    Store_Steps (step relation and reachability), Store_Properties and Store_View (claims, fences,
    append-only, the current view).
  \<^item> Cron: runtime/cron.py and runtime/schedule.py.
  \<^item> Bronze, Bronze_Capture: bronze/store.py, capture_log.py, bronze.py; other writers act between the
    steps of a capture. The blob store is a locale, interpreted on the memory, the file and the S3 store.
  \<^item> Object_Store, Object_Store_Properties: fetch/objectstore.py (signing, verbs, listing; where requests
    go). S3_Keys (with Calendar: dates read back), S3_Bronze: bronze/s3.py over the verbs as a parameter.
    S3_Refine: its agreement with the memory log over a service that lists in pages. Bronze_Config:
    bronze/config.py. Base64: what both the client and the bundles encode with.
  \<^item> Parse, Decode, Mapping, Mapping_Properties: contracts/parser.py, parse/*.py, mapping/*.py.
  \<^item> Programs: the effects a verb has (store calls that may find the store unavailable, Bronze calls, a
    fetch, reading the clock) as a small state-passing language. Runtime, Gaps, Process, Freshness: the
    verbs of runtime/*.py in it. Runtime_Safety, Capture_Properties, Process_Properties: what holds of
    them under any pattern of outages.
  \<^item> Policy, Fetcher, Fetch_Properties: fetch/policy.py and fetch/client.py. Plan, Plan_Properties:
    fetch/render.py, fetch/secrets.py, fetch/plan.py. Pacing: the token bucket and the retry delays.
    Policy_Gate: fetch/policy_gate.py.
  \<^item> Pr_Surface: harness/pr_surface.py. Goldens: contracts/golden.py and harness/goldens.py. Surface:
    harness/surface.py, with the nodes of a parser's syntax tree. Pr_Bundle: harness/pr.py and the loading of a
    fixture (bronze/fixtures.py). Bundle_Properties: what a prepared bundle guarantees.
  \<^item> Scaffold: harness/scaffold.py. Surface_Text: the texts of problems and harness/admission.py. Checkout: a
    checkout as files and directories, harness/fixtures.py. Mcp_Tools (guards, reads), Mcp_Session (the tools
    that change the state, harness/runner.py): mcp/tools.py. Mcp_Server: mcp/server.py. Mcp_Properties: what
    an agent can change through them.
  \<^item> Triage_Extract: triage/extract.py. Triage_Edit, Triage_Guard, Triage: triage/pipeline.py (text edits;
    comparison and guard; detection, answer and pipeline). Triage_Confined and Triage_Properties: what a
    proposal can change, whatever the language model answers. Pyjson: json.dumps and repr.

  \<^bold>\<open>Correspondence.\<close> A class is a record with the same fields under a prefix, a literal type a datatype, a
  dict an association list in insertion order, an exception a value: \<open>Inl\<close> of the error. Texts are lists
  of code points below 256. An instant is a number of microseconds since the epoch, a date its
  proleptic ordinal. Error texts keep their constant part.

  \<^bold>\<open>Parameters.\<close> Code outside the repository is an argument: SHA-256, the zone database, the network
  (resolver, transport, urljoin), the document libraries (lxml, openpyxl, json, csv), strftime, the link
  regex, symbolic links (Path.resolve), pytest, PyYAML, ast.parse, the UTF-8 codec, the language
  model, the secret backend, the clock, the pattern of
  store outages, HMAC and MD5, and how pydantic writes a capture entry and reads it back.

  \<^bold>\<open>Bounds.\<close> Loops of the sources are structural recursion or end by a measure. A fetch has a fixed number
  of hops and attempts. A Bronze capture tries \<open>MAX_ENTRY_COLLISIONS\<close> times, as the code does. The search
  for links is bounded by the length of the page, which it consumes. The policy gate has no bound in the
  source; it is a partial function, and that it ends is proved from the progress of the clock. The
  listing of an object store has none either; over a service whose pages advance it is proved to end. The
  outages of the store and the answers of the network are indexed by a tick that every effect advances.

  \<^bold>\<open>Not modelled.\<close> The PostgreSQL store and the migrations (their meaning is SQL; the memory store
  implements the same protocol), YAML loading, logging and sleeping, the command line, arguments of MCP tools that are not of their declared
  types, disk faults, and the drills against a cluster.
\<close>

end
